(* ===== verification/Prelude.thy ===== *)
theory Prelude
  imports Main "HOL-Library.Word"
begin

text \<open>
  Shared vocabulary of the development: the result and state-passing combinators the component
  models are written in, decimal strings, iteration over hash maps, and the small facts about
  them that the component proofs use.

  A Rust \<open>Result<T, E>\<close> is the sum \<open>E + T\<close>.  An operation that reads and writes a shared
  store is a function from the store to a result and the new store; \<open>bindE\<close> is the \<open>?\<close> operator:
  it stops at the first error and keeps the effects made so far.  Rust strings are UTF-8 byte
  sequences and are modelled as \<^typ>\<open>string\<close> (a list of bytes); every delimiter the code looks for is
  ASCII, so working on bytes and working on code points split a string at the same places.
\<close>

section \<open>Collections of facts\<close>

named_theorems effect_defs \<open>unfolding the state-passing combinators\<close>

named_theorems model_defs \<open>definitions of the operations of a component\<close>

section \<open>Machine integers and time\<close>

type_synonym u8 = "8 word"
type_synonym u32 = "32 word"
type_synonym u64 = "64 word"

text \<open>Points in time and durations, in the unit the code reads its clock in.\<close>

type_synonym time = nat

section \<open>Results that pass a state\<close>

type_synonym ('s, 'e, 'a) eff = "'s \<Rightarrow> ('e + 'a) \<times> 's"

definition ret :: "'a \<Rightarrow> ('s, 'e, 'a) eff" where
  "ret x s = (Inr x, s)"

definition fail :: "'e \<Rightarrow> ('s, 'e, 'a) eff" where
  "fail e s = (Inl e, s)"

definition bindE :: "('s, 'e, 'a) eff \<Rightarrow> ('a \<Rightarrow> ('s, 'e, 'b) eff) \<Rightarrow> ('s, 'e, 'b) eff" where
  "bindE m f s = (case m s of (Inl e, s') \<Rightarrow> (Inl e, s') | (Inr x, s') \<Rightarrow> f x s')"

definition mapErr :: "('e \<Rightarrow> 'f) \<Rightarrow> ('s, 'e, 'a) eff \<Rightarrow> ('s, 'f, 'a) eff" where
  "mapErr h m s = (case m s of (Inl e, s') \<Rightarrow> (Inl (h e), s') | (Inr x, s') \<Rightarrow> (Inr x, s'))"

definition liftE :: "'e + 'a \<Rightarrow> ('s, 'e, 'a) eff" where
  "liftE r s = (r, s)"

definition ok_or :: "'e \<Rightarrow> 'a option \<Rightarrow> ('s, 'e, 'a) eff" where
  "ok_or e x = (case x of None \<Rightarrow> fail e | Some v \<Rightarrow> ret v)"

lemmas [effect_defs] = ret_def fail_def bindE_def mapErr_def liftE_def ok_or_def

lemma ret_apply [simp]: "ret x s = (Inr x, s)"
  by (simp add: ret_def)

lemma fail_apply [simp]: "fail e s = (Inl e, s)"
  by (simp add: fail_def)

lemma liftE_apply [simp]: "liftE r s = (r, s)"
  by (simp add: liftE_def)

lemma ok_or_simps [simp]:
  "ok_or e None = fail e"
  "ok_or e (Some v) = ret v"
  by (simp_all add: ok_or_def)

lemma bindE_Inr [simp]: "m s = (Inr x, s') \<Longrightarrow> bindE m f s = f x s'"
  by (simp add: bindE_def)

lemma bindE_Inl [simp]: "m s = (Inl e, s') \<Longrightarrow> bindE m f s = (Inl e, s')"
  by (simp add: bindE_def)

lemma mapErr_Inr [simp]: "m s = (Inr x, s') \<Longrightarrow> mapErr h m s = (Inr x, s')"
  by (simp add: mapErr_def)

lemma mapErr_Inl [simp]: "m s = (Inl e, s') \<Longrightarrow> mapErr h m s = (Inl (h e), s')"
  by (simp add: mapErr_def)

lemma bindE_ret [simp]: "bindE (ret x) f = f x"
  by (rule ext) (simp add: bindE_def)

lemma bindE_fail [simp]: "bindE (fail e) f = fail e"
  by (rule ext) (simp add: bindE_def)

lemma mapErr_liftE [simp]:
  "mapErr h (liftE (Inr x)) = ret x"
  "mapErr h (liftE (Inl e)) = fail (h e)"
  by (rule ext, simp)+

lemma bindE_InrE:
  assumes "bindE m f s = (Inr y, t)"
  obtains x s' where "m s = (Inr x, s')" and "f x s' = (Inr y, t)"
  using assms by (auto simp: bindE_def split: prod.splits sum.splits)

section \<open>Hash maps and their iteration order\<close>

text \<open>
  A \<open>HashMap\<close> or \<open>DashMap\<close> is a partial function.  The order in which such a map is iterated
  is not specified: an operation that iterates takes the list of keys in the order the
  implementation happens to visit them, and the only thing assumed of that list is that it
  \<^emph>\<open>enumerates\<close> the map: every key once.
\<close>

definition enumerates :: "'k list \<Rightarrow> ('k \<rightharpoonup> 'v) \<Rightarrow> bool" where
  "enumerates ks m \<longleftrightarrow> distinct ks \<and> set ks = dom m"

definition iter_order :: "(('k \<rightharpoonup> 'v) \<Rightarrow> 'k list) \<Rightarrow> bool" where
  "iter_order ord \<longleftrightarrow> (\<forall>m. finite (dom m) \<longrightarrow> enumerates (ord m) m)"

definition map_values :: "'k list \<Rightarrow> ('k \<rightharpoonup> 'v) \<Rightarrow> 'v list" where
  "map_values ks m = List.map_filter m ks"

lemma map_values_simps [simp]:
  "map_values [] m = []"
  "map_values (k # ks) m = (case m k of None \<Rightarrow> map_values ks m | Some v \<Rightarrow> v # map_values ks m)"
  by (simp_all add: map_values_def map_filter_simps split: option.splits)

lemma set_map_filter: "set (List.map_filter f xs) = {y. \<exists>x \<in> set xs. f x = Some y}"
  by (induction xs) (auto simp: map_filter_simps split: option.splits)

lemma set_map_values: "set (map_values ks m) = {v. \<exists>k \<in> set ks. m k = Some v}"
  by (induction ks) (auto split: option.splits)

lemma set_map_values_enumerates: "enumerates ks m \<Longrightarrow> set (map_values ks m) = ran m"
  by (auto simp: set_map_values enumerates_def ran_def)

lemma ran_eq_empty_iff: "ran m = {} \<longleftrightarrow> m = Map.empty"
proof
  assume "ran m = {}"
  then have "m k = None" for k
    by (cases "m k") (auto simp: ran_def)
  then show "m = Map.empty" by (rule ext)
qed simp

lemma enumerates_finite: "enumerates ks m \<Longrightarrow> finite (dom m)"
  by (metis enumerates_def finite_set)

lemma iter_orderD: "iter_order ord \<Longrightarrow> finite (dom m) \<Longrightarrow> enumerates (ord m) m"
  by (simp add: iter_order_def)

definition ascending :: "('k::linorder \<rightharpoonup> 'v) \<Rightarrow> 'k list" where
  "ascending m = sorted_list_of_set (dom m)"

lemma iter_order_ascending: "iter_order ascending"
  by (simp add: iter_order_def enumerates_def ascending_def)

lemma length_map_values: "set ks \<subseteq> dom m \<Longrightarrow> length (map_values ks m) = length ks"
  by (induction ks) (auto split: option.splits)

section \<open>Decimal strings\<close>

definition digit_char :: "nat \<Rightarrow> char" where
  "digit_char d = char_of (48 + d)"

definition digit_val :: "char \<Rightarrow> nat" where
  "digit_val c = of_char c - 48"

definition is_ascii_digit :: "char \<Rightarrow> bool" where
  "is_ascii_digit c \<longleftrightarrow> 48 \<le> (of_char c :: nat) \<and> (of_char c :: nat) \<le> 57"

fun show_nat :: "nat \<Rightarrow> string" where
  "show_nat n = (if n < 10 then [digit_char n] else show_nat (n div 10) @ [digit_char (n mod 10)])"

declare show_nat.simps [simp del]

definition digits_val :: "string \<Rightarrow> nat" where
  "digits_val s = foldl (\<lambda>a c. 10 * a + digit_val c) 0 s"

lemma digit_char_val [simp]: "d < 10 \<Longrightarrow> digit_val (digit_char d) = d"
  by (simp add: digit_val_def digit_char_def)

lemma digit_char_is_digit [simp]: "d < 10 \<Longrightarrow> is_ascii_digit (digit_char d)"
  by (simp add: is_ascii_digit_def digit_char_def)

lemma digits_val_append: "digits_val (xs @ [c]) = 10 * digits_val xs + digit_val c"
  by (simp add: digits_val_def)

lemma show_nat_not_Nil [simp]: "show_nat n \<noteq> []"
  by (subst show_nat.simps) simp

lemma show_nat_digits: "list_all is_ascii_digit (show_nat n)"
proof (induction n rule: show_nat.induct)
  case (1 n)
  then show ?case by (subst show_nat.simps) auto
qed

lemma digits_val_show_nat [simp]: "digits_val (show_nat n) = n"
proof (induction n rule: show_nat.induct)
  case (1 n)
  show ?case
  proof (cases "n < 10")
    case True
    then show ?thesis by (subst show_nat.simps) (simp add: digits_val_def)
  next
    case False
    with 1 show ?thesis by (subst show_nat.simps) (simp add: digits_val_append)
  qed
qed

lemma show_nat_inj: "show_nat m = show_nat n \<longleftrightarrow> m = n"
  by (metis digits_val_show_nat)

lemma show_nat_hd_digit: "is_ascii_digit (hd (show_nat n))"
  using show_nat_digits [of n] by (cases "show_nat n") auto

definition show_u64 :: "u64 \<Rightarrow> string" where
  "show_u64 w = show_nat (unat w)"

text \<open>
  \<open>str::parse::<u64>\<close>: one optional plus sign, then at least one ASCII digit and nothing else,
  and a value below \<open>2^64\<close>.
\<close>

definition parse_u64 :: "string \<Rightarrow> u64 option" where
  "parse_u64 s =
     (let ds = (case s of [] \<Rightarrow> [] | c # r \<Rightarrow> if c = CHR ''+'' then r else s)
      in if ds = [] \<or> \<not> list_all is_ascii_digit ds then None
         else if digits_val ds < 2 ^ 64 then Some (of_nat (digits_val ds)) else None)"

lemma plus_not_digit: "\<not> is_ascii_digit (CHR ''+'')"
  by (simp add: is_ascii_digit_def)

lemma parse_show_u64 [simp]: "parse_u64 (show_u64 w) = Some w"
proof -
  obtain c r where cr: "show_nat (unat w) = c # r"
    by (cases "show_nat (unat w)") auto
  have "c \<noteq> CHR ''+''"
    using show_nat_hd_digit [of "unat w"] plus_not_digit cr by auto
  moreover have "unat w < 2 ^ 64"
    using unsigned_less [of w] by simp
  moreover have "list_all is_ascii_digit (c # r)" and "digits_val (c # r) = unat w"
    using show_nat_digits [of "unat w"] digits_val_show_nat [of "unat w"] by (simp_all add: cr)
  ultimately show ?thesis
    by (simp add: parse_u64_def show_u64_def Let_def cr)
qed

lemma show_u64_inj [simp]: "show_u64 a = show_u64 b \<longleftrightarrow> a = b"
  by (metis parse_show_u64 option.inject)

section \<open>Strings\<close>

fun join :: "string \<Rightarrow> string list \<Rightarrow> string" where
  "join sep [] = []"
| "join sep [x] = x"
| "join sep (x # y # ys) = x @ sep @ join sep (y # ys)"

text \<open>ASCII part of \<open>to_lowercase\<close>.\<close>

definition lower_char :: "char \<Rightarrow> char" where
  "lower_char c = (if 65 \<le> (of_char c :: nat) \<and> (of_char c :: nat) \<le> 90
                   then char_of ((of_char c :: nat) + 32) else c)"

definition to_lower :: "string \<Rightarrow> string" where
  "to_lower s = map lower_char s"

definition is_space :: "char \<Rightarrow> bool" where
  "is_space c \<longleftrightarrow> of_char c \<in> {9, 10, 11, 12, 13, 32 :: nat}"

definition trim_start :: "string \<Rightarrow> string" where
  "trim_start s = dropWhile is_space s"

definition trim_end :: "string \<Rightarrow> string" where
  "trim_end s = rev (dropWhile is_space (rev s))"

definition trim :: "string \<Rightarrow> string" where
  "trim s = trim_end (trim_start s)"

definition newline :: string where
  "newline = [CHR 0x0A]"

definition newline_free :: "string \<Rightarrow> bool" where
  "newline_free s \<longleftrightarrow> CHR 0x0A \<notin> set s"

text \<open>\<open>str::lines\<close>: every line ends at a line feed, with a carriage return before it dropped; the rest
  after the last line feed is a line when it is not empty.\<close>

fun split_lines :: "string \<Rightarrow> string \<Rightarrow> string list" where
  "split_lines current [] = (if current = [] then [] else [current])"
| "split_lines current (c # cs) =
     (if c = CHR 0x0A
      then (if current \<noteq> [] \<and> last current = CHR 0x0D then butlast current else current) #
           split_lines [] cs
      else split_lines (current @ [c]) cs)"

definition str_lines :: "string \<Rightarrow> string list" where
  "str_lines s = split_lines [] s"

lemma split_lines_line:
  "newline_free x \<Longrightarrow> split_lines cur (x @ newline @ s) =
     (if cur @ x \<noteq> [] \<and> last (cur @ x) = CHR 0x0D then butlast (cur @ x) else cur @ x) # str_lines s"
proof (induction x arbitrary: cur)
  case Nil
  then show ?case by (simp add: newline_def str_lines_def)
next
  case (Cons a x)
  then have "a \<noteq> CHR 0x0A" "newline_free x" by (auto simp: newline_free_def)
  with Cons.IH [of "cur @ [a]"] show ?case by simp
qed

lemma str_lines_line:
  "newline_free x \<Longrightarrow> x = [] \<or> last x \<noteq> CHR 0x0D \<Longrightarrow> str_lines (x @ newline @ s) = x # str_lines s"
  using split_lines_line [of x "[]" s] by (auto simp: str_lines_def [of "x @ newline @ s"])

lemma str_lines_Nil [simp]: "str_lines [] = []"
  by (simp add: str_lines_def)

lemma split_lines_append:
  "split_lines cur (x @ newline @ s) = split_lines cur (x @ newline) @ str_lines s"
proof (induction x arbitrary: cur)
  case Nil
  then show ?case by (simp add: newline_def str_lines_def)
next
  case (Cons a x)
  then show ?case by simp
qed

text \<open>The lines of a text that is cut at a line feed.\<close>

lemma str_lines_append: "str_lines (x @ newline @ s) = str_lines (x @ newline) @ str_lines s"
  using split_lines_append [of "[]"] by (simp add: str_lines_def)

definition strip_suffix :: "string \<Rightarrow> string \<Rightarrow> string option" where
  "strip_suffix suf s =
     (if length suf \<le> length s \<and> drop (length s - length suf) s = suf
      then Some (take (length s - length suf) s) else None)"

lemma strip_suffix_append [simp]: "strip_suffix suf (x @ suf) = Some x"
  by (simp add: strip_suffix_def)

lemma strip_suffix_SomeD: "strip_suffix suf s = Some x \<Longrightarrow> s = x @ suf"
  by (auto simp: strip_suffix_def split: if_splits) (metis append_take_drop_id)

section \<open>Lists as sets in insertion order\<close>

definition push_new :: "'a list \<Rightarrow> 'a \<Rightarrow> 'a list" where
  "push_new xs x = (if x \<in> set xs then xs else xs @ [x])"

lemma set_push_new [simp]: "set (push_new xs x) = insert x (set xs)"
  by (auto simp: push_new_def)

lemma distinct_push_new: "distinct xs \<Longrightarrow> distinct (push_new xs x)"
  by (auto simp: push_new_def)

lemma set_foldl_push_new: "set (foldl push_new xs ys) = set xs \<union> set ys"
  by (induction ys arbitrary: xs) auto

lemma distinct_foldl_push_new: "distinct xs \<Longrightarrow> distinct (foldl push_new xs ys)"
  by (induction ys arbitrary: xs) (auto simp: distinct_push_new)

lemma foldl_push_new_ext:
  "\<exists>zs. foldl push_new xs ys = xs @ zs \<and> distinct zs \<and> set zs = set ys - set xs"
proof (induction ys arbitrary: xs)
  case Nil
  then show ?case by simp
next
  case (Cons y ys)
  obtain zs where zs: "foldl push_new (push_new xs y) ys = push_new xs y @ zs" "distinct zs"
    "set zs = set ys - set (push_new xs y)"
    using Cons.IH by blast
  show ?case
  proof (cases "y \<in> set xs")
    case True
    then have "push_new xs y = xs" by (simp add: push_new_def)
    with zs True show ?thesis by (metis foldl_Cons insert_Diff1 list.simps(15))
  next
    case False
    then have "push_new xs y = xs @ [y]" by (simp add: push_new_def)
    with zs False have "foldl push_new xs (y # ys) = xs @ (y # zs)" "distinct (y # zs)"
      "set (y # zs) = set (y # ys) - set xs"
      by auto
    then show ?thesis by blast
  qed
qed

end
