(* ===== verification/TaskModel.thy ===== *)
theory TaskModel
  imports Prelude
begin

text \<open>
  The data of the task crate, \<open>crates/vol-llm-task/src/model.rs\<close>: task identifiers and their
  textual and JSON forms, the status and kind enumerations, and the \<open>Task\<close> record.
\<close>

section \<open>Task identifiers\<close>

text \<open>\<open>TaskId(pub u64)\<close>.\<close>

type_synonym task_id = u64

datatype parse_task_id_error = ParseTaskIdError string

definition display_task_id :: "task_id \<Rightarrow> string" where
  "display_task_id t = show_u64 t"

definition strip_t :: "string \<Rightarrow> string" where
  "strip_t s = (case s of c # r \<Rightarrow> if c = CHR ''t'' then r else s | [] \<Rightarrow> s)"

definition task_id_from_str :: "string \<Rightarrow> parse_task_id_error + task_id" where
  "task_id_from_str s =
     (let digits = strip_t s
      in if digits = [] \<or> \<not> list_all is_ascii_digit digits then Inl (ParseTaskIdError s)
         else case parse_u64 digits of
                Some n \<Rightarrow> Inr n
              | None \<Rightarrow> Inl (ParseTaskIdError s))"

text \<open>
  The JSON forms the deserializer's visitor distinguishes: an unsigned number, a signed number,
  a string, and everything else.  Serialization always writes the string form.
\<close>

datatype id_json = JU64 u64 | JI64 int | JText string | JOther

definition serialize_task_id :: "task_id \<Rightarrow> id_json" where
  "serialize_task_id t = JText (show_u64 t)"

datatype id_json_error = NegativeTaskId int | BadTaskIdText parse_task_id_error | WrongJsonType

fun deserialize_task_id :: "id_json \<Rightarrow> id_json_error + task_id" where
  "deserialize_task_id (JU64 v) = Inr v"
| "deserialize_task_id (JI64 v) = (if 0 \<le> v then Inr (of_int v) else Inl (NegativeTaskId v))"
| "deserialize_task_id (JText s) =
     (case task_id_from_str s of Inl e \<Rightarrow> Inl (BadTaskIdText e) | Inr t \<Rightarrow> Inr t)"
| "deserialize_task_id JOther = Inl WrongJsonType"

section \<open>Status, kind, result\<close>

datatype task_status = Pending | Running | Completed | Failed | Killed

fun display_status :: "task_status \<Rightarrow> string" where
  "display_status Pending = ''pending''"
| "display_status Running = ''running''"
| "display_status Completed = ''completed''"
| "display_status Failed = ''failed''"
| "display_status Killed = ''killed''"

text \<open>The derived \<open>Debug\<close> form prints the constructor's name.\<close>

fun debug_status :: "task_status \<Rightarrow> string" where
  "debug_status Pending = ''Pending''"
| "debug_status Running = ''Running''"
| "debug_status Completed = ''Completed''"
| "debug_status Failed = ''Failed''"
| "debug_status Killed = ''Killed''"

definition terminal :: "task_status \<Rightarrow> bool" where
  "terminal s \<longleftrightarrow> s = Completed \<or> s = Failed \<or> s = Killed"

datatype task_kind = Agent | Manual

record task_result =
  tr_success :: bool
  tr_output_truncated :: string
  tr_output_file :: string

section \<open>Tasks\<close>

record task =
  t_id :: task_id
  t_status :: task_status
  t_kind :: task_kind
  t_publisher :: "string option"
  t_assignee :: "string option"
  t_subject :: string
  t_description :: string
  t_active_form :: "string option"
  t_dependencies :: "task_id list"
  t_blocks :: "task_id list"
  t_result :: "task_result option"
  t_summary :: "string option"
  t_output_file :: "string option"
  t_created_at :: time
  t_started_at :: "time option"
  t_completed_at :: "time option"

text \<open>\<open>Task::new\<close>; the clock is read once.\<close>

definition new_task :: "time \<Rightarrow> task_kind \<Rightarrow> string \<Rightarrow> task_id list \<Rightarrow> task" where
  "new_task now kind subject dependencies =
     \<lparr> t_id = 0, t_status = Pending, t_kind = kind, t_publisher = None, t_assignee = None,
       t_subject = subject, t_description = [], t_active_form = None,
       t_dependencies = dependencies, t_blocks = [], t_result = None, t_summary = None,
       t_output_file = None, t_created_at = now, t_started_at = None, t_completed_at = None \<rparr>"

lemma new_task_simps [simp]:
  "t_status (new_task now k s d) = Pending"
  "t_kind (new_task now k s d) = k"
  "t_subject (new_task now k s d) = s"
  "t_dependencies (new_task now k s d) = d"
  "t_blocks (new_task now k s d) = []"
  "t_id (new_task now k s d) = 0"
  "t_assignee (new_task now k s d) = None"
  by (simp_all add: new_task_def)

section \<open>Facts about identifiers\<close>

lemma parse_u64_digits:
  assumes "s \<noteq> []" and "list_all is_ascii_digit s"
  shows "parse_u64 s = (if digits_val s < 2 ^ 64 then Some (of_nat (digits_val s)) else None)"
  using assms plus_not_digit by (cases s) (auto simp: parse_u64_def Let_def)

lemma strip_t_digits: "list_all is_ascii_digit s \<Longrightarrow> strip_t s = s"
  by (cases s) (auto simp: strip_t_def is_ascii_digit_def)

lemma strip_t_Cons [simp]: "strip_t (CHR ''t'' # s) = s"
  by (simp add: strip_t_def)

lemma show_u64_digits: "list_all is_ascii_digit (show_u64 w)" "show_u64 w \<noteq> []"
  by (simp_all add: show_u64_def show_nat_digits)

lemma from_str_show [simp]: "task_id_from_str (show_u64 t) = Inr t"
  by (simp add: task_id_from_str_def Let_def strip_t_digits show_u64_digits)

lemma from_str_t_show [simp]: "task_id_from_str (CHR ''t'' # show_u64 t) = Inr t"
  by (simp add: task_id_from_str_def Let_def show_u64_digits)

lemma from_str_Inr_iff:
  "task_id_from_str s = Inr t \<longleftrightarrow>
     strip_t s \<noteq> [] \<and> list_all is_ascii_digit (strip_t s) \<and>
     digits_val (strip_t s) < 2 ^ 64 \<and> t = of_nat (digits_val (strip_t s))"
  by (auto simp: task_id_from_str_def Let_def parse_u64_digits split: option.splits)

lemma display_status_inj: "display_status a = display_status b \<longleftrightarrow> a = b"
  by (cases a; cases b) auto

lemma to_lower_debug_status: "to_lower (debug_status s) = display_status s"
  by (induction s) code_simp+

text \<open>
  A task id survives serialization and parsing: the canonical string form, and the form with
  one leading \<open>t\<close> that models were shown, are both read back as the same id, and so is the bare
  number of older data.
\<close>

theorem task_id_roundtrip:
  "deserialize_task_id (serialize_task_id t) = Inr t \<and>
   task_id_from_str (display_task_id t) = Inr t \<and>
   task_id_from_str (''t'' @ display_task_id t) = Inr t \<and>
   deserialize_task_id (JU64 t) = Inr t"
  by (simp add: serialize_task_id_def display_task_id_def)

text \<open>
  The parser accepts exactly the strings that are, after at most one leading \<open>t\<close>, a non-empty
  run of ASCII digits with a value below \<open>2^64\<close>, and returns that value; in particular a second
  \<open>t\<close> and values that do not fit a \<open>u64\<close> are rejected, and the error carries the whole input.
\<close>

theorem task_id_from_str_spec:
  "task_id_from_str s =
     (let d = strip_t s
      in if d \<noteq> [] \<and> list_all is_ascii_digit d \<and> digits_val d < 2 ^ 64
         then Inr (of_nat (digits_val d)) else Inl (ParseTaskIdError s)) \<and>
   task_id_from_str (''tt'' @ s) = Inl (ParseTaskIdError (''tt'' @ s))"
proof -
  have "\<not> is_ascii_digit (CHR ''t'')"
    by (simp add: is_ascii_digit_def)
  then show ?thesis
    by (auto simp: task_id_from_str_def Let_def parse_u64_digits)
qed

end
