(* ===== verification/TaskStore.thy ===== *)
theory TaskStore
  imports TaskModel
begin

text \<open>
  The storage interface of the task crate, \<open>crates/vol-llm-task/src/store.rs\<close>.  The trait
  \<open>TaskStore\<close> is a record of operations over an arbitrary store state; the locale
  \<open>task_store\<close> states what a provider promises to its clients in terms of the abstract view of
  the store, a partial map from ids to tasks.  A provider's operations may fail; the extension
  \<open>total_task_store\<close> is the contract of a provider that never does.
\<close>

section \<open>Errors and the operations\<close>

datatype store_error =
    StoreIo string
  | StoreSerialization string
  | StoreDatabase string
  | StoreNotFound string
  | StoreInternal string

fun display_store_error :: "store_error \<Rightarrow> string" where
  "display_store_error (StoreIo e) = ''IO error: '' @ e"
| "display_store_error (StoreSerialization e) = ''Serialization error: '' @ e"
| "display_store_error (StoreDatabase e) = ''Database error: '' @ e"
| "display_store_error (StoreNotFound e) = ''Not found: '' @ e"
| "display_store_error (StoreInternal e) = ''Internal error: '' @ e"

record 's store_ops =
  so_create :: "task \<Rightarrow> ('s, store_error, task_id) eff"
  so_get :: "task_id \<Rightarrow> ('s, store_error, task option) eff"
  so_update :: "task \<Rightarrow> ('s, store_error, unit) eff"
  so_delete :: "task_id \<Rightarrow> ('s, store_error, unit) eff"
  so_list :: "task_status option \<Rightarrow> ('s, store_error, task list) eff"
  so_ready :: "('s, store_error, task_id list) eff"

section \<open>The abstract store\<close>

type_synonym task_map = "task_id \<rightharpoonup> task"

text \<open>The filter of \<open>list\<close>: \<open>status.is_none_or(|s| t.status == s)\<close>.\<close>

definition status_matches :: "task_status option \<Rightarrow> task \<Rightarrow> bool" where
  "status_matches f t \<longleftrightarrow> (case f of None \<Rightarrow> True | Some s \<Rightarrow> t_status t = s)"

definition is_completed :: "task_map \<Rightarrow> task_id \<Rightarrow> bool" where
  "is_completed m i \<longleftrightarrow> (case m i of None \<Rightarrow> False | Some t \<Rightarrow> t_status t = Completed)"

definition is_ready :: "task_map \<Rightarrow> task_id \<Rightarrow> bool" where
  "is_ready m i \<longleftrightarrow>
     (case m i of None \<Rightarrow> False
      | Some t \<Rightarrow> t_status t = Pending \<and> (\<forall>d \<in> set (t_dependencies t). is_completed m d))"

definition keyed :: "task_map \<Rightarrow> bool" where
  "keyed m \<longleftrightarrow> (\<forall>i t. m i = Some t \<longrightarrow> t_id t = i)"

lemma keyedD [dest]: "keyed m \<Longrightarrow> m i = Some t \<Longrightarrow> t_id t = i"
  by (simp add: keyed_def)

lemma keyed_upd: "keyed m \<Longrightarrow> keyed (m(t_id t \<mapsto> t))"
  by (auto simp: keyed_def)

lemma keyed_upd_id: "keyed m \<Longrightarrow> keyed (m(i \<mapsto> t\<lparr>t_id := i\<rparr>))"
  by (auto simp: keyed_def)

lemma keyed_del: "keyed m \<Longrightarrow> keyed (m(i := None))"
  by (auto simp: keyed_def)

lemma is_ready_dom: "is_ready m i \<Longrightarrow> i \<in> dom m"
  by (auto simp: is_ready_def split: option.splits)

lemma inj_on_keyed: "keyed m \<Longrightarrow> inj_on (\<lambda>k. the (m k)) (dom m)"
  by (auto simp: inj_on_def keyed_def) metis

lemma map_values_map: "set ks \<subseteq> dom m \<Longrightarrow> map_values ks m = map (\<lambda>k. the (m k)) ks"
  by (induction ks) (auto split: option.splits)

lemma distinct_map_values: "keyed m \<Longrightarrow> enumerates ks m \<Longrightarrow> distinct (map_values ks m)"
  by (auto simp: map_values_map enumerates_def distinct_map inj_on_keyed)

section \<open>The contract\<close>

text \<open>
  \<open>room s\<close> says that the id counter of the store is not exhausted; it is needed only for the
  freshness of the id \<open>create\<close> returns.
\<close>

locale task_store =
  fixes ops :: "'s store_ops"
    and inv :: "'s \<Rightarrow> bool"
    and room :: "'s \<Rightarrow> bool"
    and tasks_of :: "'s \<Rightarrow> task_map"
  assumes inv_keyed: "inv s \<Longrightarrow> keyed (tasks_of s)"
    and create_ok:
      "inv s \<Longrightarrow> room s \<Longrightarrow> so_create ops t s = (Inr i, s') \<Longrightarrow>
         inv s' \<and> tasks_of s i = None \<and> tasks_of s' = (tasks_of s)(i \<mapsto> t\<lparr>t_id := i\<rparr>)"
    and create_err:
      "inv s \<Longrightarrow> so_create ops t s = (Inl e, s') \<Longrightarrow> tasks_of s' = tasks_of s"
    and get_ok: "inv s \<Longrightarrow> so_get ops i s = (Inr r, s') \<Longrightarrow> r = tasks_of s i \<and> s' = s"
    and get_err: "so_get ops i s = (Inl e, s') \<Longrightarrow> s' = s"
    and update_ok:
      "inv s \<Longrightarrow> t_id t \<in> dom (tasks_of s) \<Longrightarrow> so_update ops t s = (Inr u, s') \<Longrightarrow>
         inv s' \<and> tasks_of s' = (tasks_of s)(t_id t \<mapsto> t)"
    and update_err:
      "inv s \<Longrightarrow> so_update ops t s = (Inl e, s') \<Longrightarrow> inv s' \<and> tasks_of s' = tasks_of s"
    and delete_ok:
      "inv s \<Longrightarrow> so_delete ops i s = (Inr u, s') \<Longrightarrow>
         inv s' \<and> tasks_of s' = (tasks_of s)(i := None)"
    and list_ok:
      "inv s \<Longrightarrow> so_list ops f s = (Inr ts, s') \<Longrightarrow>
         s' = s \<and> distinct ts \<and> set ts = {t \<in> ran (tasks_of s). status_matches f t}"
    and list_err: "so_list ops f s = (Inl e, s') \<Longrightarrow> s' = s"
    and ready_ok:
      "inv s \<Longrightarrow> so_ready ops s = (Inr is, s') \<Longrightarrow>
         s' = s \<and> distinct is \<and> set is = {i. is_ready (tasks_of s) i}"
    and ready_err: "so_ready ops s = (Inl e, s') \<Longrightarrow> s' = s"
begin

lemma get_cases:
  assumes "inv s"
  obtains (err) e where "so_get ops i s = (Inl e, s)"
    | (missing) "so_get ops i s = (Inr None, s)" "tasks_of s i = None"
    | (found) t where "so_get ops i s = (Inr (Some t), s)" "tasks_of s i = Some t" "t_id t = i"
proof -
  obtain r s' where g: "so_get ops i s = (r, s')"
    by (cases "so_get ops i s")
  show thesis
  proof (cases r)
    case (Inl e)
    with g have "s' = s" using get_err by simp
    with g Inl show ?thesis using err by simp
  next
    case (Inr x)
    with g assms have x: "x = tasks_of s i" "s' = s" using get_ok by simp_all
    show ?thesis
    proof (cases x)
      case None
      with g Inr x show ?thesis using missing by simp
    next
      case (Some t)
      with x have m: "tasks_of s i = Some t" by simp
      then have "t_id t = i" using inv_keyed [OF assms] by auto
      with g Inr x m show ?thesis using found by simp
    qed
  qed
qed

text \<open>
  The shape of every read-modify-write operation of the crate: fetch, change fields other than
  the id, write back.
\<close>

lemma modify_ok:
  assumes "inv s"
    and "tasks_of s i = Some t" and "t_id t' = i"
    and "so_update ops t' s = (Inr u, s')"
  shows "inv s' \<and> tasks_of s' = (tasks_of s)(i \<mapsto> t')"
  using assms update_ok [of s t' u s'] by auto

end

locale total_task_store = task_store +
  assumes create_total: "inv s \<Longrightarrow> \<exists>i s'. so_create ops t s = (Inr i, s')"
    and get_total: "inv s \<Longrightarrow> \<exists>r s'. so_get ops i s = (Inr r, s')"
    and update_total: "inv s \<Longrightarrow> t_id t \<in> dom (tasks_of s) \<Longrightarrow> \<exists>u s'. so_update ops t s = (Inr u, s')"
    and delete_total: "inv s \<Longrightarrow> \<exists>u s'. so_delete ops i s = (Inr u, s')"
    and list_total: "inv s \<Longrightarrow> \<exists>ts s'. so_list ops f s = (Inr ts, s')"
    and ready_total: "inv s \<Longrightarrow> \<exists>is s'. so_ready ops s = (Inr is, s')"
begin

lemma get_eq: "inv s \<Longrightarrow> so_get ops i s = (Inr (tasks_of s i), s)"
  using get_total [of s i] get_ok by blast

lemma update_eq:
  assumes "inv s" "t_id t \<in> dom (tasks_of s)"
  obtains s' where "so_update ops t s = (Inr (), s')" "inv s'"
    "tasks_of s' = (tasks_of s)(t_id t \<mapsto> t)"
  using update_total [OF assms] update_ok [OF assms] by auto

end

end
