(* ===== verification/TaskStoreMemory.thy ===== *)
theory TaskStoreMemory
  imports TaskStore
begin

text \<open>
  The in-memory provider, \<open>crates/vol-llm-task/src/stores/memory.rs\<close>: a concurrent hash map and
  an atomic id counter.  \<open>fetch_add\<close> wraps at \<open>2^64\<close>, and so does the model.  The operations
  that iterate the map take the iteration order as an argument.
\<close>

section \<open>State and operations\<close>

record mem_store =
  ms_tasks :: task_map
  ms_next_id :: u64

definition mem_new :: mem_store where
  "mem_new = \<lparr> ms_tasks = Map.empty, ms_next_id = 1 \<rparr>"

definition mem_assign_id :: "mem_store \<Rightarrow> task_id \<times> mem_store" where
  "mem_assign_id s = (ms_next_id s, s\<lparr>ms_next_id := ms_next_id s + 1\<rparr>)"

definition mem_create :: "task \<Rightarrow> (mem_store, store_error, task_id) eff" where
  "mem_create t s =
     (let (i, s1) = mem_assign_id s;
          t' = t\<lparr>t_id := i\<rparr>
      in (Inr i, s1\<lparr>ms_tasks := (ms_tasks s1)(i \<mapsto> t')\<rparr>))"

definition mem_get :: "task_id \<Rightarrow> (mem_store, store_error, task option) eff" where
  "mem_get i s = (Inr (ms_tasks s i), s)"

definition mem_update :: "task \<Rightarrow> (mem_store, store_error, unit) eff" where
  "mem_update t s = (Inr (), s\<lparr>ms_tasks := (ms_tasks s)(t_id t \<mapsto> t)\<rparr>)"

definition mem_delete :: "task_id \<Rightarrow> (mem_store, store_error, unit) eff" where
  "mem_delete i s = (Inr (), s\<lparr>ms_tasks := (ms_tasks s)(i := None)\<rparr>)"

definition mem_list ::
  "(task_map \<Rightarrow> task_id list) \<Rightarrow> task_status option \<Rightarrow> (mem_store, store_error, task list) eff" where
  "mem_list ord f s =
     (Inr (filter (status_matches f) (map_values (ord (ms_tasks s)) (ms_tasks s))), s)"

text \<open>
  \<open>get_ready_tasks\<close> walks the map twice: once for the pending tasks with their dependencies,
  once for the set of completed ids.
\<close>

definition mem_ready ::
  "(task_map \<Rightarrow> task_id list) \<Rightarrow> (mem_store, store_error, task_id list) eff" where
  "mem_ready ord s =
     (let entries = List.map_filter (\<lambda>k. map_option (Pair k) (ms_tasks s k)) (ord (ms_tasks s));
          pending = map (\<lambda>(k, t). (k, t_dependencies t))
                      (filter (\<lambda>(k, t). t_status t = Pending) entries);
          completed_ids = set (map fst (filter (\<lambda>(k, t). t_status t = Completed) entries));
          ready = map fst (filter (\<lambda>(k, deps). list_all (\<lambda>d. d \<in> completed_ids) deps) pending)
      in (Inr ready, s))"

definition mem_ops :: "(task_map \<Rightarrow> task_id list) \<Rightarrow> mem_store store_ops" where
  "mem_ops ord =
     \<lparr> so_create = mem_create, so_get = mem_get, so_update = mem_update, so_delete = mem_delete,
       so_list = mem_list ord, so_ready = mem_ready ord \<rparr>"

lemma mem_ops_simps [simp]:
  "so_create (mem_ops ord) = mem_create"
  "so_get (mem_ops ord) = mem_get"
  "so_update (mem_ops ord) = mem_update"
  "so_delete (mem_ops ord) = mem_delete"
  "so_list (mem_ops ord) = mem_list ord"
  "so_ready (mem_ops ord) = mem_ready ord"
  by (simp_all add: mem_ops_def)

lemmas mem_defs = mem_create_def mem_assign_id_def mem_get_def mem_update_def mem_delete_def

section \<open>Invariant\<close>

text \<open>
  Every task is stored under its own id, there are finitely many of them, and as long as the
  counter has not wrapped to 0 it is above every id in use.
\<close>

definition mem_inv :: "mem_store \<Rightarrow> bool" where
  "mem_inv s \<longleftrightarrow>
     keyed (ms_tasks s) \<and> finite (dom (ms_tasks s)) \<and>
     (ms_next_id s \<noteq> 0 \<longrightarrow> (\<forall>i \<in> dom (ms_tasks s). i < ms_next_id s))"

definition mem_room :: "mem_store \<Rightarrow> bool" where
  "mem_room s \<longleftrightarrow> ms_next_id s \<noteq> 0"

lemma mem_inv_new: "mem_inv mem_new" "mem_room mem_new"
  by (simp_all add: mem_inv_def mem_room_def mem_new_def keyed_def)

lemma self_less_succ_word: "(n :: u64) + 1 \<noteq> 0 \<Longrightarrow> n < n + 1"
  using unatSuc [of n] by (simp add: word_less_nat_alt add.commute)

lemma less_succ_word: "(i :: u64) < n \<Longrightarrow> n + 1 \<noteq> 0 \<Longrightarrow> i < n + 1"
  using self_less_succ_word less_trans by blast

lemma mem_create_ok:
  assumes "mem_inv s" "mem_room s" "mem_create t s = (Inr i, s')"
  shows "mem_inv s' \<and> ms_tasks s i = None \<and> ms_tasks s' = (ms_tasks s)(i \<mapsto> t\<lparr>t_id := i\<rparr>)"
proof -
  from assms(3) have i: "i = ms_next_id s"
    and s': "s' = s\<lparr>ms_next_id := i + 1, ms_tasks := (ms_tasks s)(i \<mapsto> t\<lparr>t_id := i\<rparr>)\<rparr>"
    by (auto simp: mem_defs)
  have below: "\<forall>k \<in> dom (ms_tasks s). k < i"
    using assms(1,2) i by (simp add: mem_inv_def mem_room_def)
  then have "ms_tasks s i = None"
    by (metis domIff less_irrefl)
  moreover have "i + 1 \<noteq> 0 \<longrightarrow> (\<forall>k \<in> insert i (dom (ms_tasks s)). k < i + 1)"
    using below less_succ_word self_less_succ_word by auto
  ultimately show ?thesis
    using assms(1) by (simp add: mem_inv_def s' keyed_upd_id)
qed

lemma mem_ready_walk:
  "map fst (filter (\<lambda>(k, deps). C deps)
     (map (\<lambda>(k, t). (k, t_dependencies t))
       (filter (\<lambda>(k, t). t_status t = st) (List.map_filter (\<lambda>k. map_option (Pair k) (m k)) ks)))) =
   filter (\<lambda>k. case m k of None \<Rightarrow> False | Some t \<Rightarrow> t_status t = st \<and> C (t_dependencies t)) ks"
  by (induction ks) (auto simp: map_filter_simps split: option.splits)

lemma mem_completed_walk:
  "map fst (filter (\<lambda>(k, t). t_status t = Completed)
     (List.map_filter (\<lambda>k. map_option (Pair k) (m k)) ks)) = filter (is_completed m) ks"
  by (induction ks) (auto simp: map_filter_simps is_completed_def split: option.splits)

lemma mem_ready_eq:
  assumes "set (ord (ms_tasks s)) = dom (ms_tasks s)"
  shows "mem_ready ord s = (Inr (filter (is_ready (ms_tasks s)) (ord (ms_tasks s))), s)"
proof -
  have "d \<in> set (filter (is_completed (ms_tasks s)) (ord (ms_tasks s))) \<longleftrightarrow> is_completed (ms_tasks s) d" for d
    using assms by (auto simp: is_completed_def split: option.splits)
  then show ?thesis
    unfolding mem_ready_def Let_def mem_ready_walk mem_completed_walk
    by (simp only: list_all_iff is_ready_def [abs_def])
qed

section \<open>The provider keeps the contract\<close>

lemma mem_update_ok:
  assumes "mem_inv s" "t_id t \<in> dom (ms_tasks s)" "mem_update t s = (Inr u, s')"
  shows "mem_inv s' \<and> ms_tasks s' = (ms_tasks s)(t_id t \<mapsto> t)"
  using assms by (fastforce simp: mem_inv_def mem_update_def keyed_upd split: if_splits)

lemma mem_delete_ok:
  assumes "mem_inv s" "mem_delete i s = (Inr u, s')"
  shows "mem_inv s' \<and> ms_tasks s' = (ms_tasks s)(i := None)"
  using assms by (fastforce simp: mem_inv_def mem_delete_def keyed_del split: if_splits)

lemma mem_list_ok:
  assumes "mem_inv s" "iter_order ord" "mem_list ord f s = (Inr ts, s')"
  shows "s' = s \<and> distinct ts \<and> set ts = {t \<in> ran (ms_tasks s). status_matches f t}"
proof -
  have en: "enumerates (ord (ms_tasks s)) (ms_tasks s)"
    using assms(1,2) by (simp add: mem_inv_def iter_orderD)
  moreover have "keyed (ms_tasks s)"
    using assms(1) by (simp add: mem_inv_def)
  ultimately show ?thesis
    using assms(3) by (auto simp: mem_list_def distinct_map_values set_map_values_enumerates)
qed

lemma mem_ready_ok:
  assumes "mem_inv s" "iter_order ord" "mem_ready ord s = (Inr is, s')"
  shows "s' = s \<and> distinct is \<and> set is = {i. is_ready (ms_tasks s) i}"
proof -
  have "enumerates (ord (ms_tasks s)) (ms_tasks s)"
    using assms(1,2) by (simp add: mem_inv_def iter_orderD)
  then show ?thesis
    using assms(3) is_ready_dom [of "ms_tasks s"]
    by (auto simp: mem_ready_eq enumerates_def)
qed

lemma mem_total_task_store:
  assumes "iter_order ord"
  shows "total_task_store (mem_ops ord) mem_inv mem_room ms_tasks"
proof unfold_locales
  fix s t i s'
  assume "mem_inv s" "mem_room s" "so_create (mem_ops ord) t s = (Inr i, s')"
  then show "mem_inv s' \<and> ms_tasks s i = None \<and> ms_tasks s' = (ms_tasks s)(i \<mapsto> t\<lparr>t_id := i\<rparr>)"
    using mem_create_ok [of s t i s'] by simp
next
  fix s f ts s'
  assume "mem_inv s" "so_list (mem_ops ord) f s = (Inr ts, s')"
  then show "s' = s \<and> distinct ts \<and> set ts = {t \<in> ran (ms_tasks s). status_matches f t}"
    using mem_list_ok [of s ord f ts s'] assms by simp
next
  fix s "is" s'
  assume "mem_inv s" "so_ready (mem_ops ord) s = (Inr is, s')"
  then show "s' = s \<and> distinct is \<and> set is = {i. is_ready (ms_tasks s) i}"
    using mem_ready_ok [of s ord "is" s'] assms by simp
next
  fix s t u s'
  assume "mem_inv s" "t_id t \<in> dom (ms_tasks s)" "so_update (mem_ops ord) t s = (Inr u, s')"
  then show "mem_inv s' \<and> ms_tasks s' = (ms_tasks s)(t_id t \<mapsto> t)"
    using mem_update_ok [of s t u s'] by simp
next
  fix s i u s'
  assume "mem_inv s" "so_delete (mem_ops ord) i s = (Inr u, s')"
  then show "mem_inv s' \<and> ms_tasks s' = (ms_tasks s)(i := None)"
    using mem_delete_ok [of s i u s'] by simp
qed (simp_all add: mem_inv_def mem_defs mem_list_def mem_ready_def Let_def)

interpretation mem: total_task_store "mem_ops ascending" mem_inv mem_room ms_tasks
  by (rule mem_total_task_store [OF iter_order_ascending])

end
