(* ===== verification/TaskScheduler.thy ===== *)
theory TaskScheduler
  imports TaskStoreMemory
begin

text \<open>
  The scheduler facade, \<open>crates/vol-llm-task/src/scheduler.rs\<close>: read-modify-write operations over
  an arbitrary store provider.  Its lemmas are proved once from the provider's contract.
\<close>

section \<open>Operations\<close>

definition sched_create_task ::
  "'s store_ops \<Rightarrow> time \<Rightarrow> task_kind \<Rightarrow> string \<Rightarrow> task_id list \<Rightarrow> ('s, store_error, task_id) eff" where
  "sched_create_task ops now kind subject dependencies =
     so_create ops (new_task now kind subject dependencies)"

definition fetch_task :: "'s store_ops \<Rightarrow> task_id \<Rightarrow> ('s, store_error, task) eff" where
  "fetch_task ops i =
     bindE (so_get ops i) (ok_or (StoreNotFound (''Task '' @ display_task_id i)))"

definition sched_mark_completed ::
  "'s store_ops \<Rightarrow> time \<Rightarrow> task_id \<Rightarrow> task_result \<Rightarrow> string \<Rightarrow> ('s, store_error, unit) eff" where
  "sched_mark_completed ops now i result summary =
     bindE (fetch_task ops i) (\<lambda>t.
       so_update ops (t\<lparr>t_status := Completed, t_result := Some result,
                        t_summary := Some summary, t_completed_at := Some now\<rparr>))"

definition sched_mark_failed ::
  "'s store_ops \<Rightarrow> time \<Rightarrow> task_id \<Rightarrow> string \<Rightarrow> ('s, store_error, unit) eff" where
  "sched_mark_failed ops now i err =
     bindE (fetch_task ops i) (\<lambda>t.
       so_update ops (t\<lparr>t_status := Failed, t_summary := Some (''Failed: '' @ err),
                        t_completed_at := Some now\<rparr>))"

definition sched_kill :: "'s store_ops \<Rightarrow> time \<Rightarrow> task_id \<Rightarrow> ('s, store_error, unit) eff" where
  "sched_kill ops now i =
     bindE (fetch_task ops i) (\<lambda>t.
       so_update ops (t\<lparr>t_status := Killed, t_completed_at := Some now\<rparr>))"

definition sched_all_complete :: "'s store_ops \<Rightarrow> ('s, store_error, bool) eff" where
  "sched_all_complete ops =
     bindE (so_list ops None) (\<lambda>ts. ret (ts \<noteq> [] \<and> list_all (\<lambda>t. terminal (t_status t)) ts))"

lemmas sched_defs =
  sched_mark_completed_def sched_mark_failed_def sched_kill_def sched_all_complete_def
  sched_create_task_def

section \<open>Facts from the contract\<close>

context task_store
begin

lemma fetch_ok:
  assumes "inv s" "fetch_task ops i s = (Inr t, s')"
  shows "s' = s \<and> tasks_of s i = Some t \<and> t_id t = i"
  using assms(1)
  by (rule get_cases [of s i]) (use assms(2) in \<open>auto simp: fetch_task_def\<close>)

lemma fetch_missing:
  assumes "inv s" "tasks_of s i = None" "fetch_task ops i s = (r, s')"
  shows "s' = s \<and> (\<exists>e. r = Inl e)"
  using assms(1)
  by (rule get_cases [of s i]) (use assms(2,3) in \<open>auto simp: fetch_task_def\<close>)

lemma modify_spec:
  assumes "inv s"
    and run: "bindE (fetch_task ops i) (\<lambda>t. so_update ops (f t)) s = (r, s')"
    and keep: "\<And>t. t_id (f t) = t_id t"
  shows "inv s' \<and>
     (case r of Inr u \<Rightarrow> \<exists>t. tasks_of s i = Some t \<and> tasks_of s' = (tasks_of s)(i \<mapsto> f t)
      | Inl e \<Rightarrow> tasks_of s' = tasks_of s)"
proof -
  obtain q s1 where q: "fetch_task ops i s = (q, s1)"
    by (cases "fetch_task ops i s")
  show ?thesis
  proof (cases q)
    case (Inl e)
    have "s1 = s"
      using assms(1)
      by (rule get_cases [of s i]) (use q in \<open>auto simp: fetch_task_def\<close>)
    with q Inl run assms(1) show ?thesis by auto
  next
    case (Inr t)
    with q fetch_ok [OF assms(1), of i t s1]
    have t: "s1 = s" "tasks_of s i = Some t" "t_id t = i" by simp_all
    with q Inr run have up: "so_update ops (f t) s = (r, s')" by simp
    show ?thesis
    proof (cases r)
      case (Inl e)
      with up assms(1) update_err [of s "f t" e s'] show ?thesis by simp
    next
      case (Inr u)
      with up assms(1) t keep [of t] modify_ok [of s i t "f t" u s'] show ?thesis by auto
    qed
  qed
qed

lemma all_complete_ok:
  assumes "inv s" "sched_all_complete ops s = (Inr b, s')"
  shows "s' = s \<and>
     (b \<longleftrightarrow> tasks_of s \<noteq> Map.empty \<and> (\<forall>t \<in> ran (tasks_of s). terminal (t_status t)))"
proof -
  from assms(2) obtain ts where ts: "so_list ops None s = (Inr ts, s')"
    and b: "b \<longleftrightarrow> ts \<noteq> [] \<and> list_all (\<lambda>t. terminal (t_status t)) ts"
    by (auto simp: sched_all_complete_def elim!: bindE_InrE)
  from list_ok [OF assms(1) ts] have s': "s' = s" and set: "set ts = ran (tasks_of s)"
    by (auto simp: status_matches_def)
  have "ts = [] \<longleftrightarrow> tasks_of s = Map.empty"
    using set ran_eq_empty_iff [of "tasks_of s"] by (metis set_empty)
  with s' set b show ?thesis by (auto simp: list_all_iff)
qed

end

section \<open>Properties\<close>

text \<open>The three ways a task is ended, as functions of the task.\<close>

definition completed_task :: "time \<Rightarrow> task_result \<Rightarrow> string \<Rightarrow> task \<Rightarrow> task" where
  "completed_task now result summary t =
     t\<lparr>t_status := Completed, t_result := Some result, t_summary := Some summary,
       t_completed_at := Some now\<rparr>"

definition failed_task :: "time \<Rightarrow> string \<Rightarrow> task \<Rightarrow> task" where
  "failed_task now err t =
     t\<lparr>t_status := Failed, t_summary := Some (''Failed: '' @ err), t_completed_at := Some now\<rparr>"

definition killed_task :: "time \<Rightarrow> task \<Rightarrow> task" where
  "killed_task now t = t\<lparr>t_status := Killed, t_completed_at := Some now\<rparr>"

text \<open>
  C1: over any provider that keeps the store contract, ending a task either reports an error and
  leaves every task as it was, or replaces exactly that task by its ended version and leaves every
  other task as it was; the provider's invariant is kept in both cases.
\<close>

theorem sched_end_task_spec:
  assumes "task_store ops invar room tasks_of" and "invar s"
    and "(f, op) \<in> {(completed_task now result summary, sched_mark_completed ops now i result summary),
                    (failed_task now err, sched_mark_failed ops now i err),
                    (killed_task now, sched_kill ops now i)}"
    and "op s = (r, s')"
  shows "invar s' \<and>
     (case r of Inr u \<Rightarrow> \<exists>t. tasks_of s i = Some t \<and> tasks_of s' = (tasks_of s)(i \<mapsto> f t)
      | Inl e \<Rightarrow> tasks_of s' = tasks_of s)"
proof -
  have "op = bindE (fetch_task ops i) (\<lambda>t. so_update ops (f t))" and "\<And>t. t_id (f t) = t_id t"
    using assms(3)
    by (auto simp: sched_defs completed_task_def [abs_def] failed_task_def [abs_def]
        killed_task_def [abs_def])
  then show ?thesis
    using task_store.modify_spec [OF assms(1,2), of i f r s'] assms(4) by simp
qed

definition demo_store :: mem_store where
  "demo_store = snd (sched_create_task (mem_ops ascending) 7 Agent ''build'' [] mem_new)"

lemma demo_store_eq:
  "demo_store = \<lparr> ms_tasks = [1 \<mapsto> (new_task 7 Agent ''build'' [])\<lparr>t_id := 1\<rparr>], ms_next_id = 2 \<rparr>"
  by (simp add: demo_store_def sched_create_task_def mem_new_def mem_defs)

lemma demo_store_inv: "mem_inv demo_store"
  by (simp add: demo_store_eq mem_inv_def keyed_def)

theorem sched_end_task_spec_witness:
  "\<exists>s'. sched_kill (mem_ops ascending) 9 1 demo_store = (Inr (), s') \<and>
     ms_tasks s' = (ms_tasks demo_store)(1 \<mapsto> killed_task 9 (the (ms_tasks demo_store 1)))"
proof -
  obtain s' where run: "sched_kill (mem_ops ascending) 9 1 demo_store = (Inr (), s')"
    by (simp add: sched_kill_def fetch_task_def bindE_def mem_defs demo_store_eq)
  have "mem_inv s' \<and> (case Inr () of Inr u \<Rightarrow> \<exists>t. ms_tasks demo_store 1 = Some t \<and>
          ms_tasks s' = (ms_tasks demo_store)(1 \<mapsto> killed_task 9 t)
        | Inl (e :: store_error) \<Rightarrow> ms_tasks s' = ms_tasks demo_store)"
    by (rule sched_end_task_spec [where op = "sched_kill (mem_ops ascending) 9 1"
          and ops = "mem_ops ascending" and now = 9 and i = 1 and f = "killed_task 9",
          OF mem.task_store_axioms demo_store_inv _ run]) simp
  with run show ?thesis by auto
qed

text \<open>
  The scheduler calls a store all complete exactly when it holds at least one task and every
  task is completed, failed or killed; the check does not change the store.
\<close>

theorem sched_all_complete_spec:
  assumes "task_store ops invar room tasks_of" and "invar s"
    and "sched_all_complete ops s = (Inr b, s')"
  shows "s' = s \<and>
     (b \<longleftrightarrow> tasks_of s \<noteq> Map.empty \<and> (\<forall>t \<in> ran (tasks_of s). terminal (t_status t)))"
  by (rule task_store.all_complete_ok [OF assms])

theorem sched_all_complete_spec_witness:
  "\<exists>b s'. sched_all_complete (mem_ops ascending) demo_store = (Inr b, s') \<and> \<not> b"
proof -
  have run: "\<exists>b s'. sched_all_complete (mem_ops ascending) demo_store = (Inr b, s')"
    by (simp add: sched_all_complete_def bindE_def mem_list_def)
  then obtain b s' where r: "sched_all_complete (mem_ops ascending) demo_store = (Inr b, s')"
    by blast
  from sched_all_complete_spec [OF mem.task_store_axioms demo_store_inv r]
  have "\<not> b"
    by (simp add: demo_store_eq new_task_def terminal_def)
  with r show ?thesis by blast
qed

end
