(* ===== verification/TaskStoreFile.thy ===== *)
theory TaskStoreFile
  imports TaskStore
begin

text \<open>
  The file provider, \<open>crates/vol-llm-task/src/stores/file.rs\<close>: one JSON file per task in
  \<open>tasks/\<close>, a lock file that holds the id counter, and atomic replacement through a temporary
  file.  The state is the content of the directory.  The JSON library and the file system are
  parameters, collected in \<open>file_env\<close>: the serializer and deserializer, the order in which the
  directory is read, and a fault oracle that says which system calls fail and how many bytes a
  failing write leaves behind.
\<close>

section \<open>The environment\<close>

datatype io_call =
    OpenLock | AcquireLock | ReadLock | RewindLock | TruncateLock | WriteLock | FlushLock
  | WriteFile string | RenameFile string | ReadFile string | ReadDir | ReadEntry string
  | RemoveFile string

record file_env =
  fe_ser :: "task \<Rightarrow> string + string"
  fe_de :: "string \<Rightarrow> string + task"
  fe_io :: "io_call \<Rightarrow> (string \<times> nat option) option"
  fe_dir :: "(string \<rightharpoonup> string) \<Rightarrow> string list"

definition serde_roundtrip :: "file_env \<Rightarrow> bool" where
  "serde_roundtrip E \<longleftrightarrow> (\<forall>t x. fe_ser E t = Inr x \<longrightarrow> fe_de E x = Inr t)"

record file_store =
  fs_files :: "string \<rightharpoonup> string"

type_synonym 'a file_eff = "(file_store, store_error, 'a) eff"

definition set_file :: "string \<Rightarrow> string \<Rightarrow> file_store \<Rightarrow> file_store" where
  "set_file n c s = s\<lparr>fs_files := (fs_files s)(n \<mapsto> c)\<rparr>"

definition drop_file :: "string \<Rightarrow> file_store \<Rightarrow> file_store" where
  "drop_file n s = s\<lparr>fs_files := (fs_files s)(n := None)\<rparr>"

definition io :: "file_env \<Rightarrow> io_call \<Rightarrow> (file_store \<Rightarrow> file_store) \<Rightarrow> unit file_eff" where
  "io E call effect s =
     (case fe_io E call of None \<Rightarrow> (Inr (), effect s) | Some (e, _) \<Rightarrow> (Inl (StoreIo e), s))"

text \<open>A failing write leaves the file as it was or holding a prefix of the new content.\<close>

definition write_io :: "file_env \<Rightarrow> io_call \<Rightarrow> string \<Rightarrow> string \<Rightarrow> unit file_eff" where
  "write_io E call n content s =
     (case fe_io E call of
        None \<Rightarrow> (Inr (), set_file n content s)
      | Some (e, None) \<Rightarrow> (Inl (StoreIo e), s)
      | Some (e, Some k) \<Rightarrow> (Inl (StoreIo e), set_file n (take k content) s))"

section \<open>File names\<close>

definition lock_file :: string where
  "lock_file = ''.lock''"

definition task_path :: "task_id \<Rightarrow> string" where
  "task_path i = show_u64 i @ ''.json''"

definition tmp_path :: "task_id \<Rightarrow> string" where
  "tmp_path i = show_u64 i @ ''.tmp''"

section \<open>Operations\<close>

definition lock_content :: "file_store \<Rightarrow> string" where
  "lock_content s = (case fs_files s lock_file of None \<Rightarrow> [] | Some c \<Rightarrow> c)"

definition counter_of :: "string \<Rightarrow> u64" where
  "counter_of buf = (case parse_u64 (trim buf) of None \<Rightarrow> 0 | Some v \<Rightarrow> v)"

definition file_allocate_id :: "file_env \<Rightarrow> task_id file_eff" where
  "file_allocate_id E =
     bindE (io E OpenLock (\<lambda>s. set_file lock_file (lock_content s) s)) (\<lambda>_.
     bindE (io E AcquireLock id) (\<lambda>_.
     bindE (io E ReadLock id) (\<lambda>_.
     bindE (\<lambda>s. ret (counter_of (lock_content s) + 1) s) (\<lambda>next.
     bindE (io E RewindLock id) (\<lambda>_.
     bindE (io E TruncateLock (set_file lock_file [])) (\<lambda>_.
     bindE (write_io E WriteLock lock_file (show_u64 next)) (\<lambda>_.
     bindE (io E FlushLock id) (\<lambda>_.
     ret next))))))))"

definition replace_task_file :: "file_env \<Rightarrow> task \<Rightarrow> unit file_eff" where
  "replace_task_file E t =
     bindE (mapErr StoreSerialization (liftE (fe_ser E t))) (\<lambda>content.
     bindE (write_io E (WriteFile (tmp_path (t_id t))) (tmp_path (t_id t)) content) (\<lambda>_.
     io E (RenameFile (tmp_path (t_id t)))
       (\<lambda>s. case fs_files s (tmp_path (t_id t)) of
              None \<Rightarrow> s
            | Some c \<Rightarrow> drop_file (tmp_path (t_id t)) (set_file (task_path (t_id t)) c s))))"

definition write_task_file :: "file_env \<Rightarrow> task \<Rightarrow> unit file_eff" where
  "write_task_file E t = replace_task_file E t"

definition read_task_file :: "file_env \<Rightarrow> string \<Rightarrow> task option file_eff" where
  "read_task_file E n s =
     (case fe_io E (ReadFile n) of
        Some (e, _) \<Rightarrow> (Inl (StoreIo e), s)
      | None \<Rightarrow>
          (case fs_files s n of
             None \<Rightarrow> (Inr None, s)
           | Some c \<Rightarrow> (case fe_de E c of
                          Inl e \<Rightarrow> (Inl (StoreSerialization e), s)
                        | Inr t \<Rightarrow> (Inr (Some t), s))))"

fun scan_entries :: "file_env \<Rightarrow> string list \<Rightarrow> task_id list file_eff" where
  "scan_entries E [] = ret []"
| "scan_entries E (n # ns) =
     bindE (io E (ReadEntry n) id) (\<lambda>_.
     bindE (scan_entries E ns) (\<lambda>ids.
     ret (case strip_suffix ''.json'' n of
            None \<Rightarrow> ids
          | Some id_str \<Rightarrow> (case parse_u64 id_str of None \<Rightarrow> ids | Some i \<Rightarrow> i # ids))))"

definition scan_task_ids :: "file_env \<Rightarrow> task_id list file_eff" where
  "scan_task_ids E =
     bindE (io E ReadDir id) (\<lambda>_. \<lambda>s. scan_entries E (fe_dir E (fs_files s)) s)"

fun load_tasks :: "file_env \<Rightarrow> task_id list \<Rightarrow> task list file_eff" where
  "load_tasks E [] = ret []"
| "load_tasks E (i # is) =
     bindE (read_task_file E (task_path i)) (\<lambda>r.
     bindE (load_tasks E is) (\<lambda>ts.
     ret (case r of None \<Rightarrow> ts | Some t \<Rightarrow> t # ts)))"

definition load_all_tasks :: "file_env \<Rightarrow> task list file_eff" where
  "load_all_tasks E = bindE (scan_task_ids E) (load_tasks E)"

definition file_create :: "file_env \<Rightarrow> task \<Rightarrow> task_id file_eff" where
  "file_create E t =
     bindE (file_allocate_id E) (\<lambda>i.
     bindE (write_task_file E (t\<lparr>t_id := i\<rparr>)) (\<lambda>_.
     ret i))"

definition file_get :: "file_env \<Rightarrow> task_id \<Rightarrow> task option file_eff" where
  "file_get E i = read_task_file E (task_path i)"

definition file_update :: "file_env \<Rightarrow> task \<Rightarrow> unit file_eff" where
  "file_update E t s =
     (if fs_files s (task_path (t_id t)) = None
      then (Inl (StoreNotFound (''Task '' @ display_task_id (t_id t))), s)
      else replace_task_file E t s)"

definition file_delete :: "file_env \<Rightarrow> task_id \<Rightarrow> unit file_eff" where
  "file_delete E i s =
     (case fe_io E (RemoveFile (task_path i)) of
        Some (e, _) \<Rightarrow> (Inl (StoreIo e), s)
      | None \<Rightarrow> (Inr (), drop_file (task_path i) s))"

definition file_list :: "file_env \<Rightarrow> task_status option \<Rightarrow> task list file_eff" where
  "file_list E f = bindE (load_all_tasks E) (\<lambda>ts. ret (filter (status_matches f) ts))"

definition ready_among :: "task list \<Rightarrow> task_id list" where
  "ready_among ts =
     (let completed_ids = set (map t_id (filter (\<lambda>t. t_status t = Completed) ts))
      in map t_id (filter (\<lambda>t. t_status t = Pending \<and>
           list_all (\<lambda>d. d \<in> completed_ids) (t_dependencies t)) ts))"

definition file_ready :: "file_env \<Rightarrow> task_id list file_eff" where
  "file_ready E = bindE (load_all_tasks E) (\<lambda>ts. ret (ready_among ts))"

definition file_ops :: "file_env \<Rightarrow> file_store store_ops" where
  "file_ops E =
     \<lparr> so_create = file_create E, so_get = file_get E, so_update = file_update E,
       so_delete = file_delete E, so_list = file_list E, so_ready = file_ready E \<rparr>"

lemma file_ops_simps [simp]:
  "so_create (file_ops E) = file_create E"
  "so_get (file_ops E) = file_get E"
  "so_update (file_ops E) = file_update E"
  "so_delete (file_ops E) = file_delete E"
  "so_list (file_ops E) = file_list E"
  "so_ready (file_ops E) = file_ready E"
  by (simp_all add: file_ops_def)

end
