(* ===== verification/TaskStoreFileCorrect.thy ===== *)
theory TaskStoreFileCorrect
  imports TaskStoreFile "HOL-Library.Countable"
begin

text \<open>
  Correctness of the file provider: it keeps the store contract for every fault oracle, every
  directory order and every serializer whose deserializer inverts it.  The invariant ties the
  task files to the id counter; it is what makes a freshly allocated id unused.
\<close>

section \<open>Names\<close>

lemma task_path_inj [simp]: "task_path i = task_path j \<longleftrightarrow> i = j"
  by (simp add: task_path_def)

lemma task_path_not_tmp [simp]: "task_path i \<noteq> tmp_path j" "tmp_path j \<noteq> task_path i"
proof -
  have "last (task_path i) \<noteq> last (tmp_path j)"
    by (simp add: task_path_def tmp_path_def)
  then show "task_path i \<noteq> tmp_path j" "tmp_path j \<noteq> task_path i" by auto
qed

lemma task_path_not_lock [simp]: "task_path i \<noteq> lock_file" "lock_file \<noteq> task_path i"
proof -
  have "last (task_path i) \<noteq> last lock_file"
    by (simp add: task_path_def lock_file_def)
  then show "task_path i \<noteq> lock_file" "lock_file \<noteq> task_path i" by auto
qed

lemma tmp_path_not_lock [simp]: "tmp_path i \<noteq> lock_file" "lock_file \<noteq> tmp_path i"
proof -
  have "last (tmp_path i) \<noteq> last lock_file"
    by (simp add: tmp_path_def lock_file_def)
  then show "tmp_path i \<noteq> lock_file" "lock_file \<noteq> tmp_path i" by auto
qed

lemma digit_not_space: "is_ascii_digit c \<Longrightarrow> \<not> is_space c"
  by (auto simp: is_ascii_digit_def is_space_def)

lemma trim_digits: "list_all is_ascii_digit s \<Longrightarrow> trim s = s"
proof -
  assume a: "list_all is_ascii_digit s"
  then have "dropWhile is_space s = s"
    by (cases s) (auto simp: digit_not_space)
  moreover have "dropWhile is_space (rev s) = rev s"
    using a by (cases "rev s") (auto simp: digit_not_space list_all_iff dest!: arg_cong [where f = set])
  ultimately show ?thesis by (simp add: trim_def trim_start_def trim_end_def)
qed

lemma counter_of_show [simp]: "counter_of (show_u64 n) = n"
  by (simp add: counter_of_def trim_digits show_u64_digits)

lemma set_file_simps [simp]:
  "fs_files (set_file n c s) = (fs_files s)(n \<mapsto> c)"
  "fs_files (drop_file n s) = (fs_files s)(n := None)"
  by (simp_all add: set_file_def drop_file_def)

lemma set_file_twice [simp]: "set_file n c (set_file n d s) = set_file n c s"
  by (simp add: set_file_def)

section \<open>The abstract view and the invariant\<close>

definition file_tasks :: "file_env \<Rightarrow> file_store \<Rightarrow> task_map" where
  "file_tasks E s i =
     (case fs_files s (task_path i) of
        None \<Rightarrow> None
      | Some c \<Rightarrow> (case fe_de E c of Inl _ \<Rightarrow> None | Inr t \<Rightarrow> Some t))"

definition file_counter :: "file_store \<Rightarrow> u64" where
  "file_counter s = counter_of (lock_content s)"

definition file_inv :: "file_env \<Rightarrow> file_store \<Rightarrow> bool" where
  "file_inv E s \<longleftrightarrow>
     finite (dom (fs_files s)) \<and>
     (\<forall>i c. fs_files s (task_path i) = Some c \<longrightarrow>
        (\<exists>t. fe_de E c = Inr t \<and> t_id t = i) \<and> i \<le> file_counter s) \<and>
     (\<forall>b. b @ ''.json'' \<in> dom (fs_files s) \<longrightarrow> (\<forall>i. parse_u64 b = Some i \<longrightarrow> b = show_u64 i))"

definition file_room :: "file_store \<Rightarrow> bool" where
  "file_room s \<longleftrightarrow> file_counter s + 1 \<noteq> 0"

lemma file_tasks_dom:
  "file_inv E s \<Longrightarrow> i \<in> dom (file_tasks E s) \<longleftrightarrow> task_path i \<in> dom (fs_files s)"
  by (fastforce simp: file_inv_def file_tasks_def dom_def split: option.splits sum.splits)

lemma file_inv_keyed: "file_inv E s \<Longrightarrow> keyed (file_tasks E s)"
  by (fastforce simp: file_inv_def file_tasks_def keyed_def split: option.splits sum.splits)

text \<open>
  What the invariant and the abstract view depend on: the task files, the lock file, and the
  finiteness of the directory.  Temporary files do not matter.
\<close>

definition same_tasks :: "file_store \<Rightarrow> file_store \<Rightarrow> bool" where
  "same_tasks s s' \<longleftrightarrow>
     (\<forall>n. n \<noteq> lock_file \<longrightarrow> (\<forall>i. n \<noteq> tmp_path i) \<longrightarrow> fs_files s' n = fs_files s n)"

lemma json_not_tmp: "b @ ''.json'' \<noteq> tmp_path i" "b @ ''.json'' \<noteq> lock_file"
proof -
  have "last (b @ ''.json'') \<noteq> last (tmp_path i)" "last (b @ ''.json'') \<noteq> last lock_file"
    by (simp_all add: tmp_path_def lock_file_def)
  then show "b @ ''.json'' \<noteq> tmp_path i" "b @ ''.json'' \<noteq> lock_file" by metis+
qed

lemma same_tasks_path: "same_tasks s s' \<Longrightarrow> fs_files s' (task_path i) = fs_files s (task_path i)"
  by (simp add: same_tasks_def)

lemma same_tasks_json: "same_tasks s s' \<Longrightarrow> fs_files s' (b @ ''.json'') = fs_files s (b @ ''.json'')"
  using json_not_tmp by (simp add: same_tasks_def)

lemma same_tasks_view: "same_tasks s s' \<Longrightarrow> file_tasks E s' = file_tasks E s"
  by (rule ext) (simp add: file_tasks_def same_tasks_path)

lemma same_tasks_inv:
  assumes "file_inv E s" "same_tasks s s'" "finite (dom (fs_files s'))"
    "file_counter s \<le> file_counter s'"
  shows "file_inv E s'"
  using assms unfolding file_inv_def
  by (simp add: same_tasks_path same_tasks_json dom_def) (meson order_trans)

lemma same_tasks_refl [simp]: "same_tasks s s"
  by (simp add: same_tasks_def)

lemma same_tasks_set [simp]:
  "same_tasks s (set_file lock_file c s)" "same_tasks s (set_file (tmp_path i) c s)"
  by (simp_all add: same_tasks_def)

lemma same_tasks_trans: "same_tasks s t \<Longrightarrow> same_tasks t u \<Longrightarrow> same_tasks s u"
  by (simp add: same_tasks_def)

lemma lock_content_set [simp]:
  "lock_content (set_file lock_file c s) = c"
  "lock_content (set_file (tmp_path i) c s) = lock_content s"
  "lock_content (set_file (task_path i) c s) = lock_content s"
  "lock_content (drop_file (tmp_path i) s) = lock_content s"
  "lock_content (drop_file (task_path i) s) = lock_content s"
  by (simp_all add: lock_content_def)

section \<open>Single steps\<close>

lemma io_cases:
  "io E c f s = (Inr (), f s) \<or> (\<exists>e. io E c f s = (Inl (StoreIo e), s))"
  by (auto simp: io_def split: option.splits)

lemma io_Inr: "io E c f s = (Inr u, s') \<Longrightarrow> s' = f s"
  by (auto simp: io_def split: option.splits)

lemma io_Inl: "io E c f s = (Inl e, s') \<Longrightarrow> s' = s"
  by (auto simp: io_def split: option.splits)

lemma write_io_Inr: "write_io E c n x s = (Inr u, s') \<Longrightarrow> s' = set_file n x s"
  by (auto simp: write_io_def split: option.splits)

lemma write_io_Inl: "write_io E c n x s = (Inl e, s') \<Longrightarrow> s' = s \<or> (\<exists>k. s' = set_file n (take k x) s)"
  by (auto simp: write_io_def split: option.splits)

lemma allocate_ok:
  assumes "file_allocate_id E s = (Inr i, s')"
  shows "i = file_counter s + 1" "s' = set_file lock_file (show_u64 i) s"
  using assms
  by (auto simp: file_allocate_id_def file_counter_def elim!: bindE_InrE
      dest!: io_Inr write_io_Inr)

lemma bindE_InlE:
  assumes "bindE m f s = (Inl e, t)"
  obtains (first) "m s = (Inl e, t)" | (rest) x s' where "m s = (Inr x, s')" and "f x s' = (Inl e, t)"
  using assms by (auto simp: bindE_def split: prod.splits sum.splits)

lemma allocate_err:
  assumes "file_allocate_id E s = (Inl e, s')"
  shows "same_tasks s s'"
  using assms
  by (auto simp: file_allocate_id_def same_tasks_def elim!: bindE_InlE
      dest!: io_Inr io_Inl write_io_Inr write_io_Inl)

lemma replace_ok:
  assumes "replace_task_file E t s = (Inr u, s')"
  obtains x where "fe_ser E t = Inr x"
    "s' = drop_file (tmp_path (t_id t)) (set_file (task_path (t_id t)) x
            (set_file (tmp_path (t_id t)) x s))"
  using assms
  by (auto simp: replace_task_file_def mapErr_def split: sum.splits elim!: bindE_InrE
      dest!: io_Inr write_io_Inr)

lemma replace_err:
  assumes "replace_task_file E t s = (Inl e, s')"
  shows "s' = s \<or> (\<exists>x. s' = set_file (tmp_path (t_id t)) x s)"
proof (cases "fe_ser E t")
  case (Inl a)
  with assms show ?thesis by (simp add: replace_task_file_def mapErr_def bindE_def)
next
  case (Inr x)
  obtain r s1 where w: "write_io E (WriteFile (tmp_path (t_id t))) (tmp_path (t_id t)) x s = (r, s1)"
    by (cases "write_io E (WriteFile (tmp_path (t_id t))) (tmp_path (t_id t)) x s")
  show ?thesis
  proof (cases r)
    case (Inl a)
    with w Inr assms write_io_Inl [of E _ _ x s a s1] show ?thesis
      by (auto simp: replace_task_file_def mapErr_def bindE_def)
  next
    case Inr2: (Inr u)
    with w have "s1 = set_file (tmp_path (t_id t)) x s" by (auto dest: write_io_Inr)
    with w Inr Inr2 assms show ?thesis
      by (auto simp: replace_task_file_def mapErr_def bindE_def split: prod.splits sum.splits
          dest!: io_Inl)
  qed
qed

section \<open>Replacing a task file\<close>

lemma replaced_view:
  assumes "serde_roundtrip E" "fe_ser E t = Inr x"
  shows "file_tasks E (drop_file (tmp_path i) (set_file (task_path i) x (set_file (tmp_path i) x s)))
         = (file_tasks E s)(i \<mapsto> t)"
  using assms by (auto simp: file_tasks_def serde_roundtrip_def fun_eq_iff)

lemma replaced_inv:
  assumes "serde_roundtrip E" "fe_ser E t = Inr x" "file_inv E s" "i \<le> file_counter s" "t_id t = i"
  shows "file_inv E (drop_file (tmp_path i) (set_file (task_path i) x (set_file (tmp_path i) x s)))"
    (is "file_inv E ?s'")
proof -
  have de: "fe_de E x = Inr t" using assms(1,2) by (simp add: serde_roundtrip_def)
  have cnt: "file_counter ?s' = file_counter s" by (simp add: file_counter_def)
  have fin: "finite (dom (fs_files ?s'))" using assms(3) by (simp add: file_inv_def)
  have paths: "fs_files ?s' (task_path j) = (if j = i then Some x else fs_files s (task_path j))" for j
    by simp
  have json: "b = show_u64 k"
    if "b @ ''.json'' \<in> dom (fs_files ?s')" "parse_u64 b = Some k" for b k
  proof (cases "b @ ''.json'' = task_path i")
    case True
    then have "b = show_u64 i" by (simp add: task_path_def)
    with that(2) show ?thesis by simp
  next
    case False
    with that json_not_tmp(1) [of b i] have "b @ ''.json'' \<in> dom (fs_files s)"
      by (auto split: if_splits)
    with assms(3) that(2) show ?thesis by (auto simp: file_inv_def)
  qed
  show ?thesis
    unfolding file_inv_def cnt paths
    using fin json assms(3-5) de by (auto simp: file_inv_def)
qed

section \<open>Create, update, delete\<close>

lemma file_create_ok:
  assumes E: "serde_roundtrip E" and s: "file_inv E s" "file_room s"
    and run: "file_create E t s = (Inr i, s')"
  shows "file_inv E s' \<and> file_tasks E s i = None \<and>
         file_tasks E s' = (file_tasks E s)(i \<mapsto> t\<lparr>t_id := i\<rparr>)"
proof -
  let ?s1 = "set_file lock_file (show_u64 i) s"
  from run obtain s1 where al: "file_allocate_id E s = (Inr i, s1)"
    and rep: "replace_task_file E (t\<lparr>t_id := i\<rparr>) s1 = (Inr (), s')"
    by (auto simp: file_create_def write_task_file_def elim!: bindE_InrE)
  from allocate_ok [OF al] have i: "i = file_counter s + 1" and s1: "s1 = ?s1" by auto
  have above: "file_counter s < i"
    using s(2) i unatSuc [of "file_counter s"] by (simp add: file_room_def word_less_nat_alt add.commute)
  have none: "fs_files s (task_path i) = None"
    using s(1) above by (cases "fs_files s (task_path i)") (fastforce simp: file_inv_def)+
  have cnt: "file_counter ?s1 = i" by (simp add: file_counter_def)
  have inv1: "file_inv E ?s1"
    using s(1) same_tasks_inv [of E s ?s1] above cnt by (simp add: file_inv_def)
  from rep s1 obtain x where x: "fe_ser E (t\<lparr>t_id := i\<rparr>) = Inr x"
    and s': "s' = drop_file (tmp_path i) (set_file (task_path i) x (set_file (tmp_path i) x ?s1))"
    by (auto elim!: replace_ok)
  have "file_tasks E ?s1 = file_tasks E s"
    by (rule same_tasks_view) simp
  then show ?thesis
    using replaced_view [OF E x, of i ?s1] replaced_inv [OF E x inv1, of i] cnt none s'
    by (simp add: file_tasks_def)
qed

lemma file_create_err:
  assumes "file_create E t s = (Inl e, s')"
  shows "file_tasks E s' = file_tasks E s"
proof -
  have "same_tasks s s'"
  proof (cases "file_allocate_id E s")
    case (Pair r s1)
    show ?thesis
    proof (cases r)
      case (Inl a)
      with Pair assms show ?thesis
        by (auto simp: file_create_def bindE_def dest: allocate_err)
    next
      case (Inr i)
      have "s1 = set_file lock_file (show_u64 i) s"
        using Pair Inr allocate_ok(2) [of E s i s1] by simp
      moreover have "replace_task_file E (t\<lparr>t_id := i\<rparr>) s1 = (Inl e, s')"
        using Pair Inr assms
        by (auto simp: file_create_def write_task_file_def bindE_def split: prod.splits sum.splits)
      ultimately show ?thesis
        using replace_err [of E "t\<lparr>t_id := i\<rparr>" s1 e s'] by (auto simp: same_tasks_def)
    qed
  qed
  then show ?thesis by (rule same_tasks_view)
qed

lemma file_update_ok:
  assumes E: "serde_roundtrip E" and s: "file_inv E s"
    and run: "file_update E t s = (Inr u, s')"
  shows "file_inv E s' \<and> t_id t \<in> dom (file_tasks E s) \<and>
         file_tasks E s' = (file_tasks E s)(t_id t \<mapsto> t)"
proof -
  from run have ex: "fs_files s (task_path (t_id t)) \<noteq> None"
    and rep: "replace_task_file E t s = (Inr u, s')"
    by (auto simp: file_update_def split: if_splits)
  then have "t_id t \<le> file_counter s" and "t_id t \<in> dom (file_tasks E s)"
    using s file_tasks_dom [OF s, of "t_id t"] by (auto simp: file_inv_def)
  with rep show ?thesis
    using replaced_view [OF E, of t _ "t_id t" s] replaced_inv [OF E _ s, of t _ "t_id t"]
    by (auto elim!: replace_ok)
qed

lemma file_update_err:
  assumes s: "file_inv E s" and run: "file_update E t s = (Inl e, s')"
  shows "file_inv E s' \<and> file_tasks E s' = file_tasks E s"
proof -
  from run have "s' = s \<or> (\<exists>x. s' = set_file (tmp_path (t_id t)) x s)"
    by (auto simp: file_update_def dest: replace_err split: if_splits)
  then have "same_tasks s s'" "finite (dom (fs_files s'))" "file_counter s' = file_counter s"
    using s by (auto simp: file_inv_def file_counter_def)
  then show ?thesis
    using same_tasks_inv [OF s] same_tasks_view by simp
qed

lemma file_delete_ok:
  assumes s: "file_inv E s" and run: "file_delete E i s = (Inr u, s')"
  shows "file_inv E s' \<and> file_tasks E s' = (file_tasks E s)(i := None)"
proof -
  from run have s': "s' = drop_file (task_path i) s"
    by (auto simp: file_delete_def split: option.splits)
  have "file_inv E s'"
    using s unfolding s' file_inv_def by (auto simp: file_counter_def split: if_splits)
  moreover have "file_tasks E s' = (file_tasks E s)(i := None)"
    by (auto simp: s' file_tasks_def fun_eq_iff)
  ultimately show ?thesis by simp
qed

section \<open>Listing\<close>

lemma scan_entries_ok:
  assumes "scan_entries E ns s = (Inr ids, s')"
  shows "s' = s" "ids = List.map_filter (\<lambda>n. case strip_suffix ''.json'' n of None \<Rightarrow> None
                                             | Some b \<Rightarrow> parse_u64 b) ns"
  using assms
  by (induction ns arbitrary: ids)
     (auto simp: map_filter_simps split: option.splits elim!: bindE_InrE dest!: io_Inr)

lemma load_tasks_ok:
  assumes "load_tasks E is s = (Inr ts, s')"
  shows "s' = s" "ts = List.map_filter (file_tasks E s) is"
  using assms
  by (induction "is" arbitrary: ts)
     (auto simp: map_filter_simps file_tasks_def read_task_file_def
       split: option.splits sum.splits elim!: bindE_InrE)

lemma scan_ids_set:
  assumes "file_inv E s" "enumerates ns (fs_files s)"
  defines "f \<equiv> (\<lambda>n. case strip_suffix ''.json'' n of None \<Rightarrow> None | Some b \<Rightarrow> parse_u64 b)"
  shows "distinct (List.map_filter f ns)" "set (List.map_filter f ns) = dom (file_tasks E s)"
proof -
  have f: "f n = Some i \<longleftrightarrow> n = task_path i" if "n \<in> set ns" for n i
    using that assms(1,2)
    by (auto simp: f_def file_inv_def enumerates_def task_path_def split: option.splits
        dest!: strip_suffix_SomeD)
  have sub: "set xs \<subseteq> set ns \<Longrightarrow> set (List.map_filter f xs) = {i. task_path i \<in> set xs}" for xs
    by (auto simp: set_map_filter) (metis f subsetD)+
  show "set (List.map_filter f ns) = dom (file_tasks E s)"
    using sub [of ns] file_tasks_dom [OF assms(1)] assms(2)
    by (simp add: enumerates_def set_eq_iff)
  have "set xs \<subseteq> set ns \<Longrightarrow> distinct xs \<Longrightarrow> distinct (List.map_filter f xs)" for xs
    by (induction xs) (auto simp: map_filter_simps sub f split: option.splits)
  then show "distinct (List.map_filter f ns)"
    using assms(2) by (simp add: enumerates_def)
qed

lemma load_all_ok:
  assumes "file_inv E s" "iter_order (fe_dir E)" "load_all_tasks E s = (Inr ts, s')"
  shows "s' = s" "distinct ts" "set ts = ran (file_tasks E s)"
proof -
  from assms(3) obtain ids s1 where sc: "scan_task_ids E s = (Inr ids, s1)"
    and ld: "load_tasks E ids s1 = (Inr ts, s')"
    by (auto simp: load_all_tasks_def elim!: bindE_InrE)
  from sc have en: "scan_entries E (fe_dir E (fs_files s)) s = (Inr ids, s1)"
    by (auto simp: scan_task_ids_def elim!: bindE_InrE dest!: io_Inr)
  have fin: "finite (dom (fs_files s))" using assms(1) by (simp add: file_inv_def)
  from scan_ids_set [OF assms(1) iter_orderD [OF assms(2) fin]] scan_entries_ok [OF en]
  have ids: "enumerates ids (file_tasks E s)" and "s1 = s"
    by (simp_all add: enumerates_def)
  with load_tasks_ok [OF ld] have "s' = s" "ts = map_values ids (file_tasks E s)"
    by (simp_all add: map_values_def)
  then show "s' = s" "distinct ts" "set ts = ran (file_tasks E s)"
    using ids distinct_map_values [OF file_inv_keyed [OF assms(1)] ids]
    by (simp_all add: set_map_values_enumerates)
qed

lemma file_list_ok:
  assumes "file_inv E s" "iter_order (fe_dir E)" "file_list E f s = (Inr ts, s')"
  shows "s' = s \<and> distinct ts \<and> set ts = {t \<in> ran (file_tasks E s). status_matches f t}"
  using assms(3) load_all_ok [OF assms(1,2)]
  by (auto simp: file_list_def elim!: bindE_InrE)

lemma keyed_ran: "keyed m \<Longrightarrow> t \<in> ran m \<longleftrightarrow> m (t_id t) = Some t"
  by (auto simp: ran_def keyed_def)

lemma file_ready_ok:
  assumes "file_inv E s" "iter_order (fe_dir E)" "file_ready E s = (Inr is, s')"
  shows "s' = s \<and> distinct is \<and> set is = {i. is_ready (file_tasks E s) i}"
proof -
  let ?m = "file_tasks E s"
  from assms(3) obtain ts where ld: "load_all_tasks E s = (Inr ts, s')" and r: "is = ready_among ts"
    by (auto simp: file_ready_def elim!: bindE_InrE)
  note ts = load_all_ok [OF assms(1,2) ld]
  note keyed = file_inv_keyed [OF assms(1)]
  have mem: "t \<in> set ts \<longleftrightarrow> ?m (t_id t) = Some t" for t
    using ts(3) keyed_ran [OF keyed] by simp
  have comp: "d \<in> set (map t_id (filter (\<lambda>t. t_status t = Completed) ts)) \<longleftrightarrow> is_completed ?m d" for d
    using mem keyed by (force simp: is_completed_def split: option.splits)
  have inj: "inj_on t_id (set ts)"
    using mem by (metis inj_onI option.inject)
  have "is = map t_id (filter (\<lambda>t. t_status t = Pending \<and> list_all (is_completed ?m) (t_dependencies t)) ts)"
    and s': "s' = s"
    using r ts(1) by (simp_all add: ready_among_def Let_def comp del: set_map set_filter)
  then have "distinct is" and "set is = {i. is_ready ?m i}"
    using ts(2) inj mem keyed
    by (auto simp: distinct_map is_ready_def list_all_iff image_iff inj_on_def split: option.splits)
  with s' show ?thesis by simp
qed

section \<open>The contract\<close>

lemma file_read_only:
  "file_get E i s = (r, s') \<Longrightarrow> s' = s"
  by (auto simp: file_get_def read_task_file_def split: option.splits sum.splits)

lemma scan_entries_err: "scan_entries E ns s = (Inl e, s') \<Longrightarrow> s' = s"
  by (induction ns arbitrary: s s' e)
     (auto simp: bindE_def split: prod.splits sum.splits dest: io_Inl io_Inr dest!: scan_entries_ok(1))

lemma load_tasks_err: "load_tasks E is s = (Inl e, s') \<Longrightarrow> s' = s"
  by (induction "is" arbitrary: s s' e)
     (auto simp: bindE_def split: prod.splits sum.splits
       dest: file_read_only [unfolded file_get_def] dest!: load_tasks_ok(1))

lemma load_all_err: "load_all_tasks E s = (Inl e, s') \<Longrightarrow> s' = s"
  by (auto simp: load_all_tasks_def scan_task_ids_def bindE_def split: prod.splits sum.splits
      dest!: io_Inl io_Inr scan_entries_err load_tasks_err scan_entries_ok(1))

lemma file_task_store:
  assumes "serde_roundtrip E" "iter_order (fe_dir E)"
  shows "task_store (file_ops E) (file_inv E) file_room (file_tasks E)"
proof unfold_locales
  fix s i r s'
  assume "file_inv E s" "so_get (file_ops E) i s = (Inr r, s')"
  then show "r = file_tasks E s i \<and> s' = s"
    by (auto simp: file_get_def read_task_file_def file_tasks_def split: option.splits sum.splits)
next
  fix s t i s'
  assume "file_inv E s" "file_room s" "so_create (file_ops E) t s = (Inr i, s')"
  then show "file_inv E s' \<and> file_tasks E s i = None \<and>
             file_tasks E s' = (file_tasks E s)(i \<mapsto> t\<lparr>t_id := i\<rparr>)"
    using file_create_ok [OF assms(1), of s t i s'] by simp
next
  fix s t u s'
  assume "file_inv E s" "so_update (file_ops E) t s = (Inr u, s')"
  then show "file_inv E s' \<and> file_tasks E s' = (file_tasks E s)(t_id t \<mapsto> t)"
    using file_update_ok [OF assms(1), of s t u s'] by simp
next
  fix s f ts s'
  assume "file_inv E s" "so_list (file_ops E) f s = (Inr ts, s')"
  then show "s' = s \<and> distinct ts \<and> set ts = {t \<in> ran (file_tasks E s). status_matches f t}"
    using file_list_ok [of E s f ts s'] assms(2) by simp
next
  fix s "is" s'
  assume "file_inv E s" "so_ready (file_ops E) s = (Inr is, s')"
  then show "s' = s \<and> distinct is \<and> set is = {i. is_ready (file_tasks E s) i}"
    using file_ready_ok [of E s "is" s'] assms(2) by simp
next
  fix f s e s'
  assume "so_list (file_ops E) f s = (Inl e, s')"
  then show "s' = s"
    using load_all_ok [of E s] load_all_err [of E s]
    by (auto simp: file_list_def bindE_def split: prod.splits sum.splits)
next
  fix s e s'
  assume "so_ready (file_ops E) s = (Inl e, s')"
  then show "s' = s"
    using load_all_err [of E s]
    by (auto simp: file_ready_def bindE_def Let_def split: prod.splits sum.splits)
qed (auto dest: file_inv_keyed file_create_err file_update_err file_delete_ok file_read_only)

section \<open>An instance\<close>

text \<open>
  A total serializer with its inverse exists for tasks (they are countable), so the contract is
  inhabited: no system call fails and the directory is read in ascending order of names.
\<close>

instance task_status :: countable by countable_datatype
instance task_kind :: countable by countable_datatype

type_synonym task_tuple =
  "(nat \<times> task_status \<times> task_kind \<times> string option \<times> string option \<times> string \<times> string \<times> string option) \<times>
   (nat list \<times> nat list \<times> (bool \<times> string \<times> string) option \<times> string option \<times> string option \<times>
    time \<times> time option \<times> time option)"

definition tuple_of_task :: "task \<Rightarrow> task_tuple" where
  "tuple_of_task t =
     ((unat (t_id t), t_status t, t_kind t, t_publisher t, t_assignee t, t_subject t,
       t_description t, t_active_form t),
      (map unat (t_dependencies t), map unat (t_blocks t),
       map_option (\<lambda>r. (tr_success r, tr_output_truncated r, tr_output_file r)) (t_result t),
       t_summary t, t_output_file t, t_created_at t, t_started_at t, t_completed_at t))"

definition task_of_tuple :: "task_tuple \<Rightarrow> task" where
  "task_of_tuple = (\<lambda>((i, st, k, p, a, sub, d, af), (deps, bl, r, su, out, c, sa, ca)).
     \<lparr> t_id = of_nat i, t_status = st, t_kind = k, t_publisher = p, t_assignee = a, t_subject = sub,
       t_description = d, t_active_form = af, t_dependencies = map of_nat deps,
       t_blocks = map of_nat bl,
       t_result = map_option (\<lambda>(s, ot, f). \<lparr>tr_success = s, tr_output_truncated = ot,
                                               tr_output_file = f\<rparr>) r,
       t_summary = su, t_output_file = out, t_created_at = c, t_started_at = sa,
       t_completed_at = ca \<rparr>)"

lemma task_result_eta: "\<lparr>tr_success = tr_success r, tr_output_truncated = tr_output_truncated r,
    tr_output_file = tr_output_file r\<rparr> = r"
  by simp

lemma task_of_tuple_of_task [simp]: "task_of_tuple (tuple_of_task t) = t"
  by (cases t)
     (simp add: tuple_of_task_def task_of_tuple_def o_def option.map_comp task_result_eta
        option.map_ident map_idI del: task_result.surjective)

definition demo_env :: file_env where
  "demo_env =
     \<lparr> fe_ser = (\<lambda>t. Inr (show_nat (to_nat (tuple_of_task t)))),
       fe_de = (\<lambda>x. Inr (task_of_tuple (from_nat (digits_val x)))),
       fe_io = (\<lambda>_. None),
       fe_dir = (\<lambda>m. map from_nat (sorted_list_of_set (to_nat ` dom m))) \<rparr>"

lemma demo_env_roundtrip: "serde_roundtrip demo_env"
  by (simp add: serde_roundtrip_def demo_env_def)

lemma demo_env_order: "iter_order (fe_dir demo_env)"
proof -
  have "inj_on (from_nat :: nat \<Rightarrow> string) (to_nat ` (A :: string set))" for A
    by (auto simp: inj_on_def)
  then show ?thesis
    by (simp add: iter_order_def enumerates_def demo_env_def distinct_map image_image)
qed

interpretation files: task_store "file_ops demo_env" "file_inv demo_env" file_room "file_tasks demo_env"
  by (rule file_task_store [OF demo_env_roundtrip demo_env_order])

definition empty_dir :: file_store where
  "empty_dir = \<lparr> fs_files = Map.empty \<rparr>"

lemma empty_dir_inv: "file_inv E empty_dir" "file_room empty_dir"
  by (simp_all add: file_inv_def file_room_def file_counter_def lock_content_def counter_of_def
      empty_dir_def parse_u64_def trim_def trim_start_def trim_end_def)

section \<open>Properties\<close>

text \<open>
  A successful \<open>create\<close> of the file store allocates an id no stored task has, stores exactly
  the given task under it, leaves all other tasks alone, keeps the directory well formed, and a
  following \<open>get\<close> that does not hit a read error returns the task; whatever the other system
  calls, the directory order and the serializer do.
\<close>

theorem file_create_then_get:
  assumes "serde_roundtrip E" and "file_inv E s" and "file_room s"
    and "file_create E t s = (Inr i, s')"
  shows "file_inv E s' \<and> i \<notin> dom (file_tasks E s) \<and>
     file_tasks E s' = (file_tasks E s)(i \<mapsto> t\<lparr>t_id := i\<rparr>) \<and>
     (fe_io E (ReadFile (task_path i)) = None \<longrightarrow>
        file_get E i s' = (Inr (Some (t\<lparr>t_id := i\<rparr>)), s'))"
proof -
  note c = file_create_ok [OF assms]
  have "file_tasks E s' i = Some (t\<lparr>t_id := i\<rparr>)" using c by simp
  then have "fe_io E (ReadFile (task_path i)) = None \<longrightarrow>
      file_get E i s' = (Inr (Some (t\<lparr>t_id := i\<rparr>)), s')"
    by (auto simp: file_get_def read_task_file_def file_tasks_def split: option.splits sum.splits)
  with c show ?thesis by (auto simp: domIff)
qed

lemma demo_create:
  "\<exists>s'. file_create demo_env t s = (Inr (file_counter s + 1), s')"
  by (simp add: file_create_def file_allocate_id_def write_task_file_def replace_task_file_def
      mapErr_def bindE_def io_def write_io_def demo_env_def file_counter_def)

theorem file_create_then_get_witness:
  "\<exists>s'. file_create demo_env (new_task 3 Agent ''a'' []) empty_dir = (Inr 1, s') \<and>
     file_get demo_env 1 s' = (Inr (Some ((new_task 3 Agent ''a'' [])\<lparr>t_id := 1\<rparr>)), s')"
proof -
  have "file_counter empty_dir = 0"
    by (simp add: file_counter_def lock_content_def counter_of_def empty_dir_def parse_u64_def
        trim_def trim_start_def trim_end_def)
  then obtain s' where run: "file_create demo_env (new_task 3 Agent ''a'' []) empty_dir = (Inr 1, s')"
    using demo_create [of "new_task 3 Agent ''a'' []" empty_dir] by auto
  have "fe_io demo_env (ReadFile (task_path 1)) = None"
    by (simp add: demo_env_def)
  with file_create_then_get [OF demo_env_roundtrip empty_dir_inv run] run show ?thesis by blast
qed

text \<open>
  C2: replacing a task file is atomic: whichever system call of an \<open>update\<close> fails, and however
  many bytes a failing write leaves behind, every task of the store afterwards is either as
  before or, for the updated id only, the new version; an error means nothing changed, and the
  directory stays well formed.
\<close>

theorem file_update_atomic:
  assumes "serde_roundtrip E" and "file_inv E s" and "file_update E t s = (r, s')"
  shows "file_inv E s' \<and>
     file_tasks E s' = (case r of Inl e \<Rightarrow> file_tasks E s
                                | Inr u \<Rightarrow> (file_tasks E s)(t_id t \<mapsto> t))"
  using assms file_update_ok [OF assms(1,2)] file_update_err [OF assms(2)]
  by (cases r) auto

definition torn_env :: file_env where
  "torn_env = demo_env\<lparr>fe_io := (\<lambda>c. case c of WriteFile _ \<Rightarrow> Some (''disk full'', Some 4) | _ \<Rightarrow> None)\<rparr>"

theorem file_update_atomic_witness:
  "\<exists>s e s'. file_inv torn_env s \<and> fs_files s (task_path 1) \<noteq> None \<and>
     file_update torn_env ((new_task 8 Agent ''b'' [])\<lparr>t_id := 1\<rparr>) s = (Inl e, s') \<and> s' \<noteq> s \<and>
     file_tasks torn_env s' = file_tasks torn_env s"
proof -
  let ?t = "(new_task 3 Agent ''a'' [])\<lparr>t_id := 1\<rparr>"
  let ?u = "(new_task 8 Agent ''b'' [])\<lparr>t_id := 1\<rparr>"
  let ?x = "show_nat (to_nat (tuple_of_task ?t))" and ?y = "show_nat (to_nat (tuple_of_task ?u))"
  let ?s = "set_file (task_path 1) ?x (set_file lock_file (show_u64 1) empty_dir)"
  let ?s' = "set_file (tmp_path 1) (take 4 ?y) ?s"
  have rt: "serde_roundtrip torn_env"
    using demo_env_roundtrip by (simp add: serde_roundtrip_def torn_env_def)
  have "b = show_u64 i" if "b @ ''.json'' = task_path 1" "parse_u64 b = Some i" for b i
    using that by (auto simp: task_path_def)
  then have inv: "file_inv torn_env ?s"
    using json_not_tmp(2)
    by (auto simp: file_inv_def file_counter_def torn_env_def demo_env_def empty_dir_def split: if_splits)
  have run: "file_update torn_env ?u ?s = (Inl (StoreIo ''disk full''), ?s')"
    by (simp add: file_update_def replace_task_file_def mapErr_def bindE_def write_io_def
        torn_env_def demo_env_def)
  have "fs_files ?s' (tmp_path 1) \<noteq> fs_files ?s (tmp_path 1)"
    by (simp add: empty_dir_def)
  then have "?s' \<noteq> ?s" by metis
  moreover have "file_tasks torn_env ?s' = file_tasks torn_env ?s"
    using file_update_atomic [OF rt inv run] by simp
  moreover have "fs_files ?s (task_path 1) \<noteq> None" by simp
  ultimately show ?thesis using inv run by blast
qed

text \<open>
  The id counter is not crash safe: when the write of the next value fails after the lock file
  has been truncated, the counter reads as 0 again, so the next successful \<open>create\<close> hands out id 1
  and replaces whatever task was stored under it.
\<close>

theorem file_counter_reset:
  assumes "\<forall>c \<in> {OpenLock, AcquireLock, ReadLock, RewindLock, TruncateLock}. fe_io E c = None"
    and "fe_io E WriteLock = Some (e, None)"
    and "file_create E t s = (r, s')"
    and "serde_roundtrip E'" and "file_create E' t' s' = (Inr i, s'')"
  shows "r = Inl (StoreIo e) \<and> file_tasks E' s' = file_tasks E' s \<and> i = 1 \<and>
     file_tasks E' s'' = (file_tasks E' s)(1 \<mapsto> t'\<lparr>t_id := 1\<rparr>)"
proof -
  have "s' = set_file lock_file [] s" and r: "r = Inl (StoreIo e)"
    using assms(1-3)
    by (auto simp: file_create_def file_allocate_id_def bindE_def io_def write_io_def)
  then have cnt: "file_counter s' = 0" and same: "file_tasks E' s' = file_tasks E' s"
    using same_tasks_view [of s s' E']
    by (simp_all add: file_counter_def counter_of_def parse_u64_def trim_def trim_start_def trim_end_def)
  from assms(5) obtain s1 where al: "file_allocate_id E' s' = (Inr i, s1)"
    and rep: "replace_task_file E' (t'\<lparr>t_id := i\<rparr>) s1 = (Inr (), s'')"
    by (auto simp: file_create_def write_task_file_def elim!: bindE_InrE)
  from allocate_ok [OF al] cnt have i: "i = 1" and "s1 = set_file lock_file (show_u64 1) s'" by auto
  then have "file_tasks E' s1 = file_tasks E' s"
    using same_tasks_view [of s' s1 E'] same by simp
  with rep i replaced_view [OF assms(4)] have "file_tasks E' s'' = (file_tasks E' s)(1 \<mapsto> t'\<lparr>t_id := 1\<rparr>)"
    by (auto elim!: replace_ok)
  with r same i show ?thesis by simp
qed

lemma demo_task_file: "\<exists>s. file_tasks demo_env s 1 \<noteq> None"
  by (rule exI [where x = "set_file (task_path 1) [] empty_dir"])
     (simp add: file_tasks_def demo_env_def)

definition stuck_env :: file_env where
  "stuck_env = demo_env\<lparr>fe_io := (\<lambda>c. if c = WriteLock then Some (''no space'', None) else None)\<rparr>"

theorem file_counter_reset_witness:
  "\<exists>s s' s''. file_tasks demo_env s 1 \<noteq> None \<and>
     file_create stuck_env (new_task 5 Agent ''b'' []) s = (Inl (StoreIo ''no space''), s') \<and>
     file_create demo_env (new_task 6 Agent ''c'' []) s' = (Inr 1, s'') \<and>
     file_tasks demo_env s'' 1 = Some ((new_task 6 Agent ''c'' [])\<lparr>t_id := 1\<rparr>)"
proof -
  obtain s where s: "file_tasks demo_env s 1 \<noteq> None"
    using demo_task_file by blast
  obtain r s' where fail: "file_create stuck_env (new_task 5 Agent ''b'' []) s = (r, s')"
    by (cases "file_create stuck_env (new_task 5 Agent ''b'' []) s")
  obtain i s'' where again: "file_create demo_env (new_task 6 Agent ''c'' []) s' = (Inr i, s'')"
    using demo_create by blast
  have "\<forall>c \<in> {OpenLock, AcquireLock, ReadLock, RewindLock, TruncateLock}. fe_io stuck_env c = None"
    and "fe_io stuck_env WriteLock = Some (''no space'', None)"
    by (simp_all add: stuck_env_def)
  from file_counter_reset [OF this fail demo_env_roundtrip again] s fail again
  show ?thesis by auto
qed

end
