(* ===== verification/ToolTypes.thy ===== *)
theory ToolTypes
  imports Prelude
begin

text \<open>
  What a tool returns, \<open>crates/vol-llm-tool/src/tool.rs\<close>: the result record with its two
  constructors, the tool error, and the JSON values tools attach to a result.  A JSON object is a
  list of members in insertion order (the workspace enables \<open>preserve_order\<close>).
\<close>

datatype json =
    JNull
  | JBool bool
  | JNum int
  | JStr string
  | JArr "json list"
  | JObj "(string \<times> json) list"

record tool_result =
  call_id :: string
  success :: bool
  content :: string
  error :: "string option"
  data :: "json option"

definition tool_success :: "string \<Rightarrow> tool_result" where
  "tool_success c = \<lparr> call_id = [], success = True, content = c, error = None, data = None \<rparr>"

definition tool_failure :: "string \<Rightarrow> tool_result" where
  "tool_failure c = \<lparr> call_id = [], success = False, content = c, error = Some c, data = None \<rparr>"

datatype tool_error =
    InvalidArguments string
  | ExecutionFailed string
  | ToolNotFound string

fun display_tool_error :: "tool_error \<Rightarrow> string" where
  "display_tool_error (InvalidArguments e) = ''Invalid arguments: '' @ e"
| "display_tool_error (ExecutionFailed e) = ''Execution failed: '' @ e"
| "display_tool_error (ToolNotFound e) = ''Tool not found: '' @ e"

datatype sensitivity = Safe | RequiresApproval string

definition opt_str :: "string option \<Rightarrow> json" where
  "opt_str x = (case x of None \<Rightarrow> JNull | Some s \<Rightarrow> JStr s)"

lemma tool_result_simps [simp]:
  "success (tool_success c)" "\<not> success (tool_failure c)"
  "content (tool_success c) = c" "content (tool_failure c) = c"
  "error (tool_success c) = None" "error (tool_failure c) = Some c"
  by (simp_all add: tool_success_def tool_failure_def)

text \<open>Reading a member, and a value as a text, a list or an unsigned number.\<close>

definition json_get :: "string \<Rightarrow> json \<Rightarrow> json option" where
  "json_get k j = (case j of JObj ms \<Rightarrow> map_of ms k | _ \<Rightarrow> None)"

definition json_str :: "json option \<Rightarrow> string option" where
  "json_str j = (case j of Some (JStr s) \<Rightarrow> Some s | _ \<Rightarrow> None)"

definition json_arr :: "json option \<Rightarrow> json list option" where
  "json_arr j = (case j of Some (JArr xs) \<Rightarrow> Some xs | _ \<Rightarrow> None)"

definition json_u64 :: "json option \<Rightarrow> u64 option" where
  "json_u64 j = (case j of Some (JNum n) \<Rightarrow> if 0 \<le> n \<and> n < 2 ^ 64 then Some (of_int n) else None | _ \<Rightarrow> None)"

definition json_path :: "string list \<Rightarrow> json \<Rightarrow> json option" where
  "json_path ks j = foldl (\<lambda>v k. case v of None \<Rightarrow> None | Some w \<Rightarrow> json_get k w) (Some j) ks"

section \<open>Arguments and output\<close>

text \<open>Decoding the arguments of a tool is derived code of the JSON library, and a parameter.\<close>

type_synonym 's tool_eff = "('s, tool_error, tool_result) eff"

type_synonym 'p decoder = "json \<Rightarrow> string + 'p"

definition decode_args :: "'p decoder \<Rightarrow> json \<Rightarrow> ('s, tool_error, 'p) eff" where
  "decode_args dec args =
     mapErr (\<lambda>e. InvalidArguments (''Failed to parse arguments: '' @ e)) (liftE (dec args))"

text \<open>A line with its number, counted from one, in five columns.\<close>

definition pad_left :: "nat \<Rightarrow> string \<Rightarrow> string" where
  "pad_left n s = replicate (n - length s) (CHR '' '') @ s"

definition number_line :: "nat \<times> string \<Rightarrow> string" where
  "number_line = (\<lambda>(n, l). pad_left 5 (show_nat (n + 1)) @ ''  |  '' @ l)"

end
