(* ===== verification/TaskCli.thy ===== *)
theory TaskCli
  imports TaskScheduler ToolTypes
begin

text \<open>
  The \<open>task\<close> command line, \<open>crates/vol-llm-task/src/cli/\<close>: the tokenizer and the translation of
  the argument parser's matches into a command (\<open>parser.rs\<close>), the text formats (\<open>format.rs\<close>) and
  the executor (\<open>executor.rs\<close>) over an arbitrary store provider.  The argument parser itself
  (clap), the JSON library, the clock and the file system are parameters.
\<close>

section \<open>Tokenizer\<close>

definition dquote :: char where "dquote = CHR 0x22"
definition squote :: char where "squote = CHR 0x27"

text \<open>State: the finished tokens, the current token, and the open quote.\<close>

type_synonym tok_state = "string list \<times> string \<times> char option"

fun tok_step :: "tok_state \<Rightarrow> char \<Rightarrow> tok_state" where
  "tok_step (tokens, current, in_quote) ch =
     (case in_quote of
        None \<Rightarrow>
          if ch = dquote \<or> ch = squote then (tokens, current, Some ch)
          else if ch = CHR '' '' then
            (if current \<noteq> [] then (tokens @ [current], [], None) else (tokens, current, None))
          else (tokens, current @ [ch], None)
      | Some q \<Rightarrow>
          if ch = q then (tokens, current, None) else (tokens, current @ [ch], Some q))"

definition tokenize :: "string \<Rightarrow> string list" where
  "tokenize input =
     (let (tokens, current, _) = foldl tok_step ([], [], None) input
      in if current \<noteq> [] then tokens @ [current] else tokens)"

section \<open>Commands\<close>

datatype parsed_command =
    CmdCreate string string "string option" "string option" "u64 list" "u64 list" bool
  | CmdUpdate u64 "string option" "string option" "string option" "string option"
      "string option" "u64 list" "u64 list" bool
  | CmdGet u64 bool
  | CmdList "string option" "string option" bool
  | CmdStop u64 bool
  | CmdOutput u64 bool u64 bool
  | CmdClaim "u64 option" bool
  | CmdScheme "string option"
  | CmdQuickCreate string "string option" "string option" bool
  | CmdQuickDone u64 bool
  | CmdQuickClaim bool

text \<open>
  The matches the argument parser returns: the global flag and, for a subcommand, the values its
  arguments got.
\<close>

record sub_matches =
  sm_string :: "string \<Rightarrow> string option"
  sm_u64 :: "string \<Rightarrow> u64 option"
  sm_many :: "string \<Rightarrow> u64 list option"
  sm_flag :: "string \<Rightarrow> bool"

record arg_matches =
  am_json :: bool
  am_sub :: "(string \<times> sub_matches) option"

text \<open>\<open>dbg\<close> is the debug form of a string, with its quotes and escapes.\<close>

definition parse_task_id_arg :: "(string \<Rightarrow> string) \<Rightarrow> string \<Rightarrow> string + u64" where
  "parse_task_id_arg dbg s =
     (case task_id_from_str s of
        Inr i \<Rightarrow> Inr i
      | Inl (ParseTaskIdError x) \<Rightarrow> Inl (''invalid task id: '' @ dbg x))"

definition or_default :: "'a \<Rightarrow> 'a option \<Rightarrow> 'a" where
  "or_default d x = (case x of None \<Rightarrow> d | Some v \<Rightarrow> v)"

definition command_of_matches :: "arg_matches \<Rightarrow> string + parsed_command" where
  "command_of_matches a =
     (let json = am_json a in
      case am_sub a of
        None \<Rightarrow> Inl ''Unknown subcommand. Use 'task scheme' to see available subcommands.''
      | Some (name, m) \<Rightarrow>
          if name = ''create'' then
            Inr (CmdCreate (or_default [] (sm_string m ''name'')) (or_default [] (sm_string m ''desc''))
                   (sm_string m ''assignee'') (sm_string m ''activeForm'')
                   (or_default [] (sm_many m ''deps'')) (or_default [] (sm_many m ''blocks'')) json)
          else if name = ''update'' then
            Inr (CmdUpdate (or_default 0 (sm_u64 m ''id'')) (sm_string m ''status'')
                   (sm_string m ''subject'') (sm_string m ''desc'') (sm_string m ''assignee'')
                   (sm_string m ''activeForm'') (or_default [] (sm_many m ''addDeps''))
                   (or_default [] (sm_many m ''addBlocks'')) json)
          else if name = ''get'' then Inr (CmdGet (or_default 0 (sm_u64 m ''id'')) json)
          else if name = ''list'' then
            Inr (CmdList (sm_string m ''status'') (sm_string m ''assignee'') json)
          else if name = ''stop'' then Inr (CmdStop (or_default 0 (sm_u64 m ''id'')) json)
          else if name = ''output'' then
            Inr (CmdOutput (or_default 0 (sm_u64 m ''id'')) (sm_flag m ''block'')
                   (or_default 30000 (sm_u64 m ''timeout'')) json)
          else if name = ''claim'' then Inr (CmdClaim (sm_u64 m ''id'') json)
          else if name = ''scheme'' then Inr (CmdScheme (sm_string m ''subcommand''))
          else if name = ''+task'' then
            Inr (CmdQuickCreate (or_default [] (sm_string m ''name'')) (sm_string m ''desc'')
                   (sm_string m ''assignee'') json)
          else if name = ''+done'' then Inr (CmdQuickDone (or_default 0 (sm_u64 m ''id'')) json)
          else if name = ''+claim'' then Inr (CmdQuickClaim json)
          else Inl ''Unknown subcommand. Use 'task scheme' to see available subcommands.'')"

definition parse_error :: "string \<Rightarrow> string" where
  "parse_error e =
     ''Parse error: '' @ e @ newline @
     ''Usage: task <subcommand> [--flags]. Use 'task scheme <sub>' to see parameters.''"

definition parse_command ::
  "(string list \<Rightarrow> string + arg_matches) \<Rightarrow> string \<Rightarrow> string + parsed_command" where
  "parse_command clap input =
     (let tokens = tokenize input;
          full_tokens = (if tokens \<noteq> [] \<and> hd tokens = ''task'' then tokens else ''task'' # tokens)
      in case clap full_tokens of
           Inl e \<Rightarrow> Inl (parse_error e)
         | Inr a \<Rightarrow> command_of_matches a)"

section \<open>Text formats\<close>

definition quoted :: "string \<Rightarrow> string" where
  "quoted s = [dquote] @ s @ [dquote]"

definition dash_default :: "string option \<Rightarrow> string" where
  "dash_default x = or_default ''-'' x"

definition fmt_task_ids :: "task_id list \<Rightarrow> string" where
  "fmt_task_ids ids = (if ids = [] then ''-'' else join '', '' (map display_task_id ids))"

definition fmt_task_detail :: "(time \<Rightarrow> string) \<Rightarrow> task \<Rightarrow> string" where
  "fmt_task_detail dbg_time t =
     ''Task '' @ display_task_id (t_id t) @ '': '' @ quoted (t_subject t) @ newline @
     ''Status:       '' @ debug_status (t_status t) @ newline @
     ''Assignee:     '' @ dash_default (t_assignee t) @ newline @
     ''Created:      '' @ dbg_time (t_created_at t) @ newline @
     ''Dependencies: '' @ fmt_task_ids (t_dependencies t) @ newline @
     ''Blocks:       '' @ fmt_task_ids (t_blocks t) @
     (if t_description t \<noteq> [] then newline @ ''Desc:         '' @ t_description t else []) @
     (case t_active_form t of None \<Rightarrow> [] | Some af \<Rightarrow> newline @ ''ActiveForm:   '' @ af)"

definition fmt_task_line :: "task \<Rightarrow> string" where
  "fmt_task_line t =
     ''  '' @ display_task_id (t_id t) @ ''  '' @ quoted (t_subject t) @ ''  ['' @
     debug_status (t_status t) @ '']  '' @ dash_default (t_assignee t) @ newline"

definition fmt_task_list :: "task list \<Rightarrow> string" where
  "fmt_task_list ts =
     (if ts = [] then ''No tasks found.''
      else trim_end (show_nat (length ts) @ '' task(s):'' @ newline @ concat (map fmt_task_line ts)))"

definition fmt_create_confirm :: "task \<Rightarrow> string" where
  "fmt_create_confirm t =
     ''Task '' @ display_task_id (t_id t) @ '' created: '' @ quoted (t_subject t) @ '' ['' @
     debug_status (t_status t) @ ''] assignee: '' @ dash_default (t_assignee t)"

definition pad_right :: "nat \<Rightarrow> string \<Rightarrow> string" where
  "pad_right n s = s @ replicate (n - length s) (CHR '' '')"

definition fmt_scheme_param :: "string \<times> bool \<times> string \<Rightarrow> string" where
  "fmt_scheme_param = (\<lambda>(name, required, desc).
     ''  --'' @ pad_right 14 name @ '' '' @
     pad_right 10 (if required then ''(required)'' else ''(optional)'') @ '' '' @ desc @ newline)"

definition fmt_scheme :: "string \<Rightarrow> (string \<times> bool \<times> string) list \<Rightarrow> string" where
  "fmt_scheme sub params =
     trim_end (sub @ '' parameters:'' @ newline @ concat (map fmt_scheme_param params))"

section \<open>Executor\<close>

text \<open>
  The surroundings of one execution: the clock read by \<open>SystemTime::now\<close>, the JSON library on
  tasks, the debug form of a time, the file system's \<open>read_to_string\<close>, and what happens while the
  blocking form of \<open>output\<close> sleeps: the extra delay of every wake-up over the requested 500 ms and
  what the rest of the system does to the store in the meantime.
\<close>

record 's cli_env =
  ce_now :: time
  ce_json :: "task \<Rightarrow> string"
  ce_list_json :: "task list \<Rightarrow> string"
  ce_value :: "task \<Rightarrow> json"
  ce_list_value :: "task list \<Rightarrow> json"
  ce_time :: "time \<Rightarrow> string"
  ce_read_file :: "string \<Rightarrow> string + string"
  ce_lag :: "nat \<Rightarrow> nat"
  ce_others :: "nat \<Rightarrow> 's \<Rightarrow> 's"

type_synonym ('s, 'a) cli_eff = "('s, string, 'a) eff"

definition at_error :: "string \<Rightarrow> ('s, store_error, 'a) eff \<Rightarrow> ('s, 'a) cli_eff" where
  "at_error what = mapErr (\<lambda>e. what @ display_store_error e)"

definition not_found_msg :: "task_id \<Rightarrow> string" where
  "not_found_msg i = ''Task '' @ display_task_id i @ '' not found''"

definition cli_fetch :: "'s store_ops \<Rightarrow> task_id \<Rightarrow> ('s, task) cli_eff" where
  "cli_fetch ops i =
     bindE (at_error ''Failed to get task: '' (so_get ops i)) (ok_or (not_found_msg i))"

definition ok_result :: "string \<Rightarrow> json option \<Rightarrow> tool_result" where
  "ok_result c d = \<lparr> call_id = [], success = True, content = c, error = None, data = d \<rparr>"

definition err_result :: "string \<Rightarrow> string \<Rightarrow> json option \<Rightarrow> tool_result" where
  "err_result c e d = \<lparr> call_id = [], success = False, content = c, error = Some e, data = d \<rparr>"

definition parse_status :: "string \<Rightarrow> string + task_status" where
  "parse_status s =
     (let l = to_lower s in
      if l = ''pending'' then Inr Pending
      else if l = ''running'' then Inr Running
      else if l = ''completed'' then Inr Completed
      else if l = ''failed'' then Inr Failed
      else if l = ''killed'' then Inr Killed
      else Inl (''Invalid status: '' @ s @ ''. Valid: pending, running, completed, failed, killed''))"

definition exec_create ::
  "'s cli_env \<Rightarrow> 's store_ops \<Rightarrow> string \<Rightarrow> string \<Rightarrow> string option \<Rightarrow> string option \<Rightarrow>
   u64 list \<Rightarrow> u64 list \<Rightarrow> bool \<Rightarrow> ('s, tool_result) cli_eff" where
  "exec_create C ops name desc assignee active_form deps blocks json =
     (let t = (new_task (ce_now C) Agent name deps)
                \<lparr>t_description := desc, t_active_form := active_form, t_assignee := assignee,
                 t_blocks := blocks\<rparr>
      in bindE (at_error ''Failed to create task: '' (so_create ops t)) (\<lambda>i.
         bindE (at_error ''Failed to read task: '' (so_get ops i)) (\<lambda>found.
         bindE (ok_or ''Task not found after creation'' found) (\<lambda>created.
         ret (ok_result (if json then ce_json C created else fmt_create_confirm created)
                (Some (ce_value C created)))))))"

text \<open>
  The field updates of \<open>update\<close>, in the order of the code: each sets its field when the argument is
  given and notes the field's name; new ids are appended when they are not in the list yet.
\<close>

definition upd_field :: "string \<Rightarrow> ('a \<Rightarrow> task \<Rightarrow> task) \<Rightarrow> 'a option \<Rightarrow> task \<times> string list \<Rightarrow> task \<times> string list"
  where
  "upd_field name put x = (\<lambda>(t, names). case x of None \<Rightarrow> (t, names) | Some v \<Rightarrow> (put v t, names @ [name]))"

definition upd_ids :: "string \<Rightarrow> (task_id list \<Rightarrow> task \<Rightarrow> task) \<Rightarrow> task_id list \<Rightarrow> task \<times> string list \<Rightarrow> task \<times> string list"
  where
  "upd_ids name add ids = (\<lambda>(t, names). if ids = [] then (t, names) else (add ids t, names @ [name]))"

definition add_deps :: "task_id list \<Rightarrow> task \<Rightarrow> task" where
  "add_deps ids t = t\<lparr>t_dependencies := foldl push_new (t_dependencies t) ids\<rparr>"

definition add_blocks :: "task_id list \<Rightarrow> task \<Rightarrow> task" where
  "add_blocks ids t = t\<lparr>t_blocks := foldl push_new (t_blocks t) ids\<rparr>"

definition apply_update ::
  "string option \<Rightarrow> string option \<Rightarrow> string option \<Rightarrow> string option \<Rightarrow> task_status option \<Rightarrow>
   task_id list \<Rightarrow> task_id list \<Rightarrow> task \<Rightarrow> task \<times> string list" where
  "apply_update subject desc assignee active_form status deps blocks t =
     upd_ids ''blocks'' add_blocks blocks (
     upd_ids ''dependencies'' add_deps deps (
     upd_field ''status'' (\<lambda>v u. u\<lparr>t_status := v\<rparr>) status (
     upd_field ''activeForm'' (\<lambda>v u. u\<lparr>t_active_form := Some v\<rparr>) active_form (
     upd_field ''assignee'' (\<lambda>v u. u\<lparr>t_assignee := Some v\<rparr>) assignee (
     upd_field ''description'' (\<lambda>v u. u\<lparr>t_description := v\<rparr>) desc (
     upd_field ''subject'' (\<lambda>v u. u\<lparr>t_subject := v\<rparr>) subject (t, [])))))))"

definition parse_status_opt :: "string option \<Rightarrow> string + task_status option" where
  "parse_status_opt x =
     (case x of None \<Rightarrow> Inr None
      | Some s \<Rightarrow> (case parse_status s of Inl e \<Rightarrow> Inl e | Inr st \<Rightarrow> Inr (Some st)))"

definition exec_update ::
  "'s cli_env \<Rightarrow> 's store_ops \<Rightarrow> u64 \<Rightarrow> string option \<Rightarrow> string option \<Rightarrow> string option \<Rightarrow>
   string option \<Rightarrow> string option \<Rightarrow> u64 list \<Rightarrow> u64 list \<Rightarrow> bool \<Rightarrow> ('s, tool_result) cli_eff" where
  "exec_update C ops i status subject desc assignee active_form deps blocks json =
     bindE (cli_fetch ops i) (\<lambda>t.
     bindE (liftE (parse_status_opt status)) (\<lambda>st.
     let (t', updated) = apply_update subject desc assignee active_form st deps blocks t
     in bindE (at_error ''Failed to update task: '' (so_update ops t')) (\<lambda>_.
        bindE (at_error ''Failed to read task: '' (so_get ops i)) (\<lambda>found.
        bindE (ok_or ''Task not found after update'' found) (\<lambda>u.
        ret (ok_result
               (if json then ce_json C u
                else ''Task '' @ display_task_id i @ '' updated: '' @ join '', '' updated)
               (Some (JObj [(''taskId'', JStr (display_task_id i)),
                            (''updatedFields'', JArr (map JStr updated))]))))))))"

definition exec_get :: "'s cli_env \<Rightarrow> 's store_ops \<Rightarrow> u64 \<Rightarrow> bool \<Rightarrow> ('s, tool_result) cli_eff" where
  "exec_get C ops i json =
     bindE (cli_fetch ops i) (\<lambda>t.
     ret (ok_result (if json then ce_json C t else fmt_task_detail (ce_time C) t) (Some (ce_value C t))))"

definition exec_list ::
  "'s cli_env \<Rightarrow> 's store_ops \<Rightarrow> string option \<Rightarrow> string option \<Rightarrow> bool \<Rightarrow> ('s, tool_result) cli_eff" where
  "exec_list C ops status assignee json =
     bindE (liftE (parse_status_opt status)) (\<lambda>f.
     bindE (at_error ''Failed to list tasks: '' (so_list ops f)) (\<lambda>all.
     let ts = (case assignee of None \<Rightarrow> all | Some a \<Rightarrow> filter (\<lambda>t. t_assignee t = Some a) all)
     in ret (ok_result (if json then ce_list_json C ts else fmt_task_list ts)
               (Some (ce_list_value C ts)))))"

definition json_field :: "string \<Rightarrow> string" where
  "json_field s = [dquote] @ s @ [dquote]"

definition status_json_line :: "task_id \<Rightarrow> string \<Rightarrow> string" where
  "status_json_line i status =
     ''{'' @ json_field ''success'' @ '': true, '' @ json_field ''taskId'' @ '': '' @
     json_field (show_u64 i) @ '', '' @ json_field ''status'' @ '': '' @ json_field status @ ''}''"

definition exec_stop :: "'s store_ops \<Rightarrow> u64 \<Rightarrow> bool \<Rightarrow> ('s, tool_result) cli_eff" where
  "exec_stop ops i json =
     bindE (cli_fetch ops i) (\<lambda>t.
     bindE (at_error ''Failed to stop task: '' (so_update ops (t\<lparr>t_status := Killed\<rparr>))) (\<lambda>_.
     ret (ok_result
            (if json then status_json_line i ''killed''
             else ''Task '' @ display_task_id i @ '' stopped (killed)'')
            (Some (JObj [(''taskId'', JStr (show_u64 i)), (''status'', JStr ''killed'')])))))"

text \<open>
  The polling loop of a blocking \<open>output\<close>.  \<open>elapsed\<close> is the time since the loop was entered; every
  sleep lasts at least 500 ms, so the loop ends.  \<open>Some t\<close> is a timeout with the last task read.
\<close>

function cli_wait ::
  "'s cli_env \<Rightarrow> 's store_ops \<Rightarrow> task_id \<Rightarrow> nat \<Rightarrow> nat \<Rightarrow> nat \<Rightarrow> ('s, task option) cli_eff" where
  "cli_wait C ops i timeout k elapsed s =
     (case cli_fetch ops i s of
        (Inl e, s') \<Rightarrow> (Inl e, s')
      | (Inr t, s') \<Rightarrow>
          if terminal (t_status t) then (Inr None, s')
          else if timeout \<le> elapsed then (Inr (Some t), s')
          else cli_wait C ops i timeout (Suc k) (elapsed + 500 + ce_lag C (Suc k)) (ce_others C k s'))"
  by pat_completeness auto
termination
  by (relation "measure (\<lambda>(C, ops, i, timeout, k, elapsed, s). timeout - elapsed)") auto

declare cli_wait.simps [simp del]

definition task_id_data :: "task_id \<Rightarrow> json" where
  "task_id_data i = JObj [(''taskId'', JStr (show_u64 i))]"

definition read_output :: "'s cli_env \<Rightarrow> task_id \<Rightarrow> task \<Rightarrow> tool_result" where
  "read_output C i t =
     (case (t_output_file t, t_result t) of
        (Some path, _) \<Rightarrow>
          (case ce_read_file C path of
             Inr out \<Rightarrow> ok_result out (Some (task_id_data i))
           | Inl e \<Rightarrow> err_result (''Failed to read output file: '' @ e) (''IO error: '' @ e)
                        (Some (task_id_data i)))
      | (None, Some r) \<Rightarrow> ok_result (tr_output_truncated r) (Some (task_id_data i))
      | (None, None) \<Rightarrow> err_result (''No output for task '' @ display_task_id i) ''No output available''
                          (Some (task_id_data i)))"

definition exec_output ::
  "'s cli_env \<Rightarrow> 's store_ops \<Rightarrow> u64 \<Rightarrow> bool \<Rightarrow> u64 \<Rightarrow> ('s, tool_result) cli_eff" where
  "exec_output C ops i block timeout_ms =
     bindE (if block then cli_wait C ops i (unat timeout_ms) 0 (ce_lag C 0) else ret None) (\<lambda>timed_out.
     case timed_out of
       Some t \<Rightarrow>
         ret (err_result
                (''Timeout waiting for task '' @ display_task_id i @ '' ('' @ show_u64 timeout_ms @ ''ms)'')
                ''timeout''
                (Some (JObj [(''taskId'', JStr (show_u64 i)),
                             (''status'', JStr (display_status (t_status t)))])))
     | None \<Rightarrow> bindE (cli_fetch ops i) (\<lambda>t. ret (read_output C i t)))"

definition claimed :: "time \<Rightarrow> string \<Rightarrow> task \<Rightarrow> task" where
  "claimed now who t = t\<lparr>t_status := Running, t_assignee := Some who, t_started_at := Some now\<rparr>"

definition claim_target :: "'s store_ops \<Rightarrow> u64 option \<Rightarrow> ('s, task) cli_eff" where
  "claim_target ops target =
     (case target of
        Some i \<Rightarrow> cli_fetch ops i
      | None \<Rightarrow>
          bindE (at_error ''Failed to get ready tasks: '' (so_ready ops)) (\<lambda>ready.
          case ready of
            [] \<Rightarrow> fail ''No pending tasks available to claim''
          | first # _ \<Rightarrow>
              bindE (at_error ''Failed to get task: '' (so_get ops first)) (ok_or ''Task not found'')))"

definition exec_claim :: "'s cli_env \<Rightarrow> 's store_ops \<Rightarrow> u64 option \<Rightarrow> bool \<Rightarrow> ('s, tool_result) cli_eff" where
  "exec_claim C ops target json =
     bindE (claim_target ops target) (\<lambda>t.
     if t_status t \<noteq> Pending
     then fail (''Task '' @ display_task_id (t_id t) @ '' is already '' @ debug_status (t_status t))
     else
       bindE (at_error ''Failed to claim task: '' (so_update ops (claimed (ce_now C) ''agent'' t))) (\<lambda>_.
       ret (ok_result
              (if json then status_json_line (t_id t) ''running''
               else ''Task '' @ display_task_id (t_id t) @ '' claimed and set to Running'')
              (Some (JObj [(''taskId'', JStr (show_u64 (t_id t))), (''status'', JStr ''running'')])))))"

definition scheme_params :: "string \<Rightarrow> (string \<times> bool \<times> string) list option" where
  "scheme_params sub =
     (if sub = ''create'' then
         Some [(''name'', True, ''Task subject''),
          (''desc'', True, ''Task description''),
          (''assignee'', False, ''Agent type to assign''),
          (''activeForm'', False, ''Spinner display text''),
          (''deps'', False, ''Comma-separated dependency task IDs''),
          (''blocks'', False, ''Comma-separated blocking task IDs'')]
      else if sub = ''update'' then
         Some [(''id'', True, ''Task ID to update''),
          (''status'', False, ''New status: pending|running|completed|failed|killed''),
          (''subject'', False, ''New subject''),
          (''desc'', False, ''New description''),
          (''assignee'', False, ''Reassign to agent type''),
          (''activeForm'', False, ''Spinner display text''),
          (''addDeps'', False, ''Add dependencies (comma-separated IDs)''),
          (''addBlocks'', False, ''Add blocking tasks (comma-separated IDs)'')]
      else if sub = ''get'' then
         Some [(''id'', True, ''Task ID to retrieve'')]
      else if sub = ''list'' then
         Some [(''status'', False, ''Filter by status''),
          (''assignee'', False, ''Filter by assignee'')]
      else if sub = ''stop'' then
         Some [(''id'', True, ''Task ID to stop'')]
      else if sub = ''output'' then
         Some [(''id'', True, ''Task ID to read output from'')]
      else if sub = ''claim'' then
         Some [(''id'', False, ''Task ID to claim (omit to claim first ready)'')]
      else if sub = ''+task'' then
         Some [(''name'', True, ''Task subject''),
          (''desc'', False, ''Task description''),
          (''assignee'', False, ''Agent type (defaults to current agent)'')]
      else if sub = ''+done'' then
         Some [(''id'', True, ''Task ID to mark completed'')]
      else if sub = ''+claim'' then
         Some []
      else None)"

definition scheme_overview :: "(string \<times> string) list" where
  "scheme_overview =
     [(''create'', ''Create a new task''),
      (''update'', ''Update a task''),
      (''get'', ''Get task details''),
      (''list'', ''List tasks''),
      (''stop'', ''Stop a running task''),
      (''output'', ''Read task output''),
      (''claim'', ''Claim a pending task''),
      (''scheme'', ''Show parameter definitions''),
      (''+task'', ''Quick create with smart defaults''),
      (''+done'', ''Quick complete a task''),
      (''+claim'', ''Quick claim first ready task'')]"

definition scheme_for :: "string option \<Rightarrow> string" where
  "scheme_for sub =
     (case (case sub of None \<Rightarrow> None | Some n \<Rightarrow> scheme_params n) of
        Some ps \<Rightarrow> fmt_scheme (the sub) ps
      | None \<Rightarrow>
          ''Available subcommands:'' @ newline @
          concat (map (\<lambda>(name, desc). ''  '' @ pad_right 12 name @ '' '' @ desc @ newline) scheme_overview) @
          newline @ ''Use 'task scheme <subcommand>' for detailed parameters.'')"

text \<open>Dispatch; the shortcuts fill in defaults and delegate.\<close>

fun cli_execute :: "'s cli_env \<Rightarrow> 's store_ops \<Rightarrow> parsed_command \<Rightarrow> ('s, tool_result) cli_eff" where
  "cli_execute C ops (CmdCreate name desc assignee active_form deps blocks json) =
     exec_create C ops name desc assignee active_form deps blocks json"
| "cli_execute C ops (CmdUpdate i status subject desc assignee active_form deps blocks json) =
     exec_update C ops i status subject desc assignee active_form deps blocks json"
| "cli_execute C ops (CmdGet i json) = exec_get C ops i json"
| "cli_execute C ops (CmdList status assignee json) = exec_list C ops status assignee json"
| "cli_execute C ops (CmdStop i json) = exec_stop ops i json"
| "cli_execute C ops (CmdOutput i block timeout_ms json) = exec_output C ops i block timeout_ms"
| "cli_execute C ops (CmdClaim i json) = exec_claim C ops i json"
| "cli_execute C ops (CmdScheme sub) = ret (ok_result (scheme_for sub) None)"
| "cli_execute C ops (CmdQuickCreate name desc assignee json) =
     exec_create C ops name (or_default [] desc) assignee None [] [] json"
| "cli_execute C ops (CmdQuickDone i json) =
     exec_update C ops i (Some ''completed'') None None None None [] [] json"
| "cli_execute C ops (CmdQuickClaim json) = exec_claim C ops None json"

end
