(* ===== verification/TaskCliCorrect.thy ===== *)
theory TaskCliCorrect
  imports TaskCli
begin

text \<open>
  Correctness of the \<open>task\<close> command line over any provider that keeps the store contract: the
  tokenizer is a left inverse of quoting, every command changes at most the task it names,
  \<open>update\<close> changes exactly the given fields, \<open>claim\<close> only starts pending tasks, and the waiting loop
  of \<open>output\<close> ends with what it promises.
\<close>

section \<open>The tokenizer\<close>

lemma tok_step_in_quote:
  "q \<notin> set w \<Longrightarrow> foldl tok_step (ts, cur, Some q) w = (ts, cur @ w, Some q)"
  by (induction w arbitrary: cur) auto

lemma tok_quoted:
  assumes "dquote \<notin> set w"
  shows "foldl tok_step (ts, [], None) (quoted w) = (ts, w, None)"
  using assms tok_step_in_quote [of dquote w ts "[]"] by (simp add: quoted_def)

lemma tok_space:
  "w \<noteq> [] \<Longrightarrow> tok_step (ts, w, None) (CHR '' '') = (ts @ [w], [], None)"
  by (simp add: dquote_def squote_def)

lemma tok_line:
  assumes "list_all (\<lambda>w. w \<noteq> [] \<and> dquote \<notin> set w) ws" "ws \<noteq> []"
  shows "foldl tok_step (ts, [], None) (join '' '' (map quoted ws)) = (ts @ butlast ws, last ws, None)"
  using assms
proof (induction ws arbitrary: ts)
  case Nil
  then show ?case by simp
next
  case (Cons w ws)
  show ?case
  proof (cases ws)
    case Nil
    with Cons.prems tok_quoted [of w ts] show ?thesis by simp
  next
    case (Cons v vs)
    with Cons.prems Cons.IH [of "ts @ [w]"] tok_quoted [of w ts] tok_space [of w ts] show ?thesis
      by simp
  qed
qed

section \<open>Facts from the contract\<close>

lemma at_error_simps [simp]:
  "m s = (Inr x, s') \<Longrightarrow> at_error what m s = (Inr x, s')"
  "m s = (Inl e, s') \<Longrightarrow> at_error what m s = (Inl (what @ display_store_error e), s')"
  by (simp_all add: at_error_def)

lemma at_error_result:
  assumes "at_error what m s = (r, s')"
  obtains (ok) x where "m s = (Inr x, s')" "r = Inr x"
    | (err) e where "m s = (Inl e, s')" "r = Inl (what @ display_store_error e)"
  using assms by (auto simp: at_error_def mapErr_def split: prod.splits sum.splits)

lemma bindE_result:
  assumes "bindE m f s = (r, s')"
  obtains (err) e where "m s = (Inl e, s')" "r = Inl e"
    | (ok) x s1 where "m s = (Inr x, s1)" "f x s1 = (r, s')"
  using assms by (auto simp: bindE_def split: prod.splits sum.splits)

lemma apply_update_id:
  "t_id (fst (apply_update subject desc assignee active_form st deps blocks t)) = t_id t"
  by (simp add: apply_update_def upd_field_def upd_ids_def add_deps_def add_blocks_def
      split: option.split)

definition update_result :: "'s cli_env \<Rightarrow> task_id \<Rightarrow> string list \<Rightarrow> bool \<Rightarrow> task \<Rightarrow> tool_result" where
  "update_result C i names json u =
     ok_result
       (if json then ce_json C u
        else ''Task '' @ display_task_id i @ '' updated: '' @ join '', '' names)
       (Some (JObj [(''taskId'', JStr (display_task_id i)),
                    (''updatedFields'', JArr (map JStr names))]))"

context task_store
begin

lemma cli_fetch_cases:
  assumes "inv s"
  obtains (err) e where "cli_fetch ops i s = (Inl e, s)"
    | (found) t where "cli_fetch ops i s = (Inr t, s)" "tasks_of s i = Some t" "t_id t = i"
  using assms
  by (rule get_cases [of s i]) (auto simp: cli_fetch_def intro: that)

lemma cli_get_state:
  assumes "inv s" "at_error what (so_get ops i) s = (r, s')"
  shows "s' = s"
  using assms(2)
  by (cases rule: at_error_result) (use assms(1) get_ok get_err in \<open>auto dest: get_ok get_err\<close>)

text \<open>Reading a task back after a write does not change the store, whatever it returns.\<close>

lemma read_back_state:
  assumes "inv s"
    and "bindE (at_error what (so_get ops i)) (\<lambda>x. bindE (ok_or msg x) (\<lambda>u. ret (g u))) s = (r, s')"
  shows "s' = s"
  using assms(2)
proof (cases rule: bindE_result)
  case (err e)
  with assms(1) show ?thesis by (auto dest: cli_get_state)
next
  case (ok x s1)
  with assms(1) have "s1 = s" by (auto dest: cli_get_state)
  with ok show ?thesis by (cases x) simp_all
qed

lemma write_cases:
  assumes "inv s" "tasks_of s i = Some t" "t_id t' = i"
    and "bindE (at_error what (so_update ops t')) (\<lambda>_. k) s = (r, s')"
  obtains (err) e where "r = Inl e" "inv s'" "tasks_of s' = tasks_of s"
    | (ok) s1 where "inv s1" "tasks_of s1 = (tasks_of s)(i \<mapsto> t')" "k s1 = (r, s')"
  using assms(4)
proof (cases rule: bindE_result)
  case E: (err e)
  from E(1) obtain e' where "so_update ops t' s = (Inl e', s')"
    by (cases rule: at_error_result) auto
  with assms(1) E(2) update_err [of s t' e' s'] show ?thesis using err by simp
next
  case O: (ok x s1)
  from O(1) obtain u where "so_update ops t' s = (Inr u, s1)"
    by (cases rule: at_error_result) auto
  with assms(1-3) O(2) modify_ok [of s i t t' u s1] show ?thesis using ok [of s1] by simp
qed



lemma exec_update_cases:
  assumes "inv s"
    and "exec_update C ops i status subject desc assignee active_form deps blocks json s = (r, s')"
  shows "inv s' \<and>
     ((\<exists>e. r = Inl e) \<and> tasks_of s' = tasks_of s \<or>
      (\<exists>t st. tasks_of s i = Some t \<and> parse_status_opt status = Inr st \<and>
        tasks_of s' = (tasks_of s)(i \<mapsto>
          fst (apply_update subject desc assignee active_form st deps blocks t))))"
proof (rule cli_fetch_cases [OF assms(1), of i])
  fix e assume "cli_fetch ops i s = (Inl e, s)"
  with assms show ?thesis by (auto simp: exec_update_def)
next
  fix t assume t: "cli_fetch ops i s = (Inr t, s)" "tasks_of s i = Some t" "t_id t = i"
  show ?thesis
  proof (cases "parse_status_opt status")
    case (Inl e)
    with t assms show ?thesis by (auto simp: exec_update_def bindE_def)
  next
    case (Inr st)
    obtain t' names where a: "apply_update subject desc assignee active_form st deps blocks t = (t', names)"
      by (cases "apply_update subject desc assignee active_form st deps blocks t")
    then have id: "t_id t' = i"
      using t(3) apply_update_id [of subject desc assignee active_form st deps blocks t] by simp
    from assms(2) t(1) Inr a obtain k where
      w: "bindE (at_error ''Failed to update task: '' (so_update ops t')) (\<lambda>_. k) s = (r, s')"
      and k: "k = bindE (at_error ''Failed to read task: '' (so_get ops i)) (\<lambda>found.
              bindE (ok_or ''Task not found after update'' found) (\<lambda>u. ret (update_result C i names json u)))"
      by (simp add: exec_update_def bindE_def [of "liftE _"] update_result_def)
    show ?thesis
    proof (rule write_cases [OF assms(1) t(2) id w])
      fix e assume "r = Inl e" "inv s'" "tasks_of s' = tasks_of s"
      then show ?thesis by simp
    next
      fix s1 assume s1: "inv s1" "tasks_of s1 = (tasks_of s)(i \<mapsto> t')" "k s1 = (r, s')"
      with k read_back_state [OF s1(1)] have "s' = s1" by blast
      with s1 t(2) Inr a show ?thesis by auto
    qed
  qed
qed


lemma claim_target_cases:
  assumes "inv s"
  obtains (err) e where "claim_target ops target s = (Inl e, s)"
    | (found) i t where "claim_target ops target s = (Inr t, s)" "tasks_of s i = Some t" "t_id t = i"
        "case target of Some j \<Rightarrow> i = j | None \<Rightarrow> is_ready (tasks_of s) i"
proof (cases target)
  case (Some j)
  show ?thesis
    by (rule cli_fetch_cases [OF assms, of j])
      (use Some in \<open>auto simp: claim_target_def intro: that\<close>)
next
  case None
  obtain r s1 where q: "so_ready ops s = (r, s1)" by (cases "so_ready ops s")
  show ?thesis
  proof (cases r)
    case (Inl e)
    with q ready_err [of s e s1] None show ?thesis
      by (auto simp: claim_target_def intro: that)
  next
    case (Inr ready)
    with q ready_ok [OF assms, of ready s1]
    have s1: "s1 = s" and ids: "set ready = {i. is_ready (tasks_of s) i}" by simp_all
    show ?thesis
    proof (cases ready)
      case Nil
      with None q Inr s1 show ?thesis by (auto simp: claim_target_def intro: that)
    next
      case (Cons i rest)
      with ids have rd: "is_ready (tasks_of s) i" by auto
      show ?thesis
        by (rule get_cases [OF assms, of i])
          (use None q Inr s1 Cons rd in \<open>auto simp: claim_target_def intro: that\<close>)
    qed
  qed
qed

lemma exec_claim_cases:
  assumes "inv s" and "exec_claim C ops target json s = (r, s')"
  shows "inv s' \<and>
     ((\<exists>e. r = Inl e) \<and> tasks_of s' = tasks_of s \<or>
      (\<exists>i t. (\<exists>res. r = Inr res \<and> success res) \<and>
        (case target of Some j \<Rightarrow> i = j | None \<Rightarrow> is_ready (tasks_of s) i) \<and>
        tasks_of s i = Some t \<and> t_status t = Pending \<and>
        tasks_of s' = (tasks_of s)(i \<mapsto> claimed (ce_now C) ''agent'' t)))"
proof (rule claim_target_cases [OF assms(1), of target])
  fix e assume "claim_target ops target s = (Inl e, s)"
  with assms show ?thesis by (auto simp: exec_claim_def)
next
  fix i t
  assume t: "claim_target ops target s = (Inr t, s)" "tasks_of s i = Some t" "t_id t = i"
    and i: "case target of Some j \<Rightarrow> i = j | None \<Rightarrow> is_ready (tasks_of s) i"
  show ?thesis
  proof (cases "t_status t = Pending")
    case False
    with t assms show ?thesis by (auto simp: exec_claim_def)
  next
    case True
    have id: "t_id (claimed (ce_now C) ''agent'' t) = i"
      using t(3) by (simp add: claimed_def)
    from assms(2) t(1) True obtain c d where
      w: "bindE (at_error ''Failed to claim task: '' (so_update ops (claimed (ce_now C) ''agent'' t)))
            (\<lambda>_. ret (ok_result c d)) s = (r, s')"
      by (auto simp: exec_claim_def)
    show ?thesis
      by (rule write_cases [OF assms(1) t(2) id w])
        (use t i True in \<open>auto simp: ok_result_def\<close>)
  qed
qed

lemma exec_stop_cases:
  assumes "inv s" and "exec_stop ops i json s = (r, s')"
  shows "inv s' \<and>
     ((\<exists>e. r = Inl e) \<and> tasks_of s' = tasks_of s \<or>
      (\<exists>t. tasks_of s i = Some t \<and> tasks_of s' = (tasks_of s)(i \<mapsto> t\<lparr>t_status := Killed\<rparr>)))"
proof (rule cli_fetch_cases [OF assms(1), of i])
  fix e assume "cli_fetch ops i s = (Inl e, s)"
  with assms show ?thesis by (auto simp: exec_stop_def)
next
  fix t assume t: "cli_fetch ops i s = (Inr t, s)" "tasks_of s i = Some t" "t_id t = i"
  then have id: "t_id (t\<lparr>t_status := Killed\<rparr>) = i" by simp
  from assms(2) t(1) obtain c d where
    w: "bindE (at_error ''Failed to stop task: '' (so_update ops (t\<lparr>t_status := Killed\<rparr>)))
          (\<lambda>_. ret (ok_result c d)) s = (r, s')"
    by (auto simp: exec_stop_def)
  show ?thesis
    by (rule write_cases [OF assms(1) t(2) id w]) (use t in auto)
qed

lemma exec_create_cases:
  assumes "inv s" "room s"
    and "exec_create C ops name desc assignee active_form deps blocks json s = (r, s')"
  shows "tasks_of s' = tasks_of s \<or>
     (\<exists>i t. tasks_of s i = None \<and> tasks_of s' = (tasks_of s)(i \<mapsto> t) \<and> t_status t = Pending)"
proof -
  let ?t = "(new_task (ce_now C) Agent name deps)
              \<lparr>t_description := desc, t_active_form := active_form, t_assignee := assignee,
               t_blocks := blocks\<rparr>"
  from assms(3) show ?thesis
    unfolding exec_create_def Let_def
  proof (cases rule: bindE_result)
    case (err e)
    then show ?thesis
      using create_err [OF assms(1), of ?t] by (auto elim: at_error_result)
  next
    case (ok i s1)
    from ok(1) have c: "so_create ops ?t s = (Inr i, s1)"
      by (auto elim: at_error_result)
    with create_ok [OF assms(1,2)] have s1: "inv s1" "tasks_of s i = None"
      "tasks_of s1 = (tasks_of s)(i \<mapsto> ?t\<lparr>t_id := i\<rparr>)" by blast+
    have "s' = s1"
      by (rule read_back_state [OF s1(1) ok(2)])
    with s1 show ?thesis
      by (intro disjI2 exI [of _ i] exI [of _ "?t\<lparr>t_id := i\<rparr>"]) (simp add: new_task_def)
  qed
qed


lemma exec_get_state:
  assumes "inv s" and "exec_get C ops i json s = (r, s')"
  shows "s' = s"
  by (rule cli_fetch_cases [OF assms(1), of i]) (use assms(2) in \<open>auto simp: exec_get_def\<close>)

lemma exec_list_state:
  assumes "exec_list C ops status assignee json s = (r, s')"
  shows "inv s \<Longrightarrow> s' = s"
proof -
  assume "inv s"
  then have l: "so_list ops f s = (q, s1) \<Longrightarrow> s1 = s" for f q s1
    using list_ok [of s f] list_err [of f s] by (cases q) auto
  show "s' = s"
    using assms
    by (cases "parse_status_opt status")
      (auto simp: exec_list_def bindE_def at_error_def mapErr_def Let_def split: prod.splits sum.splits
        dest: l)
qed

lemma cli_wait_spec:
  assumes "\<And>k s. inv s \<Longrightarrow> inv (ce_others C k s)"
    and "inv s" "cli_wait C ops i timeout k elapsed s = (Inr x, s')"
  shows "inv s' \<and> (case x of
      None \<Rightarrow> \<exists>t. tasks_of s' i = Some t \<and> terminal (t_status t)
    | Some t \<Rightarrow> tasks_of s' i = Some t \<and> \<not> terminal (t_status t))"
  using assms(2,3)
proof (induction "timeout - elapsed" arbitrary: k elapsed s rule: less_induct)
  case less
  from \<open>inv s\<close> show ?case
  proof (rule cli_fetch_cases [of s i])
    fix e assume "cli_fetch ops i s = (Inl e, s)"
    with less.prems show ?thesis by (simp add: cli_wait.simps)
  next
    fix t assume t: "cli_fetch ops i s = (Inr t, s)" "tasks_of s i = Some t" "t_id t = i"
    consider (ended) "terminal (t_status t)"
      | (late) "\<not> terminal (t_status t)" "timeout \<le> elapsed"
      | (again) "\<not> terminal (t_status t)" "elapsed < timeout"
      by linarith
    then show ?thesis
    proof cases
      case ended
      with t less.prems show ?thesis by (auto simp: cli_wait.simps)
    next
      case late
      with t less.prems(2) have "x = Some t" "s' = s"
        by (simp_all add: cli_wait.simps [of C ops i timeout k elapsed s])
      with late t less.prems(1) show ?thesis by simp
    next
      case again
      with t less.prems(2) have "cli_wait C ops i timeout (Suc k) (elapsed + 500 + ce_lag C (Suc k))
          (ce_others C k s) = (Inr x, s')"
        by (simp add: cli_wait.simps [of C ops i timeout k elapsed s])
      then show ?thesis
        using again by (intro less.hyps) (auto intro: assms(1) less.prems(1))
    qed
  qed
qed

lemma cli_wait_err:
  assumes "\<And>k s. inv s \<Longrightarrow> inv (ce_others C k s)"
    and "inv s" "cli_wait C ops i timeout k elapsed s = (Inl e, s')"
  shows "inv s'"
  using assms(2,3)
proof (induction "timeout - elapsed" arbitrary: k elapsed s rule: less_induct)
  case less
  from \<open>inv s\<close> show ?case
  proof (rule cli_fetch_cases [of s i])
    fix e assume "cli_fetch ops i s = (Inl e, s)"
    with less.prems show ?thesis by (auto simp: cli_wait.simps [of C ops i timeout k elapsed s])
  next
    fix t assume t: "cli_fetch ops i s = (Inr t, s)" "tasks_of s i = Some t" "t_id t = i"
    with less.prems(2) have "elapsed < timeout"
      and "cli_wait C ops i timeout (Suc k) (elapsed + 500 + ce_lag C (Suc k))
          (ce_others C k s) = (Inl e, s')"
      by (auto simp: cli_wait.simps [of C ops i timeout k elapsed s] split: if_splits)
    then show ?thesis
      by (intro less.hyps) (auto intro: assms(1) less.prems(1))
  qed
qed

lemma exec_output_blocking:
  assumes "\<And>k s. inv s \<Longrightarrow> inv (ce_others C k s)"
    and "inv s" "exec_output C ops i True timeout s = (Inr res, s')"
  shows "\<exists>t. tasks_of s' i = Some t \<and>
     (if terminal (t_status t) then res = read_output C i t
      else error res = Some ''timeout'' \<and> \<not> success res)"
proof -
  from assms(3) obtain w s1 where w: "cli_wait C ops i (unat timeout) 0 (ce_lag C 0) s = (Inr w, s1)"
    and rest: "(case w of Some t \<Rightarrow> ret (err_result
                (''Timeout waiting for task '' @ display_task_id i @ '' ('' @ show_u64 timeout @ ''ms)'')
                ''timeout''
                (Some (JObj [(''taskId'', JStr (show_u64 i)),
                             (''status'', JStr (display_status (t_status t)))])))
       | None \<Rightarrow> bindE (cli_fetch ops i) (\<lambda>t. ret (read_output C i t))) s1 = (Inr res, s')"
    by (auto simp: exec_output_def elim!: bindE_InrE)
  note spec = cli_wait_spec [OF assms(1,2) w]
  show ?thesis
  proof (cases w)
    case (Some t)
    with rest spec show ?thesis by (auto simp: err_result_def)
  next
    case None
    with spec obtain t where t: "inv s1" "tasks_of s1 i = Some t" "terminal (t_status t)" by auto
    show ?thesis
      by (rule cli_fetch_cases [OF t(1), of i]) (use t None rest in auto)
  qed
qed

lemma exec_output_state:
  assumes "inv s" and "exec_output C ops i False timeout s = (r, s')"
  shows "s' = s"
  by (rule cli_fetch_cases [OF assms(1), of i]) (use assms(2) in \<open>auto simp: exec_output_def\<close>)

end

section \<open>Frame\<close>

text \<open>The id a command names, and the commands that only read.\<close>

fun named_id :: "parsed_command \<Rightarrow> task_id option" where
  "named_id (CmdUpdate i _ _ _ _ _ _ _ _) = Some i"
| "named_id (CmdStop i _) = Some i"
| "named_id (CmdClaim target _) = target"
| "named_id (CmdQuickDone i _) = Some i"
| "named_id _ = None"

fun read_only :: "parsed_command \<Rightarrow> bool" where
  "read_only (CmdGet _ _) = True"
| "read_only (CmdList _ _ _) = True"
| "read_only (CmdOutput _ _ _ _) = True"
| "read_only (CmdScheme _) = True"
| "read_only _ = False"

fun waits :: "parsed_command \<Rightarrow> bool" where
  "waits (CmdOutput _ block _ _) = block"
| "waits _ = False"

lemma one_change:
  assumes "m' = m(i \<mapsto> t)"
  shows "dom m \<subseteq> dom m' \<and> (\<exists>k. \<forall>j. j \<noteq> k \<longrightarrow> m' j = m j)"
  using assms by auto

context task_store
begin

lemma execute_frame:
  assumes "inv s" "room s" "\<not> waits cmd" and run: "cli_execute C ops cmd s = (r, s')"
  shows "dom (tasks_of s) \<subseteq> dom (tasks_of s') \<and>
     (\<exists>k. (named_id cmd = None \<or> named_id cmd = Some k) \<and>
          (\<forall>j. j \<noteq> k \<longrightarrow> tasks_of s' j = tasks_of s j)) \<and>
     (read_only cmd \<longrightarrow> tasks_of s' = tasks_of s)"
proof (cases cmd)
  case (CmdCreate name desc assignee active_form deps blocks json)
  then show ?thesis
    using run exec_create_cases [OF assms(1,2), of C name desc assignee active_form deps blocks json r s']
    by (auto simp: one_change)
next
  case (CmdQuickCreate name desc assignee json)
  then show ?thesis
    using run exec_create_cases [OF assms(1,2), of C name "or_default [] desc" assignee None "[]" "[]" json r s']
    by (auto simp: one_change)
next
  case (CmdUpdate i status subject desc assignee active_form deps blocks json)
  then show ?thesis
    using run exec_update_cases
      [OF assms(1), of C i status subject desc assignee active_form deps blocks json r s']
    by (auto simp: one_change)
next
  case (CmdQuickDone i json)
  then show ?thesis
    using run exec_update_cases
      [OF assms(1), of C i "Some ''completed''" None None None None "[]" "[]" json r s']
    by (auto simp: one_change)
next
  case (CmdStop i json)
  then show ?thesis
    using run exec_stop_cases [OF assms(1), of i json r s'] by (auto simp: one_change)
next
  case (CmdClaim target json)
  then show ?thesis
    using run exec_claim_cases [OF assms(1), of C target json r s']
    by (cases target) (auto simp: one_change)
next
  case (CmdQuickClaim json)
  then show ?thesis
    using run exec_claim_cases [OF assms(1), of C None json r s'] by (auto simp: one_change)
next
  case (CmdGet i json)
  then show ?thesis using run exec_get_state [OF assms(1), of C i json r s'] by simp
next
  case (CmdList status assignee json)
  then show ?thesis using run exec_list_state [of C status assignee json s r s'] assms(1) by simp
next
  case (CmdOutput i block timeout json)
  then show ?thesis using run assms(3) exec_output_state [OF assms(1), of C i timeout r s'] by simp
next
  case (CmdScheme sub)
  then show ?thesis using run by simp
qed

end

section \<open>Properties\<close>

text \<open>
  The tokenizer undoes quoting: a line of words, each non-empty and put in double quotes, with
  one space between them, is split into exactly these words, whatever other characters (spaces,
  single quotes, line ends) they contain.
\<close>

theorem tokenize_quoted:
  assumes "list_all (\<lambda>w. w \<noteq> [] \<and> dquote \<notin> set w) ws"
  shows "tokenize (join '' '' (map quoted ws)) = ws"
proof (cases "ws = []")
  case True
  then show ?thesis by (simp add: tokenize_def)
next
  case False
  with assms have "last ws \<noteq> []" by (auto simp: list_all_iff)
  with False tok_line [OF assms False, of "[]"] show ?thesis by (simp add: tokenize_def)
qed

theorem tokenize_quoted_witness:
  "tokenize (join '' '' (map quoted [''create'', ''--name'', ''it's a task''])) =
     [''create'', ''--name'', ''it's a task'']"
  by (rule tokenize_quoted) (simp add: dquote_def)

text \<open>
  Over any provider that keeps the store contract, a command that does not wait removes no task
  and changes at most one, which is the task it names when it names one; a command that only reads
  changes nothing.  This holds whether the command succeeds or reports an error.
\<close>

theorem cli_execute_frame:
  assumes "task_store ops invar room tasks_of" "invar s" "room s"
    and "\<not> waits cmd" "cli_execute C ops cmd s = (r, s')"
  shows "dom (tasks_of s) \<subseteq> dom (tasks_of s') \<and>
     (\<exists>k. (named_id cmd = None \<or> named_id cmd = Some k) \<and>
          (\<forall>j. j \<noteq> k \<longrightarrow> tasks_of s' j = tasks_of s j)) \<and>
     (read_only cmd \<longrightarrow> tasks_of s' = tasks_of s)"
  by (rule task_store.execute_frame [OF assms])

definition demo_cli :: "mem_store cli_env" where
  "demo_cli = \<lparr> ce_now = 11, ce_json = (\<lambda>t. t_subject t), ce_list_json = (\<lambda>ts. ''[]''),
     ce_value = (\<lambda>t. JStr (t_subject t)), ce_list_value = (\<lambda>ts. JArr []), ce_time = show_nat,
     ce_read_file = (\<lambda>p. Inl ''absent''), ce_lag = (\<lambda>k. 0),
     ce_others = (\<lambda>k s. if k = 1 then snd (sched_kill (mem_ops ascending) 12 1 s) else s) \<rparr>"

theorem cli_execute_frame_witness:
  "\<exists>res s'. cli_execute demo_cli (mem_ops ascending) (CmdStop 1 False) demo_store = (Inr res, s') \<and>
     (\<forall>j. j \<noteq> 1 \<longrightarrow> ms_tasks s' j = ms_tasks demo_store j)"
proof -
  obtain res s' where run:
    "cli_execute demo_cli (mem_ops ascending) (CmdStop 1 False) demo_store = (Inr res, s')"
    by (simp add: exec_stop_def cli_fetch_def at_error_def bindE_def mapErr_def mem_defs demo_store_eq)
  have "mem_room demo_store" by (simp add: mem_room_def demo_store_eq)
  from cli_execute_frame [OF mem.task_store_axioms demo_store_inv this _ run]
  have "\<forall>j. j \<noteq> 1 \<longrightarrow> ms_tasks s' j = ms_tasks demo_store j" by simp
  with run show ?thesis by blast
qed

text \<open>
  \<open>claim\<close> starts only a task that is pending.  When it succeeds, exactly that task becomes
  running, assigned to the agent and with its start time set, and no other field of it and no other
  task changes; without an id the task claimed is one whose dependencies are all completed.  When
  it reports an error, no task has changed.
\<close>

theorem exec_claim_spec:
  assumes "task_store ops invar room tasks_of" "invar s" "exec_claim C ops target json s = (r, s')"
  shows "case r of
      Inl e \<Rightarrow> tasks_of s' = tasks_of s
    | Inr res \<Rightarrow> \<exists>i t. tasks_of s i = Some t \<and> t_status t = Pending \<and>
        (case target of Some j \<Rightarrow> i = j | None \<Rightarrow> is_ready (tasks_of s) i) \<and>
        tasks_of s' = (tasks_of s)(i \<mapsto>
          t\<lparr>t_status := Running, t_assignee := Some ''agent'', t_started_at := Some (ce_now C)\<rparr>)"
  using task_store.exec_claim_cases [OF assms] by (auto simp: claimed_def split: sum.splits)

theorem exec_claim_spec_witness:
  "\<exists>res s'. exec_claim demo_cli (mem_ops ascending) (Some 1) False demo_store = (Inr res, s') \<and>
     map_option t_status (ms_tasks s' 1) = Some Running"
proof -
  obtain res s' where run:
    "exec_claim demo_cli (mem_ops ascending) (Some 1) False demo_store = (Inr res, s')"
    by (simp add: exec_claim_def claim_target_def cli_fetch_def at_error_def bindE_def mapErr_def
        mem_defs demo_store_eq new_task_def claimed_def)
  from exec_claim_spec [OF mem.task_store_axioms demo_store_inv run]
  have "map_option t_status (ms_tasks s' 1) = Some Running" by auto
  with run show ?thesis by blast
qed

lemma apply_update_ids:
  "\<exists>D. t_dependencies (fst (apply_update subject desc assignee active_form st deps blocks t)) =
      t_dependencies t @ D \<and> distinct D \<and> set D = set deps - set (t_dependencies t)"
  "\<exists>B. t_blocks (fst (apply_update subject desc assignee active_form st deps blocks t)) =
      t_blocks t @ B \<and> distinct B \<and> set B = set blocks - set (t_blocks t)"
  using foldl_push_new_ext [of "t_dependencies t" deps] foldl_push_new_ext [of "t_blocks t" blocks]
  by (auto simp: apply_update_def upd_field_def upd_ids_def add_deps_def add_blocks_def
      split: option.split)

lemma apply_update_fields:
  "fst (apply_update subject desc assignee active_form st deps blocks t) =
     t\<lparr>t_subject := or_default (t_subject t) subject,
       t_description := or_default (t_description t) desc,
       t_assignee := (if assignee = None then t_assignee t else assignee),
       t_active_form := (if active_form = None then t_active_form t else active_form),
       t_status := or_default (t_status t) st,
       t_dependencies := t_dependencies (fst (apply_update subject desc assignee active_form st deps blocks t)),
       t_blocks := t_blocks (fst (apply_update subject desc assignee active_form st deps blocks t))\<rparr>"
  by (cases t) (simp add: apply_update_def upd_field_def upd_ids_def add_deps_def add_blocks_def
      or_default_def split: option.split)

text \<open>
  A successful \<open>update\<close> replaces exactly the named task.  Each field given takes the given value
  and each field not given keeps its own; the dependencies and the blocked ids are extended, in order
  and without duplicates, by exactly the given ids that were not there.
\<close>

theorem exec_update_spec:
  assumes "task_store ops invar room tasks_of" "invar s"
    and "exec_update C ops i status subject desc assignee active_form deps blocks json s = (Inr res, s')"
  shows "\<exists>t st D B. tasks_of s i = Some t \<and> parse_status_opt status = Inr st \<and>
     distinct D \<and> set D = set deps - set (t_dependencies t) \<and>
     distinct B \<and> set B = set blocks - set (t_blocks t) \<and>
     tasks_of s' = (tasks_of s)(i \<mapsto>
       t\<lparr>t_subject := or_default (t_subject t) subject,
         t_description := or_default (t_description t) desc,
         t_assignee := (if assignee = None then t_assignee t else assignee),
         t_active_form := (if active_form = None then t_active_form t else active_form),
         t_status := or_default (t_status t) st,
         t_dependencies := t_dependencies t @ D,
         t_blocks := t_blocks t @ B\<rparr>)"
proof -
  from task_store.exec_update_cases [OF assms] obtain t st where t: "tasks_of s i = Some t"
    "parse_status_opt status = Inr st" and s': "tasks_of s' = (tasks_of s)(i \<mapsto>
       fst (apply_update subject desc assignee active_form st deps blocks t))"
    by auto
  note eq = apply_update_fields [of subject desc assignee active_form st deps blocks t]
  from apply_update_ids [of subject desc assignee active_form st deps blocks t] obtain D B
    where "distinct D" "set D = set deps - set (t_dependencies t)"
      "distinct B" "set B = set blocks - set (t_blocks t)"
      and "t_dependencies (fst (apply_update subject desc assignee active_form st deps blocks t)) = t_dependencies t @ D"
      and "t_blocks (fst (apply_update subject desc assignee active_form st deps blocks t)) = t_blocks t @ B"
    by blast
  with t s' show ?thesis
    unfolding eq [unfolded \<open>t_dependencies (fst _) = _\<close> \<open>t_blocks (fst _) = _\<close>] by blast
qed

theorem exec_update_spec_witness:
  "\<exists>res s'. exec_update demo_cli (mem_ops ascending) 1 (Some ''failed'') None None None None [4, 3, 4] [] False
      demo_store = (Inr res, s') \<and>
     map_option (\<lambda>t. set (t_dependencies t)) (ms_tasks s' 1) = Some {3, 4}"
proof -
  have st: "parse_status_opt (Some ''failed'') = Inr (Some Failed)"
    by code_simp
  obtain res s' where run:
    "exec_update demo_cli (mem_ops ascending) 1 (Some ''failed'') None None None None [4, 3, 4] [] False
       demo_store = (Inr res, s')"
    by (simp add: exec_update_def st cli_fetch_def at_error_def bindE_def mapErr_def apply_update_def
        upd_field_def upd_ids_def add_deps_def mem_defs demo_store_eq new_task_def)
  from exec_update_spec [OF mem.task_store_axioms demo_store_inv run]
  have "map_option (\<lambda>t. set (t_dependencies t)) (ms_tasks s' 1) = Some {3, 4}"
    by (auto simp: demo_store_eq new_task_def)
  with run show ?thesis by blast
qed

text \<open>
  A blocking \<open>output\<close> always returns, and what it returns fits the state of the store at that
  time: when the task has ended by then it is the task's output, otherwise it is the timeout result
  and the task is still there and has not ended.  The rest of the system may change the store between
  two polls in any way that keeps the provider's invariant.
\<close>

theorem exec_output_spec:
  assumes "task_store ops invar room tasks_of" and "\<And>k s. invar s \<Longrightarrow> invar (ce_others C k s)"
    and "invar s" and "exec_output C ops i True timeout s = (Inr res, s')"
  shows "\<exists>t. tasks_of s' i = Some t \<and>
     (if terminal (t_status t) then res = read_output C i t
      else error res = Some ''timeout'' \<and> \<not> success res)"
  by (rule task_store.exec_output_blocking [OF assms])

lemma demo_others_inv: "mem_inv s \<Longrightarrow> mem_inv (ce_others demo_cli k s)"
  using mem.modify_spec [of s 1 "\<lambda>t. t\<lparr>t_status := Killed, t_completed_at := Some 12\<rparr>"
      "fst (sched_kill (mem_ops ascending) 12 1 s)" "snd (sched_kill (mem_ops ascending) 12 1 s)"]
  by (simp add: demo_cli_def sched_kill_def)

theorem exec_output_spec_witness:
  "\<exists>res s'. exec_output demo_cli (mem_ops ascending) 1 True 2000 demo_store = (Inr res, s') \<and>
     (\<exists>t. ms_tasks s' 1 = Some t \<and> res = read_output demo_cli 1 t)"
proof -
  have "\<exists>res s'. exec_output demo_cli (mem_ops ascending) 1 True 2000 demo_store = (Inr res, s') \<and>
      map_option t_status (ms_tasks s' 1) = Some Killed"
    by (simp add: exec_output_def bindE_def cli_wait.simps cli_fetch_def at_error_def mapErr_def
        demo_cli_def mem_defs demo_store_eq new_task_def terminal_def sched_kill_def fetch_task_def)
  then obtain res s' where run:
      "exec_output demo_cli (mem_ops ascending) 1 True 2000 demo_store = (Inr res, s')"
    and st: "map_option t_status (ms_tasks s' 1) = Some Killed" by blast
  from exec_output_spec [OF mem.task_store_axioms demo_others_inv demo_store_inv run]
  have "\<exists>t. ms_tasks s' 1 = Some t \<and> res = read_output demo_cli 1 t"
    using st by (auto simp: terminal_def split: if_splits)
  with run show ?thesis by blast
qed

end
