(* ===== verification/TaskTools.thy ===== *)
theory TaskTools
  imports TaskCliCorrect
begin

text \<open>
  The task tools a language model calls, \<open>crates/vol-llm-task/src/tools/\<close>: \<open>task_create\<close>,
  \<open>task_get\<close>, \<open>task_list\<close>, \<open>task_update\<close>, \<open>task_stop\<close>, \<open>task_claim\<close>, \<open>task_output\<close> and the
  command-line tool \<open>task\<close>.  The decoding of the JSON arguments into the parameter records is
  derived code of the JSON library: every tool takes the decoder as an argument.  The tool context
  is reduced to what the tools read of it, the type of the calling agent.
\<close>

section \<open>Shared pieces\<close>

definition exec_failed :: "string \<Rightarrow> ('s, store_error, 'a) eff \<Rightarrow> ('s, tool_error, 'a) eff" where
  "exec_failed what = mapErr (\<lambda>e. ExecutionFailed (what @ display_store_error e))"

text \<open>The standard library's error for a string that is not a decimal \<open>u64\<close>: the first bad character decides.\<close>

fun int_error :: "nat \<Rightarrow> string \<Rightarrow> string" where
  "int_error n [] = []"
| "int_error n (c # cs) =
     (if \<not> is_ascii_digit c then ''invalid digit found in string''
      else if 10 * n + digit_val c \<ge> 2 ^ 64 then ''number too large to fit in target type''
      else int_error (10 * n + digit_val c) cs)"

definition parse_int_error :: "string \<Rightarrow> string" where
  "parse_int_error s =
     (if s = [] then ''cannot parse integer from empty string''
      else if s = ''+'' then ''invalid digit found in string''
      else int_error 0 (if hd s = CHR ''+'' then tl s else s))"

definition parse_tool_id :: "string \<Rightarrow> ('s, tool_error, task_id) eff" where
  "parse_tool_id s =
     (case parse_u64 s of
        Some i \<Rightarrow> ret i
      | None \<Rightarrow> fail (InvalidArguments (''Invalid task ID: '' @ parse_int_error s)))"

definition hash_id :: "task_id \<Rightarrow> string" where
  "hash_id i = ''#'' @ show_u64 i"

definition status_text :: "task_status \<Rightarrow> string" where
  "status_text s = to_lower (debug_status s)"

section \<open>task\_create\<close>

record create_params =
  cp_subject :: string
  cp_description :: string
  cp_active_form :: "string option"
  cp_assignee :: "string option"

definition tool_create ::
  "create_params decoder \<Rightarrow> 's store_ops \<Rightarrow> time \<Rightarrow> string option \<Rightarrow> json \<Rightarrow> 's tool_eff" where
  "tool_create dec ops now agent_type args =
     bindE (decode_args dec args) (\<lambda>p.
     let t = (new_task now Agent (cp_subject p) [])
               \<lparr>t_description := cp_description p, t_active_form := cp_active_form p,
                t_publisher := agent_type, t_assignee := cp_assignee p\<rparr>
     in bindE (exec_failed ''Failed to create task: '' (so_create ops t)) (\<lambda>i.
        ret (tool_success
          (''Task '' @ hash_id i @ '' created successfully: '' @ cp_subject p))))"

section \<open>task\_get\<close>

definition tool_serialize_task :: "task \<Rightarrow> json" where
  "tool_serialize_task t = JObj
     [(''id'', JStr (show_u64 (t_id t))),
      (''subject'', JStr (t_subject t)),
      (''description'', JStr (t_description t)),
      (''status'', JStr (status_text (t_status t))),
      (''dependencies'', JArr (map (JStr \<circ> show_u64) (t_dependencies t))),
      (''blocks'', JArr (map (JStr \<circ> show_u64) (t_blocks t))),
      (''summary'', opt_str (t_summary t))]"

definition format_task_display :: "task \<Rightarrow> string" where
  "format_task_display t =
     join newline
       ([''Task '' @ hash_id (t_id t) @ '': '' @ t_subject t,
         ''Status: '' @ status_text (t_status t),
         ''Description: '' @ t_description t] @
        (if t_dependencies t \<noteq> []
         then [''Dependencies: '' @ join '', '' (map hash_id (t_dependencies t))] else []) @
        (if t_blocks t \<noteq> [] then [''Blocks: '' @ join '', '' (map hash_id (t_blocks t))] else []))"

definition tool_get :: "string decoder \<Rightarrow> 's store_ops \<Rightarrow> json \<Rightarrow> 's tool_eff" where
  "tool_get dec ops args =
     bindE (decode_args dec args) (\<lambda>id_str.
     bindE (parse_tool_id id_str) (\<lambda>i.
     bindE (exec_failed ''Failed to get task: '' (so_get ops i)) (\<lambda>found.
     ret (case found of
            Some t \<Rightarrow> ok_result (format_task_display t) (Some (JObj [(''task'', tool_serialize_task t)]))
          | None \<Rightarrow> ok_result ''Task not found'' (Some (JObj [(''task'', JNull)]))))))"

section \<open>task\_list\<close>

record list_params =
  lp_status :: "string option"
  lp_assignee :: "string option"

definition exact_status :: "string \<Rightarrow> task_status option" where
  "exact_status s =
     (if s = ''pending'' then Some Pending
      else if s = ''running'' then Some Running
      else if s = ''completed'' then Some Completed
      else if s = ''failed'' then Some Failed
      else if s = ''killed'' then Some Killed
      else None)"

definition assignee_filter :: "string option \<Rightarrow> string \<Rightarrow> task list \<Rightarrow> task list" where
  "assignee_filter agent_type a ts =
     (let eff = (if a = ''me'' then agent_type else if a = ''unassigned'' then Some [] else Some a)
      in case eff of
           None \<Rightarrow> ts
         | Some f \<Rightarrow> if f = [] then filter (\<lambda>t. t_assignee t = None) ts
                    else filter (\<lambda>t. t_assignee t = Some f) ts)"

definition list_entry :: "task \<Rightarrow> json" where
  "list_entry t = JObj
     [(''id'', JStr (show_u64 (t_id t))),
      (''status'', JStr (status_text (t_status t))),
      (''subject'', JStr (t_subject t)),
      (''summary'', opt_str (t_summary t)),
      (''publisher'', opt_str (t_publisher t)),
      (''assignee'', opt_str (t_assignee t))]"

definition list_result :: "task list \<Rightarrow> tool_result" where
  "list_result ts =
     ok_result (if ts = [] then ''No tasks found'' else ''Found '' @ show_nat (length ts) @ '' tasks'')
       (Some (JObj [(''tasks'', JArr (map list_entry ts))]))"

definition tool_list_with ::
  "'s store_ops \<Rightarrow> string option \<Rightarrow> string option \<Rightarrow> task_status option \<Rightarrow> 's tool_eff" where
  "tool_list_with ops agent_type assignee f =
     bindE (exec_failed ''Failed to list tasks: '' (so_list ops f)) (\<lambda>ts.
     ret (list_result
       (case assignee of None \<Rightarrow> ts | Some a \<Rightarrow> assignee_filter agent_type a ts)))"

definition tool_list ::
  "list_params decoder \<Rightarrow> 's store_ops \<Rightarrow> string option \<Rightarrow> json \<Rightarrow> 's tool_eff" where
  "tool_list dec ops agent_type args =
     bindE (decode_args dec args) (\<lambda>p.
     case lp_status p of
       None \<Rightarrow> tool_list_with ops agent_type (lp_assignee p) None
     | Some other \<Rightarrow>
         (case exact_status other of
            Some st \<Rightarrow> tool_list_with ops agent_type (lp_assignee p) (Some st)
          | None \<Rightarrow> ret (tool_failure (''Invalid status: '' @ other @
              ''. Valid values: pending, running, completed, failed, killed''))))"

section \<open>task\_update\<close>

record update_params =
  up_task_id :: string
  up_subject :: "string option"
  up_description :: "string option"
  up_active_form :: "string option"
  up_status :: "string option"
  up_add_dependencies :: "string list"
  up_add_blocks :: "string list"

definition update_failure :: "task_id \<Rightarrow> string \<Rightarrow> string \<Rightarrow> tool_result" where
  "update_failure i c e =
     err_result c e (Some (JObj [(''success'', JBool False), (''taskId'', JStr (show_u64 i)),
                                 (''updatedFields'', JArr [])]))"

definition parsed_ids :: "string list \<Rightarrow> task_id list" where
  "parsed_ids ids = List.map_filter parse_u64 ids"

definition tool_apply_update ::
  "update_params \<Rightarrow> task_status option \<Rightarrow> task \<Rightarrow> task \<times> string list" where
  "tool_apply_update p st t =
     (let (t1, names) =
        upd_field ''status'' (\<lambda>v u. u\<lparr>t_status := v\<rparr>) st (
        upd_field ''activeForm'' (\<lambda>v u. u\<lparr>t_active_form := Some v\<rparr>) (up_active_form p) (
        upd_field ''description'' (\<lambda>v u. u\<lparr>t_description := v\<rparr>) (up_description p) (
        upd_field ''subject'' (\<lambda>v u. u\<lparr>t_subject := v\<rparr>) (up_subject p) (t, []))));
        t2 = add_deps (parsed_ids (up_add_dependencies p)) t1;
        names2 = (if up_add_dependencies p \<noteq> [] then names @ [''dependencies''] else names);
        t3 = add_blocks (parsed_ids (up_add_blocks p)) t2;
        names3 = (if up_add_blocks p \<noteq> [] then names2 @ [''blocks''] else names2)
      in (t3, names3))"

definition tool_update_with ::
  "'s store_ops \<Rightarrow> update_params \<Rightarrow> task_id \<Rightarrow> task \<Rightarrow> task_status option \<Rightarrow> 's tool_eff" where
  "tool_update_with ops p i t st =
     (let (t', names) = tool_apply_update p st t
      in bindE (exec_failed ''Failed to update task: '' (so_update ops t')) (\<lambda>_.
         ret (ok_result (''Updated task '' @ hash_id i @ '' '' @ join '', '' names)
           (Some (JObj [(''success'', JBool True), (''taskId'', JStr (show_u64 i)),
                        (''updatedFields'', JArr (map JStr names))])))))"

definition tool_update :: "update_params decoder \<Rightarrow> 's store_ops \<Rightarrow> json \<Rightarrow> 's tool_eff" where
  "tool_update dec ops args =
     bindE (decode_args dec args) (\<lambda>p.
     bindE (parse_tool_id (up_task_id p)) (\<lambda>i.
     bindE (exec_failed ''Failed to get task: '' (so_get ops i)) (\<lambda>found.
     case found of
       None \<Rightarrow> ret (update_failure i (''Task '' @ hash_id i @ '' not found'') ''Task not found'')
     | Some t \<Rightarrow>
         (case up_status p of
            None \<Rightarrow> tool_update_with ops p i t None
          | Some s \<Rightarrow>
              (case exact_status s of
                 Some st \<Rightarrow> tool_update_with ops p i t (Some st)
               | None \<Rightarrow> ret (update_failure i (''Invalid status: '' @ s) (''Invalid status: '' @ s)))))))"

section \<open>task\_stop\<close>

definition tool_stop :: "string decoder \<Rightarrow> 's store_ops \<Rightarrow> time \<Rightarrow> json \<Rightarrow> 's tool_eff" where
  "tool_stop dec ops now args =
     bindE (decode_args dec args) (\<lambda>id_str.
     bindE (parse_tool_id id_str) (\<lambda>i.
     bindE (exec_failed ''Failed to get task: '' (so_get ops i)) (\<lambda>found.
     case found of
       None \<Rightarrow> ret (tool_failure (''Task '' @ hash_id i @ '' not found''))
     | Some t \<Rightarrow>
         if t_status t = Completed \<or> t_status t = Failed
         then ret (tool_failure (''Task '' @ hash_id i @ '' is not running (status: '' @
                debug_status (t_status t) @ '')''))
         else bindE (exec_failed ''Failed to stop task: ''
                (so_update ops (t\<lparr>t_status := Killed, t_completed_at := Some now\<rparr>))) (\<lambda>_.
              ret (ok_result (''Successfully stopped task '' @ hash_id i @ '': '' @ t_subject t)
                (Some (JObj [(''success'', JBool True), (''task_id'', JStr (show_u64 i))])))))))"

section \<open>task\_claim\<close>

definition plain_failed :: "('s, store_error, 'a) eff \<Rightarrow> ('s, tool_error, 'a) eff" where
  "plain_failed = mapErr (\<lambda>e. ExecutionFailed (display_store_error e))"

definition claim_blocked :: "string \<Rightarrow> task_id list \<Rightarrow> task \<Rightarrow> tool_error" where
  "claim_blocked id_str ready_ids t =
     ExecutionFailed (''Task '' @ id_str @ '' has uncompleted dependencies: ['' @
       join '', '' (map display_task_id (filter (\<lambda>d. d \<notin> set ready_ids) (t_dependencies t))) @ '']'')"

definition claim_result :: "string \<Rightarrow> task \<Rightarrow> tool_result" where
  "claim_result id_str t =
     ok_result (''Task '' @ id_str @ '' claimed and now Running.'' @ newline @ newline @ ''---'' @
         newline @ ''# '' @ t_subject t @ newline @ newline @ t_description t)
       (Some (JObj [(''task'', JObj
          [(''id'', JStr (display_task_id (t_id t))),
           (''subject'', JStr (t_subject t)),
           (''description'', JStr (t_description t)),
           (''status'', JStr ''Running''),
           (''publisher'', opt_str (t_publisher t)),
           (''assignee'', opt_str (t_assignee t))])]))"

text \<open>The claim once its arguments are decoded.\<close>

definition claim_run ::
  "'s store_ops \<Rightarrow> time \<Rightarrow> string \<Rightarrow> task_id \<Rightarrow> string \<Rightarrow> 's tool_eff" where
  "claim_run ops now id_str i who =
     bindE (plain_failed (so_get ops i)) (\<lambda>found.
     bindE (ok_or (ExecutionFailed (''Task '' @ id_str @ '' not found'')) found) (\<lambda>t.
     if t_status t \<noteq> Pending
     then fail (ExecutionFailed (''Task '' @ id_str @ '' is not in Pending status (current: '' @
            debug_status (t_status t) @ '')''))
     else
       bindE (plain_failed (so_ready ops)) (\<lambda>ready_ids.
       if i \<notin> set ready_ids then fail (claim_blocked id_str ready_ids t)
       else
         bindE (plain_failed (so_update ops (claimed now who t)))
           (\<lambda>_. ret (claim_result id_str (claimed now who t))))))"

definition tool_claim ::
  "string decoder \<Rightarrow> 's store_ops \<Rightarrow> time \<Rightarrow> string option \<Rightarrow> json \<Rightarrow> 's tool_eff" where
  "tool_claim dec ops now agent_type args =
     bindE (mapErr (\<lambda>e. InvalidArguments (''Failed to parse task ID: '' @ e)) (liftE (dec args))) (\<lambda>id_str.
     bindE (mapErr (\<lambda>e. InvalidArguments (''Invalid task ID: '' @ id_str)) (liftE (task_id_from_str id_str))) (\<lambda>i.
     bindE (ok_or (ExecutionFailed ''agent identity required for task_claim'') agent_type) (\<lambda>who.
     claim_run ops now id_str i who)))"

section \<open>task\_output\<close>

record output_params =
  op_task_id :: string
  op_block :: bool
  op_timeout :: u64

definition last_lines :: "nat \<Rightarrow> string list \<Rightarrow> string list" where
  "last_lines n ls = rev (take n (rev ls))"

definition output_result :: "task_id \<Rightarrow> string \<Rightarrow> tool_result" where
  "output_result i text =
     (let lines = str_lines text;
          total = length lines;
          shown = last_lines 2000 lines;
          truncated = total > 2000;
          output = join newline (map number_line (zip [0..<length shown] shown))
      in ok_result
           (if truncated then ''Showing last 2000 of '' @ show_nat total @ '' lines''
            else show_nat total @ '' lines'')
           (Some (JObj [(''task_id'', JStr (show_u64 i)), (''output'', JStr output),
                        (''total_lines'', JNum (int total)), (''truncated'', JBool truncated)])))"

definition tool_output ::
  "output_params decoder \<Rightarrow> 's store_ops \<Rightarrow> (string \<Rightarrow> string + string) \<Rightarrow> json \<Rightarrow> 's tool_eff" where
  "tool_output dec ops read_file args =
     bindE (decode_args dec args) (\<lambda>_.
     bindE (ok_or (InvalidArguments ''Missing required parameter: task_id'')
              (json_str (json_get ''task_id'' args))) (\<lambda>id_str.
     bindE (parse_tool_id id_str) (\<lambda>i.
     bindE (exec_failed ''Failed to get task: '' (so_get ops i)) (\<lambda>found.
     ret (case found of
            None \<Rightarrow> tool_failure (''Task '' @ hash_id i @ '' not found'')
          | Some t \<Rightarrow>
              (case t_result t of
                 None \<Rightarrow> tool_failure (''Task '' @ hash_id i @ '' has no output file'')
               | Some r \<Rightarrow>
                   (case read_file (tr_output_file r) of
                      Inl e \<Rightarrow> tool_failure (''Failed to read output file: '' @ e)
                    | Inr c \<Rightarrow> output_result i c)))))))"

section \<open>The command-line tool\<close>

text \<open>The first word of a text, \<open>split_whitespace().next()\<close>.\<close>

definition first_word :: "string \<Rightarrow> string" where
  "first_word s = takeWhile (\<lambda>c. \<not> is_space c) (trim_start s)"

definition cli_sensitivity :: "json \<Rightarrow> sensitivity" where
  "cli_sensitivity args =
     (let cmd_str = or_default [] (json_str (json_get ''command'' args))
      in if first_word cmd_str \<in> set [''update'', ''stop'', ''+done'', ''+claim'']
         then RequiresApproval ''This operation modifies task state'' else Safe)"

definition tool_cli ::
  "'s cli_env \<Rightarrow> (string list \<Rightarrow> string + arg_matches) \<Rightarrow> 's store_ops \<Rightarrow> json \<Rightarrow> 's tool_eff" where
  "tool_cli C clap ops args =
     bindE (ok_or (InvalidArguments
              ''Missing required parameter: 'command'. Usage: task <subcommand> [--flags]'')
              (json_str (json_get ''command'' args))) (\<lambda>command.
     bindE (mapErr InvalidArguments (liftE (parse_command clap command))) (\<lambda>cmd.
     mapErr ExecutionFailed (cli_execute C ops cmd)))"

definition update_sensitivity :: "json \<Rightarrow> sensitivity" where
  "update_sensitivity args =
     RequiresApproval ''This operation modifies task state and dependencies''"

definition stop_sensitivity :: "json \<Rightarrow> sensitivity" where
  "stop_sensitivity args = RequiresApproval ''This will terminate a running task''"

definition claim_sensitivity :: "json \<Rightarrow> sensitivity" where
  "claim_sensitivity args = Safe"

section \<open>Claiming is safe\<close>

lemma plain_failed_simps [simp]:
  "m s = (Inr x, s') \<Longrightarrow> plain_failed m s = (Inr x, s')"
  "m s = (Inl e, s') \<Longrightarrow> plain_failed m s = (Inl (ExecutionFailed (display_store_error e)), s')"
  by (simp_all add: plain_failed_def)

lemma tool_claim_cases:
  assumes "tool_claim dec ops now agent_type args s = (r, s')"
  obtains (bad) e where "r = Inl e" "s' = s"
    | (run) id_str i who where "dec args = Inr id_str" "task_id_from_str id_str = Inr i"
        "agent_type = Some who" "claim_run ops now id_str i who s = (r, s')"
proof (cases "dec args")
  case (Inl e)
  with assms show ?thesis using bad by (auto simp: tool_claim_def)
next
  case d: (Inr id_str)
  show ?thesis
  proof (cases "task_id_from_str id_str")
    case (Inl e)
    with assms d show ?thesis using bad by (auto simp: tool_claim_def)
  next
    case (Inr i)
    show ?thesis
    proof (cases agent_type)
      case None
      with assms d Inr show ?thesis using bad by (auto simp: tool_claim_def)
    next
      case (Some who)
      with assms d Inr show ?thesis using run [of id_str i who] by (simp add: tool_claim_def)
    qed
  qed
qed

context task_store
begin

lemma claim_run_cases:
  assumes "inv s" "claim_run ops now id_str i who s = (r, s')"
  shows "((\<exists>e. r = Inl e) \<and> tasks_of s' = tasks_of s) \<or>
     (\<exists>t. (\<exists>res. r = Inr res) \<and> tasks_of s i = Some t \<and> is_ready (tasks_of s) i \<and>
        tasks_of s' = (tasks_of s)(i \<mapsto> claimed now who t))"
  using assms(1)
proof (cases rule: get_cases [of s i])
  case (found t)
  show ?thesis
  proof (cases "t_status t = Pending")
    case False
    with found assms(2) show ?thesis by (auto simp: claim_run_def)
  next
    case pending: True
    obtain q s1 where q: "so_ready ops s = (q, s1)" by (cases "so_ready ops s")
    show ?thesis
    proof (cases q)
      case (Inl e)
      with q ready_err [of s e s1] found pending assms(2) show ?thesis by (auto simp: claim_run_def)
    next
      case (Inr ids)
      with q ready_ok [OF assms(1), of ids s1]
      have ids: "s1 = s" "set ids = {i. is_ready (tasks_of s) i}" by simp_all
      show ?thesis
      proof (cases "i \<in> set ids")
        case False
        with q Inr ids found pending assms(2) show ?thesis by (auto simp: claim_run_def)
      next
        case True
        have id: "t_id (claimed now who t) = i" using found by (simp add: claimed_def)
        obtain u s2 where u: "so_update ops (claimed now who t) s = (u, s2)"
          by (cases "so_update ops (claimed now who t) s")
        show ?thesis
        proof (cases u)
          case (Inl e)
          with u update_err [OF assms(1), of "claimed now who t" e s2] q Inr ids found pending True assms(2)
          show ?thesis by (auto simp: claim_run_def)
        next
          case (Inr v)
          with u modify_ok [OF assms(1) found(2) id, of v s2] q \<open>q = Inr ids\<close> ids found pending True assms(2)
          show ?thesis by (auto simp: claim_run_def)
        qed
      qed
    qed
  qed
qed (use assms(2) in \<open>auto simp: claim_run_def\<close>)

end

context total_task_store
begin

lemma claim_run_blocked:
  assumes "inv s" "tasks_of s i = Some t" "t_status t = Pending" "\<not> is_ready (tasks_of s) i"
  shows "claim_run ops now id_str i who s =
     (Inl (ExecutionFailed (''Task '' @ id_str @ '' has uncompleted dependencies: ['' @
        join '', '' (map display_task_id
          (filter (\<lambda>d. \<not> is_ready (tasks_of s) d) (t_dependencies t))) @ '']'')), s)"
proof -
  obtain ids where r: "so_ready ops s = (Inr ids, s)" "set ids = {i. is_ready (tasks_of s) i}"
    using ready_total [OF assms(1)] ready_ok [OF assms(1)] by blast
  with get_eq [OF assms(1), of i] assms show ?thesis
    by (simp add: claim_run_def claim_blocked_def)
qed

end

section \<open>Properties\<close>

text \<open>
  C3: the claim tool hands out only ready tasks.  When it succeeds, the task named by its argument
  was pending with every dependency completed, and exactly that task becomes running, assigned to
  the calling agent and with its start time set; when it reports an error, no task has changed.
\<close>

theorem tool_claim_spec:
  assumes "task_store ops invar room tasks_of" "invar s" "tool_claim dec ops now agent_type args s = (r, s')"
  shows "case r of
      Inl e \<Rightarrow> tasks_of s' = tasks_of s
    | Inr res \<Rightarrow> \<exists>id_str i who t. dec args = Inr id_str \<and> task_id_from_str id_str = Inr i \<and>
        agent_type = Some who \<and> tasks_of s i = Some t \<and> t_status t = Pending \<and>
        (\<forall>d \<in> set (t_dependencies t). is_completed (tasks_of s) d) \<and>
        tasks_of s' = (tasks_of s)(i \<mapsto>
          t\<lparr>t_status := Running, t_assignee := Some who, t_started_at := Some now\<rparr>)"
  using assms(3)
proof (cases rule: tool_claim_cases)
  case (bad e)
  then show ?thesis by simp
next
  case (run id_str i who)
  with task_store.claim_run_cases [OF assms(1,2) run(4)] show ?thesis
    by (auto simp: claimed_def is_ready_def split: sum.splits)
qed

theorem tool_claim_spec_witness:
  "\<exists>res s'. tool_claim (\<lambda>j. Inr ''t1'') (mem_ops ascending) 5 (Some ''coder'') JNull demo_store = (Inr res, s') \<and>
     map_option t_assignee (ms_tasks s' 1) = Some (Some ''coder'')"
proof -
  have "show_nat 1 = ''1''" by code_simp
  then have id: "task_id_from_str ''t1'' = Inr 1"
    using from_str_t_show [of 1] by (simp add: show_u64_def)
  have "\<exists>res s'. tool_claim (\<lambda>j. Inr ''t1'') (mem_ops ascending) 5 (Some ''coder'') JNull demo_store = (Inr res, s')"
  proof -
    have "is_ready (ms_tasks demo_store) 1"
      by (simp add: is_ready_def demo_store_eq new_task_def)
    moreover obtain ids where "so_ready (mem_ops ascending) demo_store = (Inr ids, demo_store)"
      "set ids = {i. is_ready (ms_tasks demo_store) i}"
      using mem.ready_total [OF demo_store_inv] mem.ready_ok [OF demo_store_inv] by blast
    ultimately show ?thesis
      by (simp add: tool_claim_def id claim_run_def mem.get_eq [OF demo_store_inv])
        (simp add: demo_store_eq new_task_def mem_defs plain_failed_def mapErr_def bindE_def claimed_def)
  qed
  then obtain res s' where run:
    "tool_claim (\<lambda>j. Inr ''t1'') (mem_ops ascending) 5 (Some ''coder'') JNull demo_store = (Inr res, s')"
    by blast
  from tool_claim_spec [OF mem.task_store_axioms demo_store_inv run]
  have "map_option t_assignee (ms_tasks s' 1) = Some (Some ''coder'')"
    by (auto simp: id)
  with run show ?thesis by blast
qed

text \<open>
  The message of a claim that is refused for its dependencies does not list the uncompleted
  ones.  It lists the dependencies that are not themselves ready to be claimed: every completed
  dependency is in the list, and an uncompleted dependency that is ready is not.
\<close>

theorem tool_claim_error_list:
  assumes "total_task_store ops invar room tasks_of" "invar s"
    and "dec args = Inr id_str" "task_id_from_str id_str = Inr i"
    and "tasks_of s i = Some t" "t_status t = Pending" "\<not> is_ready (tasks_of s) i"
  shows "\<exists>ds. tool_claim dec ops now (Some who) args s =
       (Inl (ExecutionFailed (''Task '' @ id_str @ '' has uncompleted dependencies: ['' @
          join '', '' (map display_task_id ds) @ '']'')), s) \<and>
     (\<forall>d. d \<in> set ds \<longleftrightarrow> d \<in> set (t_dependencies t) \<and> \<not> is_ready (tasks_of s) d) \<and>
     (\<forall>d \<in> set (t_dependencies t). is_completed (tasks_of s) d \<longrightarrow> d \<in> set ds)"
proof -
  have "\<not> is_ready (tasks_of s) d" if "is_completed (tasks_of s) d" for d
    using that by (auto simp: is_completed_def is_ready_def split: option.splits)
  then show ?thesis
    using total_task_store.claim_run_blocked [OF assms(1,2,5,6,7), of now id_str who] assms(3,4)
    by (intro exI [of _ "filter (\<lambda>d. \<not> is_ready (tasks_of s) d) (t_dependencies t)"])
      (auto simp: tool_claim_def)
qed

definition dep_store :: mem_store where
  "dep_store = \<lparr> ms_tasks =
     [1 \<mapsto> (new_task 7 Agent ''a'' [])\<lparr>t_id := 1, t_status := Completed\<rparr>,
      2 \<mapsto> (new_task 7 Agent ''b'' [])\<lparr>t_id := 2\<rparr>,
      3 \<mapsto> (new_task 7 Agent ''c'' [1, 2])\<lparr>t_id := 3\<rparr>], ms_next_id = 4 \<rparr>"

theorem tool_claim_error_list_witness:
  "\<exists>ds. tool_claim (\<lambda>j. Inr ''3'') (mem_ops ascending) 5 (Some ''coder'') JNull dep_store =
       (Inl (ExecutionFailed (''Task 3 has uncompleted dependencies: ['' @
          join '', '' (map display_task_id ds) @ '']'')), dep_store) \<and>
     1 \<in> set ds \<and> 2 \<notin> set ds"
proof -
  have "show_nat 3 = ''3''" by code_simp
  then have id: "task_id_from_str ''3'' = Inr 3"
    using from_str_show [of 3] by (simp add: show_u64_def)
  have inv: "mem_inv dep_store"
    by (auto simp: mem_inv_def keyed_def dep_store_def)
  have m: "ms_tasks dep_store 3 = Some ((new_task 7 Agent ''c'' [1, 2])\<lparr>t_id := 3\<rparr>)"
    by (simp add: dep_store_def)
  have r: "\<not> is_ready (ms_tasks dep_store) 3" "is_ready (ms_tasks dep_store) 2"
    "is_completed (ms_tasks dep_store) 1"
    by (simp_all add: is_ready_def is_completed_def dep_store_def new_task_def)
  from tool_claim_error_list [where dec = "\<lambda>j. Inr ''3''" and args = JNull and id_str = "''3''"
      and who = "''coder''" and now = 5, OF mem.total_task_store_axioms inv _ id m _ r(1)]
  show ?thesis
    using r(2,3) by (auto simp: new_task_def)
qed

lemma tok_step_append:
  "foldl tok_step (ts, cur, q) s =
     (case foldl tok_step ([], cur, q) s of (a, b, c) \<Rightarrow> (ts @ a, b, c))"
proof (induction s arbitrary: ts cur q)
  case Nil
  then show ?case by simp
next
  case (Cons ch s)
  obtain a b c where st: "tok_step ([], cur, q) ch = (a, b, c)"
    by (cases "tok_step ([], cur, q) ch")
  then have "tok_step (ts, cur, q) ch = (ts @ a, b, c)"
    by (auto split: option.splits if_splits)
  with st Cons.IH [of a b c] Cons.IH [of "ts @ a" b c] show ?case
    by (simp split: prod.splits)
qed

lemma tokenize_task_prefix: "tokenize (''task '' @ c) = ''task'' # tokenize c"
proof -
  have "foldl tok_step ([], [], None) ''task '' = ([''task''], [], None)"
    by code_simp
  then show ?thesis
    using tok_step_append [of "[''task'']" "[]" None c]
    by (simp only: tokenize_def foldl_append) (simp split: prod.splits)
qed

text \<open>
  The approval check of the command-line tool can be walked around.  Every command, with the
  word \<open>task\<close> in front of it (the form the tool's own description uses in its examples), is parsed
  to the same command but is classified as safe, so an update or a stop runs without approval.
\<close>

theorem cli_approval_bypass:
  assumes "tokenize c = [] \<or> hd (tokenize c) \<noteq> ''task''"
  shows "parse_command clap (''task '' @ c) = parse_command clap c \<and>
     cli_sensitivity (JObj [(''command'', JStr (''task '' @ c))]) = Safe"
proof
  show "parse_command clap (''task '' @ c) = parse_command clap c"
    using assms by (auto simp: parse_command_def tokenize_task_prefix simp del: append_Cons)
next
  have "first_word (''task '' @ c) = ''task''"
    by (simp add: first_word_def trim_start_def is_space_def)
  then show "cli_sensitivity (JObj [(''command'', JStr (''task '' @ c))]) = Safe"
    by (simp add: cli_sensitivity_def json_get_def json_str_def or_default_def)
qed

theorem cli_approval_bypass_witness:
  "cli_sensitivity (JObj [(''command'', JStr ''stop --id 1'')]) \<noteq> Safe \<and>
   cli_sensitivity (JObj [(''command'', JStr (''task '' @ ''stop --id 1''))]) = Safe \<and>
   parse_command (\<lambda>ts. Inl ''unknown'') (''task '' @ ''stop --id 1'') = parse_command (\<lambda>ts. Inl ''unknown'') ''stop --id 1''"
proof -
  have "tokenize ''stop --id 1'' = [] \<or> hd (tokenize ''stop --id 1'') \<noteq> ''task''" by code_simp
  moreover have "cli_sensitivity (JObj [(''command'', JStr ''stop --id 1'')]) \<noteq> Safe" by code_simp
  ultimately show ?thesis
    using cli_approval_bypass [of "''stop --id 1''" "\<lambda>ts. Inl ''unknown''"] by blast
qed

end
