(* ===== verification/TaskRace.thy ===== *)
theory TaskRace
  imports TaskTools
begin

text \<open>
  Concurrent claims.  \<open>task_claim\<close> (\<open>crates/vol-llm-task/src/tools/task_claim.rs\<close>) makes three store
  calls: it reads the task, asks which tasks are ready, and writes the claimed task back.  Each call
  is atomic in the store, the sequence is not.  The step relation below runs any number of agents
  that claim the same task, one store call at a time, in any order.
\<close>

section \<open>The step relation\<close>

datatype claim_pc = Start | Fetched task | Cleared task | Claimed | Refused

type_synonym 's claims = "'s \<times> (nat \<Rightarrow> claim_pc)"

inductive claim_step ::
  "'s store_ops \<Rightarrow> time \<Rightarrow> task_id \<Rightarrow> (nat \<Rightarrow> string) \<Rightarrow> 's claims \<Rightarrow> 's claims \<Rightarrow> bool"
  for ops now i who where
  fetch: "pc a = Start \<Longrightarrow> so_get ops i s = (Inr (Some t), s') \<Longrightarrow> t_status t = Pending \<Longrightarrow>
    claim_step ops now i who (s, pc) (s', pc(a := Fetched t))"
| refuse: "pc a = Start \<Longrightarrow> so_get ops i s = (Inr found, s') \<Longrightarrow>
    (\<forall>t. found = Some t \<longrightarrow> t_status t \<noteq> Pending) \<Longrightarrow>
    claim_step ops now i who (s, pc) (s', pc(a := Refused))"
| clear: "pc a = Fetched t \<Longrightarrow> so_ready ops s = (Inr ids, s') \<Longrightarrow> i \<in> set ids \<Longrightarrow>
    claim_step ops now i who (s, pc) (s', pc(a := Cleared t))"
| blocked: "pc a = Fetched t \<Longrightarrow> so_ready ops s = (Inr ids, s') \<Longrightarrow> i \<notin> set ids \<Longrightarrow>
    claim_step ops now i who (s, pc) (s', pc(a := Refused))"
| commit: "pc a = Cleared t \<Longrightarrow> so_update ops (claimed now (who a) t) s = (Inr u, s') \<Longrightarrow>
    claim_step ops now i who (s, pc) (s', pc(a := Claimed))"

definition all_start :: "nat \<Rightarrow> claim_pc" where
  "all_start a = Start"

text \<open>What holds after any number of steps of any agents, for the task as it was at the start.\<close>

fun seen :: "task_map \<Rightarrow> task_id \<Rightarrow> claim_pc \<Rightarrow> bool" where
  "seen m i (Fetched t) \<longleftrightarrow> m i = Some t \<and> t_status t = Pending \<and> t_id t = i"
| "seen m i (Cleared t) \<longleftrightarrow> m i = Some t \<and> t_status t = Pending \<and> t_id t = i \<and> is_ready m i"
| "seen m i Claimed \<longleftrightarrow> is_ready m i"
| "seen m i _ \<longleftrightarrow> True"

definition claim_inv ::
  "(nat \<Rightarrow> string) \<Rightarrow> time \<Rightarrow> task_id \<Rightarrow> task_map \<Rightarrow> task_map \<Rightarrow> (nat \<Rightarrow> claim_pc) \<Rightarrow> bool" where
  "claim_inv who now i m0 m pc \<longleftrightarrow>
     (\<forall>j. j \<noteq> i \<longrightarrow> m j = m0 j) \<and> (\<forall>a. seen m0 i (pc a)) \<and>
     ((\<forall>a. pc a \<noteq> Claimed) \<and> m i = m0 i \<or>
      (\<exists>a. pc a = Claimed \<and> m i = map_option (claimed now (who a)) (m0 i)))"

lemma claim_inv_start: "claim_inv who now i m m all_start"
  by (simp add: claim_inv_def all_start_def)

lemma claim_inv_seen: "claim_inv who now i m0 m pc \<Longrightarrow> seen m0 i (pc a)"
  by (simp add: claim_inv_def)

lemma claim_inv_move:
  assumes "claim_inv who now i m0 m pc" "pc a \<noteq> Claimed" "x \<noteq> Claimed" "seen m0 i x"
  shows "claim_inv who now i m0 m (pc(a := x))"
proof -
  have "\<forall>b. seen m0 i ((pc(a := x)) b)"
    using assms(1,4) by (simp add: claim_inv_def)
  moreover have "(\<forall>b. (pc(a := x)) b \<noteq> Claimed) \<and> m i = m0 i \<or>
      (\<exists>b. (pc(a := x)) b = Claimed \<and> m i = map_option (claimed now (who b)) (m0 i))"
  proof (cases "\<forall>b. pc b \<noteq> Claimed")
    case True
    with assms(1,3) show ?thesis by (auto simp: claim_inv_def)
  next
    case False
    with assms(1) obtain b where "pc b = Claimed" "m i = map_option (claimed now (who b)) (m0 i)"
      unfolding claim_inv_def by blast
    moreover from this(1) assms(2) have "b \<noteq> a" by auto
    ultimately show ?thesis by auto
  qed
  ultimately show ?thesis
    using assms(1) unfolding claim_inv_def by blast
qed

lemma claim_inv_pending:
  assumes "claim_inv who now i m0 m pc" "m i = Some t" "t_status t = Pending"
  shows "m0 i = Some t"
  using assms by (cases "m0 i") (auto simp: claim_inv_def claimed_def)

lemma claim_inv_ready:
  assumes "claim_inv who now i m0 m pc" "is_ready m i"
  shows "is_ready m0 i"
proof (cases "\<forall>a. pc a \<noteq> Claimed")
  case True
  with assms(1) have "m = m0" by (auto simp: claim_inv_def fun_eq_iff)
  with assms(2) show ?thesis by simp
next
  case False
  then obtain a where "pc a = Claimed" by auto
  with claim_inv_seen [OF assms(1), of a] show ?thesis by simp
qed

lemma claim_inv_commit:
  assumes "claim_inv who now i m0 m pc" "pc a = Cleared t"
  shows "claim_inv who now i m0 (m(i \<mapsto> claimed now (who a) t)) (pc(a := Claimed))"
proof -
  from claim_inv_seen [OF assms(1), of a] assms(2) have "m0 i = Some t" "is_ready m0 i" by simp_all
  with assms(1) show ?thesis unfolding claim_inv_def by auto
qed

context task_store
begin

lemma claim_step_inv:
  assumes "claim_step ops now i who (s, pc) (s', pc')"
    and "inv s" "claim_inv who now i m0 (tasks_of s) pc"
  shows "inv s' \<and> claim_inv who now i m0 (tasks_of s') pc'"
  using assms(1)
proof cases
  case (fetch a t)
  with get_ok [OF assms(2), of i "Some t" s'] have t: "tasks_of s i = Some t" "s' = s" by simp_all
  moreover have "t_id t = i" using inv_keyed [OF assms(2)] t(1) by auto
  ultimately show ?thesis
    using claim_inv_pending [OF assms(3) t(1)] fetch claim_inv_move [OF assms(3), of a "Fetched t"] assms(2)
    by simp
next
  case (refuse a found)
  with get_ok [OF assms(2), of i found s'] claim_inv_move [OF assms(3), of a Refused] assms(2)
  show ?thesis by simp
next
  case (clear a t ids)
  with ready_ok [OF assms(2), of ids s'] have r: "s' = s" "is_ready (tasks_of s) i" by auto
  with clear claim_inv_ready [OF assms(3) r(2)] claim_inv_move [OF assms(3), of a "Cleared t"]
    claim_inv_seen [OF assms(3), of a] assms(2)
  show ?thesis by simp
next
  case (blocked a t ids)
  with ready_ok [OF assms(2), of ids s'] claim_inv_move [OF assms(3), of a Refused] assms(2)
  show ?thesis by simp
next
  case (commit a t u)
  from claim_inv_seen [OF assms(3), of a] commit have t: "m0 i = Some t" "t_id t = i" by simp_all
  then have "tasks_of s i \<noteq> None"
    using assms(3) by (auto simp: claim_inv_def)
  moreover have "t_id (claimed now (who a) t) = i"
    using t(2) by (simp add: claimed_def)
  ultimately have "inv s'" "tasks_of s' = (tasks_of s)(i \<mapsto> claimed now (who a) t)"
    using commit update_ok [OF assms(2), of "claimed now (who a) t" u s'] by auto
  then show ?thesis
    using commit claim_inv_commit [OF assms(3), of a t] by simp
qed

lemma claim_steps_inv:
  assumes "(claim_step ops now i who)\<^sup>*\<^sup>* (s, all_start) (s', pc')" "inv s"
  shows "inv s' \<and> claim_inv who now i (tasks_of s) (tasks_of s') pc'"
  using assms(1)
proof (induction "(s', pc')" arbitrary: s' pc' rule: rtranclp_induct)
  case base
  with assms(2) show ?case by (simp add: claim_inv_start)
next
  case (step y)
  obtain s1 pc1 where y: "y = (s1, pc1)" by (cases y)
  with step claim_step_inv [of now i who s1 pc1 s' pc' "tasks_of s"] show ?case by simp
qed

lemma claim_run_steps:
  assumes "pc a = Start" "claim_run ops now id_str i (who a) s = (Inr res, s')"
  shows "(claim_step ops now i who)\<^sup>*\<^sup>* (s, pc) (s', pc(a := Claimed))"
proof -
  from assms(2) obtain t s1 ids s2 u where
    g: "so_get ops i s = (Inr (Some t), s1)" "t_status t = Pending"
    and r: "so_ready ops s1 = (Inr ids, s2)" "i \<in> set ids"
    and u: "so_update ops (claimed now (who a) t) s2 = (Inr u, s')"
    by (auto simp: claim_run_def plain_failed_def mapErr_def ok_or_def elim!: bindE_InrE
        split: if_splits option.splits prod.splits sum.splits)
  have "claim_step ops now i who (s, pc) (s1, pc(a := Fetched t))"
    using claim_step.fetch [of pc a ops i s t s1 now who] assms(1) g by simp
  moreover have "claim_step ops now i who (s1, pc(a := Fetched t)) (s2, pc(a := Cleared t))"
    using claim_step.clear [of "pc(a := Fetched t)" a t ops s1 ids s2 i now who] r by simp
  moreover have "claim_step ops now i who (s2, pc(a := Cleared t)) (s', pc(a := Claimed))"
    using claim_step.commit [of "pc(a := Cleared t)" a t ops now who s2 u s' i] u by simp
  ultimately show ?thesis by (meson converse_rtranclp_into_rtranclp r_into_rtranclp)
qed

end

section \<open>Properties\<close>


definition two_agents :: "nat \<Rightarrow> string" where
  "two_agents a = (if a = 0 then ''coder'' else ''tester'')"

lemma claim_1_mem:
  assumes "is_ready (ms_tasks s) 1" "mem_inv s"
  shows "\<exists>ids. so_ready (mem_ops ascending) s = (Inr ids, s) \<and> 1 \<in> set ids"
  using mem.ready_total [OF assms(2)] mem.ready_ok [OF assms(2)] assms(1) by blast


text \<open>
  Claiming is not exclusive.  On the in-memory store two agents that claim one ready task at the
  same time can both succeed: the second write replaces the first, and both agents were told that
  the task is theirs.
\<close>

theorem double_claim:
  "\<exists>s' pc. (claim_step (mem_ops ascending) 5 1 two_agents)\<^sup>*\<^sup>* (demo_store, all_start) (s', pc) \<and>
     pc 0 = Claimed \<and> pc 1 = Claimed \<and>
     map_option t_assignee (ms_tasks s' 1) = Some (Some ''tester'')"
proof -
  let ?step = "claim_step (mem_ops ascending) 5 1 two_agents"
  let ?t = "(new_task 7 Agent ''build'' [])\<lparr>t_id := 1\<rparr>"
  let ?s1 = "snd (so_update (mem_ops ascending) (claimed 5 (two_agents 0) ?t) demo_store)"
  let ?s2 = "snd (so_update (mem_ops ascending) (claimed 5 (two_agents 1) ?t) ?s1)"
  let ?p1 = "all_start(0 := Fetched ?t)" let ?p2 = "?p1(1 := Fetched ?t)"
  let ?p3 = "?p2(0 := Cleared ?t)" let ?p4 = "?p3(1 := Cleared ?t)"
  let ?p5 = "?p4(0 := Claimed)" let ?p6 = "?p5(1 := Claimed)"
  have get: "so_get (mem_ops ascending) 1 demo_store = (Inr (Some ?t), demo_store)"
    by (simp add: mem_defs demo_store_eq)
  have rd: "is_ready (ms_tasks demo_store) 1"
    by (simp add: is_ready_def demo_store_eq new_task_def)
  obtain ids where ids: "so_ready (mem_ops ascending) demo_store = (Inr ids, demo_store)" "1 \<in> set ids"
    using claim_1_mem [OF rd demo_store_inv] by blast
  have up: "so_update (mem_ops ascending) x s = (Inr (), snd (so_update (mem_ops ascending) x s))" for x s
    by (simp add: mem_defs)
  have pend: "t_status ?t = Pending" by (simp add: new_task_def)
  have "?step (demo_store, all_start) (demo_store, ?p1)"
    by (rule claim_step.fetch [OF _ get pend]) (simp add: all_start_def)
  moreover have "?step (demo_store, ?p1) (demo_store, ?p2)"
    by (rule claim_step.fetch [OF _ get pend]) (simp add: all_start_def)
  moreover have "?step (demo_store, ?p2) (demo_store, ?p3)"
    by (rule claim_step.clear [OF _ ids]) simp
  moreover have "?step (demo_store, ?p3) (demo_store, ?p4)"
    by (rule claim_step.clear [OF _ ids]) simp
  moreover have "?step (demo_store, ?p4) (?s1, ?p5)"
    by (rule claim_step.commit [OF _ up]) simp
  moreover have "?step (?s1, ?p5) (?s2, ?p6)"
    by (rule claim_step.commit [OF _ up]) simp
  ultimately have "?step\<^sup>*\<^sup>* (demo_store, all_start) (?s2, ?p6)"
    by (meson converse_rtranclp_into_rtranclp rtranclp.rtrancl_refl)
  moreover have "map_option t_assignee (ms_tasks ?s2 1) = Some (Some ''tester'')"
    by (simp add: mem_defs claimed_def two_agents_def)
  ultimately show ?thesis by (intro exI [of _ ?s2] exI [of _ ?p6]) simp
qed

end
