(* ===== verification/SandboxTypes.thy ===== *)
theory SandboxTypes
  imports Prelude
begin

text \<open>
  The data of the sandbox crate: profiles and provider configurations
  (\<open>crates/vol-llm-sandbox/src/spec.rs\<close>), statuses, capabilities and errors (\<open>lib.rs\<close>), and
  instance records (\<open>store.rs\<close>, \<open>provider.rs\<close>).
\<close>

type_synonym u16 = "16 word"

section \<open>Profiles\<close>

record firecracker_config =
  fc_kernel_image :: string
  fc_rootfs_image :: string
  fc_rootfs_readonly :: bool
  fc_pool_size :: u64
  fc_idle_timeout_secs :: u64
  fc_connect_timeout_secs :: u64
  fc_binary :: "string option"
  fc_guest_ip :: string
  fc_guest_ssh_port :: u16
  fc_tap_device :: string
  fc_ssh_identity_file :: string
  fc_ssh_passphrase :: "string option"

record wasm_module_config =
  wm_name :: string
  wm_path :: string
  wm_expose_as_tool :: bool

record wasm_config =
  wc_max_memory_bytes :: u64
  wc_max_execution_ms :: u64
  wc_modules :: "wasm_module_config list"

record ssh_settings =
  ss_work_dir :: string
  ss_host :: string
  ss_user :: string
  ss_port :: u16
  ss_key_path :: "string option"
  ss_identity_file :: "string option"
  ss_passphrase :: "string option"
  ss_known_hosts_file :: "string option"
  ss_host_key :: "string option"
  ss_idle_timeout_secs :: u64
  ss_connect_timeout_secs :: u64

datatype provider_config =
    CfgLocal "string option"
  | CfgTmp "string option" "string option"
  | CfgSsh ssh_settings
  | CfgFirecracker "string option" firecracker_config
  | CfgWasm "string option" wasm_config

record sandbox_spec =
  spec_name :: string
  spec_config :: provider_config
  spec_metadata :: "string \<rightharpoonup> string"

fun config_kind :: "provider_config \<Rightarrow> string" where
  "config_kind (CfgLocal _) = ''local''"
| "config_kind (CfgTmp _ _) = ''tmp''"
| "config_kind (CfgSsh _) = ''ssh''"
| "config_kind (CfgFirecracker _ _) = ''firecracker''"
| "config_kind (CfgWasm _ _) = ''wasm''"

definition spec_provider :: "sandbox_spec \<Rightarrow> string" where
  "spec_provider sp = config_kind (spec_config sp)"

definition default_port :: u16 where "default_port = 22"
definition default_idle_timeout :: u64 where "default_idle_timeout = 300"
definition default_connect_timeout :: u64 where "default_connect_timeout = 10"
definition default_wasm_memory :: u64 where "default_wasm_memory = 134217728"
definition default_wasm_timeout :: u64 where "default_wasm_timeout = 30000"
definition default_pool_size :: u64 where "default_pool_size = 1"
definition default_idle_timeout_fc :: u64 where "default_idle_timeout_fc = 300"
definition default_connect_timeout_fc :: u64 where "default_connect_timeout_fc = 10"
definition default_guest_ip :: string where "default_guest_ip = ''172.16.0.2''"
definition default_guest_ssh_port :: u16 where "default_guest_ssh_port = 22"

record local_config =
  lc_work_dir :: "string option"

record tmp_config =
  tc_sub_dir :: "string option"

record ssh_config =
  sc_host :: string
  sc_user :: string
  sc_work_dir :: string
  sc_port :: u16
  sc_key_path :: "string option"
  sc_passphrase :: "string option"
  sc_known_hosts_file :: "string option"
  sc_host_key :: "string option"
  sc_idle_timeout_secs :: u64
  sc_connect_timeout_secs :: u64

fun as_local :: "provider_config \<Rightarrow> local_config option" where
  "as_local (CfgLocal work_dir) = Some \<lparr> lc_work_dir = work_dir \<rparr>"
| "as_local _ = None"

fun as_tmp :: "provider_config \<Rightarrow> tmp_config option" where
  "as_tmp (CfgTmp _ sub_dir) = Some \<lparr> tc_sub_dir = sub_dir \<rparr>"
| "as_tmp _ = None"

fun as_ssh :: "provider_config \<Rightarrow> ssh_config option" where
  "as_ssh (CfgSsh c) = Some
     \<lparr> sc_host = ss_host c, sc_user = ss_user c, sc_work_dir = ss_work_dir c, sc_port = ss_port c,
       sc_key_path = (case ss_key_path c of Some k \<Rightarrow> Some k | None \<Rightarrow> ss_identity_file c),
       sc_passphrase = ss_passphrase c, sc_known_hosts_file = ss_known_hosts_file c,
       sc_host_key = ss_host_key c, sc_idle_timeout_secs = ss_idle_timeout_secs c,
       sc_connect_timeout_secs = ss_connect_timeout_secs c \<rparr>"
| "as_ssh _ = None"

fun as_firecracker :: "provider_config \<Rightarrow> firecracker_config option" where
  "as_firecracker (CfgFirecracker _ c) = Some c"
| "as_firecracker _ = None"

fun as_wasm :: "provider_config \<Rightarrow> wasm_config option" where
  "as_wasm (CfgWasm _ c) = Some c"
| "as_wasm _ = None"

section \<open>Status, capabilities, errors\<close>

datatype sandbox_status =
    SbCreating | SbCreated | SbStarting | SbRunning | SbPausing | SbPaused | SbStopping | SbStopped
  | SbDestroying | SbDestroyed | SbFailed

fun status_name :: "sandbox_status \<Rightarrow> string" where
  "status_name SbCreating = ''Creating''"
| "status_name SbCreated = ''Created''"
| "status_name SbStarting = ''Starting''"
| "status_name SbRunning = ''Running''"
| "status_name SbPausing = ''Pausing''"
| "status_name SbPaused = ''Paused''"
| "status_name SbStopping = ''Stopping''"
| "status_name SbStopped = ''Stopped''"
| "status_name SbDestroying = ''Destroying''"
| "status_name SbDestroyed = ''Destroyed''"
| "status_name SbFailed = ''Failed''"

record sandbox_caps =
  cap_persistent :: bool
  cap_pausable :: bool
  cap_stoppable :: bool
  cap_destroyable :: bool

datatype sandbox_error =
    SbIo string
  | SbPathTraversal string
  | SbNotStarted
  | SbAlreadyStarted
  | SbSsh string
  | SbFirecracker string
  | SbWasm string
  | SbTimeout time
  | SbUnknownType string
  | SbDuplicateName string
  | SbLocalOverride
  | SbConfig string
  | SbNotFound string
  | SbInvalidTransition sandbox_status sandbox_status

text \<open>The allowed changes of a status, \<open>SandboxManager::validate_transition\<close>.\<close>

definition transition_ok :: "sandbox_status \<Rightarrow> sandbox_status \<Rightarrow> bool" where
  "transition_ok src dst \<longleftrightarrow>
     (src, dst) \<in> set
       [(SbCreated, SbStarting), (SbCreated, SbRunning),
        (SbStarting, SbRunning),
        (SbRunning, SbPausing), (SbRunning, SbStopping), (SbRunning, SbStopped),
        (SbPausing, SbPaused),
        (SbPaused, SbStarting), (SbPaused, SbRunning), (SbPaused, SbStopping), (SbPaused, SbStopped),
        (SbStopping, SbStopped),
        (SbStopped, SbStarting), (SbStopped, SbRunning), (SbStopped, SbDestroying), (SbStopped, SbDestroyed),
        (SbDestroying, SbDestroyed)] \<or>
     dst = SbFailed"

definition validate_transition :: "sandbox_status \<Rightarrow> sandbox_status \<Rightarrow> sandbox_error + unit" where
  "validate_transition src dst =
     (if transition_ok src dst then Inr () else Inl (SbInvalidTransition src dst))"

section \<open>Records\<close>

type_synonym sandbox_id = string

record sandbox_record =
  sr_id :: sandbox_id
  sr_profile :: string
  sr_provider_kind :: string
  sr_backend_id :: string
  sr_status :: sandbox_status
  sr_created_at :: time
  sr_updated_at :: time
  sr_metadata :: "string \<rightharpoonup> string"

record sandbox_filter =
  sf_profile :: "string option"
  sf_provider_kind :: "string option"
  sf_status :: "sandbox_status option"

record sandbox_info =
  si_id :: string
  si_profile :: string
  si_kind :: string
  si_status :: string
  si_root_path :: "string option"
  si_capabilities :: sandbox_caps

text \<open>A handle, \<open>Arc<dyn Sandbox>\<close>, as the manager sees it.\<close>

record sandbox =
  sb_id :: sandbox_id
  sb_kind :: string
  sb_root :: "string option"
  sb_temp :: bool
  sb_status :: sandbox_status

end
