(* ===== verification/SandboxPath.thy ===== *)
theory SandboxPath
  imports SandboxTypes
begin

text \<open>
  Path handling of the local sandboxes: \<open>normalize_path\<close> (\<open>crates/vol-llm-sandbox/src/lib.rs\<close>),
  \<open>resolve_path\<close> and the byte range of \<open>read_file\<close> (\<open>local.rs\<close>, \<open>tmp.rs\<close>).  A path is a string; the
  standard library compares paths by their components, so a \<open>PathBuf\<close> that the code builds component
  by component is the list of these components.
\<close>

section \<open>Components\<close>

datatype component = RootDir | CurDir | ParentDir | Normal string

text \<open>
  \<open>Path::components\<close> on Unix: a root for a leading slash, then the segments between slashes; empty
  segments and \<open>.\<close> segments are skipped, except a \<open>.\<close> at the start of a relative path.
\<close>

fun segments :: "string \<Rightarrow> string \<Rightarrow> string list" where
  "segments current [] = [current]"
| "segments current (c # cs) =
     (if c = CHR ''/'' then current # segments [] cs else segments (current @ [c]) cs)"

definition seg_component :: "string \<Rightarrow> component list" where
  "seg_component s =
     (if s = [] \<or> s = ''.'' then [] else if s = ''..'' then [ParentDir] else [Normal s])"

definition is_absolute :: "string \<Rightarrow> bool" where
  "is_absolute p \<longleftrightarrow> p \<noteq> [] \<and> hd p = CHR ''/''"

definition components :: "string \<Rightarrow> component list" where
  "components p =
     (let segs = segments [] p
      in (if is_absolute p then [RootDir] else if hd segs = ''.'' then [CurDir] else []) @
         concat (map seg_component segs))"

text \<open>\<open>Path::join\<close>.\<close>

definition path_join :: "string \<Rightarrow> string \<Rightarrow> string" where
  "path_join p q =
     (if is_absolute q then q
      else if p = [] then q
      else if last p = CHR ''/'' then p @ q
      else p @ ''/'' @ q)"

section \<open>Normalization\<close>

text \<open>\<open>PathBuf::pop\<close>: drops the last component, never the root.\<close>

definition path_pop :: "component list \<Rightarrow> component list" where
  "path_pop cs = (if cs = [] \<or> last cs = RootDir then cs else butlast cs)"

text \<open>\<open>PathBuf::push\<close> of one component: the root replaces the path.\<close>

definition path_push :: "component list \<Rightarrow> component \<Rightarrow> component list" where
  "path_push cs c = (if c = RootDir then [RootDir] else cs @ [c])"

fun norm_step :: "component list \<Rightarrow> component \<Rightarrow> component list" where
  "norm_step result ParentDir = path_pop result"
| "norm_step result CurDir = result"
| "norm_step result c = path_push result c"

definition normalize_path :: "string \<Rightarrow> component list" where
  "normalize_path p =
     (let result = foldl norm_step [] (components p)
      in if result = [] \<and> p \<noteq> [] then [CurDir] else result)"

section \<open>Resolving a path in a sandbox\<close>

definition starts_with_comps :: "component list \<Rightarrow> component list \<Rightarrow> bool" where
  "starts_with_comps p base \<longleftrightarrow> take (length base) p = base"

definition resolve_path :: "string \<Rightarrow> string \<Rightarrow> sandbox_error + component list" where
  "resolve_path root rel =
     (if rel \<noteq> [] \<and> (hd rel = CHR ''/'' \<or> hd rel = CHR ''~'') then Inl (SbPathTraversal rel)
      else
        let normalized = normalize_path (path_join root rel);
            normalized_root = normalize_path root
        in if \<not> starts_with_comps normalized normalized_root then Inl (SbPathTraversal rel)
           else Inr normalized)"

text \<open>
  \<open>ToolContext::resolve_path\<close> (\<open>crates/vol-llm-tool/src/tool.rs\<close>): an absolute input that starts with
  the text of the sandbox root is cut to a relative one before the sandbox resolves it.
\<close>

definition ctx_relative :: "string option \<Rightarrow> string \<Rightarrow> string" where
  "ctx_relative root_path rel =
     (if is_absolute rel then
        let root = (case root_path of None \<Rightarrow> [] | Some r \<Rightarrow> r)
        in if root \<noteq> [] \<and> take (length root) rel = root \<and> length root < length rel
           then dropWhile (\<lambda>c. c = CHR ''/'') (drop (length root) rel)
           else rel
      else rel)"

definition ctx_resolve_path ::
  "string option \<Rightarrow> (string \<Rightarrow> sandbox_error + component list) \<Rightarrow> string \<Rightarrow> sandbox_error + component list" where
  "ctx_resolve_path root_path resolve rel = resolve (ctx_relative root_path rel)"

section \<open>The byte range of a read\<close>

text \<open>\<open>usize\<close> is 64 bits wide, so \<open>usize::try_from\<close> of a \<open>u64\<close> succeeds and the addition saturates.\<close>

definition saturating_add :: "u64 \<Rightarrow> u64 \<Rightarrow> u64" where
  "saturating_add a b = (if unat a + unat b < 2 ^ 64 then a + b else - 1)"

definition read_range :: "'a list \<Rightarrow> u64 option \<Rightarrow> u64 option \<Rightarrow> 'a list" where
  "read_range content offset limit =
     (let start = (case offset of None \<Rightarrow> 0 | Some a \<Rightarrow> a);
          e = (case limit of None \<Rightarrow> length content | Some l \<Rightarrow> unat (saturating_add start l));
          e = min e (length content)
      in if unat start \<le> e then take (e - unat start) (drop (unat start) content) else [])"

section \<open>Facts about components\<close>

definition good_name :: "string \<Rightarrow> bool" where
  "good_name n \<longleftrightarrow> n \<noteq> [] \<and> n \<noteq> ''.'' \<and> n \<noteq> ''..'' \<and> CHR ''/'' \<notin> set n"

definition rel_components :: "string \<Rightarrow> component list" where
  "rel_components q = concat (map seg_component (segments [] q))"

lemma segments_not_Nil [simp]: "segments cur q \<noteq> []"
  by (induction cur q rule: segments.induct) auto

lemma segments_join: "segments cur (p @ CHR ''/'' # q) = segments cur p @ segments [] q"
  by (induction cur p rule: segments.induct) auto

lemma segments_single: "CHR ''/'' \<notin> set p \<Longrightarrow> segments cur p = [cur @ p]"
  by (induction cur p rule: segments.induct) auto

lemma segments_no_slash: "CHR ''/'' \<notin> set cur \<Longrightarrow> s \<in> set (segments cur q) \<Longrightarrow> CHR ''/'' \<notin> set s"
  by (induction cur q rule: segments.induct) (auto split: if_splits)

lemma seg_component_set:
  "CHR ''/'' \<notin> set s \<Longrightarrow> c \<in> set (seg_component s) \<Longrightarrow> c = ParentDir \<or> (\<exists>n. c = Normal n \<and> good_name n)"
  by (auto simp: seg_component_def good_name_def split: if_splits)

lemma rel_components_set:
  "c \<in> set (rel_components q) \<Longrightarrow> c = ParentDir \<or> (\<exists>n. c = Normal n \<and> good_name n)"
  using segments_no_slash [of "[]" _ q] seg_component_set by (fastforce simp: rel_components_def)

lemma components_abs: "is_absolute p \<Longrightarrow> components p = RootDir # rel_components p"
  by (simp add: components_def rel_components_def)

lemma rel_components_join:
  assumes "p \<noteq> []" "\<not> is_absolute q"
  shows "rel_components (path_join p q) = rel_components p @ rel_components q"
proof (cases "last p = CHR ''/''")
  case True
  then obtain p' where "p = p' @ ''/''"
    using assms(1) by (metis append_butlast_last_id)
  with assms True show ?thesis
    by (simp add: path_join_def rel_components_def segments_join seg_component_def)
next
  case False
  with assms show ?thesis
    by (simp add: path_join_def rel_components_def segments_join)
qed

lemma is_absolute_join: "is_absolute p \<Longrightarrow> \<not> is_absolute q \<Longrightarrow> is_absolute (path_join p q)"
  by (simp add: is_absolute_def path_join_def)

lemma components_join:
  assumes "is_absolute p" "\<not> is_absolute q"
  shows "components (path_join p q) = components p @ rel_components q"
  using assms is_absolute_join [OF assms] rel_components_join [of p q]
  by (simp add: components_abs) (auto simp: is_absolute_def)

lemma norm_fold_abs:
  assumes "\<forall>c \<in> set cs. c = ParentDir \<or> (\<exists>n. c = Normal n \<and> good_name n)" "list_all good_name ms"
  shows "\<exists>ns. foldl norm_step (RootDir # map Normal ms) cs = RootDir # map Normal ns \<and> list_all good_name ns"
  using assms
proof (induction cs arbitrary: ms)
  case Nil
  then show ?case by auto
next
  case (Cons c cs)
  from Cons.prems(1) consider "c = ParentDir" | n where "c = Normal n" "good_name n" by auto
  then show ?case
  proof cases
    case 1
    have "norm_step (RootDir # map Normal ms) c = RootDir # map Normal (butlast ms)"
      using 1 by (cases ms rule: rev_cases) (simp_all add: path_pop_def)
    moreover have "list_all good_name (butlast ms)"
      using Cons.prems(2) by (auto simp: list_all_iff dest: in_set_butlastD)
    ultimately show ?thesis using Cons.IH [of "butlast ms"] Cons.prems(1) by simp
  next
    case 2
    then have "norm_step (RootDir # map Normal ms) c = RootDir # map Normal (ms @ [n])"
      by (simp add: path_push_def)
    then show ?thesis using Cons.IH [of "ms @ [n]"] Cons.prems 2 by simp
  qed
qed

lemma normalize_abs:
  assumes "is_absolute p"
  shows "\<exists>ns. normalize_path p = RootDir # map Normal ns \<and> list_all good_name ns"
proof -
  have "\<exists>ns. foldl norm_step (RootDir # map Normal []) (rel_components p) = RootDir # map Normal ns \<and>
      list_all good_name ns"
    by (rule norm_fold_abs) (use rel_components_set in auto)
  then show ?thesis
    by (auto simp: normalize_path_def components_abs [OF assms] path_push_def)
qed

lemma norm_fold_normal:
  "foldl norm_step cs (map Normal ns) = cs @ map Normal ns"
  by (induction ns arbitrary: cs) (simp_all add: path_push_def)

lemma rel_components_names:
  assumes "list_all good_name ns"
  shows "rel_components (join ''/'' ns) = map Normal ns"
  using assms
proof (induction ns)
  case Nil
  then show ?case by (simp add: rel_components_def seg_component_def)
next
  case (Cons n ns)
  have one: "segments [] n = [n]" "seg_component n = [Normal n]"
    using Cons.prems by (simp_all add: segments_single seg_component_def good_name_def)
  show ?case
  proof (cases ns)
    case Nil
    with one show ?thesis by (simp add: rel_components_def)
  next
    case (Cons m ms)
    with one Cons.IH Cons.prems show ?thesis by (simp add: rel_components_def segments_join)
  qed
qed

lemma join_names_relative:
  assumes "list_all good_name ns"
  shows "\<not> is_absolute (join ''/'' ns)"
  using assms by (cases ns rule: list.exhaust; cases "tl ns") (auto simp: is_absolute_def good_name_def dest: hd_in_set)

lemma resolve_names:
  assumes "is_absolute root" "list_all good_name ns" "ns = [] \<or> hd (hd ns) \<noteq> CHR ''~''"
  shows "resolve_path root (join ''/'' ns) = Inr (normalize_path root @ map Normal ns)"
proof -
  have rel: "\<not> is_absolute (join ''/'' ns)" by (rule join_names_relative [OF assms(2)])
  have first: "\<not> (join ''/'' ns \<noteq> [] \<and> (hd (join ''/'' ns) = CHR ''/'' \<or> hd (join ''/'' ns) = CHR ''~''))"
    using rel assms(2,3)
    by (cases ns rule: list.exhaust; cases "tl ns") (auto simp: is_absolute_def good_name_def hd_append)
  have ne: "path_join root (join ''/'' ns) \<noteq> []"
    using is_absolute_join [OF assms(1) rel] by (auto simp: is_absolute_def)
  obtain rs where rs: "normalize_path root = RootDir # map Normal rs"
    using normalize_abs [OF assms(1)] by auto
  then have fold: "foldl norm_step [] (components root) = RootDir # map Normal rs"
    by (auto simp: normalize_path_def Let_def split: if_splits)
  have "normalize_path (path_join root (join ''/'' ns)) = normalize_path root @ map Normal ns"
    unfolding rs using ne
    by (simp add: normalize_path_def components_join [OF assms(1) rel] rel_components_names [OF assms(2)]
        fold norm_fold_normal)
  with first show ?thesis
    by (simp add: resolve_path_def starts_with_comps_def Let_def del: append_Cons)
qed

section \<open>Properties\<close>

text \<open>
  C4: a sandbox with an absolute root never hands out a path outside it: what \<open>resolve_path\<close>
  returns is the normalized root followed by ordinary names only, with no parent or current
  directory component and no separator left in any name.
\<close>

theorem resolve_path_contained:
  assumes "is_absolute root" "resolve_path root rel = Inr p"
  shows "\<exists>ns. p = normalize_path root @ map Normal ns \<and> list_all good_name ns"
proof -
  from assms(2) have rel: "\<not> is_absolute rel" and p: "p = normalize_path (path_join root rel)"
    and pre: "take (length (normalize_path root)) p = normalize_path root"
    by (auto simp: resolve_path_def starts_with_comps_def is_absolute_def Let_def split: if_splits)
  obtain rs where rs: "normalize_path root = RootDir # map Normal rs"
    using normalize_abs [OF assms(1)] by auto
  obtain ms where ms: "p = RootDir # map Normal ms" "list_all good_name ms"
    using normalize_abs [OF is_absolute_join [OF assms(1) rel]] p by auto
  from pre rs ms have "map Normal (take (length rs) ms) = map Normal rs"
    by (simp add: take_map)
  then have "take (length rs) ms = rs"
    by (rule map_injective) (simp add: inj_on_def)
  then have "ms = rs @ drop (length rs) ms"
    by (metis append_take_drop_id)
  with ms have "p = normalize_path root @ map Normal (drop (length rs) ms)"
    "list_all good_name (drop (length rs) ms)"
    unfolding rs by (metis append_Cons map_append, auto simp: list_all_iff dest: in_set_dropD)
  then show ?thesis by blast
qed

theorem resolve_path_contained_witness:
  "\<exists>ns. resolve_path ''/tmp/w'' ''a/../b'' = Inr (normalize_path ''/tmp/w'' @ map Normal ns) \<and>
     list_all good_name ns \<and> resolve_path ''/tmp/w'' ''../w2'' = Inl (SbPathTraversal ''../w2'')"
proof -
  have "resolve_path ''/tmp/w'' ''a/../b'' = Inr [RootDir, Normal ''tmp'', Normal ''w'', Normal ''b'']"
    by code_simp
  moreover have "resolve_path ''/tmp/w'' ''../w2'' = Inl (SbPathTraversal ''../w2'')" by code_simp
  moreover have "is_absolute ''/tmp/w''" by code_simp
  ultimately show ?thesis
    using resolve_path_contained [of "''/tmp/w''" "''a/../b''"] by metis
qed

text \<open>
  Every path below an absolute root can be named: the relative path that lists ordinary names,
  the first not starting with a tilde, resolves to the root followed by exactly these names.
\<close>

theorem resolve_path_complete:
  assumes "is_absolute root" "list_all good_name ns" "ns = [] \<or> hd (hd ns) \<noteq> CHR ''~''"
  shows "resolve_path root (join ''/'' ns) = Inr (normalize_path root @ map Normal ns)"
  by (rule resolve_names [OF assms])

theorem resolve_path_complete_witness:
  "resolve_path ''/work/./x'' (join ''/'' [''src'', ''lib.rs'']) =
     Inr (normalize_path ''/work/./x'' @ map Normal [''src'', ''lib.rs''])"
  by (rule resolve_path_complete) (simp_all add: is_absolute_def good_name_def)

lemma ctx_relative_root:
  assumes "is_absolute root" "x \<noteq> []"
  shows "ctx_relative (Some root) (root @ x) = dropWhile (\<lambda>c. c = CHR ''/'') x"
  using assms by (auto simp: ctx_relative_def is_absolute_def Let_def)

lemma join_names_hd:
  assumes "list_all good_name ns" "ns \<noteq> []"
  shows "join ''/'' ns \<noteq> []" "dropWhile (\<lambda>c. c = CHR ''/'') (join ''/'' ns) = join ''/'' ns"
proof -
  show ne: "join ''/'' ns \<noteq> []"
    using assms by (cases ns rule: list.exhaust; cases "tl ns") (auto simp: good_name_def)
  have "hd (join ''/'' ns) \<noteq> CHR ''/''"
    using join_names_relative [OF assms(1)] ne by (simp add: is_absolute_def)
  with ne show "dropWhile (\<lambda>c. c = CHR ''/'') (join ''/'' ns) = join ''/'' ns"
    by (cases "join ''/'' ns") auto
qed

text \<open>
  A tool given an absolute path below the sandbox root works on that path.  But the test for
  being below the root compares text, not path components: a path in a sibling directory whose name
  starts with the name of the root, such as \<open>/tmp/work2/x\<close> for the root \<open>/tmp/work\<close>, is not rejected
  and silently becomes a path inside the root, \<open>/tmp/work/2/x\<close>.
\<close>

theorem ctx_resolve_absolute:
  assumes "is_absolute root" "list_all good_name ns" "ns \<noteq> []" "hd (hd ns) \<noteq> CHR ''~''"
  shows "ctx_resolve_path (Some root) (resolve_path root) (root @ ''/'' @ join ''/'' ns) =
       Inr (normalize_path root @ map Normal ns) \<and>
     ctx_resolve_path (Some root) (resolve_path root) (root @ join ''/'' ns) =
       Inr (normalize_path root @ map Normal ns)"
proof -
  have ok: "resolve_path root (join ''/'' ns) = Inr (normalize_path root @ map Normal ns)"
    by (rule resolve_names [OF assms(1,2)]) (use assms(4) in simp)
  with join_names_hd [OF assms(2,3)] assms(1) show ?thesis
    by (simp add: ctx_resolve_path_def ctx_relative_root)
qed

theorem ctx_resolve_absolute_witness:
  "ctx_resolve_path (Some ''/tmp/work'') (resolve_path ''/tmp/work'') (''/tmp/work'' @ join ''/'' [''2'', ''x'']) =
     Inr (normalize_path ''/tmp/work'' @ map Normal [''2'', ''x''])"
  by (rule ctx_resolve_absolute [THEN conjunct2]) (simp_all add: is_absolute_def good_name_def)

text \<open>
  A sandbox whose root is the current directory \<open>.\<close>, the default working directory of an agent,
  refuses every file in it as a path traversal: the normalized path has lost the leading \<open>.\<close> that the
  normalized root keeps.
\<close>

theorem resolve_path_dot_root:
  assumes "list_all good_name ns" "ns \<noteq> []"
  shows "resolve_path ''.'' (join ''/'' ns) = Inl (SbPathTraversal (join ''/'' ns))"
proof -
  have rel: "\<not> is_absolute (join ''/'' ns)" by (rule join_names_relative [OF assms(1)])
  have rc: "rel_components (path_join ''.'' (join ''/'' ns)) = map Normal ns"
    using rel_components_join [OF _ rel, of "''.''"] rel_components_names [OF assms(1)]
    by (simp add: rel_components_def seg_component_def)
  have "components (path_join ''.'' (join ''/'' ns)) = CurDir # map Normal ns"
    using rel rc by (simp add: components_def path_join_def is_absolute_def rel_components_def)
  then have "normalize_path (path_join ''.'' (join ''/'' ns)) = map Normal ns"
    using norm_fold_normal [of "[]" ns] assms(2) by (simp add: normalize_path_def)
  moreover have "normalize_path ''.'' = [CurDir]" by code_simp
  moreover obtain m ms where "ns = m # ms" using assms(2) by (cases ns) auto
  ultimately show ?thesis
    by (simp add: resolve_path_def starts_with_comps_def)
qed

theorem resolve_path_dot_root_witness:
  "resolve_path ''.'' (join ''/'' [''src'', ''lib.rs'']) = Inl (SbPathTraversal ''src/lib.rs'')"
  using resolve_path_dot_root [of "[''src'', ''lib.rs'']"] by (simp add: good_name_def)

lemma unat_max_u64: "unat (- 1 :: u64) = 2 ^ 64 - 1"
  by (simp add: unsigned_minus_1_eq_mask mask_eq_exp_minus_1)

lemma unat_saturating_add: "unat (saturating_add a b) = min (unat a + unat b) (2 ^ 64 - 1)"
proof (cases "unat a + unat b < 2 ^ 64")
  case True
  then have "unat (a + b) = unat a + unat b"
    using unat_add_lem [of a b] by simp
  with True show ?thesis by (simp add: saturating_add_def)
next
  case False
  then show ?thesis by (simp add: saturating_add_def unat_max_u64)
qed

text \<open>
  A ranged read returns exactly the bytes from the offset on, at most as many as the limit says,
  for every offset and limit of the wire format, also beyond the end and where their sum overflows.
\<close>

theorem read_range_spec:
  assumes "length content < 2 ^ 64"
  shows "read_range content offset limit =
     (let rest = drop (case offset of None \<Rightarrow> 0 | Some a \<Rightarrow> unat a) content
      in case limit of None \<Rightarrow> rest | Some l \<Rightarrow> take (unat l) rest)"
proof -
  define start where "start = (case offset of None \<Rightarrow> 0 | Some a \<Rightarrow> a)"
  have st: "unat start = (case offset of None \<Rightarrow> 0 | Some a \<Rightarrow> unat a)"
    by (simp add: start_def split: option.splits)
  show ?thesis
  proof (cases limit)
    case None
    then show ?thesis
      by (simp add: read_range_def start_def [symmetric] st [symmetric] Let_def)
  next
    case (Some l)
    have "min (unat (saturating_add start l)) (length content) = min (unat start + unat l) (length content)"
      using assms by (simp add: unat_saturating_add)
    with Some show ?thesis
      by (simp add: read_range_def start_def [symmetric] st [symmetric] min_def Let_def)
  qed
qed

theorem read_range_spec_witness:
  "read_range [1, 2, 3, 4 :: nat] (Some 1) (Some (- 1)) = [2, 3, 4]"
  using read_range_spec [of "[1, 2, 3, 4 :: nat]" "Some 1" "Some (- 1)"] by (simp add: unat_max_u64)

end
