(* ===== verification/SandboxBackend.thy ===== *)
theory SandboxBackend
  imports SandboxPath
begin

text \<open>
  Sandbox providers: the interface (\<open>crates/vol-llm-sandbox/src/provider.rs\<close>) as a record of
  operations and a locale of what the manager relies on, the local provider (\<open>local.rs\<close>) and the
  temporary provider (\<open>tmp.rs\<close>).  The file system, the process id, the temporary directory and the
  generator of unique ids are parameters.
\<close>

section \<open>The interface\<close>

record 'w provider_ops =
  po_kind :: string
  po_capabilities :: sandbox_caps
  po_create :: "sandbox_spec \<Rightarrow> ('w, sandbox_error, string \<times> sandbox) eff"
  po_get :: "string \<Rightarrow> ('w, sandbox_error, sandbox) eff"
  po_list :: "('w, sandbox_error, sandbox_info list) eff"
  po_start :: "string \<Rightarrow> ('w, sandbox_error, unit) eff"
  po_pause :: "string \<Rightarrow> ('w, sandbox_error, unit) eff"
  po_resume :: "string \<Rightarrow> ('w, sandbox_error, unit) eff"
  po_stop :: "string \<Rightarrow> ('w, sandbox_error, unit) eff"
  po_destroy :: "string \<Rightarrow> ('w, sandbox_error, unit) eff"

text \<open>
  What the manager relies on: an operation never takes back an id that was drawn, and \<open>create\<close>
  returns a handle whose root is the backend id it is filed under.
\<close>

locale provider =
  fixes ops :: "'w provider_ops"
    and drawn :: "'w \<Rightarrow> string set"
  assumes create_drawn: "po_create ops sp w = (r, w') \<Longrightarrow> drawn w \<subseteq> drawn w'"
    and create_root: "po_create ops sp w = (Inr (b, sb), w') \<Longrightarrow> sb_root sb = Some b"
    and get_drawn: "po_get ops b w = (r', w') \<Longrightarrow> drawn w \<subseteq> drawn w'"
    and start_drawn: "po_start ops b w = (q, w') \<Longrightarrow> drawn w \<subseteq> drawn w'"
    and stop_drawn: "po_stop ops b w = (q, w') \<Longrightarrow> drawn w \<subseteq> drawn w'"
    and destroy_drawn: "po_destroy ops b w = (q, w') \<Longrightarrow> drawn w \<subseteq> drawn w'"

section \<open>The world of the local providers\<close>

record 'fs host =
  h_fs :: 'fs
  h_draws :: nat
  h_local_count :: u64
  h_tmp_count :: u64

record 'fs host_env =
  he_ulid :: "nat \<Rightarrow> string"
  he_pid :: u32
  he_temp_dir :: string
  he_exists :: "'fs \<Rightarrow> string \<Rightarrow> bool"
  he_create_dir_all :: "string \<Rightarrow> ('fs, string, unit) eff"
  he_remove_dir_all :: "string \<Rightarrow> ('fs, string, unit) eff"

definition on_fs :: "('fs, string, 'a) eff \<Rightarrow> ('fs host, sandbox_error, 'a) eff" where
  "on_fs m h = (case m (h_fs h) of
      (Inl e, fs) \<Rightarrow> (Inl (SbIo e), h\<lparr>h_fs := fs\<rparr>)
    | (Inr x, fs) \<Rightarrow> (Inr x, h\<lparr>h_fs := fs\<rparr>))"

definition draw_id :: "'fs host_env \<Rightarrow> 'fs host \<Rightarrow> sandbox_id \<times> 'fs host" where
  "draw_id E h = (''sb_'' @ he_ulid E (h_draws h), h\<lparr>h_draws := Suc (h_draws h)\<rparr>)"

definition drawn_ids :: "'fs host_env \<Rightarrow> 'fs host \<Rightarrow> string set" where
  "drawn_ids E h = (\<lambda>n. ''sb_'' @ he_ulid E n) ` {..<h_draws h}"

definition hex_char :: "nat \<Rightarrow> char" where
  "hex_char d = char_of (if d < 10 then 48 + d else 87 + d)"

fun show_hex :: "nat \<Rightarrow> string" where
  "show_hex n = (if n < 16 then [hex_char n] else show_hex (n div 16) @ [hex_char (n mod 16)])"

declare show_hex.simps [simp del]

definition scratch_name :: "'fs host_env \<Rightarrow> u64 \<Rightarrow> string" where
  "scratch_name E count =
     ''sandbox_'' @ show_hex (unat (he_pid E)) @ ''_'' @ show_hex (unat count)"

section \<open>Local sandboxes\<close>

definition local_new :: "'fs host_env \<Rightarrow> string option \<Rightarrow> 'fs host \<Rightarrow> sandbox \<times> 'fs host" where
  "local_new E path h =
     (let (root, is_temp, h1) =
        (case path of
           Some p \<Rightarrow> (p, False, h)
         | None \<Rightarrow> (path_join (he_temp_dir E) (scratch_name E (h_local_count h)), True,
                    h\<lparr>h_local_count := h_local_count h + 1\<rparr>));
          (i, h2) = draw_id E h1
      in (\<lparr> sb_id = i, sb_kind = ''local'', sb_root = Some root, sb_temp = is_temp, sb_status = SbRunning \<rparr>, h2))"

text \<open>Dropping the last handle of a temporary local sandbox removes its directory; errors are ignored.\<close>

definition local_drop :: "'fs host_env \<Rightarrow> sandbox \<Rightarrow> 'fs host \<Rightarrow> 'fs host" where
  "local_drop E sb h =
     (case sb_root sb of
        None \<Rightarrow> h
      | Some root \<Rightarrow>
          if sb_temp sb \<and> he_exists E (h_fs h) root then snd (on_fs (he_remove_dir_all E root) h) else h)"

definition local_create :: "'fs host_env \<Rightarrow> sandbox_spec \<Rightarrow> ('fs host, sandbox_error, string \<times> sandbox) eff" where
  "local_create E sp h =
     (let work_dir = (case spec_config sp of CfgLocal d \<Rightarrow> d | _ \<Rightarrow> None);
          (sb, h') = local_new E work_dir h;
          backend_id = (case sb_root sb of Some r \<Rightarrow> r | None \<Rightarrow> [])
      in (Inr (backend_id, sb), h'))"

definition local_get :: "'fs host_env \<Rightarrow> string \<Rightarrow> ('fs host, sandbox_error, sandbox) eff" where
  "local_get E b h = (case local_new E (Some b) h of (sb, h') \<Rightarrow> (Inr sb, h'))"

definition local_provider :: "'fs host_env \<Rightarrow> 'fs host provider_ops" where
  "local_provider E = \<lparr>
     po_kind = ''local'',
     po_capabilities = \<lparr> cap_persistent = True, cap_pausable = False, cap_stoppable = False,
                         cap_destroyable = False \<rparr>,
     po_create = local_create E,
     po_get = local_get E,
     po_list = ret [],
     po_start = (\<lambda>b. ret ()),
     po_pause = (\<lambda>b. fail (SbConfig ''LocalSandbox does not support pause'')),
     po_resume = (\<lambda>b. fail (SbConfig ''LocalSandbox does not support resume'')),
     po_stop = (\<lambda>b. ret ()),
     po_destroy = (\<lambda>b. ret ()) \<rparr>"

section \<open>Temporary sandboxes\<close>

definition tmp_with_sub_dir :: "'fs host_env \<Rightarrow> string \<Rightarrow> 'fs host \<Rightarrow> sandbox \<times> 'fs host" where
  "tmp_with_sub_dir E sub_dir h =
     (let (i, h') = draw_id E h
      in (\<lparr> sb_id = i, sb_kind = ''tmp'', sb_root = Some (path_join ''/tmp'' sub_dir), sb_temp = False,
            sb_status = SbRunning \<rparr>, h'))"

definition tmp_new :: "'fs host_env \<Rightarrow> 'fs host \<Rightarrow> sandbox \<times> 'fs host" where
  "tmp_new E h =
     tmp_with_sub_dir E (scratch_name E (h_tmp_count h)) (h\<lparr>h_tmp_count := h_tmp_count h + 1\<rparr>)"

definition tmp_cleanup :: "'fs host_env \<Rightarrow> sandbox \<Rightarrow> ('fs host, sandbox_error, unit) eff" where
  "tmp_cleanup E sb h =
     (case sb_root sb of
        None \<Rightarrow> (Inr (), h)
      | Some root \<Rightarrow>
          if he_exists E (h_fs h) root then on_fs (he_remove_dir_all E root) h else (Inr (), h))"

definition tmp_create :: "'fs host_env \<Rightarrow> sandbox_spec \<Rightarrow> ('fs host, sandbox_error, string \<times> sandbox) eff" where
  "tmp_create E sp h =
     (let sub_dir = (case spec_config sp of CfgTmp _ s \<Rightarrow> s | _ \<Rightarrow> None);
          (sb, h1) = (case sub_dir of Some s \<Rightarrow> tmp_with_sub_dir E s h | None \<Rightarrow> tmp_new E h)
      in case sb_root sb of
           None \<Rightarrow> (Inl (SbConfig ''TmpSandbox has no root_path''), h1)
         | Some root \<Rightarrow>
             bindE (on_fs (he_create_dir_all E root)) (\<lambda>_. ret (root, sb)) h1)"

text \<open>\<open>Path::file_name\<close>: the last component when it is an ordinary name.\<close>

definition file_name :: "string \<Rightarrow> string option" where
  "file_name p =
     (case rev (components p) of Normal n # _ \<Rightarrow> Some n | _ \<Rightarrow> None)"

definition tmp_get :: "'fs host_env \<Rightarrow> string \<Rightarrow> ('fs host, sandbox_error, sandbox) eff" where
  "tmp_get E b h =
     (let sub_dir = (case file_name b of Some n \<Rightarrow> n | None \<Rightarrow> ''unknown'')
      in case tmp_with_sub_dir E sub_dir h of (sb, h') \<Rightarrow> (Inr sb, h'))"

definition tmp_destroy :: "'fs host_env \<Rightarrow> string \<Rightarrow> ('fs host, sandbox_error, unit) eff" where
  "tmp_destroy E b h =
     (if he_exists E (h_fs h) b then on_fs (he_remove_dir_all E b) h else (Inr (), h))"

definition tmp_provider :: "'fs host_env \<Rightarrow> 'fs host provider_ops" where
  "tmp_provider E = \<lparr>
     po_kind = ''tmp'',
     po_capabilities = \<lparr> cap_persistent = False, cap_pausable = False, cap_stoppable = False,
                         cap_destroyable = True \<rparr>,
     po_create = tmp_create E,
     po_get = tmp_get E,
     po_list = ret [],
     po_start = (\<lambda>b. ret ()),
     po_pause = (\<lambda>b. fail (SbConfig ''TmpSandbox does not support pause'')),
     po_resume = (\<lambda>b. fail (SbConfig ''TmpSandbox does not support resume'')),
     po_stop = (\<lambda>b. ret ()),
     po_destroy = tmp_destroy E \<rparr>"

lemmas backend_defs = local_provider_def local_create_def local_get_def local_new_def
  tmp_provider_def tmp_create_def tmp_get_def tmp_destroy_def tmp_new_def tmp_with_sub_dir_def

section \<open>Both providers keep the interface\<close>

lemma drawn_draw: "drawn_ids E h \<subseteq> drawn_ids E (h\<lparr>h_draws := Suc (h_draws h)\<rparr>)"
  by (auto simp: drawn_ids_def)

lemma drawn_same_draws: "h_draws h' = h_draws h \<Longrightarrow> drawn_ids E h' = drawn_ids E h"
  by (simp add: drawn_ids_def)

lemma drawn_mono: "h_draws h \<le> h_draws h' \<Longrightarrow> drawn_ids E h \<subseteq> drawn_ids E h'"
  by (auto simp: drawn_ids_def)

lemma on_fs_draws: "on_fs m h = (r, h') \<Longrightarrow> h_draws h' = h_draws h"
  by (auto simp: on_fs_def split: prod.splits sum.splits)

lemma draw_fresh: "inj (he_ulid E) \<Longrightarrow> fst (draw_id E h) \<notin> drawn_ids E h"
  by (auto simp: draw_id_def drawn_ids_def dest: injD)

lemma draw_drawn: "drawn_ids E (snd (draw_id E h)) = insert (fst (draw_id E h)) (drawn_ids E h)"
  by (auto simp: draw_id_def drawn_ids_def lessThan_Suc)

lemma provider_by_draws:
  fixes E :: "'fs host_env" and ops :: "'fs host provider_ops"
  assumes "\<And>sp (w :: 'fs host). h_draws w \<le> h_draws (snd (po_create ops sp w))"
    and "\<And>sp w b sb w'. po_create ops sp w = (Inr (b, sb), w') \<Longrightarrow> sb_root sb = Some b"
    and "\<And>b w. h_draws w \<le> h_draws (snd (po_get ops b w))"
    and "\<And>b w. h_draws w \<le> h_draws (snd (po_start ops b w))"
    and "\<And>b w. h_draws w \<le> h_draws (snd (po_stop ops b w))"
    and "\<And>b w. h_draws w \<le> h_draws (snd (po_destroy ops b w))"
  shows "provider ops (drawn_ids E)"
proof
  fix sp w r w' assume "po_create ops sp w = (r, w')"
  with assms(1) [of w sp] show "drawn_ids E w \<subseteq> drawn_ids E w'" by (simp add: drawn_mono)
next
  fix b w w' and r' :: "sandbox_error + sandbox" assume "po_get ops b w = (r', w')"
  with assms(3) [of w b] show "drawn_ids E w \<subseteq> drawn_ids E w'" by (simp add: drawn_mono)
next
  fix b w w' and q :: "sandbox_error + unit" assume "po_start ops b w = (q, w')"
  with assms(4) [of w b] show "drawn_ids E w \<subseteq> drawn_ids E w'" by (simp add: drawn_mono)
next
  fix b w w' and q :: "sandbox_error + unit" assume "po_stop ops b w = (q, w')"
  with assms(5) [of w b] show "drawn_ids E w \<subseteq> drawn_ids E w'" by (simp add: drawn_mono)
next
  fix b w w' and q :: "sandbox_error + unit" assume "po_destroy ops b w = (q, w')"
  with assms(6) [of w b] show "drawn_ids E w \<subseteq> drawn_ids E w'" by (simp add: drawn_mono)
qed (rule assms(2))

lemma on_fs_draws_snd [simp]: "h_draws (snd (on_fs m h)) = h_draws h"
  by (simp add: on_fs_def split: prod.splits sum.splits)

lemma bind_on_fs_draws [simp]: "h_draws (snd (bindE (on_fs m) (\<lambda>_. ret x) h)) = h_draws h"
  by (simp add: on_fs_def bindE_def split: prod.splits sum.splits)

interpretation local_p: provider "local_provider E" "drawn_ids E" for E :: "'fs host_env"
  by (rule provider_by_draws) (auto simp: backend_defs draw_id_def Let_def split: option.splits)

interpretation tmp_p: provider "tmp_provider E" "drawn_ids E" for E :: "'fs host_env"
proof (rule provider_by_draws)
  fix sp and w w' :: "'fs host" and b sb
  assume "po_create (tmp_provider E) sp w = (Inr (b, sb), w')"
  then show "sb_root sb = Some b"
    by (auto simp: backend_defs draw_id_def Let_def elim!: bindE_InrE split: option.splits prod.splits)
qed (auto simp: backend_defs draw_id_def Let_def split: option.splits)

end
