(* ===== verification/SandboxManager.thy ===== *)
theory SandboxManager
  imports SandboxBackend "HOL-Library.List_Lexorder" "HOL-Library.Char_ord"
begin

text \<open>
  The record store of sandbox instances (\<open>crates/vol-llm-sandbox/src/store.rs\<close>) with its contract,
  and the manager (\<open>manager.rs\<close>), over any record store and any providers.  The tables of the manager
  are partial functions; the clock, the generator of ids and the fallback sandbox are parameters.
  Every operation is one step: the locks the code takes are held across the reads and writes of one
  table, and the operations are modelled as run one after another.
\<close>

section \<open>The record store\<close>

record 's record_store =
  rs_insert :: "sandbox_record \<Rightarrow> ('s, sandbox_error, unit) eff"
  rs_get :: "sandbox_id \<Rightarrow> ('s, sandbox_error, sandbox_record option) eff"
  rs_list :: "sandbox_filter option \<Rightarrow> ('s, sandbox_error, sandbox_record list) eff"
  rs_update_status :: "sandbox_id \<Rightarrow> sandbox_status \<Rightarrow> ('s, sandbox_error, unit) eff"
  rs_delete :: "sandbox_id \<Rightarrow> ('s, sandbox_error, unit) eff"

type_synonym record_map = "sandbox_id \<rightharpoonup> sandbox_record"

definition filter_matches :: "sandbox_filter option \<Rightarrow> sandbox_record \<Rightarrow> bool" where
  "filter_matches flt r =
     (case flt of None \<Rightarrow> True
      | Some f \<Rightarrow>
          (case sf_profile f of Some p \<Rightarrow> sr_profile r = p | None \<Rightarrow> True) \<and>
          (case sf_provider_kind f of Some k \<Rightarrow> sr_provider_kind r = k | None \<Rightarrow> True) \<and>
          (case sf_status f of Some st \<Rightarrow> sr_status r = st | None \<Rightarrow> True))"

definition records_keyed :: "record_map \<Rightarrow> bool" where
  "records_keyed m \<longleftrightarrow> (\<forall>i r. m i = Some r \<longrightarrow> sr_id r = i)"

locale record_store =
  fixes ops :: "'s record_store"
    and rinv :: "'s \<Rightarrow> bool"
    and records_of :: "'s \<Rightarrow> record_map"
  assumes rinv_keyed: "rinv s \<Longrightarrow> records_keyed (records_of s)"
    and insert_ok: "rinv s \<Longrightarrow> rs_insert ops r s = (Inr u, s') \<Longrightarrow>
      rinv s' \<and> records_of s' = (records_of s)(sr_id r \<mapsto> r)"
    and insert_err: "rinv s \<Longrightarrow> rs_insert ops r s = (Inl e, s') \<Longrightarrow> rinv s' \<and> records_of s' = records_of s"
    and rget_ok: "rinv s \<Longrightarrow> rs_get ops i s = (Inr x, s') \<Longrightarrow> s' = s \<and> x = records_of s i"
    and rget_err: "rinv s \<Longrightarrow> rs_get ops i s = (Inl e, s') \<Longrightarrow> s' = s"
    and rlist_ok: "rinv s \<Longrightarrow> rs_list ops f s = (Inr rs, s') \<Longrightarrow>
      s' = s \<and> set rs = {r \<in> ran (records_of s). filter_matches f r}"
    and rlist_err: "rinv s \<Longrightarrow> rs_list ops f s = (Inl e, s') \<Longrightarrow> s' = s"
    and update_status_ok: "rinv s \<Longrightarrow> rs_update_status ops i st s = (Inr u, s') \<Longrightarrow>
      rinv s' \<and> (\<exists>r now. records_of s i = Some r \<and>
        records_of s' = (records_of s)(i \<mapsto> r\<lparr>sr_status := st, sr_updated_at := now\<rparr>))"
    and update_status_err: "rinv s \<Longrightarrow> rs_update_status ops i st s = (Inl e, s') \<Longrightarrow>
      rinv s' \<and> records_of s' = records_of s"
    and rdelete_ok: "rinv s \<Longrightarrow> rs_delete ops i s = (Inr u, s') \<Longrightarrow>
      rinv s' \<and> records_of s' = (records_of s)(i := None)"
    and rdelete_err: "rinv s \<Longrightarrow> rs_delete ops i s = (Inl e, s') \<Longrightarrow> rinv s' \<and> records_of s' = records_of s"

record mem_records =
  mr_records :: record_map
  mr_clock :: time

definition mr_insert :: "sandbox_record \<Rightarrow> (mem_records, sandbox_error, unit) eff" where
  "mr_insert r s = (Inr (), s\<lparr>mr_records := (mr_records s)(sr_id r \<mapsto> r)\<rparr>)"

definition mr_get :: "sandbox_id \<Rightarrow> (mem_records, sandbox_error, sandbox_record option) eff" where
  "mr_get i s = (Inr (mr_records s i), s)"

definition mr_list ::
  "(record_map \<Rightarrow> sandbox_id list) \<Rightarrow> sandbox_filter option \<Rightarrow>
   (mem_records, sandbox_error, sandbox_record list) eff" where
  "mr_list ord f s = (Inr (filter (filter_matches f) (map_values (ord (mr_records s)) (mr_records s))), s)"

definition mr_update_status :: "sandbox_id \<Rightarrow> sandbox_status \<Rightarrow> (mem_records, sandbox_error, unit) eff" where
  "mr_update_status i st s =
     (case mr_records s i of
        Some r \<Rightarrow> (Inr (), s\<lparr>mr_records := (mr_records s)(i \<mapsto> r\<lparr>sr_status := st, sr_updated_at := mr_clock s\<rparr>)\<rparr>)
      | None \<Rightarrow> (Inl (SbNotFound i), s))"

definition mr_delete :: "sandbox_id \<Rightarrow> (mem_records, sandbox_error, unit) eff" where
  "mr_delete i s = (Inr (), s\<lparr>mr_records := (mr_records s)(i := None)\<rparr>)"

definition mr_ops :: "(record_map \<Rightarrow> sandbox_id list) \<Rightarrow> mem_records record_store" where
  "mr_ops ord = \<lparr> rs_insert = mr_insert, rs_get = mr_get, rs_list = mr_list ord,
                  rs_update_status = mr_update_status, rs_delete = mr_delete \<rparr>"

definition mr_new :: mem_records where
  "mr_new = \<lparr> mr_records = Map.empty, mr_clock = 0 \<rparr>"

definition mr_inv :: "mem_records \<Rightarrow> bool" where
  "mr_inv s \<longleftrightarrow> records_keyed (mr_records s) \<and> finite (dom (mr_records s))"

lemmas mr_defs = mr_ops_def mr_insert_def mr_get_def mr_list_def mr_update_status_def mr_delete_def

lemma mr_record_store:
  assumes "iter_order ord"
  shows "record_store (mr_ops ord) mr_inv mr_records"
proof
  fix s f rs s'
  assume s: "mr_inv s" and l: "rs_list (mr_ops ord) f s = (Inr rs, s')"
  then have "enumerates (ord (mr_records s)) (mr_records s)"
    using assms by (simp add: iter_order_def mr_inv_def)
  then show "s' = s \<and> set rs = {r \<in> ran (mr_records s). filter_matches f r}"
    using l by (auto simp: mr_defs set_map_values enumerates_def ran_def intro!: bexI [OF _ domI])
qed (auto simp: mr_defs mr_inv_def records_keyed_def split: option.splits if_splits)

interpretation mrs: record_store "mr_ops ascending" mr_inv mr_records
  by (rule mr_record_store [OF iter_order_ascending])

section \<open>The manager\<close>

record ('w, 's) manager =
  mg_providers :: "string \<rightharpoonup> 'w provider_ops"
  mg_store :: 's
  mg_specs :: "string \<rightharpoonup> sandbox_spec"
  mg_instances :: "string \<rightharpoonup> sandbox"
  mg_names :: "string \<rightharpoonup> string"
  mg_world :: 'w

record ('w, 's) manager_env =
  me_store :: "'s record_store"
  me_draw :: "'w \<Rightarrow> sandbox_id \<times> 'w"
  me_local :: "'w \<Rightarrow> sandbox \<times> 'w"
  me_now :: time

type_synonym ('w, 's, 'a) mg_eff = "(('w, 's) manager, sandbox_error, 'a) eff"

definition with_store :: "'w \<Rightarrow> 's \<Rightarrow> ('w, 's) manager" where
  "with_store w s = \<lparr> mg_providers = Map.empty, mg_store = s, mg_specs = Map.empty,
     mg_instances = Map.empty, mg_names = Map.empty, mg_world = w \<rparr>"

definition on_store :: "('s, sandbox_error, 'a) eff \<Rightarrow> ('w, 's, 'a) mg_eff" where
  "on_store m g = (case m (mg_store g) of (r, s) \<Rightarrow> (r, g\<lparr>mg_store := s\<rparr>))"

definition on_world :: "('w, sandbox_error, 'a) eff \<Rightarrow> ('w, 's, 'a) mg_eff" where
  "on_world m g = (case m (mg_world g) of (r, w) \<Rightarrow> (r, g\<lparr>mg_world := w\<rparr>))"

definition draw :: "('w \<Rightarrow> 'a \<times> 'w) \<Rightarrow> ('w, 's, 'a) mg_eff" where
  "draw d g = (case d (mg_world g) of (x, w) \<Rightarrow> (Inr x, g\<lparr>mg_world := w\<rparr>))"

definition cache_instance :: "string \<Rightarrow> sandbox \<Rightarrow> ('w, 's, unit) mg_eff" where
  "cache_instance b sb g = (Inr (), g\<lparr>mg_instances := (mg_instances g)(b \<mapsto> sb)\<rparr>)"

definition bind_name :: "string \<Rightarrow> string \<Rightarrow> ('w, 's, unit) mg_eff" where
  "bind_name n b g = (Inr (), g\<lparr>mg_names := (mg_names g)(n \<mapsto> b)\<rparr>)"

definition register_provider :: "'w provider_ops \<Rightarrow> ('w, 's) manager \<Rightarrow> ('w, 's) manager" where
  "register_provider p g = g\<lparr>mg_providers := (mg_providers g)(po_kind p \<mapsto> p)\<rparr>"

definition register_profile :: "sandbox_spec \<Rightarrow> ('w, 's) manager \<Rightarrow> ('w, 's) manager" where
  "register_profile sp g = g\<lparr>mg_specs := (mg_specs g)(spec_name sp \<mapsto> sp)\<rparr>"

text \<open>
  Loading the profiles of a directory: each entry is an error of the directory, or a file name with
  what reading it gives.  Files that are not \<open>.toml\<close> are skipped, files that do not parse are logged
  and skipped, and a failing entry or read ends the loading.
\<close>

definition has_toml_extension :: "string \<Rightarrow> bool" where
  "has_toml_extension n \<longleftrightarrow> 5 < length n \<and> drop (length n - 5) n = ''.toml''"

fun load_entries ::
  "(string \<Rightarrow> string + sandbox_spec) \<Rightarrow> (string + string \<times> (string + string)) list \<Rightarrow>
   ('w, 's, unit) mg_eff" where
  "load_entries toml [] g = (Inr (), g)"
| "load_entries toml (Inl e # rest) g = (Inl (SbIo e), g)"
| "load_entries toml (Inr (n, content) # rest) g =
     (if \<not> has_toml_extension n then load_entries toml rest g
      else case content of
             Inl e \<Rightarrow> (Inl (SbIo e), g)
           | Inr text \<Rightarrow>
               (case toml text of
                  Inl e \<Rightarrow> load_entries toml rest g
                | Inr sp \<Rightarrow> load_entries toml rest (register_profile sp g)))"

definition load_profiles ::
  "(string \<Rightarrow> string + sandbox_spec) \<Rightarrow> (string + (string + string \<times> (string + string)) list) option \<Rightarrow>
   ('w, 's, unit) mg_eff" where
  "load_profiles toml dir =
     (case dir of
        None \<Rightarrow> ret ()
      | Some (Inl e) \<Rightarrow> fail (SbIo e)
      | Some (Inr entries) \<Rightarrow> load_entries toml entries)"

definition cached_by_name :: "string \<Rightarrow> ('w, 's) manager \<Rightarrow> sandbox option" where
  "cached_by_name n g = (case mg_names g n of None \<Rightarrow> None | Some b \<Rightarrow> mg_instances g b)"

definition acquire_by_name :: "string \<Rightarrow> ('w, 's) manager \<Rightarrow> sandbox option \<times> ('w, 's) manager" where
  "acquire_by_name n g =
     (case cached_by_name n g of
        Some sb \<Rightarrow> (Some sb, g)
      | None \<Rightarrow>
          (case mg_specs g n of
             None \<Rightarrow> (None, g)
           | Some sp \<Rightarrow>
               (case mg_providers g (spec_provider sp) of
                  None \<Rightarrow> (None, g)
                | Some p \<Rightarrow>
                    (case bindE (on_world (po_create p sp)) (\<lambda>(b, sb).
                          bindE (cache_instance b sb) (\<lambda>_. bindE (bind_name n b) (\<lambda>_. ret sb))) g of
                       (Inr sb, g') \<Rightarrow> (Some sb, g')
                     | (Inl e, g') \<Rightarrow> (None, g')))))"

definition get_provider :: "string \<Rightarrow> string \<Rightarrow> ('w, 's, 'w provider_ops) mg_eff" where
  "get_provider kind msg g = ok_or (SbUnknownType msg) (mg_providers g kind) g"

definition build_inline :: "sandbox_spec \<Rightarrow> ('w, 's, sandbox) mg_eff" where
  "build_inline sp =
     bindE (get_provider (spec_provider sp)
              (''no provider registered for kind '' @ [CHR 0x27] @ spec_provider sp @ [CHR 0x27])) (\<lambda>p.
     bindE (on_world (po_create p sp)) (\<lambda>(b, sb). ret sb))"

definition default_tmp_profile :: string where
  "default_tmp_profile = ''default-tmp''"

definition default_spec :: sandbox_spec where
  "default_spec = \<lparr> spec_name = default_tmp_profile, spec_config = CfgTmp None None,
                    spec_metadata = Map.empty \<rparr>"

definition default_tmp :: "('w, 's) manager_env \<Rightarrow> ('w, 's) manager \<Rightarrow> sandbox \<times> ('w, 's) manager" where
  "default_tmp E g =
     (case build_inline default_spec g of
        (Inr sb, g') \<Rightarrow> (sb, g')
      | (Inl e, g') \<Rightarrow> (case me_local E (mg_world g') of (sb, w) \<Rightarrow> (sb, g'\<lparr>mg_world := w\<rparr>)))"

definition new_record ::
  "('w, 's) manager_env \<Rightarrow> sandbox_id \<Rightarrow> string \<Rightarrow> string \<Rightarrow> string \<Rightarrow> (string \<rightharpoonup> string) \<Rightarrow> sandbox_record" where
  "new_record E i profile kind b metadata =
     \<lparr> sr_id = i, sr_profile = profile, sr_provider_kind = kind, sr_backend_id = b,
       sr_status = SbRunning, sr_created_at = me_now E, sr_updated_at = me_now E,
       sr_metadata = metadata \<rparr>"

definition mg_create :: "('w, 's) manager_env \<Rightarrow> string \<Rightarrow> ('w, 's, sandbox_id) mg_eff" where
  "mg_create E profile g =
     (bindE (ok_or (SbNotFound (''profile: '' @ profile)) (mg_specs g profile)) (\<lambda>sp.
      bindE (get_provider (spec_provider sp) (spec_provider sp)) (\<lambda>p.
      bindE (on_world (po_create p sp)) (\<lambda>(b, sb).
      bindE (draw (me_draw E)) (\<lambda>i.
      bindE (on_store (rs_insert (me_store E)
               (new_record E i (spec_name sp) (spec_provider sp) b (spec_metadata sp)))) (\<lambda>_.
      bindE (cache_instance b sb) (\<lambda>_.
      bindE (bind_name (spec_name sp) b) (\<lambda>_. ret i)))))))) g"

definition fetch_record :: "('w, 's) manager_env \<Rightarrow> sandbox_id \<Rightarrow> ('w, 's, sandbox_record) mg_eff" where
  "fetch_record E i = bindE (on_store (rs_get (me_store E) i)) (ok_or (SbNotFound i))"

definition mg_get :: "('w, 's) manager_env \<Rightarrow> sandbox_id \<Rightarrow> ('w, 's, sandbox) mg_eff" where
  "mg_get E i =
     bindE (fetch_record E i) (\<lambda>r g.
     case mg_instances g (sr_backend_id r) of
       Some sb \<Rightarrow> (Inr sb, g)
     | None \<Rightarrow>
         bindE (get_provider (sr_provider_kind r) (sr_provider_kind r)) (\<lambda>p.
         bindE (on_world (po_get p (sr_backend_id r))) (\<lambda>sb.
         bindE (cache_instance (sr_backend_id r) sb) (\<lambda>_. ret sb))) g)"

definition no_caps :: sandbox_caps where
  "no_caps = \<lparr> cap_persistent = False, cap_pausable = False, cap_stoppable = False, cap_destroyable = False \<rparr>"

definition record_info :: "('w, 's) manager \<Rightarrow> sandbox_record \<Rightarrow> sandbox_info" where
  "record_info g r =
     \<lparr> si_id = sr_id r, si_profile = sr_profile r, si_kind = sr_provider_kind r,
       si_status = to_lower (status_name (sr_status r)),
       si_root_path = (case mg_instances g (sr_backend_id r) of None \<Rightarrow> None | Some sb \<Rightarrow> sb_root sb),
       si_capabilities = (case mg_providers g (sr_provider_kind r) of
          Some p \<Rightarrow> po_capabilities p | None \<Rightarrow> no_caps) \<rparr>"

definition mg_list ::
  "('w, 's) manager_env \<Rightarrow> sandbox_filter option \<Rightarrow> ('w, 's, sandbox_info list) mg_eff" where
  "mg_list E f =
     bindE (on_store (rs_list (me_store E) f)) (\<lambda>rs g. (Inr (map (record_info g) rs), g))"

definition list_specs ::
  "((string \<rightharpoonup> sandbox_spec) \<Rightarrow> string list) \<Rightarrow> ('w, 's) manager \<Rightarrow> sandbox_spec list" where
  "list_specs ord g = map_values (ord (mg_specs g)) (mg_specs g)"

definition mg_start :: "('w, 's) manager_env \<Rightarrow> sandbox_id \<Rightarrow> ('w, 's, unit) mg_eff" where
  "mg_start E i =
     bindE (fetch_record E i) (\<lambda>r.
     bindE (liftE (validate_transition (sr_status r) SbRunning)) (\<lambda>_.
     bindE (get_provider (sr_provider_kind r) (sr_provider_kind r)) (\<lambda>p.
     bindE (on_world (po_start p (sr_backend_id r))) (\<lambda>_.
     on_store (rs_update_status (me_store E) i SbRunning)))))"

definition mg_stop :: "('w, 's) manager_env \<Rightarrow> sandbox_id \<Rightarrow> ('w, 's, unit) mg_eff" where
  "mg_stop E i =
     bindE (fetch_record E i) (\<lambda>r.
     bindE (liftE (validate_transition (sr_status r) SbStopped)) (\<lambda>_.
     bindE (get_provider (sr_provider_kind r) (sr_provider_kind r)) (\<lambda>p.
     bindE (on_world (po_stop p (sr_backend_id r))) (\<lambda>_.
     on_store (rs_update_status (me_store E) i SbStopped)))))"

definition forget_backend :: "string \<Rightarrow> ('w, 's, unit) mg_eff" where
  "forget_backend b g =
     (Inr (), g\<lparr>mg_instances := (mg_instances g)(b := None),
                mg_names := (\<lambda>n. if mg_names g n = Some b then None else mg_names g n)\<rparr>)"

definition mg_destroy :: "('w, 's) manager_env \<Rightarrow> sandbox_id \<Rightarrow> ('w, 's, unit) mg_eff" where
  "mg_destroy E i =
     bindE (fetch_record E i) (\<lambda>r.
     bindE (get_provider (sr_provider_kind r) (sr_provider_kind r)) (\<lambda>p.
     bindE (on_world (po_destroy p (sr_backend_id r))) (\<lambda>_.
     bindE (forget_backend (sr_backend_id r)) (\<lambda>_.
     on_store (rs_delete (me_store E) i)))))"

definition default_filter :: sandbox_filter where
  "default_filter = \<lparr> sf_profile = Some default_tmp_profile, sf_provider_kind = None, sf_status = None \<rparr>"

definition create_default :: "('w, 's) manager_env \<Rightarrow> ('w, 's, sandbox) mg_eff" where
  "create_default E g =
     (case mg_providers g ''tmp'' of
        None \<Rightarrow> draw (me_local E) g
      | Some p \<Rightarrow>
          bindE (on_world (po_create p default_spec)) (\<lambda>(b, sb).
          bindE (draw (me_draw E)) (\<lambda>i.
          bindE (on_store (rs_insert (me_store E)
                   (new_record E i default_tmp_profile ''tmp'' b Map.empty))) (\<lambda>_.
          bindE (cache_instance b sb) (\<lambda>_. ret sb)))) g)"

definition mg_default :: "('w, 's) manager_env \<Rightarrow> ('w, 's, sandbox) mg_eff" where
  "mg_default E =
     bindE (on_store (rs_list (me_store E) (Some default_filter))) (\<lambda>existing.
     case existing of
       r # _ \<Rightarrow> mg_get E (sr_id r)
     | [] \<Rightarrow> create_default E)"

definition register_instance ::
  "('w, 's) manager_env \<Rightarrow> sandbox_spec \<Rightarrow> sandbox \<Rightarrow> ('w, 's, sandbox_id) mg_eff" where
  "register_instance E sp sb =
     bindE (draw (me_draw E)) (\<lambda>i.
     let b = (case sb_root sb of Some r \<Rightarrow> r | None \<Rightarrow> [])
     in bindE (on_store (rs_insert (me_store E)
                 (new_record E i (spec_name sp) (spec_provider sp) b (spec_metadata sp)))) (\<lambda>_.
        bindE (cache_instance b sb) (\<lambda>_.
        bindE (bind_name (spec_name sp) b) (\<lambda>_. ret i))))"

end
