(* ===== verification/SandboxManagerCorrect.thy ===== *)
theory SandboxManagerCorrect
  imports SandboxManager
begin

text \<open>
  Correctness of the sandbox manager over any record store and any providers that keep their
  contracts: fresh instance ids, the lifecycle of a record, what creating and destroying an instance
  changes, the idempotence of the default sandbox, and an invariant of every sequence of operations.
\<close>

section \<open>The setting\<close>

locale manager_setting = record_store "me_store E" rinv records_of
  for E :: "('w, 's) manager_env"
    and rinv :: "'s \<Rightarrow> bool"
    and records_of :: "'s \<Rightarrow> record_map" +
  fixes drawn :: "'w \<Rightarrow> string set"
  assumes draw_ok: "me_draw E w = (i, w') \<Longrightarrow> i \<notin> drawn w \<and> drawn w' = insert i (drawn w)"
    and local_ok: "me_local E w = (sb, w') \<Longrightarrow> drawn w \<subseteq> drawn w'"

locale total_manager_setting = manager_setting +
  assumes list_total: "rinv s \<Longrightarrow> \<exists>rs s'. rs_list (me_store E) f s = (Inr rs, s')"
    and get_total: "rinv s \<Longrightarrow> \<exists>x s'. rs_get (me_store E) i s = (Inr x, s')"

definition mg_inv ::
  "('s \<Rightarrow> bool) \<Rightarrow> ('s \<Rightarrow> record_map) \<Rightarrow> ('w \<Rightarrow> string set) \<Rightarrow> ('w, 's) manager \<Rightarrow> bool" where
  "mg_inv rinv records_of drawn g \<longleftrightarrow>
     rinv (mg_store g) \<and>
     (\<forall>k p. mg_providers g k = Some p \<longrightarrow> provider p drawn) \<and>
     dom (records_of (mg_store g)) \<subseteq> drawn (mg_world g)"

section \<open>Steps of the manager monad\<close>

lemma on_store_result:
  "on_store m g = (r, g') \<longleftrightarrow> (\<exists>s. m (mg_store g) = (r, s) \<and> g' = g\<lparr>mg_store := s\<rparr>)"
  by (auto simp: on_store_def split: prod.splits)

lemma on_world_result:
  "on_world m g = (r, g') \<longleftrightarrow> (\<exists>w. m (mg_world g) = (r, w) \<and> g' = g\<lparr>mg_world := w\<rparr>)"
  by (auto simp: on_world_def split: prod.splits)

lemma draw_result:
  "draw d g = (r, g') \<longleftrightarrow> (\<exists>x w. d (mg_world g) = (x, w) \<and> r = Inr x \<and> g' = g\<lparr>mg_world := w\<rparr>)"
  by (auto simp: draw_def split: prod.splits)

lemma get_provider_result:
  "get_provider kind msg g = (r, g') \<longleftrightarrow>
     g' = g \<and> r = (case mg_providers g kind of None \<Rightarrow> Inl (SbUnknownType msg) | Some p \<Rightarrow> Inr p)"
  by (auto simp: get_provider_def split: option.splits)

lemma bindE_iff:
  "bindE m f s = (r, s') \<longleftrightarrow>
     (\<exists>e. m s = (Inl e, s') \<and> r = Inl e) \<or> (\<exists>x s1. m s = (Inr x, s1) \<and> f x s1 = (r, s'))"
  by (auto simp: bindE_def split: prod.splits sum.splits)

lemmas step_simps = on_store_result on_world_result draw_result get_provider_result
  cache_instance_def bind_name_def forget_backend_def

section \<open>Facts from the contracts\<close>

context manager_setting
begin

abbreviation invar :: "('w, 's) manager \<Rightarrow> bool" where
  "invar \<equiv> mg_inv rinv records_of drawn"

abbreviation recs :: "('w, 's) manager \<Rightarrow> record_map" where
  "recs g \<equiv> records_of (mg_store g)"

lemma fetch_record_cases:
  assumes "invar g" "fetch_record E i g = (q, g')"
  shows "g' = g \<and> (case q of Inr r \<Rightarrow> recs g i = Some r \<and> sr_id r = i | Inl e \<Rightarrow> True)"
proof -
  have rs: "rinv (mg_store g)" using assms(1) by (simp add: mg_inv_def)
  obtain x s where x: "rs_get (me_store E) i (mg_store g) = (x, s)"
    by (cases "rs_get (me_store E) i (mg_store g)")
  show ?thesis
  proof (cases x)
    case (Inl e)
    with x rget_err [OF rs, of i e s] assms(2) show ?thesis
      by (auto simp: fetch_record_def bindE_iff step_simps)
  next
    case (Inr found)
    with x rget_ok [OF rs, of i found s] have f: "s = mg_store g" "found = recs g i" by simp_all
    with x Inr assms(2) rinv_keyed [OF rs] show ?thesis
      by (cases "recs g i") (auto simp: fetch_record_def bindE_iff step_simps records_keyed_def)
  qed
qed

lemma fetch_record_ok:
  "invar g \<Longrightarrow> fetch_record E i g = (Inr r, g') \<Longrightarrow> g' = g \<and> recs g i = Some r \<and> sr_id r = i"
  using fetch_record_cases [of g i "Inr r" g'] by simp

lemma fetch_record_err: "invar g \<Longrightarrow> fetch_record E i g = (Inl e, g') \<Longrightarrow> g' = g"
  using fetch_record_cases [of g i "Inl e" g'] by simp

text \<open>The invariant is kept when the world only draws more ids, and when an id that was drawn is recorded.\<close>

lemma invar_world:
  "invar g \<Longrightarrow> drawn (mg_world g) \<subseteq> drawn w \<Longrightarrow> invar (g\<lparr>mg_world := w\<rparr>)"
  by (auto simp: mg_inv_def)

lemma invar_store:
  "invar g \<Longrightarrow> rinv s \<Longrightarrow> dom (records_of s) \<subseteq> drawn (mg_world g) \<Longrightarrow> invar (g\<lparr>mg_store := s\<rparr>)"
  by (auto simp: mg_inv_def)

lemma invar_tables [simp]:
  "invar (g\<lparr>mg_instances := x\<rparr>) = invar g"
  "invar (g\<lparr>mg_names := y\<rparr>) = invar g"
  by (auto simp: mg_inv_def)

lemma invar_provider: "invar g \<Longrightarrow> mg_providers g k = Some p \<Longrightarrow> provider p drawn"
  by (auto simp: mg_inv_def)

text \<open>Filing a new instance: drawing an id and inserting its record.\<close>

lemma file_record:
  assumes "invar g" "me_draw E (mg_world g) = (i, w)"
    and "rs_insert (me_store E) (new_record E i n k b md) (mg_store g) = (q, s)"
  shows "i \<notin> dom (recs g) \<and> invar (g\<lparr>mg_world := w, mg_store := s\<rparr>) \<and>
     records_of s = (case q of Inr u \<Rightarrow> (recs g)(i \<mapsto> new_record E i n k b md) | Inl e \<Rightarrow> recs g)"
proof -
  from draw_ok [OF assms(2)] have i: "i \<notin> drawn (mg_world g)" "drawn w = insert i (drawn (mg_world g))"
    by simp_all
  with assms(1) have fresh: "i \<notin> dom (recs g)" and rs: "rinv (mg_store g)"
    by (auto simp: mg_inv_def)
  have "rinv s \<and> records_of s = (case q of Inr u \<Rightarrow> (recs g)(i \<mapsto> new_record E i n k b md) | Inl e \<Rightarrow> recs g)"
    using insert_ok [OF rs] insert_err [OF rs] assms(3)
    by (cases q) (auto simp: new_record_def)
  with fresh i assms(1) show ?thesis
    by (auto simp: mg_inv_def split: sum.splits)
qed

lemma mg_create_cases:
  assumes "invar g" "mg_create E profile g = (r, g')"
  shows "invar g' \<and>
     (case r of
        Inl e \<Rightarrow> recs g' = recs g
      | Inr i \<Rightarrow> \<exists>sp b sb. mg_specs g profile = Some sp \<and> recs g i = None \<and> sb_root sb = Some b \<and>
          recs g' = (recs g)(i \<mapsto> new_record E i (spec_name sp) (spec_provider sp) b (spec_metadata sp)) \<and>
          mg_instances g' = (mg_instances g)(b \<mapsto> sb) \<and>
          mg_names g' = (mg_names g)(spec_name sp \<mapsto> b))"
proof (cases "mg_specs g profile")
  case None
  with assms show ?thesis by (auto simp: mg_create_def)
next
  case sp: (Some sp)
  show ?thesis
  proof (cases "mg_providers g (spec_provider sp)")
    case None
    with sp assms show ?thesis by (auto simp: mg_create_def bindE_iff step_simps)
  next
    case p: (Some p)
    obtain c w where c: "po_create p sp (mg_world g) = (c, w)" by (cases "po_create p sp (mg_world g)")
    note prov = invar_provider [OF assms(1) p]
    have g1: "invar (g\<lparr>mg_world := w\<rparr>)"
      by (rule invar_world [OF assms(1) provider.create_drawn [OF prov c]])
    show ?thesis
    proof (cases c)
      case (Inl e)
      with sp p c g1 assms show ?thesis
        by (auto simp: mg_create_def bindE_iff step_simps)
    next
      case (Inr bsb)
      obtain b sb where bsb: "bsb = (b, sb)" by (cases bsb)
      with c Inr have root: "sb_root sb = Some b"
        using provider.create_root [OF prov] by simp
      let ?rec = "\<lambda>i. new_record E i (spec_name sp) (spec_provider sp) b (spec_metadata sp)"
      obtain i w2 where d: "me_draw E w = (i, w2)" by (cases "me_draw E w")
      obtain q s where q: "rs_insert (me_store E) (?rec i) (mg_store g) = (q, s)"
        by (cases "rs_insert (me_store E) (?rec i) (mg_store g)")
      have f: "i \<notin> dom (recs g)" "invar (g\<lparr>mg_world := w2, mg_store := s\<rparr>)"
        "records_of s = (case q of Inr u \<Rightarrow> (recs g)(i \<mapsto> ?rec i) | Inl e \<Rightarrow> recs g)"
        using file_record [OF g1, of i w2 "spec_name sp" "spec_provider sp" b "spec_metadata sp" q s] d q
        by (cases q; simp)+
      show ?thesis
      proof (cases q)
        case e: (Inl e)
        with sp p c Inr bsb d q f assms(2) show ?thesis
          by (auto simp: mg_create_def bindE_iff step_simps)
      next
        case u: (Inr u)
        with sp p c Inr bsb d q assms(2) have r: "r = Inr i"
          and g': "g' = g\<lparr>mg_world := w2, mg_store := s, mg_instances := (mg_instances g)(b \<mapsto> sb),
                       mg_names := (mg_names g)(spec_name sp \<mapsto> b)\<rparr>"
          by (simp_all add: mg_create_def bindE_def on_world_def on_store_def draw_def
              get_provider_def cache_instance_def bind_name_def)
        have "invar g'"
          using f(2) unfolding g' by (simp add: mg_inv_def)
        with r u f(1,3) root sp show ?thesis unfolding g' by auto
      qed
    qed
  qed
qed

lemma register_instance_cases:
  assumes "invar g" "register_instance E sp sb g = (r, g')"
  shows "invar g' \<and>
     (case r of
        Inl e \<Rightarrow> recs g' = recs g
      | Inr i \<Rightarrow> \<exists>b. recs g i = None \<and>
          recs g' = (recs g)(i \<mapsto> new_record E i (spec_name sp) (spec_provider sp) b (spec_metadata sp)))"
proof -
  let ?b = "case sb_root sb of Some r \<Rightarrow> r | None \<Rightarrow> []"
  let ?rec = "\<lambda>i. new_record E i (spec_name sp) (spec_provider sp) ?b (spec_metadata sp)"
  obtain i w where d: "me_draw E (mg_world g) = (i, w)" by (cases "me_draw E (mg_world g)")
  obtain q s where q: "rs_insert (me_store E) (?rec i) (mg_store g) = (q, s)"
    by (cases "rs_insert (me_store E) (?rec i) (mg_store g)")
  note f = file_record [OF assms(1) d q]
  show ?thesis
  proof (cases q)
    case (Inl e)
    with d q f assms(2) show ?thesis
      by (auto simp: register_instance_def bindE_iff step_simps Let_def)
  next
    case (Inr u)
    with d q assms(2) have r: "r = Inr i" and
      g': "g' = g\<lparr>mg_world := w, mg_store := s, mg_instances := (mg_instances g)(?b \<mapsto> sb),
                   mg_names := (mg_names g)(spec_name sp \<mapsto> ?b)\<rparr>"
      by (simp_all add: register_instance_def bindE_def on_store_def draw_def
          cache_instance_def bind_name_def Let_def)
    have "invar g'" using f [THEN conjunct2, THEN conjunct1] unfolding g' by (simp add: mg_inv_def)
    with r Inr f show ?thesis unfolding g' by auto
  qed
qed

text \<open>The shape of \<open>start\<close> and \<open>stop\<close>: check the status, tell the provider, record the new status.\<close>

lemma change_status_cases:
  assumes "invar g"
    and "\<And>p b w q w'. provider p drawn \<Longrightarrow> tell p b w = (q, w') \<Longrightarrow> drawn w \<subseteq> drawn w'"
    and "bindE (fetch_record E i) (\<lambda>rc.
           bindE (liftE (validate_transition (sr_status rc) st)) (\<lambda>_.
           bindE (get_provider (sr_provider_kind rc) (sr_provider_kind rc)) (\<lambda>p.
           bindE (on_world (tell p (sr_backend_id rc))) (\<lambda>_.
           on_store (rs_update_status (me_store E) i st))))) g = (r, g')"
  shows "invar g' \<and> mg_instances g' = mg_instances g \<and> mg_names g' = mg_names g \<and>
     (case r of
        Inl e \<Rightarrow> recs g' = recs g
      | Inr u \<Rightarrow> \<exists>rc now. recs g i = Some rc \<and> transition_ok (sr_status rc) st \<and>
          recs g' = (recs g)(i \<mapsto> rc\<lparr>sr_status := st, sr_updated_at := now\<rparr>))"
proof -
  obtain f g0 where f: "fetch_record E i g = (f, g0)" by (cases "fetch_record E i g")
  show ?thesis
  proof (cases f)
    case (Inl e)
    with f fetch_record_err [OF assms(1), of i e g0] assms show ?thesis by (auto simp: bindE_iff)
  next
    case rc: (Inr rc)
    with f fetch_record_ok [OF assms(1), of i rc g0] have g0: "g0 = g" "recs g i = Some rc" by simp_all
    show ?thesis
    proof (cases "transition_ok (sr_status rc) st \<and> mg_providers g (sr_provider_kind rc) \<noteq> None")
      case False
      with f rc g0 assms(1,3) show ?thesis
        by (auto simp: bindE_iff validate_transition_def step_simps split: if_splits option.splits)
    next
      case True
      then obtain p where t: "transition_ok (sr_status rc) st"
        and p: "mg_providers g (sr_provider_kind rc) = Some p" by auto
      obtain c w where c: "tell p (sr_backend_id rc) (mg_world g) = (c, w)"
        by (cases "tell p (sr_backend_id rc) (mg_world g)")
      note g1 = invar_world [OF assms(1) assms(2) [OF invar_provider [OF assms(1) p] c]]
      show ?thesis
      proof (cases c)
        case (Inl e)
        with f rc g0 t p c g1 assms(3) show ?thesis
          by (auto simp: bindE_iff validate_transition_def step_simps)
      next
        case c2: (Inr v)
        obtain q s where q: "rs_update_status (me_store E) i st (mg_store g) = (q, s)"
          by (cases "rs_update_status (me_store E) i st (mg_store g)")
        from c2 f rc g0 t p c q assms(3) have r: "r = q" "g' = g\<lparr>mg_world := w, mg_store := s\<rparr>"
          by (auto simp: bindE_iff validate_transition_def step_simps)
        have rs: "rinv (mg_store g)" using assms(1) by (simp add: mg_inv_def)
        show ?thesis
        proof (cases q)
          case (Inl e)
          with update_status_err [OF rs, of i st e s] q r g1 show ?thesis
            by (auto simp: mg_inv_def)
        next
          case (Inr u)
          with update_status_ok [OF rs, of i st u s] q g0(2) obtain now where
            s: "rinv s" "records_of s = (recs g)(i \<mapsto> rc\<lparr>sr_status := st, sr_updated_at := now\<rparr>)"
            by auto
          with g1 g0(2) have "invar g'" unfolding r by (auto simp: mg_inv_def)
          with s r Inr g0(2) t show ?thesis by auto
        qed
      qed
    qed
  qed
qed

lemma mg_start_cases:
  assumes "invar g" "mg_start E i g = (r, g')"
  shows "invar g' \<and> mg_instances g' = mg_instances g \<and> mg_names g' = mg_names g \<and>
     (case r of
        Inl e \<Rightarrow> recs g' = recs g
      | Inr u \<Rightarrow> \<exists>rc now. recs g i = Some rc \<and> transition_ok (sr_status rc) SbRunning \<and>
          recs g' = (recs g)(i \<mapsto> rc\<lparr>sr_status := SbRunning, sr_updated_at := now\<rparr>))"
proof (rule change_status_cases [OF assms(1)])
  show "drawn w \<subseteq> drawn w'" if "provider p drawn" "po_start p b w = (q, w')" for p b w q w'
    by (rule provider.start_drawn [OF that])
qed (use assms(2) in \<open>simp add: mg_start_def\<close>)

lemma mg_stop_cases:
  assumes "invar g" "mg_stop E i g = (r, g')"
  shows "invar g' \<and> mg_instances g' = mg_instances g \<and> mg_names g' = mg_names g \<and>
     (case r of
        Inl e \<Rightarrow> recs g' = recs g
      | Inr u \<Rightarrow> \<exists>rc now. recs g i = Some rc \<and> transition_ok (sr_status rc) SbStopped \<and>
          recs g' = (recs g)(i \<mapsto> rc\<lparr>sr_status := SbStopped, sr_updated_at := now\<rparr>))"
proof (rule change_status_cases [OF assms(1)])
  show "drawn w \<subseteq> drawn w'" if "provider p drawn" "po_stop p b w = (q, w')" for p b w q w'
    by (rule provider.stop_drawn [OF that])
qed (use assms(2) in \<open>simp add: mg_stop_def\<close>)

lemma mg_destroy_cases:
  assumes "invar g" "mg_destroy E i g = (r, g')"
  shows "invar g' \<and>
     (case r of
        Inl e \<Rightarrow> recs g' = recs g
      | Inr u \<Rightarrow> \<exists>rc. recs g i = Some rc \<and> recs g' = (recs g)(i := None) \<and>
          mg_instances g' = (mg_instances g)(sr_backend_id rc := None) \<and>
          (\<forall>n. mg_names g' n = (if mg_names g n = Some (sr_backend_id rc) then None else mg_names g n)))"
proof -
  obtain f g0 where f: "fetch_record E i g = (f, g0)" by (cases "fetch_record E i g")
  show ?thesis
  proof (cases f)
    case (Inl e)
    with f fetch_record_err [OF assms(1), of i e g0] assms show ?thesis
      by (auto simp: mg_destroy_def bindE_iff)
  next
    case rc: (Inr rc)
    with f fetch_record_ok [OF assms(1), of i rc g0] have g0: "g0 = g" "recs g i = Some rc" by simp_all
    show ?thesis
    proof (cases "mg_providers g (sr_provider_kind rc)")
      case None
      with f rc g0 assms show ?thesis by (auto simp: mg_destroy_def bindE_iff step_simps)
    next
      case p: (Some p)
      obtain c w where c: "po_destroy p (sr_backend_id rc) (mg_world g) = (c, w)"
        by (cases "po_destroy p (sr_backend_id rc) (mg_world g)")
      note g1 = invar_world [OF assms(1) provider.destroy_drawn [OF invar_provider [OF assms(1) p] c]]
      show ?thesis
      proof (cases c)
        case (Inl e)
        with f rc g0 p c g1 assms(2) show ?thesis
          by (auto simp: mg_destroy_def bindE_iff step_simps)
      next
        case c2: (Inr v)
        obtain q s where q: "rs_delete (me_store E) i (mg_store g) = (q, s)"
          by (cases "rs_delete (me_store E) i (mg_store g)")
        let ?g = "snd (forget_backend (sr_backend_id rc) (g\<lparr>mg_world := w\<rparr>))"
        from c2 f rc g0 p c q assms(2) have r: "r = q" "g' = ?g\<lparr>mg_store := s\<rparr>"
          by (auto simp: mg_destroy_def bindE_iff step_simps)
        have rs: "rinv (mg_store g)" using assms(1) by (simp add: mg_inv_def)
        show ?thesis
        proof (cases q)
          case (Inl e)
          with rdelete_err [OF rs, of i e s] q r g1 show ?thesis
            by (auto simp: mg_inv_def forget_backend_def)
        next
          case (Inr u)
          with rdelete_ok [OF rs, of i u s] q have s: "rinv s" "records_of s = (recs g)(i := None)"
            by simp_all
          with g1 have "invar g'" unfolding r by (auto simp: mg_inv_def forget_backend_def)
          with s r Inr g0(2) show ?thesis by (auto simp: forget_backend_def)
        qed
      qed
    qed
  qed
qed

lemma mg_get_cases:
  assumes "invar g" "mg_get E i g = (r, g')"
  shows "invar g' \<and> mg_store g' = mg_store g \<and>
     (case r of
        Inl e \<Rightarrow> True
      | Inr sb \<Rightarrow> \<exists>rc. recs g i = Some rc \<and> mg_instances g' (sr_backend_id rc) = Some sb)"
proof -
  obtain f g0 where f: "fetch_record E i g = (f, g0)" by (cases "fetch_record E i g")
  show ?thesis
  proof (cases f)
    case (Inl e)
    with f fetch_record_err [OF assms(1), of i e g0] assms show ?thesis
      by (auto simp: mg_get_def bindE_iff)
  next
    case rc: (Inr rc)
    with f fetch_record_ok [OF assms(1), of i rc g0] have g0: "g0 = g" "recs g i = Some rc" by simp_all
    show ?thesis
    proof (cases "mg_instances g (sr_backend_id rc)")
      case (Some sb)
      with f rc g0 assms show ?thesis by (auto simp: mg_get_def bindE_iff)
    next
      case none: None
      show ?thesis
      proof (cases "mg_providers g (sr_provider_kind rc)")
        case None
        with none f rc g0 assms show ?thesis by (auto simp: mg_get_def bindE_iff step_simps)
      next
        case p: (Some p)
        obtain c w where c: "po_get p (sr_backend_id rc) (mg_world g) = (c, w)"
          by (cases "po_get p (sr_backend_id rc) (mg_world g)")
        note g1 = invar_world [OF assms(1) provider.get_drawn [OF invar_provider [OF assms(1) p] c]]
        with none f rc g0 p c assms(2) show ?thesis
          by (cases c) (auto simp: mg_get_def bindE_iff step_simps)
      qed
    qed
  qed
qed

lemma create_default_cases:
  assumes "invar g" "create_default E g = (r, g')"
  shows "invar g' \<and>
     (recs g' = recs g \<and> (mg_providers g ''tmp'' \<noteq> None \<longrightarrow> (\<exists>e. r = Inl e)) \<or>
      (\<exists>i b sb. r = Inr sb \<and> recs g' = (recs g)(i \<mapsto> new_record E i default_tmp_profile ''tmp'' b Map.empty) \<and>
         mg_instances g' b = Some sb))"
proof (cases "mg_providers g ''tmp''")
  case None
  obtain sb w where w: "me_local E (mg_world g) = (sb, w)" by (cases "me_local E (mg_world g)")
  with None assms invar_world [OF assms(1) local_ok [OF w]] show ?thesis
    by (auto simp: create_default_def step_simps)
next
  case p: (Some p)
  obtain c w where c: "po_create p default_spec (mg_world g) = (c, w)"
    by (cases "po_create p default_spec (mg_world g)")
  note g1 = invar_world [OF assms(1) provider.create_drawn [OF invar_provider [OF assms(1) p] c]]
  show ?thesis
  proof (cases c)
    case (Inl e)
    with p c g1 assms(2) show ?thesis by (auto simp: create_default_def bindE_iff step_simps)
  next
    case c2: (Inr bsb)
    obtain b sb where bsb: "bsb = (b, sb)" by (cases bsb)
    let ?rec = "\<lambda>i. new_record E i default_tmp_profile ''tmp'' b Map.empty"
    obtain i w2 where d: "me_draw E w = (i, w2)" by (cases "me_draw E w")
    obtain q s where q: "rs_insert (me_store E) (?rec i) (mg_store g) = (q, s)"
      by (cases "rs_insert (me_store E) (?rec i) (mg_store g)")
    have f: "invar (g\<lparr>mg_world := w2, mg_store := s\<rparr>)"
        "records_of s = (case q of Inr u \<Rightarrow> (recs g)(i \<mapsto> ?rec i) | Inl e \<Rightarrow> recs g)"
      using file_record [OF g1, of i w2 default_tmp_profile "''tmp''" b Map.empty q s] d q
      by (cases q; simp)+
    show ?thesis
    proof (cases q)
      case (Inl e)
      with p c c2 bsb d q f assms(2) show ?thesis
        by (auto simp: create_default_def bindE_iff step_simps)
    next
      case (Inr u)
      with p c c2 bsb d q assms(2) have r: "r = Inr sb" and
        g': "g' = g\<lparr>mg_world := w2, mg_store := s, mg_instances := (mg_instances g)(b \<mapsto> sb)\<rparr>"
        by (simp_all add: create_default_def bindE_def on_world_def on_store_def draw_def
            cache_instance_def)
      have "invar g'" using f(1) unfolding g' by (simp add: mg_inv_def)
      with r Inr f(2) show ?thesis unfolding g' by auto
    qed
  qed
qed

lemma acquire_state:
  assumes "invar g" "acquire_by_name n g = (r, g')"
  shows "invar g' \<and> mg_store g' = mg_store g"
proof (cases "cached_by_name n g")
  case (Some sb)
  with assms show ?thesis by (simp add: acquire_by_name_def)
next
  case none: None
  show ?thesis
  proof (cases "mg_specs g n")
    case None
    with none assms show ?thesis by (simp add: acquire_by_name_def)
  next
    case sp: (Some sp)
    show ?thesis
    proof (cases "mg_providers g (spec_provider sp)")
      case None
      with none sp assms show ?thesis by (simp add: acquire_by_name_def)
    next
      case p: (Some p)
      obtain c w where c: "po_create p sp (mg_world g) = (c, w)" by (cases "po_create p sp (mg_world g)")
      note g1 = invar_world [OF assms(1) provider.create_drawn [OF invar_provider [OF assms(1) p] c]]
      show ?thesis
      proof (cases c)
        case (Inl e)
        with none sp p c g1 assms(2) show ?thesis
          by (auto simp: acquire_by_name_def bindE_def on_world_def)
      next
        case (Inr x)
        obtain b sb where "x = (b, sb)" by (cases x)
        with Inr none sp p c assms(2) have "g' = g\<lparr>mg_world := w, mg_instances := (mg_instances g)(b \<mapsto> sb),
            mg_names := (mg_names g)(n \<mapsto> b)\<rparr>"
          by (auto simp: acquire_by_name_def bindE_def on_world_def cache_instance_def bind_name_def)
        with g1 show ?thesis by (simp add: mg_inv_def)
      qed
    qed
  qed
qed

lemma build_inline_state:
  assumes "invar g" "build_inline sp g = (r, g')"
  shows "invar g' \<and> mg_store g' = mg_store g"
proof (cases "mg_providers g (spec_provider sp)")
  case None
  with assms show ?thesis by (auto simp: build_inline_def bindE_iff step_simps)
next
  case p: (Some p)
  obtain c w where c: "po_create p sp (mg_world g) = (c, w)" by (cases "po_create p sp (mg_world g)")
  note g1 = invar_world [OF assms(1) provider.create_drawn [OF invar_provider [OF assms(1) p] c]]
  with p c assms(2) show ?thesis
    by (cases c) (auto simp: build_inline_def bindE_def on_world_def get_provider_def split: prod.splits)
qed

lemma default_cases:
  assumes "invar g" "mg_default E g = (r, g')"
  obtains (err) "invar g'" "recs g' = recs g" "\<exists>e. r = Inl e"
    | (found) rc rest where "rs_list (me_store E) (Some default_filter) (mg_store g) = (Inr (rc # rest), mg_store g)"
        "mg_get E (sr_id rc) g = (r, g')"
    | (create) "rs_list (me_store E) (Some default_filter) (mg_store g) = (Inr [], mg_store g)"
        "create_default E g = (r, g')"
proof -
  have rs: "rinv (mg_store g)" using assms(1) by (simp add: mg_inv_def)
  obtain q s where q: "rs_list (me_store E) (Some default_filter) (mg_store g) = (q, s)"
    by (cases "rs_list (me_store E) (Some default_filter) (mg_store g)")
  show thesis
  proof (cases q)
    case (Inl e)
    with q rlist_err [OF rs, of "Some default_filter" e s] assms err show ?thesis
      by (auto simp: mg_default_def bindE_iff step_simps)
  next
    case (Inr l)
    with q rlist_ok [OF rs, of "Some default_filter" l s] have "s = mg_store g" by simp
    with q Inr assms(2) found create show ?thesis
      by (cases l) (auto simp: mg_default_def bindE_def on_store_def)
  qed
qed

end

context total_manager_setting
begin

lemma mg_get_cached:
  assumes "invar g" "recs g i = Some rc" "mg_instances g (sr_backend_id rc) = Some sb"
  shows "mg_get E i g = (Inr sb, g)"
proof -
  have rs: "rinv (mg_store g)" using assms(1) by (simp add: mg_inv_def)
  have "rs_get (me_store E) i (mg_store g) = (Inr (Some rc), mg_store g)"
    using get_total [OF rs, of i] rget_ok [OF rs] assms(2) by metis
  with assms(3) show ?thesis
    by (simp add: mg_get_def fetch_record_def bindE_def on_store_def)
qed

lemma default_idempotent:
  assumes "invar g" "mg_providers g ''tmp'' \<noteq> None" "mg_default E g = (Inr sb, g')"
  shows "mg_default E g' = (Inr sb, g')"
  using assms(1,3)
proof (cases rule: default_cases)
  case err
  then show ?thesis by simp
next
  case (found rc rest)
  from mg_get_cases [OF assms(1) found(2)] obtain rc' where
    g': "invar g'" "mg_store g' = mg_store g" "recs g (sr_id rc) = Some rc'"
      "mg_instances g' (sr_backend_id rc') = Some sb"
    by auto
  have l: "rs_list (me_store E) (Some default_filter) (mg_store g') = (Inr (rc # rest), mg_store g')"
    using found(1) g'(2) by simp
  have "mg_get E (sr_id rc) g' = (Inr sb, g')"
    by (rule mg_get_cached [OF g'(1) _ g'(4)]) (simp add: g'(2,3))
  with l show ?thesis
    by (simp add: mg_default_def bindE_def on_store_def)
next
  case create
  have rs: "rinv (mg_store g)" using assms(1) by (simp add: mg_inv_def)
  from create_default_cases [OF assms(1) create(2)] assms(2) obtain i b where
    g': "invar g'" "recs g' = (recs g)(i \<mapsto> new_record E i default_tmp_profile ''tmp'' b Map.empty)"
      "mg_instances g' b = Some sb"
    by auto
  then have rs': "rinv (mg_store g')" by (simp add: mg_inv_def)
  let ?rec = "new_record E i default_tmp_profile ''tmp'' b Map.empty"
  have m: "filter_matches (Some default_filter) ?rec"
    by (simp add: filter_matches_def default_filter_def new_record_def)
  have none: "\<forall>r \<in> ran (recs g). \<not> filter_matches (Some default_filter) r"
    using rlist_ok [OF rs create(1)] by auto
  obtain l s where l: "rs_list (me_store E) (Some default_filter) (mg_store g') = (Inr l, s)"
    using list_total [OF rs'] by blast
  from rlist_ok [OF rs' l] have s: "s = mg_store g'"
    and set: "set l = {r \<in> ran (recs g'). filter_matches (Some default_filter) r}" by simp_all
  have "set l = {?rec}"
  proof
    show "set l \<subseteq> {?rec}"
      using set none unfolding g'(2) by (auto simp: ran_def split: if_splits)
    show "{?rec} \<subseteq> set l"
      using set m unfolding g'(2) by (auto simp: ran_def)
  qed
  then obtain rest where rest: "l = ?rec # rest" by (cases l) auto
  have "mg_get E i g' = (Inr sb, g')"
    using mg_get_cached [OF g'(1), of i ?rec sb] g'(2,3) by (simp add: new_record_def)
  with l s rest show ?thesis
    by (simp add: mg_default_def bindE_def on_store_def new_record_def)
qed

end

section \<open>Sequences of operations\<close>

inductive mg_step ::
  "('w, 's) manager_env \<Rightarrow> ('w provider_ops \<Rightarrow> bool) \<Rightarrow> ('w, 's) manager \<Rightarrow> ('w, 's) manager \<Rightarrow> bool"
  for E good where
  provider: "good p \<Longrightarrow> mg_step E good g (register_provider p g)"
| profile: "mg_step E good g (register_profile sp g)"
| create: "mg_create E n g = (r_create, g') \<Longrightarrow> mg_step E good g g'"
| inst: "register_instance E sp sb g = (r_inst, g') \<Longrightarrow> mg_step E good g g'"
| get: "mg_get E i g = (r_get, g') \<Longrightarrow> mg_step E good g g'"
| acquire: "acquire_by_name n g = (r_acquire, g') \<Longrightarrow> mg_step E good g g'"
| inline: "build_inline sp g = (r_inline, g') \<Longrightarrow> mg_step E good g g'"
| start: "mg_start E i g = (r_start, g') \<Longrightarrow> mg_step E good g g'"
| stop: "mg_stop E i g = (r_stop, g') \<Longrightarrow> mg_step E good g g'"
| destroy: "mg_destroy E i g = (r_destroy, g') \<Longrightarrow> mg_step E good g g'"
| default: "mg_default E g = (r_default, g') \<Longrightarrow> mg_step E good g g'"

definition live_status :: "record_map \<Rightarrow> bool" where
  "live_status m \<longleftrightarrow> (\<forall>i r. m i = Some r \<longrightarrow> sr_status r = SbRunning \<or> sr_status r = SbStopped)"

lemma live_status_upd:
  "live_status m \<Longrightarrow> sr_status r = SbRunning \<or> sr_status r = SbStopped \<Longrightarrow> live_status (m(i \<mapsto> r))"
  by (simp add: live_status_def)

lemma live_status_del: "live_status m \<Longrightarrow> live_status (m(i := None))"
  by (simp add: live_status_def)

context manager_setting
begin

lemma default_live:
  assumes "invar g" "live_status (recs g)" "mg_default E g = (r, g')"
  shows "invar g' \<and> live_status (recs g')"
  using assms(1,3)
proof (cases rule: default_cases)
  case err
  with assms(2) show ?thesis by simp
next
  case (found rc rest)
  with mg_get_cases [OF assms(1) found(2)] assms(2) show ?thesis by simp
next
  case create
  with create_default_cases [OF assms(1) create(2)] assms(2) show ?thesis
    by (auto simp: live_status_upd new_record_def)
qed

lemma step_live:
  assumes "mg_step E (\<lambda>p. provider p drawn) g g'" "invar g" "live_status (recs g)"
  shows "invar g' \<and> live_status (recs g')"
  using assms(1)
proof cases
  case (provider p)
  with assms(2,3) show ?thesis by (auto simp: register_provider_def mg_inv_def)
next
  case (profile sp)
  with assms(2,3) show ?thesis by (auto simp: register_profile_def mg_inv_def)
next
  case (create n r)
  with mg_create_cases [OF assms(2), of n r g'] assms(3) show ?thesis
    by (cases r) (auto simp: live_status_upd new_record_def)
next
  case (inst sp sb r)
  with register_instance_cases [OF assms(2), of sp sb r g'] assms(3) show ?thesis
    by (cases r) (auto simp: live_status_upd new_record_def)
next
  case (get i r)
  with mg_get_cases [OF assms(2), of i r g'] assms(3) show ?thesis
    by simp
next
  case (acquire n r)
  with acquire_state [OF assms(2), of n r g'] assms(3) show ?thesis
    by simp
next
  case (inline sp r)
  with build_inline_state [OF assms(2), of sp r g'] assms(3) show ?thesis
    by simp
next
  case (start i r)
  with mg_start_cases [OF assms(2), of i r g'] assms(3) show ?thesis
    by (cases r) (auto simp: live_status_upd)
next
  case (stop i r)
  with mg_stop_cases [OF assms(2), of i r g'] assms(3) show ?thesis
    by (cases r) (auto simp: live_status_upd)
next
  case (destroy i r)
  with mg_destroy_cases [OF assms(2), of i r g'] assms(3) show ?thesis
    by (cases r) (auto simp: live_status_del)
next
  case (default r)
  with default_live [OF assms(2,3), of r g'] assms(3) show ?thesis
    by simp
qed

lemma steps_live:
  assumes "(mg_step E (\<lambda>p. provider p drawn))\<^sup>*\<^sup>* g g'" "invar g" "live_status (recs g)"
  shows "invar g' \<and> live_status (recs g')"
  using assms
proof (induction rule: rtranclp_induct)
  case (step y z)
  then show ?case using step_live [of y z] by simp
qed simp

end

section \<open>The manager on this host\<close>

text \<open>The manager as \<open>SandboxManager::new\<close> sets it up: the in-memory record store, and the host's ids.\<close>

definition host_manager_env :: "'fs host_env \<Rightarrow> time \<Rightarrow> ('fs host, mem_records) manager_env" where
  "host_manager_env H now = \<lparr> me_store = mr_ops ascending, me_draw = draw_id H,
     me_local = local_new H None, me_now = now \<rparr>"

lemma host_manager_setting:
  assumes "inj (he_ulid H)"
  shows "total_manager_setting (host_manager_env H now) mr_inv mr_records (drawn_ids H)"
proof -
  have rs: "record_store (me_store (host_manager_env H now)) mr_inv mr_records"
    using mrs.record_store_axioms by (simp add: host_manager_env_def)
  show ?thesis
  proof (rule total_manager_setting.intro)
    show "manager_setting (host_manager_env H now) mr_inv mr_records (drawn_ids H)"
    proof (rule manager_setting.intro [OF rs], unfold_locales)
      fix w i w' assume "me_draw (host_manager_env H now) w = (i, w')"
      then have d: "i = fst (draw_id H w)" "w' = snd (draw_id H w)"
        by (simp_all add: host_manager_env_def)
      show "i \<notin> drawn_ids H w \<and> drawn_ids H w' = insert i (drawn_ids H w)"
        unfolding d using draw_fresh [OF assms] draw_drawn by blast
    next
      fix w sb w' assume "me_local (host_manager_env H now) w = (sb, w')"
      then have "h_draws w' = Suc (h_draws w)"
        by (auto simp: host_manager_env_def local_new_def draw_id_def Let_def)
      then show "drawn_ids H w \<subseteq> drawn_ids H w'" by (simp add: drawn_mono)
    qed
  qed (unfold_locales, auto simp: host_manager_env_def mr_defs)
qed

text \<open>A host whose file system is the set of its directories, and a manager with two profiles.\<close>

definition demo_host :: "string set host_env" where
  "demo_host = \<lparr> he_ulid = show_nat, he_pid = 255, he_temp_dir = ''/tmp'',
     he_exists = (\<lambda>fs p. p \<in> fs),
     he_create_dir_all = (\<lambda>p fs. (Inr (), insert p fs)),
     he_remove_dir_all = (\<lambda>p fs. (Inr (), fs - {p})) \<rparr>"

abbreviation demo_env :: "(string set host, mem_records) manager_env" where
  "demo_env \<equiv> host_manager_env demo_host 9"

interpretation dm: total_manager_setting "host_manager_env demo_host 9" mr_inv mr_records "drawn_ids demo_host"
  by (rule host_manager_setting) (simp add: demo_host_def inj_def show_nat_inj)

definition scratch_spec :: sandbox_spec where
  "scratch_spec = \<lparr> spec_name = ''scratch'', spec_config = CfgTmp None (Some ''s''), spec_metadata = Map.empty \<rparr>"

definition demo_manager :: "(string set host, mem_records) manager" where
  "demo_manager =
     register_profile scratch_spec (register_provider (tmp_provider demo_host)
       (with_store \<lparr> h_fs = {}, h_draws = 0, h_local_count = 0, h_tmp_count = 0 \<rparr> mr_new))"

lemma demo_manager_inv: "mg_inv mr_inv mr_records (drawn_ids demo_host) demo_manager"
  using tmp_p.provider_axioms [where E = demo_host]
  by (auto simp: mg_inv_def demo_manager_def register_profile_def register_provider_def with_store_def
      mr_new_def mr_inv_def records_keyed_def drawn_ids_def)

lemmas demo_defs = demo_manager_def scratch_spec_def register_profile_def register_provider_def
  with_store_def mr_new_def host_manager_env_def mr_defs demo_host_def

text \<open>The rule that evaluates one operation of the demo manager.\<close>

lemmas run_defs = mg_create_def mg_destroy_def mg_start_def mg_stop_def mg_default_def mg_get_def
  create_default_def fetch_record_def get_provider_def bindE_def on_world_def on_store_def draw_def
  cache_instance_def bind_name_def forget_backend_def new_record_def backend_defs on_fs_def draw_id_def
  ok_or_def spec_provider_def validate_transition_def transition_ok_def path_join_def is_absolute_def

definition demo_created :: "(string set host, mem_records) manager" where
  "demo_created = snd (mg_create demo_env ''scratch'' demo_manager)"

lemma show_nat_small: "show_nat 0 = ''0''" "show_nat 1 = ''1''" "show_nat 2 = ''2''" "show_nat 3 = ''3''"
  by code_simp+

lemma demo_create_scratch: "mg_create demo_env ''scratch'' demo_manager = (Inr ''sb_1'', demo_created)"
  using show_nat_small by (simp add: demo_created_def run_defs demo_defs)

section \<open>Properties\<close>

text \<open>
  Creating an instance files it under an id no record has, as a running record of its profile and
  provider, changes no other record, and from then on the profile's name gives the handle that was
  created, whose root is the backend id of the record.
\<close>

theorem mg_create_spec:
  assumes "manager_setting E rinv records_of drawn" "mg_inv rinv records_of drawn g"
    and "mg_create E profile g = (Inr i, g')"
  shows "\<exists>sp b sb. mg_specs g profile = Some sp \<and> records_of (mg_store g) i = None \<and>
     sr_status (the (records_of (mg_store g') i)) = SbRunning \<and>
     records_of (mg_store g') = (records_of (mg_store g))(i \<mapsto>
       new_record E i (spec_name sp) (spec_provider sp) b (spec_metadata sp)) \<and>
     acquire_by_name (spec_name sp) g' = (Some sb, g') \<and> sb_root sb = Some b"
  using manager_setting.mg_create_cases [OF assms]
  by (auto simp: acquire_by_name_def cached_by_name_def new_record_def)

theorem mg_create_spec_witness:
  "\<exists>sb. acquire_by_name ''scratch'' demo_created = (Some sb, demo_created) \<and>
     mr_records (mg_store demo_manager) ''sb_1'' = None"
  using mg_create_spec [OF dm.manager_setting_axioms demo_manager_inv demo_create_scratch]
  by (auto simp: demo_manager_def scratch_spec_def register_profile_def register_provider_def)

lemma validate_ok: "validate_transition a b = Inr () \<longleftrightarrow> transition_ok a b"
  by (simp add: validate_transition_def)

text \<open>
  Starting and stopping an instance obey the transition table: when they succeed, the record was
  in a status from which the new one is allowed, only its status and time stamp change and no other
  record does; when they report an error, no record has changed.
\<close>

theorem mg_lifecycle_spec:
  assumes "manager_setting E rinv records_of drawn" "mg_inv rinv records_of drawn g"
    and "(st, op) \<in> {(SbRunning, mg_start E i), (SbStopped, mg_stop E i)}" "op g = (r, g')"
  shows "case r of
      Inl e \<Rightarrow> records_of (mg_store g') = records_of (mg_store g)
    | Inr u \<Rightarrow> \<exists>rc now. records_of (mg_store g) i = Some rc \<and>
        validate_transition (sr_status rc) st = Inr () \<and>
        records_of (mg_store g') = (records_of (mg_store g))(i \<mapsto> rc\<lparr>sr_status := st, sr_updated_at := now\<rparr>)"
proof -
  from assms(3) consider "st = SbRunning" "op = mg_start E i" | "st = SbStopped" "op = mg_stop E i"
    by auto
  then show ?thesis
  proof cases
    case 1
    with manager_setting.mg_start_cases [OF assms(1,2), of i r g'] assms(4) show ?thesis
      by (cases r) (simp_all add: validate_ok)
  next
    case 2
    with manager_setting.mg_stop_cases [OF assms(1,2), of i r g'] assms(4) show ?thesis
      by (cases r) (simp_all add: validate_ok)
  qed
qed

lemma demo_created_inv: "mg_inv mr_inv mr_records (drawn_ids demo_host) demo_created"
  using dm.mg_create_cases [OF demo_manager_inv demo_create_scratch] by simp

theorem mg_lifecycle_spec_witness:
  "\<exists>g'. mg_stop demo_env ''sb_1'' demo_created = (Inr (), g') \<and>
     map_option sr_status (mr_records (mg_store g') ''sb_1'') = Some SbStopped"
proof -
  obtain g' where run: "mg_stop demo_env ''sb_1'' demo_created = (Inr (), g')"
    using show_nat_small by (simp add: demo_created_def run_defs demo_defs)
  have "case Inr () of
      Inl (e :: sandbox_error) \<Rightarrow> mr_records (mg_store g') = mr_records (mg_store demo_created)
    | Inr u \<Rightarrow> \<exists>rc now. mr_records (mg_store demo_created) ''sb_1'' = Some rc \<and>
        validate_transition (sr_status rc) SbStopped = Inr () \<and>
        mr_records (mg_store g') = (mr_records (mg_store demo_created))(''sb_1'' \<mapsto>
          rc\<lparr>sr_status := SbStopped, sr_updated_at := now\<rparr>)"
    by (rule mg_lifecycle_spec [where op = "mg_stop demo_env ''sb_1''" and i = "''sb_1''" and st = SbStopped,
        OF dm.manager_setting_axioms demo_created_inv _ run]) simp
  with run show ?thesis by auto
qed



text \<open>
  The default sandbox is created once.  After a call of \<open>default\<close> has returned a sandbox, the next
  call returns the same one and changes nothing, so the record store does not grow.  This needs the
  provider of temporary sandboxes to be registered; without it every call makes a new sandbox.
\<close>

theorem mg_default_idempotent:
  assumes "total_manager_setting E rinv records_of drawn" "mg_inv rinv records_of drawn g"
    and "mg_providers g ''tmp'' \<noteq> None" "mg_default E g = (Inr sb, g')"
  shows "mg_default E g' = (Inr sb, g')"
  by (rule total_manager_setting.default_idempotent [OF assms])

theorem mg_default_idempotent_witness:
  "\<exists>sb g'. mg_default demo_env demo_manager = (Inr sb, g') \<and> mg_default demo_env g' = (Inr sb, g') \<and>
     mr_records (mg_store g') \<noteq> mr_records (mg_store demo_manager)"
proof -
  have p: "mg_providers demo_manager ''tmp'' \<noteq> None"
    by (simp add: demo_defs backend_defs)
  have "\<exists>sb g'. mg_default demo_env demo_manager = (Inr sb, g') \<and>
      mr_records (mg_store g') \<noteq> mr_records (mg_store demo_manager)"
    by (simp add: run_defs demo_defs default_spec_def ascending_def)
  with mg_default_idempotent [OF dm.total_manager_setting_axioms demo_manager_inv p] show ?thesis
    by blast
qed

text \<open>
  In every state the operations of the manager lead to from an empty one, with providers that
  keep the interface registered at any time, the invariant holds and every record is running or
  stopped: no record ever has one of the other nine statuses.
\<close>

theorem mg_reachable:
  assumes "manager_setting E rinv records_of drawn" "rinv s" "records_of s = Map.empty"
    and "(mg_step E (\<lambda>p. provider p drawn))\<^sup>*\<^sup>* (with_store w s) g"
  shows "mg_inv rinv records_of drawn g \<and>
     (\<forall>i rc. records_of (mg_store g) i = Some rc \<longrightarrow> sr_status rc = SbRunning \<or> sr_status rc = SbStopped)"
proof -
  have "mg_inv rinv records_of drawn (with_store w s)"
    using assms(2,3) by (simp add: mg_inv_def with_store_def)
  moreover have "live_status (records_of (mg_store (with_store w s)))"
    using assms(3) by (simp add: live_status_def with_store_def)
  ultimately show ?thesis
    using manager_setting.steps_live [OF assms(1,4)] by (simp add: live_status_def)
qed

theorem mg_reachable_witness:
  "mg_inv mr_inv mr_records (drawn_ids demo_host) demo_created"
proof -
  let ?w = "\<lparr> h_fs = {}, h_draws = 0, h_local_count = 0, h_tmp_count = 0 \<rparr> :: string set host"
  let ?step = "mg_step demo_env (\<lambda>p. provider p (drawn_ids demo_host))"
  have "?step (with_store ?w mr_new) (register_provider (tmp_provider demo_host) (with_store ?w mr_new))"
    by (rule mg_step.provider) (rule tmp_p.provider_axioms)
  moreover have "?step (register_provider (tmp_provider demo_host) (with_store ?w mr_new)) demo_manager"
    unfolding demo_manager_def by (rule mg_step.profile)
  moreover have "?step demo_manager demo_created"
    by (rule mg_step.create [OF demo_create_scratch])
  ultimately have "?step\<^sup>*\<^sup>* (with_store ?w mr_new) demo_created"
    by (meson converse_rtranclp_into_rtranclp rtranclp.rtrancl_refl)
  moreover have "mr_inv mr_new" "mr_records mr_new = Map.empty"
    by (simp_all add: mr_inv_def mr_new_def records_keyed_def)
  ultimately show ?thesis
    using mg_reachable [OF dm.manager_setting_axioms] by blast
qed

text \<open>
  Instances of one profile with a fixed directory share their backend, and destroying one of them
  destroys it for all: after two instances are created and the first is destroyed, the second is still
  recorded as running, but its directory is gone.
\<close>

theorem shared_backend_destroyed:
  "\<exists>g2 g3. mg_create demo_env ''scratch'' demo_created = (Inr ''sb_3'', g2) \<and>
     mg_destroy demo_env ''sb_1'' g2 = (Inr (), g3) \<and>
     (\<exists>rc. mr_records (mg_store g3) ''sb_3'' = Some rc \<and> sr_status rc = SbRunning \<and>
        \<not> he_exists demo_host (h_fs (mg_world g3)) (sr_backend_id rc))"
  using show_nat_small by (simp add: demo_created_def run_defs demo_defs numeral_3_eq_3)

text \<open>
  Reconnecting to a temporary sandbox by its backend id gives a handle with the same root exactly
  when the sandbox lies directly in the temporary directory: for a nested directory only the last
  name is kept, and the handle points to another directory.
\<close>

theorem tmp_get_root:
  assumes "list_all good_name ns" "ns \<noteq> []"
  shows "\<exists>sb h'. tmp_get H (''/tmp/'' @ join ''/'' ns) h = (Inr sb, h') \<and>
     sb_root sb = Some (''/tmp/'' @ last ns) \<and>
     (sb_root sb = Some (''/tmp/'' @ join ''/'' ns) \<longleftrightarrow> length ns = 1)"
proof -
  have good: "list_all good_name (''tmp'' # ns)" using assms(1) by (simp add: good_name_def)
  have "components (''/tmp/'' @ join ''/'' ns) = RootDir # map Normal (''tmp'' # ns)"
    using components_abs [of "''/'' @ join ''/'' (''tmp'' # ns)"]
      rel_components_names [OF good] assms(2)
    by (cases ns) (auto simp: is_absolute_def rel_components_def seg_component_def)
  then have fn: "file_name (''/tmp/'' @ join ''/'' ns) = Some (last ns)"
    using assms(2) by (cases ns rule: rev_cases) (auto simp: file_name_def)
  have "\<not> is_absolute (last ns)"
    using assms by (cases ns rule: rev_cases) (auto simp: is_absolute_def good_name_def dest: hd_in_set)
  then have j: "path_join ''/tmp'' (last ns) = ''/tmp/'' @ last ns"
    by (simp add: path_join_def)
  have "join ''/'' ns = last ns \<longleftrightarrow> length ns = 1"
  proof (cases ns)
    case (Cons n ms)
    show ?thesis
    proof (cases "ms = []")
      case False
      have "CHR ''/'' \<notin> set (last ns)" using assms by (simp add: list_all_iff good_name_def)
      moreover have "CHR ''/'' \<in> set (join ''/'' ns)" using Cons False by (cases ms) auto
      ultimately show ?thesis using Cons False by auto
    qed (use Cons in simp)
  qed (use assms in simp)
  then have eq: "last ns = join ''/'' ns \<longleftrightarrow> length ns = 1" by auto
  show ?thesis
    unfolding tmp_get_def fn Let_def option.case tmp_with_sub_dir_def draw_id_def prod.case j
    by (simp add: eq)
qed

theorem tmp_get_root_witness:
  "\<exists>sb h'. tmp_get demo_host ''/tmp/team/a'' \<lparr> h_fs = {}, h_draws = 0, h_local_count = 0, h_tmp_count = 0 \<rparr>
       = (Inr sb, h') \<and> sb_root sb = Some ''/tmp/a''"
  using tmp_get_root [of "[''team'', ''a'']" demo_host "\<lparr> h_fs = {}, h_draws = 0, h_local_count = 0, h_tmp_count = 0 \<rparr>"]
  by (auto simp: good_name_def)

end
