(* ===== verification/Protocol.thy ===== *)
theory Protocol
  imports ToolTypes SandboxTypes
begin

text \<open>
  The agent-server protocol, \<open>crates/vol-llm-agent-protocol/src/\<close>: operations and their method
  names (\<open>agent_server_protocol.rs\<close>, \<open>operation_codec.rs\<close>), messages, and the payloads the
  control plane reads or writes.  The input of an agent is opaque, and so are the payloads of the
  file, session, MCP, skill, tool, log and sandbox operations, which the control plane passes over.
\<close>

section \<open>Operations\<close>

datatype agent_operation =
    AgSubmitOp | AgCancelOp | AgSubscribeOp | AgUnsubscribeOp | AgApproveOp | AgListOp
    | AgEventOp | AgStatusOp | AgContextConfigOp | AgContextSnapshotOp | AgGetCapabilitiesOp
    | AgUpdateCapabilitiesOp

datatype file_operation =
    FiListOp | FiReadOp

datatype session_operation =
    SeListOp | SeResumeOp | SeEntriesOp

datatype mcp_operation =
    McListServersOp | McListToolsOp | McCallToolOp | McListResourcesOp
    | McListResourceTemplatesOp | McReadResourceOp | McListPromptsOp | McGetPromptOp
    | McReconnectOp | McServerStatusOp

datatype skill_operation =
    SkListOp | SkGetOp | SkRefreshOp

datatype tool_operation =
    ToListOp | ToCallOp

datatype log_operation =
    LoListOp | LoReadOp

datatype system_operation =
    SyConnectedOp

datatype task_operation =
    TaListOp | TaGetOp

datatype control_operation =
    CoRegisterOp | CoHeartbeatOp | CoCapabilitySnapshotOp | CoCapabilityDeltaOp | CoEventOp
    | CoCommandOp | CoCommandAckOp | CoCommandResultOp | CoNodeListOp | CoNodeGetOp
    | CoCapabilityListOp | CoRunStatusOp | CoTaskListOp | CoTaskListResultOp | CoTaskGetOp
    | CoTaskGetResultOp

datatype sandbox_operation =
    SbListOp | SbListSpecsOp | SbExecOp | SbReadFileOp | SbWriteFileOp | SbCreateDirOp
    | SbReadDirOp | SbMetadataOp

datatype operation =
    OpAgent agent_operation
  | OpFile file_operation
  | OpSession session_operation
  | OpMcp mcp_operation
  | OpSkill skill_operation
  | OpTool tool_operation
  | OpLog log_operation
  | OpSystem system_operation
  | OpTask task_operation
  | OpControl control_operation
  | OpSandbox sandbox_operation

section \<open>Method names\<close>

fun agent_method :: "agent_operation \<Rightarrow> string" where
  "agent_method AgSubmitOp = ''agent.submit''"
| "agent_method AgCancelOp = ''agent.cancel''"
| "agent_method AgSubscribeOp = ''agent.subscribe''"
| "agent_method AgUnsubscribeOp = ''agent.unsubscribe''"
| "agent_method AgApproveOp = ''agent.approve''"
| "agent_method AgListOp = ''agent.list''"
| "agent_method AgEventOp = ''agent.event''"
| "agent_method AgStatusOp = ''agent.status''"
| "agent_method AgContextConfigOp = ''agent.context_config''"
| "agent_method AgContextSnapshotOp = ''agent.context_snapshot''"
| "agent_method AgGetCapabilitiesOp = ''agent.get_capabilities''"
| "agent_method AgUpdateCapabilitiesOp = ''agent.update_capabilities''"

fun file_method :: "file_operation \<Rightarrow> string" where
  "file_method FiListOp = ''file.list''"
| "file_method FiReadOp = ''file.read''"

fun session_method :: "session_operation \<Rightarrow> string" where
  "session_method SeListOp = ''session.list''"
| "session_method SeResumeOp = ''session.resume''"
| "session_method SeEntriesOp = ''session.entries''"

fun mcp_method :: "mcp_operation \<Rightarrow> string" where
  "mcp_method McListServersOp = ''mcp.list_servers''"
| "mcp_method McListToolsOp = ''mcp.list_tools''"
| "mcp_method McCallToolOp = ''mcp.call_tool''"
| "mcp_method McListResourcesOp = ''mcp.list_resources''"
| "mcp_method McListResourceTemplatesOp = ''mcp.list_resource_templates''"
| "mcp_method McReadResourceOp = ''mcp.read_resource''"
| "mcp_method McListPromptsOp = ''mcp.list_prompts''"
| "mcp_method McGetPromptOp = ''mcp.get_prompt''"
| "mcp_method McReconnectOp = ''mcp.reconnect''"
| "mcp_method McServerStatusOp = ''mcp.server_status''"

fun skill_method :: "skill_operation \<Rightarrow> string" where
  "skill_method SkListOp = ''skill.list''"
| "skill_method SkGetOp = ''skill.get''"
| "skill_method SkRefreshOp = ''skill.refresh''"

fun tool_method :: "tool_operation \<Rightarrow> string" where
  "tool_method ToListOp = ''tool.list''"
| "tool_method ToCallOp = ''tool.call''"

fun log_method :: "log_operation \<Rightarrow> string" where
  "log_method LoListOp = ''log.list''"
| "log_method LoReadOp = ''log.read''"

fun system_method :: "system_operation \<Rightarrow> string" where
  "system_method SyConnectedOp = ''system.connected''"

fun task_method :: "task_operation \<Rightarrow> string" where
  "task_method TaListOp = ''task.list''"
| "task_method TaGetOp = ''task.get''"

fun control_method :: "control_operation \<Rightarrow> string" where
  "control_method CoRegisterOp = ''control.register''"
| "control_method CoHeartbeatOp = ''control.heartbeat''"
| "control_method CoCapabilitySnapshotOp = ''control.capability_snapshot''"
| "control_method CoCapabilityDeltaOp = ''control.capability_delta''"
| "control_method CoEventOp = ''control.event''"
| "control_method CoCommandOp = ''control.command''"
| "control_method CoCommandAckOp = ''control.command_ack''"
| "control_method CoCommandResultOp = ''control.command_result''"
| "control_method CoNodeListOp = ''control.node_list''"
| "control_method CoNodeGetOp = ''control.node_get''"
| "control_method CoCapabilityListOp = ''control.capability_list''"
| "control_method CoRunStatusOp = ''control.run_status''"
| "control_method CoTaskListOp = ''control.task_list''"
| "control_method CoTaskListResultOp = ''control.task_list_result''"
| "control_method CoTaskGetOp = ''control.task_get''"
| "control_method CoTaskGetResultOp = ''control.task_get_result''"

fun sandbox_method :: "sandbox_operation \<Rightarrow> string" where
  "sandbox_method SbListOp = ''sandbox.list''"
| "sandbox_method SbListSpecsOp = ''sandbox.list_specs''"
| "sandbox_method SbExecOp = ''sandbox.exec''"
| "sandbox_method SbReadFileOp = ''sandbox.read_file''"
| "sandbox_method SbWriteFileOp = ''sandbox.write_file''"
| "sandbox_method SbCreateDirOp = ''sandbox.create_dir''"
| "sandbox_method SbReadDirOp = ''sandbox.read_dir''"
| "sandbox_method SbMetadataOp = ''sandbox.metadata''"

fun method_name :: "operation \<Rightarrow> string" where
  "method_name (OpAgent x) = agent_method x"
| "method_name (OpFile x) = file_method x"
| "method_name (OpSession x) = session_method x"
| "method_name (OpMcp x) = mcp_method x"
| "method_name (OpSkill x) = skill_method x"
| "method_name (OpTool x) = tool_method x"
| "method_name (OpLog x) = log_method x"
| "method_name (OpSystem x) = system_method x"
| "method_name (OpTask x) = task_method x"
| "method_name (OpControl x) = control_method x"
| "method_name (OpSandbox x) = sandbox_method x"

datatype protocol_error =
    UnknownMethod string
  | PayloadDecodeFailed string
  | PayloadDecodeFailedOwned string

fun display_protocol_error :: "protocol_error \<Rightarrow> string" where
  "display_protocol_error (UnknownMethod m) = ''unknown method: '' @ m"
| "display_protocol_error (PayloadDecodeFailed m) = ''payload decode failed for '' @ m"
| "display_protocol_error (PayloadDecodeFailedOwned m) = ''payload decode failed: '' @ m"

definition method_table :: "(string \<times> operation) list" where
  "method_table =
     [(''agent.submit'', OpAgent AgSubmitOp),
      (''agent.cancel'', OpAgent AgCancelOp),
      (''agent.subscribe'', OpAgent AgSubscribeOp),
      (''agent.unsubscribe'', OpAgent AgUnsubscribeOp),
      (''agent.approve'', OpAgent AgApproveOp),
      (''agent.list'', OpAgent AgListOp),
      (''agent.event'', OpAgent AgEventOp),
      (''agent.status'', OpAgent AgStatusOp),
      (''agent.context_config'', OpAgent AgContextConfigOp),
      (''agent.context_snapshot'', OpAgent AgContextSnapshotOp),
      (''agent.get_capabilities'', OpAgent AgGetCapabilitiesOp),
      (''agent.update_capabilities'', OpAgent AgUpdateCapabilitiesOp),
      (''task.list'', OpTask TaListOp),
      (''task.get'', OpTask TaGetOp),
      (''file.list'', OpFile FiListOp),
      (''file.read'', OpFile FiReadOp),
      (''session.list'', OpSession SeListOp),
      (''session.resume'', OpSession SeResumeOp),
      (''session.entries'', OpSession SeEntriesOp),
      (''mcp.list_servers'', OpMcp McListServersOp),
      (''mcp.list_tools'', OpMcp McListToolsOp),
      (''mcp.call_tool'', OpMcp McCallToolOp),
      (''mcp.list_resources'', OpMcp McListResourcesOp),
      (''mcp.list_resource_templates'', OpMcp McListResourceTemplatesOp),
      (''mcp.read_resource'', OpMcp McReadResourceOp),
      (''mcp.list_prompts'', OpMcp McListPromptsOp),
      (''mcp.get_prompt'', OpMcp McGetPromptOp),
      (''mcp.reconnect'', OpMcp McReconnectOp),
      (''mcp.server_status'', OpMcp McServerStatusOp),
      (''skill.list'', OpSkill SkListOp),
      (''skill.get'', OpSkill SkGetOp),
      (''skill.refresh'', OpSkill SkRefreshOp),
      (''tool.list'', OpTool ToListOp),
      (''tool.call'', OpTool ToCallOp),
      (''log.list'', OpLog LoListOp),
      (''log.read'', OpLog LoReadOp),
      (''system.connected'', OpSystem SyConnectedOp),
      (''control.register'', OpControl CoRegisterOp),
      (''control.heartbeat'', OpControl CoHeartbeatOp),
      (''control.capability_snapshot'', OpControl CoCapabilitySnapshotOp),
      (''control.capability_delta'', OpControl CoCapabilityDeltaOp),
      (''control.event'', OpControl CoEventOp),
      (''control.command'', OpControl CoCommandOp),
      (''control.command_ack'', OpControl CoCommandAckOp),
      (''control.command_result'', OpControl CoCommandResultOp),
      (''control.node_list'', OpControl CoNodeListOp),
      (''control.node_get'', OpControl CoNodeGetOp),
      (''control.capability_list'', OpControl CoCapabilityListOp),
      (''control.run_status'', OpControl CoRunStatusOp),
      (''control.task_list'', OpControl CoTaskListOp),
      (''control.task_list_result'', OpControl CoTaskListResultOp),
      (''control.task_get'', OpControl CoTaskGetOp),
      (''control.task_get_result'', OpControl CoTaskGetResultOp),
      (''sandbox.list'', OpSandbox SbListOp),
      (''sandbox.list_specs'', OpSandbox SbListSpecsOp),
      (''sandbox.exec'', OpSandbox SbExecOp),
      (''sandbox.read_file'', OpSandbox SbReadFileOp),
      (''sandbox.write_file'', OpSandbox SbWriteFileOp),
      (''sandbox.create_dir'', OpSandbox SbCreateDirOp),
      (''sandbox.read_dir'', OpSandbox SbReadDirOp),
      (''sandbox.metadata'', OpSandbox SbMetadataOp)]"

definition method_to_operation :: "string \<Rightarrow> protocol_error + operation" where
  "method_to_operation m =
     (case map_of method_table m of Some op \<Rightarrow> Inr op | None \<Rightarrow> Inl (UnknownMethod m))"

section \<open>Nodes and capabilities\<close>

record node_registration =
  nr_node_id :: string
  nr_name :: string
  nr_version :: string

record register_ack =
  ra_node_id :: string
  ra_accepted :: bool
  ra_generation :: u64

record node_load =
  nl_running :: u64
  nl_queued :: u64

definition no_load :: node_load where
  "no_load = \<lparr> nl_running = 0, nl_queued = 0 \<rparr>"

record node_heartbeat =
  hb_node_id :: string
  hb_status :: string
  hb_load :: node_load

record node_record =
  nd_node_id :: string
  nd_name :: string
  nd_version :: string
  nd_status :: string
  nd_last_seen_at_ms :: "u64 option"
  nd_capability_revision :: u64
  nd_load :: node_load
  nd_ws_url :: "string option"

record agent_capability =
  ac_agent_id :: string
  ac_name :: string
  ac_description :: "string option"
  ac_status :: "string option"

record tool_capability =
  tl_name :: string
  tl_description :: "string option"
  tl_sensitivity :: "string option"
  tl_requires_approval :: bool

record mcp_server_capability =
  ms_name :: string
  ms_status :: "string option"

record skill_capability =
  sk_name :: string
  sk_description :: "string option"

record capability_snapshot =
  cs_node_id :: string
  cs_revision :: u64
  cs_generated_at_ms :: "u64 option"
  cs_agents :: "agent_capability list"
  cs_tools :: "tool_capability list"
  cs_mcp_servers :: "mcp_server_capability list"
  cs_skills :: "skill_capability list"

record capability_delta =
  cd_node_id :: string
  cd_base_revision :: u64
  cd_revision :: u64

record data_plane_event =
  de_node_id :: string
  de_event_type :: string
  de_data :: json

record command_result =
  cr_command_id :: string
  cr_status :: string
  cr_result :: json
  cr_error :: "string option"

record run_status_result =
  rr_run_id :: string
  rr_status :: string
  rr_node_id :: "string option"

section \<open>Payloads and messages\<close>

type_synonym wire_input = json

record provider_info =
  pi_name :: string
  pi_model :: string

datatype agent_payload =
    ApSubmit wire_input "string option"
  | ApSubmitAck string bool
  | ApSubmitResult string bool provider_info "string list" "string list" "string list"
  | ApCancel string
  | ApListResult "json list"
  | ApStatus string
  | ApStatusResult string "string option"
  | ApOther json

datatype server_type = ControlPlane | DataPlane

record connected_info =
  ci_server_type :: server_type
  ci_version :: string
  ci_capabilities :: "string list"

datatype system_payload = SpEmpty | SpConnected connected_info

datatype task_payload =
    TpList "string option" "string option"
  | TpListResult "json list"
  | TpGet u64
  | TpGetResult json

datatype control_payload =
    CpRegister node_registration
  | CpRegisterAck register_ack
  | CpHeartbeat node_heartbeat
  | CpHeartbeatAck string
  | CpCapabilitySnapshot capability_snapshot
  | CpCapabilitySnapshotAck string u64
  | CpCapabilityDelta capability_delta
  | CpEvent data_plane_event
  | CpCommandResult command_result
  | CpNodeList
  | CpNodeListResult "node_record list"
  | CpNodeGet string
  | CpNodeGetResult "node_record option"
  | CpCapabilityList "string option"
  | CpCapabilityListResult "capability_snapshot list"
  | CpRunStatus string
  | CpRunStatusResult run_status_result
  | CpOther json

record error_payload =
  ep_code :: string
  ep_message :: string
  ep_detail :: "json option"
  ep_terminal :: bool

datatype payload =
    PlAgent agent_payload
  | PlSystem system_payload
  | PlTask task_payload
  | PlControl control_payload
  | PlError error_payload
  | PlOther json

datatype message_kind = KCommand | KAck | KEvent | KResult | KError

record message_meta =
  mm_trace_id :: "string option"
  mm_timestamp_ms :: "u64 option"
  mm_stream_seq :: "u64 option"
  mm_gateway :: "string option"

definition no_meta :: message_meta where
  "no_meta = \<lparr> mm_trace_id = None, mm_timestamp_ms = None, mm_stream_seq = None, mm_gateway = None \<rparr>"

record message =
  m_protocol :: string
  m_message_id :: string
  m_sender :: string
  m_receiver :: string
  m_kind :: message_kind
  m_operation :: operation
  m_payload :: payload
  m_meta :: message_meta

definition new_message :: "string \<Rightarrow> message_kind \<Rightarrow> operation \<Rightarrow> payload \<Rightarrow> message" where
  "new_message i k op p = \<lparr> m_protocol = ''agent-server/1'', m_message_id = i, m_sender = ''client'',
     m_receiver = ''server'', m_kind = k, m_operation = op, m_payload = p, m_meta = no_meta \<rparr>"

definition new_command :: "string \<Rightarrow> operation \<Rightarrow> payload \<Rightarrow> message" where
  "new_command i op p = new_message i KCommand op p"

definition new_ack :: "string \<Rightarrow> operation \<Rightarrow> payload \<Rightarrow> message" where
  "new_ack i op p = new_message i KAck op p"

definition new_result :: "string \<Rightarrow> operation \<Rightarrow> payload \<Rightarrow> message" where
  "new_result i op p = new_message i KResult op p"

definition new_event :: "string \<Rightarrow> operation \<Rightarrow> payload \<Rightarrow> message" where
  "new_event i op p = new_message i KEvent op p"

definition new_error :: "string \<Rightarrow> operation \<Rightarrow> error_payload \<Rightarrow> message" where
  "new_error i op p = new_message i KError op (PlError p)"

section \<open>The codec\<close>

lemma table_names: "list_all (\<lambda>(m, op). m = method_name op) method_table"
  by (simp add: method_table_def)

lemma table_distinct: "distinct (map fst method_table)"
  by (simp add: method_table_def)

lemma table_complete: "op \<in> set (map snd method_table)"
proof (cases op)
  case (OpAgent x)
  then show ?thesis by (cases x) (simp_all add: method_table_def)
next
  case (OpFile x)
  then show ?thesis by (cases x) (simp_all add: method_table_def)
next
  case (OpSession x)
  then show ?thesis by (cases x) (simp_all add: method_table_def)
next
  case (OpMcp x)
  then show ?thesis by (cases x) (simp_all add: method_table_def)
next
  case (OpSkill x)
  then show ?thesis by (cases x) (simp_all add: method_table_def)
next
  case (OpTool x)
  then show ?thesis by (cases x) (simp_all add: method_table_def)
next
  case (OpLog x)
  then show ?thesis by (cases x) (simp_all add: method_table_def)
next
  case (OpSystem x)
  then show ?thesis by (cases x) (simp_all add: method_table_def)
next
  case (OpTask x)
  then show ?thesis by (cases x) (simp_all add: method_table_def)
next
  case (OpControl x)
  then show ?thesis by (cases x) (simp_all add: method_table_def)
next
  case (OpSandbox x)
  then show ?thesis by (cases x) (simp_all add: method_table_def)
qed

lemma decode_name: "method_to_operation (method_name op) = Inr op"
proof -
  obtain m where m: "(m, op) \<in> set method_table"
    using table_complete [of op] by auto
  with table_names have "m = method_name op" by (auto simp: list_all_iff)
  with m table_distinct show ?thesis by (simp add: method_to_operation_def)
qed

lemma decode_Inr: "method_to_operation m = Inr op \<Longrightarrow> m = method_name op"
  using table_names
  by (auto simp: method_to_operation_def list_all_iff dest!: map_of_SomeD split: option.splits)

text \<open>
  The method name of every operation is decoded to that operation, so distinct operations have
  distinct names on the wire, and every text that is not such a name is reported as an unknown method.
\<close>

theorem method_name_roundtrip:
  "(method_to_operation m = Inr op \<longleftrightarrow> m = method_name op) \<and>
   (method_to_operation m = Inl (UnknownMethod m) \<longleftrightarrow> m \<notin> range method_name)"
proof
  show "method_to_operation m = Inr op \<longleftrightarrow> m = method_name op"
    using decode_name decode_Inr by blast
  have "method_to_operation m = Inl (UnknownMethod m) \<or> (\<exists>op. method_to_operation m = Inr op)"
    by (simp add: method_to_operation_def split: option.splits)
  then show "method_to_operation m = Inl (UnknownMethod m) \<longleftrightarrow> m \<notin> range method_name"
    using decode_name decode_Inr by fastforce
qed

lemma method_name_inj: "method_name a = method_name b \<longleftrightarrow> a = b"
  using decode_name by (metis sum.inject(2))

end
