(* ===== verification/HandlerRegistry.thy ===== *)
theory HandlerRegistry
  imports Protocol
begin

text \<open>
  The registry that dispatches messages to domain handlers,
  \<open>crates/vol-llm-agent-protocol/src/domain/registry.rs\<close> and \<open>handler.rs\<close>.  A handler is its name,
  the operations it lists and its effect on the state \<open>'s\<close> the handlers share.  Indexing a list out
  of its bounds panics, which is the value \<open>Panicked\<close>.
\<close>

section \<open>Handlers and the registry\<close>

datatype 'a outcome = Panicked | Returned 'a

record 's handler =
  hd_name :: string
  hd_operations :: "operation list"
  hd_handle :: "message \<Rightarrow> ('s, protocol_error, message list) eff"

record 's registry =
  hr_handlers :: "'s handler list"
  hr_index :: "string \<rightharpoonup> nat"

definition registry_new :: "'s registry" where
  "registry_new = \<lparr> hr_handlers = [], hr_index = Map.empty \<rparr>"

definition squoted :: "string \<Rightarrow> string" where
  "squoted s = CHR 0x27 # s @ [CHR 0x27]"

text \<open>The lookup that opens both registration functions: the error names the handler that claims the method.\<close>

definition claimed_by :: "'s registry \<Rightarrow> string \<Rightarrow> nat \<Rightarrow> string outcome" where
  "claimed_by r m idx =
     (if idx < length (hr_handlers r)
      then Returned (''method '' @ squoted m @ '' already claimed by handler '' @
             squoted (hd_name (hr_handlers r ! idx)))
      else Panicked)"

fun check_methods :: "'s registry \<Rightarrow> string list \<Rightarrow> (string + unit) outcome" where
  "check_methods r [] = Returned (Inr ())"
| "check_methods r (m # ms) =
     (case hr_index r m of
        Some idx \<Rightarrow> (case claimed_by r m idx of Panicked \<Rightarrow> Panicked | Returned e \<Rightarrow> Returned (Inl e))
      | None \<Rightarrow> check_methods r ms)"

definition push_handler :: "'s handler \<Rightarrow> 's registry \<Rightarrow> 's registry" where
  "push_handler h r = r\<lparr>hr_handlers := hr_handlers r @ [h]\<rparr>"

definition index_methods :: "nat \<Rightarrow> string list \<Rightarrow> 's registry \<Rightarrow> 's registry" where
  "index_methods idx ms r = foldl (\<lambda>r m. r\<lparr>hr_index := (hr_index r)(m \<mapsto> idx)\<rparr>) r ms"

definition handler_methods :: "'s handler \<Rightarrow> string list" where
  "handler_methods h = map method_name (hd_operations h)"

definition register :: "'s handler \<Rightarrow> 's registry \<Rightarrow> ((string + unit) \<times> 's registry) outcome" where
  "register h r =
     (case check_methods r (handler_methods h) of
        Panicked \<Rightarrow> Panicked
      | Returned (Inl e) \<Rightarrow> Returned (Inl e, r)
      | Returned (Inr u) \<Rightarrow>
          Returned (Inr (), push_handler h (index_methods (length (hr_handlers r)) (handler_methods h) r)))"

fun claim_methods :: "nat \<Rightarrow> string list \<Rightarrow> 's registry \<Rightarrow> ((string + unit) \<times> 's registry) outcome" where
  "claim_methods idx [] r = Returned (Inr (), r)"
| "claim_methods idx (m # ms) r =
     (case hr_index r m of
        Some j \<Rightarrow> (case claimed_by r m j of Panicked \<Rightarrow> Panicked | Returned e \<Rightarrow> Returned (Inl e, r))
      | None \<Rightarrow> claim_methods idx ms (r\<lparr>hr_index := (hr_index r)(m \<mapsto> idx)\<rparr>))"

definition register_custom ::
  "'s handler \<Rightarrow> string list \<Rightarrow> 's registry \<Rightarrow> ((string + unit) \<times> 's registry) outcome" where
  "register_custom h methods r =
     (case claim_methods (length (hr_handlers r)) methods r of
        Panicked \<Rightarrow> Panicked
      | Returned (Inl e, r') \<Rightarrow> Returned (Inl e, r')
      | Returned (Inr u, r') \<Rightarrow> Returned (Inr (), push_handler h r'))"

definition dispatch ::
  "'s registry \<Rightarrow> message \<Rightarrow> 's \<Rightarrow> ((protocol_error + message list) \<times> 's) outcome" where
  "dispatch r msg s =
     (let m = method_name (m_operation msg)
      in case hr_index r m of
           Some idx \<Rightarrow>
             if idx < length (hr_handlers r) then Returned (hd_handle (hr_handlers r ! idx) msg s)
             else Panicked
         | None \<Rightarrow> Returned (Inl (UnknownMethod m), s))"

section \<open>The registry invariant\<close>

definition registry_inv :: "'s registry \<Rightarrow> bool" where
  "registry_inv r \<longleftrightarrow>
     (\<forall>m idx. hr_index r m = Some idx \<longleftrightarrow>
        idx < length (hr_handlers r) \<and> m \<in> set (handler_methods (hr_handlers r ! idx)))"

lemma registry_inv_new: "registry_inv registry_new"
  by (simp add: registry_inv_def registry_new_def)

lemma index_methods_index:
  "hr_index (index_methods idx ms r) m = (if m \<in> set ms then Some idx else hr_index r m)"
  "hr_handlers (index_methods idx ms r) = hr_handlers r"
  by (induction ms arbitrary: r) (simp_all add: index_methods_def)

lemma check_methods_ok: "check_methods r ms = Returned (Inr u) \<Longrightarrow> m \<in> set ms \<Longrightarrow> hr_index r m = None"
  by (induction ms) (auto split: option.splits outcome.splits)

lemma check_methods_no_panic:
  assumes "registry_inv r"
  shows "check_methods r ms \<noteq> Panicked"
  using assms by (induction ms) (auto simp: registry_inv_def claimed_by_def split: option.splits)

lemma register_inv:
  assumes "registry_inv r" "register h r = Returned (q, r')"
  shows "registry_inv r' \<and> (\<forall>e. q = Inl e \<longrightarrow> r' = r) \<and>
     (q = Inr () \<longrightarrow> hr_handlers r' = hr_handlers r @ [h])"
proof (cases "check_methods r (handler_methods h)")
  case Panicked
  with assms show ?thesis by (simp add: register_def)
next
  case (Returned c)
  show ?thesis
  proof (cases c)
    case (Inl e)
    with assms Returned show ?thesis by (auto simp: register_def)
  next
    case (Inr u)
    then have free: "m \<in> set (handler_methods h) \<Longrightarrow> hr_index r m = None" for m
      using check_methods_ok Returned by blast
    from assms(2) Returned Inr have q: "q = Inr ()"
      and r': "r' = push_handler h (index_methods (length (hr_handlers r)) (handler_methods h) r)"
      by (auto simp: register_def)
    have "registry_inv r'"
      using assms(1) free unfolding r' registry_inv_def
      by (auto simp: push_handler_def index_methods_index nth_append less_Suc_eq) (metis option.distinct(1))
    with q r' show ?thesis by (simp add: push_handler_def index_methods_index)
  qed
qed

lemma register_no_panic: "registry_inv r \<Longrightarrow> register h r \<noteq> Panicked"
  using check_methods_no_panic [of r "handler_methods h"]
  by (auto simp: register_def split: outcome.splits sum.splits)

lemma dispatch_claimed:
  assumes "registry_inv r" "h \<in> set (hr_handlers r)" "m_operation msg \<in> set (hd_operations h)"
  shows "dispatch r msg s = Returned (hd_handle h msg s)"
proof -
  from assms(2) obtain idx where i: "idx < length (hr_handlers r)" "hr_handlers r ! idx = h"
    by (auto simp: in_set_conv_nth)
  then have "hr_index r (method_name (m_operation msg)) = Some idx"
    using assms(1,3) by (auto simp: registry_inv_def handler_methods_def)
  with i show ?thesis by (simp add: dispatch_def)
qed

lemma dispatch_unclaimed:
  assumes "registry_inv r" "\<forall>h \<in> set (hr_handlers r). m_operation msg \<notin> set (hd_operations h)"
  shows "dispatch r msg s = Returned (Inl (UnknownMethod (method_name (m_operation msg))), s)"
proof -
  have "hr_index r (method_name (m_operation msg)) = None"
  proof (rule ccontr)
    assume "hr_index r (method_name (m_operation msg)) \<noteq> None"
    then obtain idx where "idx < length (hr_handlers r)"
      "method_name (m_operation msg) \<in> set (handler_methods (hr_handlers r ! idx))"
      using assms(1) by (auto simp: registry_inv_def)
    with assms(2) show False by (auto simp: handler_methods_def method_name_inj)
  qed
  then show ?thesis by (simp add: dispatch_def Let_def)
qed

text \<open>Registering handlers one after another, stopping at the first error.\<close>

fun register_all :: "'s handler list \<Rightarrow> 's registry \<Rightarrow> ((string + unit) \<times> 's registry) outcome" where
  "register_all [] r = Returned (Inr (), r)"
| "register_all (h # hs) r =
     (case register h r of
        Panicked \<Rightarrow> Panicked
      | Returned (Inl e, r') \<Rightarrow> Returned (Inl e, r')
      | Returned (Inr u, r') \<Rightarrow> register_all hs r')"

lemma register_all_inv:
  assumes "registry_inv r" "register_all hs r = Returned (Inr u, r')"
  shows "registry_inv r' \<and> hr_handlers r' = hr_handlers r @ hs"
  using assms
proof (induction hs arbitrary: r)
  case Nil
  then show ?case by simp
next
  case (Cons h hs)
  then obtain v r1 where "register h r = Returned (Inr v, r1)" "register_all hs r1 = Returned (Inr u, r')"
    by (auto split: outcome.splits sum.splits prod.splits)
  with Cons.IH [of r1] Cons.prems(1) register_inv [of r h "Inr v" r1] show ?case by simp
qed

lemma check_methods_free:
  assumes "\<forall>m \<in> set ms. hr_index r m = None"
  shows "check_methods r ms = Returned (Inr ())"
  using assms by (induction ms) auto

lemma register_fresh:
  assumes "registry_inv r" "\<forall>g \<in> set (hr_handlers r). set (hd_operations g) \<inter> set (hd_operations h) = {}"
  shows "\<exists>r'. register h r = Returned (Inr (), r')"
proof -
  have "hr_index r m = None" if "m \<in> set (handler_methods h)" for m
  proof (rule ccontr)
    assume "hr_index r m \<noteq> None"
    then obtain idx where "idx < length (hr_handlers r)" "m \<in> set (handler_methods (hr_handlers r ! idx))"
      using assms(1) by (auto simp: registry_inv_def)
    with that assms(2) show False by (fastforce simp: handler_methods_def method_name_inj)
  qed
  then show ?thesis by (simp add: register_def check_methods_free)
qed

text \<open>Handlers that list pairwise different operations are all accepted.\<close>

lemma register_all_fresh:
  assumes "registry_inv r" "distinct (concat (map hd_operations (hr_handlers r @ hs)))"
  shows "\<exists>r'. register_all hs r = Returned (Inr (), r')"
  using assms
proof (induction hs arbitrary: r)
  case Nil
  then show ?case by simp
next
  case (Cons h hs)
  from Cons.prems(2) have "\<forall>g \<in> set (hr_handlers r). set (hd_operations g) \<inter> set (hd_operations h) = {}"
    by auto
  with Cons.prems(1) obtain r1 where r1: "register h r = Returned (Inr (), r1)"
    using register_fresh by blast
  with register_inv [OF Cons.prems(1) r1] Cons.prems(2) Cons.IH [of r1] show ?case by simp
qed

text \<open>The reference for dispatching: the first handler that lists the operation answers.\<close>

definition route_first :: "'s handler list \<Rightarrow> message \<Rightarrow> ('s, protocol_error, message list) eff" where
  "route_first hs msg =
     (case find (\<lambda>h. m_operation msg \<in> set (hd_operations h)) hs of
        Some h \<Rightarrow> hd_handle h msg
      | None \<Rightarrow> fail (UnknownMethod (method_name (m_operation msg))))"

lemma dispatch_route_first:
  assumes "register_all hs registry_new = Returned (Inr u, r)"
  shows "dispatch r msg s = Returned (route_first hs msg s)"
proof -
  from register_all_inv [OF registry_inv_new assms]
  have inv: "registry_inv r" and hs: "hr_handlers r = hs" by (simp_all add: registry_new_def)
  show ?thesis
  proof (cases "find (\<lambda>h. m_operation msg \<in> set (hd_operations h)) hs")
    case None
    then have "\<forall>h \<in> set (hr_handlers r). m_operation msg \<notin> set (hd_operations h)"
      by (simp add: find_None_iff hs)
    from dispatch_unclaimed [OF inv this] None show ?thesis by (simp add: route_first_def)
  next
    case (Some h)
    then have "h \<in> set (hr_handlers r)" "m_operation msg \<in> set (hd_operations h)"
      using hs by (auto simp: find_Some_iff)
    with dispatch_claimed [OF inv] Some show ?thesis by (simp add: route_first_def)
  qed
qed

section \<open>Properties\<close>

text \<open>
  A registry built with \<open>register\<close> never panics and routes every message to the one handler that
  lists its operation; when no handler does, the answer is the unknown method error and nothing
  happens.  A registration that is refused leaves the registry as it was.
\<close>

theorem dispatch_spec:
  assumes "register_all hs registry_new = Returned (Inr u, r)"
  shows "(\<forall>h \<in> set hs. m_operation msg \<in> set (hd_operations h) \<longrightarrow>
            dispatch r msg s = Returned (hd_handle h msg s)) \<and>
     ((\<forall>h \<in> set hs. m_operation msg \<notin> set (hd_operations h)) \<longrightarrow>
        dispatch r msg s = Returned (Inl (UnknownMethod (method_name (m_operation msg))), s)) \<and>
     (\<forall>h. register h r \<noteq> Panicked \<and> (\<forall>e r'. register h r = Returned (Inl e, r') \<longrightarrow> r' = r))"
proof -
  from register_all_inv [OF registry_inv_new assms]
  have inv: "registry_inv r" and hs: "hr_handlers r = hs" by (simp_all add: registry_new_def)
  show ?thesis
    using dispatch_claimed [OF inv] dispatch_unclaimed [OF inv] register_no_panic [OF inv]
      register_inv [OF inv] hs by auto
qed

text \<open>
  A failing \<open>register_custom\<close> is not undone.  When the first method is free and the second is
  claimed, the error is returned but the first method stays in the index, pointing past the handlers:
  a message for it panics, and after the next successful registration goes to a handler that never
  claimed it.  A list that names one free method twice panics at once.
\<close>

theorem register_custom_dangling:
  assumes "registry_inv r" "hr_index r a = None" "hr_index r b \<noteq> None"
    and "method_name (m_operation msg) = a"
  shows "\<exists>e r'. register_custom h [a, b] r = Returned (Inl e, r') \<and>
     dispatch r' msg s = Panicked \<and>
     (\<forall>g r''. register g r' = Returned (Inr (), r'') \<longrightarrow> dispatch r'' msg s = Returned (hd_handle g msg s)) \<and>
     register_custom h [a, a] r = Panicked"
proof -
  obtain j where j: "hr_index r b = Some j" using assms(3) by auto
  with assms(1) have lt: "j < length (hr_handlers r)" by (simp add: registry_inv_def)
  have ab: "b \<noteq> a" using assms(2,3) by auto
  let ?r = "r\<lparr>hr_index := (hr_index r)(a \<mapsto> length (hr_handlers r))\<rparr>"
  have "\<exists>e. register_custom h [a, b] r = Returned (Inl e, ?r)"
    using assms(2) j lt ab by (simp add: register_custom_def claimed_by_def)
  moreover have "dispatch ?r msg s = Panicked"
    using assms(4) by (simp add: dispatch_def)
  moreover have "dispatch r'' msg s = Returned (hd_handle g msg s)"
    if reg: "register g ?r = Returned (Inr (), r'')" for g r''
  proof -
    from reg have r'': "r'' = push_handler g (index_methods (length (hr_handlers r)) (handler_methods g) ?r)"
      by (auto simp: register_def split: outcome.splits sum.splits)
    show ?thesis
      using assms(4) by (simp add: dispatch_def r'' push_handler_def index_methods_index)
  qed
  moreover have "register_custom h [a, a] r = Panicked"
    using assms(2) by (simp add: register_custom_def claimed_by_def)
  ultimately show ?thesis by blast
qed

definition demo_handler :: "string \<Rightarrow> operation list \<Rightarrow> nat handler" where
  "demo_handler n ops = \<lparr> hd_name = n, hd_operations = ops, hd_handle = (\<lambda>msg s. (Inr [msg], Suc s)) \<rparr>"

definition demo_message :: "operation \<Rightarrow> message" where
  "demo_message op = new_command ''1'' op (PlSystem SpEmpty)"

definition demo_registry :: "nat registry" where
  "demo_registry = \<lparr> hr_handlers = [demo_handler ''task'' [OpTask TaListOp]],
                     hr_index = [''task.list'' \<mapsto> 0] \<rparr>"

lemma demo_register:
  "register_all [demo_handler ''task'' [OpTask TaListOp]] registry_new = Returned (Inr (), demo_registry)"
  by (simp add: register_def registry_new_def demo_handler_def handler_methods_def push_handler_def
      index_methods_def demo_registry_def)

theorem dispatch_spec_witness:
  "dispatch demo_registry (demo_message (OpTask TaListOp)) 3 = Returned (Inr [demo_message (OpTask TaListOp)], 4) \<and>
   dispatch demo_registry (demo_message (OpTask TaGetOp)) 3 = Returned (Inl (UnknownMethod ''task.get''), 3)"
  using dispatch_spec [OF demo_register, of "demo_message (OpTask TaListOp)" 3]
    dispatch_spec [OF demo_register, of "demo_message (OpTask TaGetOp)" 3]
  by (simp add: demo_handler_def demo_message_def new_command_def new_message_def)

theorem register_custom_dangling_witness:
  "\<exists>e r'. register_custom (demo_handler ''x'' []) [''file.list'', ''task.list''] demo_registry = Returned (Inl e, r') \<and>
     dispatch r' (demo_message (OpFile FiListOp)) 0 = Panicked"
proof -
  have inv: "registry_inv demo_registry"
    using register_all_inv [OF registry_inv_new demo_register] by simp
  have "method_name (m_operation (demo_message (OpFile FiListOp))) = ''file.list''"
    by (simp add: demo_message_def new_command_def new_message_def)
  with register_custom_dangling [OF inv, of "''file.list''" "''task.list''" "demo_message (OpFile FiListOp)"
      "demo_handler ''x'' []" 0]
  show ?thesis by (auto simp: demo_registry_def)
qed

end
