(* ===== verification/ControlPlane.thy ===== *)
theory ControlPlane
  imports HandlerRegistry "HOL-Library.List_Lexorder" "HOL-Library.Char_ord"
begin

text \<open>
  The control plane of the agent server, \<open>crates/vol-agent-server/src/control_plane/\<close>: the node
  registry, the capability index, the router, the stores of commands and runs, the connection tables,
  the handlers of every operation, and the loop that serves a connection in its role.  Connections
  are numbers; what is sent on them is recorded in order.  The clock, fresh run ids, the order in which
  a map is iterated and whether a send succeeds are parameters.
\<close>

section \<open>State\<close>

record node_auth =
  na_identity :: string
  na_generation :: u64

record command_record =
  cmd_command_id :: string
  cmd_node_id :: string
  cmd_operation_kind :: string
  cmd_status :: string
  cmd_run_id :: "string option"

record run_record =
  run_run_id :: string
  run_command_id :: "string option"
  run_node_id :: string
  run_agent_id :: string
  run_status :: string

record control_event =
  ev_event_type :: string
  ev_node_id :: "string option"

type_synonym conn = nat

record cp_state =
  cp_nodes :: "string \<rightharpoonup> node_record"
  cp_auth :: "string \<rightharpoonup> node_auth"
  cp_caps :: "string \<rightharpoonup> capability_snapshot"
  cp_events :: "control_event list"
  cp_commands :: "string \<rightharpoonup> command_record"
  cp_runs :: "string \<rightharpoonup> run_record"
  cp_conns :: "string \<rightharpoonup> conn"
  cp_pending :: "string \<rightharpoonup> conn"
  cp_ingress :: "string \<rightharpoonup> string"
  cp_sent :: "(conn \<times> message) list"

record cp_env =
  cpe_now :: u64
  cpe_uuid :: string
  cpe_caps_order :: "(string \<rightharpoonup> capability_snapshot) \<Rightarrow> string list"
  cpe_nodes_order :: "(string \<rightharpoonup> node_record) \<Rightarrow> string list"
  cpe_send_ok :: "conn \<Rightarrow> message \<Rightarrow> bool"
  cpe_version :: string

definition cp_new_with_ingress :: "(string \<rightharpoonup> string) \<Rightarrow> cp_state" where
  "cp_new_with_ingress ingress = \<lparr> cp_nodes = Map.empty, cp_auth = Map.empty, cp_caps = Map.empty,
     cp_events = [], cp_commands = Map.empty, cp_runs = Map.empty, cp_conns = Map.empty,
     cp_pending = Map.empty, cp_ingress = ingress, cp_sent = [] \<rparr>"

definition cp_new :: cp_state where
  "cp_new = cp_new_with_ingress Map.empty"

section \<open>Node registry\<close>

definition register_node ::
  "node_registration \<Rightarrow> string \<Rightarrow> u64 \<Rightarrow> (cp_state, string, register_ack) eff" where
  "register_node reg identity now st =
     (let n = nr_node_id reg;
          accept = (\<lambda>generation.
            (Inr \<lparr> ra_node_id = n, ra_accepted = True, ra_generation = generation \<rparr>,
             st\<lparr>cp_auth := (cp_auth st)(n \<mapsto> \<lparr> na_identity = identity, na_generation = generation \<rparr>),
                cp_nodes := (cp_nodes st)(n \<mapsto>
                  \<lparr> nd_node_id = n, nd_name = nr_name reg, nd_version = nr_version reg,
                    nd_status = ''online'', nd_last_seen_at_ms = Some now, nd_capability_revision = 0,
                    nd_load = no_load, nd_ws_url = None \<rparr>)\<rparr>))
      in case cp_auth st n of
           Some existing \<Rightarrow>
             if na_identity existing \<noteq> identity
             then (Inl ''node_id already registered with different auth identity'', st)
             else accept (na_generation existing + 1)
         | None \<Rightarrow> accept 1)"

definition record_heartbeat :: "string \<Rightarrow> node_load \<Rightarrow> u64 \<Rightarrow> (cp_state, string, unit) eff" where
  "record_heartbeat n load now st =
     (case cp_nodes st n of
        None \<Rightarrow> (Inl ''node_not_registered'', st)
      | Some nd \<Rightarrow>
          (Inr (), st\<lparr>cp_nodes := (cp_nodes st)(n \<mapsto>
             nd\<lparr>nd_status := ''online'', nd_last_seen_at_ms := Some now, nd_load := load\<rparr>)\<rparr>))"

definition update_capability_revision :: "string \<Rightarrow> u64 \<Rightarrow> (cp_state, string, unit) eff" where
  "update_capability_revision n revision st =
     (case cp_nodes st n of
        None \<Rightarrow> (Inl ''node_not_registered'', st)
      | Some nd \<Rightarrow> (Inr (), st\<lparr>cp_nodes := (cp_nodes st)(n \<mapsto> nd\<lparr>nd_capability_revision := revision\<rparr>)\<rparr>))"

definition list_nodes :: "cp_env \<Rightarrow> cp_state \<Rightarrow> node_record list" where
  "list_nodes E st = map_values (cpe_nodes_order E (cp_nodes st)) (cp_nodes st)"

section \<open>Capability index\<close>

definition apply_snapshot :: "capability_snapshot \<Rightarrow> (cp_state, string, unit) eff" where
  "apply_snapshot snap st =
     (let accept = (Inr (), st\<lparr>cp_caps := (cp_caps st)(cs_node_id snap \<mapsto> snap)\<rparr>)
      in case cp_caps st (cs_node_id snap) of
           Some existing \<Rightarrow>
             if cs_revision snap \<le> cs_revision existing then (Inl ''stale_capability_snapshot'', st)
             else accept
         | None \<Rightarrow> accept)"

definition remove_node :: "string \<Rightarrow> cp_state \<Rightarrow> cp_state" where
  "remove_node n st = st\<lparr>cp_caps := (cp_caps st)(n := None)\<rparr>"

definition list_snapshots :: "cp_env \<Rightarrow> string option \<Rightarrow> cp_state \<Rightarrow> capability_snapshot list" where
  "list_snapshots E n st =
     (case n of
        Some i \<Rightarrow> (case cp_caps st i of None \<Rightarrow> [] | Some snap \<Rightarrow> [snap])
      | None \<Rightarrow> map_values (cpe_caps_order E (cp_caps st)) (cp_caps st))"

section \<open>Router\<close>

definition is_online :: "cp_state \<Rightarrow> string \<Rightarrow> bool" where
  "is_online st n = (case cp_nodes st n of None \<Rightarrow> False | Some nd \<Rightarrow> nd_status nd = ''online'')"

definition offers :: "string option \<Rightarrow> capability_snapshot \<Rightarrow> bool" where
  "offers target snap =
     (case target of
        Some t \<Rightarrow> list_ex (\<lambda>a. ac_agent_id a = t \<or> ac_name a = t) (cs_agents snap)
      | None \<Rightarrow> cs_agents snap \<noteq> [])"

fun route_among :: "cp_state \<Rightarrow> string option \<Rightarrow> capability_snapshot list \<Rightarrow> string + string" where
  "route_among st target [] = Inl ''capability_not_found''"
| "route_among st target (snap # rest) =
     (if \<not> is_online st (cs_node_id snap) then route_among st target rest
      else if offers target snap then Inr (cs_node_id snap)
      else route_among st target rest)"

definition route_agent :: "cp_env \<Rightarrow> string option \<Rightarrow> cp_state \<Rightarrow> string + string" where
  "route_agent E target st = route_among st target (list_snapshots E None st)"

section \<open>Command and run stores, connection tables\<close>

definition insert_command :: "command_record \<Rightarrow> cp_state \<Rightarrow> cp_state" where
  "insert_command r st = st\<lparr>cp_commands := (cp_commands st)(cmd_command_id r \<mapsto> r)\<rparr>"

definition insert_run :: "run_record \<Rightarrow> cp_state \<Rightarrow> cp_state" where
  "insert_run r st = st\<lparr>cp_runs := (cp_runs st)(run_run_id r \<mapsto> r)\<rparr>"

definition rekey_node_connection :: "string \<Rightarrow> string \<Rightarrow> cp_state \<Rightarrow> cp_state" where
  "rekey_node_connection old n st =
     (case cp_conns st old of
        None \<Rightarrow> st
      | Some c \<Rightarrow> st\<lparr>cp_conns := ((cp_conns st)(old := None))(n \<mapsto> c)\<rparr>)"

definition register_pending_submit :: "string \<Rightarrow> conn \<Rightarrow> cp_state \<Rightarrow> cp_state" where
  "register_pending_submit run c st = st\<lparr>cp_pending := (cp_pending st)(run \<mapsto> c)\<rparr>"

definition take_pending_submit :: "string \<Rightarrow> cp_state \<Rightarrow> conn option \<times> cp_state" where
  "take_pending_submit run st = (cp_pending st run, st)"

definition remove_pending_submit :: "string \<Rightarrow> cp_state \<Rightarrow> cp_state" where
  "remove_pending_submit run st = st\<lparr>cp_pending := (cp_pending st)(run := None)\<rparr>"

definition publish_event :: "control_event \<Rightarrow> cp_state \<Rightarrow> cp_state" where
  "publish_event ev st = st\<lparr>cp_events := cp_events st @ [ev]\<rparr>"

text \<open>Giving a message to a connection; the result says whether the connection took it.\<close>

definition send :: "cp_env \<Rightarrow> conn \<Rightarrow> message \<Rightarrow> cp_state \<Rightarrow> bool \<times> cp_state" where
  "send E c m st =
     (if cpe_send_ok E c m then (True, st\<lparr>cp_sent := cp_sent st @ [(c, m)]\<rparr>) else (False, st))"

section \<open>Handlers\<close>

type_synonym cp_eff = "(cp_state, protocol_error, message list) eff"

definition as_reply :: "message \<Rightarrow> message \<Rightarrow> message" where
  "as_reply msg m = m\<lparr>m_sender := ''control'', m_receiver := m_sender msg\<rparr>"

definition make_result :: "message \<Rightarrow> control_operation \<Rightarrow> control_payload \<Rightarrow> message" where
  "make_result msg op p = as_reply msg (new_result (m_message_id msg) (OpControl op) (PlControl p))"

definition decode_failed :: "('s, string, 'a) eff \<Rightarrow> ('s, protocol_error, 'a) eff" where
  "decode_failed = mapErr PayloadDecodeFailedOwned"

definition handle_register :: "cp_env \<Rightarrow> message \<Rightarrow> node_registration \<Rightarrow> cp_eff" where
  "handle_register E msg reg st =
     bindE (decode_failed (register_node reg (m_sender msg) (cpe_now E)))
       (\<lambda>ack. ret [make_result msg CoRegisterOp (CpRegisterAck ack)])
       (remove_node (nr_node_id reg) st)"

definition handle_heartbeat :: "cp_env \<Rightarrow> message \<Rightarrow> node_heartbeat \<Rightarrow> cp_eff" where
  "handle_heartbeat E msg hb =
     bindE (decode_failed (record_heartbeat (hb_node_id hb) (hb_load hb) (cpe_now E)))
       (\<lambda>_. ret [make_result msg CoHeartbeatOp (CpHeartbeatAck (hb_node_id hb))])"

definition handle_snapshot :: "message \<Rightarrow> capability_snapshot \<Rightarrow> cp_eff" where
  "handle_snapshot msg snap =
     bindE (decode_failed (apply_snapshot snap)) (\<lambda>_.
     bindE (decode_failed (update_capability_revision (cs_node_id snap) (cs_revision snap)))
       (\<lambda>_. ret [make_result msg CoCapabilitySnapshotOp
                   (CpCapabilitySnapshotAck (cs_node_id snap) (cs_revision snap))]))"

definition control_handle :: "cp_env \<Rightarrow> message \<Rightarrow> cp_eff" where
  "control_handle E msg =
     (case (m_operation msg, m_payload msg) of
        (OpControl CoRegisterOp, PlControl (CpRegister reg)) \<Rightarrow> handle_register E msg reg
      | (OpControl CoHeartbeatOp, PlControl (CpHeartbeat hb)) \<Rightarrow> handle_heartbeat E msg hb
      | (OpControl CoCapabilitySnapshotOp, PlControl (CpCapabilitySnapshot snap)) \<Rightarrow> handle_snapshot msg snap
      | (OpControl CoEventOp, PlControl (CpEvent ev)) \<Rightarrow>
          (\<lambda>st. (Inr [], publish_event
             \<lparr> ev_event_type = de_event_type ev, ev_node_id = Some (de_node_id ev) \<rparr> st))
      | (OpControl CoCapabilityDeltaOp, PlControl (CpCapabilityDelta d)) \<Rightarrow> ret []
      | (OpControl CoCommandResultOp, PlControl (CpCommandResult c)) \<Rightarrow> ret []
      | _ \<Rightarrow> fail (PayloadDecodeFailedOwned ''unsupported control operation''))"

definition with_ws_url :: "cp_state \<Rightarrow> node_record \<Rightarrow> node_record" where
  "with_ws_url st nd = nd\<lparr>nd_ws_url := cp_ingress st (nd_node_id nd)\<rparr>"

definition node_handle :: "cp_env \<Rightarrow> message \<Rightarrow> cp_eff" where
  "node_handle E msg =
     (case (m_operation msg, m_payload msg) of
        (OpControl CoNodeListOp, PlControl CpNodeList) \<Rightarrow>
          (\<lambda>st. (Inr [make_result msg CoNodeListOp
                   (CpNodeListResult (map (with_ws_url st) (list_nodes E st)))], st))
      | (OpControl CoNodeGetOp, PlControl (CpNodeGet n)) \<Rightarrow>
          (\<lambda>st. (Inr [make_result msg CoNodeGetOp
                   (CpNodeGetResult (map_option (with_ws_url st) (cp_nodes st n)))], st))
      | _ \<Rightarrow> fail (PayloadDecodeFailedOwned ''unsupported node operation''))"

definition capability_handle :: "cp_env \<Rightarrow> message \<Rightarrow> cp_eff" where
  "capability_handle E msg =
     (case (m_operation msg, m_payload msg) of
        (OpControl CoCapabilityListOp, PlControl (CpCapabilityList n)) \<Rightarrow>
          (\<lambda>st. (Inr [make_result msg CoCapabilityListOp
                   (CpCapabilityListResult (list_snapshots E n st))], st))
      | _ \<Rightarrow> fail (PayloadDecodeFailedOwned ''unsupported capability operation''))"

definition run_handle :: "message \<Rightarrow> cp_eff" where
  "run_handle msg =
     (case m_payload msg of
        PlControl (CpRunStatus i) \<Rightarrow>
          (\<lambda>st. (Inr [make_result msg CoRunStatusOp (CpRunStatusResult
             (case cp_runs st i of
                Some r \<Rightarrow> \<lparr> rr_run_id = run_run_id r, rr_status = run_status r, rr_node_id = Some (run_node_id r) \<rparr>
              | None \<Rightarrow> \<lparr> rr_run_id = i, rr_status = ''not_found'', rr_node_id = None \<rparr>))], st))
      | _ \<Rightarrow> fail (PayloadDecodeFailedOwned ''expected control.run_status payload''))"

definition system_handle :: "cp_env \<Rightarrow> message \<Rightarrow> cp_eff" where
  "system_handle E msg =
     (case m_operation msg of
        OpSystem SyConnectedOp \<Rightarrow>
          ret [new_result (m_message_id msg) (OpSystem SyConnectedOp) (PlSystem (SpConnected
            \<lparr> ci_server_type = ControlPlane, ci_version = cpe_version E,
              ci_capabilities = [''control.node_list'', ''control.node_get'', ''control.capability_list''] \<rparr>))]
      | _ \<Rightarrow> fail (PayloadDecodeFailed ''system''))"

definition agent_entry :: "cp_state \<Rightarrow> string \<Rightarrow> agent_capability \<Rightarrow> json" where
  "agent_entry st n a = JObj
     [(''id'', JStr (ac_agent_id a)), (''name'', JStr (ac_name a)),
      (''description'', opt_str (ac_description a)), (''status'', opt_str (ac_status a)),
      (''node_id'', JStr n), (''ws_url'', opt_str (cp_ingress st n))]"

definition submit_message :: "cp_env \<Rightarrow> string \<Rightarrow> wire_input \<Rightarrow> string option \<Rightarrow> message" where
  "submit_message E n input target =
     \<lparr> m_protocol = ''agent-server-protocol'', m_message_id = filter (\<lambda>c. c \<noteq> CHR ''-'') (cpe_uuid E),
       m_sender = ''control'', m_receiver = n, m_kind = KCommand, m_operation = OpAgent AgSubmitOp,
       m_payload = PlAgent (ApSubmit input target), m_meta = no_meta \<rparr>"

definition submit_reply :: "cp_env \<Rightarrow> message \<Rightarrow> message" where
  "submit_reply E msg = as_reply msg (new_result (m_message_id msg) (OpAgent AgSubmitOp)
     (PlAgent (ApSubmitResult (cpe_uuid E) True \<lparr> pi_name = ''unknown'', pi_model = ''unknown'' \<rparr> [] [] [])))"

definition handle_submit :: "cp_env \<Rightarrow> message \<Rightarrow> wire_input \<Rightarrow> string option \<Rightarrow> cp_eff" where
  "handle_submit E msg input target st =
     (case route_agent E target st of
        Inl e \<Rightarrow> (Inl (PayloadDecodeFailedOwned e), st)
      | Inr n \<Rightarrow>
          (case cp_conns st n of
             None \<Rightarrow> (Inl (PayloadDecodeFailedOwned
                (''node '' @ n @ '' is registered but has no active connection'')), st)
           | Some c \<Rightarrow>
               (Inr [submit_reply E msg],
                snd (send E c (submit_message E n input target) st))))"

definition client_handle :: "cp_env \<Rightarrow> message \<Rightarrow> cp_eff" where
  "client_handle E msg =
     (case m_operation msg of
        OpAgent AgListOp \<Rightarrow>
          (\<lambda>st. (Inr [as_reply msg (new_result (m_message_id msg) (OpAgent AgListOp)
             (PlAgent (ApListResult (concat (map
                (\<lambda>snap. map (agent_entry st (cs_node_id snap)) (cs_agents snap))
                (list_snapshots E None st))))))], st))
      | OpAgent AgStatusOp \<Rightarrow>
          ret [as_reply msg (new_result (m_message_id msg) (OpAgent AgStatusOp)
                 (PlAgent (ApStatusResult ''control_plane'' None)))]
      | OpAgent AgSubmitOp \<Rightarrow>
          (case m_payload msg of
             PlAgent (ApSubmit input target) \<Rightarrow> handle_submit E msg input target
           | _ \<Rightarrow> fail (PayloadDecodeFailed ''agent.submit''))
      | OpTask TaListOp \<Rightarrow>
          ret [as_reply msg (new_result (m_message_id msg) (OpTask TaListOp) (PlTask (TpListResult [])))]
      | OpTask TaGetOp \<Rightarrow>
          fail (PayloadDecodeFailedOwned ''task.get: cross-node routing not yet implemented'')
      | _ \<Rightarrow> fail (PayloadDecodeFailedOwned ''unsupported client operation''))"

section \<open>The server core\<close>

text \<open>The handlers in the order the core registers them; the sandbox handler belongs to the data plane.\<close>

definition core_handlers :: "cp_env \<Rightarrow> (message \<Rightarrow> cp_eff) \<Rightarrow> cp_state handler list" where
  "core_handlers E sandbox_handle =
     [\<lparr> hd_name = ''system'', hd_operations = [OpSystem SyConnectedOp], hd_handle = system_handle E \<rparr>,
      \<lparr> hd_name = ''control'',
        hd_operations = map OpControl [CoRegisterOp, CoHeartbeatOp, CoCapabilitySnapshotOp,
          CoCapabilityDeltaOp, CoEventOp, CoCommandResultOp],
        hd_handle = control_handle E \<rparr>,
      \<lparr> hd_name = ''node'', hd_operations = map OpControl [CoNodeListOp, CoNodeGetOp],
        hd_handle = node_handle E \<rparr>,
      \<lparr> hd_name = ''capability'', hd_operations = [OpControl CoCapabilityListOp],
        hd_handle = capability_handle E \<rparr>,
      \<lparr> hd_name = ''control-client'',
        hd_operations = [OpAgent AgListOp, OpAgent AgStatusOp, OpAgent AgSubmitOp,
          OpTask TaListOp, OpTask TaGetOp],
        hd_handle = client_handle E \<rparr>,
      \<lparr> hd_name = ''run'', hd_operations = [OpControl CoRunStatusOp], hd_handle = run_handle \<rparr>,
      \<lparr> hd_name = ''sandbox'',
        hd_operations = map OpSandbox [SbListOp, SbListSpecsOp, SbExecOp, SbReadFileOp, SbWriteFileOp,
          SbCreateDirOp, SbReadDirOp, SbMetadataOp],
        hd_handle = sandbox_handle \<rparr>]"

datatype role = Client | DataPlaneNode

definition role_operations :: "role \<Rightarrow> operation list" where
  "role_operations r =
     (case r of
        Client \<Rightarrow>
          [OpSystem SyConnectedOp, OpAgent AgListOp, OpAgent AgStatusOp, OpAgent AgSubmitOp,
           OpAgent AgCancelOp, OpTool ToListOp, OpTool ToCallOp, OpMcp McListServersOp,
           OpMcp McListToolsOp, OpMcp McCallToolOp, OpMcp McServerStatusOp, OpSkill SkListOp,
           OpTask TaListOp, OpTask TaGetOp, OpSession SeListOp, OpSession SeEntriesOp,
           OpControl CoNodeListOp, OpControl CoNodeGetOp, OpControl CoCapabilityListOp,
           OpControl CoRunStatusOp]
      | DataPlaneNode \<Rightarrow>
          [OpControl CoRegisterOp, OpControl CoHeartbeatOp, OpControl CoCapabilitySnapshotOp,
           OpControl CoCapabilityDeltaOp, OpControl CoEventOp, OpControl CoCommandResultOp])"

definition allows :: "role \<Rightarrow> operation \<Rightarrow> bool" where
  "allows r op \<longleftrightarrow> op \<in> set (role_operations r)"

definition role_error :: "message \<Rightarrow> message" where
  "role_error msg = new_error (m_message_id msg) (m_operation msg)
     \<lparr> ep_code = ''method_not_allowed_for_role'', ep_message = ''method is not allowed on this endpoint'',
       ep_detail = None, ep_terminal = False \<rparr>"

definition dispatch_error :: "message \<Rightarrow> protocol_error \<Rightarrow> message" where
  "dispatch_error msg e = new_error (m_message_id msg) (m_operation msg)
     \<lparr> ep_code = ''dispatch_error'', ep_message = display_protocol_error e,
       ep_detail = None, ep_terminal = False \<rparr>"

text \<open>Replies are sent in order until a send fails.\<close>

fun send_all :: "cp_env \<Rightarrow> conn \<Rightarrow> message list \<Rightarrow> cp_state \<Rightarrow> cp_state" where
  "send_all E c [] st = st"
| "send_all E c (m # ms) st = (case send E c m st of (ok, st') \<Rightarrow> if ok then send_all E c ms st' else st')"

definition is_register :: "message \<Rightarrow> bool" where
  "is_register msg \<longleftrightarrow>
     (case (m_operation msg, m_payload msg) of
        (OpControl CoRegisterOp, PlControl (CpRegister _)) \<Rightarrow> True | _ \<Rightarrow> False)"

definition store_connection :: "conn \<Rightarrow> message \<Rightarrow> cp_state \<Rightarrow> cp_state" where
  "store_connection c reply st =
     (case m_payload reply of
        PlControl (CpRegisterAck ack) \<Rightarrow>
          if ra_accepted ack then st\<lparr>cp_conns := (cp_conns st)(ra_node_id ack \<mapsto> c)\<rparr> else st
      | _ \<Rightarrow> st)"

definition serve_message ::
  "cp_env \<Rightarrow> cp_state registry \<Rightarrow> role \<Rightarrow> conn \<Rightarrow> message \<Rightarrow> cp_state \<Rightarrow> cp_state outcome" where
  "serve_message E reg r c msg st =
     (if \<not> allows r (m_operation msg) then Returned (snd (send E c (role_error msg) st))
      else
        case dispatch reg msg st of
          Panicked \<Rightarrow> Panicked
        | Returned (q, st1) \<Rightarrow>
            let replies = (case q of Inr ms \<Rightarrow> ms | Inl e \<Rightarrow> [dispatch_error msg e]);
                st2 = (if r = DataPlaneNode \<and> is_register msg
                       then fold (store_connection c) replies st1 else st1)
            in Returned (send_all E c replies st2))"

definition forget_connection :: "conn \<Rightarrow> cp_state \<Rightarrow> cp_state" where
  "forget_connection c st =
     st\<lparr>cp_conns := (\<lambda>n. if cp_conns st n = Some c then None else cp_conns st n)\<rparr>"

text \<open>
  The loop over what the connection delivers: an error ends it, as does the end of the stream.  Every
  message comes with the environment (clock, fresh id, iteration orders, sends) it is handled in.
\<close>

fun serve_loop ::
  "(cp_env \<Rightarrow> cp_state registry) \<Rightarrow> role \<Rightarrow> conn \<Rightarrow> (string + cp_env \<times> message) list \<Rightarrow> cp_state \<Rightarrow>
   cp_state outcome" where
  "serve_loop reg r c [] st = Returned st"
| "serve_loop reg r c (Inl e # rest) st = Returned st"
| "serve_loop reg r c (Inr (E, msg) # rest) st =
     (case serve_message E (reg E) r c msg st of
        Panicked \<Rightarrow> Panicked
      | Returned st' \<Rightarrow> serve_loop reg r c rest st')"

definition serve_connection ::
  "(cp_env \<Rightarrow> cp_state registry) \<Rightarrow> role \<Rightarrow> conn \<Rightarrow> (string + cp_env \<times> message) list \<Rightarrow> cp_state \<Rightarrow>
   cp_state outcome" where
  "serve_connection reg r c incoming st =
     (case serve_loop reg r c incoming st of
        Panicked \<Rightarrow> Panicked
      | Returned st' \<Rightarrow> Returned (if r = DataPlaneNode then forget_connection c st' else st'))"

text \<open>The constructor of the core: every handler is registered, in order, and the first refusal is the error.\<close>

definition core_new ::
  "(message \<Rightarrow> cp_eff) \<Rightarrow> cp_env \<Rightarrow> ((string + unit) \<times> cp_state registry) outcome" where
  "core_new sandbox_handle E = register_all (core_handlers E sandbox_handle) registry_new"

end
