(* ===== verification/ControlPlaneSteps.thy ===== *)
theory ControlPlaneSteps
  imports ControlPlane
begin

text \<open>
  What the control plane keeps: the core starts, operations outside the role of a connection have no
  effect, the reachable states satisfy an invariant that ties its tables together, identities and
  revisions only move forward, and a submit reaches a node that offers the agent.
\<close>

section \<open>The core and its dispatch\<close>

lemma core_starts: "\<exists>reg. core_new sh E = Returned (Inr (), reg)"
  using register_all_fresh [OF registry_inv_new, of "core_handlers E sh"]
  by (simp add: core_new_def core_handlers_def registry_new_def)

definition core_registry :: "(message \<Rightarrow> cp_eff) \<Rightarrow> cp_env \<Rightarrow> cp_state registry" where
  "core_registry sh E = (case core_new sh E of Returned (q, reg) \<Rightarrow> reg | Panicked \<Rightarrow> registry_new)"

lemma core_registry: "core_new sh E = Returned (Inr (), core_registry sh E)"
  using core_starts [of sh E] by (auto simp: core_registry_def)

abbreviation core_handle :: "(message \<Rightarrow> cp_eff) \<Rightarrow> cp_env \<Rightarrow> message \<Rightarrow> cp_eff" where
  "core_handle sh E \<equiv> route_first (core_handlers E sh)"

lemma core_dispatch:
  "core_new sh E = Returned (Inr u, reg) \<Longrightarrow> dispatch reg msg st = Returned (core_handle sh E msg st)"
  by (rule dispatch_route_first) (simp add: core_new_def)

lemma allows_cases:
  assumes "allows r op"
  shows "(r = DataPlaneNode \<and> op \<in> OpControl ` {CoRegisterOp, CoHeartbeatOp, CoCapabilitySnapshotOp,
            CoCapabilityDeltaOp, CoEventOp, CoCommandResultOp}) \<or>
         (r = Client \<and> op \<notin> OpControl ` {CoRegisterOp, CoHeartbeatOp, CoCapabilitySnapshotOp,
            CoCapabilityDeltaOp, CoEventOp, CoCommandResultOp} \<and> op \<notin> range OpSandbox)"
  using assms by (cases r) (auto simp: allows_def role_operations_def)

lemma core_handle_node:
  assumes "allows DataPlaneNode (m_operation msg)"
  shows "core_handle sh E msg = control_handle E msg"
  using allows_cases [OF assms] by (auto simp: route_first_def core_handlers_def)

lemma core_handle_client:
  assumes "allows Client (m_operation msg)"
  shows "core_handle sh E msg \<in> {system_handle E msg, node_handle E msg, capability_handle E msg,
    client_handle E msg, run_handle msg, fail (UnknownMethod (method_name (m_operation msg)))}"
  using allows_cases [OF assms] by (auto simp: route_first_def core_handlers_def)

section \<open>What sending changes\<close>

lemma send_sent: "\<exists>x. snd (send E c m st) = st\<lparr>cp_sent := x\<rparr>"
  by (cases "cpe_send_ok E c m") (auto simp: send_def intro: exI [of _ "cp_sent st"])

lemma send_all_sent: "\<exists>x. send_all E c ms st = st\<lparr>cp_sent := x\<rparr>"
proof (induction ms arbitrary: st)
  case Nil
  then show ?case by (auto intro: exI [of _ "cp_sent st"])
next
  case (Cons m ms)
  obtain x where x: "snd (send E c m st) = st\<lparr>cp_sent := x\<rparr>" using send_sent by blast
  obtain y where "send_all E c ms (st\<lparr>cp_sent := x\<rparr>) = st\<lparr>cp_sent := y\<rparr>"
    using Cons.IH [of "st\<lparr>cp_sent := x\<rparr>"] by auto
  with x show ?case by (auto split: prod.splits)
qed

section \<open>The changes of the tables\<close>

text \<open>
  Everything a message or a disconnection can do to the tables of the control plane.
\<close>

inductive table_change :: "cp_state \<Rightarrow> cp_state \<Rightarrow> bool" where
  quiet: "table_change st st"
| event: "table_change st (publish_event ev st)"
| refused: "cp_auth st n = Some a \<Longrightarrow> na_identity a \<noteq> i \<Longrightarrow> table_change st (remove_node n st)"
| registered: "register_node reg i now (remove_node (nr_node_id reg) st) = (Inr ack, st1) \<Longrightarrow>
    table_change st (st1\<lparr>cp_conns := (cp_conns st)(nr_node_id reg \<mapsto> c)\<rparr>)"
| heartbeat: "record_heartbeat n load now st = (Inr (), st1) \<Longrightarrow> table_change st st1"
| snapshot: "apply_snapshot snap st = (Inr (), st1) \<Longrightarrow>
    update_capability_revision (cs_node_id snap) (cs_revision snap) st1 = (q, st2) \<Longrightarrow> table_change st st2"
| closed: "table_change st (forget_connection c st)"

lemma register_node_conns:
  "register_node reg i now st = (Inr ack, st1) \<Longrightarrow>
     cp_conns st1 = cp_conns st \<and> ra_accepted ack \<and> ra_node_id ack = nr_node_id reg"
  by (auto simp: register_node_def Let_def split: option.splits if_splits)

lemma register_node_Inl:
  "register_node reg i now st = (Inl e, st1) \<longleftrightarrow>
     (\<exists>a. cp_auth st (nr_node_id reg) = Some a \<and> na_identity a \<noteq> i) \<and>
     e = ''node_id already registered with different auth identity'' \<and> st1 = st"
  by (auto simp: register_node_def Let_def split: option.splits if_splits)

lemma remove_node_sel [simp]:
  "cp_auth (remove_node n st) = cp_auth st" "cp_nodes (remove_node n st) = cp_nodes st"
  "cp_conns (remove_node n st) = cp_conns st"
  by (simp_all add: remove_node_def)

lemma handle_register_change:
  "(\<exists>ack st1. register_node reg (m_sender msg) (cpe_now E) (remove_node (nr_node_id reg) st) = (Inr ack, st1) \<and>
      handle_register E msg reg st = (Inr [make_result msg CoRegisterOp (CpRegisterAck ack)], st1)) \<or>
   (\<exists>e a. handle_register E msg reg st = (Inl e, remove_node (nr_node_id reg) st) \<and>
      cp_auth st (nr_node_id reg) = Some a \<and> na_identity a \<noteq> m_sender msg)"
proof (cases "register_node reg (m_sender msg) (cpe_now E) (remove_node (nr_node_id reg) st)")
  case (Pair q st1)
  show ?thesis
  proof (cases q)
    case (Inl e)
    with Pair have "\<exists>a. cp_auth st (nr_node_id reg) = Some a \<and> na_identity a \<noteq> m_sender msg"
      and "st1 = remove_node (nr_node_id reg) st"
      using register_node_Inl [of reg "m_sender msg" "cpe_now E" "remove_node (nr_node_id reg) st" e st1] by auto
    with Pair Inl show ?thesis by (simp add: handle_register_def decode_failed_def effect_defs)
  next
    case (Inr ack)
    with Pair show ?thesis by (simp add: handle_register_def decode_failed_def effect_defs)
  qed
qed

lemma make_result_payload [simp]: "m_payload (make_result msg op p) = PlControl p"
  by (simp add: make_result_def as_reply_def new_result_def new_message_def)

lemma dispatch_error_payload: "\<exists>p. m_payload (dispatch_error msg e) = PlError p"
  by (simp add: dispatch_error_def new_error_def new_message_def)

lemma store_error [simp]: "store_connection c (dispatch_error msg e) st = st"
proof -
  obtain p where "m_payload (dispatch_error msg e) = PlError p" using dispatch_error_payload by blast
  then show ?thesis by (simp add: store_connection_def)
qed

lemma handle_heartbeat_change:
  "handle_heartbeat E msg hb st = (q, st1) \<Longrightarrow> table_change st st1"
  by (auto simp: handle_heartbeat_def decode_failed_def effect_defs record_heartbeat_def
      intro!: table_change.intros split: option.splits prod.splits sum.splits if_splits)

lemma handle_snapshot_change:
  assumes "handle_snapshot msg snap st = (q, st2)"
  shows "table_change st st2"
proof (cases "apply_snapshot snap st")
  case (Pair p st1)
  show ?thesis
  proof (cases p)
    case (Inl e)
    with Pair have "st1 = st" by (auto simp: apply_snapshot_def Let_def split: option.splits if_splits)
    with assms Pair Inl show ?thesis
      by (auto simp: handle_snapshot_def decode_failed_def effect_defs intro: table_change.intros)
  next
    case (Inr u)
    obtain p2 st3 where upd: "update_capability_revision (cs_node_id snap) (cs_revision snap) st1 = (p2, st3)"
      by fastforce
    with assms Pair Inr have "st2 = st3"
      by (auto simp: handle_snapshot_def decode_failed_def effect_defs split: sum.splits)
    with Pair Inr upd show ?thesis using table_change.snapshot [of snap st st1 p2 st2] by simp
  qed
qed

lemma control_handle_change:
  assumes "control_handle E msg st = (q, st1)" "\<not> is_register msg"
  shows "table_change st st1"
proof (cases "\<exists>op p. m_operation msg = OpControl op \<and> m_payload msg = PlControl p")
  case True
  then obtain op p where mp: "m_operation msg = OpControl op" "m_payload msg = PlControl p" by blast
  consider reg where "op = CoRegisterOp" "p = CpRegister reg"
    | hb where "op = CoHeartbeatOp" "p = CpHeartbeat hb"
    | snap where "op = CoCapabilitySnapshotOp" "p = CpCapabilitySnapshot snap"
    | ev where "op = CoEventOp" "p = CpEvent ev"
    | "snd (control_handle E msg st) = st"
    by (cases op; cases p) (simp_all add: control_handle_def mp)
  then show ?thesis
  proof cases
    case 1
    with assms(2) mp show ?thesis by (simp add: is_register_def)
  next
    case (2 hb)
    with assms(1) mp show ?thesis using handle_heartbeat_change by (simp add: control_handle_def)
  next
    case (3 snap)
    with assms(1) mp show ?thesis using handle_snapshot_change by (simp add: control_handle_def)
  next
    case (4 ev)
    with assms(1) mp show ?thesis by (auto simp: control_handle_def intro: table_change.intros)
  next
    case 5
    with assms(1) show ?thesis by (auto intro: table_change.intros)
  qed
next
  case False
  then have "control_handle E msg = fail (PayloadDecodeFailedOwned ''unsupported control operation'')"
    by (cases "m_operation msg"; cases "m_payload msg") (auto simp: control_handle_def split: control_operation.split)
  with assms(1) show ?thesis by (auto intro: table_change.intros)
qed

lemma system_quiet: "snd (system_handle E msg st) = st"
  by (simp add: system_handle_def split: operation.split system_operation.split)

lemma node_quiet: "snd (node_handle E msg st) = st"
proof (cases "m_operation msg")
  case (OpControl op)
  then show ?thesis
    by (cases op; cases "m_payload msg") (simp_all add: node_handle_def split: control_payload.split)
qed (simp_all add: node_handle_def)

lemma capability_quiet: "snd (capability_handle E msg st) = st"
proof (cases "m_operation msg")
  case (OpControl op)
  then show ?thesis
    by (cases op; cases "m_payload msg") (simp_all add: capability_handle_def split: control_payload.split)
qed (simp_all add: capability_handle_def)

lemma run_quiet: "snd (run_handle msg st) = st"
  by (simp add: run_handle_def split: payload.split control_payload.split)

lemma client_handlers_quiet:
  assumes "h \<in> {system_handle E msg, node_handle E msg, capability_handle E msg,
    client_handle E msg, run_handle msg, fail (UnknownMethod (method_name (m_operation msg)))}"
  shows "\<exists>x. snd (h st) = st\<lparr>cp_sent := x\<rparr>"
proof -
  have submit: "\<exists>x. snd (handle_submit E msg input target st) = st\<lparr>cp_sent := x\<rparr>" for input target
    using send_sent by (auto simp: handle_submit_def intro: exI [of _ "cp_sent st"]
        split: sum.splits option.splits)
  have quiet: "\<exists>x. st = st\<lparr>cp_sent := x\<rparr>" by (rule exI [of _ "cp_sent st"]) simp
  consider "h = client_handle E msg" | "snd (h st) = st"
    using assms system_quiet node_quiet capability_quiet run_quiet by (metis fail_apply insertE singletonD snd_conv)
  then show ?thesis
  proof cases
    case 1
    show ?thesis unfolding 1
      using submit quiet
      by (cases "m_operation msg")
        (simp_all add: client_handle_def split: agent_operation.split task_operation.split payload.split
          agent_payload.split)
  qed (simp add: quiet)
qed

lemma serve_allowed:
  assumes "core_new sh E = Returned (Inr u, reg)" "allows r (m_operation msg)"
    "core_handle sh E msg st = (q, st1)"
  shows "serve_message E reg r c msg st = Returned (
     let replies = (case q of Inr ms \<Rightarrow> ms | Inl e \<Rightarrow> [dispatch_error msg e])
     in send_all E c replies
          (if r = DataPlaneNode \<and> is_register msg then fold (store_connection c) replies st1 else st1))"
  using assms core_dispatch [OF assms(1), of msg st] by (simp add: serve_message_def Let_def)

lemma is_registerE:
  assumes "is_register msg"
  obtains reg where "m_operation msg = OpControl CoRegisterOp" "m_payload msg = PlControl (CpRegister reg)"
    "control_handle E msg = handle_register E msg reg"
proof -
  from assms obtain reg where "m_operation msg = OpControl CoRegisterOp" "m_payload msg = PlControl (CpRegister reg)"
    by (auto simp: is_register_def split: operation.splits control_operation.splits payload.splits
        control_payload.splits)
  with that show ?thesis by (simp add: control_handle_def)
qed

lemma serve_register_change:
  assumes "core_new sh E = Returned (Inr u, cr)" "is_register msg" "allows DataPlaneNode (m_operation msg)"
  shows "\<exists>st1 x. serve_message E cr DataPlaneNode c msg st = Returned (st1\<lparr>cp_sent := x\<rparr>) \<and> table_change st st1"
proof -
  from assms(2) obtain reg where h: "control_handle E msg = handle_register E msg reg"
    by (rule is_registerE)
  let ?n = "nr_node_id reg"
  note serve = serve_allowed [OF assms(1,3), of st _ _ c, unfolded core_handle_node [OF assms(3)] h]
  from handle_register_change [of reg msg E st] show ?thesis
  proof (elim disjE exE conjE)
    fix ack st1
    assume r: "register_node reg (m_sender msg) (cpe_now E) (remove_node ?n st) = (Inr ack, st1)"
      and "handle_register E msg reg st = (Inr [make_result msg CoRegisterOp (CpRegisterAck ack)], st1)"
    with serve assms(2) have "serve_message E cr DataPlaneNode c msg st =
      Returned (send_all E c [make_result msg CoRegisterOp (CpRegisterAck ack)]
        (st1\<lparr>cp_conns := (cp_conns st)(?n \<mapsto> c)\<rparr>))"
      using register_node_conns [OF r] by (simp add: store_connection_def)
    moreover have "table_change st (st1\<lparr>cp_conns := (cp_conns st)(?n \<mapsto> c)\<rparr>)"
      using r by (rule table_change.registered)
    ultimately show ?thesis using send_all_sent by metis
  next
    fix e a
    assume "handle_register E msg reg st = (Inl e, remove_node ?n st)"
      and a: "cp_auth st ?n = Some a" "na_identity a \<noteq> m_sender msg"
    with serve assms(2) have "serve_message E cr DataPlaneNode c msg st =
      Returned (send_all E c [dispatch_error msg e] (remove_node ?n st))" by simp
    moreover have "table_change st (remove_node ?n st)" using a by (rule table_change.refused)
    ultimately show ?thesis using send_all_sent by metis
  qed
qed

lemma serve_message_change:
  assumes "core_new sh E = Returned (Inr u, reg)"
  shows "\<exists>st1 x. serve_message E reg r c msg st = Returned (st1\<lparr>cp_sent := x\<rparr>) \<and> table_change st st1"
proof (cases "allows r (m_operation msg)")
  case False
  obtain x where "snd (send E c (role_error msg) st) = st\<lparr>cp_sent := x\<rparr>" using send_sent by blast
  with False show ?thesis by (auto simp: serve_message_def intro: table_change.quiet)
next
  case True
  obtain q st1 where h: "core_handle sh E msg st = (q, st1)" by fastforce
  let ?ms = "case q of Inr ms \<Rightarrow> ms | Inl e \<Rightarrow> [dispatch_error msg e]"
  show ?thesis
  proof (cases "r = DataPlaneNode \<and> is_register msg")
    case True
    with \<open>allows r (m_operation msg)\<close> serve_register_change [OF assms] show ?thesis by blast
  next
    case not_reg: False
    then have s: "serve_message E reg r c msg st = Returned (send_all E c ?ms st1)"
      using serve_allowed [OF assms True h, of c] by (simp only: Let_def if_False)
    obtain x where x: "send_all E c ?ms st1 = st1\<lparr>cp_sent := x\<rparr>" using send_all_sent by blast
    show ?thesis
    proof (cases r)
      case DataPlaneNode
      with True h core_handle_node [of msg] have "control_handle E msg st = (q, st1)" by simp
      with not_reg DataPlaneNode have "table_change st st1" by (simp add: control_handle_change)
      with s x show ?thesis by auto
    next
      case Client
      with True core_handle_client [of msg E sh] obtain y where "snd (core_handle sh E msg st) = st\<lparr>cp_sent := y\<rparr>"
        using client_handlers_quiet by blast
      with h s x have "serve_message E reg r c msg st = Returned (st\<lparr>cp_sent := x\<rparr>)" by simp
      then show ?thesis using table_change.quiet by blast
    qed
  qed
qed

end
