(* ===== verification/ControlPlaneCorrect.thy ===== *)
theory ControlPlaneCorrect
  imports ControlPlaneSteps
begin

text \<open>
  What the control plane keeps: its reachable states satisfy an invariant that ties its tables
  together, identities, generations and capability revisions only move forward, routing is sound and
  complete, and operations outside the role of a connection have no effect.
\<close>

section \<open>Reachable states\<close>

text \<open>
  One step serves one message on any connection, in its role and environment, or ends a connection of
  a node; messages of different connections interleave freely.
\<close>

inductive cp_step :: "(message \<Rightarrow> cp_eff) \<Rightarrow> cp_state \<Rightarrow> cp_state \<Rightarrow> bool" for sh where
  message: "serve_message E (core_registry sh E) r c msg st = Returned st' \<Longrightarrow> cp_step sh st st'"
| disconnect: "cp_step sh st (forget_connection c st)"

inductive cp_reachable :: "(message \<Rightarrow> cp_eff) \<Rightarrow> cp_state \<Rightarrow> bool" for sh where
  start: "cp_reachable sh (cp_new_with_ingress ingress)"
| step: "cp_reachable sh st \<Longrightarrow> cp_step sh st st' \<Longrightarrow> cp_reachable sh st'"

lemma cp_step_change:
  assumes "cp_step sh st st'"
  shows "\<exists>st1 x. st' = st1\<lparr>cp_sent := x\<rparr> \<and> table_change st st1"
  using assms
proof cases
  case (message E r c msg)
  then show ?thesis using serve_message_change [OF core_registry, of E sh r c msg st] by auto
next
  case (disconnect c)
  then show ?thesis using table_change.closed [of st c]
    by (intro exI [of _ "forget_connection c st"] exI [of _ "cp_sent (forget_connection c st)"]) simp
qed

section \<open>The invariant of the tables\<close>

definition cp_inv :: "cp_state \<Rightarrow> bool" where
  "cp_inv st \<longleftrightarrow>
     (\<forall>n. (cp_auth st n = None \<longleftrightarrow> cp_nodes st n = None) \<and>
        (cp_nodes st n = None \<longrightarrow> cp_conns st n = None)) \<and>
     (\<forall>n nd. cp_nodes st n = Some nd \<longrightarrow> nd_node_id nd = n \<and> nd_status nd = ''online'' \<and>
        (\<forall>snap. cp_caps st n = Some snap \<longrightarrow> nd_capability_revision nd = cs_revision snap)) \<and>
     (\<forall>n snap. cp_caps st n = Some snap \<longrightarrow> cs_node_id snap = n) \<and>
     finite (dom (cp_caps st)) \<and>
     cp_pending st = Map.empty \<and> cp_commands st = Map.empty \<and> cp_runs st = Map.empty"

lemma cp_inv_new: "cp_inv (cp_new_with_ingress ingress)"
  by (simp add: cp_inv_def cp_new_with_ingress_def)

lemma cp_inv_sent [simp]: "cp_inv (st\<lparr>cp_sent := x\<rparr>) = cp_inv st"
  by (simp add: cp_inv_def)

lemma cp_inv_remove_node: "cp_inv st \<Longrightarrow> cp_inv (remove_node n st)"
  by (simp add: cp_inv_def remove_node_def)

lemma cp_inv_register:
  assumes "cp_inv st" "register_node reg i now (remove_node (nr_node_id reg) st) = (Inr ack, st1)"
  shows "cp_inv (st1\<lparr>cp_conns := (cp_conns st)(nr_node_id reg \<mapsto> c)\<rparr>)"
  using assms
  by (auto simp: cp_inv_def register_node_def Let_def remove_node_def split: option.splits if_splits)

lemma cp_inv_heartbeat: "cp_inv st \<Longrightarrow> record_heartbeat n load now st = (Inr (), st1) \<Longrightarrow> cp_inv st1"
  by (auto simp: cp_inv_def record_heartbeat_def split: option.splits if_splits)

lemma cp_inv_snapshot:
  assumes "cp_inv st" "apply_snapshot snap st = (Inr (), st1)"
    "update_capability_revision (cs_node_id snap) (cs_revision snap) st1 = (q, st2)"
  shows "cp_inv st2"
proof -
  have st1: "st1 = st\<lparr>cp_caps := (cp_caps st)(cs_node_id snap \<mapsto> snap)\<rparr>"
    using assms(2) by (auto simp: apply_snapshot_def Let_def split: option.splits if_splits)
  show ?thesis
  proof (cases "cp_nodes st (cs_node_id snap)")
    case None
    with assms(1,3) st1 show ?thesis
      by (auto simp: cp_inv_def update_capability_revision_def split: if_splits)
  next
    case (Some nd)
    with assms(1,3) st1 show ?thesis
      by (auto simp: cp_inv_def update_capability_revision_def split: if_splits)
  qed
qed

lemma cp_inv_change: "table_change st st1 \<Longrightarrow> cp_inv st \<Longrightarrow> cp_inv st1"
proof (induction rule: table_change.induct)
  case (event st ev)
  then show ?case by (simp add: cp_inv_def publish_event_def)
next
  case (closed st c)
  then show ?case by (auto simp: cp_inv_def forget_connection_def split: if_splits)
qed (auto intro: cp_inv_remove_node cp_inv_register cp_inv_heartbeat cp_inv_snapshot)

lemma cp_reachable_cp_inv: "cp_reachable sh st \<Longrightarrow> cp_inv st"
proof (induction rule: cp_reachable.induct)
  case (start ingress)
  show ?case by (rule cp_inv_new)
next
  case (step st st')
  then show ?case using cp_step_change cp_inv_change by fastforce
qed

lemma route_among_Inr:
  "route_among st t snaps = Inr n \<Longrightarrow>
     \<exists>snap \<in> set snaps. cs_node_id snap = n \<and> is_online st n \<and> offers t snap"
  by (induction snaps) (auto split: if_splits)

lemma route_among_Inl:
  "(\<exists>e. route_among st t snaps = Inl e) \<longleftrightarrow>
     (\<forall>snap \<in> set snaps. \<not> (is_online st (cs_node_id snap) \<and> offers t snap))"
  by (induction snaps) auto

lemma snapshots_all:
  assumes "cp_inv st" "iter_order (cpe_caps_order E)"
  shows "set (list_snapshots E None st) = {snap. cp_caps st (cs_node_id snap) = Some snap}"
proof -
  have "finite (dom (cp_caps st))" using assms(1) by (simp add: cp_inv_def)
  with assms(2) have "set (list_snapshots E None st) = ran (cp_caps st)"
    by (simp add: list_snapshots_def set_map_values_enumerates iter_orderD)
  with assms(1) show ?thesis by (auto simp: cp_inv_def ran_def)
qed

lemma online_iff: "cp_inv st \<Longrightarrow> is_online st n \<longleftrightarrow> n \<in> dom (cp_nodes st)"
  by (auto simp: is_online_def cp_inv_def split: option.splits)

lemma route_agent_Inr:
  assumes "cp_inv st" "iter_order (cpe_caps_order E)" "route_agent E target st = Inr n"
  shows "n \<in> dom (cp_nodes st) \<and> (\<exists>snap. cp_caps st n = Some snap \<and> offers target snap)"
proof -
  from assms(3) obtain snap where "snap \<in> set (list_snapshots E None st)" "cs_node_id snap = n"
    "is_online st n" "offers target snap"
    unfolding route_agent_def using route_among_Inr by blast
  with snapshots_all [OF assms(1,2)] online_iff [OF assms(1)] show ?thesis by auto
qed

lemma route_agent_Inl:
  assumes "cp_inv st" "iter_order (cpe_caps_order E)"
  shows "(\<exists>e. route_agent E target st = Inl e) \<longleftrightarrow>
     (\<forall>n \<in> dom (cp_nodes st). \<forall>snap. cp_caps st n = Some snap \<longrightarrow> \<not> offers target snap)"
proof -
  have "(\<exists>e. route_agent E target st = Inl e) \<longleftrightarrow>
      (\<forall>snap. cp_caps st (cs_node_id snap) = Some snap \<longrightarrow>
         \<not> (cs_node_id snap \<in> dom (cp_nodes st) \<and> offers target snap))"
    unfolding route_agent_def route_among_Inl snapshots_all [OF assms] online_iff [OF assms(1)] by blast
  moreover have "cp_caps st n = Some snap \<Longrightarrow> cs_node_id snap = n" for n snap
    using assms(1) by (simp add: cp_inv_def)
  ultimately show ?thesis by blast
qed

section \<open>The abstract control plane\<close>

text \<open>
  What the control plane promises to those who use it: who owns a node id and how often it has
  registered, the capabilities it advertises, and the connection it can be reached on.
\<close>

record cp_view =
  v_owner :: "string \<rightharpoonup> node_auth"
  v_caps :: "string \<rightharpoonup> capability_snapshot"
  v_conn :: "string \<rightharpoonup> conn"

inductive view_step :: "cp_view \<Rightarrow> cp_view \<Rightarrow> bool" where
  stutter: "view_step v v"
| enroll: "(v_owner v n = None \<and> g = 1) \<or> v_owner v n = Some \<lparr> na_identity = i, na_generation = g - 1 \<rparr> \<Longrightarrow>
    view_step v (v\<lparr>v_owner := (v_owner v)(n \<mapsto> \<lparr> na_identity = i, na_generation = g \<rparr>),
                  v_caps := (v_caps v)(n := None), v_conn := (v_conn v)(n \<mapsto> c)\<rparr>)"
| reject: "v_owner v n = Some a \<Longrightarrow> view_step v (v\<lparr>v_caps := (v_caps v)(n := None)\<rparr>)"
| advertise: "(\<And>old. v_caps v (cs_node_id snap) = Some old \<Longrightarrow> cs_revision old < cs_revision snap) \<Longrightarrow>
    view_step v (v\<lparr>v_caps := (v_caps v)(cs_node_id snap \<mapsto> snap)\<rparr>)"
| hangup: "view_step v (v\<lparr>v_conn := (\<lambda>n. if v_conn v n = Some c then None else v_conn v n)\<rparr>)"

inductive_cases view_stepE: "view_step v v'"

definition cp_abs :: "cp_state \<Rightarrow> cp_view" where
  "cp_abs st = \<lparr> v_owner = cp_auth st, v_caps = cp_caps st, v_conn = cp_conns st \<rparr>"

lemma cp_abs_sent [simp]: "cp_abs (st\<lparr>cp_sent := x\<rparr>) = cp_abs st"
  by (simp add: cp_abs_def)

lemma register_node_auth:
  assumes "register_node reg i now st = (Inr ack, st1)"
  obtains g where "(cp_auth st (nr_node_id reg) = None \<and> g = 1) \<or>
       cp_auth st (nr_node_id reg) = Some \<lparr> na_identity = i, na_generation = g - 1 \<rparr>"
    and "cp_auth st1 = (cp_auth st)(nr_node_id reg \<mapsto> \<lparr> na_identity = i, na_generation = g \<rparr>)"
    and "cp_caps st1 = cp_caps st"
proof (cases "cp_auth st (nr_node_id reg)")
  case None
  with assms that [of 1] show ?thesis by (auto simp: register_node_def Let_def)
next
  case (Some a)
  with assms that [of "na_generation a + 1"] show ?thesis
    by (cases a) (auto simp: register_node_def Let_def split: if_splits)
qed

lemma table_change_view: "table_change st st1 \<Longrightarrow> view_step (cp_abs st) (cp_abs st1)"
proof (induction rule: table_change.induct)
  case (registered reg i now st ack st1 c)
  then obtain g where g: "(cp_auth st (nr_node_id reg) = None \<and> g = 1) \<or>
       cp_auth st (nr_node_id reg) = Some \<lparr> na_identity = i, na_generation = g - 1 \<rparr>"
    "cp_auth st1 = (cp_auth st)(nr_node_id reg \<mapsto> \<lparr> na_identity = i, na_generation = g \<rparr>)"
    "cp_caps st1 = (cp_caps st)(nr_node_id reg := None)"
    by (auto elim!: register_node_auth simp: remove_node_def)
  then show ?case
    using view_step.enroll [of "cp_abs st" "nr_node_id reg" g i c] by (simp add: cp_abs_def)
next
  case (refused st n a i)
  then show ?case using view_step.reject [of "cp_abs st" n a] by (simp add: cp_abs_def remove_node_def)
next
  case (event st ev)
  then show ?case using view_step.stutter by (simp add: cp_abs_def publish_event_def)
next
  case (heartbeat n load now st st1)
  then have "cp_abs st1 = cp_abs st"
    by (auto simp: record_heartbeat_def cp_abs_def split: option.splits)
  then show ?case using view_step.stutter by simp
next
  case (snapshot snap st st1 q st2)
  then have "cp_abs st2 = (cp_abs st)\<lparr>v_caps := (cp_caps st)(cs_node_id snap \<mapsto> snap)\<rparr>"
    and "\<And>old. cp_caps st (cs_node_id snap) = Some old \<Longrightarrow> cs_revision old < cs_revision snap"
    by (auto simp: cp_abs_def apply_snapshot_def update_capability_revision_def Let_def
        split: option.splits if_splits)
  then show ?case using view_step.advertise [of "cp_abs st" snap] by (simp add: cp_abs_def)
next
  case (closed st c)
  show ?case using view_step.hangup [of "cp_abs st" c] by (simp add: cp_abs_def forget_connection_def cong: if_cong)
qed (rule view_step.stutter)

lemma cp_step_view: "cp_step sh st st' \<Longrightarrow> view_step (cp_abs st) (cp_abs st')"
  using cp_step_change table_change_view by fastforce

lemma view_step_forward:
  assumes "view_step v v'"
  shows "(\<forall>n a. v_owner v n = Some a \<longrightarrow> (\<exists>a'. v_owner v' n = Some a' \<and> na_identity a' = na_identity a \<and>
            na_generation a' \<in> {na_generation a, na_generation a + 1})) \<and>
         (\<forall>n s s'. v_caps v n = Some s \<longrightarrow> v_caps v' n = Some s' \<longrightarrow> s' = s \<or> cs_revision s < cs_revision s')"
  using assms
  by (cases rule: view_step.cases) auto

lemma cp_step_loop:
  "\<exists>st'. serve_loop (core_registry sh) r c incoming st = Returned st' \<and> rtranclp (cp_step sh) st st'"
proof (induction "core_registry sh" r c incoming st rule: serve_loop.induct)
  case (3 r c E msg rest st)
  obtain st1 where st1: "serve_message E (core_registry sh E) r c msg st = Returned st1"
    using serve_message_change [OF core_registry] by blast
  then have "cp_step sh st st1" by (rule cp_step.message)
  with 3 [OF st1] st1 show ?case by (auto intro: converse_rtranclp_into_rtranclp)
qed simp_all

lemma cp_step_connection:
  "\<exists>st'. serve_connection (core_registry sh) r c incoming st = Returned st' \<and> rtranclp (cp_step sh) st st'"
proof -
  obtain st1 where "serve_loop (core_registry sh) r c incoming st = Returned st1" "rtranclp (cp_step sh) st st1"
    using cp_step_loop by blast
  then show ?thesis using cp_step.disconnect [of sh st1 c]
    by (auto simp: serve_connection_def intro: rtranclp.rtrancl_into_rtrancl)
qed

lemma cp_steps_view: "rtranclp (cp_step sh) st st' \<Longrightarrow> rtranclp view_step (cp_abs st) (cp_abs st')"
  by (induction rule: rtranclp_induct) (auto intro: rtranclp.rtrancl_into_rtrancl cp_step_view)

lemma cp_steps_owner:
  assumes "rtranclp (cp_step sh) st st'" "cp_auth st n = Some a"
  shows "\<exists>a'. cp_auth st' n = Some a' \<and> na_identity a' = na_identity a"
  using assms
proof (induction rule: rtranclp_induct)
  case (step st1 st2)
  then show ?case using view_step_forward [OF cp_step_view [OF step(2)]] by (fastforce simp: cp_abs_def)
qed auto

section \<open>Properties\<close>



text \<open>
  C23: identities, generations and revisions only move forward.  A node id stays with the identity that
  first registered it, for ever; one step keeps the generation or adds one to it, and replaces a
  snapshot only by a newer one.
\<close>

theorem cp_forward:
  assumes "rtranclp (cp_step sh) st st'" "cp_auth st n = Some a" "cp_step sh st' st''"
  shows "\<exists>a' a''. cp_auth st' n = Some a' \<and> na_identity a' = na_identity a \<and>
     cp_auth st'' n = Some a'' \<and> na_identity a'' = na_identity a \<and>
     na_generation a'' \<in> {na_generation a', na_generation a' + 1} \<and>
     (\<forall>s s'. cp_caps st' n = Some s \<longrightarrow> cp_caps st'' n = Some s' \<longrightarrow> s' = s \<or> cs_revision s < cs_revision s')"
proof -
  obtain a' where a': "cp_auth st' n = Some a'" "na_identity a' = na_identity a"
    using cp_steps_owner [OF assms(1,2)] by blast
  note fwd = view_step_forward [OF cp_step_view [OF assms(3)], unfolded cp_abs_def, simplified]
  from fwd a' obtain a'' where "cp_auth st'' n = Some a''" "na_identity a'' = na_identity a'"
    "na_generation a'' \<in> {na_generation a', na_generation a' + 1}" by fastforce
  with fwd a' show ?thesis by auto
qed

text \<open>
  Routing is sound and complete.  In a state whose tables agree the router returns a node that is
  online and whose snapshot offers the agent, and it fails exactly when there is none; it never
  depends on the order in which the snapshots are visited whether it succeeds.
\<close>

theorem route_agent_spec:
  assumes "cp_reachable sh st" "iter_order (cpe_caps_order E)"
  shows "(\<forall>n. route_agent E target st = Inr n \<longrightarrow>
            n \<in> dom (cp_nodes st) \<and> (\<exists>snap. cp_caps st n = Some snap \<and> offers target snap)) \<and>
     ((\<exists>e. route_agent E target st = Inl e) \<longleftrightarrow>
        (\<forall>n \<in> dom (cp_nodes st). \<forall>snap. cp_caps st n = Some snap \<longrightarrow> \<not> offers target snap))"
  using route_agent_Inr route_agent_Inl cp_reachable_cp_inv [OF assms(1)] assms(2) by blast

text \<open>
  A node that claims the id of another is refused, and nodes and owners stay as they are, but the
  refusal comes after the capabilities of the rightful node have been dropped: from then on no agent
  is routed to it until it sends a new snapshot.
\<close>

theorem register_foreign_wipes:
  assumes "cp_reachable sh st" "iter_order (cpe_caps_order E')"
    and "m_operation msg = OpControl CoRegisterOp" "m_payload msg = PlControl (CpRegister reg)"
    and "cp_auth st (nr_node_id reg) = Some a" "na_identity a \<noteq> m_sender msg"
  shows "\<exists>st'. serve_message E (core_registry sh E) DataPlaneNode c msg st = Returned st' \<and>
     cp_auth st' = cp_auth st \<and> cp_nodes st' = cp_nodes st \<and> cp_conns st' = cp_conns st \<and>
     cp_caps st' = (cp_caps st)(nr_node_id reg := None) \<and>
     (\<forall>target. route_agent E' target st' \<noteq> Inr (nr_node_id reg))"
proof -
  let ?n = "nr_node_id reg" and ?st = "remove_node (nr_node_id reg) st"
  have al: "allows DataPlaneNode (m_operation msg)" by (simp add: allows_def role_operations_def assms(3))
  have h: "control_handle E msg = handle_register E msg reg" and r: "is_register msg"
    by (simp_all add: control_handle_def is_register_def assms(3,4))
  obtain e where "handle_register E msg reg st = (Inl e, ?st)"
    using handle_register_change [of reg msg E st] assms(5,6) by (auto simp: register_node_def)
  then have "serve_message E (core_registry sh E) DataPlaneNode c msg st =
      Returned (send_all E c [dispatch_error msg e] ?st)"
    using serve_allowed [OF core_registry al, of E sh st] by (simp add: core_handle_node [OF al] h)
  then obtain x where s: "serve_message E (core_registry sh E) DataPlaneNode c msg st = Returned (?st\<lparr>cp_sent := x\<rparr>)"
    using send_all_sent by metis
  have inv: "cp_inv (?st\<lparr>cp_sent := x\<rparr>)"
    using cp_reachable_cp_inv [OF assms(1)] by (simp add: cp_inv_remove_node)
  have "route_agent E' target (?st\<lparr>cp_sent := x\<rparr>) \<noteq> Inr ?n" for target
  proof
    assume "route_agent E' target (?st\<lparr>cp_sent := x\<rparr>) = Inr ?n"
    then obtain snap where "snap \<in> set (list_snapshots E' None (?st\<lparr>cp_sent := x\<rparr>))" "cs_node_id snap = ?n"
      unfolding route_agent_def using route_among_Inr by blast
    with snapshots_all [OF inv assms(2)] show False by (simp add: remove_node_def)
  qed
  with s show ?thesis by (simp add: remove_node_def)
qed

section \<open>Exchanges that succeed\<close>

lemma send_ok: "cpe_send_ok E c m \<Longrightarrow> send E c m st = (True, st\<lparr>cp_sent := cp_sent st @ [(c, m)]\<rparr>)"
  by (simp add: send_def)

lemma allows_node: "op \<in> {CoRegisterOp, CoHeartbeatOp, CoCapabilitySnapshotOp, CoEventOp} \<Longrightarrow>
    allows DataPlaneNode (OpControl op)"
  by (auto simp: allows_def role_operations_def)

lemma serve_register_ok:
  assumes "m_operation msg = OpControl CoRegisterOp" "m_payload msg = PlControl (CpRegister reg)"
    and "\<forall>a. cp_auth st (nr_node_id reg) = Some a \<longrightarrow> na_identity a = m_sender msg"
    and "\<forall>c m. cpe_send_ok E c m"
  obtains st1 ack where
    "register_node reg (m_sender msg) (cpe_now E) (remove_node (nr_node_id reg) st) = (Inr ack, st1)"
    and "serve_message E (core_registry sh E) DataPlaneNode c msg st = Returned
      (st1\<lparr>cp_conns := (cp_conns st)(nr_node_id reg \<mapsto> c),
           cp_sent := cp_sent st1 @ [(c, make_result msg CoRegisterOp (CpRegisterAck ack))]\<rparr>)"
proof -
  let ?n = "nr_node_id reg"
  have al: "allows DataPlaneNode (m_operation msg)" by (simp add: assms(1) allows_node)
  have h: "control_handle E msg = handle_register E msg reg" and r: "is_register msg"
    by (simp_all add: control_handle_def is_register_def assms(1,2))
  obtain ack st1 where
    reg: "register_node reg (m_sender msg) (cpe_now E) (remove_node ?n st) = (Inr ack, st1)"
    and "handle_register E msg reg st = (Inr [make_result msg CoRegisterOp (CpRegisterAck ack)], st1)"
    using handle_register_change [of reg msg E st] assms(3) by auto
  then have "serve_message E (core_registry sh E) DataPlaneNode c msg st =
      Returned (send_all E c [make_result msg CoRegisterOp (CpRegisterAck ack)]
        (st1\<lparr>cp_conns := (cp_conns st)(?n \<mapsto> c)\<rparr>))"
    using serve_allowed [OF core_registry al, of E sh st] register_node_conns [OF reg] r
    by (simp add: core_handle_node [OF al] h store_connection_def)
  with that [OF reg] assms(4) show ?thesis by (simp add: send_ok)
qed

lemma serve_snapshot_ok:
  assumes "m_operation msg = OpControl CoCapabilitySnapshotOp"
    and "m_payload msg = PlControl (CpCapabilitySnapshot snap)"
    and "\<forall>old. cp_caps st (cs_node_id snap) = Some old \<longrightarrow> cs_revision old < cs_revision snap"
    and "cp_nodes st (cs_node_id snap) = Some nd"
    and "\<forall>c m. cpe_send_ok E c m"
  shows "serve_message E (core_registry sh E) DataPlaneNode c msg st = Returned
    (st\<lparr>cp_caps := (cp_caps st)(cs_node_id snap \<mapsto> snap),
        cp_nodes := (cp_nodes st)(cs_node_id snap \<mapsto> nd\<lparr>nd_capability_revision := cs_revision snap\<rparr>),
        cp_sent := cp_sent st @ [(c, make_result msg CoCapabilitySnapshotOp
                     (CpCapabilitySnapshotAck (cs_node_id snap) (cs_revision snap)))]\<rparr>)"
proof -
  have al: "allows DataPlaneNode (m_operation msg)" by (simp add: assms(1) allows_node)
  have r: "\<not> is_register msg" by (simp add: is_register_def assms(1))
  have "handle_snapshot msg snap st = (Inr [make_result msg CoCapabilitySnapshotOp
        (CpCapabilitySnapshotAck (cs_node_id snap) (cs_revision snap))],
      st\<lparr>cp_caps := (cp_caps st)(cs_node_id snap \<mapsto> snap),
         cp_nodes := (cp_nodes st)(cs_node_id snap \<mapsto> nd\<lparr>nd_capability_revision := cs_revision snap\<rparr>)\<rparr>)"
    using assms(3,4)
    by (auto simp: handle_snapshot_def decode_failed_def effect_defs apply_snapshot_def Let_def
        update_capability_revision_def split: option.splits)
  then show ?thesis
    using serve_allowed [OF core_registry al, of E sh st] r assms(5)
    by (simp add: core_handle_node [OF al] control_handle_def assms(1,2) send_ok)
qed

lemma core_handle_submit:
  assumes "m_operation msg = OpAgent AgSubmitOp" "m_payload msg = PlAgent (ApSubmit input target)"
  shows "core_handle sh E msg = handle_submit E msg input target"
  using assms by (simp add: route_first_def core_handlers_def client_handle_def)

lemma serve_submit_ok:
  assumes "m_operation msg = OpAgent AgSubmitOp" "m_payload msg = PlAgent (ApSubmit input target)"
    and "route_agent E target st = Inr n" "cp_conns st n = Some c" "\<forall>c m. cpe_send_ok E c m"
  shows "serve_message E (core_registry sh E) Client d msg st = Returned
    (st\<lparr>cp_sent := cp_sent st @ [(c, submit_message E n input target), (d, submit_reply E msg)]\<rparr>)"
proof -
  have al: "allows Client (m_operation msg)" by (simp add: assms(1) allows_def role_operations_def)
  show ?thesis
    using serve_allowed [OF core_registry al, of E sh st] assms
    by (simp add: core_handle_submit handle_submit_def send_ok)
qed

text \<open>
  C15: an agent that a node has just announced can be used.  When a node registers (for the first time
  or again) and sends a snapshot, and no other node offers the agent, the next submit for it is
  forwarded to that node, on the connection it registered on, and accepted.
\<close>

theorem submit_delivered:
  assumes "cp_reachable sh st" "iter_order (cpe_caps_order E3)"
    and "\<forall>E \<in> {E1, E2, E3}. \<forall>c m. cpe_send_ok E c m"
    and "m_operation m1 = OpControl CoRegisterOp" "m_payload m1 = PlControl (CpRegister reg)"
    and "\<forall>a. cp_auth st (nr_node_id reg) = Some a \<longrightarrow> na_identity a = m_sender m1"
    and "m_operation m2 = OpControl CoCapabilitySnapshotOp" "m_payload m2 = PlControl (CpCapabilitySnapshot snap)"
    and "cs_node_id snap = nr_node_id reg" "offers target snap"
    and "\<forall>m s. m \<noteq> nr_node_id reg \<longrightarrow> cp_caps st m = Some s \<longrightarrow> \<not> offers target s"
    and "m_operation m3 = OpAgent AgSubmitOp" "m_payload m3 = PlAgent (ApSubmit input target)"
  shows "\<exists>st1 st2.
     serve_loop (core_registry sh) DataPlaneNode c [Inr (E1, m1), Inr (E2, m2)] st = Returned st1 \<and>
     serve_message E3 (core_registry sh E3) Client d m3 st1 = Returned st2 \<and>
     cp_sent st2 = cp_sent st1 @
       [(c, submit_message E3 (nr_node_id reg) input target), (d, submit_reply E3 m3)]"
proof -
  let ?n = "nr_node_id reg"
  have ok1: "\<forall>c m. cpe_send_ok E1 c m" and ok2: "\<forall>c m. cpe_send_ok E2 c m"
    and ok3: "\<forall>c m. cpe_send_ok E3 c m" using assms(3) by simp_all
  obtain sr ack where reg: "register_node reg (m_sender m1) (cpe_now E1) (remove_node ?n st) = (Inr ack, sr)"
    and s1: "serve_message E1 (core_registry sh E1) DataPlaneNode c m1 st = Returned
      (sr\<lparr>cp_conns := (cp_conns st)(?n \<mapsto> c),
          cp_sent := cp_sent sr @ [(c, make_result m1 CoRegisterOp (CpRegisterAck ack))]\<rparr>)"
    (is "_ = Returned ?s1")
    by (rule serve_register_ok [OF assms(4-6) ok1])
  have caps: "cp_caps ?s1 = (cp_caps st)(?n := None)"
    using reg by (elim register_node_auth) (simp add: remove_node_def)
  obtain nd where nd: "cp_nodes ?s1 (cs_node_id snap) = Some nd"
    using reg assms(9) by (auto simp: register_node_def Let_def split: option.splits if_splits)
  have conn: "cp_conns ?s1 ?n = Some c" by simp
  let ?s2 = "?s1\<lparr>cp_caps := (cp_caps ?s1)(cs_node_id snap \<mapsto> snap),
    cp_nodes := (cp_nodes ?s1)(cs_node_id snap \<mapsto> nd\<lparr>nd_capability_revision := cs_revision snap\<rparr>),
    cp_sent := cp_sent ?s1 @ [(c, make_result m2 CoCapabilitySnapshotOp
                 (CpCapabilitySnapshotAck (cs_node_id snap) (cs_revision snap)))]\<rparr>"
  have s2: "serve_message E2 (core_registry sh E2) DataPlaneNode c m2 ?s1 = Returned ?s2"
    using caps assms(9) by (intro serve_snapshot_ok [OF assms(7,8) _ nd ok2]) simp
  have "cp_reachable sh ?s2"
    using cp_reachable.step [OF cp_reachable.step [OF assms(1) cp_step.message [OF s1]] cp_step.message [OF s2]] .
  then have inv: "cp_inv ?s2" by (rule cp_reachable_cp_inv)
  have only: "m = ?n" if "cp_caps ?s2 m = Some s" "offers target s" for m s
    using that assms(9,11) caps by (auto split: if_splits)
  have "\<not> (\<exists>e. route_agent E3 target ?s2 = Inl e)"
    using route_agent_Inl [OF inv assms(2), of target] assms(9,10) by auto
  then obtain n where n: "route_agent E3 target ?s2 = Inr n"
    by (cases "route_agent E3 target ?s2") auto
  have "n = ?n" using route_agent_Inr [OF inv assms(2) n] only by blast
  with n conn have "serve_message E3 (core_registry sh E3) Client d m3 ?s2 = Returned
      (?s2\<lparr>cp_sent := cp_sent ?s2 @ [(c, submit_message E3 ?n input target), (d, submit_reply E3 m3)]\<rparr>)"
    by (intro serve_submit_ok [OF assms(12,13) _ _ ok3]) simp_all
  with s1 s2 show ?thesis by simp
qed

text \<open>
  What a lost node does to a submit.  When the send to the routed node fails, the client is still
  told that its submit was accepted, although nothing was sent.  When the connection of the node has
  ended, the node keeps its place in the routing: the submit is refused, and so is every later one,
  also when other connected nodes offer the agent.
\<close>

theorem submit_lost:
  assumes "route_agent E target st = Inr n" "cp_conns st n = Some c"
    and "\<not> cpe_send_ok E c (submit_message E n input target)"
  shows "handle_submit E msg input target st = (Inr [submit_reply E msg], st) \<and>
     route_agent E target (forget_connection c st) = Inr n \<and>
     handle_submit E msg input target (forget_connection c st) =
       (Inl (PayloadDecodeFailedOwned (''node '' @ n @ '' is registered but has no active connection'')),
        forget_connection c st)"
proof -
  have "route_among (forget_connection c st) target snaps = route_among st target snaps" for snaps
    by (induction snaps) (simp_all add: is_online_def forget_connection_def)
  then have "route_agent E target (forget_connection c st) = Inr n"
    using assms(1) by (simp add: route_agent_def list_snapshots_def forget_connection_def)
  with assms show ?thesis by (simp add: handle_submit_def send_def forget_connection_def)
qed


section \<open>Witnesses\<close>

definition cp_demo_env :: cp_env where
  "cp_demo_env = \<lparr> cpe_now = 1, cpe_uuid = ''a-b'', cpe_caps_order = ascending, cpe_nodes_order = ascending,
     cpe_send_ok = (\<lambda>c m. True), cpe_version = ''0.1'' \<rparr>"

definition broken_env :: cp_env where
  "broken_env = cp_demo_env\<lparr>cpe_send_ok := (\<lambda>c m. False)\<rparr>"

definition demo_sandbox :: "message \<Rightarrow> cp_eff" where
  "demo_sandbox msg = ret []"

definition demo_node :: node_registration where
  "demo_node = \<lparr> nr_node_id = ''n'', nr_name = ''node'', nr_version = ''1'' \<rparr>"

definition demo_register_msg :: "string \<Rightarrow> message" where
  "demo_register_msg s =
     (new_command ''1'' (OpControl CoRegisterOp) (PlControl (CpRegister demo_node)))\<lparr>m_sender := s\<rparr>"

definition demo_snapshot :: capability_snapshot where
  "demo_snapshot = \<lparr> cs_node_id = ''n'', cs_revision = 1, cs_generated_at_ms = None,
     cs_agents = [\<lparr> ac_agent_id = ''a'', ac_name = ''coder'', ac_description = None, ac_status = None \<rparr>],
     cs_tools = [], cs_mcp_servers = [], cs_skills = [] \<rparr>"

definition demo_snapshot_msg :: message where
  "demo_snapshot_msg = new_command ''2'' (OpControl CoCapabilitySnapshotOp) (PlControl (CpCapabilitySnapshot demo_snapshot))"

definition demo_submit_msg :: message where
  "demo_submit_msg = new_command ''3'' (OpAgent AgSubmitOp) (PlAgent (ApSubmit JNull (Some ''a'')))"

lemmas demo_defs = cp_demo_env_def broken_env_def demo_node_def demo_register_msg_def demo_snapshot_def
  demo_snapshot_msg_def demo_submit_msg_def new_command_def new_message_def

lemma cp_new_reachable: "cp_reachable sh cp_new"
  by (simp add: cp_new_def cp_reachable.start)

lemma demo_orders: "iter_order (cpe_caps_order cp_demo_env)"
  by (simp add: cp_demo_env_def iter_order_ascending)

lemma demo_alice:
  obtains st where "cp_step demo_sandbox cp_new st"
    "cp_auth st ''n'' = Some \<lparr> na_identity = ''alice'', na_generation = 1 \<rparr>"
proof -
  have "m_operation (demo_register_msg ''alice'') = OpControl CoRegisterOp"
    "m_payload (demo_register_msg ''alice'') = PlControl (CpRegister demo_node)"
    "\<forall>a. cp_auth cp_new (nr_node_id demo_node) = Some a \<longrightarrow> na_identity a = m_sender (demo_register_msg ''alice'')"
    "\<forall>c m. cpe_send_ok cp_demo_env c m"
    by (simp_all add: demo_defs cp_new_def cp_new_with_ingress_def)
  from serve_register_ok [OF this, of demo_sandbox] obtain st1 ack where
    "register_node demo_node (m_sender (demo_register_msg ''alice'')) (cpe_now cp_demo_env)
       (remove_node (nr_node_id demo_node) cp_new) = (Inr ack, st1)"
    "serve_message cp_demo_env (core_registry demo_sandbox cp_demo_env) DataPlaneNode 7 (demo_register_msg ''alice'') cp_new =
       Returned (st1\<lparr>cp_conns := (cp_conns cp_new)(nr_node_id demo_node \<mapsto> 7),
         cp_sent := cp_sent st1 @ [(7, make_result (demo_register_msg ''alice'') CoRegisterOp (CpRegisterAck ack))]\<rparr>)"
    by metis
  note reg = this
  have "cp_auth st1 ''n'' = Some \<lparr> na_identity = ''alice'', na_generation = 1 \<rparr>"
    using reg(1) by (auto simp: register_node_def Let_def demo_defs cp_new_def cp_new_with_ingress_def remove_node_def)
  then show ?thesis by (intro that [OF cp_step.message [OF reg(2)]]) simp
qed


theorem cp_forward_witness:
  "\<exists>st st'. cp_step demo_sandbox st st' \<and> (\<exists>a. cp_auth st' ''n'' = Some a \<and> na_identity a = ''alice'')"
proof -
  obtain st where "cp_step demo_sandbox cp_new st"
    "cp_auth st ''n'' = Some \<lparr> na_identity = ''alice'', na_generation = 1 \<rparr>"
    by (rule demo_alice)
  note this(2)
  from cp_forward [OF rtranclp.rtrancl_refl this cp_step.disconnect [of demo_sandbox _ 7]] show ?thesis
    using cp_step.disconnect [of demo_sandbox st 7] by fastforce
qed

theorem route_agent_spec_witness:
  "(\<exists>e. route_agent cp_demo_env (Some ''a'') cp_new = Inl e)"
  using route_agent_spec [OF cp_new_reachable demo_orders, of "Some ''a''"]
  by (simp add: cp_new_def cp_new_with_ingress_def)

theorem register_foreign_wipes_witness:
  "\<exists>st st'. serve_message cp_demo_env (core_registry demo_sandbox cp_demo_env) DataPlaneNode 8
       (demo_register_msg ''mallory'') st = Returned st' \<and>
     route_agent cp_demo_env None st' \<noteq> Inr ''n''"
proof -
  obtain st where st: "cp_step demo_sandbox cp_new st"
    "cp_auth st ''n'' = Some \<lparr> na_identity = ''alice'', na_generation = 1 \<rparr>"
    by (rule demo_alice)
  have "m_operation (demo_register_msg ''mallory'') = OpControl CoRegisterOp"
    "m_payload (demo_register_msg ''mallory'') = PlControl (CpRegister demo_node)"
    "cp_auth st (nr_node_id demo_node) = Some \<lparr> na_identity = ''alice'', na_generation = 1 \<rparr>"
    "na_identity \<lparr> na_identity = ''alice'', na_generation = 1 \<rparr> \<noteq> m_sender (demo_register_msg ''mallory'')"
    by (simp_all add: demo_defs st(2))
  from register_foreign_wipes [OF cp_reachable.step [OF cp_new_reachable st(1)] demo_orders this, of cp_demo_env 8]
  show ?thesis by (auto simp: demo_node_def)
qed

theorem submit_delivered_witness:
  "\<exists>st1 st2.
     serve_loop (core_registry demo_sandbox) DataPlaneNode 7
       [Inr (cp_demo_env, demo_register_msg ''alice''), Inr (cp_demo_env, demo_snapshot_msg)] cp_new = Returned st1 \<and>
     serve_message cp_demo_env (core_registry demo_sandbox cp_demo_env) Client 8 demo_submit_msg st1 = Returned st2 \<and>
     cp_sent st2 = cp_sent st1 @
       [(7, submit_message cp_demo_env ''n'' JNull (Some ''a'')), (8, submit_reply cp_demo_env demo_submit_msg)]"
proof -
  have "\<exists>st1 st2.
     serve_loop (core_registry demo_sandbox) DataPlaneNode 7
       [Inr (cp_demo_env, demo_register_msg ''alice''), Inr (cp_demo_env, demo_snapshot_msg)] cp_new = Returned st1 \<and>
     serve_message cp_demo_env (core_registry demo_sandbox cp_demo_env) Client 8 demo_submit_msg st1 = Returned st2 \<and>
     cp_sent st2 = cp_sent st1 @ [(7, submit_message cp_demo_env (nr_node_id demo_node) JNull (Some ''a'')),
       (8, submit_reply cp_demo_env demo_submit_msg)]"
    by (rule submit_delivered [OF cp_new_reachable demo_orders, where snap = demo_snapshot])
      (simp_all add: demo_defs cp_new_def cp_new_with_ingress_def offers_def)
  then show ?thesis by (simp add: demo_node_def)
qed

definition demo_state :: cp_state where
  "demo_state = cp_new\<lparr>cp_nodes := [''n'' \<mapsto> \<lparr> nd_node_id = ''n'', nd_name = ''node'', nd_version = ''1'',
       nd_status = ''online'', nd_last_seen_at_ms = Some 1, nd_capability_revision = 1, nd_load = no_load,
       nd_ws_url = None \<rparr>],
     cp_caps := [''n'' \<mapsto> demo_snapshot], cp_conns := [''n'' \<mapsto> 7]\<rparr>"

theorem submit_lost_witness:
  "handle_submit broken_env demo_submit_msg JNull (Some ''a'') demo_state =
     (Inr [submit_reply broken_env demo_submit_msg], demo_state)"
proof -
  have "route_agent broken_env (Some ''a'') demo_state = Inr ''n''"
    by (simp add: route_agent_def list_snapshots_def demo_state_def demo_defs ascending_def is_online_def offers_def)
  moreover have "cp_conns demo_state ''n'' = Some 7"
    "\<not> cpe_send_ok broken_env 7 (submit_message broken_env ''n'' JNull (Some ''a''))"
    by (simp_all add: demo_state_def broken_env_def)
  ultimately show ?thesis by (rule submit_lost [THEN conjunct1])
qed


end
