(* ===== verification/Utf8.thy ===== *)
theory Utf8
  imports Prelude
begin

text \<open>
  UTF-8 as the standard library of Rust checks it: which byte sequences are valid texts, and the lossy
  reading that replaces each invalid sequence.  Strings of the development are lists of bytes.
\<close>

section \<open>One character\<close>

definition byte :: "char \<Rightarrow> nat" where
  "byte c = of_char c"

definition between :: "nat \<Rightarrow> nat \<Rightarrow> string \<Rightarrow> bool" where
  "between lo hi s = (case s of [] \<Rightarrow> False | c # cs \<Rightarrow> lo \<le> byte c \<and> byte c \<le> hi)"

text \<open>
  How many bytes at the front form a character, or, when they do not, how many belong to the invalid
  sequence.
\<close>

definition scan_char :: "char \<Rightarrow> string \<Rightarrow> bool \<times> nat" where
  "scan_char c s =
     (let b = byte c in
      if b < 128 then (True, 1)
      else if 194 \<le> b \<and> b \<le> 223 then (if between 128 191 s then (True, 2) else (False, 1))
      else if 224 \<le> b \<and> b \<le> 239 then
        (if between (if b = 224 then 160 else 128) (if b = 237 then 159 else 191) s
         then if between 128 191 (drop 1 s) then (True, 3) else (False, 2)
         else (False, 1))
      else if 240 \<le> b \<and> b \<le> 244 then
        (if between (if b = 240 then 144 else 128) (if b = 244 then 143 else 191) s
         then if between 128 191 (drop 1 s)
              then if between 128 191 (drop 2 s) then (True, 4) else (False, 3)
              else (False, 2)
         else (False, 1))
      else (False, 1))"

lemma scan_char_pos: "scan_char c s = (ok, n) \<Longrightarrow> 0 < n"
  by (auto simp: scan_char_def Let_def split: if_splits)

section \<open>Texts\<close>

function valid_utf8 :: "string \<Rightarrow> bool" where
  "valid_utf8 [] = True"
| "valid_utf8 (c # s) =
     (case scan_char c s of (ok, n) \<Rightarrow> ok \<and> valid_utf8 (drop (n - 1) s))"
  by pat_completeness auto
termination by (relation "measure length") auto

definition replacement :: string where
  "replacement = [CHR 0xEF, CHR 0xBF, CHR 0xBD]"

function lossy_utf8 :: "string \<Rightarrow> string" where
  "lossy_utf8 [] = []"
| "lossy_utf8 (c # s) =
     (case scan_char c s of (ok, n) \<Rightarrow>
        (if ok then c # take (n - 1) s else replacement) @ lossy_utf8 (drop (n - 1) s))"
  by pat_completeness auto
termination by (relation "measure length") auto

text \<open>A text as the list of its characters.\<close>

function utf8_chars :: "string \<Rightarrow> string list" where
  "utf8_chars [] = []"
| "utf8_chars (c # s) =
     (case scan_char c s of (ok, n) \<Rightarrow> (c # take (n - 1) s) # utf8_chars (drop (n - 1) s))"
  by pat_completeness auto
termination by (relation "measure length") auto

lemma lossy_valid: "valid_utf8 s \<Longrightarrow> lossy_utf8 s = s"
  by (induction s rule: valid_utf8.induct) (auto split: prod.splits)

text \<open>An ASCII character ends every character before it.\<close>

lemma scan_char_cut: "byte a < 128 \<Longrightarrow> scan_char c (s @ a # t) = scan_char c s"
proof -
  assume a: "byte a < 128"
  then have low: "\<not> 128 \<le> byte a" "\<not> 144 \<le> byte a" "\<not> 160 \<le> byte a" by simp_all
  have step: "between lo hi (x # r) \<longleftrightarrow> lo \<le> byte x \<and> byte x \<le> hi" for lo hi x r
    by (simp add: between_def)
  have empty: "\<not> between lo hi []" for lo hi
    by (simp add: between_def)
  consider "s = []" | x where "s = [x]" | x y where "s = [x, y]" | x y z r where "s = x # y # z # r"
    by (metis list.exhaust)
  then show ?thesis
    by cases (simp_all add: scan_char_def Let_def low step empty)
qed

lemma scan_char_length: "scan_char c s = (ok, n) \<Longrightarrow> n - 1 \<le> length s"
  by (auto simp: scan_char_def Let_def between_def split: if_splits list.splits)

lemma scan_char_ascii: "byte a < 128 \<Longrightarrow> scan_char a t = (True, 1)"
  by (simp add: scan_char_def)

lemma valid_cut: "byte a < 128 \<Longrightarrow> valid_utf8 (s @ a # t) \<longleftrightarrow> valid_utf8 s \<and> valid_utf8 t"
proof (induction s rule: valid_utf8.induct)
  case 1
  then show ?case by (simp add: scan_char_ascii)
next
  case (2 c s)
  obtain ok n where n: "scan_char c s = (ok, n)" by fastforce
  then have "drop (n - 1) (s @ a # t) = drop (n - 1) s @ a # t"
    using scan_char_length [of c s ok n] by simp
  with 2(1) [OF n [symmetric]] 2(2) n show ?case by (auto simp: scan_char_cut)
qed

lemma lossy_cut: "byte a < 128 \<Longrightarrow> lossy_utf8 (s @ a # t) = lossy_utf8 s @ a # lossy_utf8 t"
proof (induction s rule: lossy_utf8.induct)
  case 1
  then show ?case by (simp add: scan_char_ascii)
next
  case (2 c s)
  obtain ok n where n: "scan_char c s = (ok, n)" by fastforce
  then have "n - 1 \<le> length s" using scan_char_length by blast
  then have "drop (n - 1) (s @ a # t) = drop (n - 1) s @ a # t" "take (n - 1) (s @ a # t) = take (n - 1) s"
    by simp_all
  with 2(1) [OF n [symmetric]] 2(2) n show ?case by (simp add: scan_char_cut)
qed

lemma byte_newline: "byte (CHR 0x0A) = 10"
  by (simp add: byte_def)

lemma byte_return: "byte (CHR 0x0D) = 13"
  by (simp add: byte_def)

lemma lossy_newline_free: "newline_free s \<Longrightarrow> newline_free (lossy_utf8 s)"
proof (induction s rule: lossy_utf8.induct)
  case 1
  then show ?case by simp
next
  case (2 c s)
  obtain ok n where n: "scan_char c s = (ok, n)" by fastforce
  have "newline_free (drop (n - 1) s)" "newline_free (c # take (n - 1) s)"
    using 2(2) by (auto simp: newline_free_def dest: in_set_dropD in_set_takeD)
  with 2(1) [OF n [symmetric]] n show ?case by (auto simp: newline_free_def replacement_def)
qed

text \<open>The lines of a text are texts.\<close>

lemma valid_split_lines: "valid_utf8 (cur @ s) \<Longrightarrow> list_all valid_utf8 (split_lines cur s)"
proof (induction s arbitrary: cur)
  case Nil
  then show ?case by simp
next
  case (Cons a s)
  show ?case
  proof (cases "a = CHR 0x0A")
    case True
    with Cons.prems have cur: "valid_utf8 cur" and s: "valid_utf8 s"
      using valid_cut [of a cur s] by (simp_all add: byte_newline)
    have "valid_utf8 (butlast cur)" if "cur \<noteq> []" "last cur = CHR 0x0D"
      using that cur valid_cut [of "CHR 0x0D" "butlast cur" "[]"]
      by (metis append_butlast_last_id byte_return numeral_less_iff semiring_norm)
    with True cur Cons.IH [of "[]"] s show ?thesis by simp
  next
    case False
    with Cons.prems Cons.IH [of "cur @ [a]"] show ?thesis by simp
  qed
qed

lemma split_lines_valid: "list_all valid_utf8 (split_lines cur s) \<Longrightarrow> valid_utf8 (cur @ s)"
proof (induction s arbitrary: cur)
  case Nil
  then show ?case by (simp split: if_splits)
next
  case (Cons a s)
  show ?case
  proof (cases "a = CHR 0x0A")
    case True
    with Cons.prems have "valid_utf8 s" using Cons.IH [of "[]"] by simp
    moreover have "valid_utf8 cur"
    proof (cases "cur \<noteq> [] \<and> last cur = CHR 0x0D")
      case cr: True
      with Cons.prems True have "valid_utf8 (butlast cur)" by simp
      with cr valid_cut [of "CHR 0x0D" "butlast cur" "[]"] show ?thesis
        by (metis append_butlast_last_id byte_return numeral_less_iff semiring_norm valid_utf8.simps(1))
    next
      case False
      with Cons.prems True show ?thesis by (simp split: if_splits)
    qed
    ultimately show ?thesis using True valid_cut [of a cur s] by (simp add: byte_newline)
  next
    case False
    with Cons.prems Cons.IH [of "cur @ [a]"] show ?thesis by simp
  qed
qed

lemma str_lines_valid_iff: "list_all valid_utf8 (str_lines s) \<longleftrightarrow> valid_utf8 s"
  using split_lines_valid [of "[]" s] valid_split_lines [of "[]" s] by (auto simp: str_lines_def)

lemma valid_str_lines: "valid_utf8 s \<Longrightarrow> list_all valid_utf8 (str_lines s)"
  using valid_split_lines [of "[]"] by (simp add: str_lines_def)

end
