(* ===== verification/Utf8Correct.thy ===== *)
theory Utf8Correct
  imports Utf8
begin

text \<open>
  Facts about UTF-8 that several components use: the bytes of a character, joining and cutting texts, and
  the lossy reading, which always gives a text.
\<close>

section \<open>Characters\<close>

text \<open>A character starts at every byte that does not continue one.\<close>

definition char_boundary :: "nat \<Rightarrow> string \<Rightarrow> bool" where
  "char_boundary i s \<longleftrightarrow> i = 0 \<or> i = length s \<or>
     (i < length s \<and> \<not> (128 \<le> byte (s ! i) \<and> byte (s ! i) < 192))"

lemma scan_char_True:
  "scan_char c s = (True, n) \<longleftrightarrow>
     n = 1 \<and> byte c < 128 \<or>
     n = 2 \<and> 194 \<le> byte c \<and> byte c \<le> 223 \<and> between 128 191 s \<or>
     n = 3 \<and> 224 \<le> byte c \<and> byte c \<le> 239 \<and>
       between (if byte c = 224 then 160 else 128) (if byte c = 237 then 159 else 191) s \<and> between 128 191 (drop 1 s) \<or>
     n = 4 \<and> 240 \<le> byte c \<and> byte c \<le> 244 \<and>
       between (if byte c = 240 then 144 else 128) (if byte c = 244 then 143 else 191) s \<and>
       between 128 191 (drop 1 s) \<and> between 128 191 (drop 2 s)"
  unfolding scan_char_def Let_def
  by (cases "byte c < 128"; cases "byte c \<le> 223"; cases "byte c \<le> 239") auto

lemma betweenE:
  assumes "between lo hi s"
  obtains x r where "s = x # r" and "lo \<le> byte x" and "byte x \<le> hi"
  using assms by (cases s) (auto simp: between_def)

lemma between_Cons [simp]: "between lo hi (x # r) \<longleftrightarrow> lo \<le> byte x \<and> byte x \<le> hi"
  by (simp add: between_def)

lemma scan_char_cases:
  assumes "scan_char c s = (True, n)"
  obtains "n = 1" "byte c < 128"
  | x r where "n = 2" "s = x # r" "128 \<le> byte x" "byte x < 192"
  | x y r where "n = 3" "s = x # y # r" "128 \<le> byte x" "byte x < 192" "128 \<le> byte y" "byte y < 192"
  | x y z r where "n = 4" "s = x # y # z # r" "128 \<le> byte x" "byte x < 192" "128 \<le> byte y" "byte y < 192"
      "128 \<le> byte z" "byte z < 192"
  using assms unfolding scan_char_True
  by (elim disjE conjE betweenE) (auto split: if_splits elim!: betweenE)

lemma scan_char_ok:
  assumes "scan_char c s = (True, n)"
  shows "n \<le> 4" and "\<And>x. x \<in> set (take (n - 1) s) \<Longrightarrow> 128 \<le> byte x \<and> byte x < 192"
    and "\<And>t. scan_char c (take (n - 1) s @ t) = (True, n)"
proof -
  show "n \<le> 4" using assms by (rule scan_char_cases) simp_all
  show "128 \<le> byte x \<and> byte x < 192" if "x \<in> set (take (n - 1) s)" for x
    using assms by (rule scan_char_cases) (use that in auto)
  show "scan_char c (take (n - 1) s @ t) = (True, n)" for t
    using assms by (rule scan_char_cases) (use assms in \<open>simp_all add: scan_char_True\<close>)
qed

lemma valid_char: "scan_char c s = (True, n) \<Longrightarrow> valid_utf8 (c # take (n - 1) s)"
  using scan_char_ok(3) [of c s n "[]"] scan_char_length [of c s True n] by simp

lemma scan_char_more: "scan_char c s = (True, n) \<Longrightarrow> scan_char c (s @ y) = (True, n)"
  using scan_char_ok(3) [of c s n "drop (n - 1) s @ y"] by (simp flip: append_assoc)

lemma valid_utf8_append: "valid_utf8 x \<Longrightarrow> valid_utf8 y \<Longrightarrow> valid_utf8 (x @ y)"
proof (induction x rule: valid_utf8.induct)
  case (2 c s)
  obtain n where n: "scan_char c s = (True, n)" "valid_utf8 (drop (n - 1) s)"
    using 2(2) by (cases "scan_char c s") auto
  have "drop (n - 1) (s @ y) = drop (n - 1) s @ y" using scan_char_length [OF n(1)] by simp
  with 2(1) [OF n(1) [symmetric]] n 2(3) show ?case by (simp add: scan_char_more)
qed simp

lemma valid_utf8_concat: "list_all valid_utf8 cs \<Longrightarrow> valid_utf8 (concat cs)"
  by (induction cs) (simp_all add: valid_utf8_append)

lemma valid_replacement: "valid_utf8 replacement"
  by (simp add: replacement_def scan_char_def byte_def between_def)

lemma valid_lossy: "valid_utf8 (lossy_utf8 s)"
proof (induction s rule: lossy_utf8.induct)
  case (2 c s)
  obtain ok n where n: "scan_char c s = (ok, n)" by fastforce
  have "valid_utf8 (if ok then c # take (n - 1) s else replacement)"
    using valid_char n valid_replacement by (cases ok) auto
  with 2 [OF n [symmetric]] n valid_utf8_append show ?case by simp
qed simp

text \<open>A text cut at the start of a character is two texts.\<close>

lemma boundary_inside:
  assumes "scan_char c s = (True, n)" and "char_boundary i (c # s)" and "0 < i" and "i \<le> length (c # s)"
  shows "n \<le> i"
proof (rule ccontr)
  assume "\<not> n \<le> i"
  then have i: "i - 1 < n - 1" using assms(3) by simp
  then have "i - 1 < length s" using scan_char_length [OF assms(1)] by simp
  then have "take (n - 1) s ! (i - 1) \<in> set (take (n - 1) s)" using i by (intro nth_mem) simp
  then have "128 \<le> byte (s ! (i - 1)) \<and> byte (s ! (i - 1)) < 192" using scan_char_ok(2) [OF assms(1)] i by simp
  with assms(2-4) \<open>i - 1 < length s\<close> show False by (auto simp: char_boundary_def nth_Cons')
qed

lemma valid_take: "valid_utf8 s \<Longrightarrow> char_boundary i s \<Longrightarrow> i \<le> length s \<Longrightarrow> valid_utf8 (take i s)"
proof (induction s arbitrary: i rule: valid_utf8.induct)
  case (2 c s)
  then obtain n where n: "scan_char c s = (True, n)" "valid_utf8 (drop (n - 1) s)" by (auto split: prod.splits)
  show ?case
  proof (cases "i = 0")
    case False
    then have le: "n \<le> i" using boundary_inside [OF n(1)] 2 by simp
    have pos: "0 < n" using n(1) by (rule scan_char_pos)
    have b: "char_boundary (i - n) (drop (n - 1) s)"
      using 2(3,4) le pos False by (auto simp: char_boundary_def nth_Cons')
    have "valid_utf8 (take (i - n) (drop (n - 1) s))"
      by (rule 2(1) [OF n(1) [symmetric]]) (use n b le pos 2(4) in auto)
    moreover have "take i (c # s) = (c # take (n - 1) s) @ take (i - n) (drop (n - 1) s)"
      using le pos by (cases i) (simp_all flip: take_add)
    ultimately show ?thesis using valid_utf8_append [OF valid_char [OF n(1)]] by (simp only:)
  qed simp
qed simp

lemma near_boundary: "valid_utf8 s \<Longrightarrow> i \<le> length s \<Longrightarrow> \<exists>k \<le> i. i < k + 4 \<and> char_boundary k s"
proof (induction s arbitrary: i rule: valid_utf8.induct)
  case (2 c s)
  then obtain n where n: "scan_char c s = (True, n)" "valid_utf8 (drop (n - 1) s)" by (auto split: prod.splits)
  have pos: "0 < n" using n(1) by (rule scan_char_pos)
  have len: "n - 1 \<le> length s" using n(1) by (rule scan_char_length)
  show ?case
  proof (cases "i < n")
    case True
    with scan_char_ok(1) [OF n(1)] show ?thesis by (intro exI [of _ 0]) (simp add: char_boundary_def)
  next
    case False
    have "\<exists>k \<le> i - n. i - n < k + 4 \<and> char_boundary k (drop (n - 1) s)"
      by (rule 2(1) [OF n(1) [symmetric]]) (use n False pos 2(3) in auto)
    then obtain k where k: "k \<le> i - n" "i - n < k + 4" "char_boundary k (drop (n - 1) s)" by blast
    have "char_boundary (k + n) (c # s)"
    proof (cases "k = 0")
      case zero: True
      show ?thesis
      proof (cases "drop (n - 1) s")
        case Nil
        with len pos show ?thesis by (simp add: zero char_boundary_def)
      next
        case (Cons d r)
        with n(2) obtain m where "scan_char d r = (True, m)" by (auto split: prod.splits)
        then have "\<not> (128 \<le> byte d \<and> byte d < 192)" by (auto simp: scan_char_def Let_def split: if_splits)
        moreover have "s ! (n - 1) = d" using Cons nth_drop [of "n - 1" s 0] len by simp
        moreover have "n - 1 < length s" using Cons by (metis drop_all linorder_not_le list.distinct(1))
        ultimately show ?thesis using pos by (auto simp: zero char_boundary_def nth_Cons')
      qed
    next
      case False
      with k(3) pos len show ?thesis by (auto simp: char_boundary_def nth_Cons' add.commute)
    qed
    with k False show ?thesis by (intro exI [of _ "k + n"]) auto
  qed
qed (auto simp: char_boundary_def)

section \<open>Characters\<close>

lemma concat_chars: "concat (utf8_chars s) = s"
  by (induction s rule: utf8_chars.induct) (auto split: prod.splits)

lemma char_valid: "valid_utf8 s \<Longrightarrow> c \<in> set (utf8_chars s) \<Longrightarrow> valid_utf8 c"
proof (induction s rule: utf8_chars.induct)
  case (2 a s)
  obtain k n where sc: "scan_char a s = (k, n)" by force
  show ?case
  proof (cases "c = a # take (n - 1) s")
    case True
    from 2(2) sc have "scan_char a s = (True, n)" by simp
    then show ?thesis unfolding True by (rule valid_char)
  next
    case False
    with 2 sc show ?thesis by simp
  qed
qed simp

lemma valid_chars: "valid_utf8 s \<Longrightarrow> valid_utf8 (concat (take n (utf8_chars s)))"
  by (rule valid_utf8_concat) (auto simp: list_all_iff dest: in_set_takeD char_valid)

end
