(* ===== verification/ChatMessage.thy ===== *)
theory ChatMessage
  imports ToolTypes
begin

text \<open>
  The messages of a conversation with a model, \<open>crates/vol-llm-core/src/message.rs\<close> and the tool calls
  they carry (\<open>tool.rs\<close>): roles, textual and multi-part contents, the constructors, and the two ways a
  content is read as text.
\<close>

section \<open>Tool calls\<close>

record tool_call =
  tc_id :: string
  tc_name :: string
  tc_arguments :: string
  tc_type :: string

record tool_definition =
  td_name :: string
  td_description :: "string option"
  td_parameters :: "json option"

definition function_call :: "string \<Rightarrow> string \<Rightarrow> string \<Rightarrow> tool_call" where
  "function_call i n args = \<lparr> tc_id = i, tc_name = n, tc_arguments = args, tc_type = ''function'' \<rparr>"

section \<open>Contents\<close>

datatype message_role = RSystem | RUser | RAssistant | RTool

record image_url =
  iu_url :: string
  iu_detail :: "string option"

datatype content_part = TextPart string | ImagePart image_url

datatype message_content = TextContent string | MultiPart "content_part list"

fun content_str :: "message_content \<Rightarrow> string" where
  "content_str (TextContent s) = s"
| "content_str (MultiPart parts) = []"

fun part_text :: "content_part \<Rightarrow> string" where
  "part_text (TextPart s) = s"
| "part_text (ImagePart i) = ''[image]''"

fun display_text :: "message_content \<Rightarrow> string" where
  "display_text (TextContent s) = s"
| "display_text (MultiPart parts) = join newline (map part_text parts)"

section \<open>Messages\<close>

record chat_message =
  cm_role :: message_role
  cm_content :: "message_content option"
  cm_tool_calls :: "tool_call list option"
  cm_tool_call_id :: "string option"
  cm_name :: "string option"
  cm_thinking :: "string option"

definition plain_msg :: "message_role \<Rightarrow> message_content \<Rightarrow> chat_message" where
  "plain_msg r c = \<lparr> cm_role = r, cm_content = Some c, cm_tool_calls = None, cm_tool_call_id = None,
     cm_name = None, cm_thinking = None \<rparr>"

definition system_msg :: "message_content \<Rightarrow> chat_message" where
  "system_msg c = plain_msg RSystem c"

definition user_msg :: "message_content \<Rightarrow> chat_message" where
  "user_msg c = plain_msg RUser c"

definition assistant_msg :: "message_content \<Rightarrow> chat_message" where
  "assistant_msg c = plain_msg RAssistant c"

definition assistant_with_tools :: "message_content \<Rightarrow> tool_call list \<Rightarrow> chat_message" where
  "assistant_with_tools c calls = (assistant_msg c)\<lparr>cm_tool_calls := Some calls\<rparr>"

definition tool_msg :: "message_content \<Rightarrow> string \<Rightarrow> chat_message" where
  "tool_msg c call = (plain_msg RTool c)\<lparr>cm_tool_call_id := Some call\<rparr>"

definition with_thinking :: "string \<Rightarrow> chat_message \<Rightarrow> chat_message" where
  "with_thinking t m = m\<lparr>cm_thinking := Some t\<rparr>"

lemmas [model_defs] = plain_msg_def system_msg_def user_msg_def assistant_msg_def assistant_with_tools_def
  tool_msg_def with_thinking_def

lemma msg_role [simp]:
  "cm_role (plain_msg r c) = r" "cm_role (system_msg c) = RSystem" "cm_role (user_msg c) = RUser"
  "cm_role (assistant_msg c) = RAssistant" "cm_role (assistant_with_tools c ts) = RAssistant"
  "cm_role (tool_msg c i) = RTool"
  by (simp_all add: model_defs)

lemma msg_content [simp]:
  "cm_content (plain_msg r c) = Some c" "cm_content (system_msg c) = Some c" "cm_content (user_msg c) = Some c"
  "cm_content (assistant_msg c) = Some c" "cm_content (assistant_with_tools c ts) = Some c"
  "cm_content (tool_msg c i) = Some c"
  by (simp_all add: model_defs)

end
