(* ===== verification/ContextBuilder.thy ===== *)
theory ContextBuilder
  imports ChatMessage
begin

text \<open>
  Assembling the context of a model call, \<open>crates/vol-llm-context/src/\<close>: anchored blocks and the token
  budget (\<open>context_block.rs\<close>), contributors (\<open>context_contributor.rs\<close>, \<open>builtin/\<close>) and the builder
  (\<open>builder.rs\<close>).  A contributor works on a state \<open>'s\<close> that the contributors share (files, sessions).
  The JSON text of a message, from which tokens are estimated, is a parameter.
\<close>

section \<open>Blocks and the token budget\<close>

datatype attention_anchor = Head u32 | Middle u32 | Tail u32

fun zone_priority :: "attention_anchor \<Rightarrow> u8" where
  "zone_priority (Head p) = 0"
| "zone_priority (Middle p) = 1"
| "zone_priority (Tail p) = 2"

fun position :: "attention_anchor \<Rightarrow> u32" where
  "position (Head p) = p"
| "position (Middle p) = p"
| "position (Tail p) = p"

text \<open>The order of anchors is reversed: the more important one is the greater.\<close>

definition anchor_less :: "attention_anchor \<Rightarrow> attention_anchor \<Rightarrow> bool" where
  "anchor_less a b \<longleftrightarrow> zone_priority b < zone_priority a \<or>
     (zone_priority b = zone_priority a \<and> position b < position a)"

record context_block =
  cb_messages :: "chat_message list"
  cb_anchor :: attention_anchor

record token_budget =
  tb_total :: nat
  tb_head_size :: nat
  tb_tail_size :: nat
  tb_used :: nat

definition new_budget :: "nat \<Rightarrow> nat \<Rightarrow> nat \<Rightarrow> token_budget" where
  "new_budget limit h t = \<lparr> tb_total = limit, tb_head_size = h, tb_tail_size = t, tb_used = 0 \<rparr>"

definition middle_budget :: "token_budget \<Rightarrow> nat" where
  "middle_budget b = tb_total b - tb_head_size b - tb_tail_size b"

definition remaining :: "token_budget \<Rightarrow> nat" where
  "remaining b = middle_budget b - tb_used b"

definition is_exceeded :: "token_budget \<Rightarrow> bool" where
  "is_exceeded b \<longleftrightarrow> middle_budget b < tb_used b"

definition image_token_budget :: nat where
  "image_token_budget = 1600"

fun part_tokens :: "content_part \<Rightarrow> nat" where
  "part_tokens (TextPart s) = length s div 4"
| "part_tokens (ImagePart i) = image_token_budget"

definition estimate_tokens :: "(chat_message \<Rightarrow> string) \<Rightarrow> chat_message \<Rightarrow> nat" where
  "estimate_tokens to_json m =
     (case cm_content m of
        Some (MultiPart parts) \<Rightarrow> sum_list (map part_tokens parts)
      | _ \<Rightarrow> length (to_json m) div 4)"

definition block_tokens :: "(chat_message \<Rightarrow> string) \<Rightarrow> context_block list \<Rightarrow> nat" where
  "block_tokens to_json bs = sum_list (map (estimate_tokens to_json) (concat (map cb_messages bs)))"

section \<open>Contributors\<close>

datatype context_error = ContributorError string string | BudgetExceeded nat

record 's contributor =
  ct_name :: string
  ct_contribute :: "('s, context_error, context_block list) eff"
  ct_compress :: "'s \<Rightarrow> 's"
  ct_estimate_size :: "'s \<Rightarrow> nat"

definition simple_contributor ::
  "(chat_message \<Rightarrow> string) \<Rightarrow> string \<Rightarrow> chat_message list \<Rightarrow> attention_anchor \<Rightarrow> 's contributor" where
  "simple_contributor to_json n msgs anchor =
     \<lparr> ct_name = n, ct_contribute = ret [\<lparr> cb_messages = msgs, cb_anchor = anchor \<rparr>],
       ct_compress = (\<lambda>s. s), ct_estimate_size = (\<lambda>s. sum_list (map (estimate_tokens to_json) msgs)) \<rparr>"

definition system_contributor :: "(chat_message \<Rightarrow> string) \<Rightarrow> string \<Rightarrow> 's contributor" where
  "system_contributor to_json text =
     simple_contributor to_json ''system'' [system_msg (TextContent text)] (Head 0)"

definition user_input_contributor :: "(chat_message \<Rightarrow> string) \<Rightarrow> string \<Rightarrow> 's contributor" where
  "user_input_contributor to_json input =
     \<lparr> ct_name = ''user_input'',
       ct_contribute = ret [\<lparr> cb_messages = [user_msg (TextContent input)], cb_anchor = Tail 0 \<rparr>],
       ct_compress = (\<lambda>s. s),
       ct_estimate_size = (\<lambda>s. estimate_tokens to_json (user_msg (TextContent input))) \<rparr>"

text \<open>Files are read from the state; a file that cannot be read is skipped.\<close>

record file_spec =
  fp_path :: string
  fp_anchor :: attention_anchor

definition file_blocks :: "('s \<Rightarrow> string \<Rightarrow> string option) \<Rightarrow> file_spec list \<Rightarrow> 's \<Rightarrow> context_block list" where
  "file_blocks read specs s = List.map_filter
     (\<lambda>f. case read s (fp_path f) of
        Some text \<Rightarrow> Some \<lparr> cb_messages = [system_msg (TextContent text)], cb_anchor = fp_anchor f \<rparr>
      | None \<Rightarrow> None) specs"

definition file_contributor ::
  "(chat_message \<Rightarrow> string) \<Rightarrow> ('s \<Rightarrow> string \<Rightarrow> string option) \<Rightarrow> file_spec list \<Rightarrow> 's contributor" where
  "file_contributor to_json read specs =
     \<lparr> ct_name = ''file'', ct_contribute = (\<lambda>s. (Inr (file_blocks read specs s), s)),
       ct_compress = (\<lambda>s. s),
       ct_estimate_size = (\<lambda>s. sum_list (map (\<lambda>text. estimate_tokens to_json (system_msg (TextContent text)))
          (List.map_filter (\<lambda>f. read s (fp_path f)) specs))) \<rparr>"

section \<open>The builder\<close>

record 's context_builder =
  bd_contributors :: "'s contributor list"
  bd_budget :: token_budget

definition builder_new :: "token_budget \<Rightarrow> 's context_builder" where
  "builder_new b = \<lparr> bd_contributors = [], bd_budget = b \<rparr>"

definition add_contributor :: "'s contributor \<Rightarrow> 's context_builder \<Rightarrow> 's context_builder" where
  "add_contributor c b = b\<lparr>bd_contributors := bd_contributors b @ [c]\<rparr>"

fun replace_first :: "string \<Rightarrow> 's contributor \<Rightarrow> 's contributor list \<Rightarrow> 's contributor list" where
  "replace_first n c [] = [c]"
| "replace_first n c (d # ds) = (if ct_name d = n then c # ds else d # replace_first n c ds)"

definition replace_contributor :: "string \<Rightarrow> 's contributor \<Rightarrow> 's context_builder \<Rightarrow> 's context_builder" where
  "replace_contributor n c b = b\<lparr>bd_contributors := replace_first n c (bd_contributors b)\<rparr>"

definition contributor_names :: "'s context_builder \<Rightarrow> string list" where
  "contributor_names b = map ct_name (bd_contributors b)"

record contributor_info =
  cf_name :: string
  cf_anchor_zone :: string
  cf_estimated_tokens :: nat
  cf_message_count :: nat

fun zone_name :: "attention_anchor \<Rightarrow> string" where
  "zone_name (Head p) = ''head''"
| "zone_name (Middle p) = ''middle''"
| "zone_name (Tail p) = ''tail''"

fun contributor_infos :: "'s contributor list \<Rightarrow> ('s, context_error, contributor_info list) eff" where
  "contributor_infos [] = ret []"
| "contributor_infos (c # cs) =
     bindE (ct_contribute c) (\<lambda>blocks s.
       bindE (contributor_infos cs) (\<lambda>rest. ret
         (\<lparr> cf_name = ct_name c,
            cf_anchor_zone = (case blocks of [] \<Rightarrow> ''unknown'' | b # bs \<Rightarrow> zone_name (cb_anchor b)),
            cf_estimated_tokens = ct_estimate_size c s,
            cf_message_count = sum_list (map (\<lambda>b. length (cb_messages b)) blocks) \<rparr> # rest)) s)"

fun role_name :: "message_role \<Rightarrow> string" where
  "role_name RSystem = ''system''"
| "role_name RUser = ''user''"
| "role_name RAssistant = ''assistant''"
| "role_name RTool = ''tool''"

definition snapshot_message :: "chat_message \<Rightarrow> string \<times> string" where
  "snapshot_message m = (role_name (cm_role m), case cm_content m of None \<Rightarrow> [] | Some c \<Rightarrow> display_text c)"

fun snapshot_by_name :: "string \<Rightarrow> 's contributor list \<Rightarrow> ('s, context_error, (string \<times> string) list) eff" where
  "snapshot_by_name n [] = fail (ContributorError n ''contributor not found'')"
| "snapshot_by_name n (c # cs) =
     (if ct_name c = n
      then bindE (ct_contribute c) (\<lambda>blocks. ret (map snapshot_message (concat (map cb_messages blocks))))
      else snapshot_by_name n cs)"

fun collect :: "'s contributor list \<Rightarrow> ('s, context_error, context_block list) eff" where
  "collect [] = ret []"
| "collect (c # cs) =
     bindE (ct_contribute c) (\<lambda>blocks. bindE (collect cs) (\<lambda>rest. ret (blocks @ rest)))"

definition compress_all :: "'s contributor list \<Rightarrow> 's \<Rightarrow> 's" where
  "compress_all cs s = foldl (\<lambda>s c. ct_compress c s) s cs"

definition is_head :: "context_block \<Rightarrow> bool" where
  "is_head b = (case cb_anchor b of Head p \<Rightarrow> True | _ \<Rightarrow> False)"

definition is_middle :: "context_block \<Rightarrow> bool" where
  "is_middle b = (case cb_anchor b of Middle p \<Rightarrow> True | _ \<Rightarrow> False)"

definition is_tail :: "context_block \<Rightarrow> bool" where
  "is_tail b = (case cb_anchor b of Tail p \<Rightarrow> True | _ \<Rightarrow> False)"

definition block_position :: "context_block \<Rightarrow> u32" where
  "block_position b = position (cb_anchor b)"

text \<open>Dropping blocks from the end of the middle zone until the zone fits.\<close>

function fit_middle :: "(chat_message \<Rightarrow> string) \<Rightarrow> nat \<Rightarrow> context_block list \<Rightarrow> context_block list" where
  "fit_middle to_json budget bs =
     (if budget < block_tokens to_json bs \<and> bs \<noteq> [] then fit_middle to_json budget (butlast bs) else bs)"
  by pat_completeness auto
termination by (relation "measure (\<lambda>(j, b, bs). length bs)") auto

declare fit_middle.simps [simp del]

definition messages_of :: "context_block list \<Rightarrow> chat_message list" where
  "messages_of bs = concat (map cb_messages bs)"

definition assemble ::
  "(chat_message \<Rightarrow> string) \<Rightarrow> token_budget \<Rightarrow> context_block list \<Rightarrow> chat_message list" where
  "assemble to_json budget blocks =
     (let head = sort_key block_position (filter is_head blocks);
          middle = sort_key block_position (filter is_middle blocks);
          tail = filter is_tail blocks
      in messages_of head @ messages_of (fit_middle to_json (middle_budget budget) middle) @ messages_of tail)"

definition build_context ::
  "(chat_message \<Rightarrow> string) \<Rightarrow> 's context_builder \<Rightarrow> ('s, context_error, chat_message list) eff" where
  "build_context to_json b =
     bindE (collect (bd_contributors b)) (\<lambda>blocks.
     bindE (if is_exceeded ((bd_budget b)\<lparr>tb_used := block_tokens to_json blocks\<rparr>)
            then (\<lambda>s. collect (bd_contributors b) (compress_all (bd_contributors b) s))
            else ret blocks)
       (\<lambda>blocks. ret (assemble to_json (bd_budget b) blocks)))"

section \<open>The builder of builders\<close>

record 's builder_builder =
  bb_token_limit :: nat
  bb_head_size :: nat
  bb_tail_size :: nat
  bb_contributors :: "'s contributor list"

definition bb_new :: "nat \<Rightarrow> 's builder_builder" where
  "bb_new limit = \<lparr> bb_token_limit = limit, bb_head_size = limit div 4, bb_tail_size = limit div 4,
     bb_contributors = [] \<rparr>"

definition bb_add_contributor :: "'s contributor \<Rightarrow> 's builder_builder \<Rightarrow> 's builder_builder" where
  "bb_add_contributor c b = b\<lparr>bb_contributors := bb_contributors b @ [c]\<rparr>"

definition bb_add_contributors_from :: "'s context_builder \<Rightarrow> 's builder_builder \<Rightarrow> 's builder_builder" where
  "bb_add_contributors_from from b = b\<lparr>bb_contributors := bb_contributors b @ bd_contributors from\<rparr>"

definition bb_build :: "'s builder_builder \<Rightarrow> 's context_builder" where
  "bb_build b = foldl (\<lambda>acc c. add_contributor c acc)
     (builder_new (new_budget (bb_token_limit b) (bb_head_size b) (bb_tail_size b))) (bb_contributors b)"

section \<open>What the builder keeps\<close>

lemma block_tokens_append [simp]: "block_tokens j (xs @ ys) = block_tokens j xs + block_tokens j ys"
  by (simp add: block_tokens_def)

lemma block_tokens_mono: "k \<le> l \<Longrightarrow> block_tokens j (take k bs) \<le> block_tokens j (take l bs)"
  by (metis block_tokens_append le_add1 le_iff_add take_add)

lemma fit_middle_take:
  "\<exists>k \<le> length bs. fit_middle j budget bs = take k bs \<and>
     (block_tokens j (take k bs) \<le> budget) \<and>
     (\<forall>l. k < l \<longrightarrow> l \<le> length bs \<longrightarrow> budget < block_tokens j (take l bs))"
proof (induction j budget bs rule: fit_middle.induct)
  case (1 j budget bs)
  show ?case
  proof (cases "budget < block_tokens j bs \<and> bs \<noteq> []")
    case False
    then have "fit_middle j budget bs = bs" by (subst fit_middle.simps) auto
    with False show ?thesis by (auto simp: block_tokens_def not_less intro!: exI [of _ "length bs"])
  next
    case True
    then obtain k where k: "k \<le> length (butlast bs)" "fit_middle j budget (butlast bs) = take k (butlast bs)"
      "block_tokens j (take k (butlast bs)) \<le> budget"
      "\<forall>l. k < l \<longrightarrow> l \<le> length (butlast bs) \<longrightarrow> budget < block_tokens j (take l (butlast bs))"
      using 1 by blast
    have take: "take l (butlast bs) = take l bs" if "l \<le> length (butlast bs)" for l
      using that True by (cases bs rule: rev_cases) auto
    have "budget < block_tokens j (take l bs)" if l: "k < l" "l \<le> length bs" for l
    proof (cases "l \<le> length (butlast bs)")
      case True
      with k(4) l(1) take show ?thesis by metis
    next
      case False
      with l(2) have "l = length bs" by simp
      with True show ?thesis by simp
    qed
    moreover have "fit_middle j budget bs = take k bs"
      using True k(1,2) take by (subst fit_middle.simps) auto
    ultimately show ?thesis using k(1,3) take [OF k(1)] by (intro exI [of _ k]) auto
  qed
qed

section \<open>Properties\<close>

text \<open>
  C12: what reaches the model.  Every block of the head comes first and every block of the tail last,
  and between them comes the longest run of middle blocks, in the order of their positions, that fits
  the budget of the middle zone; blocks with equal positions keep the order of their contributors.
  Head and tail are never shortened, and the tail is not ordered by position.
\<close>

theorem assemble_spec:
  "\<exists>k. let middle = sort_key block_position (filter is_middle blocks) in
     assemble j b blocks = messages_of (sort_key block_position (filter is_head blocks)) @
       messages_of (take k middle) @ messages_of (filter is_tail blocks) \<and>
     block_tokens j (take k middle) \<le> middle_budget b \<and>
     (\<forall>l. k < l \<longrightarrow> l \<le> length middle \<longrightarrow> middle_budget b < block_tokens j (take l middle))"
  using fit_middle_take [of "sort_key block_position (filter is_middle blocks)" j "middle_budget b"]
  by (auto simp: assemble_def Let_def)

text \<open>A middle block of two tokens is dropped when the middle zone has room for one.\<close>

theorem assemble_spec_witness:
  "assemble (\<lambda>m. ''8 bytes.'') (new_budget 1 0 0)
     [\<lparr> cb_messages = [user_msg (TextContent ''b'')], cb_anchor = Middle 0 \<rparr>,
      \<lparr> cb_messages = [system_msg (TextContent ''a'')], cb_anchor = Head 0 \<rparr>] = [system_msg (TextContent ''a'')]"
  using assemble_spec [of "[\<lparr> cb_messages = [user_msg (TextContent ''b'')], cb_anchor = Middle 0 \<rparr>,
      \<lparr> cb_messages = [system_msg (TextContent ''a'')], cb_anchor = Head 0 \<rparr>]" "\<lambda>m. ''8 bytes.''" "new_budget 1 0 0"]
  by (auto simp: Let_def is_head_def is_middle_def is_tail_def messages_of_def middle_budget_def new_budget_def
      block_tokens_def estimate_tokens_def user_msg_def plain_msg_def take_Cons' split: if_splits)

end
