(* ===== verification/SessionModel.thy ===== *)
theory SessionModel
  imports ContextBuilder "HOL-Library.List_Lexorder" "HOL-Library.Char_ord"
begin

text \<open>
  Sessions, \<open>crates/vol-session/src/\<close>: messages and entries (\<open>message.rs\<close>, \<open>entry.rs\<close>), the interface of
  an entry store with its contract and the union of metadata values (\<open>store.rs\<close>), compressors
  (\<open>compressor.rs\<close>, \<open>compressors/\<close>), and the session over any entry store (\<open>session.rs\<close>).  Timestamps are
  whole seconds, as in the code.
\<close>

section \<open>Messages and entries\<close>

record session_message =
  sm_id :: string
  sm_session_id :: string
  sm_message :: chat_message
  sm_parent_id :: "string option"
  sm_created_at :: int
  sm_metadata :: "string \<rightharpoonup> string"

definition new_session_message :: "string \<Rightarrow> int \<Rightarrow> string \<Rightarrow> chat_message \<Rightarrow> session_message" where
  "new_session_message uuid now sid m = \<lparr> sm_id = uuid, sm_session_id = sid, sm_message = m,
     sm_parent_id = None, sm_created_at = now, sm_metadata = Map.empty \<rparr>"

definition with_parent_id :: "string \<Rightarrow> session_message \<Rightarrow> session_message" where
  "with_parent_id p m = m\<lparr>sm_parent_id := Some p\<rparr>"

definition with_metadata :: "string \<Rightarrow> string \<Rightarrow> session_message \<Rightarrow> session_message" where
  "with_metadata k v m = m\<lparr>sm_metadata := (sm_metadata m)(k \<mapsto> v)\<rparr>"

datatype entry_type = MessageEntry | CheckpointEntry | SummaryEntry

datatype checkpoint_reason = Compression | Manual

datatype entry_data =
    MessageData session_message
  | CheckpointData checkpoint_reason "string option"
  | SummaryData string

fun data_type :: "entry_data \<Rightarrow> entry_type" where
  "data_type (MessageData m) = MessageEntry"
| "data_type (CheckpointData r n) = CheckpointEntry"
| "data_type (SummaryData s) = SummaryEntry"

record session_entry =
  en_id :: string
  en_session_id :: string
  en_created_at :: int
  en_parent_id :: "string option"
  en_type :: entry_type
  en_data :: entry_data

definition entry_of_message :: "session_message \<Rightarrow> session_entry" where
  "entry_of_message m = \<lparr> en_id = sm_id m, en_session_id = sm_session_id m, en_created_at = sm_created_at m,
     en_parent_id = sm_parent_id m, en_type = MessageEntry, en_data = MessageData m \<rparr>"

definition new_checkpoint ::
  "string \<Rightarrow> int \<Rightarrow> string \<Rightarrow> checkpoint_reason \<Rightarrow> string option \<Rightarrow> session_entry" where
  "new_checkpoint uuid now sid reason note = \<lparr> en_id = uuid, en_session_id = sid, en_created_at = now,
     en_parent_id = None, en_type = CheckpointEntry, en_data = CheckpointData reason note \<rparr>"

definition new_summary :: "string \<Rightarrow> int \<Rightarrow> string \<Rightarrow> string \<Rightarrow> session_entry" where
  "new_summary uuid now sid summary = \<lparr> en_id = uuid, en_session_id = sid, en_created_at = now,
     en_parent_id = None, en_type = SummaryEntry, en_data = SummaryData summary \<rparr>"

section \<open>Stores\<close>

datatype session_store_error =
    SsIo string
  | SsSerialization string
  | SsInvalidInput string
  | SsNotFound string
  | SsInternal string
  | SsDatabase string
  | SsScopeConflict string string string

fun display_session_store_error :: "session_store_error \<Rightarrow> string" where
  "display_session_store_error (SsIo e) = ''IO error: '' @ e"
| "display_session_store_error (SsSerialization e) = ''Serialization error: '' @ e"
| "display_session_store_error (SsInvalidInput e) = ''Invalid input: '' @ e"
| "display_session_store_error (SsNotFound e) = ''Not found: '' @ e"
| "display_session_store_error (SsInternal e) = ''Internal error: '' @ e"
| "display_session_store_error (SsDatabase e) = ''Database error: '' @ e"
| "display_session_store_error (SsScopeConflict s x a) =
     ''Session agent scope conflict for '' @ s @ '': expected '' @ x @ '', actual '' @ a"

type_synonym metadata = "string \<rightharpoonup> json"

text \<open>\<open>dyn SessionEntryStore\<close>: one operation per method of the trait.\<close>

record 's entry_store_ops =
  es_save :: "session_entry \<Rightarrow> ('s, session_store_error, unit) eff"
  es_entries :: "string \<Rightarrow> ('s, session_store_error, session_entry list) eff"
  es_after :: "string \<Rightarrow> int \<Rightarrow> ('s, session_store_error, session_entry list) eff"
  es_checkpoint :: "string \<Rightarrow> ('s, session_store_error, session_entry option) eff"
  es_delete :: "string \<Rightarrow> ('s, session_store_error, unit) eff"
  es_count :: "string \<Rightarrow> ('s, session_store_error, nat) eff"
  es_metadata :: "string \<Rightarrow> ('s, session_store_error, metadata) eff"
  es_merge :: "string \<Rightarrow> metadata \<Rightarrow> ('s, session_store_error, unit) eff"
  es_append :: "string \<Rightarrow> string \<Rightarrow> string list \<Rightarrow> ('s, session_store_error, unit) eff"

text \<open>The union of values into an array of the metadata; the result says whether it changed.\<close>

definition is_str :: "string \<Rightarrow> json \<Rightarrow> bool" where
  "is_str v j \<longleftrightarrow> j = JStr v"

definition union_values :: "json list \<Rightarrow> string list \<Rightarrow> json list" where
  "union_values arr vs = foldl (\<lambda>a v. if list_ex (is_str v) a then a else a @ [JStr v]) arr vs"

definition union_metadata_values ::
  "metadata \<Rightarrow> string \<Rightarrow> string list \<Rightarrow> session_store_error + bool \<times> metadata" where
  "union_metadata_values md key vs =
     (if vs = [] then Inr (False, md)
      else
        let into = (\<lambda>arr. let arr' = union_values arr vs
                          in if arr' \<noteq> arr then Inr (True, md(key \<mapsto> JArr arr')) else Inr (False, md))
        in case md key of
             None \<Rightarrow> into []
           | Some (JArr arr) \<Rightarrow> into arr
           | Some _ \<Rightarrow> Inl (SsInvalidInput (''session metadata key `'' @ key @
               ''` holds a non-array value; refusing to overwrite it'')))"

section \<open>The contract of an entry store\<close>

definition is_checkpoint :: "session_entry \<Rightarrow> bool" where
  "is_checkpoint e \<longleftrightarrow> en_type e = CheckpointEntry"

text \<open>
  \<open>content\<close> lists the entries of a session in the order they were saved.  A store may require of a
  checkpoint that it is not older than the checkpoints already there.
\<close>

definition in_order :: "session_entry list \<Rightarrow> session_entry \<Rightarrow> bool" where
  "in_order es e \<longleftrightarrow> (is_checkpoint e \<longrightarrow> (\<forall>c \<in> set es. is_checkpoint c \<longrightarrow> en_created_at c \<le> en_created_at e))"

locale entry_store =
  fixes ops :: "'s entry_store_ops"
    and inv :: "'s \<Rightarrow> bool"
    and storable :: "session_entry \<Rightarrow> bool"
    and content :: "'s \<Rightarrow> string \<Rightarrow> session_entry list"
    and meta :: "'s \<Rightarrow> string \<Rightarrow> metadata"
  assumes save_ok: "inv s \<Longrightarrow> storable e \<Longrightarrow> in_order (content s (en_session_id e)) e \<Longrightarrow>
      es_save ops e s = (Inr (), s') \<Longrightarrow>
      inv s' \<and> meta s' = meta s \<and>
      content s' = (content s)(en_session_id e := content s (en_session_id e) @ [e])"
    and entries_ok: "inv s \<Longrightarrow> es_entries ops sid s = (Inr es, s') \<Longrightarrow> es = content s sid \<and> s' = s"
    and after_ok: "inv s \<Longrightarrow> es_after ops sid t s = (Inr es, s') \<Longrightarrow>
      es = filter (\<lambda>e. t \<le> en_created_at e) (content s sid) \<and> s' = s"
    and checkpoint_ok: "inv s \<Longrightarrow> es_checkpoint ops sid s = (Inr c, s') \<Longrightarrow>
      s' = s \<and> (c = None \<longleftrightarrow> list_all (\<lambda>e. \<not> is_checkpoint e) (content s sid)) \<and>
      (\<forall>e. c = Some e \<longrightarrow> is_checkpoint e \<and> e \<in> set (content s sid) \<and>
         (\<forall>d \<in> set (content s sid). is_checkpoint d \<longrightarrow> en_created_at d \<le> en_created_at e))"
    and delete_ok: "inv s \<Longrightarrow> es_delete ops sid s = (Inr (), s') \<Longrightarrow>
      inv s' \<and> content s' = (content s)(sid := []) \<and> meta s' = (meta s)(sid := Map.empty)"
    and count_ok: "inv s \<Longrightarrow> es_count ops sid s = (Inr n, s') \<Longrightarrow> n = length (content s sid) \<and> s' = s"
    and metadata_ok: "inv s \<Longrightarrow> es_metadata ops sid s = (Inr md, s') \<Longrightarrow> md = meta s sid \<and> s' = s"
    and merge_ok: "inv s \<Longrightarrow> es_merge ops sid patch s = (Inr (), s') \<Longrightarrow>
      inv s' \<and> content s' = content s \<and> meta s' = (meta s)(sid := meta s sid ++ patch)"
    and append_ok: "inv s \<Longrightarrow> es_append ops sid key vs s = (Inr (), s') \<Longrightarrow>
      inv s' \<and> content s' = content s \<and>
      (\<exists>changed md. union_metadata_values (meta s sid) key vs = Inr (changed, md) \<and> meta s' = (meta s)(sid := md))"

text \<open>A store whose operations do not fail, as long as the values can be stored.\<close>

locale reliable_entry_store = entry_store +
  assumes save_total: "inv s \<Longrightarrow> storable e \<Longrightarrow> \<exists>s'. es_save ops e s = (Inr (), s')"
    and entries_total: "inv s \<Longrightarrow> \<exists>es s'. es_entries ops sid s = (Inr es, s')"
    and checkpoint_total: "inv s \<Longrightarrow> \<exists>c s'. es_checkpoint ops sid s = (Inr c, s')"

end
