(* ===== verification/SessionMemory.thy ===== *)
theory SessionMemory
  imports SessionModel
begin

text \<open>
  The stores in memory, \<open>crates/vol-session/src/memory_store.rs\<close>: entries with their metadata, the
  older message store, and the table of sessions.
\<close>

section \<open>The entry store\<close>

record mem_entries =
  me_entries :: "string \<rightharpoonup> session_entry list"
  me_metadata :: "string \<rightharpoonup> metadata"

definition me_new :: mem_entries where
  "me_new = \<lparr> me_entries = Map.empty, me_metadata = Map.empty \<rparr>"

definition or_empty :: "'a list option \<Rightarrow> 'a list" where
  "or_empty x = (case x of None \<Rightarrow> [] | Some xs \<Rightarrow> xs)"

lemma or_empty_simps [simp]: "or_empty None = []" "or_empty (Some xs) = xs"
  by (simp_all add: or_empty_def)

definition or_no_metadata :: "metadata option \<Rightarrow> metadata" where
  "or_no_metadata x = (case x of None \<Rightarrow> Map.empty | Some md \<Rightarrow> md)"

lemma or_no_metadata_simps [simp]: "or_no_metadata None = Map.empty" "or_no_metadata (Some md) = md"
  by (simp_all add: or_no_metadata_def)

type_synonym 'a me_eff = "(mem_entries, session_store_error, 'a) eff"

definition me_save :: "session_entry \<Rightarrow> unit me_eff" where
  "me_save e s = (Inr (), s\<lparr>me_entries := (me_entries s)(en_session_id e \<mapsto>
     or_empty (me_entries s (en_session_id e)) @ [e])\<rparr>)"

definition me_get_entries :: "string \<Rightarrow> session_entry list me_eff" where
  "me_get_entries sid s = (Inr (or_empty (me_entries s sid)), s)"

definition me_get_after :: "string \<Rightarrow> int \<Rightarrow> session_entry list me_eff" where
  "me_get_after sid t s = (Inr (filter (\<lambda>e. t \<le> en_created_at e) (or_empty (me_entries s sid))), s)"

text \<open>\<open>max_by_key\<close> returns the last of several greatest elements.\<close>

fun last_max :: "('a \<Rightarrow> int) \<Rightarrow> 'a list \<Rightarrow> 'a option \<Rightarrow> 'a option" where
  "last_max f [] acc = acc"
| "last_max f (x # xs) acc =
     last_max f xs (case acc of None \<Rightarrow> Some x | Some y \<Rightarrow> if f y \<le> f x then Some x else Some y)"

definition me_find_latest_checkpoint :: "string \<Rightarrow> session_entry option me_eff" where
  "me_find_latest_checkpoint sid s =
     (Inr (case me_entries s sid of
        None \<Rightarrow> None
      | Some es \<Rightarrow> last_max en_created_at (filter is_checkpoint es) None), s)"

definition me_delete_session :: "string \<Rightarrow> unit me_eff" where
  "me_delete_session sid s = (Inr (), s\<lparr>me_entries := (me_entries s)(sid := None),
     me_metadata := (me_metadata s)(sid := None)\<rparr>)"

definition me_get_count :: "string \<Rightarrow> nat me_eff" where
  "me_get_count sid s = (Inr (case me_entries s sid of None \<Rightarrow> 0 | Some es \<Rightarrow> length es), s)"

definition me_get_metadata :: "string \<Rightarrow> metadata me_eff" where
  "me_get_metadata sid s = (Inr (or_no_metadata (me_metadata s sid)), s)"

definition me_merge_metadata :: "string \<Rightarrow> metadata \<Rightarrow> unit me_eff" where
  "me_merge_metadata sid patch s =
     (Inr (), s\<lparr>me_metadata := (me_metadata s)(sid \<mapsto> or_no_metadata (me_metadata s sid) ++ patch)\<rparr>)"

definition me_append_values :: "string \<Rightarrow> string \<Rightarrow> string list \<Rightarrow> unit me_eff" where
  "me_append_values sid key vs s =
     (if vs = [] then (Inr (), s)
      else
        let md = or_no_metadata (me_metadata s sid)
        in case union_metadata_values md key vs of
             Inl e \<Rightarrow> (Inl e, s\<lparr>me_metadata := (me_metadata s)(sid \<mapsto> md)\<rparr>)
           | Inr (changed, md') \<Rightarrow> (Inr (), s\<lparr>me_metadata := (me_metadata s)(sid \<mapsto> md')\<rparr>))"

definition me_ops :: "mem_entries entry_store_ops" where
  "me_ops = \<lparr> es_save = me_save, es_entries = me_get_entries, es_after = me_get_after,
     es_checkpoint = me_find_latest_checkpoint, es_delete = me_delete_session, es_count = me_get_count,
     es_metadata = me_get_metadata, es_merge = me_merge_metadata, es_append = me_append_values \<rparr>"

definition me_content :: "mem_entries \<Rightarrow> string \<Rightarrow> session_entry list" where
  "me_content s sid = or_empty (me_entries s sid)"

definition me_meta :: "mem_entries \<Rightarrow> string \<Rightarrow> metadata" where
  "me_meta s sid = or_no_metadata (me_metadata s sid)"

lemma last_max_Some:
  "\<exists>z. last_max f xs (Some y) = Some z \<and> z \<in> insert y (set xs) \<and> (\<forall>x \<in> insert y (set xs). f x \<le> f z)"
proof (induction xs arbitrary: y)
  case Nil
  then show ?case by simp
next
  case (Cons a xs)
  obtain z where z: "last_max f xs (Some (if f y \<le> f a then a else y)) = Some z"
    "z \<in> insert (if f y \<le> f a then a else y) (set xs)"
    "\<forall>x \<in> insert (if f y \<le> f a then a else y) (set xs). f x \<le> f z"
    using Cons.IH by blast
  then have "last_max f (a # xs) (Some y) = Some z" by (simp split: if_splits)
  moreover have "f y \<le> f z" "f a \<le> f z" using z(3) by (auto split: if_splits)
  moreover have "z \<in> insert y (set (a # xs))" using z(2) by (auto split: if_splits)
  ultimately show ?case using z(3) by (intro exI [of _ z]) auto
qed

lemma last_max_spec:
  assumes "last_max f xs None = r"
  shows "(r = None \<longleftrightarrow> xs = []) \<and> (\<forall>y. r = Some y \<longrightarrow> y \<in> set xs \<and> (\<forall>z \<in> set xs. f z \<le> f y))"
proof (cases xs)
  case Nil
  with assms show ?thesis by auto
next
  case (Cons a ys)
  with assms last_max_Some [of f ys a] show ?thesis by auto
qed

lemma filter_checkpoint_Nil: "filter is_checkpoint es = [] \<longleftrightarrow> list_all (\<lambda>e. \<not> is_checkpoint e) es"
  by (auto simp: filter_empty_conv list_all_iff)

lemma me_reliable: "reliable_entry_store me_ops (\<lambda>s. True) (\<lambda>e. True) me_content me_meta"
proof unfold_locales
  fix s sid c s'
  assume c: "es_checkpoint me_ops sid s = (Inr c, s')"
  show "s' = s \<and> (c = None \<longleftrightarrow> list_all (\<lambda>e. \<not> is_checkpoint e) (me_content s sid)) \<and>
      (\<forall>e. c = Some e \<longrightarrow> is_checkpoint e \<and> e \<in> set (me_content s sid) \<and>
         (\<forall>d \<in> set (me_content s sid). is_checkpoint d \<longrightarrow> en_created_at d \<le> en_created_at e))"
  proof (cases "me_entries s sid")
    case None
    with c show ?thesis by (simp add: me_ops_def me_find_latest_checkpoint_def me_content_def)
  next
    case (Some es)
    with c have "last_max en_created_at (filter is_checkpoint es) None = c" and "s' = s"
      by (simp_all add: me_ops_def me_find_latest_checkpoint_def)
    with last_max_spec [OF this(1)] Some show ?thesis
      by (auto simp: me_content_def filter_checkpoint_Nil)
  qed
next
  fix s sid key vs s'
  assume a: "es_append me_ops sid key vs s = (Inr (), s')"
  show "True \<and> me_content s' = me_content s \<and>
      (\<exists>changed md. union_metadata_values (me_meta s sid) key vs = Inr (changed, md) \<and>
         me_meta s' = (me_meta s)(sid := md))"
  proof (cases "vs = []")
    case True
    with a show ?thesis by (auto simp: me_ops_def me_append_values_def union_metadata_values_def)
  next
    case False
    with a show ?thesis
      by (auto simp: me_ops_def me_append_values_def Let_def me_meta_def me_content_def
          split: sum.splits prod.splits)
  qed
qed (auto simp: me_ops_def me_save_def me_get_entries_def me_get_after_def me_delete_session_def
      me_get_count_def me_get_metadata_def me_merge_metadata_def me_content_def me_meta_def
      me_find_latest_checkpoint_def split: option.splits)

interpretation me: reliable_entry_store me_ops "\<lambda>s. True" "\<lambda>e. True" me_content me_meta
  by (rule me_reliable)

section \<open>The message store\<close>

type_synonym mem_messages = "string \<rightharpoonup> session_message list"

definition mm_save :: "session_message \<Rightarrow> mem_messages \<Rightarrow> mem_messages" where
  "mm_save m s = s(sm_session_id m \<mapsto> or_empty (s (sm_session_id m)) @ [m])"

definition mm_get_by_session :: "string \<Rightarrow> nat \<Rightarrow> mem_messages \<Rightarrow> session_message list" where
  "mm_get_by_session sid limit s = take limit (sort_key sm_created_at (or_empty (s sid)))"

definition mm_get_before :: "string \<Rightarrow> int \<Rightarrow> nat \<Rightarrow> mem_messages \<Rightarrow> session_message list" where
  "mm_get_before sid before limit s =
     take limit (sort_key sm_created_at (filter (\<lambda>m. sm_created_at m < before) (or_empty (s sid))))"

definition mm_get_after :: "string \<Rightarrow> int \<Rightarrow> nat \<Rightarrow> mem_messages \<Rightarrow> session_message list" where
  "mm_get_after sid after limit s =
     take limit (sort_key sm_created_at (filter (\<lambda>m. after < sm_created_at m) (or_empty (s sid))))"

definition mm_delete_session :: "string \<Rightarrow> mem_messages \<Rightarrow> mem_messages" where
  "mm_delete_session sid s = s(sid := None)"

fun replace_message :: "string \<Rightarrow> session_message \<Rightarrow> session_message list \<Rightarrow> session_message list" where
  "replace_message i m [] = []"
| "replace_message i m (x # xs) = (if sm_id x = i then m # xs else x # replace_message i m xs)"

definition mm_update :: "string \<Rightarrow> session_message \<Rightarrow> mem_messages \<Rightarrow> mem_messages" where
  "mm_update i m s =
     (case s (sm_session_id m) of
        None \<Rightarrow> s
      | Some ms \<Rightarrow> s(sm_session_id m \<mapsto> replace_message i m ms))"

definition mm_get_count :: "string \<Rightarrow> mem_messages \<Rightarrow> nat" where
  "mm_get_count sid s = (case s sid of None \<Rightarrow> 0 | Some ms \<Rightarrow> length ms)"

definition mm_cleanup_expired :: "int \<Rightarrow> mem_messages \<Rightarrow> mem_messages" where
  "mm_cleanup_expired before s = (\<lambda>sid. map_option (filter (\<lambda>m. before \<le> sm_created_at m)) (s sid))"

end
