(* ===== verification/SessionFile.thy ===== *)
theory SessionFile
  imports SessionModel Utf8
begin

text \<open>
  The file store of sessions, \<open>crates/vol-session/src/file_store.rs\<close>: one line of JSON per entry, appended
  to the file of the session, and a sidecar file with the metadata.  The state is the content of the
  session directory, by file name.  The JSON library and the file system are parameters: \<open>je_fault\<close> says
  which calls fail and how many bytes a failing write leaves behind.  A session id is taken to be a plain
  name, without path separators, so that two ids never denote one file.
\<close>

section \<open>The environment\<close>

record entry_line =
  el_id :: string
  el_session_id :: string
  el_created_at :: int
  el_parent_id :: "string option"
  el_type :: string
  el_data :: json

datatype jsonl_call =
    MakeDir | AppendTo string | ReadFrom string | WriteTmp string | RenameTo string | RemoveAt string
  | ScanDir

record jsonl_env =
  je_line_ser :: "entry_line \<Rightarrow> string + string"
  je_line_de :: "string \<Rightarrow> entry_line option"
  je_data_ser :: "entry_data \<Rightarrow> string + json"
  je_data_de :: "json \<Rightarrow> entry_data option"
  je_meta_ser :: "metadata \<Rightarrow> string + string"
  je_meta_de :: "string \<Rightarrow> metadata option"
  je_fault :: "jsonl_call \<Rightarrow> (string \<times> nat) option"
  je_pid :: string
  je_order :: "(string \<rightharpoonup> string) \<Rightarrow> string list"

record jsonl_store =
  js_files :: "string \<rightharpoonup> string"
  js_seq :: nat

type_synonym 'a js_eff = "(jsonl_store, session_store_error, 'a) eff"

definition js_call :: "jsonl_env \<Rightarrow> jsonl_call \<Rightarrow> unit js_eff" where
  "js_call E c s = (case je_fault E c of None \<Rightarrow> (Inr (), s) | Some (e, k) \<Rightarrow> (Inl (SsIo e), s))"

definition put_file :: "string \<Rightarrow> string \<Rightarrow> jsonl_store \<Rightarrow> jsonl_store" where
  "put_file n c s = s\<lparr>js_files := (js_files s)(n \<mapsto> c)\<rparr>"

definition del_file :: "string \<Rightarrow> jsonl_store \<Rightarrow> jsonl_store" where
  "del_file n s = s\<lparr>js_files := (js_files s)(n := None)\<rparr>"

section \<open>File names\<close>

definition jsonl_name :: "string \<Rightarrow> string" where
  "jsonl_name sid = sid @ ''.jsonl''"

definition meta_name :: "string \<Rightarrow> string" where
  "meta_name sid = sid @ ''.meta.json''"

definition meta_tmp_name :: "jsonl_env \<Rightarrow> string \<Rightarrow> nat \<Rightarrow> string" where
  "meta_tmp_name E sid seq = sid @ ''.meta.json.'' @ je_pid E @ ''.'' @ show_nat seq @ ''.tmp''"

section \<open>Lines\<close>

fun type_text :: "entry_type \<Rightarrow> string" where
  "type_text MessageEntry = ''message''"
| "type_text CheckpointEntry = ''checkpoint''"
| "type_text SummaryEntry = ''summary''"

definition type_of_text :: "string \<Rightarrow> entry_type option" where
  "type_of_text s =
     (if s = ''message'' then Some MessageEntry
      else if s = ''checkpoint'' then Some CheckpointEntry
      else if s = ''summary'' then Some SummaryEntry
      else None)"

definition entry_to_json :: "jsonl_env \<Rightarrow> session_entry \<Rightarrow> session_store_error + string" where
  "entry_to_json E e =
     (case je_data_ser E (en_data e) of
        Inl x \<Rightarrow> Inl (SsSerialization (''Failed to serialize entry data: '' @ x))
      | Inr d \<Rightarrow>
          (case je_line_ser E \<lparr> el_id = en_id e, el_session_id = en_session_id e, el_created_at = en_created_at e,
                  el_parent_id = en_parent_id e, el_type = type_text (en_type e), el_data = d \<rparr> of
             Inl x \<Rightarrow> Inl (SsSerialization (''Failed to serialize entry: '' @ x))
           | Inr text \<Rightarrow> Inr text))"

definition entry_from_json :: "jsonl_env \<Rightarrow> string \<Rightarrow> session_entry option" where
  "entry_from_json E text =
     (case je_line_de E text of
        None \<Rightarrow> None
      | Some l \<Rightarrow>
          (case je_data_de E (el_data l) of
             None \<Rightarrow> None
           | Some d \<Rightarrow>
               (case type_of_text (el_type l) of
                  None \<Rightarrow> None
                | Some t \<Rightarrow> Some \<lparr> en_id = el_id l, en_session_id = el_session_id l,
                    en_created_at = el_created_at l, en_parent_id = el_parent_id l, en_type = t, en_data = d \<rparr>)))"

definition blank :: "string \<Rightarrow> bool" where
  "blank s \<longleftrightarrow> trim s = []"

definition bad_utf8 :: session_store_error where
  "bad_utf8 = SsIo ''stream did not contain valid UTF-8''"

text \<open>Reading lines in order until \<open>limit\<close> entries have been parsed; a line that is not a text is an error.\<close>

fun read_lines :: "jsonl_env \<Rightarrow> nat option \<Rightarrow> string list \<Rightarrow> session_entry list \<Rightarrow>
    session_store_error + session_entry list" where
  "read_lines E limit [] acc = Inr acc"
| "read_lines E limit (l # ls) acc =
     (if \<not> valid_utf8 l then Inl bad_utf8
      else if blank l then read_lines E limit ls acc
      else case entry_from_json E l of
             None \<Rightarrow> read_lines E limit ls acc
           | Some e \<Rightarrow> if limit = Some (length acc + 1) then Inr (acc @ [e])
                       else read_lines E limit ls (acc @ [e]))"

section \<open>Operations on entries\<close>

definition append_line :: "jsonl_env \<Rightarrow> string \<Rightarrow> string \<Rightarrow> unit js_eff" where
  "append_line E sid line =
     bindE (js_call E MakeDir) (\<lambda>u s.
       let n = jsonl_name sid;
           old = (case js_files s n of None \<Rightarrow> [] | Some c \<Rightarrow> c)
       in case je_fault E (AppendTo n) of
            None \<Rightarrow> (Inr (), put_file n (old @ line @ newline) s)
          | Some (e, k) \<Rightarrow> (Inl (SsIo e), put_file n (old @ take k (line @ newline)) s))"

definition js_save :: "jsonl_env \<Rightarrow> session_entry \<Rightarrow> unit js_eff" where
  "js_save E e = bindE (liftE (entry_to_json E e)) (\<lambda>line. append_line E (en_session_id e) line)"

definition with_file :: "jsonl_env \<Rightarrow> string \<Rightarrow> 'a \<Rightarrow> (string \<Rightarrow> session_store_error + 'a) \<Rightarrow> 'a js_eff" where
  "with_file E n absent f s =
     (case js_files s n of
        None \<Rightarrow> (Inr absent, s)
      | Some c \<Rightarrow> (case je_fault E (ReadFrom n) of
                     Some (e, k) \<Rightarrow> (Inl (SsIo e), s)
                   | None \<Rightarrow> (f c, s)))"

definition read_from_head :: "jsonl_env \<Rightarrow> string \<Rightarrow> nat option \<Rightarrow> session_entry list js_eff" where
  "read_from_head E sid limit =
     with_file E (jsonl_name sid) [] (\<lambda>c. read_lines E limit (str_lines c) [])"

definition parse_lines :: "jsonl_env \<Rightarrow> string list \<Rightarrow> session_entry list" where
  "parse_lines E ls = List.map_filter (entry_from_json E) (filter (\<lambda>l. \<not> blank l) ls)"

text \<open>The part of a text after its first line feed.\<close>

definition after_newline :: "string \<Rightarrow> string" where
  "after_newline s = drop 1 (dropWhile (\<lambda>c. c \<noteq> CHR 0x0A) s)"

definition read_from_tail :: "jsonl_env \<Rightarrow> string \<Rightarrow> nat \<Rightarrow> session_entry list js_eff" where
  "read_from_tail E sid buf_size =
     with_file E (jsonl_name sid) [] (\<lambda>c.
       let from = length c - buf_size;
           text = lossy_utf8 (drop from c);
           text = (if 0 < from then after_newline text else text)
       in Inr (parse_lines E (str_lines text)))"

definition js_get_entries :: "jsonl_env \<Rightarrow> string \<Rightarrow> session_entry list js_eff" where
  "js_get_entries E sid = read_from_head E sid None"

definition js_get_after :: "jsonl_env \<Rightarrow> string \<Rightarrow> int \<Rightarrow> session_entry list js_eff" where
  "js_get_after E sid t =
     bindE (read_from_head E sid None) (\<lambda>es. ret (filter (\<lambda>e. t \<le> en_created_at e) es))"

fun first_max :: "('a \<Rightarrow> int) \<Rightarrow> 'a list \<Rightarrow> 'a option \<Rightarrow> 'a option" where
  "first_max f [] acc = acc"
| "first_max f (x # xs) acc =
     first_max f xs (case acc of None \<Rightarrow> Some x | Some y \<Rightarrow> if f y < f x then Some x else Some y)"

definition tail_size :: nat where
  "tail_size = 64 * 1024"

definition js_find_latest_checkpoint :: "jsonl_env \<Rightarrow> string \<Rightarrow> session_entry option js_eff" where
  "js_find_latest_checkpoint E sid =
     bindE (read_from_tail E sid tail_size) (\<lambda>tail.
       case first_max en_created_at (filter is_checkpoint tail) None of
         Some e \<Rightarrow> ret (Some e)
       | None \<Rightarrow> bindE (read_from_head E sid None) (\<lambda>es.
           ret (first_max en_created_at (filter is_checkpoint es) None)))"

definition remove_at :: "jsonl_env \<Rightarrow> string \<Rightarrow> unit js_eff" where
  "remove_at E n s =
     (case js_files s n of
        None \<Rightarrow> (Inr (), s)
      | Some c \<Rightarrow> (case je_fault E (RemoveAt n) of
                     Some (e, k) \<Rightarrow> (Inl (SsIo e), s)
                   | None \<Rightarrow> (Inr (), del_file n s)))"

definition js_delete_session :: "jsonl_env \<Rightarrow> string \<Rightarrow> unit js_eff" where
  "js_delete_session E sid = bindE (remove_at E (jsonl_name sid)) (\<lambda>_. remove_at E (meta_name sid))"

definition js_get_count :: "jsonl_env \<Rightarrow> string \<Rightarrow> nat js_eff" where
  "js_get_count E sid = bindE (read_from_head E sid None) (\<lambda>es. ret (length es))"

section \<open>Listing\<close>

record session_summary =
  su_session_id :: string
  su_created_at :: int
  su_entry_count :: nat

definition nonblank_lines :: "string \<Rightarrow> string list" where
  "nonblank_lines c = filter (\<lambda>l. \<not> blank l) (str_lines c)"

definition summarize :: "jsonl_env \<Rightarrow> string \<Rightarrow> string \<Rightarrow> session_store_error + session_summary option" where
  "summarize E sid c =
     (if \<not> list_all valid_utf8 (str_lines c) then Inl bad_utf8
      else case parse_lines E (str_lines c) of
             [] \<Rightarrow> Inr None
           | e # es \<Rightarrow> Inr (Some \<lparr> su_session_id = sid, su_created_at = en_created_at e,
               su_entry_count = length (nonblank_lines c) \<rparr>))"

fun summarize_all :: "jsonl_env \<Rightarrow> string list \<Rightarrow> session_summary list js_eff" where
  "summarize_all E [] = ret []"
| "summarize_all E (n # ns) =
     (case strip_suffix ''.jsonl'' n of
        None \<Rightarrow> summarize_all E ns
      | Some sid \<Rightarrow>
          if sid = [] then summarize_all E ns
          else bindE (with_file E n None (summarize E sid)) (\<lambda>r.
                 bindE (summarize_all E ns) (\<lambda>rest.
                   ret (case r of None \<Rightarrow> rest | Some x \<Rightarrow> x # rest))))"

definition js_list_sessions :: "jsonl_env \<Rightarrow> session_summary list js_eff" where
  "js_list_sessions E =
     bindE (js_call E ScanDir) (\<lambda>_ s.
       bindE (summarize_all E (je_order E (js_files s)))
         (\<lambda>xs. ret (sort_key (\<lambda>x. - su_created_at x) xs)) s)"

section \<open>Metadata\<close>

definition js_get_metadata :: "jsonl_env \<Rightarrow> string \<Rightarrow> metadata js_eff" where
  "js_get_metadata E sid =
     with_file E (meta_name sid) Map.empty (\<lambda>c.
       if \<not> valid_utf8 c then Inl bad_utf8
       else Inr (case je_meta_de E c of None \<Rightarrow> Map.empty | Some md \<Rightarrow> md))"

definition js_write_metadata :: "jsonl_env \<Rightarrow> string \<Rightarrow> metadata \<Rightarrow> unit js_eff" where
  "js_write_metadata E sid md =
     bindE (js_call E MakeDir) (\<lambda>_ s.
       let tmp = meta_tmp_name E sid (js_seq s);
           s = s\<lparr>js_seq := Suc (js_seq s)\<rparr>
       in case je_meta_ser E md of
            Inl e \<Rightarrow> (Inl (SsSerialization e), s)
          | Inr text \<Rightarrow>
              (case je_fault E (WriteTmp (meta_name sid)) of
                 Some (e, k) \<Rightarrow> (Inl (SsIo e), put_file tmp (take k text) s)
               | None \<Rightarrow>
                   (case je_fault E (RenameTo (meta_name sid)) of
                      Some (e, k) \<Rightarrow> (Inl (SsIo e), del_file tmp (put_file tmp text s))
                    | None \<Rightarrow> (Inr (), put_file (meta_name sid) text (del_file tmp s)))))"

definition js_merge_metadata :: "jsonl_env \<Rightarrow> string \<Rightarrow> metadata \<Rightarrow> unit js_eff" where
  "js_merge_metadata E sid patch =
     bindE (js_get_metadata E sid) (\<lambda>md. js_write_metadata E sid (md ++ patch))"

definition js_append_values :: "jsonl_env \<Rightarrow> string \<Rightarrow> string \<Rightarrow> string list \<Rightarrow> unit js_eff" where
  "js_append_values E sid key vs =
     (if vs = [] then ret ()
      else bindE (js_get_metadata E sid) (\<lambda>md.
        case union_metadata_values md key vs of
          Inl e \<Rightarrow> fail e
        | Inr (changed, md') \<Rightarrow> if changed then js_write_metadata E sid md' else ret ()))"

definition js_ops :: "jsonl_env \<Rightarrow> jsonl_store entry_store_ops" where
  "js_ops E = \<lparr> es_save = js_save E, es_entries = js_get_entries E, es_after = js_get_after E,
     es_checkpoint = js_find_latest_checkpoint E, es_delete = js_delete_session E, es_count = js_get_count E,
     es_metadata = js_get_metadata E, es_merge = js_merge_metadata E, es_append = js_append_values E \<rparr>"

end
