(* ===== verification/SessionFileCorrect.thy ===== *)
theory SessionFileCorrect
  imports SessionFile
begin

text \<open>
  The file store of sessions keeps the contract of an entry store: its lines, parsed in order, are the
  entries of the session, and the checkpoint that is looked up in the last 64 KiB of the file is the
  latest of the whole file.
\<close>

section \<open>What is assumed of the JSON library\<close>

text \<open>
  Serialized values are read back, and the compact text of an entry is one line: not blank, valid UTF-8,
  without a line feed, beginning with an ASCII character and not ending in a carriage return.
\<close>

definition session_codec :: "jsonl_env \<Rightarrow> bool" where
  "session_codec E \<longleftrightarrow>
     (\<forall>l x. je_line_ser E l = Inr x \<longrightarrow> je_line_de E x = Some l \<and> newline_free x \<and> valid_utf8 x \<and>
        \<not> blank x \<and> byte (hd x) < 128 \<and> last x \<noteq> CHR 0x0D) \<and>
     (\<forall>d j. je_data_ser E d = Inr j \<longrightarrow> je_data_de E j = Some d) \<and>
     (\<forall>md x. je_meta_ser E md = Inr x \<longrightarrow> je_meta_de E x = Some md \<and> valid_utf8 x)"

lemma type_of_type_text [simp]: "type_of_text (type_text t) = Some t"
  by (cases t) (simp_all add: type_of_text_def)

lemma entry_codec:
  assumes "session_codec E" "entry_to_json E e = Inr x"
  shows "entry_from_json E x = Some e \<and> newline_free x \<and> valid_utf8 x \<and> \<not> blank x \<and>
     byte (hd x) < 128 \<and> last x \<noteq> CHR 0x0D"
  using assms
  by (auto simp: session_codec_def entry_to_json_def entry_from_json_def split: sum.splits option.splits)

section \<open>Names\<close>

lemma jsonl_name_inj [simp]: "jsonl_name a = jsonl_name b \<longleftrightarrow> a = b"
  by (simp add: jsonl_name_def)

lemma meta_name_inj [simp]: "meta_name a = meta_name b \<longleftrightarrow> a = b"
  by (simp add: meta_name_def)

lemma last_names:
  "last (jsonl_name a) = CHR ''l''" "last (meta_name a) = CHR ''n''" "last (meta_tmp_name E a k) = CHR ''p''"
  by (simp_all add: jsonl_name_def meta_name_def meta_tmp_name_def)

lemma names_differ [simp]:
  "jsonl_name a \<noteq> meta_name b" "meta_name b \<noteq> jsonl_name a"
  "meta_tmp_name E a k \<noteq> jsonl_name b" "jsonl_name b \<noteq> meta_tmp_name E a k"
  "meta_tmp_name E a k \<noteq> meta_name b" "meta_name b \<noteq> meta_tmp_name E a k"
  using last_names(1) [of a] last_names(1) [of b] last_names(2) [of b] last_names(3) [where a = a and E = E and k = k]
  by auto

section \<open>Files as lists of entries\<close>

definition closed_text :: "string \<Rightarrow> bool" where
  "closed_text c \<longleftrightarrow> c = [] \<or> (\<exists>x. c = x @ newline)"

definition entries_in :: "jsonl_env \<Rightarrow> string \<Rightarrow> session_entry list" where
  "entries_in E c = parse_lines E (str_lines c)"

definition checkpoints :: "session_entry list \<Rightarrow> session_entry list" where
  "checkpoints es = filter is_checkpoint es"

lemma checkpoints_append [simp]: "checkpoints (xs @ ys) = checkpoints xs @ checkpoints ys"
  by (simp add: checkpoints_def)

definition good_file :: "jsonl_env \<Rightarrow> string \<Rightarrow> bool" where
  "good_file E c \<longleftrightarrow> valid_utf8 c \<and> closed_text c \<and> sorted (map en_created_at (checkpoints (entries_in E c)))"

definition js_content :: "jsonl_env \<Rightarrow> jsonl_store \<Rightarrow> string \<Rightarrow> session_entry list" where
  "js_content E s sid = (case js_files s (jsonl_name sid) of None \<Rightarrow> [] | Some c \<Rightarrow> entries_in E c)"

definition js_meta :: "jsonl_env \<Rightarrow> jsonl_store \<Rightarrow> string \<Rightarrow> metadata" where
  "js_meta E s sid = (case js_files s (meta_name sid) of None \<Rightarrow> Map.empty
     | Some c \<Rightarrow> (case je_meta_de E c of None \<Rightarrow> Map.empty | Some md \<Rightarrow> md))"

definition js_inv :: "jsonl_env \<Rightarrow> jsonl_store \<Rightarrow> bool" where
  "js_inv E s \<longleftrightarrow> (\<forall>sid c. js_files s (jsonl_name sid) = Some c \<longrightarrow> good_file E c)"

definition js_storable :: "jsonl_env \<Rightarrow> session_entry \<Rightarrow> bool" where
  "js_storable E e \<longleftrightarrow> (\<exists>x. entry_to_json E e = Inr x)"

lemma parse_lines_append [simp]: "parse_lines E (xs @ ys) = parse_lines E xs @ parse_lines E ys"
  by (simp add: parse_lines_def map_filter_def)

lemma parse_lines_Nil [simp]: "parse_lines E [] = []"
  by (simp add: parse_lines_def map_filter_def)

lemma entries_in_append: "closed_text c \<Longrightarrow> entries_in E (c @ d) = entries_in E c @ entries_in E d"
  using str_lines_append by (auto simp: closed_text_def entries_in_def)

lemma entries_in_line:
  assumes "session_codec E" "entry_to_json E e = Inr x"
  shows "entries_in E (x @ newline) = [e]"
  using entry_codec [OF assms] str_lines_line [of x "[]"]
  by (auto simp: entries_in_def parse_lines_def map_filter_simps)

lemma good_file_Nil [simp]: "good_file E []"
  by (simp add: good_file_def closed_text_def entries_in_def parse_lines_def checkpoints_def)

lemma good_file_line:
  assumes "session_codec E" "entry_to_json E e = Inr x" "good_file E c" "in_order (entries_in E c) e"
  shows "good_file E (c @ x @ newline) \<and> entries_in E (c @ x @ newline) = entries_in E c @ [e]"
proof -
  have closed: "closed_text c" and valid: "valid_utf8 c"
    and srt: "sorted (map en_created_at (checkpoints (entries_in E c)))"
    using assms(3) by (simp_all add: good_file_def)
  have es: "entries_in E (c @ x @ newline) = entries_in E c @ [e]"
    using entries_in_append [OF closed] entries_in_line [OF assms(1,2)] by simp
  have "valid_utf8 (c @ x @ newline)"
  proof (cases "c = []")
    case True
    with entry_codec [OF assms(1,2)] valid_cut [of "CHR 0x0A" x "[]"] show ?thesis
      by (simp add: newline_def byte_newline)
  next
    case False
    then obtain y where y: "c = y @ newline" using closed by (auto simp: closed_text_def)
    with valid entry_codec [OF assms(1,2)] show ?thesis
      using valid_cut [of "CHR 0x0A" x "[]"] valid_cut [of "CHR 0x0A" y "x @ [CHR 0x0A]"]
        valid_cut [of "CHR 0x0A" y "[]"]
      by (simp add: newline_def byte_newline)
  qed
  moreover have "closed_text (c @ x @ newline)" by (auto simp: closed_text_def)
  moreover have "sorted (map en_created_at (checkpoints (entries_in E c @ [e])))"
    using srt assms(4) by (auto simp: checkpoints_def in_order_def sorted_append)
  ultimately show ?thesis using es by (simp add: good_file_def)
qed

section \<open>Reading\<close>

lemma read_lines_valid: "list_all valid_utf8 ls \<Longrightarrow> read_lines E None ls acc = Inr (acc @ parse_lines E ls)"
  by (induction ls arbitrary: acc) (auto simp: parse_lines_def map_filter_simps split: option.splits)

lemma head_ok:
  assumes "js_inv E s" "read_from_head E sid None s = (Inr es, s')"
  shows "es = js_content E s sid \<and> s' = s"
proof (cases "js_files s (jsonl_name sid)")
  case None
  with assms(2) show ?thesis by (simp add: read_from_head_def with_file_def js_content_def)
next
  case (Some c)
  with assms(1) have "list_all valid_utf8 (str_lines c)"
    by (auto simp: js_inv_def good_file_def intro: valid_str_lines)
  with Some assms(2) show ?thesis
    by (auto simp: read_from_head_def with_file_def js_content_def entries_in_def read_lines_valid
        split: option.splits)
qed

lemma after_newline_cut: "newline_free a \<Longrightarrow> after_newline (a @ newline @ b) = b"
  by (induction a) (auto simp: after_newline_def newline_def newline_free_def)

lemma first_newline:
  assumes "CHR 0x0A \<in> set s"
  obtains a b where "s = a @ newline @ b" "newline_free a"
  using split_list_first [OF assms] by (auto simp: newline_def newline_free_def)

text \<open>The entries read from the tail end the entries of the file.\<close>

lemma tail_suffix:
  assumes "good_file E c" "c \<noteq> []" "k < length c"
  shows "\<exists>pre. entries_in E c = pre @ entries_in E (if 0 < k then after_newline (lossy_utf8 (drop k c)) else lossy_utf8 (drop k c))"
proof (cases "0 < k")
  case False
  with assms show ?thesis by (simp add: good_file_def lossy_valid)
next
  case True
  obtain y where y: "c = y @ newline" using assms by (auto simp: good_file_def closed_text_def)
  with assms(3) have "CHR 0x0A \<in> set (drop k c)" by (simp add: newline_def)
  then obtain a b where ab: "drop k c = a @ newline @ b" "newline_free a" by (rule first_newline)
  have c: "c = (take k c @ a) @ newline @ b" using ab(1) by (metis append.assoc append_take_drop_id)
  have "valid_utf8 b"
    using assms(1) valid_cut [of "CHR 0x0A" "take k c @ a" b] c
    by (simp add: good_file_def newline_def byte_newline)
  then have "after_newline (lossy_utf8 (drop k c)) = b"
    using lossy_cut [of "CHR 0x0A" a b] after_newline_cut [OF lossy_newline_free [OF ab(2)], of b] ab(1)
    by (simp add: newline_def byte_newline lossy_valid)
  moreover have "entries_in E c = entries_in E ((take k c @ a) @ newline) @ entries_in E b"
    using entries_in_append [of "(take k c @ a) @ newline" E b] c by (auto simp: closed_text_def)
  ultimately show ?thesis using True by auto
qed

section \<open>The latest checkpoint\<close>

lemma first_max_Some:
  "\<exists>z. first_max f xs (Some y) = Some z \<and> z \<in> insert y (set xs) \<and> (\<forall>x \<in> insert y (set xs). f x \<le> f z)"
proof (induction xs arbitrary: y)
  case Nil
  then show ?case by simp
next
  case (Cons a xs)
  obtain z where z: "first_max f xs (Some (if f y < f a then a else y)) = Some z"
    "z \<in> insert (if f y < f a then a else y) (set xs)"
    "\<forall>x \<in> insert (if f y < f a then a else y) (set xs). f x \<le> f z"
    using Cons.IH by blast
  then have "first_max f (a # xs) (Some y) = Some z" by (simp split: if_splits)
  moreover have "f y \<le> f z" "f a \<le> f z" using z(3) by (auto split: if_splits)
  moreover have "z \<in> insert y (set (a # xs))" using z(2) by (auto split: if_splits)
  ultimately show ?case using z(3) by (intro exI [of _ z]) auto
qed

lemma first_max_spec:
  assumes "first_max f xs None = r"
  shows "(r = None \<longleftrightarrow> xs = []) \<and> (\<forall>y. r = Some y \<longrightarrow> y \<in> set xs \<and> (\<forall>z \<in> set xs. f z \<le> f y))"
proof (cases xs)
  case Nil
  with assms show ?thesis by auto
next
  case (Cons a ys)
  with assms first_max_Some [of f ys a] show ?thesis by auto
qed

definition latest_of :: "session_entry list \<Rightarrow> session_entry option \<Rightarrow> bool" where
  "latest_of es r \<longleftrightarrow> (r = None \<longleftrightarrow> list_all (\<lambda>e. \<not> is_checkpoint e) es) \<and>
     (\<forall>e. r = Some e \<longrightarrow> is_checkpoint e \<and> e \<in> set es \<and>
        (\<forall>d \<in> set es. is_checkpoint d \<longrightarrow> en_created_at d \<le> en_created_at e))"

lemma latest_first_max: "latest_of es (first_max en_created_at (filter is_checkpoint es) None)"
proof -
  obtain r where r: "first_max en_created_at (filter is_checkpoint es) None = r" by simp
  from first_max_spec [OF this] show ?thesis
    unfolding r by (auto simp: latest_of_def filter_empty_conv list_all_iff)
qed

lemma latest_suffix:
  assumes "latest_of suf r" "r = Some e" "sorted (map en_created_at (checkpoints (pre @ suf)))"
  shows "latest_of (pre @ suf) r"
proof -
  have e: "is_checkpoint e" "e \<in> set suf" "\<forall>d \<in> set suf. is_checkpoint d \<longrightarrow> en_created_at d \<le> en_created_at e"
    using assms(1,2) by (simp_all add: latest_of_def)
  have "en_created_at d \<le> en_created_at e" if "d \<in> set pre" "is_checkpoint d" for d
    using assms(3) that e(1,2) by (auto simp: checkpoints_def sorted_append)
  with e assms(2) show ?thesis by (auto simp: latest_of_def list_all_iff)
qed

lemma tail_ok:
  assumes "js_inv E s" "read_from_tail E sid n s = (Inr es, s')" "0 < n"
  shows "s' = s \<and> (\<exists>pre. js_content E s sid = pre @ es)"
proof (cases "js_files s (jsonl_name sid)")
  case None
  with assms(2) show ?thesis by (simp add: read_from_tail_def with_file_def js_content_def)
next
  case (Some c)
  with assms(1) have good: "good_file E c" by (auto simp: js_inv_def)
  from Some assms(2) have s': "s' = s" and es: "es = entries_in E (if 0 < length c - n
      then after_newline (lossy_utf8 (drop (length c - n) c)) else lossy_utf8 (drop (length c - n) c))"
    by (auto simp: read_from_tail_def with_file_def Let_def entries_in_def split: option.splits if_splits)
  show ?thesis
  proof (cases "c = []")
    case True
    with es s' Some show ?thesis by (simp add: js_content_def)
  next
    case False
    with assms(3) have "length c - n < length c" by simp
    from tail_suffix [OF good False this] es s' Some show ?thesis by (auto simp: js_content_def)
  qed
qed

lemma checkpoint_found:
  assumes "js_inv E s" "js_find_latest_checkpoint E sid s = (Inr r, s')"
  shows "s' = s \<and> latest_of (js_content E s sid) r"
proof -
  have srt: "sorted (map en_created_at (checkpoints (js_content E s sid)))"
    using assms(1) by (auto simp: js_inv_def good_file_def js_content_def checkpoints_def split: option.splits)
  from assms(2) obtain t s1 where t: "read_from_tail E sid tail_size s = (Inr t, s1)"
    and rest: "(case first_max en_created_at (filter is_checkpoint t) None of
       Some e \<Rightarrow> ret (Some e)
     | None \<Rightarrow> bindE (read_from_head E sid None) (\<lambda>es.
         ret (first_max en_created_at (filter is_checkpoint es) None))) s1 = (Inr r, s')"
    unfolding js_find_latest_checkpoint_def by (elim bindE_InrE)
  obtain pre where s1: "s1 = s" and pre: "js_content E s sid = pre @ t"
    using tail_ok [OF assms(1) t] by (auto simp: tail_size_def)
  show ?thesis
  proof (cases "first_max en_created_at (filter is_checkpoint t) None")
    case (Some e)
    with rest s1 have r: "r = Some e" "s' = s" by simp_all
    with Some latest_first_max [of t] have "latest_of t r" by simp
    from latest_suffix [OF this r(1)] srt pre have "latest_of (js_content E s sid) r" by simp
    with r(2) show ?thesis by simp
  next
    case None
    with rest s1 obtain es s2 where "read_from_head E sid None s = (Inr es, s2)"
      "r = first_max en_created_at (filter is_checkpoint es) None" "s' = s2"
      by (auto elim: bindE_InrE)
    with head_ok [OF assms(1)] latest_first_max [of es] show ?thesis by auto
  qed
qed

section \<open>The contract\<close>

lemma put_content [simp]:
  "js_content E (put_file (jsonl_name sid) c s) = (js_content E s)(sid := entries_in E c)"
  "js_content E (put_file (meta_name sid) c s) = js_content E s"
  "js_content E (put_file (meta_tmp_name E sid k) c s) = js_content E s"
  "js_content E (del_file (jsonl_name sid) s) = (js_content E s)(sid := [])"
  "js_content E (del_file (meta_name sid) s) = js_content E s"
  "js_content E (del_file (meta_tmp_name E sid k) s) = js_content E s"
  "js_content E (s\<lparr>js_seq := k\<rparr>) = js_content E s"
  by (rule ext; simp add: js_content_def put_file_def del_file_def)+

lemma put_meta [simp]:
  "js_meta E (put_file (jsonl_name sid) c s) = js_meta E s"
  "js_meta E (put_file (meta_name sid) c s) =
     (js_meta E s)(sid := (case je_meta_de E c of None \<Rightarrow> Map.empty | Some md \<Rightarrow> md))"
  "js_meta E (put_file (meta_tmp_name E sid k) c s) = js_meta E s"
  "js_meta E (del_file (jsonl_name sid) s) = js_meta E s"
  "js_meta E (del_file (meta_name sid) s) = (js_meta E s)(sid := Map.empty)"
  "js_meta E (del_file (meta_tmp_name E sid k) s) = js_meta E s"
  "js_meta E (s\<lparr>js_seq := k\<rparr>) = js_meta E s"
  by (rule ext, simp add: js_meta_def put_file_def del_file_def)+

lemma put_inv [simp]:
  "js_inv E s \<Longrightarrow> good_file E c \<Longrightarrow> js_inv E (put_file (jsonl_name sid) c s)"
  "js_inv E s \<Longrightarrow> js_inv E (put_file (meta_name sid) c s)"
  "js_inv E s \<Longrightarrow> js_inv E (put_file (meta_tmp_name E sid k) c s)"
  "js_inv E s \<Longrightarrow> js_inv E (del_file n s)"
  "js_inv E s \<Longrightarrow> js_inv E (s\<lparr>js_seq := k\<rparr>)"
  by (simp_all add: js_inv_def put_file_def del_file_def)

lemma absent_content: "js_files s (jsonl_name sid) = None \<Longrightarrow> (js_content E s)(sid := []) = js_content E s"
  by (rule ext) (simp add: js_content_def)

lemma absent_meta: "js_files s (meta_name sid) = None \<Longrightarrow> (js_meta E s)(sid := Map.empty) = js_meta E s"
  by (rule ext) (simp add: js_meta_def)

lemma metadata_read: "js_get_metadata E sid s = (Inr md, s') \<Longrightarrow> md = js_meta E s sid \<and> s' = s"
  by (auto simp: js_get_metadata_def with_file_def js_meta_def split: option.splits if_splits)

lemma metadata_written:
  assumes "session_codec E" "js_inv E s" "js_write_metadata E sid md s = (Inr (), s')"
  shows "js_inv E s' \<and> js_content E s' = js_content E s \<and> js_meta E s' = (js_meta E s)(sid := md)"
  using assms
  by (auto simp: js_write_metadata_def js_call_def bindE_def Let_def session_codec_def
      split: option.splits sum.splits)

lemma session_file_store:
  assumes codec: "session_codec E"
  shows "entry_store (js_ops E) (js_inv E) (js_storable E) (js_content E) (js_meta E)"
proof unfold_locales
  fix s e s'
  assume inv: "js_inv E s" and ord: "in_order (js_content E s (en_session_id e)) e"
    and ok: "es_save (js_ops E) e s = (Inr (), s')"
  obtain x where x: "entry_to_json E e = Inr x" "append_line E (en_session_id e) x s = (Inr (), s')"
    using ok by (cases "entry_to_json E e") (auto simp: js_ops_def js_save_def bindE_def)
  let ?n = "jsonl_name (en_session_id e)"
  let ?old = "case js_files s ?n of None \<Rightarrow> [] | Some c \<Rightarrow> c"
  have s': "s' = put_file ?n (?old @ x @ newline) s"
    using x(2) by (auto simp: append_line_def js_call_def bindE_def Let_def split: option.splits)
  have old: "entries_in E ?old = js_content E s (en_session_id e)" "good_file E ?old"
    using inv by (auto simp: js_content_def js_inv_def entries_in_def split: option.splits)
  with good_file_line [OF codec x(1) old(2)] ord s' inv
  show "js_inv E s' \<and> js_meta E s' = js_meta E s \<and>
      js_content E s' = (js_content E s)(en_session_id e := js_content E s (en_session_id e) @ [e])"
    by simp
next
  fix s sid es s'
  assume "js_inv E s" "es_entries (js_ops E) sid s = (Inr es, s')"
  then show "es = js_content E s sid \<and> s' = s"
    using head_ok by (simp add: js_ops_def js_get_entries_def)
next
  fix s sid t es s'
  assume "js_inv E s" "es_after (js_ops E) sid t s = (Inr es, s')"
  then show "es = filter (\<lambda>e. t \<le> en_created_at e) (js_content E s sid) \<and> s' = s"
    using head_ok by (fastforce simp: js_ops_def js_get_after_def elim: bindE_InrE)
next
  fix s sid c s'
  assume "js_inv E s" "es_checkpoint (js_ops E) sid s = (Inr c, s')"
  with checkpoint_found [of E s sid c s']
  show "s' = s \<and> (c = None \<longleftrightarrow> list_all (\<lambda>e. \<not> is_checkpoint e) (js_content E s sid)) \<and>
      (\<forall>e. c = Some e \<longrightarrow> is_checkpoint e \<and> e \<in> set (js_content E s sid) \<and>
         (\<forall>d \<in> set (js_content E s sid). is_checkpoint d \<longrightarrow> en_created_at d \<le> en_created_at e))"
    by (simp add: js_ops_def latest_of_def)
next
  fix s sid s'
  assume inv: "js_inv E s" and ok: "es_delete (js_ops E) sid s = (Inr (), s')"
  then show "js_inv E s' \<and> js_content E s' = (js_content E s)(sid := []) \<and> js_meta E s' = (js_meta E s)(sid := Map.empty)"
    using absent_content [of s sid E] absent_meta [of s sid E] absent_meta [of "del_file (jsonl_name sid) s" sid E]
    by (auto simp: js_ops_def js_delete_session_def remove_at_def bindE_def split: option.splits)
next
  fix s sid n s'
  assume "js_inv E s" "es_count (js_ops E) sid s = (Inr n, s')"
  then show "n = length (js_content E s sid) \<and> s' = s"
    using head_ok by (fastforce simp: js_ops_def js_get_count_def elim: bindE_InrE)
next
  fix s sid md s'
  assume "es_metadata (js_ops E) sid s = (Inr md, s')"
  then show "md = js_meta E s sid \<and> s' = s" using metadata_read by (simp add: js_ops_def)
next
  fix s sid patch s'
  assume inv: "js_inv E s" and ok: "es_merge (js_ops E) sid patch s = (Inr (), s')"
  then show "js_inv E s' \<and> js_content E s' = js_content E s \<and> js_meta E s' = (js_meta E s)(sid := js_meta E s sid ++ patch)"
    using metadata_written [OF codec inv] metadata_read
    by (fastforce simp: js_ops_def js_merge_metadata_def elim: bindE_InrE)
next
  fix s sid key vs s'
  assume inv: "js_inv E s" and ok: "es_append (js_ops E) sid key vs s = (Inr (), s')"
  show "js_inv E s' \<and> js_content E s' = js_content E s \<and>
      (\<exists>changed md. union_metadata_values (js_meta E s sid) key vs = Inr (changed, md) \<and>
         js_meta E s' = (js_meta E s)(sid := md))"
  proof (cases "vs = []")
    case True
    with inv ok show ?thesis by (auto simp: js_ops_def js_append_values_def union_metadata_values_def)
  next
    case False
    with ok obtain changed md where u: "union_metadata_values (js_meta E s sid) key vs = Inr (changed, md)"
      and w: "(if changed then js_write_metadata E sid md else ret ()) s = (Inr (), s')"
      using metadata_read
      by (fastforce simp: js_ops_def js_append_values_def elim!: bindE_InrE split: sum.splits prod.splits)
    have "\<not> changed \<Longrightarrow> md = js_meta E s sid"
      using u by (auto simp: union_metadata_values_def Let_def split: option.splits json.splits if_splits)
    with inv u w metadata_written [OF codec inv] show ?thesis by (cases changed) auto
  qed
qed

section \<open>Properties\<close>


text \<open>A write that breaks off, and the next one.\<close>

lemma torn_file:
  assumes "session_codec E" "good_file E c" "entry_to_json E e = Inr x" "entry_to_json E e' = Inr x'" "k \<le> length x"
    and "entry_from_json E (take k x @ x') = None"
  shows "valid_utf8 (c @ take k x @ x' @ newline) \<longleftrightarrow> valid_utf8 (take k x)"
    and "entries_in E (c @ take k x @ x' @ newline) = entries_in E c"
proof -
  note x = entry_codec [OF assms(1,3)] and x' = entry_codec [OF assms(1,4)]
  have ne: "x' \<noteq> []" using x' by (auto simp: blank_def trim_def trim_start_def trim_end_def)
  then obtain h t where ht: "x' = h # t" "byte h < 128" using x' by (cases x') auto
  have end': "valid_utf8 (y @ newline) \<longleftrightarrow> valid_utf8 y" for y
    using valid_cut [of "CHR 0x0A" y "[]"] by (simp add: newline_def byte_newline)
  have mid: "valid_utf8 (take k x @ x' @ newline) \<longleftrightarrow> valid_utf8 (take k x)"
    using valid_cut [OF ht(2), of "take k x" "t @ newline"] valid_cut [OF ht(2), of "[]" t] x' ht(1)
      end' [of t] by simp
  from assms(2) have c: "closed_text c" "valid_utf8 c" by (simp_all add: good_file_def)
  show "valid_utf8 (c @ take k x @ x' @ newline) \<longleftrightarrow> valid_utf8 (take k x)"
  proof (cases "c = []")
    case True
    with mid show ?thesis by simp
  next
    case False
    then obtain y where "c = y @ newline" using c(1) by (auto simp: closed_text_def)
    with c(2) mid end' [of y] valid_cut [of "CHR 0x0A" y "take k x @ x' @ newline"] show ?thesis
      by (simp add: newline_def byte_newline)
  qed
  have "newline_free (take k x @ x')" using x x' by (auto simp: newline_free_def dest: in_set_takeD)
  moreover have "last (take k x @ x') \<noteq> CHR 0x0D" using x' ne by simp
  ultimately have "str_lines ((take k x @ x') @ newline) = [take k x @ x']"
    using str_lines_line [of "take k x @ x'" "[]"] by simp
  then have "entries_in E ((take k x @ x') @ newline) = []"
    using assms(6) by (simp add: entries_in_def parse_lines_def map_filter_simps)
  with entries_in_append [OF c(1)] show "entries_in E (c @ take k x @ x' @ newline) = entries_in E c"
    by simp
qed

lemma read_lines_invalid: "\<not> list_all valid_utf8 ls \<Longrightarrow> read_lines E None ls acc = Inl bad_utf8"
  by (induction ls arbitrary: acc) (auto split: option.splits)

text \<open>
  An append that breaks off, for instance because the disk is full, damages more than its own
  entry.  The next save is reported as successful, but its line is glued to the torn one: the entry is
  missing when the session is read, although every later entry is there again.  When the write broke off
  inside a multi-byte character, no entry of the session can be read any more.
\<close>

theorem torn_append:
  assumes "session_codec E" "js_inv E s" "je_fault E MakeDir = None"
    and "je_fault E (AppendTo (jsonl_name (en_session_id e))) = Some (err, k)"
    and "entry_to_json E e = Inr x" "entry_to_json E e' = Inr x'" "en_session_id e' = en_session_id e"
    and "k \<le> length x" "entry_from_json E (take k x @ x') = None"
    and "E' = E\<lparr>je_fault := (\<lambda>c. None)\<rparr>"
  shows "\<exists>s1 s2. js_save E e s = (Inl (SsIo err), s1) \<and> js_save E' e' s1 = (Inr (), s2) \<and>
     js_get_entries E' (en_session_id e) s2 =
       ((if valid_utf8 (take k x) then Inr (js_content E s (en_session_id e)) else Inl bad_utf8), s2)"
proof -
  let ?n = "jsonl_name (en_session_id e)"
  let ?c = "case js_files s ?n of None \<Rightarrow> [] | Some c \<Rightarrow> c"
  let ?s1 = "put_file ?n (?c @ take k x) s"
  let ?new = "?c @ take k x @ x' @ newline"
  have good: "good_file E ?c" and old: "entries_in E ?c = js_content E s (en_session_id e)"
    using assms(2) by (auto simp: js_inv_def js_content_def entries_in_def split: option.splits)
  have sel: "je_line_ser E' = je_line_ser E" "je_line_de E' = je_line_de E" "je_data_ser E' = je_data_ser E"
    "je_data_de E' = je_data_de E" by (simp_all add: assms(10))
  have json: "entry_to_json E' = entry_to_json E" "entry_from_json E' = entry_from_json E"
    by (rule ext, simp only: entry_to_json_def entry_from_json_def sel)+
  have save: "js_save E e s = (Inl (SsIo err), ?s1)"
    using assms(3-5,8) by (simp add: js_save_def append_line_def js_call_def bindE_def Let_def)
  have save': "js_save E' e' ?s1 = (Inr (), put_file ?n ?new ?s1)"
    using assms(6,7,10) json by (simp add: js_save_def append_line_def js_call_def bindE_def Let_def put_file_def)
  have parse: "parse_lines E' = parse_lines E" by (simp add: parse_lines_def json fun_eq_iff)
  note torn = torn_file [OF assms(1) good assms(5,6,8,9)]
  have "js_get_entries E' (en_session_id e) (put_file ?n ?new ?s1) =
      (read_lines E' None (str_lines ?new) [], put_file ?n ?new ?s1)"
    using assms(10) by (simp add: js_get_entries_def read_from_head_def with_file_def put_file_def)
  moreover have "read_lines E' None (str_lines ?new) [] =
      (if valid_utf8 (take k x) then Inr (entries_in E ?new) else Inl bad_utf8)"
    using torn(1) str_lines_valid_iff [of ?new]
    by (auto simp: read_lines_valid read_lines_invalid entries_in_def parse)
  ultimately show ?thesis using save save' torn(2) old by auto
qed

section \<open>A concrete store\<close>

text \<open>An environment that can store two entries, as the texts \<open>{1}\<close> and \<open>{2}\<close>.\<close>

definition small_entry :: "nat \<Rightarrow> session_entry" where
  "small_entry n = \<lparr> en_id = show_nat n, en_session_id = ''s'', en_created_at = int n, en_parent_id = None,
     en_type = SummaryEntry, en_data = SummaryData (show_nat n) \<rparr>"

definition small_line :: "nat \<Rightarrow> entry_line" where
  "small_line n = \<lparr> el_id = show_nat n, el_session_id = ''s'', el_created_at = int n, el_parent_id = None,
     el_type = ''summary'', el_data = JStr (show_nat n) \<rparr>"

definition small_env :: jsonl_env where
  "small_env = \<lparr>
     je_line_ser = (\<lambda>l. if l = small_line 1 then Inr ''{1}'' else if l = small_line 2 then Inr ''{2}''
       else Inl ''unsupported''),
     je_line_de = (\<lambda>x. if x = ''{1}'' then Some (small_line 1) else if x = ''{2}'' then Some (small_line 2) else None),
     je_data_ser = (\<lambda>d. case d of SummaryData t \<Rightarrow> Inr (JStr t) | _ \<Rightarrow> Inl ''unsupported''),
     je_data_de = (\<lambda>j. case j of JStr t \<Rightarrow> Some (SummaryData t) | _ \<Rightarrow> None),
     je_meta_ser = (\<lambda>md. Inl ''unsupported''), je_meta_de = (\<lambda>x. None),
     je_fault = (\<lambda>c. None), je_pid = ''7'', je_order = ascending \<rparr>"

definition full_disk_env :: jsonl_env where
  "full_disk_env = small_env\<lparr>je_fault := (\<lambda>c. if c = AppendTo ''s.jsonl'' then Some (''no space'', 1) else None)\<rparr>"

definition empty_sessions :: jsonl_store where
  "empty_sessions = \<lparr> js_files = Map.empty, js_seq = 0 \<rparr>"

lemma small_codec: "session_codec small_env"
  by (auto simp: session_codec_def small_env_def newline_free_def blank_def trim_def trim_start_def trim_end_def
      is_space_def scan_char_def byte_def split: entry_data.splits if_splits)

lemma full_disk_codec: "session_codec full_disk_env"
  using small_codec by (simp add: session_codec_def full_disk_env_def)

lemma empty_sessions_inv: "js_inv E empty_sessions"
  by (simp add: js_inv_def empty_sessions_def)

interpretation jsonl: entry_store "js_ops small_env" "js_inv small_env" "js_storable small_env"
  "js_content small_env" "js_meta small_env"
  by (rule session_file_store [OF small_codec])


theorem torn_append_witness:
  "\<exists>s1 s2. js_save full_disk_env (small_entry 1) empty_sessions = (Inl (SsIo ''no space''), s1) \<and>
     js_save small_env (small_entry 2) s1 = (Inr (), s2) \<and> js_get_entries small_env ''s'' s2 = (Inr [], s2)"
proof -
  have ser: "entry_to_json full_disk_env (small_entry 1) = Inr ''{1}''" "entry_to_json full_disk_env (small_entry 2) = Inr ''{2}''"
    by (simp_all add: entry_to_json_def full_disk_env_def small_env_def small_entry_def small_line_def show_nat_inj)
  have fault: "je_fault full_disk_env MakeDir = None"
    "je_fault full_disk_env (AppendTo (jsonl_name (en_session_id (small_entry 1)))) = Some (''no space'', 1)"
    by (simp_all add: full_disk_env_def small_entry_def jsonl_name_def)
  have sid: "en_session_id (small_entry 2) = en_session_id (small_entry 1)" "en_session_id (small_entry 1) = ''s''"
    by (simp_all add: small_entry_def)
  have glued: "entry_from_json full_disk_env (take 1 ''{1}'' @ ''{2}'') = None" "valid_utf8 (take 1 ''{1}'')"
    by (simp_all add: entry_from_json_def full_disk_env_def small_env_def scan_char_def byte_def)
  have env: "small_env = full_disk_env\<lparr>je_fault := (\<lambda>c. None)\<rparr>"
    by (simp add: full_disk_env_def small_env_def)
  have "js_content full_disk_env empty_sessions ''s'' = []" by (simp add: js_content_def empty_sessions_def)
  with torn_append [OF full_disk_codec empty_sessions_inv fault ser sid(1) _ glued(1) env] glued(2) sid(2)
  show ?thesis by simp
qed

end
