(* ===== verification/Session.thy ===== *)
theory Session
  imports SessionMemory "HOL-Library.Product_Lexorder"
begin

text \<open>
  The session over any entry store (\<open>crates/vol-session/src/session.rs\<close>), the compressors
  (\<open>compressors/\<close>) and the contributor that puts the history into the context of a model call and
  compresses it when the context is too large (\<open>session_contributor.rs\<close>).
\<close>

section \<open>The session\<close>

record session =
  ss_id :: string
  ss_created_at :: int

definition session_with_id :: "string \<Rightarrow> int \<Rightarrow> session" where
  "session_with_id sid now = \<lparr> ss_id = sid, ss_created_at = now \<rparr>"

definition session_resume :: "'s entry_store_ops \<Rightarrow> string \<Rightarrow> ('s, session_store_error, session) eff" where
  "session_resume ops sid = bindE (es_entries ops sid) (\<lambda>es.
     ret \<lparr> ss_id = sid, ss_created_at = (case es of [] \<Rightarrow> 0 | e # _ \<Rightarrow> en_created_at e) \<rparr>)"

definition session_add_message ::
  "'s entry_store_ops \<Rightarrow> session_message \<Rightarrow> ('s, session_store_error, unit) eff" where
  "session_add_message ops m = es_save ops (entry_of_message m)"

definition session_checkpoint ::
  "'s entry_store_ops \<Rightarrow> string \<Rightarrow> int \<Rightarrow> session \<Rightarrow> checkpoint_reason \<Rightarrow> string option \<Rightarrow>
   ('s, session_store_error, unit) eff" where
  "session_checkpoint ops uuid now ss reason note = es_save ops (new_checkpoint uuid now (ss_id ss) reason note)"

definition session_add_summary ::
  "'s entry_store_ops \<Rightarrow> string \<Rightarrow> int \<Rightarrow> session \<Rightarrow> string \<Rightarrow> ('s, session_store_error, unit) eff" where
  "session_add_summary ops uuid now ss summary = es_save ops (new_summary uuid now (ss_id ss) summary)"

text \<open>The entries strictly after the latest checkpoint, or all of them.\<close>

definition live_entries :: "'s entry_store_ops \<Rightarrow> string \<Rightarrow> ('s, session_store_error, session_entry list) eff" where
  "live_entries ops sid = bindE (es_checkpoint ops sid) (\<lambda>c.
     case c of
       Some cp \<Rightarrow> bindE (es_entries ops sid) (\<lambda>es. ret (filter (\<lambda>e. en_created_at cp < en_created_at e) es))
     | None \<Rightarrow> es_entries ops sid)"

definition entry_message :: "session_entry \<Rightarrow> session_message option" where
  "entry_message e =
     (case en_data e of
        MessageData m \<Rightarrow> Some m
      | SummaryData t \<Rightarrow> Some \<lparr> sm_id = en_id e, sm_session_id = en_session_id e,
          sm_message = system_msg (TextContent t), sm_parent_id = en_parent_id e,
          sm_created_at = en_created_at e, sm_metadata = Map.empty \<rparr>
      | CheckpointData r n \<Rightarrow> None)"

definition entry_messages :: "session_entry list \<Rightarrow> session_message list" where
  "entry_messages es = List.map_filter entry_message es"

definition session_get_messages ::
  "'s entry_store_ops \<Rightarrow> string \<Rightarrow> ('s, session_store_error, session_message list) eff" where
  "session_get_messages ops sid = bindE (live_entries ops sid) (\<lambda>es. ret (entry_messages es))"

definition entry_chat_message :: "session_entry \<Rightarrow> chat_message option" where
  "entry_chat_message e =
     (case en_data e of
        MessageData m \<Rightarrow> Some (sm_message m)
      | SummaryData t \<Rightarrow> Some (system_msg (TextContent t))
      | CheckpointData r n \<Rightarrow> None)"

definition session_resume_messages ::
  "'s entry_store_ops \<Rightarrow> string \<Rightarrow> ('s, session_store_error, chat_message list) eff" where
  "session_resume_messages ops sid =
     bindE (live_entries ops sid) (\<lambda>es. ret (List.map_filter entry_chat_message es))"

section \<open>Metadata of the session\<close>

definition task_ids_key :: string where
  "task_ids_key = ''task_ids''"

definition session_metadata :: "'s entry_store_ops \<Rightarrow> string \<Rightarrow> ('s, session_store_error, metadata) eff" where
  "session_metadata ops sid = es_metadata ops sid"

definition session_merge_metadata ::
  "'s entry_store_ops \<Rightarrow> string \<Rightarrow> metadata \<Rightarrow> ('s, session_store_error, unit) eff" where
  "session_merge_metadata ops sid patch = es_merge ops sid patch"

definition json_strings :: "json \<Rightarrow> string list" where
  "json_strings j = (case j of JArr xs \<Rightarrow> List.map_filter (\<lambda>x. case x of JStr s \<Rightarrow> Some s | _ \<Rightarrow> None) xs | _ \<Rightarrow> [])"

definition id_key :: "string \<Rightarrow> u64 \<times> string" where
  "id_key s = ((case parse_u64 s of None \<Rightarrow> - 1 | Some n \<Rightarrow> n), s)"

fun dedup :: "'a list \<Rightarrow> 'a list" where
  "dedup [] = []"
| "dedup [x] = [x]"
| "dedup (x # y # xs) = (if x = y then dedup (y # xs) else x # dedup (y # xs))"

text \<open>Numeric ids come first and in the order of their values, the others after them.\<close>

definition sorted_ids :: "string list \<Rightarrow> string list" where
  "sorted_ids ids = dedup (sort_key id_key ids)"

definition session_task_ids :: "'s entry_store_ops \<Rightarrow> string \<Rightarrow> ('s, session_store_error, string list) eff" where
  "session_task_ids ops sid = bindE (session_metadata ops sid) (\<lambda>md.
     ret (sorted_ids (case md task_ids_key of None \<Rightarrow> [] | Some j \<Rightarrow> json_strings j)))"

definition session_bind_task_ids ::
  "'s entry_store_ops \<Rightarrow> string \<Rightarrow> string list \<Rightarrow> ('s, session_store_error, unit) eff" where
  "session_bind_task_ids ops sid ids = es_append ops sid task_ids_key ids"

section \<open>Compressors\<close>

type_synonym compressor = "session_message list \<Rightarrow> session_message list"

definition has_image_part :: "session_message \<Rightarrow> bool" where
  "has_image_part m =
     (case cm_content (sm_message m) of
        Some (MultiPart parts) \<Rightarrow> list_ex (\<lambda>p. case p of ImagePart i \<Rightarrow> True | TextPart t \<Rightarrow> False) parts
      | _ \<Rightarrow> False)"

record position_sample =
  ps_keep_first :: nat
  ps_sample_every :: nat

definition position_sample_new :: "nat \<Rightarrow> nat \<Rightarrow> position_sample" where
  "position_sample_new k n = \<lparr> ps_keep_first = max k 1, ps_sample_every = max n 1 \<rparr>"

definition position_sample_default :: position_sample where
  "position_sample_default = position_sample_new 3 5"

fun sample :: "nat \<Rightarrow> nat \<Rightarrow> session_message list \<Rightarrow> session_message list" where
  "sample every i [] = []"
| "sample every i (m # ms) =
     (if i mod every = 0 \<or> has_image_part m then m # sample every (Suc i) ms else sample every (Suc i) ms)"

definition position_sample_compress :: "position_sample \<Rightarrow> compressor" where
  "position_sample_compress p ms =
     (if ms = [] then []
      else
        let keep = min (ps_keep_first p) (length ms);
            r = take keep ms @ sample (ps_sample_every p) 0 (drop keep ms)
        in if r = [] \<or> sm_id (last r) \<noteq> sm_id (last ms) then r @ [last ms] else r)"

definition role_filter_compress :: "message_role list \<Rightarrow> compressor" where
  "role_filter_compress roles ms =
     (let keep = (if roles = [] then [RUser, RAssistant] else roles)
      in filter (\<lambda>m. cm_role (sm_message m) \<in> set keep) ms)"

section \<open>The contributor of the history\<close>

record 's session_world =
  sw_store :: 's
  sw_cached :: nat

definition result_or :: "'a \<Rightarrow> 'e + 'a \<Rightarrow> 'a" where
  "result_or d r = (case r of Inr x \<Rightarrow> x | Inl e \<Rightarrow> d)"

definition last_n :: "nat \<Rightarrow> 'a list \<Rightarrow> 'a list" where
  "last_n n xs = drop (length xs - n) xs"

definition session_contribute ::
  "(chat_message \<Rightarrow> string) \<Rightarrow> 's entry_store_ops \<Rightarrow> string \<Rightarrow> nat \<Rightarrow> attention_anchor \<Rightarrow>
   ('s session_world, context_error, context_block list) eff" where
  "session_contribute to_json ops sid max_history anchor w =
     (case session_get_messages ops sid (sw_store w) of
        (r, s) \<Rightarrow>
          (case result_or [] r of
             [] \<Rightarrow> (Inr [], \<lparr> sw_store = s, sw_cached = 0 \<rparr>)
           | m # ms \<Rightarrow>
               let msgs = last_n max_history (map sm_message (m # ms))
               in (Inr [\<lparr> cb_messages = msgs, cb_anchor = anchor \<rparr>],
                   \<lparr> sw_store = s, sw_cached = sum_list (map (estimate_tokens to_json) msgs) \<rparr>)))"

text \<open>The summary is the text of the compressed messages, one after the other.\<close>

definition summary_text :: "session_message list \<Rightarrow> string" where
  "summary_text ms = join newline (map display_text (List.map_filter (\<lambda>m. cm_content (sm_message m)) ms))"

fun save_stamped :: "'s entry_store_ops \<Rightarrow> int \<Rightarrow> session_message list \<Rightarrow> 's \<Rightarrow> 's" where
  "save_stamped ops t [] s = s"
| "save_stamped ops t (m # ms) s =
     save_stamped ops (t + 1) ms (snd (es_save ops ((entry_of_message m)\<lparr>en_created_at := t\<rparr>) s))"

definition session_compress ::
  "'s entry_store_ops \<Rightarrow> compressor \<Rightarrow> string \<Rightarrow> string \<Rightarrow> int \<Rightarrow> string \<Rightarrow> 's \<Rightarrow> 's" where
  "session_compress ops compress uuid1 uuid2 now sid s =
     (case session_get_messages ops sid s of
        (r, s1) \<Rightarrow>
          let compressed = compress (result_or [] r) in
          if result_or [] r = [] \<or> compressed = [] then s1
          else case es_save ops (new_checkpoint uuid1 now sid Compression None) s1 of
                 (Inl e, s2) \<Rightarrow> s2
               | (Inr u, s2) \<Rightarrow>
                   (case es_save ops ((new_summary uuid2 now sid (summary_text compressed))\<lparr>en_created_at := now + 1\<rparr>) s2 of
                      (Inl e, s3) \<Rightarrow> s3
                    | (Inr u, s3) \<Rightarrow> save_stamped ops (now + 1) compressed s3))"

definition session_contributor ::
  "(chat_message \<Rightarrow> string) \<Rightarrow> 's entry_store_ops \<Rightarrow> compressor \<Rightarrow> string \<Rightarrow> string \<Rightarrow> int \<Rightarrow> string \<Rightarrow> nat \<Rightarrow>
   attention_anchor \<Rightarrow> 's session_world contributor" where
  "session_contributor to_json ops compress uuid1 uuid2 now sid max_history anchor =
     \<lparr> ct_name = ''session'',
       ct_contribute = session_contribute to_json ops sid max_history anchor,
       ct_compress = (\<lambda>w. w\<lparr>sw_store := session_compress ops compress uuid1 uuid2 now sid (sw_store w)\<rparr>),
       ct_estimate_size = sw_cached \<rparr>"

end
