(* ===== verification/SessionCorrect.thy ===== *)
theory SessionCorrect
  imports Session "HOL-Library.Sublist"
begin

text \<open>
  What a session promises over any store that keeps the contract: the history it returns, what
  compressing the history does to it, and the binding of task ids.
\<close>

section \<open>The history\<close>

definition last_checkpoint_time :: "session_entry list \<Rightarrow> int option" where
  "last_checkpoint_time es =
     (let ts = map en_created_at (filter is_checkpoint es) in if ts = [] then None else Some (Max (set ts)))"

definition live :: "session_entry list \<Rightarrow> session_entry list" where
  "live es = (case last_checkpoint_time es of None \<Rightarrow> es | Some t \<Rightarrow> filter (\<lambda>e. t < en_created_at e) es)"

definition history :: "session_entry list \<Rightarrow> session_message list" where
  "history es = entry_messages (live es)"

lemma checkpoint_time_None: "last_checkpoint_time es = None \<longleftrightarrow> list_all (\<lambda>e. \<not> is_checkpoint e) es"
  by (auto simp: last_checkpoint_time_def Let_def filter_empty_conv list_all_iff)

lemma checkpoint_time_Some:
  assumes "is_checkpoint e" "e \<in> set es" "\<forall>d \<in> set es. is_checkpoint d \<longrightarrow> en_created_at d \<le> en_created_at e"
  shows "last_checkpoint_time es = Some (en_created_at e)"
proof -
  have "Max (set (map en_created_at (filter is_checkpoint es))) = en_created_at e"
    using assms by (intro Max_eqI) auto
  moreover have "filter is_checkpoint es \<noteq> []" using assms by (auto simp: filter_empty_conv)
  ultimately show ?thesis by (simp add: last_checkpoint_time_def)
qed

context entry_store
begin

lemma live_entries_ok:
  assumes "inv s" "live_entries ops sid s = (Inr es, s')"
  shows "es = live (content s sid) \<and> s' = s"
proof -
  from assms(2) obtain c s1 where c: "es_checkpoint ops sid s = (Inr c, s1)"
    and rest: "(case c of
       Some cp \<Rightarrow> bindE (es_entries ops sid) (\<lambda>es. ret (filter (\<lambda>e. en_created_at cp < en_created_at e) es))
     | None \<Rightarrow> es_entries ops sid) s1 = (Inr es, s')"
    unfolding live_entries_def by (elim bindE_InrE)
  note cp = checkpoint_ok [OF assms(1) c]
  show ?thesis
  proof (cases c)
    case None
    with cp have "last_checkpoint_time (content s sid) = None" by (simp add: checkpoint_time_None)
    with None cp rest entries_ok [OF assms(1), of sid es s'] show ?thesis by (auto simp: live_def)
  next
    case (Some e)
    with cp have "last_checkpoint_time (content s sid) = Some (en_created_at e)"
      by (intro checkpoint_time_Some) auto
    with Some cp rest entries_ok [OF assms(1)] show ?thesis
      by (auto simp: live_def elim!: bindE_InrE)
  qed
qed

lemma get_messages_ok:
  assumes "inv s" "session_get_messages ops sid s = (Inr ms, s')"
  shows "ms = history (content s sid) \<and> s' = s"
  using assms live_entries_ok
  by (auto simp: session_get_messages_def history_def elim!: bindE_InrE)

end

context reliable_entry_store
begin

lemma live_entries_total: "inv s \<Longrightarrow> live_entries ops sid s = (Inr (live (content s sid)), s)"
proof -
  assume inv: "inv s"
  obtain c where c: "es_checkpoint ops sid s = (Inr c, s)"
    using checkpoint_total [OF inv] checkpoint_ok [OF inv] by metis
  obtain es where es: "es_entries ops sid s = (Inr es, s)"
    using entries_total [OF inv] entries_ok [OF inv] by metis
  have "\<exists>es. live_entries ops sid s = (Inr es, s)"
    using c es by (auto simp: live_entries_def bindE_def split: option.split)
  then show ?thesis using live_entries_ok [OF inv] by blast
qed

lemma get_messages_total: "inv s \<Longrightarrow> session_get_messages ops sid s = (Inr (history (content s sid)), s)"
  by (simp add: session_get_messages_def history_def live_entries_total)

lemma save_total_ok:
  assumes "inv s" "storable e" "in_order (content s (en_session_id e)) e"
  obtains s' where "es_save ops e s = (Inr (), s')" "inv s'"
    "content s' = (content s)(en_session_id e := content s (en_session_id e) @ [e])"
  using save_total [OF assms(1,2)] save_ok [OF assms] by blast

end

section \<open>Compressing the history\<close>

fun stamped :: "int \<Rightarrow> session_message list \<Rightarrow> session_entry list" where
  "stamped t [] = []"
| "stamped t (m # ms) = (entry_of_message m)\<lparr>en_created_at := t\<rparr> # stamped (t + 1) ms"

lemma stamped_messages [simp]: "entry_messages (stamped t ms) = ms"
  by (induction ms arbitrary: t) (auto simp: entry_messages_def map_filter_simps entry_message_def entry_of_message_def)

lemma stamped_later: "e \<in> set (stamped t ms) \<Longrightarrow> t \<le> en_created_at e \<and> \<not> is_checkpoint e"
  by (induction ms arbitrary: t) (fastforce simp: is_checkpoint_def entry_of_message_def)+

lemma not_checkpoint_in_order: "\<not> is_checkpoint e \<Longrightarrow> in_order es e"
  by (simp add: in_order_def)

context reliable_entry_store
begin

lemma save_stamped_content:
  assumes "inv s" "\<forall>e. storable e" "\<forall>m \<in> set ms. sm_session_id m = sid"
  shows "inv (save_stamped ops t ms s) \<and>
     content (save_stamped ops t ms s) = (content s)(sid := content s sid @ stamped t ms)"
  using assms
proof (induction ms arbitrary: s t)
  case Nil
  then show ?case by simp
next
  case (Cons m ms)
  let ?e = "(entry_of_message m)\<lparr>en_created_at := t\<rparr>"
  have e: "\<not> is_checkpoint ?e" "en_session_id ?e = sid"
    using Cons.prems(3) by (simp_all add: is_checkpoint_def entry_of_message_def)
  from Cons.prems obtain s' where s': "es_save ops ?e s = (Inr (), s')" "inv s'"
    "content s' = (content s)(sid := content s sid @ [?e])"
    using save_total_ok [of s ?e] not_checkpoint_in_order [OF e(1)] e(2) by metis
  then show ?case using Cons.IH [of s' "t + 1"] Cons.prems by (auto simp: fun_eq_iff)
qed

lemma compress_content:
  assumes "inv s" "\<forall>e. storable e" "in_order (content s sid) (new_checkpoint u1 now sid Compression None)"
    and "history (content s sid) \<noteq> []" "compress (history (content s sid)) \<noteq> []"
    and "\<forall>m \<in> set (compress (history (content s sid))). sm_session_id m = sid"
  shows "inv (session_compress ops compress u1 u2 now sid s) \<and>
     content (session_compress ops compress u1 u2 now sid s) sid =
       content s sid @ [new_checkpoint u1 now sid Compression None,
         (new_summary u2 now sid (summary_text (compress (history (content s sid)))))\<lparr>en_created_at := now + 1\<rparr>] @
       stamped (now + 1) (compress (history (content s sid)))"
proof -
  let ?cp = "new_checkpoint u1 now sid Compression None"
  let ?c = "compress (history (content s sid))"
  let ?sum = "(new_summary u2 now sid (summary_text ?c))\<lparr>en_created_at := now + 1\<rparr>"
  have cp: "en_session_id ?cp = sid" by (simp add: new_checkpoint_def)
  obtain s1 where s1: "es_save ops ?cp s = (Inr (), s1)" "inv s1" "content s1 = (content s)(sid := content s sid @ [?cp])"
    using save_total_ok [of s ?cp] assms(1-3) cp by metis
  have sm: "\<not> is_checkpoint ?sum" "en_session_id ?sum = sid" by (simp_all add: is_checkpoint_def new_summary_def)
  obtain s2 where s2: "es_save ops ?sum s1 = (Inr (), s2)" "inv s2" "content s2 = (content s1)(sid := content s1 sid @ [?sum])"
    using save_total_ok [of s1 ?sum] assms(2) s1(2) not_checkpoint_in_order [OF sm(1)] sm(2) by metis
  have "session_compress ops compress u1 u2 now sid s = save_stamped ops (now + 1) ?c s2"
    using assms(4,5) s1(1) s2(1)
    by (simp add: session_compress_def get_messages_total [OF assms(1)] result_or_def Let_def)
  with save_stamped_content [OF s2(2) assms(2,6), of "now + 1"] s1(3) s2(3) show ?thesis by simp
qed

end

lemma history_after_checkpoint:
  assumes "en_created_at cp = now" "is_checkpoint cp" "in_order es cp"
    and "\<forall>e \<in> set later. now < en_created_at e \<and> \<not> is_checkpoint e"
  shows "history (es @ cp # later) =
     entry_messages (filter (\<lambda>e. now < en_created_at e) es) @ entry_messages later"
proof -
  have "last_checkpoint_time (es @ cp # later) = Some (en_created_at cp)"
    using assms by (intro checkpoint_time_Some) (auto simp: in_order_def)
  moreover have "filter (\<lambda>e. now < en_created_at e) later = later"
    using assms(4) by (simp add: filter_id_conv)
  ultimately show ?thesis
    using assms(1) by (simp add: history_def live_def entry_messages_def map_filter_def)
qed

definition summary_message :: "string \<Rightarrow> string \<Rightarrow> int \<Rightarrow> string \<Rightarrow> session_message" where
  "summary_message uuid sid now text = \<lparr> sm_id = uuid, sm_session_id = sid,
     sm_message = system_msg (TextContent text), sm_parent_id = None, sm_created_at = now, sm_metadata = Map.empty \<rparr>"

lemma summary_entry_message:
  "entry_messages [(new_summary u now sid t)\<lparr>en_created_at := n\<rparr>] = [summary_message u sid n t]"
  by (simp add: entry_messages_def map_filter_simps entry_message_def new_summary_def summary_message_def)

lemma entry_messages_append [simp]: "entry_messages (xs @ ys) = entry_messages xs @ entry_messages ys"
  by (simp add: entry_messages_def map_filter_def)

context reliable_entry_store
begin

lemma compress_history_ok:
  assumes "inv s" "\<forall>e. storable e" "in_order (content s sid) (new_checkpoint u1 now sid Compression None)"
    and "history (content s sid) \<noteq> []" "compress (history (content s sid)) \<noteq> []"
    and "\<forall>m \<in> set (compress (history (content s sid))). sm_session_id m = sid"
  shows "history (content (session_compress ops compress u1 u2 now sid s) sid) =
     entry_messages (filter (\<lambda>e. now < en_created_at e) (content s sid)) @
     summary_message u2 sid (now + 1) (summary_text (compress (history (content s sid)))) #
     compress (history (content s sid))"
proof -
  let ?cp = "new_checkpoint u1 now sid Compression None"
  let ?c = "compress (history (content s sid))"
  let ?sum = "(new_summary u2 now sid (summary_text ?c))\<lparr>en_created_at := now + 1\<rparr>"
  have "\<forall>e \<in> set (?sum # stamped (now + 1) ?c). now < en_created_at e \<and> \<not> is_checkpoint e"
    by (auto simp: new_summary_def is_checkpoint_def dest!: stamped_later)
  moreover have "en_created_at ?cp = now" "is_checkpoint ?cp" by (simp_all add: new_checkpoint_def is_checkpoint_def)
  ultimately show ?thesis
    using compress_content [where compress = compress and ?u2.0 = u2, OF assms] history_after_checkpoint [of ?cp now "content s sid" "?sum # stamped (now + 1) ?c"]
      assms(3) entry_messages_append [of "[?sum]" "stamped (now + 1) ?c"] summary_entry_message [where u = u2 and now = now and sid = sid]
    by simp
qed

lemma compress_then_add:
  assumes "inv s" "\<forall>e. storable e" "in_order (content s sid) (new_checkpoint u1 now sid Compression None)"
    and "history (content s sid) \<noteq> []" "compress (history (content s sid)) \<noteq> []"
    and "\<forall>m \<in> set (compress (history (content s sid))). sm_session_id m = sid"
    and "sm_session_id m = sid" "sm_created_at m \<le> now"
  shows "\<exists>s2. session_add_message ops m (session_compress ops compress u1 u2 now sid s) = (Inr (), s2) \<and> inv s2 \<and>
     history (content s2 sid) = history (content (session_compress ops compress u1 u2 now sid s) sid)"
proof -
  let ?s1 = "session_compress ops compress u1 u2 now sid s"
  let ?e = "entry_of_message m"
  let ?cp = "new_checkpoint u1 now sid Compression None"
  have e: "\<not> is_checkpoint ?e" "en_session_id ?e = sid" "en_created_at ?e \<le> now"
    using assms(7,8) by (simp_all add: is_checkpoint_def entry_of_message_def)
  note c = compress_content [where compress = compress and ?u2.0 = u2, OF assms(1-6)]
  obtain s2 where s2: "es_save ops ?e ?s1 = (Inr (), s2)" "inv s2"
    "content s2 = (content ?s1)(sid := content ?s1 sid @ [?e])"
    using save_total_ok [of ?s1 ?e] c assms(2) not_checkpoint_in_order [OF e(1)] e(2) by metis
  have cp: "is_checkpoint ?cp" "en_created_at ?cp = now" by (simp_all add: new_checkpoint_def is_checkpoint_def)
  have "\<forall>d \<in> set (content ?s1 sid). is_checkpoint d \<longrightarrow> en_created_at d \<le> now"
    using c assms(3) cp by (auto simp: in_order_def new_summary_def is_checkpoint_def dest!: stamped_later)
  moreover have "?cp \<in> set (content ?s1 sid)" using c by simp
  ultimately have "last_checkpoint_time (content ?s1 sid) = Some now"
    "last_checkpoint_time (content ?s1 sid @ [?e]) = Some now"
    using checkpoint_time_Some [of ?cp] cp e(1) by auto
  then have "history (content s2 sid) = history (content ?s1 sid)"
    using s2(3) e(3) by (simp add: history_def live_def)
  with s2 show ?thesis by (auto simp: session_add_message_def)
qed

end

section \<open>Sampling by position\<close>

lemma sample_subseq: "subseq (sample every i ms) ms"
  by (induction every i ms rule: sample.induct) auto

lemma sample_images: "m \<in> set ms \<Longrightarrow> has_image_part m \<Longrightarrow> m \<in> set (sample every i ms)"
  by (induction every i ms rule: sample.induct) auto

lemma subseq_snoc:
  assumes "subseq xs (us @ [l])" "xs = [] \<or> last xs \<noteq> l"
  shows "subseq xs us"
proof -
  from assms(1) obtain a b where "xs = a @ b" "subseq a us" "subseq b [l]" by (auto simp: subseq_append_iff)
  moreover from this have "b = [] \<or> b = [l]" by (cases b) (auto split: if_splits)
  ultimately show ?thesis using assms(2) by auto
qed

section \<open>Task ids\<close>

lemma dedup_set [simp]: "set (dedup xs) = set xs"
  by (induction xs rule: dedup.induct) auto

lemma dedup_hd: "xs \<noteq> [] \<Longrightarrow> dedup xs \<noteq> [] \<and> hd (dedup xs) = hd xs"
  by (induction xs rule: dedup.induct) auto

lemma dedup_sorted:
  fixes f :: "'a \<Rightarrow> 'b::linorder"
  assumes "sorted (map f xs)" "inj f"
  shows "sorted (map f (dedup xs)) \<and> distinct (dedup xs)"
  using assms(1)
proof (induction xs rule: dedup.induct)
  case (3 x y xs)
  show ?case
  proof (cases "x = y")
    case True
    with 3 show ?thesis by simp
  next
    case False
    with 3 have ih: "sorted (map f (dedup (y # xs)))" "distinct (dedup (y # xs))" by simp_all
    have le: "f x \<le> f z" if "z \<in> set (y # xs)" for z using 3(3) that by auto
    have "f x < f y" using 3(3) False assms(2) by (simp add: inj_eq order_less_le)
    moreover have "f y \<le> f z" if "z \<in> set (y # xs)" for z using 3(3) that by auto
    ultimately have "x \<notin> set (y # xs)" by (metis leD)
    with ih le False show ?thesis by simp
  qed
qed simp_all

lemma id_key_inj: "inj id_key"
  by (rule injI) (simp add: id_key_def)

lemma sorted_ids_spec: "sorted (map id_key (sorted_ids ids)) \<and> distinct (sorted_ids ids) \<and> set (sorted_ids ids) = set ids"
  using dedup_sorted [of id_key "sort_key id_key ids"] id_key_inj by (simp add: sorted_ids_def)

lemma json_strings_set: "set (json_strings (JArr xs)) = {s. JStr s \<in> set xs}"
proof -
  have "(case j of JStr s \<Rightarrow> Some s | _ \<Rightarrow> None) = Some t \<longleftrightarrow> j = JStr t" for j t
    by (cases j) auto
  then show ?thesis by (simp add: json_strings_def set_map_filter)
qed

lemma union_values_set: "set (union_values arr vs) = set arr \<union> JStr ` set vs"
  by (induction vs arbitrary: arr) (auto simp: union_values_def list_ex_iff is_str_def)

lemma union_metadata_strings:
  assumes "union_metadata_values md key vs = Inr (ch, md')"
  shows "set (case md' key of None \<Rightarrow> [] | Some j \<Rightarrow> json_strings j) =
     set (case md key of None \<Rightarrow> [] | Some j \<Rightarrow> json_strings j) \<union> set vs"
proof (cases "vs = []")
  case True
  with assms show ?thesis by (simp add: union_metadata_values_def)
next
  case False
  have ne: "union_values [] vs \<noteq> []"
    using union_values_set [of "[]" vs] False by force
  have step: "{s. JStr s \<in> set arr \<union> JStr ` set vs} = {s. JStr s \<in> set arr} \<union> set vs" for arr :: "json list"
    by auto
  show ?thesis
  proof (cases "md key")
    case None
    with assms False ne have "md' = md(key \<mapsto> JArr (union_values [] vs))"
      by (simp add: union_metadata_values_def Let_def)
    with None step [of "[]"] show ?thesis by (simp add: json_strings_set union_values_set)
  next
    case (Some j)
    with assms False obtain arr where j: "j = JArr arr"
      by (cases j) (simp_all add: union_metadata_values_def Let_def)
    with Some assms False have "md' key = Some (JArr (union_values arr vs))"
      by (auto simp: union_metadata_values_def Let_def split: if_splits)
    with Some j step [of arr] show ?thesis by (simp add: json_strings_set union_values_set)
  qed
qed

section \<open>Properties\<close>


text \<open>
  A message that is recorded in the second of a compression, after it, never shows up: timestamps
  are whole seconds and the history holds only what is strictly later than the checkpoint.  The save is
  reported as successful and the history does not change.
\<close>

theorem compress_same_second:
  assumes "reliable_entry_store ops ok storable con md" "ok s" "\<forall>e. storable e"
    and "in_order (con s sid) (new_checkpoint u1 now sid Compression None)"
    and "history (con s sid) \<noteq> []" "compress (history (con s sid)) \<noteq> []"
    and "\<forall>m \<in> set (compress (history (con s sid))). sm_session_id m = sid"
    and "sm_session_id m = sid" "sm_created_at m \<le> now"
  shows "\<exists>s2. session_add_message ops m (session_compress ops compress u1 u2 now sid s) = (Inr (), s2) \<and>
     fst (session_get_messages ops sid s2) =
     fst (session_get_messages ops sid (session_compress ops compress u1 u2 now sid s))"
proof -
  obtain s2 where "session_add_message ops m (session_compress ops compress u1 u2 now sid s) = (Inr (), s2)"
    "ok s2" "history (con s2 sid) = history (con (session_compress ops compress u1 u2 now sid s) sid)"
    using reliable_entry_store.compress_then_add [where compress = compress and ?u2.0 = u2, OF assms] by blast
  then show ?thesis
    using reliable_entry_store.get_messages_total [OF assms(1)]
      reliable_entry_store.compress_content [where compress = compress and ?u2.0 = u2, OF assms(1-7)]
    by auto
qed

text \<open>
  Compression can make a history longer.  With the default compressor a history of at most three
  messages is kept whole and a summary that repeats its text is put in front of it, so each compression
  of a context that is over its budget adds a message and doubles the text.
\<close>

theorem compress_grows:
  assumes "reliable_entry_store ops ok storable con md" "ok s" "\<forall>e. storable e"
    and "in_order (con s sid) (new_checkpoint u1 now sid Compression None)"
    and "\<forall>e \<in> set (con s sid). en_created_at e \<le> now"
    and "history (con s sid) = ms" "ms \<noteq> []" "length ms \<le> 3" "\<forall>m \<in> set ms. sm_session_id m = sid"
  shows "fst (session_get_messages ops sid
       (session_compress ops (position_sample_compress position_sample_default) u1 u2 now sid s)) =
     Inr (summary_message u2 sid (now + 1) (summary_text ms) # ms)"
proof -
  have keep: "position_sample_compress position_sample_default ms = ms"
    using assms(7,8)
    by (simp add: position_sample_compress_def position_sample_default_def position_sample_new_def Let_def)
  have none: "filter (\<lambda>e. now < en_created_at e) (con s sid) = []"
    using assms(5) by (simp add: filter_empty_conv not_less)
  let ?s1 = "session_compress ops (position_sample_compress position_sample_default) u1 u2 now sid s"
  have h: "history (con s sid) \<noteq> []" "position_sample_compress position_sample_default (history (con s sid)) \<noteq> []"
    "\<forall>m \<in> set (position_sample_compress position_sample_default (history (con s sid))). sm_session_id m = sid"
    using assms(6,7,9) keep by simp_all
  note args = assms(1-4) h
  show ?thesis
    using reliable_entry_store.get_messages_total [OF assms(1), of ?s1 sid]
      reliable_entry_store.compress_content
        [where compress = "position_sample_compress position_sample_default" and ?u2.0 = u2, OF args]
      reliable_entry_store.compress_history_ok
        [where compress = "position_sample_compress position_sample_default" and ?u2.0 = u2, OF args] none keep assms(6)
    by (simp add: entry_messages_def map_filter_def)
qed

text \<open>
  Sampling by position returns messages of the history in their order, among them the first ones up to
  the configured number, the last one and every message with an image.
\<close>

theorem position_sample_spec:
  assumes "distinct (map sm_id ms)" "ms \<noteq> []"
  shows "subseq (position_sample_compress p ms) ms \<and>
     prefix (take (ps_keep_first p) ms) (position_sample_compress p ms) \<and>
     last (position_sample_compress p ms) = last ms \<and>
     (\<forall>m \<in> set ms. has_image_part m \<longrightarrow> m \<in> set (position_sample_compress p ms))"
proof -
  let ?k = "min (ps_keep_first p) (length ms)"
  let ?t = "sample (ps_sample_every p) 0 (drop ?k ms)"
  let ?r = "take ?k ms @ ?t"
  let ?c = "position_sample_compress p ms"
  have k: "take ?k ms = take (ps_keep_first p) ms" by (simp add: min_def)
  have sub: "subseq ?r ms"
    using list_emb_append_mono [OF subseq_order.order_refl [of "take ?k ms"] sample_subseq] by (metis append_take_drop_id)
  have img: "m \<in> set ?r" if "m \<in> set ms" "has_image_part m" for m
    using that sample_images [of m "drop ?k ms"] by (metis Un_iff append_take_drop_id set_append)
  have "\<exists>l. ?c = ?r @ l \<and> subseq ?c ms \<and> last ?c = last ms"
  proof (cases "?r = [] \<or> sm_id (last ?r) \<noteq> sm_id (last ms)")
    case False
    then have ne: "?r \<noteq> []" and same: "sm_id (last ?r) = sm_id (last ms)" by blast+
    have "last ?r \<in> set ms" using list_emb_set [OF sub last_in_set [OF ne]] by blast
    with same have "last ?r = last ms"
      using assms inj_onD [of sm_id "set ms"] by (simp add: distinct_map)
    moreover have "?c = ?r" using ne same assms(2) by (simp add: position_sample_compress_def Let_def)
    ultimately show ?thesis using sub by (intro exI [of _ "[]"]) simp
  next
    case True
    obtain us l where ms: "ms = us @ [l]" using assms(2) by (cases ms rule: rev_cases) auto
    have "?r = [] \<or> last ?r \<noteq> l" using True ms by auto
    then have "subseq ?r us" using subseq_snoc [of ?r us l] sub ms by blast
    then have "subseq (?r @ [l]) (us @ [l])" by (rule list_emb_append_mono) simp
    then have "subseq (?r @ [l]) ms" unfolding ms .
    moreover have "?c = ?r @ [l]"
      using True assms(2) ms by (simp add: position_sample_compress_def Let_def)
    ultimately show ?thesis using ms by simp
  qed
  then obtain l where l: "?c = ?r @ l" "subseq ?c ms" "last ?c = last ms" by blast
  then have "set ?r \<subseteq> set ?c" "prefix (take ?k ms) ?c" by (auto simp only: set_append append_assoc intro: prefixI)
  with img l(2,3) show ?thesis unfolding k by blast
qed

text \<open>
  Binding task ids to a session adds them to the ids already bound.  The ids are returned without
  repetition, the numeric ones first and by value, and the entries of the session do not change.
\<close>

theorem bind_task_ids_spec:
  assumes "entry_store ops ok storable con md" "ok s"
    and "session_bind_task_ids ops sid ids s = (Inr (), s1)"
    and "session_task_ids ops sid s1 = (Inr ts, s2)"
  shows "s2 = s1 \<and> con s1 = con s \<and> sorted (map id_key ts) \<and> distinct ts \<and>
     set ts = set (case md s sid task_ids_key of None \<Rightarrow> [] | Some j \<Rightarrow> json_strings j) \<union> set ids"
proof -
  have "es_append ops sid task_ids_key ids s = (Inr (), s1)"
    using assms(3) by (simp add: session_bind_task_ids_def)
  from entry_store.append_ok [OF assms(1,2) this] obtain ch md' where
    s1: "ok s1" "con s1 = con s" "union_metadata_values (md s sid) task_ids_key ids = Inr (ch, md')"
    "md s1 = (md s)(sid := md')" by blast
  from assms(4) have "s2 = s1" "ts = sorted_ids (case md s1 sid task_ids_key of None \<Rightarrow> [] | Some j \<Rightarrow> json_strings j)"
    using entry_store.metadata_ok [OF assms(1) s1(1)]
    by (auto simp: session_task_ids_def session_metadata_def elim!: bindE_InrE)
  with s1 sorted_ids_spec union_metadata_strings [OF s1(3)] show ?thesis by simp
qed

section \<open>Witnesses\<close>

definition demo_line :: "string \<Rightarrow> int \<Rightarrow> session_message" where
  "demo_line i t = new_session_message i t ''s'' (user_msg (TextContent i))"

definition demo_lines :: "session_message list" where
  "demo_lines = [demo_line ''a'' 1, demo_line ''b'' 2]"

definition demo_sessions :: mem_entries where
  "demo_sessions = me_new\<lparr>me_entries := [''s'' \<mapsto> map entry_of_message demo_lines],
     me_metadata := [''s'' \<mapsto> [task_ids_key \<mapsto> JArr [JStr ''7'']]]\<rparr>"

lemma demo_content: "me_content demo_sessions ''s'' = map entry_of_message demo_lines"
  by (simp add: demo_sessions_def me_content_def)

lemma demo_history: "history (me_content demo_sessions ''s'') = demo_lines"
  unfolding demo_content
  by (simp add: demo_lines_def demo_line_def new_session_message_def history_def live_def entry_messages_def
      entry_message_def last_checkpoint_time_def entry_of_message_def is_checkpoint_def map_filter_simps)

lemma demo_in_order: "in_order (me_content demo_sessions ''s'') e"
  by (simp add: demo_content in_order_def is_checkpoint_def entry_of_message_def)

lemma demo_filter: "role_filter_compress [RUser] demo_lines = demo_lines"
  by (simp add: role_filter_compress_def demo_lines_def demo_line_def new_session_message_def)

lemma demo_lines_session: "\<forall>m \<in> set demo_lines. sm_session_id m = ''s''" "demo_lines \<noteq> []"
  by (simp_all add: demo_lines_def demo_line_def new_session_message_def)

lemma demo_compress_ok:
  "history (me_content demo_sessions ''s'') \<noteq> []"
  "role_filter_compress [RUser] (history (me_content demo_sessions ''s'')) \<noteq> []"
  "\<forall>m \<in> set (role_filter_compress [RUser] (history (me_content demo_sessions ''s''))). sm_session_id m = ''s''"
  using demo_lines_session by (simp_all add: demo_history demo_filter)

lemma demo_all_storable: "\<forall>e :: session_entry. True"
  by simp


theorem compress_same_second_witness:
  "\<exists>s2. session_add_message me_ops (demo_line ''new'' 9)
       (session_compress me_ops (role_filter_compress [RUser]) ''c'' ''d'' 9 ''s'' demo_sessions) = (Inr (), s2) \<and>
     fst (session_get_messages me_ops ''s'' s2) =
     fst (session_get_messages me_ops ''s''
       (session_compress me_ops (role_filter_compress [RUser]) ''c'' ''d'' 9 ''s'' demo_sessions))"
  by (rule compress_same_second [where compress = "role_filter_compress [RUser]",
        OF me_reliable TrueI demo_all_storable demo_in_order demo_compress_ok])
     (simp_all add: demo_line_def new_session_message_def)

theorem compress_grows_witness:
  "fst (session_get_messages me_ops ''s'' (session_compress me_ops
       (position_sample_compress position_sample_default) ''c'' ''d'' 9 ''s'' demo_sessions)) =
     Inr (summary_message ''d'' ''s'' (9 + 1) (summary_text demo_lines) # demo_lines)"
proof (rule compress_grows [OF me_reliable TrueI demo_all_storable demo_in_order])
  show "\<forall>e \<in> set (me_content demo_sessions ''s''). en_created_at e \<le> 9"
    by (simp add: demo_content demo_lines_def demo_line_def new_session_message_def entry_of_message_def)
  show "length demo_lines \<le> 3" by (simp add: demo_lines_def)
qed (rule demo_history demo_lines_session)+

theorem position_sample_spec_witness:
  "subseq (position_sample_compress (position_sample_new 1 2) demo_lines) demo_lines \<and>
     prefix (take 1 demo_lines) (position_sample_compress (position_sample_new 1 2) demo_lines) \<and>
     last (position_sample_compress (position_sample_new 1 2) demo_lines) = last demo_lines"
  using position_sample_spec [of demo_lines "position_sample_new 1 2"]
  by (simp add: demo_lines_def demo_line_def new_session_message_def position_sample_new_def)

theorem bind_task_ids_spec_witness:
  "\<exists>s1 ts. session_bind_task_ids me_ops ''s'' [''12'', ''7''] demo_sessions = (Inr (), s1) \<and>
     session_task_ids me_ops ''s'' s1 = (Inr ts, s1) \<and> set ts = {''7'', ''12''} \<and> distinct ts"
proof -
  have store: "entry_store me_ops (\<lambda>s. True) (\<lambda>e. True) me_content me_meta"
    by (rule reliable_entry_store.axioms(1) [OF me_reliable])
  have "fst (session_bind_task_ids me_ops ''s'' [''12'', ''7''] demo_sessions) = Inr ()"
    by (simp add: session_bind_task_ids_def me_ops_def me_append_values_def demo_sessions_def
        union_metadata_values_def Let_def)
  then obtain s1 where s1: "session_bind_task_ids me_ops ''s'' [''12'', ''7''] demo_sessions = (Inr (), s1)"
    by (metis prod.collapse)
  obtain ts s2 where ts: "session_task_ids me_ops ''s'' s1 = (Inr ts, s2)"
    by (simp add: session_task_ids_def session_metadata_def me_ops_def me_get_metadata_def bindE_def ret_def)
  have old: "(case me_meta demo_sessions ''s'' task_ids_key of None \<Rightarrow> [] | Some j \<Rightarrow> json_strings j) = [''7'']"
    by (simp add: me_meta_def demo_sessions_def json_strings_def map_filter_simps)
  show ?thesis
    using bind_task_ids_spec [OF store TrueI s1 ts] s1 ts unfolding old by auto
qed

end
