(* ===== verification/StreamEvent.thy ===== *)
theory StreamEvent
  imports ChatMessage
begin

text \<open>
  What a model call streams and what an agent reports, \<open>crates/vol-llm-core/src/\<close>: errors of a call
  (\<open>error.rs\<close>), usage and requests (\<open>conversation.rs\<close>), the events of a response and the events of
  an agent (\<open>stream.rs\<close>).  The events of an agent also carry the time at which they were made, and the
  tool events a duration, and a request the settings of the model, which an agent leaves at their
  defaults; no code modelled here reads them, and they are left out.
\<close>

section \<open>Errors of a model call\<close>

datatype llm_error =
    LlmNetwork string
  | LlmApi nat string
  | LlmAuth string
  | LlmRateLimit "nat option"
  | LlmParse string
  | LlmTimeout string
  | LlmInvalidRequest string
  | LlmToolCall string
  | LlmContentFiltered string

text \<open>How a duration is printed for debugging is a parameter.\<close>

fun display_llm_error :: "(nat option \<Rightarrow> string) \<Rightarrow> llm_error \<Rightarrow> string" where
  "display_llm_error dur (LlmNetwork e) = ''Network error: '' @ e"
| "display_llm_error dur (LlmApi status m) = ''API error ('' @ show_nat status @ ''): '' @ m"
| "display_llm_error dur (LlmAuth e) = ''Authentication failed: '' @ e"
| "display_llm_error dur (LlmRateLimit r) = ''Rate limit exceeded. Retry after '' @ dur r"
| "display_llm_error dur (LlmParse e) = ''Invalid response format: '' @ e"
| "display_llm_error dur (LlmTimeout e) = ''Request timeout: '' @ e"
| "display_llm_error dur (LlmInvalidRequest e) = ''Invalid request: '' @ e"
| "display_llm_error dur (LlmToolCall e) = ''Tool call error: '' @ e"
| "display_llm_error dur (LlmContentFiltered r) = ''Content was filtered: '' @ r"

section \<open>Requests\<close>

record token_usage =
  tu_prompt_tokens :: u32
  tu_completion_tokens :: u32
  tu_total_tokens :: u32
  tu_cached_tokens :: "u32 option"

definition no_usage :: token_usage where
  "no_usage = \<lparr> tu_prompt_tokens = 0, tu_completion_tokens = 0, tu_total_tokens = 0, tu_cached_tokens = None \<rparr>"

datatype finish_reason = FinishStop | FinishLength | FinishToolCalls | FinishContentFilter | FinishOther

datatype tool_choice = ChoiceAuto | ChoiceRequired | ChoiceNone | ChoiceSpecific string

record conversation_request =
  cq_system :: "string option"
  cq_messages :: "chat_message list"
  cq_tools :: "tool_definition list option"
  cq_tool_choice :: "tool_choice option"
  cq_stream :: bool

definition with_history :: "string option \<Rightarrow> chat_message list \<Rightarrow> conversation_request" where
  "with_history system msgs = \<lparr> cq_system = system, cq_messages = msgs, cq_tools = None,
     cq_tool_choice = None, cq_stream = False \<rparr>"

definition with_tools :: "tool_definition list \<Rightarrow> conversation_request \<Rightarrow> conversation_request" where
  "with_tools ts r = r\<lparr>cq_tools := Some ts\<rparr>"

definition with_tool_choice :: "tool_choice \<Rightarrow> conversation_request \<Rightarrow> conversation_request" where
  "with_tool_choice c r = r\<lparr>cq_tool_choice := Some c\<rparr>"

section \<open>Events of a response\<close>

datatype stream_data =
    SResponseStart string
  | SResponseComplete finish_reason
  | SContentDelta string
  | SContentComplete string
  | SThinkingDelta string
  | SThinkingComplete string
  | SToolCallComplete tool_call
  | SToolCallArgumentDelta string string string
  | SUsageUpdate token_usage
  | SError string string

record stream_event =
  sv_id :: string
  sv_data :: stream_data

text \<open>What a receiver of the stream sees, one after the other.\<close>

type_synonym stream_item = "llm_error + stream_event"

section \<open>Events of an agent\<close>

datatype agent_event =
    AgentStart string
  | AgentComplete "json option"
  | AgentAborted string
  | MaxIterationsReached u32 u32
  | IterationContinued u32
  | LLMCallStart u32 "chat_message list"
  | LLMCallComplete string "token_usage option"
  | LLMCallError string
  | ThinkingStart
  | ThinkingDelta string
  | ThinkingComplete string
  | ContentStart
  | ContentDelta string
  | ContentComplete string
  | ToolCallBegin string string string
  | ToolCallComplete string string string
  | ToolCallError string string string
  | ToolCallSkipped string string string
  | ToolCallArgumentDelta string string string
  | IterationComplete u32 "tool_call list" "string option"
  | PluginEvent string "string \<rightharpoonup> json"

fun event_name :: "agent_event \<Rightarrow> string" where
  "event_name (AgentStart i) = ''AgentStart''"
| "event_name (AgentComplete r) = ''AgentComplete''"
| "event_name (AgentAborted r) = ''AgentAborted''"
| "event_name (MaxIterationsReached c m) = ''MaxIterationsReached''"
| "event_name (IterationContinued f) = ''IterationContinued''"
| "event_name (LLMCallStart i ms) = ''LLMCallStart''"
| "event_name (LLMCallComplete m u) = ''LLMCallComplete''"
| "event_name (LLMCallError e) = ''LLMCallError''"
| "event_name ThinkingStart = ''ThinkingStart''"
| "event_name (ThinkingDelta d) = ''ThinkingDelta''"
| "event_name (ThinkingComplete t) = ''ThinkingComplete''"
| "event_name ContentStart = ''ContentStart''"
| "event_name (ContentDelta d) = ''ContentDelta''"
| "event_name (ContentComplete c) = ''ContentComplete''"
| "event_name (ToolCallBegin i n a) = ''ToolCallBegin''"
| "event_name (ToolCallComplete i n r) = ''ToolCallComplete''"
| "event_name (ToolCallError i n e) = ''ToolCallError''"
| "event_name (ToolCallSkipped i n r) = ''ToolCallSkipped''"
| "event_name (ToolCallArgumentDelta i n d) = ''ToolCallArgumentDelta''"
| "event_name (IterationComplete i cs a) = ''IterationComplete''"
| "event_name (PluginEvent n d) = ''PluginEvent''"

end
