(* ===== verification/Streaming.thy ===== *)
theory Streaming
  imports StreamEvent
begin

text \<open>
  Reading the event stream of a model call, \<open>crates/vol-llm-core/src/streaming.rs\<close>: the events a protocol
  parses out of a line, the session that accumulates them, and the protocol of Anthropic.  How a text is
  parsed as JSON is a parameter.  A counter of the session is a natural number: it counts events held in
  memory.
\<close>

section \<open>Parsed events\<close>

datatype parsed_event =
    PContentDelta string
  | PContentComplete string
  | PThinkingDelta string
  | PThinkingComplete string
  | PToolCallStart nat "string option" "string option"
  | PToolCallDelta nat string
  | PToolCallComplete tool_call
  | PUsage token_usage
  | PResponseStart string
  | PResponseComplete finish_reason
  | PContentBlockStop

type_synonym protocol = "string \<Rightarrow> (llm_error + parsed_event) option"

section \<open>The session\<close>

record call_builder =
  kb_index :: nat
  kb_id :: "string option"
  kb_name :: "string option"
  kb_arguments :: string

definition build_call :: "call_builder \<Rightarrow> tool_call option" where
  "build_call b =
     (case (kb_id b, kb_name b) of
        (Some i, Some n) \<Rightarrow> Some (function_call i n (kb_arguments b))
      | _ \<Rightarrow> None)"

record streaming =
  sn_content :: string
  sn_thinking :: string
  sn_call :: "call_builder option"
  sn_call_index :: nat
  sn_event_id :: nat

definition streaming_new :: streaming where
  "streaming_new = \<lparr> sn_content = [], sn_thinking = [], sn_call = None, sn_call_index = 0, sn_event_id = 0 \<rparr>"

definition next_id :: "streaming \<Rightarrow> string \<times> streaming" where
  "next_id s = (''evt_'' @ show_nat (Suc (sn_event_id s)), s\<lparr>sn_event_id := Suc (sn_event_id s)\<rparr>)"

definition make_event :: "stream_data \<Rightarrow> streaming \<Rightarrow> stream_item list \<times> streaming" where
  "make_event d s = (case next_id s of (i, s) \<Rightarrow> ([Inr \<lparr> sv_id = i, sv_data = d \<rparr>], s))"

definition flush_call :: "streaming \<Rightarrow> stream_item list \<times> streaming" where
  "flush_call s =
     (case sn_call s of
        None \<Rightarrow> ([], s)
      | Some b \<Rightarrow>
          (case build_call b of
             None \<Rightarrow> ([], s\<lparr>sn_call := None\<rparr>)
           | Some c \<Rightarrow> make_event (SToolCallComplete c) (s\<lparr>sn_call := None\<rparr>)))"

definition flush_thinking :: "streaming \<Rightarrow> stream_item list \<times> streaming" where
  "flush_thinking s =
     (if sn_thinking s = [] then ([], s)
      else make_event (SThinkingComplete (sn_thinking s)) (s\<lparr>sn_thinking := []\<rparr>))"

definition flush_content :: "streaming \<Rightarrow> stream_item list \<times> streaming" where
  "flush_content s =
     (if sn_content s = [] then ([], s)
      else make_event (SContentComplete (sn_content s)) (s\<lparr>sn_content := []\<rparr>))"

text \<open>One action after the other, with all their events.\<close>

definition then_events ::
  "('s \<Rightarrow> 'e list \<times> 's) \<Rightarrow> ('s \<Rightarrow> 'e list \<times> 's) \<Rightarrow> 's \<Rightarrow> 'e list \<times> 's" where
  "then_events f g s = (case f s of (xs, s) \<Rightarrow> case g s of (ys, s) \<Rightarrow> (xs @ ys, s))"

fun apply_event :: "parsed_event \<Rightarrow> streaming \<Rightarrow> stream_item list \<times> streaming" where
  "apply_event (PContentDelta t) s = make_event (SContentDelta t) (s\<lparr>sn_content := sn_content s @ t\<rparr>)"
| "apply_event (PContentComplete t) s = make_event (SContentComplete t) s"
| "apply_event (PThinkingDelta t) s = make_event (SThinkingDelta t) (s\<lparr>sn_thinking := sn_thinking s @ t\<rparr>)"
| "apply_event (PThinkingComplete t) s = make_event (SThinkingComplete t) s"
| "apply_event (PToolCallStart i tid n) s =
     ([], s\<lparr>sn_call := Some \<lparr> kb_index = sn_call_index s, kb_id = tid, kb_name = n, kb_arguments = [] \<rparr>,
            sn_call_index := Suc (sn_call_index s)\<rparr>)"
| "apply_event (PToolCallDelta i d) s =
     (case sn_call s of
        None \<Rightarrow> ([], s)
      | Some b \<Rightarrow>
          make_event (SToolCallArgumentDelta
              (case kb_id b of None \<Rightarrow> [] | Some x \<Rightarrow> x) (case kb_name b of None \<Rightarrow> [] | Some x \<Rightarrow> x) d)
            (s\<lparr>sn_call := Some (b\<lparr>kb_arguments := kb_arguments b @ d\<rparr>)\<rparr>))"
| "apply_event (PToolCallComplete c) s = make_event (SToolCallComplete c) s"
| "apply_event (PUsage u) s = make_event (SUsageUpdate u) s"
| "apply_event (PResponseStart m) s = make_event (SResponseStart m) s"
| "apply_event PContentBlockStop s = then_events flush_call flush_thinking s"
| "apply_event (PResponseComplete r) s = make_event (SResponseComplete r) s"

definition process_sse :: "protocol \<Rightarrow> string \<Rightarrow> streaming \<Rightarrow> stream_item list \<times> streaming" where
  "process_sse p line s =
     (case p line of
        Some (Inr e) \<Rightarrow> apply_event e s
      | Some (Inl e) \<Rightarrow> ([Inl e], s)
      | None \<Rightarrow> ([], s))"

definition finalize_session :: "streaming \<Rightarrow> stream_item list \<times> streaming" where
  "finalize_session = then_events flush_content flush_thinking"

section \<open>The protocol of Anthropic\<close>

definition strip_prefix :: "string \<Rightarrow> string \<Rightarrow> string option" where
  "strip_prefix p s = (if take (length p) s = p then Some (drop (length p) s) else None)"

text \<open>The JSON text of a data line.\<close>

definition data_text :: "string \<Rightarrow> string option" where
  "data_text line = map_option trim (strip_prefix ''data:'' (trim line))"

definition u64_or_zero :: "json option \<Rightarrow> u64" where
  "u64_or_zero j = (case json_u64 j of None \<Rightarrow> 0 | Some n \<Rightarrow> n)"

definition usage_of :: "string \<Rightarrow> string \<Rightarrow> json \<Rightarrow> token_usage" where
  "usage_of kin kout j =
     (let i = u64_or_zero (json_get kin j); q = u64_or_zero (json_get kout j)
      in \<lparr> tu_prompt_tokens = ucast i, tu_completion_tokens = ucast q,
           tu_total_tokens = ucast (i + q), tu_cached_tokens = None \<rparr>)"

definition anthropic_finish :: "string option \<Rightarrow> finish_reason" where
  "anthropic_finish r =
     (if r = Some ''end_turn'' \<or> r = Some ''stop_sequence'' then FinishStop
      else if r = Some ''max_tokens'' then FinishLength
      else if r = Some ''tool_use'' then FinishToolCalls
      else FinishOther)"

definition anthropic_event :: "string \<Rightarrow> json \<Rightarrow> parsed_event option" where
  "anthropic_event ty d =
     (if ty = ''message_start'' then
        Some (PResponseStart (case json_str (json_path [''message'', ''model''] d) of
          None \<Rightarrow> ''unknown'' | Some m \<Rightarrow> m))
      else if ty = ''content_block_start'' then
        (if json_str (json_path [''content_block'', ''type''] d) = Some ''tool_use''
         then Some (PToolCallStart 0 (json_str (json_path [''content_block'', ''id''] d))
                (json_str (json_path [''content_block'', ''name''] d)))
         else None)
      else if ty = ''content_block_delta'' then
        (case json_str (json_path [''delta'', ''thinking''] d) of
           Some t \<Rightarrow> Some (PThinkingDelta t)
         | None \<Rightarrow>
             (case json_str (json_path [''delta'', ''text''] d) of
                Some t \<Rightarrow> Some (PContentDelta t)
              | None \<Rightarrow> map_option (PToolCallDelta 0) (json_str (json_path [''delta'', ''partial_json''] d))))
      else if ty = ''content_block_stop'' then Some PContentBlockStop
      else if ty = ''message_delta'' then
        Some (PUsage (case json_get ''usage'' d of
          Some u \<Rightarrow> usage_of ''input_tokens'' ''output_tokens'' u
        | None \<Rightarrow> no_usage))
      else if ty = ''message_stop'' then
        Some (PResponseComplete (anthropic_finish (json_str (json_get ''stop_reason'' d))))
      else None)"

definition anthropic_protocol :: "(string \<Rightarrow> json option) \<Rightarrow> protocol" where
  "anthropic_protocol parse line =
     (case data_text line of
        None \<Rightarrow> None
      | Some text \<Rightarrow>
          (case parse text of
             None \<Rightarrow> None
           | Some d \<Rightarrow>
               (case json_str (json_get ''type'' d) of
                  None \<Rightarrow> None
                | Some ty \<Rightarrow> map_option Inr (anthropic_event ty d))))"

end
