(* ===== verification/ProviderStream.thy ===== *)
theory ProviderStream
  imports Streaming Utf8
begin

text \<open>
  The streams of the providers, \<open>crates/vol-llm-provider/src/\<close>: the parser for OpenAI
  (\<open>openai_streaming.rs\<close>) and the task that cuts the body of a response into lines and feeds them to a
  session (\<open>anthropic.rs\<close>, \<open>openai.rs\<close>).  The body arrives in chunks of bytes, cut anywhere.  The task
  writes to a channel; the model returns all it would write, and a receiver that stops early sees a
  prefix of it.
\<close>

section \<open>The parser of OpenAI\<close>

definition openai_finish :: "string \<Rightarrow> finish_reason" where
  "openai_finish r =
     (if r = ''stop'' then FinishStop
      else if r = ''length'' then FinishLength
      else if r = ''tool_calls'' then FinishToolCalls
      else if r = ''content_filter'' then FinishContentFilter
      else if r = ''function_call'' then FinishToolCalls
      else FinishOther)"

definition openai_index :: "json \<Rightarrow> nat" where
  "openai_index tc = unat (u64_or_zero (json_get ''index'' tc))"

fun openai_calls :: "json list \<Rightarrow> parsed_event option" where
  "openai_calls [] = None"
| "openai_calls (tc # tcs) =
     (let tid = json_str (json_get ''id'' tc);
          name = json_str (json_path [''function'', ''name''] tc);
          args = json_str (json_path [''function'', ''arguments''] tc)
      in if tid \<noteq> None \<or> name \<noteq> None then Some (PToolCallStart (openai_index tc) tid name)
         else case args of
                Some d \<Rightarrow> Some (PToolCallDelta (openai_index tc) d)
              | None \<Rightarrow> openai_calls tcs)"

definition openai_reason :: "json \<Rightarrow> finish_reason option" where
  "openai_reason choice =
     (case json_str (json_get ''finish_reason'' choice) of
        Some r \<Rightarrow> if r \<noteq> ''null'' \<and> r \<noteq> [] then Some (openai_finish r) else None
      | None \<Rightarrow> None)"

definition openai_choice :: "json \<Rightarrow> parsed_event option" where
  "openai_choice choice =
     (case openai_reason choice of
        Some r \<Rightarrow> Some (PResponseComplete r)
      | None \<Rightarrow>
          (case json_str (json_path [''delta'', ''content''] choice) of
             Some (c # cs) \<Rightarrow> Some (PContentDelta (c # cs))
           | _ \<Rightarrow>
               (case json_arr (json_path [''delta'', ''tool_calls''] choice) of
                  Some tcs \<Rightarrow> openai_calls tcs
                | None \<Rightarrow> None)))"

fun openai_choices :: "json list \<Rightarrow> parsed_event option" where
  "openai_choices [] = None"
| "openai_choices (c # cs) = (case openai_choice c of Some e \<Rightarrow> Some e | None \<Rightarrow> openai_choices cs)"

definition openai_body :: "json \<Rightarrow> parsed_event option" where
  "openai_body d =
     (case json_str (json_get ''model'' d) of
        Some m \<Rightarrow> Some (PResponseStart m)
      | None \<Rightarrow> (case json_arr (json_get ''choices'' d) of Some cs \<Rightarrow> openai_choices cs | None \<Rightarrow> None))"

definition openai_event :: "json \<Rightarrow> parsed_event option" where
  "openai_event d =
     (case json_get ''usage'' d of
        Some u \<Rightarrow>
          if u = JNull then openai_body d
          else Some (PUsage (usage_of ''prompt_tokens'' ''completion_tokens'' u))
      | None \<Rightarrow> openai_body d)"

definition openai_protocol :: "(string \<Rightarrow> json option) \<Rightarrow> protocol" where
  "openai_protocol parse line =
     (case data_text line of
        None \<Rightarrow> None
      | Some text \<Rightarrow>
          if text = ''[DONE]'' then Some (Inr (PResponseComplete FinishStop))
          else (case parse text of
                  None \<Rightarrow> None
                | Some d \<Rightarrow> map_option Inr (openai_event d)))"

section \<open>Lines\<close>

text \<open>The complete lines of a buffer, and what is left of it.\<close>

fun take_lines :: "string \<Rightarrow> string \<Rightarrow> string list \<times> string" where
  "take_lines acc [] = ([], acc)"
| "take_lines acc (c # cs) =
     (if c = CHR 0x0A then (case take_lines [] cs of (ls, r) \<Rightarrow> (acc # ls, r))
      else take_lines (acc @ [c]) cs)"

fun process_lines :: "protocol \<Rightarrow> string list \<Rightarrow> streaming \<Rightarrow> stream_item list \<times> streaming" where
  "process_lines p [] s = ([], s)"
| "process_lines p (l # ls) s = then_events (process_sse p (trim l)) (process_lines p ls) s"

section \<open>The reading task\<close>

text \<open>
  A chunk is bytes or the text of a network error; both kinds of error end the reading.  \<open>finish\<close> is what
  follows the last chunk, and \<open>utf8_error\<close> the message for bytes that are no text.
\<close>

fun read_stream ::
  "protocol \<Rightarrow> (streaming \<Rightarrow> stream_item list \<times> streaming) \<Rightarrow> (string \<Rightarrow> string) \<Rightarrow>
   (string + string) list \<Rightarrow> string \<Rightarrow> streaming \<Rightarrow> stream_item list" where
  "read_stream p finish utf8_error [] buf s = fst (finish s)"
| "read_stream p finish utf8_error (Inl e # cs) buf s = Inl (LlmNetwork e) # fst (finish s)"
| "read_stream p finish utf8_error (Inr c # cs) buf s =
     (if valid_utf8 c
      then case take_lines [] (buf @ c) of
             (ls, rest) \<Rightarrow>
               (case process_lines p ls s of
                  (items, s) \<Rightarrow> items @ read_stream p finish utf8_error cs rest s)
      else Inl (LlmParse (utf8_error c)) # fst (finish s))"

definition anthropic_stream ::
  "(string \<Rightarrow> json option) \<Rightarrow> (string \<Rightarrow> string) \<Rightarrow> (string + string) list \<Rightarrow> stream_item list" where
  "anthropic_stream parse utf8_error cs =
     read_stream (anthropic_protocol parse) finalize_session utf8_error cs [] streaming_new"

definition openai_stream ::
  "(string \<Rightarrow> json option) \<Rightarrow> (string \<Rightarrow> string) \<Rightarrow> (string + string) list \<Rightarrow> stream_item list" where
  "openai_stream parse utf8_error cs =
     read_stream (openai_protocol parse) (then_events (apply_event PContentBlockStop) finalize_session)
       utf8_error cs [] streaming_new"

end
