(* ===== verification/AgentStream.thy ===== *)
theory AgentStream
  imports ProviderStream
begin

text \<open>
  How an agent consumes the stream of a model call, \<open>consume_llm_stream\<close> of
  \<open>crates/vol-llm-agent/src/react/agent.rs\<close>: it accumulates the answer and reports agent events as it goes.
  An error of the stream ends the call; an error \<^emph>\<open>event\<close> is only logged.
\<close>

record answer =
  an_thinking :: string
  an_calls :: "tool_call list"
  an_content :: string
  an_model :: string
  an_usage :: "token_usage option"
  an_thinking_started :: bool
  an_content_started :: bool

definition answer_new :: answer where
  "answer_new = \<lparr> an_thinking = [], an_calls = [], an_content = [], an_model = [], an_usage = None,
     an_thinking_started = False, an_content_started = False \<rparr>"

fun consume_event :: "stream_data \<Rightarrow> answer \<Rightarrow> agent_event list \<times> answer" where
  "consume_event (SThinkingDelta d) a =
     ((if an_thinking_started a then [] else [ThinkingStart]) @ [ThinkingDelta d],
      a\<lparr>an_thinking_started := True, an_thinking := an_thinking a @ d\<rparr>)"
| "consume_event (SThinkingComplete t) a =
     ((if an_thinking_started a then [] else [ThinkingStart, ThinkingDelta t]) @ [ThinkingComplete t],
      a\<lparr>an_thinking := t\<rparr>)"
| "consume_event (SContentDelta d) a =
     ((if an_content_started a then [] else [ContentStart]) @ [ContentDelta d],
      a\<lparr>an_content_started := True, an_content := an_content a @ d\<rparr>)"
| "consume_event (SContentComplete c) a =
     ((if an_content_started a then [] else [ContentStart, ContentDelta c]) @ [ContentComplete c],
      a\<lparr>an_content := c\<rparr>)"
| "consume_event (SToolCallComplete c) a = ([], a\<lparr>an_calls := an_calls a @ [c]\<rparr>)"
| "consume_event (SUsageUpdate u) a = ([], a\<lparr>an_usage := Some u\<rparr>)"
| "consume_event (SResponseStart m) a = ([], a\<lparr>an_model := m\<rparr>)"
| "consume_event (SToolCallArgumentDelta i n d) a = ([ToolCallArgumentDelta i n d], a)"
| "consume_event (SError code m) a = ([], a)"
| "consume_event (SResponseComplete r) a = ([], a)"

fun consume_items :: "stream_item list \<Rightarrow> answer \<Rightarrow> agent_event list \<times> (llm_error + answer)" where
  "consume_items [] a = ([], Inr a)"
| "consume_items (Inl e # xs) a = ([], Inl e)"
| "consume_items (Inr v # xs) a =
     (case consume_event (sv_data v) a of
        (evs, a) \<Rightarrow> (case consume_items xs a of (later, r) \<Rightarrow> (evs @ later, r)))"

definition consume_llm_stream :: "stream_item list \<Rightarrow> agent_event list \<times> (llm_error + answer)" where
  "consume_llm_stream xs = consume_items xs answer_new"

end
