(* ===== verification/StreamCorrect.thy ===== *)
theory StreamCorrect
  imports AgentStream Utf8Correct
begin

text \<open>
  What arrives at the agent: the answer does not depend on how the body of a response is cut into chunks
  as long as no character is cut; the blocks of an Anthropic message come back whole; and what the OpenAI
  parser loses.
\<close>

section \<open>Lines and chunks\<close>

lemma take_lines_append:
  "take_lines acc (x @ y) =
     (case take_lines acc x of (ls, r) \<Rightarrow> case take_lines r y of (ls', r') \<Rightarrow> (ls @ ls', r'))"
  by (induction acc x rule: take_lines.induct) (auto split: prod.splits)

lemma take_lines_rest: "take_lines acc x = (ls, r) \<Longrightarrow> take_lines [] acc = ([], acc) \<Longrightarrow> take_lines [] r = ([], r)"
proof (induction acc x arbitrary: ls rule: take_lines.induct)
  case (2 acc c cs)
  show ?case
  proof (cases "c = CHR 0x0A")
    case True
    with 2(3) obtain ls' where "take_lines [] cs = (ls', r)" by (auto split: prod.splits)
    with 2(1) [OF True] show ?thesis by simp
  next
    case False
    with 2(4) have "take_lines [] (acc @ [c]) = ([], acc @ [c])" by (simp add: take_lines_append)
    with 2(2) [OF False] 2(3) False show ?thesis by simp
  qed
qed simp

lemma take_lines_line: "newline_free l \<Longrightarrow> take_lines acc (l @ newline @ x) =
    (case take_lines [] x of (ls, r) \<Rightarrow> ((acc @ l) # ls, r))"
  by (induction l arbitrary: acc) (auto simp: newline_def newline_free_def split: prod.splits)

lemma take_lines_text:
  "list_all newline_free ls \<Longrightarrow> take_lines [] (concat (map (\<lambda>l. l @ newline) ls)) = (ls, [])"
  by (induction ls) (simp_all add: take_lines_line)

lemma process_lines_append: "process_lines p (ls @ ls') s = then_events (process_lines p ls) (process_lines p ls') s"
  by (induction ls arbitrary: s) (auto simp: then_events_def split: prod.splits)

text \<open>Reading one chunk after the other is reading all of them at once.\<close>

lemma read_stream_one:
  assumes "valid_utf8 c" "take_lines [] buf = ([], buf)"
  shows "read_stream p f u (Inr c # cs) buf s =
     (case take_lines buf c of (ls, rest) \<Rightarrow>
        case process_lines p ls s of (items, s) \<Rightarrow> items @ read_stream p f u cs rest s)"
  using assms take_lines_append [of "[]" buf c] by (simp split: prod.splits)

lemma read_stream_concat:
  assumes "list_all valid_utf8 cs" "take_lines [] buf = ([], buf)"
  shows "read_stream p f u (map Inr cs) buf s =
     (case take_lines buf (concat cs) of (ls, rest) \<Rightarrow>
        case process_lines p ls s of (items, s) \<Rightarrow> items @ fst (f s))"
  using assms
proof (induction cs arbitrary: buf s)
  case (Cons c cs)
  obtain ls r where c: "take_lines buf c = (ls, r)" by force
  have r: "take_lines [] r = ([], r)" using take_lines_rest [OF c Cons.prems(2)] .
  obtain items s1 where i: "process_lines p ls s = (items, s1)" by force
  have v: "valid_utf8 c" and vs: "list_all valid_utf8 cs" using Cons.prems(1) by simp_all
  show ?case
    using read_stream_one [OF v Cons.prems(2)] Cons.IH [OF vs r]
    by (simp del: read_stream.simps add: c i take_lines_append process_lines_append then_events_def split: prod.splits)
qed simp

section \<open>Sessions\<close>

fun apply_events :: "parsed_event list \<Rightarrow> streaming \<Rightarrow> stream_item list \<times> streaming" where
  "apply_events [] s = ([], s)"
| "apply_events (e # es) s = then_events (apply_event e) (apply_events es) s"

text \<open>The events of the lines, for a protocol that reports no errors.\<close>

definition parsed :: "protocol \<Rightarrow> string list \<Rightarrow> parsed_event list" where
  "parsed p ls = List.map_filter (\<lambda>l. case p (trim l) of Some (Inr e) \<Rightarrow> Some e | _ \<Rightarrow> None) ls"

definition no_errors :: "protocol \<Rightarrow> bool" where
  "no_errors p \<longleftrightarrow> (\<forall>l x. p l \<noteq> Some (Inl x))"

lemma process_lines_parsed: "no_errors p \<Longrightarrow> process_lines p ls s = apply_events (parsed p ls) s"
  by (induction ls arbitrary: s)
    (auto simp: then_events_def process_sse_def parsed_def map_filter_simps no_errors_def split: prod.splits option.splits sum.splits)

lemma anthropic_no_errors: "no_errors (anthropic_protocol parse)"
  by (simp add: no_errors_def anthropic_protocol_def split: option.splits)

lemma openai_no_errors: "no_errors (openai_protocol parse)"
  by (simp add: no_errors_def openai_protocol_def split: option.splits)

definition answer_of :: "stream_item list \<Rightarrow> answer \<Rightarrow> answer" where
  "answer_of xs a = foldl (\<lambda>a x. case x of Inr v \<Rightarrow> snd (consume_event (sv_data v) a) | Inl e \<Rightarrow> a) a xs"

lemma answer_of_append: "answer_of (xs @ ys) a = answer_of ys (answer_of xs a)"
  by (simp add: answer_of_def)

lemma answer_of_simps [simp]:
  "answer_of [] a = a"
  "answer_of (Inr v # xs) a = answer_of xs (snd (consume_event (sv_data v) a))"
  by (simp_all add: answer_of_def)

lemma consume_items_answer:
  "\<forall>x \<in> set xs. \<exists>v. x = Inr v \<Longrightarrow> snd (consume_items xs a) = Inr (answer_of xs a)"
proof (induction xs arbitrary: a)
  case (Cons x xs)
  then obtain v where x: "x = Inr v" by auto
  obtain evs a' where a': "consume_event (sv_data v) a = (evs, a')" by force
  have "snd (consume_items xs a') = Inr (answer_of xs a')" using Cons by auto
  then show ?case by (auto simp: x a' split: prod.splits)
qed simp

lemma make_event_ok: "\<forall>x \<in> set (fst (make_event d s)). \<exists>v. x = Inr v"
  by (simp add: make_event_def next_id_def)

lemma flush_ok:
  "\<forall>x \<in> set (fst (flush_call s)). \<exists>v. x = Inr v"
  "\<forall>x \<in> set (fst (flush_thinking s)). \<exists>v. x = Inr v"
  "\<forall>x \<in> set (fst (flush_content s)). \<exists>v. x = Inr v"
  by (simp_all add: flush_call_def flush_thinking_def flush_content_def make_event_ok split: option.split)

lemma then_events_ok:
  assumes "\<And>s. \<forall>x \<in> set (fst (f s)). \<exists>v. x = Inr v" "\<And>s. \<forall>x \<in> set (fst (g s)). \<exists>v. x = Inr v"
  shows "\<forall>x \<in> set (fst (then_events f g s)). \<exists>v. x = Inr v"
  using assms(1) [of s] assms(2) [of "snd (f s)"] by (auto simp: then_events_def split: prod.splits)

lemma apply_event_ok: "\<forall>x \<in> set (fst (apply_event e s)). \<exists>v. x = Inr v"
proof (cases e)
  case PContentBlockStop
  then show ?thesis using then_events_ok [of flush_call flush_thinking s, OF flush_ok(1,2)] by simp
qed (simp_all add: make_event_ok split: option.split)

lemma apply_events_ok: "\<forall>x \<in> set (fst (apply_events es s)). \<exists>v. x = Inr v"
proof (induction es arbitrary: s)
  case (Cons e es)
  show ?case using then_events_ok [of "apply_event e" "apply_events es" s, OF apply_event_ok Cons.IH] by simp
qed simp

lemma finalize_ok: "\<forall>x \<in> set (fst (finalize_session s)). \<exists>v. x = Inr v"
  using then_events_ok [of flush_content flush_thinking s, OF flush_ok(3,2)] by (simp add: finalize_session_def)

text \<open>The session and the consumer together, reduced to what becomes of the answer.\<close>

record pipe =
  pp_content :: string
  pp_thinking :: string
  pp_call :: "(string option \<times> string option \<times> string) option"
  pp_answer :: answer

definition pipe_of :: "streaming \<Rightarrow> answer \<Rightarrow> pipe" where
  "pipe_of s a = \<lparr> pp_content = sn_content s, pp_thinking = sn_thinking s,
     pp_call = map_option (\<lambda>b. (kb_id b, kb_name b, kb_arguments b)) (sn_call s), pp_answer = a \<rparr>"

lemma answer_of_pipe: "pp_answer (pipe_of s a) = a"
  by (simp add: pipe_of_def)

definition feed :: "stream_data \<Rightarrow> pipe \<Rightarrow> pipe" where
  "feed d p = p\<lparr>pp_answer := snd (consume_event d (pp_answer p))\<rparr>"

definition pipe_stop :: "pipe \<Rightarrow> pipe" where
  "pipe_stop p =
     (let p1 = (case pp_call p of
                  Some (Some i, Some n, args) \<Rightarrow> feed (SToolCallComplete (function_call i n args)) p
                | _ \<Rightarrow> p)\<lparr>pp_call := None\<rparr>
      in if pp_thinking p = [] then p1 else (feed (SThinkingComplete (pp_thinking p)) p1)\<lparr>pp_thinking := []\<rparr>)"

fun pipe_step :: "parsed_event \<Rightarrow> pipe \<Rightarrow> pipe" where
  "pipe_step (PContentDelta t) p = (feed (SContentDelta t) p)\<lparr>pp_content := pp_content p @ t\<rparr>"
| "pipe_step (PContentComplete t) p = feed (SContentComplete t) p"
| "pipe_step (PThinkingDelta t) p = (feed (SThinkingDelta t) p)\<lparr>pp_thinking := pp_thinking p @ t\<rparr>"
| "pipe_step (PThinkingComplete t) p = feed (SThinkingComplete t) p"
| "pipe_step (PToolCallStart k i n) p = p\<lparr>pp_call := Some (i, n, [])\<rparr>"
| "pipe_step (PToolCallDelta k d) p = p\<lparr>pp_call := map_option (\<lambda>(i, n, args). (i, n, args @ d)) (pp_call p)\<rparr>"
| "pipe_step (PToolCallComplete c) p = feed (SToolCallComplete c) p"
| "pipe_step (PUsage u) p = feed (SUsageUpdate u) p"
| "pipe_step (PResponseStart m) p = feed (SResponseStart m) p"
| "pipe_step (PResponseComplete r) p = feed (SResponseComplete r) p"
| "pipe_step PContentBlockStop p = pipe_stop p"

lemma pipe_make_event:
  "make_event d s = (xs, s') \<Longrightarrow> pipe_of s' (answer_of xs a) = feed d (pipe_of s a)"
  by (auto simp: make_event_def next_id_def pipe_of_def feed_def)

lemma pipe_apply_event:
  "apply_event e s = (xs, s') \<Longrightarrow> pipe_of s' (answer_of xs a) = pipe_step e (pipe_of s a)"
proof (cases e)
  case PContentBlockStop
  assume "apply_event e s = (xs, s')"
  with PContentBlockStop show ?thesis
    by (cases "sn_call s"; cases "sn_thinking s = []")
      (auto simp: then_events_def flush_call_def flush_thinking_def make_event_def next_id_def build_call_def
        pipe_of_def feed_def pipe_stop_def Let_def split: option.splits)
qed (auto simp: make_event_def next_id_def pipe_of_def feed_def split: option.splits)

lemma pipe_apply_events:
  "apply_events es s = (xs, s') \<Longrightarrow> pipe_of s' (answer_of xs a) = foldl (\<lambda>p e. pipe_step e p) (pipe_of s a) es"
proof (induction es arbitrary: s xs s' a)
  case (Cons e es)
  obtain ys s1 where 1: "apply_event e s = (ys, s1)" by force
  obtain zs s2 where 2: "apply_events es s1 = (zs, s2)" by force
  with Cons.prems 1 have "xs = ys @ zs" "s' = s2" by (auto simp: then_events_def)
  with Cons.IH [OF 2] pipe_apply_event [OF 1] show ?case by (simp add: answer_of_append)
qed simp

definition pipe_end :: "pipe \<Rightarrow> pipe" where
  "pipe_end p =
     (let p1 = (if pp_content p = [] then p else (feed (SContentComplete (pp_content p)) p)\<lparr>pp_content := []\<rparr>)
      in if pp_thinking p1 = [] then p1 else (feed (SThinkingComplete (pp_thinking p1)) p1)\<lparr>pp_thinking := []\<rparr>)"

lemma pipe_finalize:
  "finalize_session s = (xs, s') \<Longrightarrow> pipe_of s' (answer_of xs a) = pipe_end (pipe_of s a)"
  by (auto simp: finalize_session_def then_events_def flush_content_def flush_thinking_def make_event_def next_id_def
      pipe_of_def feed_def pipe_end_def Let_def split: if_splits)

section \<open>The blocks of a message\<close>

text \<open>A message of Anthropic is a sequence of blocks, each streamed in pieces and closed.\<close>

datatype block = TextBlock "string list" | ThinkingBlock "string list" | CallBlock string string "string list"

fun block_events :: "block \<Rightarrow> parsed_event list" where
  "block_events (TextBlock ds) = map PContentDelta ds @ [PContentBlockStop]"
| "block_events (ThinkingBlock ds) = map PThinkingDelta ds @ [PContentBlockStop]"
| "block_events (CallBlock i n ds) =
     PToolCallStart 0 (Some i) (Some n) # map (PToolCallDelta 0) ds @ [PContentBlockStop]"

definition message_events :: "string \<Rightarrow> block list \<Rightarrow> token_usage \<Rightarrow> finish_reason \<Rightarrow> parsed_event list" where
  "message_events model bs u r =
     PResponseStart model # concat (map block_events bs) @ [PUsage u, PResponseComplete r]"

fun block_text :: "block \<Rightarrow> string" where
  "block_text (TextBlock ds) = concat ds"
| "block_text _ = []"

fun block_call :: "block \<Rightarrow> tool_call list" where
  "block_call (CallBlock i n ds) = [function_call i n (concat ds)]"
| "block_call _ = []"

fun block_thinking :: "block \<Rightarrow> string" where
  "block_thinking (ThinkingBlock ds) = concat ds"
| "block_thinking _ = []"

text \<open>The thinking of the last block that has any.\<close>

definition last_thinking :: "block list \<Rightarrow> string" where
  "last_thinking bs = foldl (\<lambda>t b. if block_thinking b = [] then t else block_thinking b) [] bs"

abbreviation run_pipe :: "parsed_event list \<Rightarrow> pipe \<Rightarrow> pipe" where
  "run_pipe es p \<equiv> foldl (\<lambda>p e. pipe_step e p) p es"

lemma pipe_texts:
  "pp_answer (run_pipe (map PContentDelta ds) p) =
     (pp_answer p)\<lparr>an_content := an_content (pp_answer p) @ concat ds,
        an_content_started := an_content_started (pp_answer p) \<or> ds \<noteq> []\<rparr> \<and>
   pp_content (run_pipe (map PContentDelta ds) p) = pp_content p @ concat ds \<and>
   pp_thinking (run_pipe (map PContentDelta ds) p) = pp_thinking p \<and>
   pp_call (run_pipe (map PContentDelta ds) p) = pp_call p"
  by (induction ds arbitrary: p) (simp_all add: feed_def)

lemma pipe_thinkings:
  "pp_answer (run_pipe (map PThinkingDelta ds) p) =
     (pp_answer p)\<lparr>an_thinking := an_thinking (pp_answer p) @ concat ds,
        an_thinking_started := an_thinking_started (pp_answer p) \<or> ds \<noteq> []\<rparr> \<and>
   pp_thinking (run_pipe (map PThinkingDelta ds) p) = pp_thinking p @ concat ds \<and>
   pp_content (run_pipe (map PThinkingDelta ds) p) = pp_content p \<and>
   pp_call (run_pipe (map PThinkingDelta ds) p) = pp_call p"
  by (induction ds arbitrary: p) (simp_all add: feed_def)

lemma pipe_arguments:
  "pp_call p = Some (i, n, args) \<Longrightarrow>
   run_pipe (map (PToolCallDelta k) ds) p = p\<lparr>pp_call := Some (i, n, args @ concat ds)\<rparr>"
  by (induction ds arbitrary: p args) simp_all

lemma pipe_block:
  assumes "pp_thinking p = []" "pp_call p = None"
  shows "pp_thinking (run_pipe (block_events b) p) = [] \<and> pp_call (run_pipe (block_events b) p) = None \<and>
    pp_content (run_pipe (block_events b) p) = pp_content p @ block_text b \<and>
    an_content (pp_answer (run_pipe (block_events b) p)) = an_content (pp_answer p) @ block_text b \<and>
    an_calls (pp_answer (run_pipe (block_events b) p)) = an_calls (pp_answer p) @ block_call b \<and>
    an_thinking (pp_answer (run_pipe (block_events b) p)) =
      (if block_thinking b = [] then an_thinking (pp_answer p) else block_thinking b) \<and>
    an_model (pp_answer (run_pipe (block_events b) p)) = an_model (pp_answer p)"
proof (cases b)
  case (TextBlock ds)
  with assms pipe_texts [where p = p and ds = ds] show ?thesis by (simp add: pipe_stop_def Let_def)
next
  case (ThinkingBlock ds)
  with assms pipe_thinkings [where p = p and ds = ds] show ?thesis by (simp add: pipe_stop_def Let_def feed_def)
next
  case (CallBlock i n ds)
  with assms pipe_arguments [where p = "p\<lparr>pp_call := Some (Some i, Some n, [])\<rparr>" and k = 0 and ds = ds]
  show ?thesis by (simp add: pipe_stop_def Let_def feed_def)
qed

lemma pipe_blocks:
  assumes "pp_thinking p = []" "pp_call p = None"
  shows "let q = run_pipe (concat (map block_events bs)) p in
    pp_thinking q = [] \<and> pp_call q = None \<and>
    pp_content q = pp_content p @ concat (map block_text bs) \<and>
    an_content (pp_answer q) = an_content (pp_answer p) @ concat (map block_text bs) \<and>
    an_calls (pp_answer q) = an_calls (pp_answer p) @ concat (map block_call bs) \<and>
    an_thinking (pp_answer q) =
      foldl (\<lambda>t b. if block_thinking b = [] then t else block_thinking b) (an_thinking (pp_answer p)) bs \<and>
    an_model (pp_answer q) = an_model (pp_answer p)"
  using assms
proof (induction bs arbitrary: p)
  case (Cons b bs)
  show ?case
    using pipe_block [OF Cons.prems, of b] Cons.IH [of "run_pipe (block_events b) p"] by (simp add: Let_def)
qed simp

section \<open>Whole streams\<close>

lemma answer_of_stream:
  assumes "no_errors p" "list_all valid_utf8 cs" "take_lines [] (concat cs) = (ls, rest)"
    and "\<And>s. \<forall>x \<in> set (fst (f s)). \<exists>v. x = Inr v"
  shows "\<exists>a s. snd (consume_llm_stream (read_stream p f u (map Inr cs) [] streaming_new)) = Inr (answer_of (fst (f s)) a) \<and>
    pipe_of s a = run_pipe (parsed p ls) (pipe_of streaming_new answer_new)"
proof -
  obtain xs s where s: "apply_events (parsed p ls) streaming_new = (xs, s)" by force
  have all: "read_stream p f u (map Inr cs) [] streaming_new = xs @ fst (f s)"
    using read_stream_concat [OF assms(2), of "[]" p f u streaming_new] assms(3)
    by (simp add: process_lines_parsed [OF assms(1)] s)
  have "\<forall>x \<in> set xs. \<exists>v. x = Inr v" using apply_events_ok [of "parsed p ls" streaming_new] s by simp
  then have "\<forall>x \<in> set (xs @ fst (f s)). \<exists>v. x = Inr v" using assms(4) by fastforce
  then have "snd (consume_llm_stream (xs @ fst (f s))) = Inr (answer_of (fst (f s)) (answer_of xs answer_new))"
    using consume_items_answer by (fastforce simp: consume_llm_stream_def answer_of_append)
  with all pipe_apply_events [OF s] show ?thesis by auto
qed

lemma anthropic_pipe:
  assumes "list_all valid_utf8 cs" "take_lines [] (concat cs) = (ls, rest)"
  shows "\<exists>a. snd (consume_llm_stream (anthropic_stream parse u (map Inr cs))) = Inr a \<and>
    a = pp_answer (pipe_end (run_pipe (parsed (anthropic_protocol parse) ls) (pipe_of streaming_new answer_new)))"
proof -
  from answer_of_stream [where u = u and p = "anthropic_protocol parse" and f = finalize_session, OF anthropic_no_errors assms finalize_ok]
  obtain a s where a: "snd (consume_llm_stream (anthropic_stream parse u (map Inr cs))) =
      Inr (answer_of (fst (finalize_session s)) a)"
    "pipe_of s a = run_pipe (parsed (anthropic_protocol parse) ls) (pipe_of streaming_new answer_new)"
    unfolding anthropic_stream_def by blast
  obtain xs s' where 1: "finalize_session s = (xs, s')" by force
  have "answer_of (fst (finalize_session s)) a = pp_answer (pipe_end (pipe_of s a))"
    using pipe_finalize [OF 1, of a, symmetric] by (simp add: 1 answer_of_pipe)
  with a show ?thesis by simp
qed

lemma openai_pipe:
  assumes "list_all valid_utf8 cs" "take_lines [] (concat cs) = (ls, rest)"
  shows "\<exists>a. snd (consume_llm_stream (openai_stream parse u (map Inr cs))) = Inr a \<and>
    a = pp_answer (pipe_end (pipe_stop (run_pipe (parsed (openai_protocol parse) ls) (pipe_of streaming_new answer_new))))"
proof -
  let ?f = "then_events (apply_event PContentBlockStop) finalize_session"
  from answer_of_stream [where u = u and p = "openai_protocol parse" and f = ?f, OF openai_no_errors assms
      then_events_ok [OF apply_event_ok finalize_ok]]
  obtain a s where a: "snd (consume_llm_stream (openai_stream parse u (map Inr cs))) = Inr (answer_of (fst (?f s)) a)"
    "pipe_of s a = run_pipe (parsed (openai_protocol parse) ls) (pipe_of streaming_new answer_new)"
    unfolding openai_stream_def by blast
  obtain xs s1 where 1: "apply_event PContentBlockStop s = (xs, s1)" by force
  obtain ys s2 where 2: "finalize_session s1 = (ys, s2)" by force
  have "fst (?f s) = xs @ ys" using 1 2 by (simp add: then_events_def)
  moreover have "answer_of ys (answer_of xs a) = pp_answer (pipe_end (pipe_stop (pipe_of s a)))"
    using pipe_finalize [OF 2, of "answer_of xs a", symmetric] pipe_apply_event [OF 1, of a, symmetric]
    by (simp add: answer_of_pipe)
  ultimately show ?thesis using a by (simp add: answer_of_append)
qed

lemma parsed_eq:
  "map (\<lambda>l. p (trim l)) ls = map (\<lambda>e. Some (Inr e)) es \<Longrightarrow> parsed p ls = es"
  by (induction ls arbitrary: es) (auto simp: parsed_def map_filter_simps)

lemma parsed_set: "e \<in> set (parsed p ls) \<longleftrightarrow> (\<exists>l \<in> set ls. p (trim l) = Some (Inr e))"
proof -
  have "(case p (trim l) of Some (Inr e) \<Rightarrow> Some e | _ \<Rightarrow> None) = Some e \<longleftrightarrow> p (trim l) = Some (Inr e)" for l
    by (auto split: option.splits sum.splits)
  then show ?thesis by (simp add: parsed_def set_map_filter)
qed

lemma pipe_message:
  assumes "q = pp_answer (pipe_end (run_pipe (message_events model bs u r) (pipe_of streaming_new answer_new)))"
  shows "an_content q = concat (map block_text bs) \<and> an_calls q = concat (map block_call bs) \<and>
    an_thinking q = last_thinking bs \<and> an_model q = model \<and> an_usage q = Some u"
proof -
  let ?p = "pipe_step (PResponseStart model) (pipe_of streaming_new answer_new)"
  have "pp_thinking ?p = []" "pp_call ?p = None"
    by (simp_all add: pipe_of_def streaming_new_def feed_def)
  note b = pipe_blocks [OF this, of bs]
  then show ?thesis
    by (auto simp: assms message_events_def pipe_end_def feed_def Let_def last_thinking_def pipe_of_def streaming_new_def answer_new_def)
qed

text \<open>An event that carries nothing of the answer.\<close>

fun idle :: "parsed_event \<Rightarrow> bool" where
  "idle (PResponseStart m) = True"
| "idle (PUsage u) = True"
| "idle (PResponseComplete r) = True"
| "idle _ = False"

lemma pipe_idle:
  "\<forall>e \<in> set es. idle e \<Longrightarrow> pp_content (run_pipe es p) = pp_content p \<and> pp_thinking (run_pipe es p) = pp_thinking p \<and>
    pp_call (run_pipe es p) = pp_call p \<and> an_content (pp_answer (run_pipe es p)) = an_content (pp_answer p) \<and>
    an_calls (pp_answer (run_pipe es p)) = an_calls (pp_answer p)"
proof (induction es arbitrary: p)
  case (Cons e es)
  have "idle e" using Cons.prems by simp
  then have "pp_content (pipe_step e p) = pp_content p \<and> pp_thinking (pipe_step e p) = pp_thinking p \<and>
    pp_call (pipe_step e p) = pp_call p \<and> an_content (pp_answer (pipe_step e p)) = an_content (pp_answer p) \<and>
    an_calls (pp_answer (pipe_step e p)) = an_calls (pp_answer p)"
    by (cases e) (simp_all add: feed_def)
  then show ?case using Cons.IH [of "pipe_step e p"] Cons.prems by simp
qed simp

text \<open>Calls that are not closed before the next one starts.\<close>

definition open_call :: "string \<times> string \<times> string list \<Rightarrow> parsed_event list" where
  "open_call c = (case c of (i, n, ds) \<Rightarrow> PToolCallStart 0 (Some i) (Some n) # map (PToolCallDelta 0) ds)"

lemma pipe_open_call:
  "run_pipe (open_call (i, n, ds)) p = p\<lparr>pp_call := Some (Some i, Some n, concat ds)\<rparr>"
  using pipe_arguments [where p = "p\<lparr>pp_call := Some (Some i, Some n, [])\<rparr>" and k = 0 and ds = ds]
  by (simp add: open_call_def)

lemma pipe_open_calls:
  "run_pipe (concat (map open_call (cs @ [(i, n, ds)]))) p = p\<lparr>pp_call := Some (Some i, Some n, concat ds)\<rparr>"
proof (induction cs arbitrary: p)
  case Nil
  then show ?case by (simp add: pipe_open_call)
next
  case (Cons c cs)
  obtain j m es where "c = (j, m, es)" by (cases c) auto
  with Cons show ?case by (simp add: pipe_open_call)
qed

section \<open>Properties\<close>

text \<open>
  C7: the answer of a model does not depend on the chunks its response arrives in: as long as no chunk
  ends inside a character, reading chunk by chunk gives the same events, with the same numbers, as
  reading the whole body at once, for every protocol.
\<close>

theorem stream_chunking:
  assumes "list_all valid_utf8 cs"
  shows "read_stream p f u (map Inr cs) [] s = read_stream p f u [Inr (concat cs)] [] s"
  using read_stream_concat [OF assms, of "[]" p f u s]
    read_stream_concat [of "[concat cs]" "[]" p f u s] valid_utf8_concat [OF assms]
  by simp


text \<open>
  A character that is cut by the end of a chunk ends the stream.  A response that the agent reads
  without error when it arrives in one piece is an error of the call when a chunk ends inside a
  character, although all of its bytes arrive.
\<close>

theorem cut_character_fails:
  assumes "valid_utf8 (x @ y)" "\<not> valid_utf8 x"
  shows "(\<exists>a. snd (consume_llm_stream (anthropic_stream parse u [Inr (x @ y)])) = Inr a) \<and>
    snd (consume_llm_stream (anthropic_stream parse u [Inr x, Inr y])) = Inl (LlmParse (u x))"
proof
  obtain ls rest where "take_lines [] (x @ y) = (ls, rest)" by force
  with anthropic_pipe [of "[x @ y]" ls rest parse u] assms(1)
  show "\<exists>a. snd (consume_llm_stream (anthropic_stream parse u [Inr (x @ y)])) = Inr a" by auto
  show "snd (consume_llm_stream (anthropic_stream parse u [Inr x, Inr y])) = Inl (LlmParse (u x))"
    using assms(2) by (simp add: anthropic_stream_def consume_llm_stream_def)
qed

text \<open>
  The OpenAI parser reports the model of a chunk and nothing else of it.  When every chunk names its
  model, as the chunks of that service do, the answer is empty: no text and no tool call ever reaches
  the agent.
\<close>

theorem openai_empty_answer:
  assumes "list_all valid_utf8 cs" "concat cs = concat (map (\<lambda>l. l @ newline) ls)" "list_all newline_free ls"
    and "\<forall>l \<in> set ls. \<forall>t d. data_text (trim l) = Some t \<longrightarrow> parse t = Some d \<longrightarrow> json_str (json_get ''model'' d) \<noteq> None"
  shows "\<exists>a. snd (consume_llm_stream (openai_stream parse u (map Inr cs))) = Inr a \<and>
    an_content a = [] \<and> an_calls a = []"
proof -
  let ?es = "parsed (openai_protocol parse) ls"
  have "idle e" if "openai_protocol parse (trim l) = Some (Inr e)" "l \<in> set ls" for l e
    using that assms(4)
    by (auto simp: openai_protocol_def openai_event_def openai_body_def split: option.splits if_splits)
  then have "\<forall>e \<in> set ?es. idle e" by (auto simp: parsed_set)
  note i = pipe_idle [OF this, of "pipe_of streaming_new answer_new"]
  have "take_lines [] (concat cs) = (ls, [])" using take_lines_text [OF assms(3)] assms(2) by simp
  from openai_pipe [OF assms(1) this, of parse u] show ?thesis
    using i by (auto simp: pipe_end_def pipe_stop_def Let_def pipe_of_def streaming_new_def answer_new_def)
qed

text \<open>
  Of several tool calls in one OpenAI response only the last reaches the agent: the start of a call
  replaces the call before it, which nothing has closed.
\<close>

theorem openai_parallel_calls:
  assumes "list_all valid_utf8 chunks" "concat chunks = concat (map (\<lambda>l. l @ newline) ls)" "list_all newline_free ls"
    and "map (\<lambda>l. openai_protocol parse (trim l)) ls = map (\<lambda>e. Some (Inr e)) (concat (map open_call (cs @ [(i, n, ds)])))"
  shows "\<exists>a. snd (consume_llm_stream (openai_stream parse u (map Inr chunks))) = Inr a \<and>
    an_calls a = [function_call i n (concat ds)]"
proof -
  have "take_lines [] (concat chunks) = (ls, [])" using take_lines_text [OF assms(3)] assms(2) by simp
  from openai_pipe [OF assms(1) this, of parse u] parsed_eq [where p = "openai_protocol parse", OF assms(4)]
    pipe_open_calls [where cs = cs and p = "pipe_of streaming_new answer_new"]
  show ?thesis
    by (simp add: pipe_end_def pipe_stop_def Let_def feed_def pipe_of_def streaming_new_def answer_new_def)
qed

section \<open>Witnesses\<close>

text \<open>A response in which each line holds the name of its JSON value.\<close>

definition demo_table :: "(string \<times> json) list" where
  "demo_table =
    [(''1'', JObj [(''type'', JStr ''message_start''), (''message'', JObj [(''model'', JStr ''m'')])]),
     (''2'', JObj [(''type'', JStr ''content_block_delta''), (''delta'', JObj [(''text'', JStr ''hi'')])]),
     (''3'', JObj [(''type'', JStr ''content_block_stop'')]),
     (''4'', JObj [(''type'', JStr ''message_delta'')]),
     (''5'', JObj [(''type'', JStr ''message_stop''), (''stop_reason'', JStr ''end_turn'')]),
     (''6'', JObj [(''model'', JStr ''gpt''), (''choices'', JArr [JObj [(''delta'', JObj [(''content'', JStr ''hi'')])]])]),
     (''7'', JObj [(''choices'', JArr [JObj [(''delta'', JObj [(''tool_calls'', JArr [JObj [(''id'', JStr ''a''), (''function'', JObj [(''name'', JStr ''f'')])]])])]])]),
     (''8'', JObj [(''choices'', JArr [JObj [(''delta'', JObj [(''tool_calls'', JArr [JObj [(''id'', JStr ''b''), (''function'', JObj [(''name'', JStr ''g'')])]])])]])])]"

definition demo_parse :: "string \<Rightarrow> json option" where
  "demo_parse = map_of demo_table"

definition demo_body :: "string list \<Rightarrow> string" where
  "demo_body ls = concat (map (\<lambda>l. l @ newline) ls)"

definition demo_message :: "string list" where
  "demo_message = [''data: 1'', ''data: 2'', ''data: 3'', ''data: 4'', ''data: 5'']"

theorem stream_chunking_witness:
  "read_stream (anthropic_protocol demo_parse) finalize_session (\<lambda>x. []) (map Inr [''data: 2'', newline]) [] streaming_new =
   read_stream (anthropic_protocol demo_parse) finalize_session (\<lambda>x. []) [Inr (concat [''data: 2'', newline])] [] streaming_new"
proof (rule stream_chunking)
  show "list_all valid_utf8 [''data: 2'', newline]" by code_simp
qed


theorem cut_character_fails_witness:
  "(\<exists>a. snd (consume_llm_stream (anthropic_stream demo_parse (\<lambda>x. x) [Inr ([CHR 0xC3] @ [CHR 0xA9])])) = Inr a) \<and>
    snd (consume_llm_stream (anthropic_stream demo_parse (\<lambda>x. x) [Inr [CHR 0xC3], Inr [CHR 0xA9]])) =
      Inl (LlmParse [CHR 0xC3])"
proof (rule cut_character_fails)
  show "valid_utf8 ([CHR 0xC3] @ [CHR 0xA9])" by code_simp
  show "\<not> valid_utf8 [CHR 0xC3]" by code_simp
qed

theorem openai_empty_answer_witness:
  "\<exists>a. snd (consume_llm_stream (openai_stream demo_parse (\<lambda>x. []) (map Inr [demo_body [''data: 6'']]))) = Inr a \<and>
    an_content a = [] \<and> an_calls a = []"
proof (rule openai_empty_answer)
  show "list_all valid_utf8 [demo_body [''data: 6'']]" by code_simp
  show "concat [demo_body [''data: 6'']] = concat (map (\<lambda>l. l @ newline) [''data: 6''])" by (simp add: demo_body_def)
  show "list_all newline_free [''data: 6'']" by code_simp
  have "data_text (trim ''data: 6'') = Some ''6''" by code_simp
  moreover have "demo_parse ''6'' = Some (snd (demo_table ! 5))" by code_simp
  moreover have "json_str (json_get ''model'' (snd (demo_table ! 5))) = Some ''gpt''" by code_simp
  ultimately show "\<forall>l \<in> set [''data: 6'']. \<forall>t d. data_text (trim l) = Some t \<longrightarrow> demo_parse t = Some d \<longrightarrow>
      json_str (json_get ''model'' d) \<noteq> None" by auto
qed

theorem openai_parallel_calls_witness:
  "\<exists>a. snd (consume_llm_stream (openai_stream demo_parse (\<lambda>x. []) (map Inr [demo_body [''data: 7'', ''data: 8'']]))) = Inr a \<and>
    an_calls a = [function_call ''b'' ''g'' (concat [])]"
proof (rule openai_parallel_calls)
  show "list_all valid_utf8 [demo_body [''data: 7'', ''data: 8'']]" by code_simp
  show "concat [demo_body [''data: 7'', ''data: 8'']] = concat (map (\<lambda>l. l @ newline) [''data: 7'', ''data: 8''])"
    by (simp add: demo_body_def)
  show "list_all newline_free [''data: 7'', ''data: 8'']" by code_simp
  show "map (\<lambda>l. openai_protocol demo_parse (trim l)) [''data: 7'', ''data: 8''] =
    map (\<lambda>e. Some (Inr e)) (concat (map open_call ([(''a'', ''f'', [])] @ [(''b'', ''g'', [])])))" by code_simp
qed

end
