(* ===== verification/AgentDef.thy ===== *)
theory AgentDef
  imports StreamEvent TaskModel
begin

text \<open>
  The definition of an agent (\<open>crates/vol-llm-core/src/agent_def.rs\<close>), the overlay a runtime may put over its
  capabilities (\<open>capability_overlay.rs\<close>) and the input of a run
  (\<open>crates/vol-llm-agent/src/react/input.rs\<close>).
\<close>

section \<open>Definitions\<close>

datatype agent_scope = UserScope | RepoScope

fun scope_prefix :: "agent_scope \<Rightarrow> string" where
  "scope_prefix UserScope = ''user''"
| "scope_prefix RepoScope = ''repo''"

record agent_def =
  ad_id :: string
  ad_name :: string
  ad_type :: string
  ad_description :: string
  ad_scope :: agent_scope
  ad_tools :: "string list option"
  ad_disallowed_tools :: "string list option"
  ad_model :: "string option"
  ad_max_iterations :: "u32 option"
  ad_max_history_messages :: "nat option"
  ad_prompt :: string
  ad_working_dir :: "string option"
  ad_context_files :: "string list"
  ad_sandbox :: "string option"
  ad_tool_config :: "(string \<rightharpoonup> json) option"
  ad_mcps :: "string list option"
  ad_skills :: "string list option"
  ad_parent_agent :: "string option"
  ad_depth :: u32

definition agent_def_default :: agent_def where
  "agent_def_default = \<lparr> ad_id = [], ad_name = [], ad_type = [], ad_description = [], ad_scope = RepoScope,
     ad_tools = None, ad_disallowed_tools = None, ad_model = None, ad_max_iterations = None,
     ad_max_history_messages = None, ad_prompt = [], ad_working_dir = None, ad_context_files = [],
     ad_sandbox = None, ad_tool_config = None, ad_mcps = None, ad_skills = None, ad_parent_agent = None,
     ad_depth = 0 \<rparr>"

definition agent_def_new :: "string \<Rightarrow> string \<Rightarrow> agent_def" where
  "agent_def_new name prompt = agent_def_default\<lparr>ad_id := ''code:'' @ name, ad_name := name, ad_type := name,
     ad_prompt := prompt\<rparr>"

section \<open>Capability overlays\<close>

record capability_overlay =
  ov_version :: u64
  ov_tools :: "string list"
  ov_skills :: "string list"
  ov_mcp_servers :: "string list"

definition overlay_new :: "string list \<Rightarrow> string list \<Rightarrow> string list \<Rightarrow> capability_overlay" where
  "overlay_new tools skills mcps =
     \<lparr> ov_version = 1, ov_tools = tools, ov_skills = skills, ov_mcp_servers = mcps \<rparr>"

definition overlay_update ::
  "string list \<Rightarrow> string list \<Rightarrow> string list \<Rightarrow> capability_overlay \<Rightarrow> capability_overlay" where
  "overlay_update tools skills mcps ov =
     \<lparr> ov_version = ov_version ov + 1, ov_tools = tools, ov_skills = skills, ov_mcp_servers = mcps \<rparr>"

definition overlay_matches ::
  "string list \<Rightarrow> string list \<Rightarrow> string list \<Rightarrow> capability_overlay \<Rightarrow> bool" where
  "overlay_matches tools skills mcps ov \<longleftrightarrow>
     ov_tools ov = tools \<and> ov_skills ov = skills \<and> ov_mcp_servers ov = mcps"

section \<open>The input of a run\<close>

datatype input_part = InputText string | InputImage string "string option"

record agent_input =
  ai_run_id :: "string option"
  ai_parts :: "input_part list"
  ai_metadata :: "string \<rightharpoonup> json"
  ai_task_ids :: "task_id list"

definition input_new :: agent_input where
  "input_new = \<lparr> ai_run_id = None, ai_parts = [], ai_metadata = Map.empty, ai_task_ids = [] \<rparr>"

definition text_part :: "string \<Rightarrow> agent_input \<Rightarrow> agent_input" where
  "text_part t i = i\<lparr>ai_parts := ai_parts i @ [InputText t]\<rparr>"

definition image_part :: "string \<Rightarrow> string option \<Rightarrow> agent_input \<Rightarrow> agent_input" where
  "image_part url detail i = i\<lparr>ai_parts := ai_parts i @ [InputImage url detail]\<rparr>"

definition text_input :: "string \<Rightarrow> agent_input" where
  "text_input t = text_part t input_new"

fun input_part_text :: "input_part \<Rightarrow> string" where
  "input_part_text (InputText t) = t"
| "input_part_text (InputImage u d) = ''[image]''"

definition input_display_text :: "agent_input \<Rightarrow> string" where
  "input_display_text i = join newline (map input_part_text (ai_parts i))"

definition input_error :: string where
  "input_error = ''Agent input must contain at least one part''"

fun content_part_of :: "input_part \<Rightarrow> content_part" where
  "content_part_of (InputText t) = TextPart t"
| "content_part_of (InputImage u d) = ImagePart \<lparr> iu_url = u, iu_detail = d \<rparr>"

definition to_message_content :: "agent_input \<Rightarrow> message_content option" where
  "to_message_content i =
     (case ai_parts i of
        [] \<Rightarrow> None
      | [InputText t] \<Rightarrow> Some (TextContent t)
      | ps \<Rightarrow> Some (MultiPart (map content_part_of ps)))"

end
