(* ===== verification/ToolRegistry.thy ===== *)
theory ToolRegistry
  imports AgentDef Utf8
begin

text \<open>
  The registry of tools, \<open>crates/vol-llm-tool/src/registry.rs\<close>, with the names MCP servers give their tools
  (\<open>sanitize_name\<close> of \<open>crates/vol-llm-mcp/src/session.rs\<close>, \<open>mcp_tool.rs\<close>).  A tool is a record of its operations over
  a world; the handle of a sandbox is a parameter type.  Parsing arguments as JSON is a parameter, and so
  is which characters beyond ASCII are letters or digits.
\<close>

section \<open>Tools\<close>

record 'b tool_context =
  tx_messages :: "chat_message list"
  tx_sandbox :: 'b
  tx_agent_def :: "agent_def option"

record ('w, 'b) tool =
  to_name :: string
  to_description :: string
  to_parameters :: json
  to_sensitivity :: "json \<Rightarrow> sensitivity"
  to_execute :: "json \<Rightarrow> 'b tool_context \<Rightarrow> ('w, tool_error, tool_result) eff"

definition to_definition :: "('w, 'b) tool \<Rightarrow> tool_definition" where
  "to_definition t = \<lparr> td_name = to_name t, td_description = Some (to_description t),
     td_parameters = Some (to_parameters t) \<rparr>"

section \<open>The registry\<close>

type_synonym ('w, 'b) tool_registry = "string \<rightharpoonup> ('w, 'b) tool"

definition reg_register :: "('w, 'b) tool \<Rightarrow> ('w, 'b) tool_registry \<Rightarrow> ('w, 'b) tool_registry" where
  "reg_register t r = r(to_name t \<mapsto> t)"

definition reg_definitions ::
  "(('w, 'b) tool_registry \<Rightarrow> string list) \<Rightarrow> ('w, 'b) tool_registry \<Rightarrow> tool_definition list" where
  "reg_definitions order r = map to_definition (map_values (order r) r)"

definition reg_execute ::
  "(string \<Rightarrow> string + json) \<Rightarrow> ('w, 'b) tool_registry \<Rightarrow> tool_call \<Rightarrow> 'b tool_context \<Rightarrow>
   ('w, string, tool_result) eff" where
  "reg_execute parse r call ctx =
     (case r (tc_name call) of
        None \<Rightarrow> fail (''Unknown tool: '' @ tc_name call)
      | Some t \<Rightarrow>
          (case parse (tc_arguments call) of
             Inl e \<Rightarrow> fail (''Invalid JSON arguments for '' @ tc_name call @ '': '' @ e)
           | Inr args \<Rightarrow>
               bindE (mapErr display_tool_error (to_execute t args ctx))
                 (\<lambda>res. ret (res\<lparr>call_id := tc_id call\<rparr>))))"

definition reg_sensitivity :: "('w, 'b) tool_registry \<Rightarrow> string \<Rightarrow> json \<Rightarrow> sensitivity" where
  "reg_sensitivity r n args = (case r n of None \<Rightarrow> Safe | Some t \<Rightarrow> to_sensitivity t args)"

definition reg_filter ::
  "string list option \<Rightarrow> string list option \<Rightarrow> ('w, 'b) tool_registry \<Rightarrow> ('w, 'b) tool_registry" where
  "reg_filter allowed disallowed r =
     (let blocked = (case disallowed of None \<Rightarrow> {} | Some d \<Rightarrow> set d)
      in case allowed of
           None \<Rightarrow> (\<lambda>n. if n \<in> blocked then None else r n)
         | Some a \<Rightarrow> (\<lambda>n. if n \<in> set a \<and> n \<notin> blocked then r n else None))"

section \<open>Names of MCP tools\<close>

definition is_alphanumeric :: "(string \<Rightarrow> bool) \<Rightarrow> string \<Rightarrow> bool" where
  "is_alphanumeric letter ch =
     (case ch of
        [c] \<Rightarrow> (48 \<le> byte c \<and> byte c \<le> 57) \<or> (65 \<le> byte c \<and> byte c \<le> 90) \<or> (97 \<le> byte c \<and> byte c \<le> 122)
      | _ \<Rightarrow> letter ch)"

text \<open>Every other character becomes an underscore, and of several underscores one is kept.\<close>

fun sanitize_chars :: "(string \<Rightarrow> bool) \<Rightarrow> bool \<Rightarrow> string list \<Rightarrow> string" where
  "sanitize_chars letter prev [] = []"
| "sanitize_chars letter prev (ch # chs) =
     (if ch = ''_'' \<or> \<not> (is_alphanumeric letter ch \<or> ch = ''-'')
      then (if prev then [] else ''_'') @ sanitize_chars letter True chs
      else ch @ sanitize_chars letter False chs)"

definition sanitize_name :: "(string \<Rightarrow> bool) \<Rightarrow> string \<Rightarrow> string" where
  "sanitize_name letter name =
     (let r = sanitize_chars letter False (utf8_chars name);
          r = (if r \<noteq> [] \<and> last r = CHR ''_'' then butlast r else r)
      in if r = [] then ''unknown'' else r)"

definition mcp_tool_name :: "(string \<Rightarrow> bool) \<Rightarrow> string \<Rightarrow> string \<Rightarrow> string" where
  "mcp_tool_name letter server tool = ''mcp__'' @ sanitize_name letter server @ ''__'' @ sanitize_name letter tool"

text \<open>What stands before the first pair of underscores.\<close>

fun before_double :: "string \<Rightarrow> string option" where
  "before_double (c # d # s) =
     (if c = CHR ''_'' \<and> d = CHR ''_'' then Some [] else map_option ((#) c) (before_double (d # s)))"
| "before_double _ = None"

definition keeps_server :: "string set \<Rightarrow> string \<Rightarrow> bool" where
  "keeps_server allowed name =
     (if take 5 name \<noteq> ''mcp__'' then True
      else case before_double (drop 5 name) of
             Some server \<Rightarrow> server \<in> allowed
           | None \<Rightarrow> True)"

definition reg_filter_mcp_servers ::
  "(string \<Rightarrow> bool) \<Rightarrow> string list \<Rightarrow> ('w, 'b) tool_registry \<Rightarrow> ('w, 'b) tool_registry" where
  "reg_filter_mcp_servers letter servers r =
     (\<lambda>n. if keeps_server (sanitize_name letter ` set servers) n then r n else None)"

text \<open>The servers of the manager itself are filtered by their names as they are.\<close>

definition mcp_filter :: "string list option \<Rightarrow> (string \<rightharpoonup> 'v) \<Rightarrow> (string \<rightharpoonup> 'v)" where
  "mcp_filter names servers =
     (case names of None \<Rightarrow> servers | Some ns \<Rightarrow> (\<lambda>n. if n \<in> set ns then servers n else None))"

section \<open>The tools of a run\<close>

text \<open>A non-empty list of the overlay takes the place of the list of the definition.\<close>

definition overlay_or :: "string list option \<Rightarrow> string list option \<Rightarrow> string list option" where
  "overlay_or over base = (case over of Some (x # xs) \<Rightarrow> Some (x # xs) | _ \<Rightarrow> base)"

definition resolve_tools ::
  "(string \<Rightarrow> bool) \<Rightarrow> capability_overlay option \<Rightarrow> agent_def option \<Rightarrow> ('w, 'b) tool_registry \<Rightarrow>
   ('w, 'b) tool_registry" where
  "resolve_tools letter ov def base =
     (let allowed = overlay_or (map_option ov_tools ov) (Option.bind def ad_tools);
          filtered = reg_filter allowed (Option.bind def ad_disallowed_tools) base
      in case overlay_or (map_option ov_mcp_servers ov) (Option.bind def ad_mcps) of
           None \<Rightarrow> filtered
         | Some names \<Rightarrow> reg_filter_mcp_servers letter names filtered)"

definition resolve_skill_filter :: "capability_overlay option \<Rightarrow> agent_def option \<Rightarrow> string list option" where
  "resolve_skill_filter ov def = overlay_or (map_option ov_skills ov) (Option.bind def ad_skills)"

definition resolve_mcps ::
  "capability_overlay option \<Rightarrow> agent_def option \<Rightarrow> (string \<rightharpoonup> 'v) option \<Rightarrow> (string \<rightharpoonup> 'v)" where
  "resolve_mcps ov def manager =
     (case manager of
        None \<Rightarrow> Map.empty
      | Some servers \<Rightarrow> mcp_filter (overlay_or (map_option ov_mcp_servers ov) (Option.bind def ad_mcps)) servers)"

section \<open>What the names promise\<close>

lemma scan_char_high:
  "scan_char c s = (ok, n) \<Longrightarrow> 1 < n \<Longrightarrow> 128 \<le> byte c \<and> (\<forall>x \<in> set (take (n - 1) s). 128 \<le> byte x)"
proof -
  assume n: "scan_char c s = (ok, n)" "1 < n"
  have step: "between lo hi (x # r) \<longleftrightarrow> lo \<le> byte x \<and> byte x \<le> hi" "\<not> between lo hi []" for lo hi x r
    by (simp_all add: between_def)
  consider "s = []" | v where "s = [v]" | v w where "s = [v, w]" | v w z r where "s = v # w # z # r"
    by (metis list.exhaust)
  then show ?thesis
    using n by cases (auto simp: scan_char_def Let_def step split: if_splits)
qed

lemma byte_underscore: "byte (CHR ''_'') = 95"
  by (simp add: byte_def)

lemma utf8_chars_plain: "ch \<in> set (utf8_chars s) \<Longrightarrow> ch = ''_'' \<or> (ch \<noteq> [] \<and> CHR ''_'' \<notin> set ch)"
proof (induction s rule: utf8_chars.induct)
  case (2 c s)
  obtain ok n where n: "scan_char c s = (ok, n)" by force
  show ?case
  proof (cases "ch \<in> set (utf8_chars (drop (n - 1) s))")
    case True
    with 2(1) [OF n [symmetric]] show ?thesis by blast
  next
    case False
    with 2(2) n have ch: "ch = c # take (n - 1) s" by simp
    show ?thesis
    proof (cases "1 < n")
      case True
      have "128 \<le> byte x" if "x \<in> set ch" for x
        using scan_char_high [OF n True] that ch by auto
      then have "CHR ''_'' \<notin> set ch" using byte_underscore by fastforce
      with ch show ?thesis by simp
    next
      case False
      with ch show ?thesis by auto
    qed
  qed
qed simp

lemma before_double_plain:
  "CHR ''_'' \<notin> set w \<Longrightarrow> before_double (w @ x) = None \<longleftrightarrow> before_double x = None"
proof (induction w)
  case (Cons c w)
  then show ?case by (cases "w @ x") auto
qed simp

lemma before_double_after:
  "CHR ''_'' \<notin> set w \<Longrightarrow> w \<noteq> [] \<Longrightarrow> before_double (CHR ''_'' # w @ x) = None \<longleftrightarrow> before_double x = None"
  using before_double_plain [of w x] by (cases w) auto

lemma sanitize_chars_no_double:
  assumes "\<forall>ch \<in> set chs. ch = ''_'' \<or> (ch \<noteq> [] \<and> CHR ''_'' \<notin> set ch)"
  shows "before_double (sanitize_chars letter prev chs) = None \<and>
    (prev \<longrightarrow> before_double (CHR ''_'' # sanitize_chars letter prev chs) = None)"
  using assms
proof (induction chs arbitrary: prev)
  case (Cons ch chs)
  have ih: "before_double (sanitize_chars letter p chs) = None"
    "p \<longrightarrow> before_double (CHR ''_'' # sanitize_chars letter p chs) = None" for p
    using Cons.IH [of p] Cons.prems by auto
  show ?case
  proof (cases "ch = ''_'' \<or> \<not> (is_alphanumeric letter ch \<or> ch = ''-'')")
    case True
    with ih(1,2) [of True] show ?thesis by simp
  next
    case False
    with Cons.prems have "CHR ''_'' \<notin> set ch" "ch \<noteq> []" by auto
    with False ih(1) [of False] before_double_plain before_double_after show ?thesis by auto
  qed
qed simp

lemma before_double_butlast: "before_double (s @ [c]) = None \<Longrightarrow> before_double s = None"
  by (induction s rule: before_double.induct) (auto split: if_splits)

lemma before_double_found:
  "before_double s = None \<Longrightarrow> s = [] \<or> last s \<noteq> CHR ''_'' \<Longrightarrow> before_double (s @ ''__'' @ t) = Some s"
  by (induction s rule: before_double.induct) (auto split: if_splits)

lemma before_double_end:
  "before_double (s @ [CHR ''_'']) = None \<Longrightarrow> s = [] \<or> last s \<noteq> CHR ''_''"
  by (induction s rule: before_double.induct) (auto split: if_splits)

lemma sanitize_name_clean:
  "before_double (sanitize_name letter s) = None \<and> last (sanitize_name letter s) \<noteq> CHR ''_''"
proof -
  let ?r = "sanitize_chars letter False (utf8_chars s)"
  have r: "before_double ?r = None" using sanitize_chars_no_double utf8_chars_plain by blast
  show ?thesis
  proof (cases "?r \<noteq> [] \<and> last ?r = CHR ''_''")
    case True
    then have e: "?r = butlast ?r @ [CHR ''_'']" by (metis append_butlast_last_id)
    have "before_double (butlast ?r @ [CHR ''_'']) = None" by (rule subst [OF e, of "\<lambda>x. before_double x = None", OF r])
    note clean = before_double_butlast [OF this] before_double_end [OF this]
    have "sanitize_name letter s = (if butlast ?r = [] then ''unknown'' else butlast ?r)"
      using True by (simp add: sanitize_name_def Let_def)
    with clean show ?thesis by (cases "butlast ?r = []") simp_all
  next
    case False
    with r show ?thesis by (auto simp: sanitize_name_def Let_def)
  qed
qed

lemma keeps_mcp_tool:
  "keeps_server allowed (mcp_tool_name letter server tool) \<longleftrightarrow> sanitize_name letter server \<in> allowed"
  using before_double_found [of "sanitize_name letter server" "sanitize_name letter tool"] sanitize_name_clean [of letter server]
  by (auto simp: keeps_server_def mcp_tool_name_def)

section \<open>Properties\<close>

text \<open>
  C11: the tools of a run.  A tool is available exactly when it is registered, the definition of the agent
  does not forbid it, the list of tools in force names it, and, for a tool of an MCP server, the list of
  servers in force has a server whose cleaned-up name is that of the tool's server.  Lists of an overlay
  are in force when they are not empty; nothing lifts the prohibitions of the definition.
\<close>

theorem resolve_tools_spec:
  "let allowed = overlay_or (map_option ov_tools ov) (Option.bind def ad_tools);
       servers = overlay_or (map_option ov_mcp_servers ov) (Option.bind def ad_mcps);
       listed = (\<lambda>n. (\<forall>d. Option.bind def ad_disallowed_tools = Some d \<longrightarrow> n \<notin> set d) \<and> (\<forall>a. allowed = Some a \<longrightarrow> n \<in> set a))
   in (\<forall>n. take 5 n \<noteq> ''mcp__'' \<longrightarrow> resolve_tools letter ov def base n = (if listed n then base n else None)) \<and>
      (\<forall>server tool. resolve_tools letter ov def base (mcp_tool_name letter server tool) =
         (if listed (mcp_tool_name letter server tool) \<and>
             (\<forall>ns. servers = Some ns \<longrightarrow> sanitize_name letter server \<in> sanitize_name letter ` set ns)
          then base (mcp_tool_name letter server tool) else None))"
proof -
  let ?servers = "overlay_or (map_option ov_mcp_servers ov) (Option.bind def ad_mcps)"
  let ?listed = "\<lambda>n. (\<forall>d. Option.bind def ad_disallowed_tools = Some d \<longrightarrow> n \<notin> set d) \<and>
    (\<forall>a. overlay_or (map_option ov_tools ov) (Option.bind def ad_tools) = Some a \<longrightarrow> n \<in> set a)"
  have nest: "(if p then if q then x else y else y) = (if q \<and> p then x else y)" for p q and x y :: "('c, 'd) tool option"
    by simp
  have plain: "take 5 n \<noteq> ''mcp__'' \<Longrightarrow> keeps_server A n" for A n
    by (simp add: keeps_server_def)
  have filt: "reg_filter a d r n = (if (\<forall>b. d = Some b \<longrightarrow> n \<notin> set b) \<and> (\<forall>b. a = Some b \<longrightarrow> n \<in> set b) then r n else None)"
    for a d n and r :: "('c, 'd) tool_registry"
    by (cases a; cases d) (simp_all add: reg_filter_def)
  have tools: "resolve_tools letter ov def base n =
      (if \<forall>ns. overlay_or (map_option ov_mcp_servers ov) (Option.bind def ad_mcps) = Some ns \<longrightarrow>
          keeps_server (sanitize_name letter ` set ns) n
       then reg_filter (overlay_or (map_option ov_tools ov) (Option.bind def ad_tools))
         (Option.bind def ad_disallowed_tools) base n else None)" for n
    by (cases "overlay_or (map_option ov_mcp_servers ov) (Option.bind def ad_mcps)")
      (simp_all add: resolve_tools_def Let_def reg_filter_mcp_servers_def)
  show ?thesis
    unfolding Let_def tools filt keeps_mcp_tool nest
  proof (intro conjI allI impI)
    fix n :: string
    assume "take 5 n \<noteq> ''mcp__''"
    with plain show "(if ?listed n \<and> (\<forall>ns. ?servers = Some ns \<longrightarrow> keeps_server (sanitize_name letter ` set ns) n) then base n else None) =
        (if ?listed n then base n else None)" by simp
  qed (rule refl)
qed

section \<open>Witness\<close>

definition demo_tool :: "string \<Rightarrow> (unit, unit) tool" where
  "demo_tool n = \<lparr> to_name = n, to_description = [], to_parameters = JNull, to_sensitivity = (\<lambda>a. Safe),
     to_execute = (\<lambda>a c. ret (tool_success [])) \<rparr>"

definition demo_registry :: "(unit, unit) tool_registry" where
  "demo_registry = reg_register (demo_tool ''mcp__my_server__run'') (reg_register (demo_tool ''read'') Map.empty)"

definition no_letter :: "string \<Rightarrow> bool" where
  "no_letter ch \<longleftrightarrow> False"

theorem resolve_tools_spec_witness:
  "resolve_tools no_letter (Some (overlay_new [] [] [''my.server''])) (Some agent_def_default) demo_registry
     (mcp_tool_name no_letter ''my server'' ''run'') = demo_registry (mcp_tool_name no_letter ''my server'' ''run'') \<and>
   resolve_tools no_letter (Some (overlay_new [] [] [''other''])) (Some agent_def_default) demo_registry ''read'' =
     demo_registry ''read''"
proof -
  have names: "sanitize_name no_letter ''my server'' = ''my_server''" "sanitize_name no_letter ''my.server'' = ''my_server''"
    by code_simp+
  show ?thesis
    using resolve_tools_spec [of "Some (overlay_new [] [] [''my.server''])" "Some agent_def_default" no_letter demo_registry]
      resolve_tools_spec [of "Some (overlay_new [] [] [''other''])" "Some agent_def_default" no_letter demo_registry]
    by (simp add: Let_def overlay_new_def overlay_or_def agent_def_default_def names)
qed

end
