(* ===== verification/AgentPlugins.thy ===== *)
theory AgentPlugins
  imports StreamEvent
begin

text \<open>
  Plugins of an agent, \<open>crates/vol-llm-agent/src/react/\<close>: the registry (\<open>plugin.rs\<close>), the loops that ask and
  inform them (\<open>plugin_stream.rs\<close>) and the plugin that asks a human (\<open>hitl.rs\<close>, with the channels of
  \<open>plugins/hitl_cli.rs\<close> and \<open>plugins/hitl_http.rs\<close>).  A plugin is a record of its hooks over a world;
  a hook that panics returns no decision.
\<close>

section \<open>Plugins and their registry\<close>

datatype plugin_decision = Proceed | SkipEvent | AbortRun string

record 'w plugin =
  pl_id :: string
  pl_priority :: u32
  pl_intercept :: "agent_event \<Rightarrow> 'w \<Rightarrow> plugin_decision option \<times> 'w"
  pl_listen :: "agent_event \<Rightarrow> 'w \<Rightarrow> 'w"

fun plugin_register :: "'w plugin \<Rightarrow> 'w plugin list \<Rightarrow> 'w plugin list" where
  "plugin_register p [] = [p]"
| "plugin_register p (q # qs) =
     (if pl_priority p < pl_priority q then p # q # qs else q # plugin_register p qs)"

definition plugin_get :: "string \<Rightarrow> 'w plugin list \<Rightarrow> 'w plugin option" where
  "plugin_get i ps = find (\<lambda>p. pl_id p = i) ps"

section \<open>Asking\<close>

text \<open>The first decision that is not to proceed counts; a panic ends the task that asks.\<close>

fun ask_plugins :: "'w plugin list \<Rightarrow> agent_event \<Rightarrow> 'w \<Rightarrow> plugin_decision option \<times> 'w" where
  "ask_plugins [] ev w = (Some Proceed, w)"
| "ask_plugins (p # ps) ev w =
     (case pl_intercept p ev w of
        (Some Proceed, w) \<Rightarrow> ask_plugins ps ev w
      | (Some SkipEvent, w) \<Rightarrow> (Some SkipEvent, w)
      | (Some (AbortRun r), w) \<Rightarrow> (Some (AbortRun r), w)
      | (None, w) \<Rightarrow> (None, w))"

section \<open>Informing\<close>

text \<open>
  What a receiver of the broadcast channel gets.  A receiver that has fallen behind gets the number of
  events it missed, an error like the end of the channel; the loop ends at either.
\<close>

datatype received = Received agent_event | Lagged nat | Closed

fun listen_loop :: "'w plugin \<Rightarrow> received list \<Rightarrow> 'w \<Rightarrow> 'w" where
  "listen_loop p [] w = w"
| "listen_loop p (Received ev # rs) w = listen_loop p rs (pl_listen p ev w)"
| "listen_loop p (Lagged n # rs) w = w"
| "listen_loop p (Closed # rs) w = w"

section \<open>Asking a human\<close>

record approval_request =
  aq_tool_name :: string
  aq_reason :: string
  aq_metadata :: json

datatype approval_response = Approved | Rejected string

datatype approval_error = ChannelClosed | ApprovalTimeout | Transport string

fun display_approval_error :: "approval_error \<Rightarrow> string" where
  "display_approval_error ChannelClosed = ''Channel closed''"
| "display_approval_error ApprovalTimeout = ''Timeout waiting for approval''"
| "display_approval_error (Transport e) = ''Transport error: '' @ e"

datatype approval_trigger = ToolExecution "string list option" | AfterIteration | BeforeFinalAnswer

datatype timeout_behavior = TimeoutApprove | TimeoutReject string | TimeoutStop

record hitl_config =
  hc_triggers :: "approval_trigger list"
  hc_timeout_secs :: u64
  hc_on_timeout :: timeout_behavior
  hc_timeout_message :: "string option"

definition hitl_default :: hitl_config where
  "hitl_default = \<lparr> hc_triggers = [], hc_timeout_secs = 0, hc_on_timeout = TimeoutApprove,
     hc_timeout_message = None \<rparr>"

text \<open>A channel: a request and a time limit, answered, unanswered or failed.\<close>

type_synonym 'w approval_channel =
  "approval_request \<Rightarrow> u64 option \<Rightarrow> ('w, approval_error, approval_response option) eff"

definition needs_tool_approval :: "hitl_config \<Rightarrow> string \<Rightarrow> bool" where
  "needs_tool_approval c tool = list_ex (\<lambda>t. case t of
       ToolExecution None \<Rightarrow> True
     | ToolExecution (Some ts) \<Rightarrow> tool \<in> set ts
     | _ \<Rightarrow> False) (hc_triggers c)"

definition needs_iteration_pause :: "hitl_config \<Rightarrow> bool" where
  "needs_iteration_pause c = list_ex (\<lambda>t. t = AfterIteration) (hc_triggers c)"

definition request_approval ::
  "hitl_config \<Rightarrow> 'w approval_channel \<Rightarrow> approval_request \<Rightarrow> ('w, approval_error, approval_response) eff" where
  "request_approval c channel request =
     bindE (channel request (if 0 < hc_timeout_secs c then Some (hc_timeout_secs c) else None)) (\<lambda>r.
       case r of
         Some response \<Rightarrow> ret response
       | None \<Rightarrow>
           (case hc_on_timeout c of
              TimeoutApprove \<Rightarrow> ret Approved
            | TimeoutReject reason \<Rightarrow> ret (Rejected reason)
            | TimeoutStop \<Rightarrow> fail ApprovalTimeout))"

definition decide :: "string \<Rightarrow> approval_error + approval_response \<Rightarrow> plugin_decision" where
  "decide rejected r =
     (case r of
        Inr Approved \<Rightarrow> Proceed
      | Inr (Rejected reason) \<Rightarrow> AbortRun (rejected @ reason)
      | Inl ApprovalTimeout \<Rightarrow> AbortRun ''Approval timeout''
      | Inl e \<Rightarrow> AbortRun (''Approval error: '' @ display_approval_error e))"

definition show_u32 :: "u32 \<Rightarrow> string" where
  "show_u32 n = show_nat (unat n)"

definition hitl_intercept ::
  "hitl_config \<Rightarrow> 'w approval_channel \<Rightarrow> agent_event \<Rightarrow> 'w \<Rightarrow> plugin_decision option \<times> 'w" where
  "hitl_intercept c channel ev w =
     (case ev of
        ToolCallBegin i tool args \<Rightarrow>
          if needs_tool_approval c tool then
            (case request_approval c channel
                \<lparr> aq_tool_name = tool, aq_reason = ''Execute tool: '' @ tool @ '' with args: '' @ args,
                  aq_metadata = JObj [(''tool_call_id'', JStr i), (''tool_name'', JStr tool), (''arguments'', JStr args)] \<rparr> w of
               (r, w) \<Rightarrow> (Some (decide ''Rejected: '' r), w))
          else (Some Proceed, w)
      | IterationComplete iter calls final \<Rightarrow>
          if needs_iteration_pause c \<and> final = None then
            (case request_approval c channel
                \<lparr> aq_tool_name = ''continue'', aq_reason = ''Iteration '' @ show_u32 iter @ '' complete. Continue?'',
                  aq_metadata = JObj [(''iteration'', JNum (uint iter))] \<rparr> w of
               (r, w) \<Rightarrow> (Some (decide (''Stopped after iteration '' @ show_u32 iter @ '': '') r), w))
          else (Some Proceed, w)
      | _ \<Rightarrow> (Some Proceed, w))"

definition hitl_plugin :: "hitl_config \<Rightarrow> 'w approval_channel \<Rightarrow> 'w plugin" where
  "hitl_plugin c channel = \<lparr> pl_id = ''human_in_loop'', pl_priority = 25,
     pl_intercept = hitl_intercept c channel, pl_listen = (\<lambda>ev w. w) \<rparr>"

text \<open>The console: what a typed line means, and what follows from a line that cannot be read.\<close>

definition parse_approval_input :: "string \<Rightarrow> approval_response option" where
  "parse_approval_input s =
     (let t = to_lower s in
      if t = ''a'' \<or> t = ''approve'' \<or> t = ''y'' \<or> t = ''yes'' then Some Approved
      else if t = ''r'' \<or> t = ''reject'' \<or> t = ''n'' \<or> t = ''no'' then Some (Rejected ''User rejected'')
      else if t = ''s'' \<or> t = ''stop'' then Some (Rejected ''User stopped execution'')
      else None)"

datatype console_line = Typed string | ReadFailed string | NoLineInTime

definition cli_channel :: "('w \<Rightarrow> console_line \<times> 'w) \<Rightarrow> 'w approval_channel" where
  "cli_channel read_line request timeout w =
     (case read_line w of
        (Typed s, w) \<Rightarrow> (Inr (parse_approval_input (trim s)), w)
      | (ReadFailed e, w) \<Rightarrow> (case timeout of Some t \<Rightarrow> Inr None | None \<Rightarrow> Inl (Transport e), w)
      | (NoLineInTime, w) \<Rightarrow> (Inr None, w))"

text \<open>The other console loop, which reads a line of its own; \<open>None\<close> is a read error.\<close>

definition cli_loop_answer :: "string option \<Rightarrow> approval_response" where
  "cli_loop_answer line =
     (case line of
        Some s \<Rightarrow>
          (let t = to_lower (trim s) in
           if t = ''y'' \<or> t = ''yes'' \<or> t = [] then Approved else Rejected ''User rejected'')
      | None \<Rightarrow> Rejected ''User rejected'')"

definition custom_handler_answer :: "approval_error + approval_response option \<Rightarrow> approval_response" where
  "custom_handler_answer r = (case r of Inr (Some response) \<Rightarrow> response | _ \<Rightarrow> Approved)"

end
