(* ===== verification/AgentRun.thy ===== *)
theory AgentRun
  imports AgentPlugins AgentStream ToolRegistry Session
begin

text \<open>
  The ReAct loop, \<open>crates/vol-llm-agent/src/react/\<close>: the context of a run (\<open>run_context.rs\<close>, \<open>state.rs\<close>,
  \<open>response.rs\<close>), one tool call, one iteration, the loop and the run of an input (\<open>agent.rs\<close>).  The model, the
  tools, the plugins, the session store, the contributors and the clock act on one world.  Events are
  collected in the order in which they are put on the bus; what listeners do with them is outside of
  the model.  A run may go on for ever, so the loop is a partial function.
\<close>

section \<open>Errors and responses\<close>

datatype agent_error =
    AeLlm llm_error
  | AeToolExecution string string
  | AeMaxIterations u32
  | AeInvalidToolResponse string
  | AeInvalidInput string
  | AeContext string
  | AeSession string
  | AeAlreadyRunning

fun display_agent_error :: "(nat option \<Rightarrow> string) \<Rightarrow> agent_error \<Rightarrow> string" where
  "display_agent_error dur (AeLlm e) = ''LLM error: '' @ display_llm_error dur e"
| "display_agent_error dur (AeToolExecution t e) = ''Tool execution failed: '' @ t @ '': '' @ e"
| "display_agent_error dur (AeMaxIterations n) =
     ''Max iterations ('' @ show_u32 n @ '') reached without final response''"
| "display_agent_error dur (AeInvalidToolResponse e) = ''Invalid tool response: '' @ e"
| "display_agent_error dur (AeInvalidInput e) = ''Invalid agent input: '' @ e"
| "display_agent_error dur (AeContext e) = ''Context error: '' @ e"
| "display_agent_error dur (AeSession e) = ''Session error: '' @ e"
| "display_agent_error dur AeAlreadyRunning =
     ''agent is already running '' @ [CHR 0xE2, CHR 0x80, CHR 0x94] @ '' concurrent run_input() rejected''"

record reasoning_step =
  rg_iteration :: u32
  rg_thinking :: string

record call_record =
  cr_tool_name :: string
  cr_arguments :: string
  cr_result :: string
  cr_iteration :: u32
  cr_success :: bool

record agent_response =
  ar_content :: string
  ar_reasoning :: "reasoning_step list"
  ar_run_id :: string
  ar_session_id :: string
  ar_iterations :: u32
  ar_tool_calls :: "call_record list"
  ar_error :: "string option"

section \<open>The context of a run\<close>

record run_context =
  rc_run_id :: string
  rc_user_input :: string
  rc_session_id :: string
  rc_task_ids :: "task_id list"
  rc_iteration :: u32
  rc_all_tool_calls :: "tool_call list"
  rc_current_tool_calls :: "tool_call list"
  rc_data :: "string \<rightharpoonup> json"
  rc_reasoning :: "reasoning_step list"
  rc_records :: "call_record list"
  rc_final :: "string option"
  rc_error :: "string option"
  rc_last_message :: "string option"
  rc_events :: "agent_event list"
  rc_interceptor :: bool

definition run_context_new :: "string \<Rightarrow> string \<Rightarrow> string \<Rightarrow> run_context" where
  "run_context_new run_id input sid = \<lparr> rc_run_id = run_id, rc_user_input = input, rc_session_id = sid,
     rc_task_ids = [], rc_iteration = 0, rc_all_tool_calls = [], rc_current_tool_calls = [], rc_data = Map.empty,
     rc_reasoning = [], rc_records = [], rc_final = None, rc_error = None, rc_last_message = None,
     rc_events = [], rc_interceptor = True \<rparr>"

text \<open>What a run works with; all of it stays the same while it lasts.\<close>

record ('w, 'b) run_env =
  rv_plugins :: "'w plugin list"
  rv_def :: "agent_def option"
  rv_tools :: "('w, 'b) tool_registry"
  rv_tool_order :: "('w, 'b) tool_registry \<Rightarrow> string list"
  rv_ops :: "'w entry_store_ops"
  rv_builder :: "'w context_builder"
  rv_converse :: "conversation_request \<Rightarrow> ('w, llm_error, stream_item list) eff"
  rv_to_json :: "chat_message \<Rightarrow> string"
  rv_parse :: "string \<Rightarrow> string + json"
  rv_uuid :: "'w \<Rightarrow> string \<times> 'w"
  rv_now :: "'w \<Rightarrow> int"
  rv_show_duration :: "nat option \<Rightarrow> string"
  rv_sandbox_manager :: "((string \<Rightarrow> 'w \<Rightarrow> 'b option \<times> 'w) \<times> ('w \<Rightarrow> 'b \<times> 'w)) option"
  rv_tool_sandbox :: "string \<Rightarrow> string option"
  rv_default_sandbox :: "string option"
  rv_sandbox :: "'b option"
  rv_local_sandbox :: 'b

definition max_iterations :: "agent_def option \<Rightarrow> u32" where
  "max_iterations def =
     (case Option.bind def ad_max_iterations of
        Some v \<Rightarrow> v
      | None \<Rightarrow> if (case def of None \<Rightarrow> 0 | Some d \<Rightarrow> ad_depth d) = 0 then 999 else 499)"

definition max_history_messages :: "agent_def option \<Rightarrow> nat" where
  "max_history_messages def = (case Option.bind def ad_max_history_messages of Some n \<Rightarrow> n | None \<Rightarrow> 20)"

record 'w run_state =
  rs_ctx :: run_context
  rs_world :: 'w

type_synonym ('w, 'a) run_eff = "('w run_state, agent_error, 'a) eff"

definition on_ctx :: "(run_context \<Rightarrow> run_context) \<Rightarrow> ('w, unit) run_eff" where
  "on_ctx f s = (Inr (), s\<lparr>rs_ctx := f (rs_ctx s)\<rparr>)"

definition on_world :: "('w, 'e, 'a) eff \<Rightarrow> ('w run_state, 'e, 'a) eff" where
  "on_world f s = (case f (rs_world s) of (r, w) \<Rightarrow> (r, s\<lparr>rs_world := w\<rparr>))"

definition emit :: "agent_event \<Rightarrow> ('w, unit) run_eff" where
  "emit ev = on_ctx (\<lambda>c. c\<lparr>rc_events := rc_events c @ [ev]\<rparr>)"

definition emit_all :: "agent_event list \<Rightarrow> ('w, unit) run_eff" where
  "emit_all evs = on_ctx (\<lambda>c. c\<lparr>rc_events := rc_events c @ evs\<rparr>)"

definition run_id_key :: string where
  "run_id_key = ''run_id''"

definition add_message :: "('w, 'b) run_env \<Rightarrow> chat_message \<Rightarrow> ('w, unit) run_eff" where
  "add_message env m s =
     (let c = rs_ctx s; now = rv_now env (rs_world s)
      in case rv_uuid env (rs_world s) of
           (uuid, w) \<Rightarrow>
             (let sm = with_metadata run_id_key (rc_run_id c) (new_session_message uuid now (rc_session_id c) m);
                  sm = (case rc_last_message c of Some p \<Rightarrow> with_parent_id p sm | None \<Rightarrow> sm)
              in mapErr (\<lambda>e. AeSession (''Failed to save message: '' @ display_session_store_error e))
                   (on_world (session_add_message (rv_ops env) sm))
                   (s\<lparr>rs_ctx := c\<lparr>rc_last_message := Some uuid\<rparr>, rs_world := w\<rparr>)))"

fun display_context_error :: "context_error \<Rightarrow> string" where
  "display_context_error (ContributorError n e) = ''contributor '' @ n @ '' failed: '' @ e"
| "display_context_error (BudgetExceeded n) = ''token budget exceeded: '' @ show_nat n"

definition get_context :: "('w, 'b) run_env \<Rightarrow> ('w, chat_message list) run_eff" where
  "get_context env = mapErr (\<lambda>e. AeContext (''Failed to build context: '' @ display_context_error e))
     (on_world (build_context (rv_to_json env) (rv_builder env)))"

text \<open>
  Asking the plugins.  When the task that asks them has panicked the answer is an error, now and for the
  rest of the run.
\<close>

definition intercept :: "('w, 'b) run_env \<Rightarrow> agent_event \<Rightarrow> ('w run_state, string, plugin_decision) eff" where
  "intercept env ev s =
     (if \<not> rc_interceptor (rs_ctx s) then (Inl ''Plugin channel error'', s)
      else case ask_plugins (rv_plugins env) ev (rs_world s) of
             (Some d, w) \<Rightarrow> (Inr d, s\<lparr>rs_world := w\<rparr>)
           | (None, w) \<Rightarrow> (Inl ''Plugin response error'',
               s\<lparr>rs_world := w, rs_ctx := (rs_ctx s)\<lparr>rc_interceptor := False\<rparr>\<rparr>))"

definition or_proceed :: "('w run_state, string, plugin_decision) eff \<Rightarrow> ('w, plugin_decision) run_eff" where
  "or_proceed f s = (case f s of (Inr d, s) \<Rightarrow> (Inr d, s) | (Inl e, s) \<Rightarrow> (Inr Proceed, s))"

definition next_iteration :: "('w, unit) run_eff" where
  "next_iteration = on_ctx (\<lambda>c. c\<lparr>rc_iteration := rc_iteration c + 1\<rparr>)"

definition record_reasoning_step :: "string \<Rightarrow> ('w, unit) run_eff" where
  "record_reasoning_step t = on_ctx (\<lambda>c. c\<lparr>rc_reasoning := rc_reasoning c @
     [\<lparr> rg_iteration = rc_iteration c, rg_thinking = t \<rparr>]\<rparr>)"

definition record_tool_call :: "tool_call \<Rightarrow> string \<Rightarrow> u32 \<Rightarrow> bool \<Rightarrow> ('w, unit) run_eff" where
  "record_tool_call call result iter ok = on_ctx (\<lambda>c. c\<lparr>rc_records := rc_records c @
     [\<lparr> cr_tool_name = tc_name call, cr_arguments = tc_arguments call, cr_result = result,
        cr_iteration = iter, cr_success = ok \<rparr>]\<rparr>)"

definition set_final_content :: "string \<Rightarrow> ('w, unit) run_eff" where
  "set_final_content t = on_ctx (\<lambda>c. c\<lparr>rc_final := Some t\<rparr>)"

definition add_tool_call :: "tool_call \<Rightarrow> run_context \<Rightarrow> run_context" where
  "add_tool_call t c = c\<lparr>rc_current_tool_calls := rc_current_tool_calls c @ [t],
     rc_all_tool_calls := rc_all_tool_calls c @ [t]\<rparr>"

definition clear_current_tool_calls :: "('w, unit) run_eff" where
  "clear_current_tool_calls = on_ctx (\<lambda>c. c\<lparr>rc_current_tool_calls := []\<rparr>)"

definition finalize_run :: "run_context \<Rightarrow> agent_response" where
  "finalize_run c = \<lparr> ar_content = (case rc_final c of None \<Rightarrow> [] | Some t \<Rightarrow> t), ar_reasoning = rc_reasoning c,
     ar_run_id = rc_run_id c, ar_session_id = rc_session_id c, ar_iterations = rc_iteration c,
     ar_tool_calls = rc_records c, ar_error = rc_error c \<rparr>"

section \<open>One tool call\<close>

text \<open>
  The sandbox of a tool: of the manager the one configured for the tool, or the default of the agent, or
  \<open>local\<close>, and a temporary one when there is none of that name; without a manager the sandbox of the
  agent, or its working directory.
\<close>

definition resolve_sandbox :: "('w, 'b) run_env \<Rightarrow> string \<Rightarrow> 'w \<Rightarrow> 'b \<times> 'w" where
  "resolve_sandbox env tool w =
     (case rv_sandbox_manager env of
        Some (acquire, default_tmp) \<Rightarrow>
          (let name = (case rv_tool_sandbox env tool of
                         Some n \<Rightarrow> n
                       | None \<Rightarrow> (case rv_default_sandbox env of Some n \<Rightarrow> n | None \<Rightarrow> ''local''))
           in case acquire name w of
                (Some sb, w) \<Rightarrow> (sb, w)
              | (None, w) \<Rightarrow> default_tmp w)
      | None \<Rightarrow> (case rv_sandbox env of Some sb \<Rightarrow> (sb, w) | None \<Rightarrow> (rv_local_sandbox env, w)))"

text \<open>A result, or the text of an error.\<close>

definition execute_tool :: "('w, 'b) run_env \<Rightarrow> tool_call \<Rightarrow> ('w, string + tool_result) run_eff" where
  "execute_tool env call s =
     (case resolve_sandbox env (tc_name call) (rs_world s) of
        (sb, w) \<Rightarrow>
          (case reg_execute (rv_parse env) (rv_tools env) call
              \<lparr> tx_messages = [], tx_sandbox = sb, tx_agent_def = rv_def env \<rparr> w of
             (Inr r, w) \<Rightarrow> (Inr (Inr r), s\<lparr>rs_world := w\<rparr>)
           | (Inl e, w) \<Rightarrow> (Inr (Inl (''Tool execution failed: '' @ e)), s\<lparr>rs_world := w\<rparr>)))"

definition perform_call :: "('w, 'b) run_env \<Rightarrow> u32 \<Rightarrow> tool_call \<Rightarrow> ('w, unit) run_eff" where
  "perform_call env iter call = bindE (execute_tool env call) (\<lambda>r.
     case r of
       Inl e \<Rightarrow>
         bindE (emit (ToolCallError (tc_id call) (tc_name call) e)) (\<lambda>_.
         bindE (record_tool_call call (''Error: '' @ e) iter False) (\<lambda>_.
         add_message env (tool_msg (TextContent (''Tool '' @ [CHR 0x27] @ tc_name call @ [CHR 0x27] @ '' error: '' @ e)) (tc_id call))))
     | Inr res \<Rightarrow>
         bindE (record_tool_call call (content res) iter True) (\<lambda>_.
         bindE (emit (ToolCallComplete (tc_id call) (tc_name call) (content res))) (\<lambda>_.
         bindE (add_message env (tool_msg (TextContent (content res)) (tc_id call))) (\<lambda>_.
         clear_current_tool_calls))))"

definition run_call :: "('w, 'b) run_env \<Rightarrow> u32 \<Rightarrow> tool_call \<Rightarrow> ('w, unit) run_eff" where
  "run_call env iter call =
     (let ev = ToolCallBegin (tc_id call) (tc_name call) (tc_arguments call) in
      bindE (emit ev) (\<lambda>_.
      bindE (or_proceed (intercept env ev)) (\<lambda>d.
        case d of
          Proceed \<Rightarrow> perform_call env iter call
        | SkipEvent \<Rightarrow> emit (ToolCallSkipped (tc_id call) (tc_name call) ''Plugin skipped'')
        | AbortRun reason \<Rightarrow> bindE (emit (AgentAborted reason)) (\<lambda>_. fail (AeContext reason)))))"

fun run_calls :: "('w, 'b) run_env \<Rightarrow> u32 \<Rightarrow> tool_call list \<Rightarrow> ('w, unit) run_eff" where
  "run_calls env iter [] = ret ()"
| "run_calls env iter (c # cs) = bindE (run_call env iter c) (\<lambda>_. run_calls env iter cs)"

section \<open>One iteration\<close>

definition call_model :: "('w, 'b) run_env \<Rightarrow> chat_message list \<Rightarrow> ('w, answer) run_eff" where
  "call_model env msgs s =
     (case on_world (rv_converse env (with_tool_choice ChoiceAuto
             (with_tools (reg_definitions (rv_tool_order env) (rv_tools env)) (with_history None msgs)))) s of
        (Inl e, s) \<Rightarrow>
          bindE (emit (LLMCallError (display_llm_error (rv_show_duration env) e))) (\<lambda>_.
          bindE (emit (AgentAborted (''LLM request failed: '' @ display_llm_error (rv_show_duration env) e))) (\<lambda>_.
          fail (AeLlm e))) s
      | (Inr items, s) \<Rightarrow>
          (case consume_llm_stream items of
             (evs, Inr a) \<Rightarrow> bindE (emit_all evs) (\<lambda>_. ret a) s
           | (evs, Inl e) \<Rightarrow>
               (let text = display_agent_error (rv_show_duration env) (AeLlm e) in
                bindE (emit_all evs) (\<lambda>_.
                bindE (emit (LLMCallError text)) (\<lambda>_.
                bindE (emit (AgentAborted (''LLM stream failed: '' @ text))) (\<lambda>_.
                fail (AeLlm e)))) s)))"

definition think :: "string \<Rightarrow> chat_message \<Rightarrow> chat_message" where
  "think t m = (if t = [] then m else with_thinking t m)"

definition calls_message :: "answer \<Rightarrow> chat_message" where
  "calls_message a = think (an_thinking a) (assistant_with_tools (TextContent
     (if an_content a = [] then ''Calling tools to get information.'' else an_content a)) (an_calls a))"

definition response_json :: "agent_response \<Rightarrow> json" where
  "response_json r = JObj [(''content'', JStr (ar_content r)), (''iterations'', JNum (uint (ar_iterations r))),
     (''tool_calls'', JArr (map (\<lambda>t. JObj [(''tool_name'', JStr (cr_tool_name t)),
        (''arguments'', JStr (cr_arguments t)), (''result'', JStr (cr_result t)),
        (''iteration'', JNum (uint (cr_iteration t))), (''success'', JBool (cr_success t))]) (ar_tool_calls r))),
     (''run_id'', JStr (ar_run_id r)), (''session_id'', JStr (ar_session_id r))]"

definition act :: "('w, 'b) run_env \<Rightarrow> u32 \<Rightarrow> answer \<Rightarrow> ('w, agent_response option) run_eff" where
  "act env iter a =
     bindE (add_message env (calls_message a)) (\<lambda>_.
     bindE (run_calls env iter (an_calls a)) (\<lambda>_.
     bindE (emit (IterationComplete iter (an_calls a) None)) (\<lambda>_. ret None)))"

definition finish_run :: "('w, 'b) run_env \<Rightarrow> u32 \<Rightarrow> answer \<Rightarrow> ('w, agent_response option) run_eff" where
  "finish_run env iter a =
     bindE (emit (IterationComplete iter [] (Some (an_content a)))) (\<lambda>_.
     bindE (add_message env (think (an_thinking a) (assistant_msg (TextContent (an_content a))))) (\<lambda>_.
     bindE (set_final_content (an_content a)) (\<lambda>_ s.
       let r = finalize_run (rs_ctx s)
       in bindE (emit (AgentComplete (Some (response_json r)))) (\<lambda>_. ret (Some r)) s)))"

definition iterate :: "('w, 'b) run_env \<Rightarrow> u32 \<Rightarrow> ('w, agent_response option) run_eff" where
  "iterate env iter =
     bindE (get_context env) (\<lambda>msgs.
     bindE (emit (LLMCallStart iter msgs)) (\<lambda>_.
     bindE (call_model env msgs) (\<lambda>a.
     bindE (emit (LLMCallComplete (an_model a) (an_usage a))) (\<lambda>_.
     bindE (if an_thinking a = [] then ret () else record_reasoning_step (an_thinking a)) (\<lambda>_.
     if an_calls a = [] then finish_run env iter a else act env iter a)))))"

definition stop_at_limit :: "('w, 'b) run_env \<Rightarrow> u32 \<Rightarrow> ('w, agent_response option) run_eff" where
  "stop_at_limit env iter =
     (let m = max_iterations (rv_def env) in
      bindE (emit (MaxIterationsReached iter m)) (\<lambda>_.
      bindE (emit (AgentAborted (''Max iterations ('' @ show_u32 m @ '') reached''))) (\<lambda>_.
      fail (AeMaxIterations m))))"

text \<open>One pass of the loop; \<^term>\<open>None\<close> asks for another one.\<close>

definition run_iteration :: "('w, 'b) run_env \<Rightarrow> ('w, agent_response option) run_eff" where
  "run_iteration env = bindE next_iteration (\<lambda>_ s.
     let iter = rc_iteration (rs_ctx s)
     in if max_iterations (rv_def env) < iter then stop_at_limit env iter s else iterate env iter s)"

section \<open>The loop\<close>

partial_function (option) agent_loop ::
  "('w, 'b) run_env \<Rightarrow> 'w run_state \<Rightarrow> ((agent_error + agent_response) \<times> 'w run_state) option" where
  "agent_loop env s =
     (case run_iteration env s of
        (Inl e, s) \<Rightarrow> Some (Inl e, s)
      | (Inr (Some r), s) \<Rightarrow> Some (Inr r, s)
      | (Inr None, s) \<Rightarrow> agent_loop env s)"

definition agent_task ::
  "('w, 'b) run_env \<Rightarrow> 'w run_state \<Rightarrow> ((agent_error + agent_response) \<times> 'w run_state) option" where
  "agent_task env s =
     (let ev = AgentStart (rc_user_input (rs_ctx s)) in
      case bindE (emit ev) (\<lambda>_. or_proceed (intercept env ev)) s of
        (Inr (AbortRun reason), s) \<Rightarrow>
          Some (bindE (emit (AgentAborted reason)) (\<lambda>_. fail (AeContext reason)) s)
      | (r, s) \<Rightarrow> agent_loop env s)"

end
