(* ===== verification/Agent.thy ===== *)
theory Agent
  imports AgentRun
begin

text \<open>
  The agent, \<open>ReActAgent\<close> of \<open>crates/vol-llm-agent/src/react/agent.rs\<close>: what it holds between runs, the run of
  an input with its running flag, and the exchange of its session.  The contributor of the history, the
  contributor of the skills and the connections to MCP servers are parameters of the configuration.
\<close>

record ('w, 'b) agent_config =
  gc_agent_id :: string
  gc_env :: "('w, 'b) run_env"
  gc_letter :: "string \<Rightarrow> bool"
  gc_overlay :: "'w \<Rightarrow> (string \<times> string \<rightharpoonup> capability_overlay) option"
  gc_skills :: "string list option \<Rightarrow> 'w contributor"
  gc_history :: "session \<Rightarrow> 'w entry_store_ops \<Rightarrow> nat \<Rightarrow> attention_anchor \<Rightarrow> 'w contributor"
  gc_run_uuid :: "'w \<Rightarrow> string \<times> 'w"
  gc_mcp :: "(('w \<Rightarrow> 'w) \<times> ('w \<Rightarrow> 'w)) option"

record 'w agent_state =
  ag_session :: session
  ag_ops :: "'w entry_store_ops"
  ag_builder :: "'w context_builder"
  ag_running :: bool
  ag_input :: "string option"
  ag_run_id :: "string option"
  ag_world :: 'w

text \<open>The overlay of a session; the lock on the map may be taken, and then there is none.\<close>

definition get_overlay :: "('w, 'b) agent_config \<Rightarrow> string \<Rightarrow> 'w \<Rightarrow> capability_overlay option" where
  "get_overlay cfg sid w = Option.bind (gc_overlay cfg w) (\<lambda>m. m (gc_agent_id cfg, sid))"

definition idle_again :: "'w agent_state \<Rightarrow> 'w agent_state" where
  "idle_again st = st\<lparr>ag_running := False, ag_input := None, ag_run_id := None\<rparr>"

definition reconnect_all :: "('w, 'b) agent_config \<Rightarrow> 'w \<Rightarrow> 'w" where
  "reconnect_all cfg w = (case gc_mcp cfg of None \<Rightarrow> w | Some (connect, disconnect) \<Rightarrow> connect w)"

definition disconnect_all :: "('w, 'b) agent_config \<Rightarrow> 'w \<Rightarrow> 'w" where
  "disconnect_all cfg w = (case gc_mcp cfg of None \<Rightarrow> w | Some (connect, disconnect) \<Rightarrow> disconnect w)"

definition bind_tasks :: "'w entry_store_ops \<Rightarrow> string \<Rightarrow> task_id list \<Rightarrow> 'w \<Rightarrow> 'w" where
  "bind_tasks ops sid ids w =
     (if ids = [] then w else snd (session_bind_task_ids ops sid (map display_task_id ids) w))"

text \<open>The environment of a run: tools and skills are resolved once, when it starts.\<close>

definition resolve_env ::
  "('w, 'b) agent_config \<Rightarrow> 'w agent_state \<Rightarrow> ('w, 'b) run_env" where
  "resolve_env cfg st =
     (let env = gc_env cfg; ov = get_overlay cfg (ss_id (ag_session st)) (ag_world st) in
      env\<lparr>rv_tools := resolve_tools (gc_letter cfg) ov (rv_def env) (rv_tools env),
          rv_ops := ag_ops st,
          rv_builder := replace_contributor ''skills'' (gc_skills cfg (resolve_skill_filter ov (rv_def env)))
            (ag_builder st)\<rparr>)"

definition start_context :: "agent_input \<Rightarrow> string \<Rightarrow> 'w agent_state \<Rightarrow> run_context" where
  "start_context inp run_id st =
     (run_context_new run_id (input_display_text inp) (ss_id (ag_session st)))
       \<lparr>rc_task_ids := ai_task_ids inp, rc_data := ai_metadata inp\<rparr>"

definition run_with ::
  "('w, 'b) agent_config \<Rightarrow> agent_input \<Rightarrow> message_content \<Rightarrow> string \<Rightarrow> 'w agent_state \<Rightarrow>
   ((agent_error + agent_response) \<times> 'w agent_state) option" where
  "run_with cfg inp body run_id st =
     (let st = st\<lparr>ag_world := bind_tasks (ag_ops st) (ss_id (ag_session st)) (ai_task_ids inp) (ag_world st)\<rparr>;
          env = resolve_env cfg st;
          st = st\<lparr>ag_builder := rv_builder env\<rparr>
      in case add_message env (user_msg body) \<lparr> rs_ctx = start_context inp run_id st, rs_world = ag_world st \<rparr> of
           (Inl e, s) \<Rightarrow>
             Some (Inl (AeSession (''Failed to persist user message: '' @ display_agent_error (rv_show_duration env) e)),
               st\<lparr>ag_world := rs_world s\<rparr>)
         | (Inr u, s) \<Rightarrow>
             (case agent_task env s of
                None \<Rightarrow> None
              | Some (r, s) \<Rightarrow> Some (r, st\<lparr>ag_world := disconnect_all cfg (rs_world s)\<rparr>)))"

text \<open>The input is checked after the flag is set and before the guard that clears it exists.\<close>

definition run_input ::
  "('w, 'b) agent_config \<Rightarrow> agent_input \<Rightarrow> 'w agent_state \<Rightarrow>
   ((agent_error + agent_response) \<times> 'w agent_state) option" where
  "run_input cfg inp st =
     (if ag_running st then Some (Inl AeAlreadyRunning, st)
      else
        let st = st\<lparr>ag_running := True, ag_world := reconnect_all cfg (ag_world st)\<rparr>
        in case to_message_content inp of
             None \<Rightarrow> Some (Inl (AeInvalidInput input_error), st)
           | Some body \<Rightarrow>
               (case (case ai_run_id inp of Some r \<Rightarrow> (r, ag_world st) | None \<Rightarrow> gc_run_uuid cfg (ag_world st)) of
                  (run_id, w) \<Rightarrow>
                    map_option (\<lambda>(r, st). (r, idle_again st))
                      (run_with cfg inp body run_id
                        (st\<lparr>ag_world := w, ag_input := Some (input_display_text inp), ag_run_id := Some run_id\<rparr>))))"

definition set_session ::
  "('w, 'b) agent_config \<Rightarrow> session \<Rightarrow> 'w entry_store_ops \<Rightarrow> 'w agent_state \<Rightarrow> (string + unit) \<times> 'w agent_state" where
  "set_session cfg ss ops st =
     (if ag_running st then (Inl (gc_agent_id cfg), st)
      else
        let limit = (case Option.bind (rv_def (gc_env cfg)) ad_max_history_messages of Some n \<Rightarrow> n | None \<Rightarrow> 50)
        in (Inr (), st\<lparr>ag_session := ss, ag_ops := ops,
             ag_builder := replace_contributor ''session'' (gc_history cfg ss ops limit (Tail 0)) (ag_builder st)\<rparr>))"

definition agent_add_contributor :: "'w contributor \<Rightarrow> 'w agent_state \<Rightarrow> 'w agent_state" where
  "agent_add_contributor c st = st\<lparr>ag_builder := add_contributor c (ag_builder st)\<rparr>"

definition agent_contributors :: "'w agent_state \<Rightarrow> (context_error + contributor_info list) \<times> 'w" where
  "agent_contributors st = contributor_infos (bd_contributors (ag_builder st)) (ag_world st)"

definition agent_snapshot :: "string \<Rightarrow> 'w agent_state \<Rightarrow> (context_error + (string \<times> string) list) \<times> 'w" where
  "agent_snapshot n st = snapshot_by_name n (bd_contributors (ag_builder st)) (ag_world st)"

definition agent_tools :: "('w, 'b) agent_config \<Rightarrow> 'w agent_state \<Rightarrow> ('w, 'b) tool_registry" where
  "agent_tools cfg st = rv_tools (resolve_env cfg st)"

end
