(* ===== verification/AgentLoop.thy ===== *)
theory AgentLoop
  imports Agent
begin

text \<open>
  What every run of the ReAct loop does, whatever the model, the tools, the plugins and the store do: the
  order of its events, the bound on the calls of the model, and when it ends.
\<close>

section \<open>Events of an effect\<close>

fun closing :: "agent_event \<Rightarrow> bool" where
  "closing (AgentComplete r) = True"
| "closing (AgentAborted r) = True"
| "closing _ = False"

fun starts_call :: "agent_event \<Rightarrow> bool" where
  "starts_call (LLMCallStart i ms) = True"
| "starts_call _ = False"

definition model_calls :: "agent_event list \<Rightarrow> nat" where
  "model_calls evs = length (filter starts_call evs)"

definition quiet :: "agent_event list \<Rightarrow> bool" where
  "quiet evs \<longleftrightarrow> list_all (\<lambda>e. \<not> closing e) evs"

lemma quiet_simps [simp]:
  "quiet []" "quiet (e # evs) \<longleftrightarrow> \<not> closing e \<and> quiet evs" "quiet (xs @ ys) \<longleftrightarrow> quiet xs \<and> quiet ys"
  by (simp_all add: quiet_def)

lemma model_calls_simps [simp]:
  "model_calls [] = 0" "model_calls (e # evs) = (if starts_call e then 1 else 0) + model_calls evs"
  "model_calls (xs @ ys) = model_calls xs + model_calls ys"
  by (simp_all add: model_calls_def)

text \<open>A run that fails has reported that it is aborted at its end, or has reported nothing of the kind.\<close>

definition failed_with :: "agent_event list \<Rightarrow> bool" where
  "failed_with evs \<longleftrightarrow> quiet evs \<or> (\<exists>init reason. evs = init @ [AgentAborted reason] \<and> quiet init)"

lemma failed_with_simps [simp]: "quiet evs \<Longrightarrow> failed_with evs" "failed_with [AgentAborted r]"
  by (auto simp: failed_with_def)

lemma failed_with_append: "quiet xs \<Longrightarrow> failed_with ys \<Longrightarrow> failed_with (xs @ ys)"
  unfolding failed_with_def by (metis append_assoc quiet_simps(3))

text \<open>
  \<open>behaves k P f\<close>: the effect adds events, among them at most \<open>k\<close> starts of a model call, keeps the count of
  iterations, and its result and its events satisfy \<open>P\<close>.
\<close>

definition behaves :: "nat \<Rightarrow> ('a \<Rightarrow> agent_event list \<Rightarrow> bool) \<Rightarrow> ('w, 'a) run_eff \<Rightarrow> bool" where
  "behaves k P f \<longleftrightarrow> (\<forall>s. \<exists>evs. rc_events (rs_ctx (snd (f s))) = rc_events (rs_ctx s) @ evs \<and>
     rc_iteration (rs_ctx (snd (f s))) = rc_iteration (rs_ctx s) \<and> model_calls evs \<le> k \<and>
     (case fst (f s) of Inr x \<Rightarrow> P x evs | Inl e \<Rightarrow> failed_with evs))"

abbreviation quietly :: "'a \<Rightarrow> agent_event list \<Rightarrow> bool" where
  "quietly \<equiv> \<lambda>x. quiet"

lemma behaves_bind:
  assumes "behaves k quietly f" "\<And>x. behaves l P (g x)"
    and "\<And>x e1 e2. quiet e1 \<Longrightarrow> P x e2 \<Longrightarrow> P x (e1 @ e2)"
  shows "behaves (k + l) P (bindE f g)"
  unfolding behaves_def
proof
  fix s
  obtain e1 where e1: "rc_events (rs_ctx (snd (f s))) = rc_events (rs_ctx s) @ e1"
    "rc_iteration (rs_ctx (snd (f s))) = rc_iteration (rs_ctx s)" "model_calls e1 \<le> k"
    "case fst (f s) of Inr x \<Rightarrow> quiet e1 | Inl e \<Rightarrow> failed_with e1"
    using assms(1) unfolding behaves_def by blast
  show "\<exists>evs. rc_events (rs_ctx (snd (bindE f g s))) = rc_events (rs_ctx s) @ evs \<and>
      rc_iteration (rs_ctx (snd (bindE f g s))) = rc_iteration (rs_ctx s) \<and> model_calls evs \<le> k + l \<and>
      (case fst (bindE f g s) of Inr x \<Rightarrow> P x evs | Inl e \<Rightarrow> failed_with evs)"
  proof (cases "f s")
    case (Pair r t)
    show ?thesis
    proof (cases r)
      case (Inl e)
      with e1 Pair show ?thesis by (intro exI [of _ e1]) auto
    next
      case (Inr x)
      obtain e2 where e2: "rc_events (rs_ctx (snd (g x t))) = rc_events (rs_ctx t) @ e2"
        "rc_iteration (rs_ctx (snd (g x t))) = rc_iteration (rs_ctx t)" "model_calls e2 \<le> l"
        "case fst (g x t) of Inr x \<Rightarrow> P x e2 | Inl e \<Rightarrow> failed_with e2"
        using assms(2) [of x] unfolding behaves_def by blast
      have "case fst (g x t) of Inr x \<Rightarrow> P x (e1 @ e2) | Inl e \<Rightarrow> failed_with (e1 @ e2)"
        using e1(4) e2(4) Pair Inr assms(3) failed_with_append by (auto split: sum.splits)
      with e1 e2 Pair Inr show ?thesis by (intro exI [of _ "e1 @ e2"]) auto
    qed
  qed
qed

lemma behaves_mono:
  assumes "behaves k P f" "k \<le> l" "\<And>x evs. P x evs \<Longrightarrow> Q x evs"
  shows "behaves l Q f"
  unfolding behaves_def
proof
  fix s
  obtain evs where "rc_events (rs_ctx (snd (f s))) = rc_events (rs_ctx s) @ evs"
    "rc_iteration (rs_ctx (snd (f s))) = rc_iteration (rs_ctx s)" "model_calls evs \<le> k"
    "case fst (f s) of Inr x \<Rightarrow> P x evs | Inl e \<Rightarrow> failed_with evs"
    using assms(1) unfolding behaves_def by blast
  with assms(2,3) show "\<exists>evs. rc_events (rs_ctx (snd (f s))) = rc_events (rs_ctx s) @ evs \<and>
      rc_iteration (rs_ctx (snd (f s))) = rc_iteration (rs_ctx s) \<and> model_calls evs \<le> l \<and>
      (case fst (f s) of Inr x \<Rightarrow> Q x evs | Inl e \<Rightarrow> failed_with evs)"
    by (intro exI [of _ evs]) (auto split: sum.splits)
qed

lemma behaves_ret [simp]: "P x [] \<Longrightarrow> behaves 0 P (ret x)"
  by (simp add: behaves_def)

lemma behaves_on_ctx:
  assumes "\<And>c. rc_events (f c) = rc_events c @ evs" "\<And>c. rc_iteration (f c) = rc_iteration c"
    "model_calls evs \<le> k" "P () evs"
  shows "behaves k P (on_ctx f)"
  using assms by (auto simp: behaves_def on_ctx_def)

lemma behaves_emit: "\<not> closing e \<Longrightarrow> behaves (if starts_call e then 1 else 0) quietly (emit e)"
  unfolding emit_def by (rule behaves_on_ctx [where evs = "[e]"]) simp_all

lemma behaves_emit_quiet [simp]: "\<not> closing e \<Longrightarrow> \<not> starts_call e \<Longrightarrow> behaves 0 quietly (emit e)"
  using behaves_emit [of e] by simp

lemma behaves_silent [simp]:
  "behaves 0 quietly (record_tool_call c r i b)" "behaves 0 quietly (record_reasoning_step t)"
  "behaves 0 quietly (set_final_content t)" "behaves 0 quietly clear_current_tool_calls"
  unfolding record_tool_call_def record_reasoning_step_def set_final_content_def clear_current_tool_calls_def
  by (rule behaves_on_ctx [where evs = "[]"]; simp)+

lemma behaves_quiet_bind [intro]:
  "behaves 0 quietly f \<Longrightarrow> (\<And>x. behaves k quietly (g x)) \<Longrightarrow> behaves k quietly (bindE f g)"
  using behaves_bind [of 0 f k quietly g] by simp

text \<open>Aborting: the last event and an error.\<close>

lemma behaves_abort [simp]: "behaves 0 P (bindE (emit (AgentAborted r)) (\<lambda>_. fail e))"
  by (auto simp: behaves_def emit_def on_ctx_def bindE_def)

text \<open>Effects that leave the context of the run alone, but for the last message and the interceptor.\<close>

lemma behaves_keep:
  assumes "\<And>s. rc_events (rs_ctx (snd (f s))) = rc_events (rs_ctx s)"
    "\<And>s. rc_iteration (rs_ctx (snd (f s))) = rc_iteration (rs_ctx s)"
  shows "behaves 0 quietly f"
  using assms by (auto simp: behaves_def split: sum.split)

lemma on_world_ctx [simp]: "rs_ctx (snd (on_world f s)) = rs_ctx s"
  by (simp add: on_world_def split: prod.split)

lemma mapErr_snd [simp]: "snd (mapErr h f s) = snd (f s)"
  by (simp add: mapErr_def split: prod.split sum.split)

lemma add_message_keeps:
  "rc_events (rs_ctx (snd (add_message env m s))) = rc_events (rs_ctx s)"
  "rc_iteration (rs_ctx (snd (add_message env m s))) = rc_iteration (rs_ctx s)"
proof -
  obtain u w where "rv_uuid env (rs_world s) = (u, w)" by force
  then show "rc_events (rs_ctx (snd (add_message env m s))) = rc_events (rs_ctx s)"
    "rc_iteration (rs_ctx (snd (add_message env m s))) = rc_iteration (rs_ctx s)"
    by (simp_all add: add_message_def Let_def del: append.simps)
qed

lemma behaves_add_message [simp]: "behaves 0 quietly (add_message env m)"
  by (rule behaves_keep) (simp_all add: add_message_keeps)

lemma behaves_get_context [simp]: "behaves 0 quietly (get_context env)"
  by (rule behaves_keep) (simp_all add: get_context_def del: append.simps)

lemma behaves_ask [simp]: "behaves 0 quietly (or_proceed (intercept env ev))"
  by (rule behaves_keep) (simp_all add: or_proceed_def intercept_def split: prod.split option.split)

lemma behaves_execute [simp]: "behaves 0 quietly (execute_tool env call)"
  by (rule behaves_keep) (simp_all add: execute_tool_def split: prod.split sum.split)

section \<open>Events of an iteration\<close>

lemma behaves_perform [simp]: "behaves 0 quietly (perform_call env iter call)"
  unfolding perform_call_def
proof (rule behaves_quiet_bind)
  fix r
  show "behaves 0 quietly (case r of
       Inl e \<Rightarrow>
         bindE (emit (ToolCallError (tc_id call) (tc_name call) e)) (\<lambda>_.
         bindE (record_tool_call call (''Error: '' @ e) iter False) (\<lambda>_.
         add_message env (tool_msg (TextContent (''Tool '' @ [CHR 0x27] @ tc_name call @ [CHR 0x27] @ '' error: '' @ e)) (tc_id call))))
     | Inr res \<Rightarrow>
         bindE (record_tool_call call (content res) iter True) (\<lambda>_.
         bindE (emit (ToolCallComplete (tc_id call) (tc_name call) (content res))) (\<lambda>_.
         bindE (add_message env (tool_msg (TextContent (content res)) (tc_id call))) (\<lambda>_.
         clear_current_tool_calls))))"
    by (cases r; simp only: sum.case; intro behaves_quiet_bind; simp)
qed simp

lemma behaves_run_call [simp]: "behaves 0 quietly (run_call env iter call)"
  unfolding run_call_def Let_def
proof (intro behaves_quiet_bind)
  fix d
  show "behaves 0 quietly (case d of Proceed \<Rightarrow> perform_call env iter call
      | SkipEvent \<Rightarrow> emit (ToolCallSkipped (tc_id call) (tc_name call) ''Plugin skipped'')
      | AbortRun reason \<Rightarrow> bindE (emit (AgentAborted reason)) (\<lambda>_. fail (AeContext reason)))"
    by (cases d) simp_all
qed simp_all

lemma behaves_run_calls [simp]: "behaves 0 quietly (run_calls env iter calls)"
proof (induction calls)
  case Nil
  show ?case unfolding run_calls.simps by (rule behaves_ret) simp
next
  case (Cons c cs)
  show ?case unfolding run_calls.simps by (intro behaves_quiet_bind behaves_run_call Cons.IH)
qed

lemma behaves_emit_all: "quiet evs \<Longrightarrow> model_calls evs = 0 \<Longrightarrow> behaves 0 quietly (emit_all evs)"
  unfolding emit_all_def by (rule behaves_on_ctx [where evs = evs]) simp_all

lemma consume_event_quiet: "consume_event d a = (evs, a') \<Longrightarrow> quiet evs \<and> model_calls evs = 0"
  by (cases d) auto

lemma consume_items_quiet: "consume_items xs a = (evs, r) \<Longrightarrow> quiet evs \<and> model_calls evs = 0"
proof (induction xs a arbitrary: evs r rule: consume_items.induct)
  case (3 v xs a)
  obtain e1 a1 where e1: "consume_event (sv_data v) a = (e1, a1)" by force
  obtain e2 r2 where "consume_items xs a1 = (e2, r2)" by force
  with 3 e1 consume_event_quiet [OF e1] show ?case by auto
qed auto

lemma behaves_on_world_case:
  assumes "\<And>e. behaves k P (h e)" "\<And>x. behaves k P (g x)"
  shows "behaves k P (\<lambda>s. case on_world f s of (Inl e, s) \<Rightarrow> h e s | (Inr x, s) \<Rightarrow> g x s)"
  unfolding behaves_def
proof
  fix s
  obtain r s1 where r: "on_world f s = (r, s1)" by force
  have "rs_ctx s1 = rs_ctx s" using on_world_ctx [of f s] r by simp
  with assms r show "\<exists>evs. rc_events (rs_ctx (snd (case on_world f s of (Inl e, s) \<Rightarrow> h e s | (Inr x, s) \<Rightarrow> g x s))) = rc_events (rs_ctx s) @ evs \<and>
      rc_iteration (rs_ctx (snd (case on_world f s of (Inl e, s) \<Rightarrow> h e s | (Inr x, s) \<Rightarrow> g x s))) = rc_iteration (rs_ctx s) \<and>
      model_calls evs \<le> k \<and>
      (case fst (case on_world f s of (Inl e, s) \<Rightarrow> h e s | (Inr x, s) \<Rightarrow> g x s) of Inr x \<Rightarrow> P x evs | Inl e \<Rightarrow> failed_with evs)"
    unfolding behaves_def by (cases r) (simp_all, metis+)
qed

lemma behaves_call_model [simp]: "behaves 0 quietly (call_model env msgs)"
proof -
  have abort: "behaves 0 quietly (bindE (emit e) (\<lambda>_. bindE (emit (AgentAborted r)) (\<lambda>_. fail x)))"
    if "\<not> closing e" "\<not> starts_call e" for e r x
    using that by (intro behaves_quiet_bind behaves_abort) simp
  show ?thesis
    unfolding call_model_def
  proof (rule behaves_on_world_case)
    fix items
    obtain evs r where c: "consume_llm_stream items = (evs, r)" by force
    then have q: "behaves 0 quietly (emit_all evs)"
      using consume_items_quiet behaves_emit_all by (fastforce simp: consume_llm_stream_def)
    show "behaves 0 quietly (\<lambda>s. case consume_llm_stream items of
             (evs, Inr a) \<Rightarrow> bindE (emit_all evs) (\<lambda>_. ret a) s
           | (evs, Inl e) \<Rightarrow>
               (let text = display_agent_error (rv_show_duration env) (AeLlm e) in
                bindE (emit_all evs) (\<lambda>_.
                bindE (emit (LLMCallError text)) (\<lambda>_.
                bindE (emit (AgentAborted (''LLM stream failed: '' @ text))) (\<lambda>_.
                fail (AeLlm e)))) s))"
      unfolding c Let_def by (cases r; simp only: prod.case sum.case; intro behaves_quiet_bind q behaves_ret abort; simp)
  qed (rule abort; simp)
qed

definition ends_well :: "agent_response option \<Rightarrow> agent_event list \<Rightarrow> bool" where
  "ends_well r evs =
     (case r of
        None \<Rightarrow> quiet evs
      | Some resp \<Rightarrow> \<exists>init. evs = init @ [AgentComplete (Some (response_json resp))] \<and> quiet init)"

lemma ends_well_append: "quiet e1 \<Longrightarrow> ends_well r e2 \<Longrightarrow> ends_well r (e1 @ e2)"
proof (cases r)
  case (Some resp)
  moreover assume "quiet e1" "ends_well r e2"
  ultimately show ?thesis unfolding ends_well_def by (simp, metis append_assoc quiet_simps(3))
qed (simp add: ends_well_def)

lemma behaves_ends_bind:
  "behaves k quietly f \<Longrightarrow> (\<And>x. behaves l ends_well (g x)) \<Longrightarrow> behaves (k + l) ends_well (bindE f g)"
  by (rule behaves_bind) (auto intro: ends_well_append)

lemma behaves_ends_quiet: "behaves 0 quietly f \<Longrightarrow> (\<And>x. behaves l ends_well (g x)) \<Longrightarrow> behaves l ends_well (bindE f g)"
  using behaves_ends_bind [of 0 f l g] by simp

lemma behaves_act [simp]: "behaves 0 ends_well (act env iter a)"
  unfolding act_def
  by (intro behaves_ends_quiet behaves_add_message behaves_run_calls behaves_emit_quiet behaves_ret)
    (simp_all add: ends_well_def)

lemma behaves_finish_run [simp]: "behaves 0 ends_well (finish_run env iter a)"
  unfolding finish_run_def
proof (intro behaves_ends_quiet behaves_add_message behaves_emit_quiet)
  show "behaves 0 quietly (set_final_content (an_content a))" by simp
  show "behaves 0 ends_well (\<lambda>s. let r = finalize_run (rs_ctx s)
      in bindE (emit (AgentComplete (Some (response_json r)))) (\<lambda>_. ret (Some r)) s)"
    by (auto simp: behaves_def emit_def on_ctx_def bindE_def Let_def ends_well_def)
qed simp_all

lemma behaves_iterate [simp]: "behaves 1 ends_well (iterate env iter)"
proof -
  have start: "behaves 1 quietly (emit (LLMCallStart iter msgs))" for msgs
    using behaves_emit [of "LLMCallStart iter msgs"] by simp
  have rest: "behaves 0 ends_well (bindE (call_model env msgs) (\<lambda>a.
     bindE (emit (LLMCallComplete (an_model a) (an_usage a))) (\<lambda>_.
     bindE (if an_thinking a = [] then ret () else record_reasoning_step (an_thinking a)) (\<lambda>_.
     if an_calls a = [] then finish_run env iter a else act env iter a))))" for msgs
  proof (intro behaves_ends_quiet behaves_call_model)
    fix a :: answer
    show "behaves 0 quietly (emit (LLMCallComplete (an_model a) (an_usage a)))" by simp
    have "behaves 0 quietly (ret ())" by (rule behaves_ret) simp
    then show "behaves 0 quietly (if an_thinking a = [] then ret () else record_reasoning_step (an_thinking a))" by simp
    show "behaves 0 ends_well (if an_calls a = [] then finish_run env iter a else act env iter a)" by simp
  qed
  show ?thesis
    unfolding iterate_def
  proof (rule behaves_ends_quiet)
    fix msgs
    show "behaves 1 ends_well (bindE (emit (LLMCallStart iter msgs)) (\<lambda>_. bindE (call_model env msgs) (\<lambda>a.
       bindE (emit (LLMCallComplete (an_model a) (an_usage a))) (\<lambda>_.
       bindE (if an_thinking a = [] then ret () else record_reasoning_step (an_thinking a)) (\<lambda>_.
       if an_calls a = [] then finish_run env iter a else act env iter a)))))"
      using behaves_ends_bind [OF start rest] by simp
  qed simp
qed

lemma behaves_limit [simp]: "behaves 0 ends_well (stop_at_limit env iter)"
  unfolding stop_at_limit_def Let_def by (intro behaves_ends_quiet behaves_abort) simp

section \<open>The loop\<close>

text \<open>A pass of the loop, with its limit.\<close>

lemma iteration_step:
  assumes "run_iteration env s = (r, s')"
  defines "m \<equiv> max_iterations (rv_def env)" and "i \<equiv> rc_iteration (rs_ctx s) + 1"
  shows "rc_iteration (rs_ctx s') = i \<and> (\<exists>evs. rc_events (rs_ctx s') = rc_events (rs_ctx s) @ evs \<and>
    model_calls evs \<le> (if m < i then 0 else 1) \<and> (case r of Inr x \<Rightarrow> ends_well x evs | Inl e \<Rightarrow> failed_with evs)) \<and>
    (m < i \<longrightarrow> (\<exists>e. r = Inl e))"
proof -
  let ?s = "s\<lparr>rs_ctx := (rs_ctx s)\<lparr>rc_iteration := i\<rparr>\<rparr>"
  have step: "run_iteration env s = (if m < i then stop_at_limit env i ?s else iterate env i ?s)"
    by (simp add: run_iteration_def next_iteration_def on_ctx_def bindE_def Let_def m_def i_def)
  show ?thesis
  proof (cases "m < i")
    case True
    with step assms(1) have r: "stop_at_limit env i ?s = (r, s')" by simp
    moreover have "\<exists>e. r = Inl e" using r by (auto simp: stop_at_limit_def Let_def bindE_def emit_def on_ctx_def)
    ultimately show ?thesis using True behaves_limit [of env i, unfolded behaves_def, rule_format, of ?s] by auto
  next
    case False
    with step assms(1) have "iterate env i ?s = (r, s')" by simp
    then show ?thesis using False behaves_iterate [of env i, unfolded behaves_def, rule_format, of ?s] by auto
  qed
qed

text \<open>What has been reported when a run is over.\<close>

definition reported :: "agent_error + agent_response \<Rightarrow> agent_event list \<Rightarrow> bool" where
  "reported r evs =
     (case r of
        Inr resp \<Rightarrow> \<exists>init. evs = init @ [AgentComplete (Some (response_json resp))] \<and> quiet init
      | Inl e \<Rightarrow> failed_with evs)"

lemma reported_append: "quiet e1 \<Longrightarrow> reported r e2 \<Longrightarrow> reported r (e1 @ e2)"
  using ends_well_append failed_with_append unfolding reported_def ends_well_def
  by (cases r) (simp, simp, metis append_assoc quiet_simps(3))

lemma loop_pass:
  assumes "run_iteration env s = (r, s1)"
  shows "agent_loop env s = (case r of Inl e \<Rightarrow> Some (Inl e, s1) | Inr (Some x) \<Rightarrow> Some (Inr x, s1) | Inr None \<Rightarrow> agent_loop env s1)"
  by (subst agent_loop.simps) (simp add: assms split: sum.split option.split)

lemma loop_reports:
  assumes "agent_loop env s = Some y"
  shows "\<exists>evs. rc_events (rs_ctx (snd y)) = rc_events (rs_ctx s) @ evs \<and> reported (fst y) evs"
proof (rule agent_loop.raw_induct [where P = "\<lambda>env s y. \<exists>evs. rc_events (rs_ctx (snd y)) = rc_events (rs_ctx s) @ evs \<and> reported (fst y) evs", OF _ assms])
  fix loop and env :: "('a, 'b) run_env" and s y
  assume ih: "\<And>env s y. loop env s = Some y \<Longrightarrow>
      \<exists>evs. rc_events (rs_ctx (snd y)) = rc_events (rs_ctx s) @ evs \<and> reported (fst y) evs"
    and y: "(case run_iteration env s of (Inl e, s) \<Rightarrow> Some (Inl e, s) | (Inr None, s) \<Rightarrow> loop env s
      | (Inr (Some r), s) \<Rightarrow> Some (Inr r, s)) = Some y"
  obtain q s1 where q: "run_iteration env s = (q, s1)" by force
  obtain e1 where e1: "rc_events (rs_ctx s1) = rc_events (rs_ctx s) @ e1"
    "case q of Inr x \<Rightarrow> ends_well x e1 | Inl e \<Rightarrow> failed_with e1"
    using iteration_step [OF q] by blast
  show "\<exists>evs. rc_events (rs_ctx (snd y)) = rc_events (rs_ctx s) @ evs \<and> reported (fst y) evs"
  proof (cases "q = Inr None")
    case True
    with y q obtain e2 where "rc_events (rs_ctx (snd y)) = rc_events (rs_ctx s1) @ e2" "reported (fst y) e2"
      using ih [of env s1 y] by auto
    with e1 True show ?thesis by (auto simp: ends_well_def intro!: exI [of _ "e1 @ e2"] reported_append)
  next
    case False
    with y q e1 show ?thesis
      by (auto simp: ends_well_def reported_def split: sum.splits option.splits)
  qed
qed

lemma unat_next: "(i :: u32) \<noteq> - 1 \<Longrightarrow> unat (i + 1) = unat i + 1"
proof -
  assume "i \<noteq> - 1"
  then have "unat i \<noteq> unat (- 1 :: u32)" by (metis unsigned_word_eqI)
  moreover have "unat i < 2 ^ 32" using unsigned_less [of i] by simp
  ultimately have "unat i + 1 < 2 ^ 32" by (simp add: unsigned_minus_1_eq_mask mask_eq_exp_minus_1)
  then show ?thesis by (simp add: unat_word_ariths)
qed

lemma loop_bounded:
  assumes "max_iterations (rv_def env) \<noteq> - 1" "rc_iteration (rs_ctx s) \<le> max_iterations (rv_def env)"
  shows "\<exists>r s' evs. agent_loop env s = Some (r, s') \<and> rc_events (rs_ctx s') = rc_events (rs_ctx s) @ evs \<and>
    model_calls evs \<le> unat (max_iterations (rv_def env)) - unat (rc_iteration (rs_ctx s))"
  using assms(2)
proof (induction "unat (max_iterations (rv_def env)) - unat (rc_iteration (rs_ctx s))" arbitrary: s rule: less_induct)
  case less
  let ?m = "max_iterations (rv_def env)" and ?i = "rc_iteration (rs_ctx s)"
  obtain q s1 where q: "run_iteration env s = (q, s1)" by force
  obtain e1 where e1: "rc_events (rs_ctx s1) = rc_events (rs_ctx s) @ e1"
    "model_calls e1 \<le> (if ?m < ?i + 1 then 0 else 1)"
    and i1: "rc_iteration (rs_ctx s1) = ?i + 1" and stop: "?m < ?i + 1 \<longrightarrow> (\<exists>e. q = Inl e)"
    using iteration_step [OF q] by blast
  have "?i \<noteq> - 1" using less.prems assms(1) by (metis word_order.extremum_uniqueI)
  note nxt = unat_next [OF this]
  show ?case
  proof (cases "?m < ?i + 1")
    case True
    with stop obtain e where "q = Inl e" by blast
    with True e1 show ?thesis by (simp add: loop_pass [OF q])
  next
    case False
    then have le: "unat ?i + 1 \<le> unat ?m" using nxt by (simp add: word_le_nat_alt not_less)
    show ?thesis
    proof (cases "q = Inr None")
      case True
      obtain r s' e2 where "agent_loop env s1 = Some (r, s')" "rc_events (rs_ctx s') = rc_events (rs_ctx s1) @ e2"
        "model_calls e2 \<le> unat ?m - unat (rc_iteration (rs_ctx s1))"
        using less.hyps [of s1] i1 nxt le False by (fastforce simp: not_less)
      with e1 False True i1 nxt le show ?thesis by (simp add: loop_pass [OF q])
    next
      case other: False
      with e1 False le show ?thesis
        by (auto simp: loop_pass [OF q] split: sum.split option.split)
    qed
  qed
qed

section \<open>A whole run\<close>

lemma task_start:
  fixes env :: "('w, 'b) run_env" and s :: "'w run_state"
  obtains d s1 where "bindE (emit (AgentStart (rc_user_input (rs_ctx s))))
      (\<lambda>_. or_proceed (intercept env (AgentStart (rc_user_input (rs_ctx s))))) s = (Inr d, s1)"
    "rc_events (rs_ctx s1) = rc_events (rs_ctx s) @ [AgentStart (rc_user_input (rs_ctx s))]"
    "rc_iteration (rs_ctx s1) = rc_iteration (rs_ctx s)"
proof -
  let ?ev = "AgentStart (rc_user_input (rs_ctx s))"
  let ?s = "s\<lparr>rs_ctx := (rs_ctx s)\<lparr>rc_events := rc_events (rs_ctx s) @ [?ev]\<rparr>\<rparr>"
  obtain d s1 where d: "or_proceed (intercept env ?ev) ?s = (Inr d, s1)"
    unfolding or_proceed_def by (cases "intercept env ?ev ?s"; cases "fst (intercept env ?ev ?s)") auto
  moreover have "rc_events (rs_ctx (snd (or_proceed (intercept env ?ev) ?s))) = rc_events (rs_ctx ?s)"
    "rc_iteration (rs_ctx (snd (or_proceed (intercept env ?ev) ?s))) = rc_iteration (rs_ctx ?s)"
    by (simp_all add: or_proceed_def intercept_def split: prod.split option.split)
  ultimately show ?thesis using that [of d s1] by (simp add: emit_def on_ctx_def bindE_def)
qed

lemma task_cases:
  fixes env :: "('w, 'b) run_env" and s :: "'w run_state"
  obtains (aborted) reason s1 where "agent_task env s = Some (Inl (AeContext reason), s1)"
      "rc_events (rs_ctx s1) = rc_events (rs_ctx s) @ [AgentStart (rc_user_input (rs_ctx s)), AgentAborted reason]"
    | (looped) s1 where "agent_task env s = agent_loop env s1" "rc_iteration (rs_ctx s1) = rc_iteration (rs_ctx s)"
      "rc_events (rs_ctx s1) = rc_events (rs_ctx s) @ [AgentStart (rc_user_input (rs_ctx s))]"
proof -
  obtain d s1 where d: "bindE (emit (AgentStart (rc_user_input (rs_ctx s))))
      (\<lambda>_. or_proceed (intercept env (AgentStart (rc_user_input (rs_ctx s))))) s = (Inr d, s1)"
    "rc_events (rs_ctx s1) = rc_events (rs_ctx s) @ [AgentStart (rc_user_input (rs_ctx s))]"
    "rc_iteration (rs_ctx s1) = rc_iteration (rs_ctx s)"
    using task_start .
  show ?thesis
  proof (cases d)
    case (AbortRun reason)
    with d show ?thesis
      by (intro aborted [of reason "s1\<lparr>rs_ctx := (rs_ctx s1)\<lparr>rc_events := rc_events (rs_ctx s1) @ [AgentAborted reason]\<rparr>\<rparr>"])
        (simp_all add: agent_task_def Let_def emit_def on_ctx_def bindE_def)
  qed (use d looped [of s1] in \<open>simp_all add: agent_task_def Let_def\<close>)
qed

lemma task_returns:
  assumes "max_iterations (rv_def env) \<noteq> - 1" "rc_iteration (rs_ctx s) = 0"
  shows "\<exists>r s'. agent_task env s = Some (r, s')"
proof (cases rule: task_cases [of env s])
  case (looped s1)
  then show ?thesis using loop_bounded [OF assms(1), of s1] assms(2) by auto
qed simp

lemma task_reports:
  assumes "agent_task env s = Some (r, s')"
  shows "\<exists>evs. rc_events (rs_ctx s') = rc_events (rs_ctx s) @ AgentStart (rc_user_input (rs_ctx s)) # evs \<and> reported r evs"
proof (cases rule: task_cases [of env s])
  case (aborted reason s1)
  with assms show ?thesis by (auto simp: reported_def)
next
  case (looped s1)
  with assms loop_reports [of env s1 "(r, s')"] show ?thesis by auto
qed

lemma message_content_None: "to_message_content i = None \<longleftrightarrow> ai_parts i = []"
  by (auto simp: to_message_content_def split: list.splits input_part.splits)

section \<open>Properties\<close>



text \<open>
  A run can fail in silence.  When the context of the model call cannot be built the run returns an
  error and its last event is its start: no listener learns that it is over.
\<close>

theorem silent_failure:
  assumes "\<And>w. fst (build_context (rv_to_json env) (rv_builder env) w) = Inl e"
    and "max_iterations (rv_def env) \<noteq> 0" "rc_iteration (rs_ctx s) = 0" "rv_plugins env = []"
  shows "\<exists>s'. agent_task env s = Some (Inl (AeContext (''Failed to build context: '' @ display_context_error e)), s') \<and>
    rc_events (rs_ctx s') = rc_events (rs_ctx s) @ [AgentStart (rc_user_input (rs_ctx s))]"
proof -
  have fails: "\<exists>w'. build_context (rv_to_json env) (rv_builder env) w = (Inl e, w')" for w
    using assms(1) [of w] by (metis prod.collapse)
  have start: "\<not> max_iterations (rv_def env) < 1"
    using assms(2) by (simp add: word_less_nat_alt unat_eq_0)
  let ?s1 = "s\<lparr>rs_ctx := (rs_ctx s)\<lparr>rc_events := rc_events (rs_ctx s) @ [AgentStart (rc_user_input (rs_ctx s))]\<rparr>\<rparr>"
  have task: "agent_task env s = agent_loop env ?s1"
    using assms(4) by (simp add: agent_task_def Let_def or_proceed_def intercept_def emit_def on_ctx_def bindE_def)
  obtain w' where "build_context (rv_to_json env) (rv_builder env) (rs_world s) = (Inl e, w')"
    using fails by blast
  then have "run_iteration env ?s1 = (Inl (AeContext (''Failed to build context: '' @ display_context_error e)),
      ?s1\<lparr>rs_ctx := (rs_ctx ?s1)\<lparr>rc_iteration := 1\<rparr>, rs_world := w'\<rparr>)"
    using start assms(3)
    by (simp add: run_iteration_def next_iteration_def on_ctx_def bindE_def Let_def iterate_def get_context_def
        mapErr_def on_world_def del: append.simps)
  then show ?thesis by (simp add: task loop_pass del: append.simps)
qed

text \<open>
  C6: the running flag.  A run that is refused because another one is active changes nothing.  Every other
  run of an input with at least one part leaves the agent idle, with its session, whatever the run
  returned.
\<close>

theorem run_guard:
  assumes "run_input cfg inp st = Some (r, st')" "ai_parts inp \<noteq> []"
  shows "if ag_running st then r = Inl AeAlreadyRunning \<and> st' = st
    else \<not> ag_running st' \<and> ag_input st' = None \<and> ag_run_id st' = None \<and>
      ag_session st' = ag_session st \<and> ag_ops st' = ag_ops st"
proof (cases "ag_running st")
  case True
  with assms show ?thesis by (simp add: run_input_def)
next
  case False
  obtain body where body: "to_message_content inp = Some body"
    using assms(2) message_content_None [of inp] by (cases "to_message_content inp") auto
  have keeps: "ag_session st2 = ag_session st1 \<and> ag_ops st2 = ag_ops st1"
    if "run_with cfg inp body rid st1 = Some (q, st2)" for rid st1 q st2
    using that by (auto simp: run_with_def Let_def split: prod.splits sum.splits option.splits)
  obtain rid w where rid: "(case ai_run_id inp of Some r \<Rightarrow> (r, reconnect_all cfg (ag_world st))
      | None \<Rightarrow> gc_run_uuid cfg (reconnect_all cfg (ag_world st))) = (rid, w)" by force
  from assms(1) False body rid obtain st2 where
    "run_with cfg inp body rid (st\<lparr>ag_running := True, ag_world := w, ag_input := Some (input_display_text inp),
       ag_run_id := Some rid\<rparr>) = Some (r, st2)" "st' = idle_again st2"
    by (cases "ai_run_id inp") (auto simp: run_input_def Let_def)
  with keeps [OF this(1)] False show ?thesis by (simp add: idle_again_def)
qed

text \<open>
  An input without parts blocks the agent for good.  The run is refused, but only after the running
  flag was set, and nothing clears it: every later run is refused as concurrent, and so is every
  exchange of the session.
\<close>

theorem empty_input_blocks:
  assumes "\<not> ag_running st" "ai_parts inp = []"
  shows "\<exists>st'. run_input cfg inp st = Some (Inl (AeInvalidInput input_error), st') \<and>
    (\<forall>inp'. run_input cfg inp' st' = Some (Inl AeAlreadyRunning, st')) \<and>
    (\<forall>ss ops. set_session cfg ss ops st' = (Inl (gc_agent_id cfg), st'))"
  using assms by (simp add: run_input_def Let_def to_message_content_def set_session_def)

section \<open>Witnesses\<close>

text \<open>A model that answers at once, over the store in memory.\<close>

definition demo_reply :: "conversation_request \<Rightarrow> (mem_entries, llm_error, stream_item list) eff" where
  "demo_reply req = ret [Inr \<lparr> sv_id = ''evt_1'', sv_data = SContentDelta ''done'' \<rparr>]"

definition demo_env :: "(mem_entries, unit) run_env" where
  "demo_env = \<lparr> rv_plugins = [], rv_def = None, rv_tools = Map.empty, rv_tool_order = (\<lambda>r. []), rv_ops = me_ops,
     rv_builder = builder_new (new_budget 100 0 0), rv_converse = demo_reply, rv_to_json = (\<lambda>m. []),
     rv_parse = (\<lambda>t. Inr JNull), rv_uuid = (\<lambda>w. (''u'', w)), rv_now = (\<lambda>w. 7), rv_show_duration = (\<lambda>d. []),
     rv_sandbox_manager = None, rv_tool_sandbox = (\<lambda>t. None), rv_default_sandbox = None, rv_sandbox = None,
     rv_local_sandbox = () \<rparr>"

definition demo_run :: "mem_entries run_state" where
  "demo_run = \<lparr> rs_ctx = run_context_new ''r'' ''hi'' ''s'', rs_world = me_new \<rparr>"

lemma demo_limit: "max_iterations (rv_def demo_env) = 999"
  by (simp add: demo_env_def max_iterations_def)



definition failing_contributor :: "mem_entries contributor" where
  "failing_contributor = \<lparr> ct_name = ''f'', ct_contribute = fail (ContributorError ''f'' ''no''), ct_compress = (\<lambda>w. w),
     ct_estimate_size = (\<lambda>w. 0) \<rparr>"

definition failing_env :: "(mem_entries, unit) run_env" where
  "failing_env = demo_env\<lparr>rv_builder := add_contributor failing_contributor (builder_new (new_budget 100 0 0))\<rparr>"

theorem silent_failure_witness:
  "\<exists>s'. agent_task failing_env demo_run =
      Some (Inl (AeContext (''Failed to build context: '' @ display_context_error (ContributorError ''f'' ''no''))), s') \<and>
    rc_events (rs_ctx s') = rc_events (rs_ctx demo_run) @ [AgentStart (rc_user_input (rs_ctx demo_run))]"
proof (rule silent_failure)
  show "fst (build_context (rv_to_json failing_env) (rv_builder failing_env) w) = Inl (ContributorError ''f'' ''no'')" for w
    by (simp add: failing_env_def add_contributor_def builder_new_def build_context_def failing_contributor_def bindE_def)
qed (simp_all add: failing_env_def demo_env_def max_iterations_def demo_run_def run_context_new_def)

definition demo_config :: "(mem_entries, unit) agent_config" where
  "demo_config = \<lparr> gc_agent_id = ''a'', gc_env = demo_env, gc_letter = no_letter, gc_overlay = (\<lambda>w. None),
     gc_skills = (\<lambda>f. simple_contributor (\<lambda>m. []) ''skills'' [] (Head 1)),
     gc_history = (\<lambda>ss ops n a. simple_contributor (\<lambda>m. []) ''session'' [] a),
     gc_run_uuid = (\<lambda>w. (''r'', w)), gc_mcp = None \<rparr>"

definition demo_agent :: "mem_entries agent_state" where
  "demo_agent = \<lparr> ag_session = session_with_id ''s'' 0, ag_ops = me_ops, ag_builder = builder_new (new_budget 100 0 0),
     ag_running = False, ag_input = None, ag_run_id = None, ag_world = me_new \<rparr>"

theorem run_guard_witness:
  "\<exists>r st'. run_input demo_config (text_input ''hi'') demo_agent = Some (r, st') \<and> \<not> ag_running st' \<and> ag_input st' = None"
proof -
  have "\<exists>r st'. run_with demo_config inp body rid st = Some (r, st')" for inp body rid st
  proof -
    let ?st = "st\<lparr>ag_world := bind_tasks (ag_ops st) (ss_id (ag_session st)) (ai_task_ids inp) (ag_world st)\<rparr>"
    let ?env = "resolve_env demo_config ?st"
    obtain q s where q: "add_message ?env (user_msg body) \<lparr> rs_ctx = start_context inp rid (?st\<lparr>ag_builder := rv_builder ?env\<rparr>),
        rs_world = ag_world ?st \<rparr> = (q, s)" by force
    have "rc_iteration (rs_ctx s) = 0"
      using add_message_keeps(2) [of ?env "user_msg body"
          "\<lparr> rs_ctx = start_context inp rid (?st\<lparr>ag_builder := rv_builder ?env\<rparr>), rs_world = ag_world ?st \<rparr>"]
      unfolding q by (simp add: start_context_def run_context_new_def)
    moreover have "rv_def ?env = None" by (simp add: resolve_env_def Let_def demo_config_def demo_env_def)
    then have "max_iterations (rv_def ?env) \<noteq> - 1" by (simp add: max_iterations_def)
    ultimately obtain r s' where "agent_task ?env s = Some (r, s')" using task_returns by blast
    with q show ?thesis by (cases q) (simp_all add: run_with_def Let_def)
  qed
  then obtain r st' where run: "run_input demo_config (text_input ''hi'') demo_agent = Some (r, st')"
    by (fastforce simp: run_input_def Let_def demo_agent_def demo_config_def text_input_def text_part_def input_new_def
        to_message_content_def)
  have "ai_parts (text_input ''hi'') \<noteq> []" by (simp add: text_input_def text_part_def)
  from run_guard [OF run this] run show ?thesis by (auto simp: demo_agent_def)
qed

theorem empty_input_blocks_witness:
  "\<exists>st'. run_input demo_config input_new demo_agent = Some (Inl (AeInvalidInput input_error), st') \<and>
    (\<forall>inp'. run_input demo_config inp' st' = Some (Inl AeAlreadyRunning, st')) \<and>
    (\<forall>ss ops. set_session demo_config ss ops st' = (Inl (gc_agent_id demo_config), st'))"
  by (rule empty_input_blocks) (simp_all add: demo_agent_def input_new_def)

end
