(* ===== verification/AgentCalls.thy ===== *)
theory AgentCalls
  imports AgentLoop
begin

text \<open>
  The tool calls in the events of a run: each call that begins is closed, by an event with its identifier
  and name, before the next one begins.  A run that fails may leave its last call open.
\<close>

section \<open>Calls that are closed\<close>

fun about_calls :: "agent_event \<Rightarrow> bool" where
  "about_calls (AgentStart i) = True"
| "about_calls (ToolCallBegin i n a) = True"
| "about_calls (ToolCallComplete i n r) = True"
| "about_calls (ToolCallError i n e) = True"
| "about_calls (ToolCallSkipped i n r) = True"
| "about_calls _ = False"

abbreviation calls_in :: "agent_event list \<Rightarrow> agent_event list" where
  "calls_in \<equiv> filter about_calls"

fun closes :: "agent_event \<Rightarrow> agent_event \<Rightarrow> bool" where
  "closes (ToolCallBegin i n a) (ToolCallComplete j m r) \<longleftrightarrow> i = j \<and> n = m"
| "closes (ToolCallBegin i n a) (ToolCallError j m r) \<longleftrightarrow> i = j \<and> n = m"
| "closes (ToolCallBegin i n a) (ToolCallSkipped j m r) \<longleftrightarrow> i = j \<and> n = m"
| "closes _ _ \<longleftrightarrow> False"

fun all_closed :: "agent_event list \<Rightarrow> bool" where
  "all_closed [] = True"
| "all_closed [e] = False"
| "all_closed (b # c # evs) \<longleftrightarrow> closes b c \<and> all_closed evs"

fun begins_call :: "agent_event \<Rightarrow> bool" where
  "begins_call (ToolCallBegin i n a) = True"
| "begins_call _ = False"

fun last_open :: "agent_event list \<Rightarrow> bool" where
  "last_open [] = True"
| "last_open [e] = begins_call e"
| "last_open (b # c # evs) \<longleftrightarrow> closes b c \<and> last_open evs"

lemma last_open_closed: "all_closed evs \<Longrightarrow> last_open evs"
  by (induction evs rule: all_closed.induct) auto

lemma all_closed_append: "all_closed xs \<Longrightarrow> all_closed ys \<Longrightarrow> all_closed (xs @ ys)"
  by (induction xs rule: all_closed.induct) auto

lemma last_open_append: "all_closed xs \<Longrightarrow> last_open ys \<Longrightarrow> last_open (xs @ ys)"
  by (induction xs rule: all_closed.induct) auto

definition call_trace :: "bool \<Rightarrow> agent_event list \<Rightarrow> bool" where
  "call_trace ok evs = (if ok then all_closed (calls_in evs) else last_open (calls_in evs))"

lemma call_trace_Nil [simp]: "call_trace ok []"
  by (simp add: call_trace_def)

lemma call_trace_append: "call_trace True xs \<Longrightarrow> call_trace ok ys \<Longrightarrow> call_trace ok (xs @ ys)"
  by (auto simp: call_trace_def intro: all_closed_append last_open_append)

section \<open>Effects\<close>

definition ok :: "'e + 'a \<Rightarrow> bool" where
  "ok r \<longleftrightarrow> (case r of Inr x \<Rightarrow> True | Inl e \<Rightarrow> False)"

lemma ok_simps [simp]: "ok (Inr x)" "\<not> ok (Inl e)"
  by (simp_all add: ok_def)

definition adds :: "(bool \<Rightarrow> agent_event list \<Rightarrow> bool) \<Rightarrow> ('w, 'a) run_eff \<Rightarrow> bool" where
  "adds P f \<longleftrightarrow> (\<forall>s. \<exists>evs. rc_events (rs_ctx (snd (f s))) = rc_events (rs_ctx s) @ evs \<and> P (ok (fst (f s))) evs)"

text \<open>An effect without events about calls, one that keeps the trace, and one that first closes a call.\<close>

definition no_calls :: "bool \<Rightarrow> agent_event list \<Rightarrow> bool" where
  "no_calls r evs \<longleftrightarrow> calls_in evs = []"

definition closing_call :: "agent_event \<Rightarrow> bool \<Rightarrow> agent_event list \<Rightarrow> bool" where
  "closing_call b r evs \<longleftrightarrow> (\<exists>c rest. calls_in evs = c # rest \<and> closes b c \<and> (if r then all_closed rest else last_open rest)) \<or>
     \<not> r \<and> calls_in evs = []"

lemma adds_bind:
  assumes "adds P f" "\<And>x. adds Q (g x)"
    and "\<And>e1 e2 r. P True e1 \<Longrightarrow> Q r e2 \<Longrightarrow> R r (e1 @ e2)" "\<And>e1. P False e1 \<Longrightarrow> R False e1"
  shows "adds R (bindE f g)"
  unfolding adds_def
proof
  fix s
  obtain r t where f: "f s = (r, t)" by force
  obtain e1 where e1: "rc_events (rs_ctx t) = rc_events (rs_ctx s) @ e1" "P (ok r) e1"
    using assms(1) f unfolding adds_def by (metis fst_conv snd_conv)
  show "\<exists>evs. rc_events (rs_ctx (snd (bindE f g s))) = rc_events (rs_ctx s) @ evs \<and> R (ok (fst (bindE f g s))) evs"
  proof (cases r)
    case (Inl e)
    with f e1 assms(4) show ?thesis by auto
  next
    case (Inr x)
    obtain e2 where "rc_events (rs_ctx (snd (g x t))) = rc_events (rs_ctx t) @ e2" "Q (ok (fst (g x t))) e2"
      using assms(2) unfolding adds_def by blast
    with f e1 Inr assms(3) [of e1 "ok (fst (g x t))" e2] show ?thesis by (intro exI [of _ "e1 @ e2"]) simp
  qed
qed

lemma addsD:
  "adds P f \<Longrightarrow> \<exists>evs. rc_events (rs_ctx (snd (f s))) = rc_events (rs_ctx s) @ evs \<and> P (ok (fst (f s))) evs"
  by (simp add: adds_def)

lemma adds_pick: "(\<And>s. \<exists>g. f s = g s \<and> adds P g) \<Longrightarrow> adds P f"
  unfolding adds_def by metis

lemma adds_mono: "adds P f \<Longrightarrow> (\<And>r evs. P r evs \<Longrightarrow> Q r evs) \<Longrightarrow> adds Q f"
  unfolding adds_def by blast

lemma adds_keep: "(\<And>s. rc_events (rs_ctx (snd (f s))) = rc_events (rs_ctx s)) \<Longrightarrow> adds no_calls f"
  by (auto simp: adds_def no_calls_def intro!: exI [of _ "[]"])

lemma adds_on_ctx: "(\<And>c. rc_events (f c) = rc_events c @ evs) \<Longrightarrow> calls_in evs = [] \<Longrightarrow> adds no_calls (on_ctx f)"
  by (auto simp: adds_def no_calls_def on_ctx_def)

lemma adds_emit: "\<not> about_calls e \<Longrightarrow> adds no_calls (emit e)"
  unfolding emit_def by (rule adds_on_ctx [where evs = "[e]"]) simp_all

lemma adds_silent:
  "adds no_calls (record_tool_call c r i b)" "adds no_calls (record_reasoning_step t)"
  "adds no_calls (set_final_content t)" "adds no_calls clear_current_tool_calls" "adds no_calls next_iteration"
  unfolding record_tool_call_def record_reasoning_step_def set_final_content_def clear_current_tool_calls_def
    next_iteration_def
  by (rule adds_on_ctx [where evs = "[]"]; simp)+

lemma adds_quiet:
  "adds no_calls (add_message env m)" "adds no_calls (get_context env)"
  "adds no_calls (or_proceed (intercept env ev))" "adds no_calls (execute_tool env call)" "adds no_calls (ret x)"
  by (rule adds_keep; simp add: add_message_keeps get_context_def or_proceed_def intercept_def execute_tool_def
      del: append.simps split: prod.split sum.split option.split)+

lemma no_calls_bind: "adds no_calls f \<Longrightarrow> (\<And>x. adds no_calls (g x)) \<Longrightarrow> adds no_calls (bindE f g)"
  by (rule adds_bind [of no_calls _ no_calls]) (simp_all add: no_calls_def)

lemma no_calls_fail: "adds no_calls (fail e)"
  by (rule adds_keep) simp

lemma no_calls_trace: "adds no_calls f \<Longrightarrow> adds call_trace f"
  by (erule adds_mono) (simp add: no_calls_def call_trace_def)

lemma trace_bind: "adds call_trace f \<Longrightarrow> (\<And>x. adds call_trace (g x)) \<Longrightarrow> adds call_trace (bindE f g)"
  by (rule adds_bind [of call_trace _ call_trace]) (simp_all add: call_trace_append)

lemma closing_silent: "adds no_calls f \<Longrightarrow> (\<And>x. adds (closing_call b) (g x)) \<Longrightarrow> adds (closing_call b) (bindE f g)"
  by (rule adds_bind [of no_calls _ "closing_call b"]) (simp_all add: no_calls_def closing_call_def)

lemma closing_emit: "closes b c \<Longrightarrow> adds (closing_call b) (emit c)"
  by (cases "(b, c)" rule: closes.cases) (simp_all add: adds_def emit_def on_ctx_def closing_call_def)

lemma closing_bind: "adds (closing_call b) f \<Longrightarrow> (\<And>x. adds no_calls (g x)) \<Longrightarrow> adds (closing_call b) (bindE f g)"
  by (rule adds_bind [of "closing_call b" _ no_calls])
    (auto simp: no_calls_def closing_call_def dest: last_open_closed split: if_splits)

lemma closing_fail: "adds (closing_call b) (bindE (emit (AgentAborted r)) (\<lambda>_. fail e))"
  by (auto simp: adds_def closing_call_def emit_def on_ctx_def bindE_def)

section \<open>The calls of a run\<close>

lemma perform_closes: "adds (closing_call (ToolCallBegin (tc_id call) (tc_name call) a)) (perform_call env iter call)"
  unfolding perform_call_def
proof (rule closing_silent)
  show "adds no_calls (execute_tool env call)" by (rule adds_quiet)
  fix r :: "string + tool_result"
  show "adds (closing_call (ToolCallBegin (tc_id call) (tc_name call) a)) (case r of
      Inl e \<Rightarrow> bindE (emit (ToolCallError (tc_id call) (tc_name call) e)) (\<lambda>_.
        bindE (record_tool_call call (''Error: '' @ e) iter False) (\<lambda>_.
        add_message env (tool_msg (TextContent (''Tool '' @ [CHR 0x27] @ tc_name call @ [CHR 0x27] @ '' error: '' @ e)) (tc_id call))))
    | Inr res \<Rightarrow> bindE (record_tool_call call (content res) iter True) (\<lambda>_.
        bindE (emit (ToolCallComplete (tc_id call) (tc_name call) (content res))) (\<lambda>_.
        bindE (add_message env (tool_msg (TextContent (content res)) (tc_id call))) (\<lambda>_.
        clear_current_tool_calls))))"
  proof (cases r)
    case (Inl e)
    show ?thesis unfolding Inl sum.case
      by (rule closing_bind [OF closing_emit]) (simp, intro no_calls_bind adds_silent adds_quiet)
  next
    case (Inr res)
    show ?thesis unfolding Inr sum.case
      by (rule closing_silent [OF adds_silent(1)], rule closing_bind [OF closing_emit])
        (simp, intro no_calls_bind adds_silent adds_quiet)
  qed
qed

lemma call_closed: "adds call_trace (run_call env iter call)"
  unfolding run_call_def Let_def
proof (rule adds_bind [where P = "\<lambda>r evs. r \<and> evs = [ToolCallBegin (tc_id call) (tc_name call) (tc_arguments call)]"
      and Q = "closing_call (ToolCallBegin (tc_id call) (tc_name call) (tc_arguments call))"])
  show "adds (closing_call (ToolCallBegin (tc_id call) (tc_name call) (tc_arguments call)))
      (bindE (or_proceed (intercept env (ToolCallBegin (tc_id call) (tc_name call) (tc_arguments call))))
        (\<lambda>d. case d of Proceed \<Rightarrow> perform_call env iter call
           | SkipEvent \<Rightarrow> emit (ToolCallSkipped (tc_id call) (tc_name call) ''Plugin skipped'')
           | AbortRun reason \<Rightarrow> bindE (emit (AgentAborted reason)) (\<lambda>_. fail (AeContext reason))))" for x :: unit
    by (rule closing_silent [OF adds_quiet(3)])
      (simp add: perform_closes closing_emit closing_fail split: plugin_decision.split)
qed (auto simp: adds_def emit_def on_ctx_def closing_call_def call_trace_def split: if_splits)

lemma calls_closed: "adds call_trace (run_calls env iter calls)"
proof (induction calls)
  case Nil
  show ?case unfolding run_calls.simps by (rule no_calls_trace [OF adds_quiet(5)])
next
  case (Cons c calls)
  then show ?case unfolding run_calls.simps by (intro trace_bind call_closed)
qed

lemma consume_no_calls: "consume_items xs a = (evs, r) \<Longrightarrow> calls_in evs = []"
proof (induction xs a arbitrary: evs r rule: consume_items.induct)
  case (3 v xs a)
  obtain e1 a1 where v: "consume_event (sv_data v) a = (e1, a1)" by force
  obtain e2 r2 where xs: "consume_items xs a1 = (e2, r2)" by force
  have "calls_in e1 = []" using v by (cases "(sv_data v, a)" rule: consume_event.cases) auto
  with 3 v xs show ?case by auto
qed auto

lemma emit_all_no_calls: "calls_in evs = [] \<Longrightarrow> adds no_calls (emit_all evs)"
  unfolding emit_all_def by (rule adds_on_ctx) simp_all

lemma call_model_no_calls:
  fixes env :: "('w, 'b) run_env"
  shows "adds no_calls (call_model env msgs)"
  unfolding adds_def
proof
  fix s
  obtain r s1 where w: "on_world (rv_converse env (with_tool_choice ChoiceAuto
      (with_tools (reg_definitions (rv_tool_order env) (rv_tools env)) (with_history None msgs)))) s = (r, s1)"
    (is "?f s = _") by force
  then have s1: "rs_ctx s1 = rs_ctx s" by (metis on_world_ctx snd_conv)
  show "\<exists>evs. rc_events (rs_ctx (snd (call_model env msgs s))) = rc_events (rs_ctx s) @ evs \<and>
      no_calls (ok (fst (call_model env msgs s))) evs"
  proof (cases r)
    case (Inl e)
    have "adds no_calls (bindE (emit (LLMCallError (display_llm_error (rv_show_duration env) e))) (\<lambda>_.
        bindE (emit (AgentAborted (''LLM request failed: '' @ display_llm_error (rv_show_duration env) e))) (\<lambda>_.
        fail (AeLlm e))) :: ('w, answer) run_eff)"
      by (intro no_calls_bind adds_emit no_calls_fail; simp)
    from addsD [OF this, of s1] Inl w s1 show ?thesis by (simp add: call_model_def)
  next
    case (Inr items)
    obtain evs q where c: "consume_llm_stream items = (evs, q)" by force
    then have evs: "calls_in evs = []" by (simp add: consume_llm_stream_def consume_no_calls)
    show ?thesis
    proof (cases q)
      case (Inl e)
      let ?text = "display_agent_error (rv_show_duration env) (AeLlm e)"
      have "adds no_calls (bindE (emit_all evs) (\<lambda>_. bindE (emit (LLMCallError ?text)) (\<lambda>_.
          bindE (emit (AgentAborted (''LLM stream failed: '' @ ?text))) (\<lambda>_. fail (AeLlm e)))) :: ('w, answer) run_eff)"
        by (intro no_calls_bind emit_all_no_calls adds_emit no_calls_fail evs; simp)
      from addsD [OF this, of s1] Inl Inr c w s1 show ?thesis by (simp add: call_model_def Let_def)
    next
      case (Inr a)
      have "adds no_calls (bindE (emit_all evs) (\<lambda>_. ret a) :: ('w, answer) run_eff)"
        by (intro no_calls_bind emit_all_no_calls adds_quiet evs)
      from addsD [OF this, of s1] \<open>r = Inr items\<close> Inr c w s1 show ?thesis by (simp add: call_model_def)
    qed
  qed
qed


lemma act_trace: "adds call_trace (act env iter a)"
  unfolding act_def
  by (intro trace_bind calls_closed no_calls_trace [OF adds_quiet(1)] no_calls_trace [OF adds_emit]
      no_calls_trace [OF adds_quiet(5)]) simp

lemma finish_run_trace: "adds call_trace (finish_run env iter a)"
proof -
  have "adds no_calls (\<lambda>s. bindE (emit (AgentComplete (Some (response_json (finalize_run (rs_ctx s))))))
      (\<lambda>_. ret (Some (finalize_run (rs_ctx s)))) s)"
    by (auto simp: adds_def no_calls_def emit_def on_ctx_def)
  then show ?thesis
    unfolding finish_run_def Let_def
    by (intro no_calls_trace no_calls_bind adds_quiet adds_silent adds_emit) simp_all
qed

lemma iterate_trace: "adds call_trace (iterate env iter)"
proof -
  have a: "adds call_trace (if an_thinking a = [] then ret () else record_reasoning_step (an_thinking a))" for a
    using no_calls_trace [OF adds_quiet(5)] no_calls_trace [OF adds_silent(2)] by auto
  have b: "adds call_trace (if an_calls a = [] then finish_run env iter a else act env iter a)" for a
    using act_trace finish_run_trace by auto
  show ?thesis
    unfolding iterate_def
    by (intro trace_bind a b no_calls_trace [OF adds_quiet(2)] no_calls_trace [OF adds_emit]
        no_calls_trace [OF call_model_no_calls]) simp_all
qed

lemma stop_trace: "adds call_trace (stop_at_limit env iter)"
  unfolding stop_at_limit_def Let_def
  by (intro no_calls_trace no_calls_bind adds_emit no_calls_fail) simp_all

lemma iteration_trace: "adds call_trace (run_iteration env)"
  unfolding run_iteration_def Let_def
proof (rule trace_bind [OF no_calls_trace [OF adds_silent(5)]], rule adds_pick)
  fix s
  show "\<exists>g. (if max_iterations (rv_def env) < rc_iteration (rs_ctx s)
      then stop_at_limit env (rc_iteration (rs_ctx s)) s else iterate env (rc_iteration (rs_ctx s)) s) = g s \<and> adds call_trace g"
    using stop_trace [of env] iterate_trace [of env] by (cases "max_iterations (rv_def env) < rc_iteration (rs_ctx s)") auto
qed

lemma loop_trace:
  assumes "agent_loop env s = Some y"
  shows "\<exists>evs. rc_events (rs_ctx (snd y)) = rc_events (rs_ctx s) @ evs \<and> call_trace (ok (fst y)) evs"
proof (rule agent_loop.raw_induct [where P = "\<lambda>env s y. \<exists>evs. rc_events (rs_ctx (snd y)) = rc_events (rs_ctx s) @ evs \<and>
      call_trace (ok (fst y)) evs", OF _ assms])
  fix loop and env :: "('a, 'b) run_env" and s y
  assume ih: "\<And>env s y. loop env s = Some y \<Longrightarrow>
      \<exists>evs. rc_events (rs_ctx (snd y)) = rc_events (rs_ctx s) @ evs \<and> call_trace (ok (fst y)) evs"
    and y: "(case run_iteration env s of (Inl e, s) \<Rightarrow> Some (Inl e, s) | (Inr None, s) \<Rightarrow> loop env s
      | (Inr (Some r), s) \<Rightarrow> Some (Inr r, s)) = Some y"
  obtain q s1 where q: "run_iteration env s = (q, s1)" by force
  obtain e1 where e1: "rc_events (rs_ctx s1) = rc_events (rs_ctx s) @ e1" "call_trace (ok q) e1"
    using iteration_trace [of env] q unfolding adds_def by (metis fst_conv snd_conv)
  show "\<exists>evs. rc_events (rs_ctx (snd y)) = rc_events (rs_ctx s) @ evs \<and> call_trace (ok (fst y)) evs"
  proof (cases "q = Inr None")
    case True
    with y q obtain e2 where "rc_events (rs_ctx (snd y)) = rc_events (rs_ctx s1) @ e2" "call_trace (ok (fst y)) e2"
      using ih [of env s1 y] by auto
    with e1 True show ?thesis by (intro exI [of _ "e1 @ e2"]) (auto intro: call_trace_append)
  next
    case False
    with y q e1 show ?thesis by (intro exI [of _ e1]) (auto split: sum.splits option.splits)
  qed
qed

text \<open>The calls in the events of a run, after its start.\<close>

lemma run_trace:
  assumes "agent_task env s = Some (r, s')"
  shows "\<exists>evs. rc_events (rs_ctx s') = rc_events (rs_ctx s) @ AgentStart (rc_user_input (rs_ctx s)) # evs \<and>
    (if ok r then all_closed (calls_in evs) else last_open (calls_in evs))"
proof (cases rule: task_cases [of env s])
  case (aborted reason s1)
  with assms show ?thesis by auto
next
  case (looped s1)
  with assms loop_trace [of env s1 "(r, s')"] show ?thesis by (auto simp: call_trace_def)
qed

end
