(* ===== verification/Dispatcher.thy ===== *)
theory Dispatcher
  imports Agent "HOL-Library.Multiset"
begin

text \<open>
  Requests to the agents of a node: \<open>crates/vol-llm-agent-protocol/src/request.rs\<close> and \<open>error.rs\<close>, the queue of an
  agent in \<open>crates/vol-agent-server/src/data_plane/dispatcher.rs\<close> and the router over the agents in
  \<open>data_plane/router.rs\<close>.  The dispatcher is a transition system: what a submission spawns, the loop of
  the dispatcher and the runs it starts take their steps in any order.
\<close>

section \<open>Requests, results, errors\<close>

datatype channel_error =
    ChAgentNotFound string
  | ChCancelled string
  | ChDispatcherDropped
  | ChAgentError string
  | ChAgentBusy string

fun display_channel_error :: "channel_error \<Rightarrow> string" where
  "display_channel_error (ChAgentNotFound a) = ''agent '' @ [CHR 0x27] @ a @ [CHR 0x27] @ '' not registered''"
| "display_channel_error (ChCancelled r) = ''request '' @ [CHR 0x27] @ r @ [CHR 0x27] @ '' was cancelled''"
| "display_channel_error ChDispatcherDropped = ''dispatcher dropped''"
| "display_channel_error (ChAgentError e) = ''agent execution error: '' @ e"
| "display_channel_error (ChAgentBusy a) = ''agent is busy: '' @ a"

record agent_request =
  aq_target :: string
  aq_sender :: "string option"
  aq_input :: agent_input

definition agent_request_new :: "string \<Rightarrow> agent_input \<Rightarrow> agent_request" where
  "agent_request_new target i = \<lparr> aq_target = target, aq_sender = None, aq_input = i \<rparr>"

record run_result =
  rr_run_id :: string
  rr_target :: string
  rr_response :: "channel_error + agent_response"

text \<open>The sender of a result is known by a number, which its receiver has as well.\<close>

record pending_request =
  pr_request :: agent_request
  pr_tx :: nat

section \<open>The state of a dispatcher\<close>

text \<open>
  The loop is at its start, waits for a notification, has got one, or runs a request.  A notification goes to
  the loop when it waits; otherwise it is kept for the next time, but only one of them.  A submission spawns a task that puts the request into the queue;
  a run is a task too, and it goes on when nobody waits for it any more.
\<close>

datatype loop_phase = Starting | Waiting | Notified | Executing pending_request

record dispatcher =
  ds_spawned :: "pending_request list"
  ds_queue :: "pending_request list"
  ds_permit :: bool
  ds_phase :: loop_phase
  ds_abandoned :: "pending_request list"
  ds_sent :: "(nat \<times> run_result) list"
  ds_dropped :: "nat list"
  ds_fresh :: nat

definition dispatcher_new :: dispatcher where
  "dispatcher_new = \<lparr> ds_spawned = [], ds_queue = [], ds_permit = False, ds_phase = Starting, ds_abandoned = [],
     ds_sent = [], ds_dropped = [], ds_fresh = 0 \<rparr>"

section \<open>Operations\<close>

definition ds_submit :: "agent_request \<Rightarrow> dispatcher \<Rightarrow> nat \<times> dispatcher" where
  "ds_submit q d =
     (ds_fresh d, d\<lparr>ds_spawned := ds_spawned d @ [\<lparr> pr_request = q, pr_tx = ds_fresh d \<rparr>], ds_fresh := Suc (ds_fresh d)\<rparr>)"

definition ds_notify :: "dispatcher \<Rightarrow> dispatcher" where
  "ds_notify d = (if ds_phase d = Waiting then d\<lparr>ds_phase := Notified\<rparr> else d\<lparr>ds_permit := True\<rparr>)"

text \<open>One of the spawned tasks takes its turn.\<close>

definition ds_enqueue :: "nat \<Rightarrow> dispatcher \<Rightarrow> dispatcher option" where
  "ds_enqueue i d =
     (if i < length (ds_spawned d) then
        Some (ds_notify (d\<lparr>ds_spawned := take i (ds_spawned d) @ drop (Suc i) (ds_spawned d),
          ds_queue := ds_queue d @ [ds_spawned d ! i]\<rparr>))
      else None)"

fun cancel_first :: "string \<Rightarrow> pending_request list \<Rightarrow> (pending_request \<times> pending_request list) option" where
  "cancel_first rid [] = None"
| "cancel_first rid (p # ps) =
     (if ai_run_id (aq_input (pr_request p)) = Some rid then Some (p, ps)
      else map_option (\<lambda>(q, qs). (q, p # qs)) (cancel_first rid ps))"

definition ds_cancel :: "string \<Rightarrow> dispatcher \<Rightarrow> bool \<times> dispatcher" where
  "ds_cancel rid d =
     (case cancel_first rid (ds_queue d) of
        None \<Rightarrow> (False, d)
      | Some (p, ps) \<Rightarrow> (True, d\<lparr>ds_queue := ps, ds_dropped := ds_dropped d @ [pr_tx p]\<rparr>))"

definition ds_is_busy :: "dispatcher \<Rightarrow> bool" where
  "ds_is_busy d \<longleftrightarrow> (case ds_phase d of Executing p \<Rightarrow> True | _ \<Rightarrow> False)"

text \<open>The loop: look for a kept notification or wait, take a request, wait for its run for five minutes.\<close>

definition ds_wait :: "dispatcher \<Rightarrow> dispatcher option" where
  "ds_wait d =
     (if ds_phase d = Starting then
        Some (if ds_permit d then d\<lparr>ds_permit := False, ds_phase := Notified\<rparr> else d\<lparr>ds_phase := Waiting\<rparr>)
      else None)"

definition ds_pop :: "dispatcher \<Rightarrow> dispatcher option" where
  "ds_pop d =
     (if ds_phase d = Notified then
        Some (case ds_queue d of [] \<Rightarrow> d\<lparr>ds_phase := Starting\<rparr> | p # ps \<Rightarrow> d\<lparr>ds_queue := ps, ds_phase := Executing p\<rparr>)
      else None)"

definition result_of :: "(agent_error \<Rightarrow> string) \<Rightarrow> string \<Rightarrow> pending_request \<Rightarrow> agent_error + agent_response \<Rightarrow> run_result" where
  "result_of show_error uuid p r = \<lparr>
     rr_run_id = (case ai_run_id (aq_input (pr_request p)) of Some i \<Rightarrow> i | None \<Rightarrow> uuid),
     rr_target = aq_target (pr_request p),
     rr_response = (case r of Inl e \<Rightarrow> Inl (ChAgentError (show_error e)) | Inr a \<Rightarrow> Inr a) \<rparr>"

definition timed_out :: agent_error where
  "timed_out = AeContext (''Agent run timed out '' @ [CHR 0xE2, CHR 0x80, CHR 0x94] @
     '' the run exceeded 5 minutes and was aborted'')"

definition ds_finish :: "(agent_error \<Rightarrow> string) \<Rightarrow> string \<Rightarrow> agent_error + agent_response \<Rightarrow> dispatcher \<Rightarrow> dispatcher option" where
  "ds_finish show_error uuid r d =
     (case ds_phase d of
        Executing p \<Rightarrow> Some (d\<lparr>ds_phase := Starting, ds_sent := ds_sent d @ [(pr_tx p, result_of show_error uuid p r)]\<rparr>)
      | _ \<Rightarrow> None)"

text \<open>
  Giving up on a run clears the running flag of the agent and sends an error, but does not end the task of
  the run.
\<close>

definition ds_give_up :: "(agent_error \<Rightarrow> string) \<Rightarrow> string \<Rightarrow> dispatcher \<Rightarrow> dispatcher option" where
  "ds_give_up show_error uuid d =
     (case ds_phase d of
        Executing p \<Rightarrow> Some (d\<lparr>ds_phase := Starting, ds_abandoned := ds_abandoned d @ [p],
          ds_sent := ds_sent d @ [(pr_tx p, result_of show_error uuid p (Inl timed_out))]\<rparr>)
      | _ \<Rightarrow> None)"

definition ds_abandoned_ends :: "nat \<Rightarrow> dispatcher \<Rightarrow> dispatcher option" where
  "ds_abandoned_ends i d =
     (if i < length (ds_abandoned d) then
        Some (d\<lparr>ds_abandoned := take i (ds_abandoned d) @ drop (Suc i) (ds_abandoned d)\<rparr>)
      else None)"

section \<open>Steps\<close>

datatype dispatch_action =
    DaSubmit agent_request
  | DaEnqueue nat
  | DaCancel string
  | DaWait
  | DaPop
  | DaFinish string "agent_error + agent_response"
  | DaGiveUp string
  | DaAbandonedEnds nat

fun ds_step :: "(agent_error \<Rightarrow> string) \<Rightarrow> dispatch_action \<Rightarrow> dispatcher \<Rightarrow> dispatcher option" where
  "ds_step show_error (DaSubmit q) d = Some (snd (ds_submit q d))"
| "ds_step show_error (DaEnqueue i) d = ds_enqueue i d"
| "ds_step show_error (DaCancel rid) d = Some (snd (ds_cancel rid d))"
| "ds_step show_error DaWait d = ds_wait d"
| "ds_step show_error DaPop d = ds_pop d"
| "ds_step show_error (DaFinish u r) d = ds_finish show_error u r d"
| "ds_step show_error (DaGiveUp u) d = ds_give_up show_error u d"
| "ds_step show_error (DaAbandonedEnds i) d = ds_abandoned_ends i d"

fun ds_steps :: "(agent_error \<Rightarrow> string) \<Rightarrow> dispatch_action list \<Rightarrow> dispatcher \<Rightarrow> dispatcher option" where
  "ds_steps show_error [] d = Some d"
| "ds_steps show_error (a # as) d = Option.bind (ds_step show_error a d) (ds_steps show_error as)"

section \<open>The router\<close>

type_synonym agent_router = "string \<rightharpoonup> dispatcher"

definition router_register :: "string \<Rightarrow> dispatcher \<Rightarrow> agent_router \<Rightarrow> agent_router" where
  "router_register a d r = r(a \<mapsto> d)"

definition router_send :: "string \<Rightarrow> agent_request \<Rightarrow> (agent_router, channel_error, nat) eff" where
  "router_send target q r =
     (case r target of
        None \<Rightarrow> (Inl (ChAgentNotFound target), r)
      | Some d \<Rightarrow> (case ds_submit q d of (tx, d) \<Rightarrow> (Inr tx, r(target \<mapsto> d))))"

text \<open>The dispatchers are asked one after the other, in the order of the table, until one has the request.\<close>

fun router_cancel :: "string list \<Rightarrow> string \<Rightarrow> agent_router \<Rightarrow> bool \<times> agent_router" where
  "router_cancel [] rid r = (False, r)"
| "router_cancel (a # as) rid r =
     (case r a of
        None \<Rightarrow> router_cancel as rid r
      | Some d \<Rightarrow>
          (case ds_cancel rid d of
             (True, d) \<Rightarrow> (True, r(a \<mapsto> d))
           | (False, d) \<Rightarrow> router_cancel as rid r))"

definition router_has_agent :: "string \<Rightarrow> agent_router \<Rightarrow> bool" where
  "router_has_agent a r \<longleftrightarrow> r a \<noteq> None"

definition router_agent_running :: "string \<Rightarrow> agent_router \<Rightarrow> bool" where
  "router_agent_running a r \<longleftrightarrow> (case r a of None \<Rightarrow> False | Some d \<Rightarrow> ds_is_busy d)"

section \<open>Every request is accounted for\<close>

definition executing :: "dispatcher \<Rightarrow> pending_request list" where
  "executing d = (case ds_phase d of Executing p \<Rightarrow> [p] | _ \<Rightarrow> [])"

definition open_txs :: "dispatcher \<Rightarrow> nat multiset" where
  "open_txs d = mset (map pr_tx (ds_spawned d)) + mset (map pr_tx (ds_queue d)) + mset (map pr_tx (executing d))"

definition closed_txs :: "dispatcher \<Rightarrow> nat multiset" where
  "closed_txs d = mset (map fst (ds_sent d)) + mset (ds_dropped d)"

definition ds_inv :: "dispatcher \<Rightarrow> bool" where
  "ds_inv d \<longleftrightarrow> open_txs d + closed_txs d = mset [0..<ds_fresh d]"

lemma take_drop_mset: "i < length xs \<Longrightarrow> mset (take i xs) + mset (drop (Suc i) xs) + {#xs ! i#} = mset xs"
  by (metis add.assoc add.commute append_take_drop_id Cons_nth_drop_Suc mset.simps(2) mset_append add_mset_add_single)

lemma cancel_first_mset: "cancel_first rid ps = Some (p, qs) \<Longrightarrow> mset ps = add_mset p (mset qs)"
  by (induction ps arbitrary: qs) (auto split: if_splits)

lemma ds_inv_step:
  assumes "ds_inv d" and "ds_step show_error a d = Some d'"
  shows "ds_inv d'"
proof (cases a)
  case (DaSubmit q)
  with assms show ?thesis
    by (auto simp: ds_inv_def ds_submit_def open_txs_def closed_txs_def executing_def simp del: mset_upt)
next
  case (DaEnqueue i)
  with assms(2) have i: "i < length (ds_spawned d)" by (simp add: ds_enqueue_def split: if_splits)
  from take_drop_mset [OF this] have "mset (map pr_tx (ds_spawned d)) =
      mset (map pr_tx (take i (ds_spawned d))) + mset (map pr_tx (drop (Suc i) (ds_spawned d))) + {#pr_tx (ds_spawned d ! i)#}"
    by (metis image_mset_single image_mset_union mset_map)
  with assms DaEnqueue i show ?thesis
    by (auto simp: ds_inv_def ds_enqueue_def ds_notify_def open_txs_def closed_txs_def executing_def ac_simps
        add_mset_commute split: loop_phase.splits)
next
  case (DaCancel rid)
  with assms show ?thesis
    by (cases "cancel_first rid (ds_queue d)")
      (auto simp: ds_inv_def ds_cancel_def open_txs_def closed_txs_def executing_def dest!: cancel_first_mset)
qed (use assms in \<open>auto simp: ds_inv_def ds_wait_def ds_pop_def ds_finish_def ds_give_up_def ds_abandoned_ends_def
    open_txs_def closed_txs_def executing_def split: if_splits loop_phase.splits list.splits\<close>)

lemma ds_inv_steps: "ds_steps show_error as d = Some d' \<Longrightarrow> ds_inv d \<Longrightarrow> ds_inv d'"
  by (induction as arbitrary: d) (auto simp: bind_eq_Some_conv intro: ds_inv_step)

text \<open>
  No request is lost or answered twice: in every state the dispatcher can reach, each request submitted so far is
  at exactly one place, on its way to the queue, in the queue, running, answered or cancelled, and has at most
  one answer.
\<close>

theorem requests_accounted:
  assumes "ds_steps show_error as dispatcher_new = Some d"
  shows "open_txs d + closed_txs d = mset [0..<ds_fresh d] \<and> distinct (map fst (ds_sent d) @ ds_dropped d) \<and>
    (\<forall>p \<in> set (ds_spawned d @ ds_queue d @ executing d). pr_tx p \<notin> set (map fst (ds_sent d) @ ds_dropped d))"
proof -
  have "ds_inv dispatcher_new"
    by (simp add: ds_inv_def dispatcher_new_def open_txs_def closed_txs_def executing_def)
  then have "ds_inv d" using assms by (blast intro: ds_inv_steps)
  then have inv: "open_txs d + closed_txs d = mset [0..<ds_fresh d]" by (simp add: ds_inv_def)
  let ?open = "map pr_tx (ds_spawned d @ ds_queue d @ executing d)" and ?closed = "map fst (ds_sent d) @ ds_dropped d"
  have "mset (?open @ ?closed) = mset [0..<ds_fresh d]"
    using inv by (simp add: open_txs_def closed_txs_def ac_simps)
  then have "distinct (?open @ ?closed)" by (metis distinct_upt mset_eq_imp_distinct_iff)
  with inv show ?thesis by auto
qed

theorem requests_accounted_witness:
  "distinct (map fst (ds_sent (dispatcher_new\<lparr>ds_phase := Waiting\<rparr>)) @ ds_dropped (dispatcher_new\<lparr>ds_phase := Waiting\<rparr>))"
proof -
  have "ds_steps (\<lambda>e. []) [DaWait] dispatcher_new = Some (dispatcher_new\<lparr>ds_phase := Waiting\<rparr>)"
    by (simp add: ds_wait_def dispatcher_new_def)
  from requests_accounted [OF this] show ?thesis by blast
qed

section \<open>What the interleaving allows\<close>

text \<open>A request is left behind: it is in the queue, and the loop waits for a notification nobody owes it.\<close>

definition left_behind :: "pending_request \<Rightarrow> dispatcher \<Rightarrow> bool" where
  "left_behind p d \<longleftrightarrow> p \<in> set (ds_queue d) \<and> ds_phase d = Waiting \<and> ds_spawned d = []"

fun internal :: "dispatch_action \<Rightarrow> bool" where
  "internal (DaSubmit q) = False"
| "internal (DaCancel rid) = False"
| "internal _ = True"

lemma left_behind_step:
  "left_behind p d \<Longrightarrow> internal a \<Longrightarrow> ds_step show_error a d = Some d' \<Longrightarrow> left_behind p d' \<and> ds_sent d' = ds_sent d"
  by (cases a) (auto simp: left_behind_def ds_enqueue_def ds_wait_def ds_pop_def ds_finish_def ds_give_up_def
      ds_abandoned_ends_def split: if_splits)

lemma left_behind_steps:
  "left_behind p d \<Longrightarrow> list_all internal as \<Longrightarrow> ds_steps show_error as d = Some d' \<Longrightarrow>
   left_behind p d' \<and> ds_sent d' = ds_sent d"
  by (induction as arbitrary: d) (auto simp: bind_eq_Some_conv dest: left_behind_step)

definition burst :: "agent_request \<Rightarrow> agent_request \<Rightarrow> agent_request \<Rightarrow> (agent_error + agent_response) \<Rightarrow> dispatch_action list" where
  "burst a b c r = [DaWait, DaSubmit a, DaEnqueue 0, DaPop, DaSubmit b, DaEnqueue 0, DaSubmit c, DaEnqueue 0,
     DaFinish [] r, DaWait, DaPop, DaFinish [] r, DaWait]"

text \<open>
  Notifications are lost: when two requests arrive while a third one runs, they leave one notification, and the
  dispatcher answers the first of them and then waits with the second one in its queue.  Nothing the dispatcher
  does by itself ever runs that request; it stays until some other request is submitted.
\<close>

theorem lost_wakeup:
  "\<exists>d p. ds_steps show_error (burst a b c r) dispatcher_new = Some d \<and> ds_queue d = [p] \<and> pr_request p = c \<and>
     (\<forall>as d'. ds_steps show_error as d = Some d' \<and> list_all internal as \<longrightarrow>
        p \<in> set (ds_queue d') \<and> pr_tx p \<notin> set (map fst (ds_sent d')))"
proof -
  let ?p = "\<lparr> pr_request = c, pr_tx = 2 \<rparr>"
  obtain d where d: "ds_steps show_error (burst a b c r) dispatcher_new = Some d" "ds_queue d = [?p]" "ds_phase d = Waiting"
    "ds_spawned d = []" "map fst (ds_sent d) = [0, 1]"
    by (simp add: burst_def dispatcher_new_def ds_submit_def ds_enqueue_def ds_notify_def ds_wait_def ds_pop_def ds_finish_def
        numeral_2_eq_2)
  then have "left_behind ?p d" by (simp add: left_behind_def)
  then have "?p \<in> set (ds_queue d') \<and> pr_tx ?p \<notin> set (map fst (ds_sent d'))"
    if "ds_steps show_error as d = Some d'" "list_all internal as" for as d'
    using left_behind_steps [OF _ that(2,1)] d(5) by (auto simp: left_behind_def)
  with d show ?thesis by (intro exI [of _ d] exI [of _ ?p]) auto
qed

theorem lost_wakeup_witness:
  "\<exists>d p. ds_steps (\<lambda>e. []) (burst (agent_request_new ''a'' input_new) (agent_request_new ''b'' input_new)
      (agent_request_new ''c'' input_new) (Inl AeAlreadyRunning)) dispatcher_new = Some d \<and>
     p \<in> set (ds_queue d) \<and> pr_tx p \<notin> set (map fst (ds_sent d))"
proof -
  obtain d p where "ds_steps (\<lambda>e. []) (burst (agent_request_new ''a'' input_new) (agent_request_new ''b'' input_new)
      (agent_request_new ''c'' input_new) (Inl AeAlreadyRunning)) dispatcher_new = Some d"
    and "\<forall>as d'. ds_steps (\<lambda>e. []) as d = Some d' \<and> list_all internal as \<longrightarrow>
      p \<in> set (ds_queue d') \<and> pr_tx p \<notin> set (map fst (ds_sent d'))"
    using lost_wakeup by blast
  from this(1) spec [OF spec [OF this(2), of "[]"], of d] show ?thesis by auto
qed

text \<open>
  Giving up on a run does not end it: the next request of the same agent runs while the abandoned run goes on, and
  requests submitted one after the other may enter the queue in the opposite order.
\<close>

theorem runs_overlap:
  "(\<exists>d. ds_steps show_error [DaWait, DaSubmit a, DaEnqueue 0, DaPop, DaSubmit b, DaEnqueue 0, DaGiveUp [], DaWait, DaPop] dispatcher_new
        = Some d \<and> map pr_request (ds_abandoned d) = [a] \<and> map pr_request (executing d) = [b]) \<and>
   (\<exists>d. ds_steps show_error [DaSubmit a, DaSubmit b, DaEnqueue 1, DaEnqueue 0] dispatcher_new = Some d \<and>
        map pr_request (ds_queue d) = [b, a])"
  by (simp add: dispatcher_new_def ds_submit_def ds_enqueue_def ds_notify_def ds_wait_def ds_pop_def ds_give_up_def executing_def)

end
