(* ===== verification/DataPlane.thy ===== *)
theory DataPlane
  imports Dispatcher Protocol "HOL-Library.List_Lexorder" "HOL-Library.Char_ord"
begin

text \<open>
  The agents of a data plane, \<open>crates/vol-agent-server/src/data_plane/\<close>: the handler of the agent operations
  (\<open>handlers/agent.rs\<close>), the holder of a connection that tells clients and the status table what an agent
  does (\<open>connection_holder.rs\<close>), serving a connection (\<open>core.rs\<close>), the handlers of the system and control
  operations (\<open>handlers/system.rs\<close>, \<open>handlers/control.rs\<close>, \<open>command.rs\<close>) and the static capability source
  (\<open>snapshot.rs\<close>).  Fresh identifiers and the serialization of events are parameters.
\<close>

section \<open>State\<close>

record agent_status =
  as_status :: string
  as_current_input :: "string option"
  as_run_id :: "string option"

definition status_idle :: agent_status where
  "status_idle = \<lparr> as_status = ''idle'', as_current_input = None, as_run_id = None \<rparr>"

definition status_running :: "string \<Rightarrow> string \<Rightarrow> agent_status" where
  "status_running input run_id = \<lparr> as_status = ''running'', as_current_input = Some input, as_run_id = Some run_id \<rparr>"

text \<open>What the handler asks an agent: its configuration, its session and whether it runs.\<close>

record node_agent =
  na_running :: bool
  na_session :: string
  na_provider :: provider_info
  na_tools :: "string list"
  na_mcps :: "string list"
  na_skills :: "string list"
  na_contributors :: "(string \<times> string \<times> nat \<times> nat) list option"
  na_snapshot :: "string \<Rightarrow> (string \<times> string) list option"

text \<open>
  The holders are the keys of a hash table, here in the order in which the table gives them; each holds at
  most one connection, which is known by a number.
\<close>

record data_plane =
  dp_router :: agent_router
  dp_agents :: "string \<rightharpoonup> node_agent"
  dp_holders :: "string list"
  dp_connection :: "string \<rightharpoonup> nat"
  dp_defs :: "string \<rightharpoonup> agent_def"
  dp_status :: "string \<rightharpoonup> agent_status"
  dp_last_session :: "string \<rightharpoonup> string"

section \<open>Swapping the session\<close>

definition busy_text :: "string \<Rightarrow> string" where
  "busy_text a = ''agent '' @ a @ '' is currently running '' @ [CHR 0xE2, CHR 0x80, CHR 0x94] @ '' state mutation not allowed''"

definition router_swap_session :: "string \<Rightarrow> string \<Rightarrow> (data_plane, channel_error, unit) eff" where
  "router_swap_session a sid s =
     (case dp_agents s a of
        None \<Rightarrow> (Inl (ChAgentNotFound a), s)
      | Some g \<Rightarrow>
          if na_running g then (Inl (ChAgentBusy (busy_text a)), s)
          else (Inr (), s\<lparr>dp_agents := (dp_agents s)(a \<mapsto> g\<lparr>na_session := sid\<rparr>)\<rparr>))"

section \<open>Submitting\<close>

text \<open>An unknown target is replaced by the first agent of the table.\<close>

definition target_of :: "string list \<Rightarrow> string option \<Rightarrow> string" where
  "target_of holders target =
     (case target of
        Some t \<Rightarrow> if t \<in> set holders then t else (case holders of [] \<Rightarrow> ''agent'' | h # hs \<Rightarrow> h)
      | None \<Rightarrow> (case holders of [] \<Rightarrow> ''agent'' | h # hs \<Rightarrow> h))"

definition session_of :: "agent_input \<Rightarrow> string option" where
  "session_of i = (case ai_metadata i ''session_id'' of Some (JStr sid) \<Rightarrow> Some sid | _ \<Rightarrow> None)"

definition change_session :: "string \<Rightarrow> string option \<Rightarrow> data_plane \<Rightarrow> data_plane" where
  "change_session a session s =
     (case session of
        None \<Rightarrow> s
      | Some sid \<Rightarrow>
          if dp_last_session s a = Some sid then s
          else let s = snd (router_swap_session a sid s) in s\<lparr>dp_last_session := (dp_last_session s)(a \<mapsto> sid)\<rparr>)"

datatype agent_body =
    BSubmit agent_input "string option"
  | BCancel string
  | BSubscribe
  | BUnsubscribe string
  | BApprove string
  | BEvent string json
  | BStatus string
  | BContextConfig string
  | BContextSnapshot string string
  | BOther

datatype agent_reply =
    RSubmit string bool provider_info "string list" "string list" "string list"
  | RCancel string bool
  | RSubscribed string
  | RUnsubscribed string bool
  | RApproved string bool
  | RAgents "json list"
  | RStatus string "string option"
  | RContributors "json list"
  | RMessages "json list"
  | REvent string json
  | RFailed error_payload

definition agent_failed :: "string \<Rightarrow> string \<Rightarrow> agent_reply" where
  "agent_failed code text = RFailed \<lparr> ep_code = code, ep_message = text, ep_detail = None, ep_terminal = True \<rparr>"

definition dp_submit :: "string \<Rightarrow> agent_input \<Rightarrow> string option \<Rightarrow> data_plane \<Rightarrow> agent_reply \<times> data_plane" where
  "dp_submit fresh i target s =
     (let a = target_of (dp_holders s) target;
          s = change_session a (session_of i) s;
          run_id = (case ai_run_id i of Some r \<Rightarrow> r | None \<Rightarrow> fresh);
          (provider, tools, mcps, skills) =
            (case dp_agents s a of
               Some g \<Rightarrow> (na_provider g, na_tools g, na_mcps g, na_skills g)
             | None \<Rightarrow> (\<lparr> pi_name = ''unknown'', pi_model = ''unknown'' \<rparr>, [], [], []))
      in case router_send a (agent_request_new a i) (dp_router s) of
           (Inr tx, r) \<Rightarrow> (RSubmit run_id True provider tools mcps skills, s\<lparr>dp_router := r\<rparr>)
         | (Inl e, r) \<Rightarrow> (agent_failed ''agent_submit_failed'' (display_channel_error e), s\<lparr>dp_router := r\<rparr>))"

section \<open>The other operations\<close>

definition scope_rank :: "agent_def option \<Rightarrow> nat" where
  "scope_rank d = (case d of Some d \<Rightarrow> if ad_scope d = RepoScope then 0 else 1 | None \<Rightarrow> 0)"

definition agent_json :: "(string \<rightharpoonup> agent_def) \<Rightarrow> string \<Rightarrow> json" where
  "agent_json defs k = JObj [(''id'', JStr k), (''name'', JStr k),
     (''type'', JStr (case defs k of Some d \<Rightarrow> ad_type d | None \<Rightarrow> ''unknown'')),
     (''description'', JStr (case defs k of Some d \<Rightarrow> ad_description d | None \<Rightarrow> [])),
     (''scope'', JStr (case defs k of Some d \<Rightarrow> scope_prefix (ad_scope d) | None \<Rightarrow> ''repo'')),
     (''status'', JStr ''idle''), (''current_input'', JNull)]"

definition handle_list :: "data_plane \<Rightarrow> agent_reply" where
  "handle_list s = RAgents (map (agent_json (dp_defs s))
     (sort_key (\<lambda>k. scope_rank (dp_defs s k)) (sort (dp_holders s))))"

definition handle_status :: "string \<Rightarrow> data_plane \<Rightarrow> agent_reply" where
  "handle_status a s =
     (let fallback = RStatus (if router_agent_running a (dp_router s) then ''running'' else ''idle'') None in
      case dp_status s a of
        Some st \<Rightarrow> if as_status st = ''running'' then RStatus (as_status st) (as_run_id st) else fallback
      | None \<Rightarrow> fallback)"

definition agent_missing :: "string \<Rightarrow> agent_reply" where
  "agent_missing a = agent_failed ''agent_not_found'' (''agent '' @ [CHR 0x27] @ a @ [CHR 0x27] @ '' not found'')"

definition handle_context_config :: "string \<Rightarrow> data_plane \<Rightarrow> agent_reply" where
  "handle_context_config a s =
     (case dp_agents s a of
        None \<Rightarrow> agent_missing a
      | Some g \<Rightarrow> RContributors (map (\<lambda>(name, zone, tokens, count). JObj [(''name'', JStr name), (''anchor_zone'', JStr zone),
          (''estimated_tokens'', JNum (int tokens)), (''message_count'', JNum (int count))])
          (case na_contributors g of Some cs \<Rightarrow> cs | None \<Rightarrow> [])))"

definition handle_context_snapshot :: "string \<Rightarrow> string \<Rightarrow> data_plane \<Rightarrow> agent_reply" where
  "handle_context_snapshot a name s =
     (case dp_agents s a of
        None \<Rightarrow> agent_missing a
      | Some g \<Rightarrow> RMessages (map (\<lambda>(role, text). JObj [(''role'', JStr role), (''content'', JStr text)])
          (case na_snapshot g name of Some ms \<Rightarrow> ms | None \<Rightarrow> [])))"

text \<open>The table of dispatchers is searched in the order in which it gives its keys.\<close>

definition handle_cancel :: "string list \<Rightarrow> string \<Rightarrow> data_plane \<Rightarrow> agent_reply \<times> data_plane" where
  "handle_cancel order rid s =
     (case router_cancel order rid (dp_router s) of (done, r) \<Rightarrow> (RCancel rid done, s\<lparr>dp_router := r\<rparr>))"

definition agent_handle ::
  "string \<Rightarrow> string list \<Rightarrow> agent_operation \<Rightarrow> agent_body \<Rightarrow> data_plane \<Rightarrow> (protocol_error + agent_reply) \<times> data_plane" where
  "agent_handle fresh order op b s =
     (let mismatch = (Inl (PayloadDecodeFailed (agent_method op)), s) in
      case op of
        AgSubmitOp \<Rightarrow> (case b of BSubmit i target \<Rightarrow> map_prod Inr id (dp_submit fresh i target s) | _ \<Rightarrow> mismatch)
      | AgCancelOp \<Rightarrow> (case b of BCancel rid \<Rightarrow> map_prod Inr id (handle_cancel order rid s) | _ \<Rightarrow> mismatch)
      | AgSubscribeOp \<Rightarrow> (case b of BSubscribe \<Rightarrow> (Inr (RSubscribed fresh), s) | _ \<Rightarrow> mismatch)
      | AgUnsubscribeOp \<Rightarrow> (case b of BUnsubscribe i \<Rightarrow> (Inr (RUnsubscribed i True), s) | _ \<Rightarrow> mismatch)
      | AgApproveOp \<Rightarrow> (case b of BApprove rid \<Rightarrow> (Inr (RApproved rid True), s) | _ \<Rightarrow> mismatch)
      | AgListOp \<Rightarrow> (Inr (handle_list s), s)
      | AgEventOp \<Rightarrow> (case b of BEvent rid ev \<Rightarrow> (Inr (REvent rid ev), s) | _ \<Rightarrow> mismatch)
      | AgStatusOp \<Rightarrow> (case b of BStatus a \<Rightarrow> (Inr (handle_status a s), s) | _ \<Rightarrow> mismatch)
      | AgContextConfigOp \<Rightarrow> (case b of BContextConfig a \<Rightarrow> (Inr (handle_context_config a s), s) | _ \<Rightarrow> mismatch)
      | AgContextSnapshotOp \<Rightarrow>
          (case b of BContextSnapshot a n \<Rightarrow> (Inr (handle_context_snapshot a n s), s) | _ \<Rightarrow> mismatch)
      | AgGetCapabilitiesOp \<Rightarrow> mismatch
      | AgUpdateCapabilitiesOp \<Rightarrow> mismatch)"

section \<open>What clients are told\<close>

text \<open>A listener of an agent: it keeps the status of the agent and sends the event to the connection, if there is one.\<close>

definition holder_status :: "string \<Rightarrow> string \<Rightarrow> agent_event \<Rightarrow> data_plane \<Rightarrow> data_plane" where
  "holder_status a run_id ev s =
     (case ev of
        AgentStart input \<Rightarrow> s\<lparr>dp_status := (dp_status s)(a \<mapsto> status_running input run_id)\<rparr>
      | AgentComplete r \<Rightarrow> s\<lparr>dp_status := (dp_status s)(a \<mapsto> status_idle)\<rparr>
      | AgentAborted r \<Rightarrow> s\<lparr>dp_status := (dp_status s)(a \<mapsto> status_idle)\<rparr>
      | _ \<Rightarrow> s)"

definition event_message :: "(agent_event \<Rightarrow> json) \<Rightarrow> string \<Rightarrow> string \<Rightarrow> string \<Rightarrow> agent_event \<Rightarrow> message" where
  "event_message ser fresh a run_id ev =
     \<lparr> m_protocol = ''agent-server/1'', m_message_id = fresh, m_sender = a, m_receiver = ''client'', m_kind = KEvent,
       m_operation = OpAgent AgEventOp,
       m_payload = PlAgent (ApOther (JObj [(''run_id'', JStr run_id), (''event'', ser ev)])), m_meta = no_meta \<rparr>"

definition holder_listen ::
  "(agent_event \<Rightarrow> json) \<Rightarrow> string \<Rightarrow> string \<Rightarrow> string \<Rightarrow> agent_event \<Rightarrow> data_plane \<Rightarrow> (nat \<times> message) option \<times> data_plane" where
  "holder_listen ser fresh a run_id ev s =
     (case dp_connection s a of
        None \<Rightarrow> None
      | Some c \<Rightarrow> Some (c, event_message ser fresh a run_id ev), holder_status a run_id ev s)"

text \<open>Serving a connection attaches it to every holder; when the connection closes it stays attached.\<close>

definition serve_attach :: "nat \<Rightarrow> data_plane \<Rightarrow> data_plane" where
  "serve_attach c s = s\<lparr>dp_connection := foldl (\<lambda>m a. m(a \<mapsto> c)) (dp_connection s) (dp_holders s)\<rparr>"

definition dispatch_reply :: "string \<Rightarrow> operation \<Rightarrow> protocol_error + message list \<Rightarrow> message list" where
  "dispatch_reply message_id op r =
     (case r of
        Inr ms \<Rightarrow> ms
      | Inl e \<Rightarrow> [new_error message_id op \<lparr> ep_code = ''dispatch_error'', ep_message = display_protocol_error e,
          ep_detail = None, ep_terminal = False \<rparr>])"

section \<open>System and control\<close>

definition system_connected :: "string \<Rightarrow> string \<Rightarrow> message" where
  "system_connected version message_id = new_result message_id (OpSystem SyConnectedOp)
     (PlSystem (SpConnected \<lparr> ci_server_type = DataPlane, ci_version = version,
       ci_capabilities = [''agent.list'', ''agent.submit'', ''agent.cancel'', ''agent.status''] \<rparr>))"

datatype control_command_operation =
    CcSubmitAgent "string option" agent_input
  | CcCancelRun string
  | CcCallTool string json
  | CcCallMcpTool string string json
  | CcRefreshCapabilities
  | CcHealthCheck

record control_command =
  cc_command_id :: string
  cc_node_id :: string
  cc_operation :: control_command_operation
  cc_deadline_ms :: "u64 option"

record command_ack =
  ca_command_id :: string
  ca_accepted :: bool
  ca_run_id :: "string option"

definition accept_control_command :: "control_command \<Rightarrow> command_ack" where
  "accept_control_command c = \<lparr> ca_command_id = cc_command_id c, ca_accepted = True,
     ca_run_id = (case cc_operation c of CcSubmitAgent t i \<Rightarrow> Some (''run_'' @ cc_command_id c) | _ \<Rightarrow> None) \<rparr>"

definition dp_control_handle :: "control_command option \<Rightarrow> data_plane \<Rightarrow> (protocol_error + command_ack) \<times> data_plane" where
  "dp_control_handle c s =
     (case c of
        Some c \<Rightarrow> (Inr (accept_control_command c), s)
      | None \<Rightarrow> (Inl (PayloadDecodeFailedOwned ''expected control.command payload''), s))"

definition static_snapshot :: "string \<Rightarrow> capability_snapshot" where
  "static_snapshot node = \<lparr> cs_node_id = node, cs_revision = 1, cs_generated_at_ms = None, cs_agents = [], cs_tools = [],
     cs_mcp_servers = [], cs_skills = [] \<rparr>"

section \<open>Facts\<close>

lemma target_of_known: "holders \<noteq> [] \<Longrightarrow> target_of holders t \<in> set holders"
  by (auto simp: target_of_def split: option.split list.split)

lemma status_simps [simp]:
  "as_status status_idle = ''idle''" "as_status (status_running i r) = ''running''"
  "as_run_id (status_running i r) = Some r" "as_run_id status_idle = None"
  by (simp_all add: status_idle_def status_running_def)

lemma listen_connection [simp]: "dp_connection (snd (holder_listen ser fresh a run_id ev s)) = dp_connection s"
  by (cases ev) (simp_all add: holder_listen_def holder_status_def)

lemma attach_all: "a \<in> set hs \<Longrightarrow> foldl (\<lambda>m a. m(a \<mapsto> c)) m hs a = Some c"
  by (induction hs rule: rev_induct) auto

lemma attach_same: "m a = Some c \<Longrightarrow> foldl (\<lambda>m a. m(a \<mapsto> c)) m hs a = Some c"
  by (induction hs rule: rev_induct) auto

end
