(* ===== verification/DataPlaneCorrect.thy ===== *)
theory DataPlaneCorrect
  imports DataPlane AgentCalls
begin

text \<open>
  The agents of a data plane: where a submission goes and in which session it runs, what its run identifier
  is worth, and what the status of an agent says after a run.
\<close>

section \<open>Sessions\<close>

text \<open>Every holder has a dispatcher and an agent.\<close>

definition dp_ok :: "data_plane \<Rightarrow> bool" where
  "dp_ok s \<longleftrightarrow> dom (dp_router s) = dom (dp_agents s) \<and> set (dp_holders s) = dom (dp_agents s)"

lemma swap_simps [simp]:
  "dp_router (snd (router_swap_session a sid s)) = dp_router s"
  "dp_holders (snd (router_swap_session a sid s)) = dp_holders s"
  "dp_last_session (snd (router_swap_session a sid s)) = dp_last_session s"
  "dom (dp_agents (snd (router_swap_session a sid s))) = dom (dp_agents s)"
  by (auto simp: router_swap_session_def split: option.split)

lemma change_simps [simp]:
  "dp_router (change_session a ss s) = dp_router s" "dp_holders (change_session a ss s) = dp_holders s"
  "dom (dp_agents (change_session a ss s)) = dom (dp_agents s)"
  by (simp_all add: change_session_def Let_def split: option.split)

definition session_after :: "string option \<Rightarrow> string option \<Rightarrow> node_agent \<Rightarrow> string" where
  "session_after asked known g =
     (case asked of
        None \<Rightarrow> na_session g
      | Some sid \<Rightarrow> if known = Some sid \<or> na_running g then na_session g else sid)"

lemma change_agent:
  assumes "dp_agents s a = Some g"
  shows "dp_agents (change_session a asked s) a = Some (g\<lparr>na_session := session_after asked (dp_last_session s a) g\<rparr>)"
    "b \<noteq> a \<Longrightarrow> dp_agents (change_session a asked s) b = dp_agents s b"
    "dp_last_session (change_session a asked s) a = (case asked of None \<Rightarrow> dp_last_session s a | Some sid \<Rightarrow> Some sid)"
  using assms
  by (auto simp: change_session_def router_swap_session_def session_after_def Let_def split: option.split)

lemma submit_state:
  "snd (dp_submit fresh i target s) =
     (let a = target_of (dp_holders s) target; s1 = change_session a (session_of i) s
      in s1\<lparr>dp_router := snd (router_send a (agent_request_new a i) (dp_router s1))\<rparr>)"
  by (simp add: dp_submit_def Let_def split: prod.split sum.split)

lemma send_known:
  "r a = Some d \<Longrightarrow> router_send a q r = (Inr (ds_fresh d), r(a \<mapsto> snd (ds_submit q d)))"
  by (simp add: router_send_def ds_submit_def)

section \<open>Requests that wait\<close>

definition waiting_requests :: "data_plane \<Rightarrow> pending_request set" where
  "waiting_requests s = {p. \<exists>a d. dp_router s a = Some d \<and> p \<in> set (ds_spawned d @ ds_queue d)}"

lemma cancel_first_none: "(\<And>p. p \<in> set ps \<Longrightarrow> ai_run_id (aq_input (pr_request p)) \<noteq> Some rid) \<Longrightarrow> cancel_first rid ps = None"
  by (induction ps) auto

lemma cancel_none:
  "(\<And>a d p. r a = Some d \<Longrightarrow> p \<in> set (ds_queue d) \<Longrightarrow> ai_run_id (aq_input (pr_request p)) \<noteq> Some rid) \<Longrightarrow>
   router_cancel order rid r = (False, r)"
proof (induction order)
  case (Cons a order)
  show ?case
  proof (cases "r a")
    case (Some d)
    have "cancel_first rid (ds_queue d) = None" using Cons.prems [OF Some] by (rule cancel_first_none)
    with Some Cons show ?thesis by (simp add: ds_cancel_def)
  qed (use Cons in simp)
qed simp

section \<open>The status of a run\<close>

definition status_of_events :: "string \<Rightarrow> string \<Rightarrow> agent_event list \<Rightarrow> data_plane \<Rightarrow> data_plane" where
  "status_of_events a run_id evs s = foldl (\<lambda>s ev. holder_status a run_id ev s) s evs"

lemma status_append [simp]:
  "status_of_events a run_id (xs @ ys) s = status_of_events a run_id ys (status_of_events a run_id xs s)"
  "status_of_events a run_id [] s = s"
  "status_of_events a run_id (ev # evs) s = status_of_events a run_id evs (holder_status a run_id ev s)"
  by (simp_all add: status_of_events_def)

fun starts_run :: "agent_event \<Rightarrow> bool" where
  "starts_run (AgentStart i) = True"
| "starts_run _ = False"

lemma status_silent: "\<not> closing ev \<Longrightarrow> \<not> starts_run ev \<Longrightarrow> holder_status a run_id ev s = s"
  by (cases ev) (simp_all add: holder_status_def)

lemma status_quiet: "quiet evs \<Longrightarrow> list_all (\<lambda>e. \<not> starts_run e) evs \<Longrightarrow> status_of_events a run_id evs s = s"
  by (induction evs) (simp_all add: status_silent)

lemma status_closing: "closing ev \<Longrightarrow> dp_status (holder_status a run_id ev s) a = Some status_idle"
  by (cases ev) (simp_all add: holder_status_def)

lemma no_start: "last_open (calls_in evs) \<Longrightarrow> list_all (\<lambda>e. \<not> starts_run e) evs"
proof -
  assume opened: "last_open (calls_in evs)"
  have "closes b c \<Longrightarrow> \<not> starts_run b \<and> \<not> starts_run c" for b c by (cases "(b, c)" rule: closes.cases) auto
  moreover have "begins_call e \<Longrightarrow> \<not> starts_run e" for e by (cases e) auto
  ultimately have "last_open es \<Longrightarrow> list_all (\<lambda>e. \<not> starts_run e) es" for es
    by (induction es rule: last_open.induct) auto
  from this [OF opened] have "\<forall>e \<in> set (calls_in evs). \<not> starts_run e" by (simp add: list_all_iff)
  moreover have "starts_run e \<Longrightarrow> about_calls e" for e by (cases e) auto
  ultimately show ?thesis by (auto simp: list_all_iff)
qed

section \<open>Properties\<close>

text \<open>
  C26: a submission.  It is accepted, exactly one dispatcher gets the request, that of the target when it
  is known and of some other agent when it is not, and the agent runs it in the session that was
  asked for, unless it is running or this session was asked for before.
\<close>

theorem submit_spec:
  assumes "dp_ok s" "dp_holders s \<noteq> []" "dp_submit fresh i target s = (r, s')"
  shows "\<exists>a d g. a \<in> set (dp_holders s) \<and> (\<forall>t. target = Some t \<and> t \<in> set (dp_holders s) \<longrightarrow> a = t) \<and>
    dp_router s a = Some d \<and> dp_agents s a = Some g \<and>
    r = RSubmit (case ai_run_id i of Some x \<Rightarrow> x | None \<Rightarrow> fresh) True (na_provider g) (na_tools g) (na_mcps g) (na_skills g) \<and>
    dp_router s' = (dp_router s)(a \<mapsto> snd (ds_submit (agent_request_new a i) d)) \<and>
    dp_agents s' a = Some (g\<lparr>na_session := session_after (session_of i) (dp_last_session s a) g\<rparr>) \<and>
    (\<forall>b. b \<noteq> a \<longrightarrow> dp_agents s' b = dp_agents s b)"
proof -
  let ?a = "target_of (dp_holders s) target"
  have a: "?a \<in> set (dp_holders s)" using assms(2) by (rule target_of_known)
  have "?a \<in> dom (dp_agents s)" "?a \<in> dom (dp_router s)" using a assms(1) by (simp_all add: dp_ok_def)
  then obtain d g where dg: "dp_router s ?a = Some d" "dp_agents s ?a = Some g" by blast
  have "fst (dp_submit fresh i target s) = RSubmit (case ai_run_id i of Some x \<Rightarrow> x | None \<Rightarrow> fresh) True
      (na_provider g) (na_tools g) (na_mcps g) (na_skills g)"
    using dg change_agent(1) [OF dg(2)] by (simp add: dp_submit_def Let_def send_known)
  moreover have "snd (dp_submit fresh i target s) =
      (change_session ?a (session_of i) s)\<lparr>dp_router := (dp_router s)(?a \<mapsto> snd (ds_submit (agent_request_new ?a i) d))\<rparr>"
    using dg by (simp add: submit_state Let_def send_known)
  moreover have "target = Some t \<and> t \<in> set (dp_holders s) \<Longrightarrow> ?a = t" for t by (auto simp: target_of_def)
  ultimately show ?thesis
    using assms(3) a dg change_agent [OF dg(2)] by (intro exI [of _ ?a] exI [of _ d] exI [of _ g]) auto
qed

text \<open>
  A session that was asked for too early is never used.  When the agent runs while a submission asks for
  another session, the change fails, but is remembered as made: later submissions for that session
  run in the old one, although the agent is idle by then.
\<close>

theorem session_never_changed:
  assumes "dp_ok s" "a \<in> set (dp_holders s)" "dp_agents s a = Some g" "na_running g"
    and "session_of i = Some sid" "session_of j = Some sid"
    and "s1 = snd (dp_submit f i (Some a) s)"
    and "s2 = s1\<lparr>dp_agents := (dp_agents s1)(a \<mapsto> g\<lparr>na_running := False\<rparr>)\<rparr>"
  shows "dp_agents s1 a = Some g \<and> map_option na_session (dp_agents (snd (dp_submit f' j (Some a) s2)) a) = Some (na_session g)"
proof -
  have target: "target_of (dp_holders s) (Some a) = a" using assms(2) by (simp add: target_of_def)
  have "dp_agents s1 a = Some g" "dp_last_session s1 a = Some sid" "dp_holders s1 = dp_holders s"
    using assms(4,5,7) change_agent(1,3) [OF assms(3), of "Some sid"]
    by (simp_all add: submit_state Let_def target session_after_def)
  moreover from this have "dp_agents s2 a = Some (g\<lparr>na_running := False\<rparr>)" "dp_last_session s2 a = Some sid"
    "target_of (dp_holders s2) (Some a) = a"
    using assms(8) target by simp_all
  ultimately show ?thesis
    using change_agent(1) [of s2 a "g\<lparr>na_running := False\<rparr>" "Some sid"] assms(6)
    by (simp add: submit_state Let_def session_after_def)
qed

text \<open>
  A run without an identifier cannot be cancelled.  The identifier that the client gets back is not
  given to the request, so cancelling it never finds anything, in whatever order the dispatchers are asked.
\<close>

theorem fresh_run_id_lost:
  assumes "ai_run_id i = None" "dp_submit fresh i target s = (RSubmit rid True p ts ms ks, s')"
    and "\<forall>q \<in> waiting_requests s. ai_run_id (aq_input (pr_request q)) \<noteq> Some fresh"
  shows "rid = fresh \<and> (\<forall>q \<in> waiting_requests s'. ai_run_id (aq_input (pr_request q)) \<noteq> Some rid) \<and>
    (\<forall>order. handle_cancel order rid s' = (RCancel rid False, s'))"
proof -
  let ?a = "target_of (dp_holders s) target"
  have rid: "rid = fresh" using assms(1,2) by (auto simp: dp_submit_def Let_def agent_failed_def split: prod.splits sum.splits)
  have state: "dp_router s' = snd (router_send ?a (agent_request_new ?a i) (dp_router s))"
    using arg_cong [OF assms(2), of snd] by (auto simp: submit_state Let_def)
  have waits: "ai_run_id (aq_input (pr_request q)) \<noteq> Some fresh"
    if "dp_router s' b = Some d" "q \<in> set (ds_spawned d @ ds_queue d)" for q b d
  proof (cases "\<exists>d0. dp_router s b = Some d0 \<and> q \<in> set (ds_spawned d0 @ ds_queue d0)")
    case True
    with assms(3) show ?thesis by (auto simp: waiting_requests_def)
  next
    case False
    with that state have "pr_request q = agent_request_new ?a i"
      by (auto simp: router_send_def ds_submit_def split: option.splits if_splits)
    with assms(1) show ?thesis by (simp add: agent_request_new_def)
  qed
  moreover have "router_cancel order rid (dp_router s') = (False, dp_router s')" for order
    by (rule cancel_none) (use waits rid in auto)
  then have "handle_cancel order rid s' = (RCancel rid False, s')" for order by (simp add: handle_cancel_def)
  ultimately show ?thesis using rid by (auto simp: waiting_requests_def)
qed


text \<open>
  Events go to the connection that was served last, and to no other: an earlier client gets none of them any more,
  also after the later one has closed.
\<close>

theorem events_go_to_last:
  assumes "a \<in> set (dp_holders s)"
  shows "map_option fst (fst (holder_listen ser fresh a run_id ev (serve_attach c (serve_attach b s)))) = Some c"
  using attach_all [OF assms, of c] by (simp add: holder_listen_def serve_attach_def)

section \<open>Witnesses\<close>

definition demo_node_agent :: node_agent where
  "demo_node_agent = \<lparr> na_running = True, na_session = ''old'', na_provider = \<lparr> pi_name = ''p'', pi_model = ''m'' \<rparr>,
     na_tools = [], na_mcps = [], na_skills = [], na_contributors = None, na_snapshot = (\<lambda>n. None) \<rparr>"

definition demo_plane :: data_plane where
  "demo_plane = \<lparr> dp_router = [''a'' \<mapsto> dispatcher_new], dp_agents = [''a'' \<mapsto> demo_node_agent], dp_holders = [''a''],
     dp_connection = Map.empty, dp_defs = Map.empty, dp_status = Map.empty, dp_last_session = Map.empty \<rparr>"

definition demo_input :: agent_input where
  "demo_input = input_new\<lparr>ai_metadata := [''session_id'' \<mapsto> JStr ''new'']\<rparr>"

lemma demo_plane_ok: "dp_ok demo_plane" "dp_holders demo_plane \<noteq> []" "''a'' \<in> set (dp_holders demo_plane)"
  "dp_agents demo_plane ''a'' = Some demo_node_agent" "session_of demo_input = Some ''new''" "ai_run_id demo_input = None"
  by (simp_all add: dp_ok_def demo_plane_def session_of_def demo_input_def input_new_def)

theorem submit_spec_witness:
  "\<exists>a d. a \<in> set (dp_holders demo_plane) \<and> dp_router demo_plane a = Some d \<and>
    dp_router (snd (dp_submit ''f'' demo_input None demo_plane)) =
      (dp_router demo_plane)(a \<mapsto> snd (ds_submit (agent_request_new a demo_input) d))"
proof -
  have "dp_submit ''f'' demo_input None demo_plane =
      (fst (dp_submit ''f'' demo_input None demo_plane), snd (dp_submit ''f'' demo_input None demo_plane))" by simp
  from submit_spec [OF demo_plane_ok(1,2) this] show ?thesis by blast
qed

theorem session_never_changed_witness:
  "\<exists>s2. map_option na_session (dp_agents (snd (dp_submit ''g'' demo_input (Some ''a'') s2)) ''a'') = Some ''old''"
proof -
  have "na_running demo_node_agent" "na_session demo_node_agent = ''old''" by (simp_all add: demo_node_agent_def)
  with session_never_changed [OF demo_plane_ok(1,3,4) _ demo_plane_ok(5,5) refl refl] show ?thesis by metis
qed

theorem fresh_run_id_lost_witness:
  "\<exists>s'. dp_submit ''f'' demo_input None demo_plane = (RSubmit ''f'' True \<lparr> pi_name = ''p'', pi_model = ''m'' \<rparr> [] [] [], s') \<and>
    handle_cancel [''a''] ''f'' s' = (RCancel ''f'' False, s')"
proof -
  have "\<exists>s'. dp_submit ''f'' demo_input None demo_plane = (RSubmit ''f'' True \<lparr> pi_name = ''p'', pi_model = ''m'' \<rparr> [] [] [], s')"
    by (simp add: dp_submit_def demo_plane_def demo_input_def input_new_def target_of_def session_of_def change_session_def
        router_swap_session_def demo_node_agent_def router_send_def ds_submit_def dispatcher_new_def Let_def)
  then obtain s' where s': "dp_submit ''f'' demo_input None demo_plane =
      (RSubmit ''f'' True \<lparr> pi_name = ''p'', pi_model = ''m'' \<rparr> [] [] [], s')" by blast
  have "\<forall>q \<in> waiting_requests demo_plane. ai_run_id (aq_input (pr_request q)) \<noteq> Some ''f''"
    by (auto simp: waiting_requests_def demo_plane_def dispatcher_new_def split: if_splits)
  from fresh_run_id_lost [OF demo_plane_ok(6) s' this] s' show ?thesis by blast
qed


theorem events_go_to_last_witness:
  "map_option fst (fst (holder_listen (\<lambda>e. JNull) [] ''a'' ''r'' ThinkingStart (serve_attach 2 (serve_attach 1 demo_plane)))) = Some 2"
  by (rule events_go_to_last) (rule demo_plane_ok)

end
