(* ===== verification/ModelRequest.thy ===== *)
theory ModelRequest
  imports ProviderStream
begin

text \<open>
  The requests of the providers and their replies that are not streamed, \<open>crates/vol-llm-provider/src/\<close>
  (\<open>openai.rs\<close>, \<open>anthropic.rs\<close>), with the settings of a model (\<open>crates/vol-llm-core/src/model.rs\<close>), the
  configuration of a provider (\<open>config.rs\<close>, \<open>secret.rs\<close>, \<open>loader.rs\<close>) and the registry (\<open>registry.rs\<close>,
  \<open>factory.rs\<close>).  HTTP, the environment, JSON texts and TOML are parameters.  A number that is not an integer is
  kept as the JSON value it prints as.
\<close>

section \<open>Settings\<close>

record model_config =
  mc_max_tokens :: "u32 option"
  mc_temperature :: "json option"
  mc_top_p :: "json option"
  mc_top_k :: "u32 option"
  mc_frequency_penalty :: "json option"
  mc_presence_penalty :: "json option"
  mc_stop :: "string list option"
  mc_seed :: "u64 option"
  mc_logprobs :: "u32 option"

definition model_config_default :: model_config where
  "model_config_default = \<lparr> mc_max_tokens = None, mc_temperature = None, mc_top_p = None, mc_top_k = None,
     mc_frequency_penalty = None, mc_presence_penalty = None, mc_stop = None, mc_seed = None, mc_logprobs = None \<rparr>"

datatype llm_provider = Anthropic | OpenAI

datatype secret = SecretLiteral string | SecretEnv string "string option"

text \<open>A plain text: \<open>${VAR}\<close> and \<open>${VAR:default}\<close> refer to the environment.\<close>

definition secret_from_env_pattern :: "string \<Rightarrow> secret" where
  "secret_from_env_pattern s =
     (if take 2 s = ''${'' \<and> last s = CHR 0x7D
      then let inner = butlast (drop 2 s); name = takeWhile (\<lambda>c. c \<noteq> CHR '':'') inner
           in if CHR '':'' \<in> set inner then SecretEnv name (Some (drop (Suc (length name)) inner))
              else SecretEnv inner None
      else SecretLiteral s)"

definition secret_resolve :: "(string \<rightharpoonup> string) \<Rightarrow> secret \<Rightarrow> llm_error + string" where
  "secret_resolve env s =
     (case s of
        SecretLiteral v \<Rightarrow> Inr v
      | SecretEnv x dflt \<Rightarrow>
          (case env x of
             Some v \<Rightarrow> Inr v
           | None \<Rightarrow> (case dflt of
                        Some v \<Rightarrow> Inr v
                      | None \<Rightarrow> Inl (LlmAuth (''Environment variable '' @ [CHR 0x27] @ x @ [CHR 0x27] @ '' not set'')))))"

record llm_config =
  lc_provider :: llm_provider
  lc_model :: string
  lc_api_key :: secret
  lc_base_url :: string
  lc_body :: "(string \<rightharpoonup> json) option"
  lc_headers :: "(string \<times> string) list option"

record provider_client =
  pv_kind :: llm_provider
  pv_api_key :: string
  pv_model :: string
  pv_base_url :: string
  pv_body_defaults :: "string \<rightharpoonup> json"
  pv_headers :: "(string \<times> string) list"

text \<open>Building the HTTP client may fail; its result is an argument.\<close>

definition create_provider :: "llm_error option \<Rightarrow> (string \<rightharpoonup> string) \<Rightarrow> llm_config \<Rightarrow> llm_error + provider_client" where
  "create_provider http env c =
     (case http of
        Some e \<Rightarrow> Inl e
      | None \<Rightarrow>
          (case secret_resolve env (lc_api_key c) of
             Inl e \<Rightarrow> Inl e
           | Inr key \<Rightarrow> Inr \<lparr> pv_kind = lc_provider c, pv_api_key = key, pv_model = lc_model c,
               pv_base_url = lc_base_url c,
               pv_body_defaults = (case lc_body c of Some b \<Rightarrow> b | None \<Rightarrow> Map.empty),
               pv_headers = (case lc_headers c of Some hs \<Rightarrow> hs | None \<Rightarrow> []) \<rparr>))"

section \<open>Finding and keeping providers\<close>

text \<open>A directory as the names of its files and what reading them gives; \<open>None\<close> when there is none.\<close>

fun load_provider_dir :: "(string \<Rightarrow> llm_config option) \<Rightarrow> (string \<times> string option) list option \<Rightarrow> (string \<rightharpoonup> llm_config)" where
  "load_provider_dir toml None = Map.empty"
| "load_provider_dir toml (Some []) = Map.empty"
| "load_provider_dir toml (Some ((n, text) # es)) =
     (let rest = load_provider_dir toml (Some es) in
      case strip_suffix ''.toml'' n of
        None \<Rightarrow> rest
      | Some i \<Rightarrow>
          if i = [] then rest
          else (case Option.bind text toml of
                  None \<Rightarrow> rest
                | Some c \<Rightarrow> [i \<mapsto> c] ++ rest))"

definition provider_loader_load ::
  "(string \<Rightarrow> llm_config option) \<Rightarrow> (string \<times> string option) list option \<Rightarrow> (string \<times> string option) list option \<Rightarrow>
   (string \<rightharpoonup> llm_config)" where
  "provider_loader_load toml project user = load_provider_dir toml user ++ load_provider_dir toml project"

type_synonym provider_registry = "string \<rightharpoonup> provider_client"

fun registry_add_all ::
  "(llm_config \<Rightarrow> llm_error + provider_client) \<Rightarrow> (string \<times> llm_config) list \<Rightarrow> provider_registry \<Rightarrow>
   llm_error + provider_registry" where
  "registry_add_all mk [] r = Inr r"
| "registry_add_all mk ((i, c) # cs) r =
     (case mk c of Inl e \<Rightarrow> Inl e | Inr p \<Rightarrow> registry_add_all mk cs (r(i \<mapsto> p)))"

definition registry_from_configs where
  "registry_from_configs http env cs = registry_add_all (create_provider http env) cs Map.empty"

text \<open>From a loader: its configurations in the order in which its table gives the identifiers.\<close>

definition registry_from_loader where
  "registry_from_loader http env order cs =
     registry_add_all (create_provider http env) (List.map_filter (\<lambda>i. map_option (Pair i) (cs i)) order) Map.empty"

section \<open>Messages for OpenAI\<close>

fun openai_part :: "content_part \<Rightarrow> json" where
  "openai_part (TextPart s) = JObj [(''type'', JStr ''text''), (''text'', JStr s)]"
| "openai_part (ImagePart i) = JObj [(''type'', JStr ''image_url''), (''image_url'', JObj [(''url'', JStr (iu_url i))])]"

definition content_text :: "message_content option \<Rightarrow> string" where
  "content_text c = (case c of Some c \<Rightarrow> content_str c | None \<Rightarrow> [])"

fun openai_content :: "message_content option \<Rightarrow> json" where
  "openai_content (Some (MultiPart ps)) = JArr (map openai_part ps)"
| "openai_content c = JStr (content_text c)"

definition openai_call :: "tool_call \<Rightarrow> json" where
  "openai_call t = JObj [(''id'', JStr (tc_id t)), (''type'', JStr ''function''),
     (''function'', JObj [(''name'', JStr (tc_name t)), (''arguments'', JStr (tc_arguments t))])]"

definition openai_message :: "chat_message \<Rightarrow> json" where
  "openai_message m =
     (case cm_role m of
        RSystem \<Rightarrow> JObj [(''role'', JStr ''system''), (''content'', JStr (content_text (cm_content m)))]
      | RUser \<Rightarrow> JObj [(''role'', JStr ''user''), (''content'', openai_content (cm_content m))]
      | RAssistant \<Rightarrow> JObj ([(''role'', JStr ''assistant''),
          (''content'', case cm_content m of Some c \<Rightarrow> JStr (content_str c) | None \<Rightarrow> JNull)] @
          (case cm_tool_calls m of Some ts \<Rightarrow> [(''tool_calls'', JArr (map openai_call ts))] | None \<Rightarrow> []))
      | RTool \<Rightarrow> JObj [(''role'', JStr ''tool''),
          (''tool_call_id'', JStr (case cm_tool_call_id m of Some i \<Rightarrow> i | None \<Rightarrow> [])),
          (''content'', JStr (content_text (cm_content m)))])"

definition empty_schema :: json where
  "empty_schema = JObj [(''type'', JStr ''object''), (''properties'', JObj [])]"

definition openai_tool :: "tool_definition \<Rightarrow> json" where
  "openai_tool t = JObj [(''type'', JStr ''function''), (''function'', JObj [(''name'', JStr (td_name t)),
     (''description'', opt_str (td_description t)),
     (''parameters'', case td_parameters t of Some p \<Rightarrow> p | None \<Rightarrow> empty_schema)])]"

definition apply_system_prompt :: "string option \<Rightarrow> chat_message list \<Rightarrow> chat_message list" where
  "apply_system_prompt system ms =
     (case system of
        Some s \<Rightarrow> if (case ms of m # _ \<Rightarrow> cm_role m = RSystem | [] \<Rightarrow> False) then ms else system_msg (TextContent s) # ms
      | None \<Rightarrow> ms)"

section \<open>Bodies\<close>

type_synonym body = "string \<rightharpoonup> json"

definition set_opt :: "string \<times> json option \<Rightarrow> body \<Rightarrow> body" where
  "set_opt = (\<lambda>(k, v) b. case v of Some j \<Rightarrow> b(k \<mapsto> j) | None \<Rightarrow> b)"

definition num_u32 :: "u32 \<Rightarrow> json" where
  "num_u32 n = JNum (uint n)"

definition max_tokens_of :: "provider_client \<Rightarrow> model_config \<Rightarrow> u32 \<Rightarrow> json" where
  "max_tokens_of P mc dflt = num_u32
     (case mc_max_tokens mc of
        Some n \<Rightarrow> n
      | None \<Rightarrow> (case json_u64 (pv_body_defaults P ''max_tokens'') of Some n \<Rightarrow> ucast n | None \<Rightarrow> dflt))"

definition with_defaults :: "(string \<Rightarrow> bool) \<Rightarrow> (string \<rightharpoonup> json) \<Rightarrow> body \<Rightarrow> body" where
  "with_defaults overridden defaults b = b ++ (\<lambda>k. if overridden k then None else defaults k)"

definition openai_settings :: "model_config \<Rightarrow> (string \<times> json option) list" where
  "openai_settings mc = [(''temperature'', mc_temperature mc), (''top_p'', mc_top_p mc),
     (''top_k'', map_option num_u32 (mc_top_k mc)), (''frequency_penalty'', mc_frequency_penalty mc),
     (''presence_penalty'', mc_presence_penalty mc), (''stop'', map_option (\<lambda>xs. JArr (map JStr xs)) (mc_stop mc)),
     (''seed'', map_option (\<lambda>n. JNum (uint n)) (mc_seed mc)), (''logprobs'', map_option num_u32 (mc_logprobs mc))]"

definition set_in :: "(string \<times> json option) list \<Rightarrow> string \<Rightarrow> bool" where
  "set_in settings k = (case map_of settings k of Some (Some v) \<Rightarrow> True | _ \<Rightarrow> False)"

definition openai_reserved :: "string list" where
  "openai_reserved = [''model'', ''messages'', ''tools'', ''tool_choice'', ''stream'', ''stream_options'', ''max_tokens'']"

definition openai_request_body :: "provider_client \<Rightarrow> model_config \<Rightarrow> bool \<Rightarrow> conversation_request \<Rightarrow> body" where
  "openai_request_body P mc stream q =
     (let ms = map openai_message (apply_system_prompt (cq_system q) (cq_messages q));
          b = [''model'' \<mapsto> JStr (pv_model P), ''messages'' \<mapsto> JArr ms];
          b = (if stream then b(''stream'' \<mapsto> JBool True, ''stream_options'' \<mapsto> JObj [(''include_usage'', JBool True)]) else b);
          b = b(''max_tokens'' \<mapsto> max_tokens_of P mc 4096);
          b = fold set_opt (openai_settings mc) b;
          b = set_opt (''tools'', map_option (\<lambda>ts. JArr (map openai_tool ts)) (cq_tools q)) b
      in with_defaults (\<lambda>k. set_in (openai_settings mc) k \<or> k \<in> set openai_reserved) (pv_body_defaults P) b)"

section \<open>Messages for Anthropic\<close>

definition bad_data_url :: llm_error where
  "bad_data_url = LlmInvalidRequest ''Invalid image data URL''"

definition parse_image_data_url :: "string \<Rightarrow> llm_error + string \<times> string" where
  "parse_image_data_url url =
     (case strip_prefix ''data:'' url of
        None \<Rightarrow> Inl bad_data_url
      | Some rest \<Rightarrow>
          if CHR '','' \<notin> set rest then Inl bad_data_url
          else let metadata = takeWhile (\<lambda>c. c \<noteq> CHR '','') rest; d = drop (Suc (length metadata)) rest
               in case strip_suffix '';base64'' metadata of
                    None \<Rightarrow> Inl bad_data_url
                  | Some t \<Rightarrow> if t = [] \<or> d = [] then Inl bad_data_url else Inr (t, d))"

definition anthropic_image :: "image_url \<Rightarrow> llm_error + json" where
  "anthropic_image i =
     (if take 5 (iu_url i) = ''data:''
      then case parse_image_data_url (iu_url i) of
             Inl e \<Rightarrow> Inl e
           | Inr (t, d) \<Rightarrow> Inr (JObj [(''type'', JStr ''image''), (''source'', JObj [(''type'', JStr ''base64''),
               (''media_type'', JStr t), (''data'', JStr d)])])
      else Inr (JObj [(''type'', JStr ''image''), (''source'', JObj [(''type'', JStr ''url''), (''url'', JStr (iu_url i))])]))"

fun anthropic_part :: "content_part \<Rightarrow> llm_error + json" where
  "anthropic_part (TextPart s) = Inr (JObj [(''type'', JStr ''text''), (''text'', JStr s)])"
| "anthropic_part (ImagePart i) = anthropic_image i"

fun collect_results :: "('e + 'a) list \<Rightarrow> 'e + 'a list" where
  "collect_results [] = Inr []"
| "collect_results (Inl e # xs) = Inl e"
| "collect_results (Inr x # xs) = (case collect_results xs of Inl e \<Rightarrow> Inl e | Inr ys \<Rightarrow> Inr (x # ys))"

fun anthropic_user_content :: "message_content option \<Rightarrow> llm_error + json" where
  "anthropic_user_content (Some (TextContent s)) = Inr (JStr s)"
| "anthropic_user_content (Some (MultiPart ps)) = map_sum id JArr (collect_results (map anthropic_part ps))"
| "anthropic_user_content None = Inr (JStr [])"

definition anthropic_call :: "(string \<Rightarrow> json option) \<Rightarrow> tool_call \<Rightarrow> json" where
  "anthropic_call parse t = JObj [(''type'', JStr ''tool_use''), (''id'', JStr (tc_id t)), (''name'', JStr (tc_name t)),
     (''input'', case parse (tc_arguments t) of Some j \<Rightarrow> j | None \<Rightarrow> JObj [])]"

definition anthropic_message :: "(string \<Rightarrow> json option) \<Rightarrow> chat_message \<Rightarrow> llm_error + json list" where
  "anthropic_message parse m =
     (case cm_role m of
        RSystem \<Rightarrow> Inr []
      | RUser \<Rightarrow> map_sum id (\<lambda>c. [JObj [(''role'', JStr ''user''), (''content'', c)]]) (anthropic_user_content (cm_content m))
      | RAssistant \<Rightarrow> Inr [JObj [(''role'', JStr ''assistant''), (''content'', JArr (
          (case cm_thinking m of Some t \<Rightarrow> [JObj [(''type'', JStr ''thinking''), (''thinking'', JStr t)]] | None \<Rightarrow> []) @
          (case cm_content m of Some c \<Rightarrow> [JObj [(''type'', JStr ''text''), (''text'', JStr (content_str c))]] | None \<Rightarrow> []) @
          (case cm_tool_calls m of Some ts \<Rightarrow> map (anthropic_call parse) ts | None \<Rightarrow> [])))]]
      | RTool \<Rightarrow> Inr [JObj [(''role'', JStr ''user''), (''content'', JArr [JObj [(''type'', JStr ''tool_result''),
          (''tool_use_id'', JStr (case cm_tool_call_id m of Some i \<Rightarrow> i | None \<Rightarrow> [])),
          (''content'', JStr (content_text (cm_content m)))]])]])"

definition anthropic_messages :: "(string \<Rightarrow> json option) \<Rightarrow> chat_message list \<Rightarrow> llm_error + json list" where
  "anthropic_messages parse ms = map_sum id concat (collect_results (map (anthropic_message parse) ms))"

definition anthropic_tool :: "tool_definition \<Rightarrow> json" where
  "anthropic_tool t = JObj [(''name'', JStr (td_name t)), (''description'', opt_str (td_description t)),
     (''input_schema'', case td_parameters t of Some p \<Rightarrow> p | None \<Rightarrow> empty_schema)]"

definition anthropic_settings :: "model_config \<Rightarrow> (string \<times> json option) list" where
  "anthropic_settings mc = [(''temperature'', mc_temperature mc), (''top_p'', mc_top_p mc)]"

definition anthropic_reserved :: "string list" where
  "anthropic_reserved = [''system'', ''tools'', ''messages'', ''model'', ''stream'', ''max_tokens'']"

definition anthropic_request_body ::
  "(string \<Rightarrow> json option) \<Rightarrow> provider_client \<Rightarrow> model_config \<Rightarrow> bool \<Rightarrow> conversation_request \<Rightarrow> llm_error + body" where
  "anthropic_request_body parse P mc stream q =
     (case anthropic_messages parse (cq_messages q) of
        Inl e \<Rightarrow> Inl e
      | Inr ms \<Rightarrow> Inr
         (let b = [''model'' \<mapsto> JStr (pv_model P), ''max_tokens'' \<mapsto> max_tokens_of P mc 8192, ''messages'' \<mapsto> JArr ms];
              b = (if stream then b(''stream'' \<mapsto> JBool True) else b);
              b = set_opt (''system'', map_option JStr (cq_system q)) b;
              b = fold set_opt (anthropic_settings mc) b;
              b = set_opt (''tools'', map_option (\<lambda>ts. JArr (map anthropic_tool ts)) (cq_tools q)) b
          in with_defaults (\<lambda>k. set_in (anthropic_settings mc) k \<or> (k = ''top_k'' \<and> mc_top_k mc \<noteq> None) \<or>
               k \<in> set anthropic_reserved) (pv_body_defaults P) b))"

section \<open>Requests and failures\<close>

record http_request =
  hq_url :: string
  hq_headers :: "(string \<times> string) list"
  hq_body :: body

text \<open>
  No reply, or a status, the text of the body, which may be unreadable, and its chunks.
\<close>

datatype http_reply =
    NoReply string
  | Reply nat "string + string" "(string + string) list"

definition openai_http :: "provider_client \<Rightarrow> body \<Rightarrow> http_request" where
  "openai_http P b = \<lparr> hq_url = pv_base_url P @ ''/v1/chat/completions'',
     hq_headers = [(''Authorization'', ''Bearer '' @ pv_api_key P), (''Content-Type'', ''application/json''),
       (''User-Agent'', ''claude-code/1.0.0'')] @ pv_headers P, hq_body = b \<rparr>"

definition anthropic_http :: "provider_client \<Rightarrow> body \<Rightarrow> http_request" where
  "anthropic_http P b = \<lparr> hq_url = pv_base_url P @ ''/v1/messages'',
     hq_headers = [(''anthropic-version'', ''2023-06-01''), (''Content-Type'', ''application/json''),
       (''User-Agent'', ''claude-code/1.0.0'')] @
       (if pv_api_key P = [] then [] else [(''x-api-key'', pv_api_key P)]) @ pv_headers P, hq_body = b \<rparr>"

definition api_failure :: "(string \<Rightarrow> json option) \<Rightarrow> nat \<Rightarrow> string + string \<Rightarrow> llm_error" where
  "api_failure parse status text =
     (let t = (case text of Inr t \<Rightarrow> t | Inl e \<Rightarrow> []) in
      LlmApi status (case parse t of
          None \<Rightarrow> t
        | Some j \<Rightarrow> (case json_str (json_path [''error'', ''message''] j) of Some m \<Rightarrow> m | None \<Rightarrow> t)))"

definition ok_status :: "nat \<Rightarrow> bool" where
  "ok_status n \<longleftrightarrow> 200 \<le> n \<and> n < 300"

text \<open>A call that streams: the items that the receiver will get.\<close>

type_synonym ('w, 'a) llm_eff = "('w, llm_error, 'a) eff"

definition streamed ::
  "(string \<Rightarrow> json option) \<Rightarrow> ((string + string) list \<Rightarrow> stream_item list) \<Rightarrow> http_reply \<Rightarrow> llm_error + stream_item list" where
  "streamed parse read r =
     (case r of
        NoReply e \<Rightarrow> Inl (LlmNetwork e)
      | Reply status text chunks \<Rightarrow> if ok_status status then Inr (read chunks) else Inl (api_failure parse status text))"

definition converse_stream ::
  "(string \<Rightarrow> json option) \<Rightarrow> (string \<Rightarrow> string) \<Rightarrow> (http_request \<Rightarrow> 'w \<Rightarrow> http_reply \<times> 'w) \<Rightarrow> provider_client \<Rightarrow>
   model_config \<Rightarrow> conversation_request \<Rightarrow> ('w, stream_item list) llm_eff" where
  "converse_stream parse utf8_error post P mc q w =
     (case pv_kind P of
        OpenAI \<Rightarrow> (case post (openai_http P (openai_request_body P mc True q)) w of
                     (r, w) \<Rightarrow> (streamed parse (openai_stream parse utf8_error) r, w))
      | Anthropic \<Rightarrow>
          (case anthropic_request_body parse P mc True q of
             Inl e \<Rightarrow> (Inl e, w)
           | Inr b \<Rightarrow> (case post (anthropic_http P b) w of
                         (r, w) \<Rightarrow> (streamed parse (anthropic_stream parse utf8_error) r, w))))"

section \<open>Replies that are not streamed\<close>

record conversation_response =
  cs_message :: chat_message
  cs_model :: string
  cs_usage :: token_usage
  cs_finish_reason :: finish_reason
  cs_raw :: "json option"

definition json_first :: "json option \<Rightarrow> json option" where
  "json_first j = (case j of Some (JArr (x # xs)) \<Rightarrow> Some x | _ \<Rightarrow> None)"

definition json_in :: "string \<Rightarrow> json option \<Rightarrow> json option" where
  "json_in k j = Option.bind j (json_get k)"

definition str_or :: "string \<Rightarrow> json option \<Rightarrow> string" where
  "str_or d j = (case json_str j of Some s \<Rightarrow> s | None \<Rightarrow> d)"

definition parse_tool_arguments :: "(json \<Rightarrow> string) \<Rightarrow> json \<Rightarrow> string" where
  "parse_tool_arguments show_json j = (case j of JStr s \<Rightarrow> s | _ \<Rightarrow> show_json j)"

definition openai_reply_call :: "(json \<Rightarrow> string) \<Rightarrow> json \<Rightarrow> tool_call" where
  "openai_reply_call show_json j = function_call (str_or [] (json_get ''id'' j))
     (str_or [] (json_path [''function'', ''name''] j))
     (case json_path [''function'', ''arguments''] j of Some a \<Rightarrow> parse_tool_arguments show_json a | None \<Rightarrow> [])"

definition reply_message :: "string \<Rightarrow> tool_call list \<Rightarrow> chat_message" where
  "reply_message c ts = (if ts = [] then assistant_msg (TextContent c) else assistant_with_tools (TextContent c) ts)"

definition openai_reply_finish :: "string option \<Rightarrow> finish_reason" where
  "openai_reply_finish r =
     (if r = Some ''stop'' then FinishStop
      else if r = Some ''length'' then FinishLength
      else if r = Some ''tool_calls'' then FinishToolCalls
      else if r = Some ''content_filter'' then FinishContentFilter
      else FinishOther)"

definition openai_response :: "(json \<Rightarrow> string) \<Rightarrow> provider_client \<Rightarrow> json \<Rightarrow> conversation_response" where
  "openai_response show_json P j =
     (let choice = json_first (json_get ''choices'' j);
          msg = json_in ''message'' choice;
          calls = (case json_arr (json_in ''tool_calls'' msg) of Some xs \<Rightarrow> map (openai_reply_call show_json) xs | None \<Rightarrow> []);
          p = ucast (u64_or_zero (json_path [''usage'', ''prompt_tokens''] j));
          c = ucast (u64_or_zero (json_path [''usage'', ''completion_tokens''] j))
      in \<lparr> cs_message = reply_message (str_or [] (json_in ''content'' msg)) calls,
           cs_model = str_or (pv_model P) (json_get ''model'' j),
           cs_usage = \<lparr> tu_prompt_tokens = p, tu_completion_tokens = c, tu_total_tokens = p + c, tu_cached_tokens = None \<rparr>,
           cs_finish_reason = openai_reply_finish (json_str (json_in ''finish_reason'' choice)),
           cs_raw = Some j \<rparr>)"

definition block_is :: "string \<Rightarrow> json \<Rightarrow> bool" where
  "block_is t j \<longleftrightarrow> json_str (json_get ''type'' j) = Some t"

definition anthropic_reply_call :: "(json \<Rightarrow> string) \<Rightarrow> json \<Rightarrow> tool_call" where
  "anthropic_reply_call show_json j = function_call (str_or [] (json_get ''id'' j)) (str_or [] (json_get ''name'' j))
     (case json_get ''input'' j of Some a \<Rightarrow> show_json a | None \<Rightarrow> [])"

definition anthropic_response :: "(json \<Rightarrow> string) \<Rightarrow> provider_client \<Rightarrow> json \<Rightarrow> conversation_response" where
  "anthropic_response show_json P j =
     (let blocks = (case json_arr (json_get ''content'' j) of Some xs \<Rightarrow> xs | None \<Rightarrow> []);
          texts = List.map_filter (\<lambda>b. if block_is ''text'' b then json_str (json_get ''text'' b) else None) blocks;
          calls = map (anthropic_reply_call show_json) (filter (block_is ''tool_use'') blocks)
      in \<lparr> cs_message = reply_message (join (newline @ newline) texts) calls,
           cs_model = str_or (pv_model P) (json_get ''model'' j),
           cs_usage = usage_of ''input_tokens'' ''output_tokens'' (case json_get ''usage'' j of Some u \<Rightarrow> u | None \<Rightarrow> JNull),
           cs_finish_reason = anthropic_finish (json_str (json_get ''stop_reason'' j)),
           cs_raw = Some j \<rparr>)"

definition answered ::
  "(string \<Rightarrow> json option) \<Rightarrow> (string \<Rightarrow> string) \<Rightarrow> (json \<Rightarrow> conversation_response) \<Rightarrow> http_reply \<Rightarrow>
   llm_error + conversation_response" where
  "answered parse json_error response r =
     (case r of
        NoReply e \<Rightarrow> Inl (LlmNetwork e)
      | Reply status text chunks \<Rightarrow>
          if \<not> ok_status status then Inl (api_failure parse status text)
          else (case text of
                  Inl e \<Rightarrow> Inl (LlmNetwork e)
                | Inr t \<Rightarrow> (case parse t of Some j \<Rightarrow> Inr (response j) | None \<Rightarrow> Inl (LlmNetwork (json_error t)))))"

definition converse ::
  "(string \<Rightarrow> json option) \<Rightarrow> (string \<Rightarrow> string) \<Rightarrow> (json \<Rightarrow> string) \<Rightarrow> (http_request \<Rightarrow> 'w \<Rightarrow> http_reply \<times> 'w) \<Rightarrow>
   provider_client \<Rightarrow> model_config \<Rightarrow> conversation_request \<Rightarrow> ('w, conversation_response) llm_eff" where
  "converse parse json_error show_json post P mc q w =
     (case pv_kind P of
        OpenAI \<Rightarrow> (case post (openai_http P (openai_request_body P mc False q)) w of
                     (r, w) \<Rightarrow> (answered parse json_error (openai_response show_json P) r, w))
      | Anthropic \<Rightarrow>
          (case anthropic_request_body parse P mc False q of
             Inl e \<Rightarrow> (Inl e, w)
           | Inr b \<Rightarrow> (case post (anthropic_http P b) w of
                         (r, w) \<Rightarrow> (answered parse json_error (anthropic_response show_json P) r, w))))"

end
