(* ===== verification/ModelRequestCorrect.thy ===== *)
theory ModelRequestCorrect
  imports ModelRequest AgentLoop
begin

text \<open>
  The requests of the providers: what arrives of a conversation, which settings are sent, and that a reply of
  the model is sent back as it was received.
\<close>

section \<open>Bodies\<close>

lemma fold_set_opt:
  "distinct (map fst xs) \<Longrightarrow> fold set_opt xs b k = (case map_of xs k of Some (Some v) \<Rightarrow> Some v | _ \<Rightarrow> b k)"
proof (induction xs arbitrary: b)
  case (Cons x xs)
  obtain k' v where x: "x = (k', v)" by (cases x)
  show ?case
  proof (cases "k' = k")
    case True
    with Cons.prems x have "map_of xs k = None" by (auto simp: map_of_eq_None_iff)
    with Cons x True show ?thesis by (simp add: set_opt_def split: option.split)
  next
    case False
    with Cons x show ?thesis by (simp add: set_opt_def split: option.split)
  qed
qed simp

lemma set_opt_apply: "set_opt (k, v) b k' = (if k' = k \<and> v \<noteq> None then v else b k')"
  by (simp add: set_opt_def split: option.split)

lemma openai_keys: "distinct (map fst (openai_settings mc))"
  "map_of (openai_settings mc) k \<noteq> None \<Longrightarrow> k \<notin> set openai_reserved"
  by (auto simp: openai_settings_def openai_reserved_def split: if_splits)

lemma anthropic_keys: "distinct (map fst (anthropic_settings mc))"
  "map_of (anthropic_settings mc) k \<noteq> None \<Longrightarrow> k \<notin> set anthropic_reserved \<and> k \<noteq> ''top_k''"
  by (auto simp: anthropic_settings_def anthropic_reserved_def split: if_splits)

lemma with_defaults_apply:
  "with_defaults ov d b k = (if ov k then b k else case d k of Some v \<Rightarrow> Some v | None \<Rightarrow> b k)"
  by (simp add: with_defaults_def map_add_def split: option.split)

lemma openai_body_at:
  "openai_request_body P mc stream q k =
    (if k = ''model'' then Some (JStr (pv_model P))
     else if k = ''messages'' then Some (JArr (map openai_message (apply_system_prompt (cq_system q) (cq_messages q))))
     else if k = ''max_tokens'' then Some (max_tokens_of P mc 4096)
     else if k = ''tools'' then map_option (\<lambda>ts. JArr (map openai_tool ts)) (cq_tools q)
     else if k = ''stream'' then (if stream then Some (JBool True) else None)
     else if k = ''stream_options'' then (if stream then Some (JObj [(''include_usage'', JBool True)]) else None)
     else if k = ''tool_choice'' then None
     else case map_of (openai_settings mc) k of Some (Some v) \<Rightarrow> Some v | _ \<Rightarrow> pv_body_defaults P k)"
proof -
  let ?b0 = "if stream then [''model'' \<mapsto> JStr (pv_model P),
       ''messages'' \<mapsto> JArr (map openai_message (apply_system_prompt (cq_system q) (cq_messages q))),
       ''stream'' \<mapsto> JBool True, ''stream_options'' \<mapsto> JObj [(''include_usage'', JBool True)]]
     else [''model'' \<mapsto> JStr (pv_model P),
       ''messages'' \<mapsto> JArr (map openai_message (apply_system_prompt (cq_system q) (cq_messages q)))]"
  let ?b1 = "?b0(''max_tokens'' \<mapsto> max_tokens_of P mc 4096)"
  let ?ts = "map_option (\<lambda>ts. JArr (map openai_tool ts)) (cq_tools q)"
  have b: "openai_request_body P mc stream q k =
      (let own = set_opt (''tools'', ?ts) (fold set_opt (openai_settings mc) ?b1) k
       in if set_in (openai_settings mc) k \<or> k \<in> set openai_reserved then own
          else case pv_body_defaults P k of Some v \<Rightarrow> Some v | None \<Rightarrow> own)"
    by (simp add: openai_request_body_def Let_def with_defaults_apply)
  show ?thesis
  proof (cases "k \<in> set openai_reserved")
    case True
    then have none: "map_of (openai_settings mc) k = None" using openai_keys(2) [of mc k] by (cases "map_of (openai_settings mc) k") auto
    have same: "fold set_opt (openai_settings mc) ?b1 k = ?b1 k"
      by (simp only: fold_set_opt [OF openai_keys(1)] none option.case)
    have own: "openai_request_body P mc stream q k = set_opt (''tools'', ?ts) ?b1 k"
      by (simp only: b Let_def set_opt_apply True same simp_thms if_True)
    have "k = ''model'' \<or> k = ''messages'' \<or> k = ''tools'' \<or> k = ''tool_choice'' \<or> k = ''stream'' \<or>
        k = ''stream_options'' \<or> k = ''max_tokens''"
      using True by (simp only: openai_reserved_def list.set insert_iff empty_iff simp_thms)
    then show ?thesis unfolding own by (elim disjE) (simp_all add: set_opt_apply)
  next
    case False
    then have ne: "k \<noteq> ''model''" "k \<noteq> ''messages''" "k \<noteq> ''tools''" "k \<noteq> ''tool_choice''" "k \<noteq> ''stream''"
      "k \<noteq> ''stream_options''" "k \<noteq> ''max_tokens''"
      by (simp_all only: openai_reserved_def list.set insert_iff empty_iff simp_thms de_Morgan_disj)
    have "?b1 k = None" using ne by simp
    then have "set_opt (''tools'', ?ts) (fold set_opt (openai_settings mc) ?b1) k =
        (case map_of (openai_settings mc) k of Some (Some v) \<Rightarrow> Some v | _ \<Rightarrow> None)"
      using ne(3) by (simp only: set_opt_apply fold_set_opt [OF openai_keys(1)]) simp
    with False ne show ?thesis
      by (simp add: b Let_def set_in_def split: option.split)
  qed
qed

lemma anthropic_body_at:
  assumes "anthropic_request_body parse P mc stream q = Inr b"
  shows "b k =
    (if k = ''model'' then Some (JStr (pv_model P))
     else if k = ''messages'' then (case anthropic_messages parse (cq_messages q) of Inr js \<Rightarrow> Some (JArr js) | Inl e \<Rightarrow> None)
     else if k = ''max_tokens'' then Some (max_tokens_of P mc 8192)
     else if k = ''system'' then map_option JStr (cq_system q)
     else if k = ''tools'' then map_option (\<lambda>ts. JArr (map anthropic_tool ts)) (cq_tools q)
     else if k = ''stream'' then (if stream then Some (JBool True) else None)
     else if k = ''top_k'' \<and> mc_top_k mc \<noteq> None then None
     else case map_of (anthropic_settings mc) k of Some (Some v) \<Rightarrow> Some v | _ \<Rightarrow> pv_body_defaults P k)"
proof -
  obtain ms where ms: "anthropic_messages parse (cq_messages q) = Inr ms"
    using assms by (auto simp: anthropic_request_body_def split: sum.splits)
  let ?b0 = "if stream then [''model'' \<mapsto> JStr (pv_model P), ''max_tokens'' \<mapsto> max_tokens_of P mc 8192,
       ''messages'' \<mapsto> JArr ms, ''stream'' \<mapsto> JBool True]
     else [''model'' \<mapsto> JStr (pv_model P), ''max_tokens'' \<mapsto> max_tokens_of P mc 8192, ''messages'' \<mapsto> JArr ms]"
  let ?ts = "map_option (\<lambda>ts. JArr (map anthropic_tool ts)) (cq_tools q)"
  let ?own = "set_opt (''tools'', ?ts) (fold set_opt (anthropic_settings mc) (set_opt (''system'', map_option JStr (cq_system q)) ?b0)) k"
  have b: "b k = (if set_in (anthropic_settings mc) k \<or> (k = ''top_k'' \<and> mc_top_k mc \<noteq> None) \<or> k \<in> set anthropic_reserved
      then ?own else case pv_body_defaults P k of Some v \<Rightarrow> Some v | None \<Rightarrow> ?own)"
    using assms [unfolded anthropic_request_body_def ms Let_def sum.case sum.inject, symmetric] by (simp only: with_defaults_apply)
  show ?thesis
  proof (cases "k \<in> set anthropic_reserved")
    case True
    then have none: "map_of (anthropic_settings mc) k = None"
      using anthropic_keys(2) [of mc k] by (cases "map_of (anthropic_settings mc) k") auto
    let ?b1 = "set_opt (''system'', map_option JStr (cq_system q)) ?b0"
    have same: "fold set_opt (anthropic_settings mc) ?b1 k = ?b1 k"
      by (simp only: fold_set_opt [OF anthropic_keys(1)] none option.case)
    have own: "b k = set_opt (''tools'', ?ts) ?b1 k"
      by (simp only: b set_opt_apply [of "''tools''"] True same simp_thms if_True)
    have "k = ''system'' \<or> k = ''tools'' \<or> k = ''messages'' \<or> k = ''model'' \<or> k = ''stream'' \<or> k = ''max_tokens''"
      using True by (simp only: anthropic_reserved_def list.set insert_iff empty_iff simp_thms)
    then show ?thesis unfolding own by (elim disjE) (simp_all add: set_opt_apply ms)
  next
    case False
    then have ne: "k \<noteq> ''model''" "k \<noteq> ''messages''" "k \<noteq> ''tools''" "k \<noteq> ''system''" "k \<noteq> ''stream''" "k \<noteq> ''max_tokens''"
      by (simp_all only: anthropic_reserved_def list.set insert_iff empty_iff simp_thms de_Morgan_disj)
    have "?b0 k = None" using ne by simp
    then have own: "?own = (case map_of (anthropic_settings mc) k of Some (Some v) \<Rightarrow> Some v | _ \<Rightarrow> None)"
      using ne(3,4) by (simp only: set_opt_apply fold_set_opt [OF anthropic_keys(1)]) simp
    have none: "map_of (anthropic_settings mc) ''top_k'' = None" by (simp add: anthropic_settings_def)
    show ?thesis
    proof (cases "k = ''top_k''")
      case True
      with none show ?thesis unfolding b own by (simp add: set_in_def anthropic_reserved_def split: option.split)
    next
      case k: False
      show ?thesis using False ne k unfolding b own
        by (simp only: if_False simp_thms) (simp add: set_in_def split: option.split)
    qed
  qed
qed

section \<open>Reading what was sent\<close>

text \<open>A reader of the messages of OpenAI, as the documentation of the service describes them.\<close>

definition read_part :: "json \<Rightarrow> content_part" where
  "read_part j = (if json_str (json_get ''type'' j) = Some ''text'' then TextPart (str_or [] (json_get ''text'' j))
     else ImagePart \<lparr> iu_url = str_or [] (json_path [''image_url'', ''url''] j), iu_detail = None \<rparr>)"

definition read_call :: "json \<Rightarrow> tool_call" where
  "read_call j = \<lparr> tc_id = str_or [] (json_get ''id'' j), tc_name = str_or [] (json_path [''function'', ''name''] j),
     tc_arguments = str_or [] (json_path [''function'', ''arguments''] j), tc_type = str_or [] (json_get ''type'' j) \<rparr>"

definition read_content :: "json option \<Rightarrow> message_content option" where
  "read_content j = (case j of Some (JStr s) \<Rightarrow> Some (TextContent s) | Some (JArr xs) \<Rightarrow> Some (MultiPart (map read_part xs)) | _ \<Rightarrow> None)"

definition role_of_text :: "string \<Rightarrow> message_role" where
  "role_of_text r = (if r = ''system'' then RSystem else if r = ''user'' then RUser else if r = ''assistant'' then RAssistant else RTool)"

definition read_message :: "json \<Rightarrow> chat_message" where
  "read_message j = \<lparr> cm_role = role_of_text (str_or [] (json_get ''role'' j)), cm_content = read_content (json_get ''content'' j),
     cm_tool_calls = map_option (map read_call) (json_arr (json_get ''tool_calls'' j)),
     cm_tool_call_id = json_str (json_get ''tool_call_id'' j), cm_name = None, cm_thinking = None \<rparr>"

text \<open>What is kept of a message: names, thoughts, details of images, and parts of contents that are no user's, are not.\<close>

definition plain_part :: "content_part \<Rightarrow> bool" where
  "plain_part p \<longleftrightarrow> (case p of ImagePart i \<Rightarrow> iu_detail i = None | _ \<Rightarrow> True)"

definition keepable :: "chat_message \<Rightarrow> bool" where
  "keepable m \<longleftrightarrow> cm_name m = None \<and> cm_thinking m = None \<and>
     (case cm_content m of
        None \<Rightarrow> cm_role m = RAssistant
      | Some (TextContent s) \<Rightarrow> True
      | Some (MultiPart ps) \<Rightarrow> cm_role m = RUser \<and> list_all plain_part ps) \<and>
     (case cm_tool_calls m of None \<Rightarrow> True | Some ts \<Rightarrow> cm_role m = RAssistant \<and> list_all (\<lambda>t. tc_type t = ''function'') ts) \<and>
     (cm_tool_call_id m \<noteq> None \<longleftrightarrow> cm_role m = RTool)"

lemma read_part_openai: "plain_part p \<Longrightarrow> read_part (openai_part p) = p"
  by (cases p) (auto simp: read_part_def plain_part_def json_get_def json_str_def str_or_def json_path_def)

lemma read_call_openai: "tc_type t = ''function'' \<Longrightarrow> read_call (openai_call t) = t"
  by (simp add: read_call_def openai_call_def json_get_def json_str_def str_or_def json_path_def)

lemma read_parts: "list_all plain_part ps \<Longrightarrow> map (read_part \<circ> openai_part) ps = ps"
  by (induction ps) (simp_all add: read_part_openai)

lemma read_calls: "list_all (\<lambda>t. tc_type t = ''function'') ts \<Longrightarrow> map (read_call \<circ> openai_call) ts = ts"
  by (induction ts) (simp_all add: read_call_openai)

lemmas json_reading = json_get_def json_str_def json_arr_def str_or_def json_path_def json_in_def json_first_def

lemma read_openai_message:
  assumes "keepable m"
  shows "read_message (openai_message m) = m"
proof (cases "cm_role m")
  case RSystem
  with assms show ?thesis
    by (auto simp: read_message_def openai_message_def json_reading keepable_def role_of_text_def read_content_def
        content_text_def split: option.splits message_content.splits)
next
  case RUser
  with assms show ?thesis
    by (auto simp: read_message_def openai_message_def json_reading keepable_def role_of_text_def read_content_def
        content_text_def read_parts split: option.splits message_content.splits)
next
  case RAssistant
  with assms show ?thesis
    by (auto simp: read_message_def openai_message_def json_reading keepable_def role_of_text_def read_content_def
        content_text_def read_calls split: option.splits message_content.splits)
next
  case RTool
  with assms show ?thesis
    by (auto simp: read_message_def openai_message_def json_reading keepable_def role_of_text_def read_content_def
        content_text_def split: option.splits message_content.splits)
qed

lemma get_obj: "json_get k (JObj ms) = map_of ms k"
  by (simp add: json_get_def)

section \<open>Messages that are dropped\<close>

abbreviation no_system :: "chat_message list \<Rightarrow> chat_message list" where
  "no_system ms \<equiv> filter (\<lambda>m. cm_role m \<noteq> RSystem) ms"

lemma anthropic_messages_Cons:
  "anthropic_messages parse (m # ms) = (case anthropic_message parse m of Inl e \<Rightarrow> Inl e
     | Inr y \<Rightarrow> (case anthropic_messages parse ms of Inl e \<Rightarrow> Inl e | Inr z \<Rightarrow> Inr (y @ z)))"
  by (cases "anthropic_message parse m") (simp_all add: anthropic_messages_def split: sum.split)

lemma anthropic_system: "cm_role m = RSystem \<Longrightarrow> anthropic_message parse m = Inr []"
  by (simp add: anthropic_message_def)

lemma anthropic_drops_system: "anthropic_messages parse (no_system ms) = anthropic_messages parse ms"
  by (induction ms) (simp_all add: anthropic_messages_Cons anthropic_system split: sum.split)

lemma body_drops_system:
  "anthropic_request_body parse P mc stream (q\<lparr>cq_messages := no_system (cq_messages q)\<rparr>) =
   anthropic_request_body parse P mc stream q"
  by (cases "anthropic_messages parse (cq_messages q)") (simp_all add: anthropic_request_body_def anthropic_drops_system)

section \<open>Properties\<close>


text \<open>
  C27: an agent never tells a model of Anthropic its system prompt.  The agent gives the prompt, its skills and the
  summary of its history as system messages and leaves the field for the prompt empty; the client takes the
  prompt from this field only, and leaves out the system messages.  A call is the same without them.
\<close>

theorem system_prompt_lost:
  assumes "rv_converse env = converse_stream parse utf8_error post P mc" "pv_kind P = Anthropic"
  shows "call_model env msgs = call_model env (no_system msgs) \<and>
    (\<forall>ts b. anthropic_request_body parse P mc True (with_tool_choice ChoiceAuto (with_tools ts (with_history None msgs))) = Inr b
       \<longrightarrow> b ''system'' = None)"
proof (intro conjI allI impI)
  let ?q = "\<lambda>ms. with_tool_choice ChoiceAuto
      (with_tools (reg_definitions (rv_tool_order env) (rv_tools env)) (with_history None ms))"
  have "?q (no_system msgs) = (?q msgs)\<lparr>cq_messages := no_system (cq_messages (?q msgs))\<rparr>"
    by (simp add: with_tool_choice_def with_tools_def with_history_def)
  then have conv: "rv_converse env (?q (no_system msgs)) = rv_converse env (?q msgs)"
    using body_drops_system [of parse P mc True "?q msgs"] assms by (simp add: converse_stream_def fun_eq_iff)
  show "call_model env msgs = call_model env (no_system msgs)" by (rule ext) (simp only: call_model_def conv)
next
  fix ts b
  assume "anthropic_request_body parse P mc True (with_tool_choice ChoiceAuto (with_tools ts (with_history None msgs))) = Inr b"
  from anthropic_body_at [OF this, of "''system''"] show "b ''system'' = None"
    by (simp add: with_tool_choice_def with_tools_def with_history_def)
qed

text \<open>
  The settings that are sent.  Every setting of a request is in the body with its value; the others have the defaults
  of the configuration, which replace nothing that the request decides; the choice of tools is never sent
  to OpenAI.  To Anthropic a setting it does not know is not sent, and for one of them, \<open>top_k\<close>, the
  request takes the default away.
\<close>

theorem settings_sent:
  assumes "anthropic_request_body parse P mc stream q = Inr b"
  shows "(\<forall>k v. map_of (openai_settings mc) k = Some (Some v) \<longrightarrow> openai_request_body P mc stream q k = Some v) \<and>
    (\<forall>k. map_of (openai_settings mc) k = None \<and> k \<notin> set openai_reserved \<longrightarrow>
       openai_request_body P mc stream q k = pv_body_defaults P k) \<and>
    openai_request_body P mc stream q ''tool_choice'' = None \<and>
    (\<forall>k v. map_of (anthropic_settings mc) k = Some (Some v) \<longrightarrow> b k = Some v) \<and>
    (\<forall>k. map_of (anthropic_settings mc) k = None \<and> k \<notin> set anthropic_reserved \<and> k \<noteq> ''top_k'' \<longrightarrow>
       b k = pv_body_defaults P k) \<and>
    (mc_top_k mc \<noteq> None \<longrightarrow> b ''top_k'' = None)"
proof -
  have "k \<notin> set openai_reserved" if "map_of (openai_settings mc) k = Some x" for k x
    using openai_keys(2) [of mc k] that by simp
  moreover have "k \<notin> set anthropic_reserved \<and> k \<noteq> ''top_k''" if "map_of (anthropic_settings mc) k = Some x" for k x
    using anthropic_keys(2) [of mc k] that by simp
  ultimately show ?thesis
    by (intro conjI allI impI) (auto simp: openai_body_at anthropic_body_at [OF assms] openai_reserved_def anthropic_reserved_def)
qed

text \<open>
  A reply of the model is stored and sent back as it was.  What a client makes of the reply to a call that
  is not streamed is the message whose form for the next request is the one in the reply.
\<close>

theorem openai_reply_roundtrip:
  assumes "list_all (\<lambda>t. tc_type t = ''function'') ts"
  shows "cs_message (openai_response show_json P
    (JObj [(''choices'', JArr [JObj [(''message'', openai_message (reply_message c ts)), (''finish_reason'', JStr r)]])])) =
    reply_message c ts"
proof -
  let ?j = "openai_message (reply_message c ts)"
  have gets: "json_get ''content'' ?j = Some (JStr c)"
    "json_get ''tool_calls'' ?j = (if ts = [] then None else Some (JArr (map openai_call ts)))"
    by (simp_all add: openai_message_def reply_message_def assistant_msg_def assistant_with_tools_def plain_msg_def json_get_def)
  have call: "openai_reply_call show_json (openai_call t) = t" if "t \<in> set ts" for t
    using assms that by (auto simp: openai_reply_call_def openai_call_def json_reading parse_tool_arguments_def function_call_def list_all_iff)
  then have "map (openai_reply_call show_json \<circ> openai_call) ts = ts" by (simp add: map_idI)
  then show ?thesis
    by (simp add: openai_response_def Let_def get_obj gets json_in_def json_first_def json_str_def json_arr_def str_or_def)
qed


text \<open>
  One provider whose key is not in the environment takes all providers away: the registry is not built.
\<close>

theorem one_bad_provider:
  assumes "(i, c) \<in> set cs" "create_provider http env c = Inl e"
  shows "\<exists>e'. registry_from_configs http env cs = Inl e'"
proof -
  have "\<exists>e'. registry_add_all (create_provider http env) cs r = Inl e'" for r
    using assms(1)
  proof (induction cs arbitrary: r)
    case (Cons x cs)
    obtain j d where x: "x = (j, d)" by (cases x)
    show ?case
    proof (cases "create_provider http env d")
      case (Inr p)
      with x Cons.prems assms(2) have "(i, c) \<in> set cs" by auto
      with Cons.IH x Inr show ?thesis by simp
    qed (simp add: x)
  qed simp
  then show ?thesis by (simp add: registry_from_configs_def)
qed

section \<open>Witnesses\<close>

definition demo_client :: provider_client where
  "demo_client = \<lparr> pv_kind = Anthropic, pv_api_key = ''k'', pv_model = ''m'', pv_base_url = ''u'',
     pv_body_defaults = [''top_k'' \<mapsto> JNum 5, ''model'' \<mapsto> JStr ''other''], pv_headers = [] \<rparr>"


theorem openai_reply_roundtrip_witness:
  "cs_message (openai_response (\<lambda>j. []) demo_client (JObj [(''choices'', JArr [JObj [(''message'',
      openai_message (reply_message ''c'' [function_call ''1'' ''f'' ''{}''])), (''finish_reason'', JStr ''tool_calls'')]])])) =
    assistant_with_tools (TextContent ''c'') [function_call ''1'' ''f'' ''{}'']"
  using openai_reply_roundtrip [of "[function_call ''1'' ''f'' ''{}'']" "\<lambda>j. []" demo_client "''c''" "''tool_calls''"]
  by (simp add: function_call_def reply_message_def)

definition offline_env :: "(mem_entries, unit) run_env" where
  "offline_env = demo_env\<lparr>rv_converse := converse_stream (\<lambda>x. None) id (\<lambda>r w. (NoReply ''off'', w)) demo_client model_config_default\<rparr>"

theorem system_prompt_lost_witness:
  "call_model offline_env [system_msg (TextContent ''p''), user_msg (TextContent ''q'')] =
   call_model offline_env [user_msg (TextContent ''q'')]"
proof -
  have "rv_converse offline_env = converse_stream (\<lambda>x. None) id (\<lambda>r w. (NoReply ''off'', w)) demo_client model_config_default"
    "pv_kind demo_client = Anthropic"
    by (simp_all add: offline_env_def demo_client_def)
  from system_prompt_lost [OF this, of "[system_msg (TextContent ''p''), user_msg (TextContent ''q'')]"]
  show ?thesis by simp
qed

theorem settings_sent_witness:
  "\<exists>b. anthropic_request_body (\<lambda>x. None) demo_client (model_config_default\<lparr>mc_top_k := Some 7\<rparr>) True (with_history None []) = Inr b \<and>
     b ''top_k'' = None \<and> pv_body_defaults demo_client ''top_k'' \<noteq> None"
proof -
  obtain b where b: "anthropic_request_body (\<lambda>x. None) demo_client (model_config_default\<lparr>mc_top_k := Some 7\<rparr>) True (with_history None []) = Inr b"
    by (simp add: anthropic_request_body_def anthropic_messages_def with_history_def)
  with settings_sent [OF b] show ?thesis by (simp add: demo_client_def)
qed

definition keyless_config :: llm_config where
  "keyless_config = \<lparr> lc_provider = OpenAI, lc_model = ''m'', lc_api_key = SecretEnv ''KEY'' None,
     lc_base_url = ''u'', lc_body = None, lc_headers = None \<rparr>"

theorem one_bad_provider_witness:
  "\<exists>e. registry_from_configs None Map.empty [(''a'', keyless_config)] = Inl e"
proof -
  have "create_provider None Map.empty keyless_config = Inl (LlmAuth (''Environment variable '' @ [CHR 0x27] @ ''KEY'' @ [CHR 0x27] @ '' not set''))"
    by (simp add: create_provider_def secret_resolve_def keyless_config_def)
  from one_bad_provider [OF _ this] show ?thesis by simp
qed

end
