(* ===== verification/RunLog.thy ===== *)
theory RunLog
  imports StreamEvent SandboxPath Utf8 "HOL-Library.List_Lexorder" "HOL-Library.Char_ord"
begin

text \<open>
  The log of a run: the plugin that writes it (\<open>crates/vol-llm-agent/src/run_log_plugin.rs\<close> and
  \<open>run_log/logger.rs\<close>), and the handlers of a data plane that read it and other files
  (\<open>crates/vol-agent-server/src/data_plane/handlers/log.rs\<close> and \<open>file.rs\<close>).  Printing and reading JSON, the
  clock, the order of a hash table and the failures of the disk are parameters.
\<close>

section \<open>Entries\<close>

record log_entry =
  le_timestamp :: string
  le_run_id :: string
  le_session_id :: string
  le_event :: string
  le_data :: json

text \<open>A text cut after a number of characters.\<close>

definition clip :: "nat \<Rightarrow> string \<Rightarrow> string" where
  "clip limit s = (if limit < length (utf8_chars s) then concat (take limit (utf8_chars s)) @ ''...'' else s)"

definition nullable :: "string option \<Rightarrow> json" where
  "nullable x = (case x of None \<Rightarrow> JNull | Some s \<Rightarrow> JStr s)"

fun role_json :: "message_role \<Rightarrow> json" where
  "role_json RSystem = JStr ''system''"
| "role_json RUser = JStr ''user''"
| "role_json RAssistant = JStr ''assistant''"
| "role_json RTool = JStr ''tool''"

definition logged_message :: "chat_message \<Rightarrow> json" where
  "logged_message m = JObj [(''role'', role_json (cm_role m)),
     (''content'', JStr (case cm_content m of Some c \<Rightarrow> clip 100 (content_str c) | None \<Rightarrow> []))]"

definition last_five :: "'a list \<Rightarrow> 'a list" where
  "last_five xs = drop (length xs - 5) xs"

definition usage_json :: "token_usage option \<Rightarrow> json" where
  "usage_json u =
     (case u of
        None \<Rightarrow> JNull
      | Some u \<Rightarrow> JObj ([(''prompt_tokens'', JNum (uint (tu_prompt_tokens u))),
          (''completion_tokens'', JNum (uint (tu_completion_tokens u))), (''total_tokens'', JNum (uint (tu_total_tokens u)))] @
          (case tu_cached_tokens u of None \<Rightarrow> [] | Some c \<Rightarrow> [(''cached_tokens'', JNum (uint c))])))"

definition logged_call :: "tool_call \<Rightarrow> json" where
  "logged_call c = JObj [(''id'', JStr (tc_id c)), (''name'', JStr (tc_name c)), (''arguments'', JStr (tc_arguments c)),
     (''type'', JStr (tc_type c))]"

definition duration_json :: "u64 option \<Rightarrow> json" where
  "duration_json d = (case d of None \<Rightarrow> JNull | Some n \<Rightarrow> JNum (uint n))"

fun obj_insert :: "string \<Rightarrow> json \<Rightarrow> (string \<times> json) list \<Rightarrow> (string \<times> json) list" where
  "obj_insert k v [] = [(k, v)]"
| "obj_insert k v ((l, w) # ms) = (if k = l then (k, v) # ms else (l, w) # obj_insert k v ms)"

definition obj_extend :: "(string \<times> json) list \<Rightarrow> (string \<times> json) list \<Rightarrow> (string \<times> json) list" where
  "obj_extend ms extra = foldl (\<lambda>ms (k, v). obj_insert k v ms) ms extra"

fun should_log :: "agent_event \<Rightarrow> bool" where
  "should_log (ThinkingDelta d) = False"
| "should_log (ContentDelta d) = False"
| "should_log (ToolCallArgumentDelta i n d) = False"
| "should_log _ = True"

text \<open>The data of an event; the events that are not logged have none, and asking for it panics.\<close>

fun log_data :: "((string \<rightharpoonup> json) \<Rightarrow> string list) \<Rightarrow> u64 option \<Rightarrow> agent_event \<Rightarrow> json option" where
  "log_data ord d (AgentStart i) = Some (JObj [(''input'', JStr i)])"
| "log_data ord d (AgentComplete r) = Some (JObj [(''response'', case r of None \<Rightarrow> JNull | Some v \<Rightarrow> v)])"
| "log_data ord d (AgentAborted r) = Some (JObj [(''reason'', JStr r)])"
| "log_data ord d (LLMCallStart i ms) = Some (JObj [(''iteration'', JNum (uint i)), (''message_count'', JNum (int (length ms))),
     (''messages'', JArr (map logged_message (last_five ms)))])"
| "log_data ord d (LLMCallComplete m u) = Some (JObj [(''model'', JStr m), (''usage'', usage_json u)])"
| "log_data ord d (LLMCallError e) = Some (JObj [(''error'', JStr e)])"
| "log_data ord d ThinkingStart = Some (JObj [])"
| "log_data ord d (ThinkingComplete t) = Some (JObj [(''thinking'', JStr t)])"
| "log_data ord d ContentStart = Some (JObj [])"
| "log_data ord d (ContentComplete c) = Some (JObj [(''content'', JStr c)])"
| "log_data ord d (ToolCallBegin i n a) = Some (JObj [(''tool_call_id'', JStr i), (''tool_name'', JStr n), (''arguments'', JStr a)])"
| "log_data ord d (ToolCallComplete i n r) = Some (JObj [(''tool_call_id'', JStr i), (''tool_name'', JStr n), (''result'', JStr r),
     (''duration_ms'', duration_json d)])"
| "log_data ord d (ToolCallError i n e) = Some (JObj [(''tool_call_id'', JStr i), (''tool_name'', JStr n), (''error'', JStr e),
     (''duration_ms'', duration_json d)])"
| "log_data ord d (ToolCallSkipped i n r) = Some (JObj [(''tool_call_id'', JStr i), (''tool_name'', JStr n), (''reason'', JStr r),
     (''duration_ms'', duration_json d)])"
| "log_data ord d (IterationComplete n cs a) = Some (JObj [(''iteration'', JNum (uint n)), (''tool_calls'', JArr (map logged_call cs)),
     (''final_answer'', nullable a)])"
| "log_data ord d (PluginEvent n m) = Some (JObj (obj_extend [(''name'', JStr n)]
     (List.map_filter (\<lambda>k. map_option (Pair k) (m k)) (ord m))))"
| "log_data ord d (MaxIterationsReached c m) = Some (JObj [(''current_iteration'', JNum (uint c)), (''max_iterations'', JNum (uint m))])"
| "log_data ord d (IterationContinued n) = Some (JObj [(''from_iteration'', JNum (uint n))])"
| "log_data ord d _ = None"

definition create_log_entry ::
  "((string \<rightharpoonup> json) \<Rightarrow> string list) \<Rightarrow> string \<Rightarrow> u64 option \<Rightarrow> agent_event \<Rightarrow> string \<Rightarrow> string \<Rightarrow> log_entry option" where
  "create_log_entry ord ts d ev run_id session_id = map_option (\<lambda>data.
     \<lparr> le_timestamp = ts, le_run_id = run_id, le_session_id = session_id, le_event = event_name ev, le_data = data \<rparr>)
     (log_data ord d ev)"

text \<open>The members of the data stand beside those of the entry, and replace the ones of the same name.\<close>

definition entry_json :: "log_entry \<Rightarrow> json" where
  "entry_json e = JObj (obj_extend [(''timestamp'', JStr (le_timestamp e)), (''event'', JStr (le_event e)),
     (''run_id'', JStr (le_run_id e)), (''session_id'', JStr (le_session_id e))]
     (case le_data e of JObj ms \<Rightarrow> ms | _ \<Rightarrow> []))"

text \<open>The derived reader of an entry, which wants all five members; how a time is read is a parameter.\<close>

definition entry_of_json :: "(string \<Rightarrow> string option) \<Rightarrow> json \<Rightarrow> log_entry option" where
  "entry_of_json read_time j =
     (case (Option.bind (json_str (json_get ''timestamp'' j)) read_time, json_str (json_get ''run_id'' j),
            json_str (json_get ''session_id'' j), json_str (json_get ''event'' j), json_get ''data'' j) of
        (Some ts, Some r, Some s, Some ev, Some d) \<Rightarrow>
          Some \<lparr> le_timestamp = ts, le_run_id = r, le_session_id = s, le_event = ev, le_data = d \<rparr>
      | _ \<Rightarrow> None)"

section \<open>Writing\<close>

definition log_path :: "string \<Rightarrow> agent_event \<Rightarrow> string \<Rightarrow> string" where
  "log_path base ev run_id =
     (let logs = path_join base ''logs''; file = run_id @ ''.jsonl''
      in case ev of PluginEvent name m \<Rightarrow> path_join (path_join logs name) file | _ \<Rightarrow> path_join logs file)"

type_synonym text_files = "string \<rightharpoonup> string"

definition append_log :: "string \<Rightarrow> string \<Rightarrow> text_files \<Rightarrow> text_files" where
  "append_log p line fs = fs(p \<mapsto> (case fs p of Some c \<Rightarrow> c | None \<Rightarrow> []) @ line @ newline)"

text \<open>A write that fails is only reported.\<close>

definition run_log_listen ::
  "((string \<rightharpoonup> json) \<Rightarrow> string list) \<Rightarrow> (json \<Rightarrow> string) \<Rightarrow> string \<Rightarrow> string \<Rightarrow> string \<Rightarrow>
   bool \<times> string \<times> u64 option \<times> agent_event \<Rightarrow> text_files \<Rightarrow> text_files" where
  "run_log_listen ord render base run_id session_id x fs =
     (case x of (fails, ts, d, ev) \<Rightarrow>
        if should_log ev \<and> \<not> fails then
          (case create_log_entry ord ts d ev run_id session_id of
             Some e \<Rightarrow> append_log (log_path base ev run_id) (render (entry_json e)) fs
           | None \<Rightarrow> fs)
        else fs)"

section \<open>Summaries\<close>

definition str_member :: "string \<Rightarrow> json \<Rightarrow> string" where
  "str_member k v = (case json_str (json_get k v) of Some s \<Rightarrow> s | None \<Rightarrow> [])"

definition num_member :: "string \<Rightarrow> json \<Rightarrow> string" where
  "num_member k v = show_u64 (case json_u64 (json_get k v) of Some n \<Rightarrow> n | None \<Rightarrow> 0)"

definition long_dash :: string where
  "long_dash = [CHR 0xE2, CHR 0x80, CHR 0x94]"

definition model_summary :: "string \<Rightarrow> json \<Rightarrow> string option" where
  "model_summary t v =
     (if t = ''LLMCallStart'' then
        Some (''LLM call iteration='' @ num_member ''iteration'' v @ '', '' @ num_member ''message_count'' v @ '' messages'')
      else if t = ''LLMCallComplete'' then Some (''LLM call complete '' @ long_dash @ '' model: '' @ str_member ''model'' v)
      else if t = ''LLMCallError'' then Some (''LLM call error: '' @ str_member ''error'' v)
      else if t = ''ThinkingStart'' then Some ''Thinking started''
      else if t = ''ThinkingComplete'' then Some (''Thinking: '' @ clip 60 (str_member ''thinking'' v))
      else if t = ''ContentStart'' then Some ''Content generation started''
      else if t = ''ContentComplete'' then Some (''Content: '' @ clip 100 (str_member ''content'' v))
      else None)"

definition call_summary :: "string \<Rightarrow> json \<Rightarrow> string option" where
  "call_summary t v =
     (if t = ''ToolCallBegin'' then Some (''Tool call: '' @ str_member ''tool_name'' v)
      else if t = ''ToolCallComplete'' then Some (''Tool call complete: '' @ str_member ''tool_name'' v @
        (case json_u64 (json_get ''duration_ms'' v) of Some d \<Rightarrow> '' ('' @ show_u64 d @ ''ms)'' | None \<Rightarrow> []))
      else if t = ''ToolCallError'' then
        Some (''Tool error: '' @ str_member ''tool_name'' v @ '' '' @ long_dash @ '' '' @ str_member ''error'' v)
      else if t = ''ToolCallSkipped'' then Some (''Tool skipped: '' @ str_member ''tool_name'' v)
      else if t = ''IterationComplete'' then Some (''Iteration '' @ num_member ''iteration'' v @ '' complete ('' @
        show_nat (case json_arr (json_get ''tool_calls'' v) of Some xs \<Rightarrow> length xs | None \<Rightarrow> 0) @ '' tool calls)'')
      else if t = ''MaxIterationsReached'' then
        Some (''Max iterations: '' @ num_member ''current_iteration'' v @ ''/'' @ num_member ''max_iterations'' v)
      else if t = ''IterationContinued'' then Some (''Continued from iteration '' @ num_member ''from_iteration'' v)
      else if t = ''PluginEvent'' then Some (''Plugin event: '' @ str_member ''name'' v)
      else None)"

definition run_summary :: "string \<Rightarrow> json \<Rightarrow> string option" where
  "run_summary t v =
     (if t = ''AgentStart'' then Some (''Agent started '' @ long_dash @ '' input: '' @ clip 80 (str_member ''input'' v))
      else if t = ''AgentComplete'' then Some ''Agent completed''
      else if t = ''AgentAborted'' then
        Some (''Agent aborted: '' @ (case json_str (json_get ''reason'' v) of Some r \<Rightarrow> r | None \<Rightarrow> ''unknown''))
      else None)"

definition build_summary :: "string \<Rightarrow> json \<Rightarrow> string" where
  "build_summary t v =
     (case run_summary t v of
        Some s \<Rightarrow> s
      | None \<Rightarrow> (case model_summary t v of
          Some s \<Rightarrow> s
        | None \<Rightarrow> (case call_summary t v of Some s \<Rightarrow> s | None \<Rightarrow> t)))"

section \<open>Reading a run\<close>

datatype file_read = FileText string | FileMissing | FileUnreadable string

text \<open>The files that can be read as text; for every other path the disk says what is wrong.\<close>

type_synonym reader = "string \<Rightarrow> file_read"

definition entry_lines :: "string \<Rightarrow> string list" where
  "entry_lines c = filter (\<lambda>l. trim l \<noteq> []) (str_lines c)"

definition shown_entry :: "json \<Rightarrow> json" where
  "shown_entry v = JObj [(''timestamp'', JStr (str_member ''timestamp'' v)), (''event_type'', JStr (str_member ''event'' v)),
     (''summary'', JStr (build_summary (str_member ''event'' v) v))]"

definition read_run :: "(string \<Rightarrow> json option) \<Rightarrow> reader \<Rightarrow> string \<Rightarrow> string \<Rightarrow> string + json list" where
  "read_run parse disk dir run_id =
     (case disk (path_join dir (run_id @ ''.jsonl'')) of
        FileMissing \<Rightarrow> Inl (''log file not found for run_id: '' @ run_id)
      | FileUnreadable e \<Rightarrow> Inl (''failed to read log file: '' @ e)
      | FileText c \<Rightarrow> Inr (map shown_entry (List.map_filter parse (entry_lines c))))"

section \<open>Listing the runs\<close>

text \<open>The last line that can be read gives the event and its time.\<close>

fun last_entry :: "(string \<Rightarrow> json option) \<Rightarrow> string list \<Rightarrow> string \<times> string \<Rightarrow> string \<times> string" where
  "last_entry parse [] found = found"
| "last_entry parse (l # ls) found =
     last_entry parse ls (case parse l of Some v \<Rightarrow> (str_member ''event'' v, str_member ''timestamp'' v) | None \<Rightarrow> found)"

record run_row =
  rn_run_id :: string
  rn_event_count :: nat
  rn_last_event :: string
  rn_last_event_time :: string

definition row_json :: "run_row \<Rightarrow> json" where
  "row_json r = JObj [(''run_id'', JStr (rn_run_id r)), (''event_count'', JNum (int (rn_event_count r))),
     (''last_event'', JStr (rn_last_event r)), (''last_event_time'', JStr (rn_last_event_time r))]"

definition run_row_of :: "(string \<Rightarrow> json option) \<Rightarrow> string \<Rightarrow> string \<Rightarrow> run_row" where
  "run_row_of parse stem c =
     (case last_entry parse (entry_lines c) ([], []) of (ev, time) \<Rightarrow>
        \<lparr> rn_run_id = stem, rn_event_count = length (entry_lines c), rn_last_event = ev, rn_last_event_time = time \<rparr>)"

definition jsonl_stem :: "string \<Rightarrow> string option" where
  "jsonl_stem name = (case strip_suffix ''.jsonl'' name of Some [] \<Rightarrow> None | s \<Rightarrow> s)"

text \<open>
  The directory as it is listed: the name of each entry with what reading it gives, or an error, which ends
  the listing.  Only the names that end in \<open>.jsonl\<close> count, and files that cannot be read are left out.
\<close>

fun list_rows :: "(string \<Rightarrow> json option) \<Rightarrow> (string + string \<times> file_read) list \<Rightarrow> string + run_row list" where
  "list_rows parse [] = Inr []"
| "list_rows parse (Inl e # es) = Inl (''failed to read dir entry: '' @ e)"
| "list_rows parse (Inr (name, c) # es) =
     (case list_rows parse es of
        Inl e \<Rightarrow> Inl e
      | Inr rows \<Rightarrow> Inr (case (jsonl_stem name, c) of
          (Some stem, FileText t) \<Rightarrow> run_row_of parse stem t # rows
        | _ \<Rightarrow> rows))"

text \<open>Newest first; runs of the same time keep the order of the listing.\<close>

definition newest_first :: "run_row list \<Rightarrow> run_row list" where
  "newest_first rows = rev (sort_key rn_last_event_time (rev rows))"

datatype dir_read = DirEntries "(string + string \<times> file_read) list" | DirMissing | DirUnreadable string

definition list_runs :: "(string \<Rightarrow> json option) \<Rightarrow> dir_read \<Rightarrow> string + run_row list" where
  "list_runs parse d =
     (case d of
        DirMissing \<Rightarrow> Inr []
      | DirUnreadable e \<Rightarrow> Inl (''failed to read logs dir: '' @ e)
      | DirEntries es \<Rightarrow> (case list_rows parse es of Inl e \<Rightarrow> Inl e | Inr rows \<Rightarrow> Inr (newest_first rows)))"

section \<open>The handlers\<close>

text \<open>A failure is shown as an empty list.\<close>

datatype log_request = LogListRequest | LogReadRequest string

definition log_handle :: "(string \<Rightarrow> json option) \<Rightarrow> reader \<Rightarrow> dir_read \<Rightarrow> string \<Rightarrow> log_request \<Rightarrow> json list" where
  "log_handle parse disk listing dir q =
     (case q of
        LogListRequest \<Rightarrow> (case list_runs parse listing of Inr rows \<Rightarrow> map row_json rows | Inl e \<Rightarrow> [])
      | LogReadRequest run_id \<Rightarrow> (case read_run parse disk dir run_id of Inr es \<Rightarrow> es | Inl e \<Rightarrow> []))"

definition resolve_file :: "string \<Rightarrow> string \<Rightarrow> string" where
  "resolve_file dir p = (if is_absolute p then p else path_join dir p)"

record file_row =
  fr_name :: string
  fr_is_dir :: bool
  fr_size :: nat

definition file_row_json :: "file_row \<Rightarrow> json" where
  "file_row_json r = JObj [(''name'', JStr (fr_name r)), (''is_dir'', JBool (fr_is_dir r)), (''size'', JNum (int (fr_size r)))]"

text \<open>Directories first, each group by name; entries that cannot be listed are skipped.\<close>

definition file_rows :: "(string + file_row) list \<Rightarrow> file_row list" where
  "file_rows es = sort_key (\<lambda>r. \<not> fr_is_dir r) (sort_key fr_name
     (List.map_filter (\<lambda>e. case e of Inr r \<Rightarrow> Some r | Inl x \<Rightarrow> None) es))"

datatype file_reply = FileListed "json list" | FileContent string | FileFailed string string

definition handle_file_list :: "(string \<Rightarrow> string + (string + file_row) list) \<Rightarrow> string \<Rightarrow> string \<Rightarrow> file_reply" where
  "handle_file_list list_dir dir p =
     (case list_dir (resolve_file dir p) of
        Inr es \<Rightarrow> FileListed (map file_row_json (file_rows es))
      | Inl e \<Rightarrow> FileFailed ''file_list_failed'' (''Failed to read directory: '' @ e))"

definition handle_file_read :: "(string \<Rightarrow> string + string) \<Rightarrow> string \<Rightarrow> string \<Rightarrow> file_reply" where
  "handle_file_read read dir p =
     (case read (resolve_file dir p) of
        Inr c \<Rightarrow> FileContent c
      | Inl e \<Rightarrow> FileFailed ''file_read_failed'' (''Failed to read file: '' @ e))"

section \<open>The terminal program\<close>

text \<open>\<open>crates/vol-llm-tui/src/app.rs\<close>: it reads lines with the derived reader; how it shows a time is a parameter.\<close>

definition quoted_member :: "(string \<Rightarrow> string) \<Rightarrow> string \<Rightarrow> json \<Rightarrow> string" where
  "quoted_member debug k v = debug (case json_str (json_get k v) of Some s \<Rightarrow> s | None \<Rightarrow> [])"

definition known_member :: "string \<Rightarrow> json \<Rightarrow> string" where
  "known_member k v = (case json_str (json_get k v) of Some s \<Rightarrow> s | None \<Rightarrow> ''unknown'')"

definition format_event_summary :: "(string \<Rightarrow> string) \<Rightarrow> log_entry \<Rightarrow> string" where
  "format_event_summary debug e =
     (if le_event e = ''AgentStart'' then ''Agent started - input: '' @ quoted_member debug ''input'' (le_data e)
      else if le_event e = ''ThinkingComplete'' then ''Thinking complete''
      else if le_event e = ''ToolCallBegin'' then ''Tool call: '' @ known_member ''tool_name'' (le_data e)
      else if le_event e = ''ToolCallComplete'' then ''Tool result: '' @ str_member ''result'' (le_data e)
      else if le_event e = ''IterationComplete'' then ''Iteration '' @ num_member ''iteration'' (le_data e) @ '' complete''
      else if le_event e = ''AgentComplete'' then ''Agent completed''
      else if le_event e = ''AgentAborted'' then ''Agent aborted: '' @ known_member ''reason'' (le_data e)
      else if le_event e = ''PluginEvent'' then ''Plugin event: '' @ known_member ''name'' (le_data e)
      else le_event e)"

record tui_line =
  tl_event_type :: string
  tl_summary :: string
  tl_timestamp :: string

definition line_entry :: "(string \<Rightarrow> json option) \<Rightarrow> (string \<Rightarrow> string option) \<Rightarrow> string \<Rightarrow> log_entry option" where
  "line_entry parse read_time l = Option.bind (parse l) (entry_of_json read_time)"

definition tui_load_run ::
  "(string \<Rightarrow> json option) \<Rightarrow> (string \<Rightarrow> string option) \<Rightarrow> (string \<Rightarrow> string) \<Rightarrow> (string \<Rightarrow> string) \<Rightarrow>
   string option \<Rightarrow> tui_line list \<Rightarrow> tui_line list" where
  "tui_load_run parse read_time debug clock c shown =
     (case c of
        None \<Rightarrow> shown
      | Some c \<Rightarrow> map (\<lambda>e. \<lparr> tl_event_type = le_event e, tl_summary = format_event_summary debug e,
          tl_timestamp = clock (le_timestamp e) \<rparr>) (List.map_filter (line_entry parse read_time) (str_lines c)))"

definition tui_run_row ::
  "(string \<Rightarrow> json option) \<Rightarrow> (string \<Rightarrow> string option) \<Rightarrow> (string \<Rightarrow> string) \<Rightarrow> string \<Rightarrow> string \<Rightarrow> run_row" where
  "tui_run_row parse read_time clock stem c =
     (let ls = str_lines c;
          (ev, time) = (case (if ls = [] then None else line_entry parse read_time (last ls)) of
             Some e \<Rightarrow> (le_event e, clock (le_timestamp e)) | None \<Rightarrow> (''unknown'', long_dash))
      in \<lparr> rn_run_id = stem, rn_event_count = length ls, rn_last_event = ev, rn_last_event_time = time \<rparr>)"

definition tui_scan_logs ::
  "(string \<Rightarrow> json option) \<Rightarrow> (string \<Rightarrow> string option) \<Rightarrow> (string \<Rightarrow> string) \<Rightarrow>
   (string \<times> string option) list \<Rightarrow> run_row list" where
  "tui_scan_logs parse read_time clock files =
     rev (sort_key rn_event_count (rev (List.map_filter (\<lambda>(name, c). case (jsonl_stem name, c) of
        (Some stem, Some t) \<Rightarrow> Some (tui_run_row parse read_time clock stem t) | _ \<Rightarrow> None) files)))"

end
