(* ===== verification/RunLogCorrect.thy ===== *)
theory RunLogCorrect
  imports RunLog
begin

text \<open>
  The log of a run: what a client reads of it, and what the reader of the terminal program makes of it.
\<close>

section \<open>Members of an entry\<close>

fun is_plugin_event :: "agent_event \<Rightarrow> bool" where
  "is_plugin_event (PluginEvent n m) = True"
| "is_plugin_event _ = False"

text \<open>The summary of an event, read off the event.\<close>

definition duration_note :: "u64 option \<Rightarrow> string" where
  "duration_note d = (case d of Some n \<Rightarrow> '' ('' @ show_u64 n @ ''ms)'' | None \<Rightarrow> [])"

fun event_summary :: "u64 option \<Rightarrow> agent_event \<Rightarrow> string" where
  "event_summary d (AgentStart i) = ''Agent started '' @ long_dash @ '' input: '' @ clip 80 i"
| "event_summary d (AgentComplete r) = ''Agent completed''"
| "event_summary d (AgentAborted r) = ''Agent aborted: '' @ r"
| "event_summary d (LLMCallStart i ms) = ''LLM call iteration='' @ show_nat (unat i) @ '', '' @ show_u64 (of_nat (length ms)) @ '' messages''"
| "event_summary d (LLMCallComplete m u) = ''LLM call complete '' @ long_dash @ '' model: '' @ m"
| "event_summary d (LLMCallError e) = ''LLM call error: '' @ e"
| "event_summary d ThinkingStart = ''Thinking started''"
| "event_summary d (ThinkingComplete t) = ''Thinking: '' @ clip 60 t"
| "event_summary d ContentStart = ''Content generation started''"
| "event_summary d (ContentComplete c) = ''Content: '' @ clip 100 c"
| "event_summary d (ToolCallBegin i n a) = ''Tool call: '' @ n"
| "event_summary d (ToolCallComplete i n r) = ''Tool call complete: '' @ n @ duration_note d"
| "event_summary d (ToolCallError i n e) = ''Tool error: '' @ n @ '' '' @ long_dash @ '' '' @ e"
| "event_summary d (ToolCallSkipped i n r) = ''Tool skipped: '' @ n"
| "event_summary d (IterationComplete n cs a) = ''Iteration '' @ show_nat (unat n) @ '' complete ('' @ show_nat (length cs) @ '' tool calls)''"
| "event_summary d (MaxIterationsReached c m) = ''Max iterations: '' @ show_nat (unat c) @ ''/'' @ show_nat (unat m)"
| "event_summary d (IterationContinued n) = ''Continued from iteration '' @ show_nat (unat n)"
| "event_summary d _ = []"

lemma wide: "unat (ucast (n :: u32) :: u64) = unat n"
proof -
  have "unat n < 2 ^ 64" using unsigned_less [of n, where ?'a = nat] by simp
  then show ?thesis by (simp only: unsigned_ucast_eq) (simp add: take_bit_nat_eq_self)
qed

lemma show_wide: "show_u64 (ucast (n :: u32)) = show_nat (unat n)"
  by (simp add: show_u64_def wide)

definition event_fits :: "agent_event \<Rightarrow> bool" where
  "event_fits ev \<longleftrightarrow> (case ev of LLMCallStart i ms \<Rightarrow> length ms < 2 ^ 64 | _ \<Rightarrow> True)"

lemmas log_defs = create_log_entry_def entry_json_def obj_extend_def shown_entry_def str_member_def num_member_def
  json_get_def json_str_def json_u64_def json_arr_def

lemma uint_lt64: "uint (n :: u32) < 18446744073709551616" "uint (m :: u64) < 18446744073709551616"
  using uint_bounded [of n] uint_bounded [of m] by simp_all

lemma summary_run:
  "build_summary ''AgentStart'' v = ''Agent started '' @ long_dash @ '' input: '' @ clip 80 (str_member ''input'' v)"
  "build_summary ''AgentComplete'' v = ''Agent completed''"
  "build_summary ''AgentAborted'' v = ''Agent aborted: '' @ (case json_str (json_get ''reason'' v) of Some r \<Rightarrow> r | None \<Rightarrow> ''unknown'')"
  by (simp_all add: build_summary_def run_summary_def)

lemma summary_model:
  "build_summary ''LLMCallStart'' v =
     ''LLM call iteration='' @ num_member ''iteration'' v @ '', '' @ num_member ''message_count'' v @ '' messages''"
  "build_summary ''LLMCallComplete'' v = ''LLM call complete '' @ long_dash @ '' model: '' @ str_member ''model'' v"
  "build_summary ''LLMCallError'' v = ''LLM call error: '' @ str_member ''error'' v"
  "build_summary ''ThinkingStart'' v = ''Thinking started''"
  "build_summary ''ThinkingComplete'' v = ''Thinking: '' @ clip 60 (str_member ''thinking'' v)"
  "build_summary ''ContentStart'' v = ''Content generation started''"
  "build_summary ''ContentComplete'' v = ''Content: '' @ clip 100 (str_member ''content'' v)"
  by (simp_all add: build_summary_def run_summary_def model_summary_def)

lemma summary_call:
  "build_summary ''ToolCallBegin'' v = ''Tool call: '' @ str_member ''tool_name'' v"
  "build_summary ''ToolCallComplete'' v = ''Tool call complete: '' @ str_member ''tool_name'' v @
     (case json_u64 (json_get ''duration_ms'' v) of Some d \<Rightarrow> '' ('' @ show_u64 d @ ''ms)'' | None \<Rightarrow> [])"
  "build_summary ''ToolCallError'' v = ''Tool error: '' @ str_member ''tool_name'' v @ '' '' @ long_dash @ '' '' @ str_member ''error'' v"
  "build_summary ''ToolCallSkipped'' v = ''Tool skipped: '' @ str_member ''tool_name'' v"
  "build_summary ''IterationComplete'' v = ''Iteration '' @ num_member ''iteration'' v @ '' complete ('' @
     show_nat (case json_arr (json_get ''tool_calls'' v) of Some xs \<Rightarrow> length xs | None \<Rightarrow> 0) @ '' tool calls)''"
  "build_summary ''MaxIterationsReached'' v =
     ''Max iterations: '' @ num_member ''current_iteration'' v @ ''/'' @ num_member ''max_iterations'' v"
  "build_summary ''IterationContinued'' v = ''Continued from iteration '' @ num_member ''from_iteration'' v"
  by (simp_all add: build_summary_def run_summary_def model_summary_def call_summary_def)

text \<open>The members of an entry are those of its data and the four of its own.\<close>

lemma map_of_insert [simp]: "map_of (obj_insert k v ms) = (map_of ms)(k \<mapsto> v)"
  by (induction ms) (auto simp: fun_eq_iff)

lemma map_of_extend: "map_of (obj_extend ms (rev xs)) = map_of ms ++ map_of xs"
proof (induction xs)
  case (Cons x xs)
  then show ?case by (cases x) (auto simp: obj_extend_def map_add_def)
qed (simp add: obj_extend_def)

definition own_key :: "string \<Rightarrow> bool" where
  "own_key k \<longleftrightarrow> k \<in> {''timestamp'', ''event'', ''run_id'', ''session_id''}"

lemma entry_member:
  assumes "le_data e = JObj ms" "distinct (map fst ms)" "list_all (\<lambda>m. \<not> own_key (fst m)) ms"
  shows "json_get ''timestamp'' (entry_json e) = Some (JStr (le_timestamp e))"
    "json_get ''event'' (entry_json e) = Some (JStr (le_event e))"
    "\<not> own_key k \<Longrightarrow> json_get k (entry_json e) = map_of ms k"
proof -
  have same: "map_of (rev ms) = map_of ms" using assms(2)
    by (subst map_of_inject_set) (simp_all add: rev_map [symmetric])
  have free: "own_key k \<Longrightarrow> map_of ms k = None" for k
    using assms(3) by (auto simp: list_all_iff map_of_eq_None_iff)
  have "own_key ''timestamp''" "own_key ''event''" by (simp_all add: own_key_def)
  note free [OF this(1)] free [OF this(2)]
  with same show "json_get ''timestamp'' (entry_json e) = Some (JStr (le_timestamp e))"
    "json_get ''event'' (entry_json e) = Some (JStr (le_event e))"
    using map_of_extend [of _ "rev ms"] by (simp_all add: entry_json_def json_get_def assms(1) map_add_def)
  show "json_get k (entry_json e) = map_of ms k" if "\<not> own_key k"
    using that same map_of_extend [of _ "rev ms"] by (auto simp: entry_json_def json_get_def assms(1) map_add_def own_key_def split: option.split)
qed

definition plain_data :: "json \<Rightarrow> bool" where
  "plain_data j \<longleftrightarrow> (case j of JObj ms \<Rightarrow> distinct (map fst ms) \<and> list_all (\<lambda>m. \<not> own_key (fst m)) ms | _ \<Rightarrow> False)"

lemma data_plain: "log_data ord d ev = Some j \<Longrightarrow> \<not> is_plugin_event ev \<Longrightarrow> plain_data j"
  by (cases ev) (auto simp: plain_data_def own_key_def)

lemma data_no_data: "log_data ord d ev = Some (JObj ms) \<Longrightarrow> \<not> is_plugin_event ev \<Longrightarrow> map_of ms ''data'' = None"
  by (cases ev) auto

lemma entry_parts:
  assumes "\<not> is_plugin_event ev" "create_log_entry ord ts d ev run_id session_id = Some e"
  shows "le_timestamp e = ts" "le_event e = event_name ev" "log_data ord d ev = Some (le_data e)"
    "json_get ''timestamp'' (entry_json e) = Some (JStr ts)" "json_get ''event'' (entry_json e) = Some (JStr (event_name ev))"
    "\<not> own_key k \<Longrightarrow> json_get k (entry_json e) = json_get k (le_data e)"
proof -
  from assms(2) show parts: "le_timestamp e = ts" "le_event e = event_name ev" "log_data ord d ev = Some (le_data e)"
    by (auto simp: create_log_entry_def)
  from data_plain [OF parts(3) assms(1)] obtain ms where
    ms: "le_data e = JObj ms" "distinct (map fst ms)" "list_all (\<lambda>m. \<not> own_key (fst m)) ms"
    by (auto simp: plain_data_def split: json.splits)
  show "json_get ''timestamp'' (entry_json e) = Some (JStr ts)" "json_get ''event'' (entry_json e) = Some (JStr (event_name ev))"
    using entry_member(1,2) [OF ms] parts by simp_all
  show "\<not> own_key k \<Longrightarrow> json_get k (entry_json e) = json_get k (le_data e)"
    using entry_member(3) [OF ms, of k] ms(1) by (simp add: json_get_def)
qed

lemma event_unreadable:
  assumes "\<not> is_plugin_event ev" "create_log_entry ord ts d ev run_id session_id = Some e"
  shows "entry_of_json read_time (entry_json e) = None"
proof -
  note p = entry_parts [OF assms]
  from data_plain [OF p(3) assms(1)] obtain ms where ms: "le_data e = JObj ms"
    by (auto simp: plain_data_def split: json.splits)
  have "map_of ms ''data'' = None" using data_no_data [OF _ assms(1)] p(3) ms by simp
  moreover have "\<not> own_key ''data''" by (simp add: own_key_def)
  ultimately have "json_get ''data'' (entry_json e) = None" using p(6) [of "''data''"] ms by (simp add: json_get_def)
  then show ?thesis by (simp add: entry_of_json_def split: option.split)
qed

lemma event_summary_entry:
  assumes "should_log ev" "\<not> is_plugin_event ev" "event_fits ev" "log_data ord d ev = Some j"
    and "\<And>k. \<not> own_key k \<Longrightarrow> json_get k v = json_get k j"
  shows "build_summary (event_name ev) v = event_summary d ev"
proof -
  have keys: "\<not> own_key ''input''" "\<not> own_key ''reason''" "\<not> own_key ''iteration''" "\<not> own_key ''message_count''"
    "\<not> own_key ''model''" "\<not> own_key ''error''" "\<not> own_key ''thinking''" "\<not> own_key ''content''" "\<not> own_key ''tool_name''"
    "\<not> own_key ''duration_ms''" "\<not> own_key ''tool_calls''" "\<not> own_key ''current_iteration''" "\<not> own_key ''max_iterations''"
    "\<not> own_key ''from_iteration''"
    by (simp_all add: own_key_def)
  note get = keys [THEN assms(5)]
  show ?thesis using assms(1-4)
    by (cases ev) (auto simp: summary_run summary_model summary_call str_member_def num_member_def get
        json_get_def [of _ "JObj _"] json_str_def json_u64_def json_arr_def event_fits_def uint_lt64 show_wide
        duration_json_def duration_note_def split: option.split)
qed

section \<open>Reading what was written\<close>

text \<open>What the writer of JSON promises of a value: one line, which reads back as the value.\<close>

definition prints :: "(string \<Rightarrow> json option) \<Rightarrow> (json \<Rightarrow> string) \<Rightarrow> json \<Rightarrow> bool" where
  "prints parse render j \<longleftrightarrow> parse (render j) = Some j \<and> newline_free (render j) \<and> trim (render j) \<noteq> [] \<and>
     last (render j) \<noteq> CHR 0x0D"

definition log_text :: "(json \<Rightarrow> string) \<Rightarrow> json list \<Rightarrow> string" where
  "log_text render js = concat (map (\<lambda>j. render j @ newline) js)"

lemma log_lines: "list_all (prints parse render) js \<Longrightarrow> str_lines (log_text render js) = map render js"
  by (induction js) (simp_all add: log_text_def prints_def str_lines_line)

lemma log_nonblank: "list_all (prints parse render) js \<Longrightarrow> entry_lines (log_text render js) = map render js"
  by (simp add: entry_lines_def log_lines filter_id_conv) (auto simp: list_all_iff prints_def)

lemma log_parsed: "list_all (prints parse render) js \<Longrightarrow> List.map_filter parse (map render js) = js"
  by (induction js) (simp_all add: prints_def List.map_filter_simps)

text \<open>The entry that an event leaves in the file of its run, if there is one.\<close>

type_synonym noted = "bool \<times> string \<times> u64 option \<times> agent_event"

definition noted_entry ::
  "((string \<rightharpoonup> json) \<Rightarrow> string list) \<Rightarrow> string \<Rightarrow> string \<Rightarrow> noted \<Rightarrow> log_entry option" where
  "noted_entry ord run_id session_id x = (case x of (fails, ts, d, ev) \<Rightarrow>
     if fails \<or> \<not> should_log ev \<or> is_plugin_event ev then None else create_log_entry ord ts d ev run_id session_id)"

definition noted_row :: "noted \<Rightarrow> json option" where
  "noted_row x = (case x of (fails, ts, d, ev) \<Rightarrow>
     if fails \<or> \<not> should_log ev \<or> is_plugin_event ev then None
     else Some (JObj [(''timestamp'', JStr ts), (''event_type'', JStr (event_name ev)), (''summary'', JStr (event_summary d ev))]))"

definition run_file :: "string \<Rightarrow> string \<Rightarrow> string" where
  "run_file base run_id = path_join (path_join base ''logs'') (run_id @ ''.jsonl'')"

lemma log_path_run: "\<not> is_plugin_event ev \<Longrightarrow> log_path base ev run_id = run_file base run_id"
  by (cases ev) (simp_all add: log_path_def run_file_def Let_def)

lemma data_logged: "should_log ev \<Longrightarrow> \<exists>j. log_data ord d ev = Some j"
  by (cases ev) simp_all

text \<open>Events of plugins have files of their own.\<close>

definition elsewhere :: "string \<Rightarrow> string \<Rightarrow> noted \<Rightarrow> bool" where
  "elsewhere base run_id x \<longleftrightarrow> (case x of (fails, ts, d, ev) \<Rightarrow>
     is_plugin_event ev \<longrightarrow> log_path base ev run_id \<noteq> run_file base run_id)"

lemma listen_file:
  assumes "elsewhere base run_id x"
  shows "run_log_listen ord render base run_id session_id x fs (run_file base run_id) =
    (case noted_entry ord run_id session_id x of
       None \<Rightarrow> fs (run_file base run_id)
     | Some e \<Rightarrow> Some ((case fs (run_file base run_id) of Some c \<Rightarrow> c | None \<Rightarrow> []) @ log_text render [entry_json e]))"
proof (cases x)
  case (fields fails ts d ev)
  show ?thesis
  proof (cases "is_plugin_event ev")
    case True
    with assms fields show ?thesis
      by (simp add: run_log_listen_def noted_entry_def append_log_def elsewhere_def split: option.split)
  next
    case False
    with fields show ?thesis
      by (simp add: run_log_listen_def noted_entry_def append_log_def log_path_run log_text_def split: option.split)
  qed
qed

definition write_run ::
  "((string \<rightharpoonup> json) \<Rightarrow> string list) \<Rightarrow> (json \<Rightarrow> string) \<Rightarrow> string \<Rightarrow> string \<Rightarrow> string \<Rightarrow> noted list \<Rightarrow> text_files \<Rightarrow> text_files" where
  "write_run ord render base run_id session_id xs fs =
     foldl (\<lambda>fs x. run_log_listen ord render base run_id session_id x fs) fs xs"

definition run_entries ::
  "((string \<rightharpoonup> json) \<Rightarrow> string list) \<Rightarrow> string \<Rightarrow> string \<Rightarrow> noted list \<Rightarrow> json list" where
  "run_entries ord run_id session_id xs = map entry_json (List.map_filter (noted_entry ord run_id session_id) xs)"

lemma write_run_file:
  assumes "list_all (elsewhere base run_id) xs"
  shows "write_run ord render base run_id session_id xs fs (run_file base run_id) =
    (if run_entries ord run_id session_id xs = [] then fs (run_file base run_id)
     else Some ((case fs (run_file base run_id) of Some c \<Rightarrow> c | None \<Rightarrow> []) @ log_text render (run_entries ord run_id session_id xs)))"
  using assms
proof (induction xs arbitrary: fs)
  case Nil
  then show ?case by (simp add: write_run_def run_entries_def List.map_filter_simps)
next
  case (Cons x xs)
  then have IH: "write_run ord render base run_id session_id xs fs1 (run_file base run_id) =
    (if run_entries ord run_id session_id xs = [] then fs1 (run_file base run_id)
     else Some ((case fs1 (run_file base run_id) of Some c \<Rightarrow> c | None \<Rightarrow> []) @ log_text render (run_entries ord run_id session_id xs)))" for fs1
    by simp
  from Cons.prems have here: "elsewhere base run_id x" by simp
  have "write_run ord render base run_id session_id (x # xs) fs =
    write_run ord render base run_id session_id xs (run_log_listen ord render base run_id session_id x fs)"
    by (simp add: write_run_def)
  then show ?case
    by (simp add: IH listen_file [OF here] run_entries_def List.map_filter_simps log_text_def split: option.split)
qed

lemma noted_shown:
  assumes "list_all (\<lambda>(fails, ts, d, ev). event_fits ev) xs"
  shows "map shown_entry (run_entries ord run_id session_id xs) = List.map_filter noted_row xs"
  using assms
proof (induction xs)
  case (Cons x xs)
  obtain fails ts d ev where x: "x = (fails, ts, d, ev)" by (cases x)
  show ?case
  proof (cases "fails \<or> \<not> should_log ev \<or> is_plugin_event ev")
    case True
    then show ?thesis using Cons x by (auto simp: run_entries_def noted_entry_def noted_row_def List.map_filter_simps)
  next
    case False
    then obtain j where j: "log_data ord d ev = Some j" using data_logged by blast
    then obtain e where e: "create_log_entry ord ts d ev run_id session_id = Some e" by (simp add: create_log_entry_def)
    note p = entry_parts [OF _ e]
    have "shown_entry (entry_json e) = JObj [(''timestamp'', JStr ts), (''event_type'', JStr (event_name ev)),
        (''summary'', JStr (event_summary d ev))]"
      using event_summary_entry [OF _ _ _ p(3), of "entry_json e"] False Cons.prems p(4-6) x
      by (simp add: shown_entry_def str_member_def json_str_def)
    with Cons x False e show ?thesis by (simp add: run_entries_def noted_entry_def noted_row_def List.map_filter_simps)
  qed
qed (simp add: run_entries_def List.map_filter_simps)

definition text_disk :: "text_files \<Rightarrow> reader" where
  "text_disk fs p = (case fs p of Some c \<Rightarrow> FileText c | None \<Rightarrow> FileMissing)"

definition run_written :: "(string \<Rightarrow> json option) \<Rightarrow> ((string \<rightharpoonup> json) \<Rightarrow> string list) \<Rightarrow> (json \<Rightarrow> string) \<Rightarrow> string \<Rightarrow>
    string \<Rightarrow> string \<Rightarrow> noted list \<Rightarrow> text_files \<Rightarrow> bool" where
  "run_written parse ord render base run_id session_id xs fs \<longleftrightarrow>
     list_all (elsewhere base run_id) xs \<and> list_all (\<lambda>(fails, ts, d, ev). event_fits ev) xs \<and>
     list_all (prints parse render) (run_entries ord run_id session_id xs) \<and> fs (run_file base run_id) = None"

lemma written_file:
  "run_written parse ord render base run_id session_id xs fs \<Longrightarrow>
   write_run ord render base run_id session_id xs fs (run_file base run_id) =
     (if run_entries ord run_id session_id xs = [] then None else Some (log_text render (run_entries ord run_id session_id xs)))"
  by (simp add: run_written_def write_run_file)

lemma no_rows: "run_written parse ord render base run_id session_id xs fs \<Longrightarrow>
   (run_entries ord run_id session_id xs = []) = (List.map_filter noted_row xs = [])"
  using noted_shown [of xs ord run_id session_id] by (auto simp: run_written_def)

lemma len_rows: "run_written parse ord render base run_id session_id xs fs \<Longrightarrow>
   length (run_entries ord run_id session_id xs) = length (List.map_filter noted_row xs)"
  using arg_cong [OF noted_shown [of xs ord run_id session_id], of length] by (simp add: run_written_def)

text \<open>
  What a client reads of a run is what the run did.  Whatever events happened, in whatever order and
  whichever writes failed, reading the log gives one line per event that was written, in order, with its
  time, its name and its summary; events of plugins and single tokens are not among them.
\<close>

theorem log_roundtrip:
  assumes "run_written parse ord render base run_id session_id xs fs"
  shows "log_handle parse (text_disk (write_run ord render base run_id session_id xs fs)) listing (path_join base ''logs'')
      (LogReadRequest run_id) = List.map_filter noted_row xs"
proof -
  have shown: "map shown_entry (run_entries ord run_id session_id xs) = List.map_filter noted_row xs"
    and ok: "list_all (prints parse render) (run_entries ord run_id session_id xs)"
    using assms noted_shown by (auto simp: run_written_def)
  show ?thesis
    using written_file [OF assms] shown
    by (cases "run_entries ord run_id session_id xs = []")
      (simp_all add: log_handle_def read_run_def text_disk_def run_file_def [symmetric] log_nonblank [OF ok] log_parsed [OF ok])
qed

lemma last_entry_map:
  "list_all (prints parse render) js \<Longrightarrow> last_entry parse (map render js) z =
     (if js = [] then z else (str_member ''event'' (last js), str_member ''timestamp'' (last js)))"
  by (induction js arbitrary: z) (auto simp: prints_def)

text \<open>
  The terminal program shows nothing of a log.  The writer puts the members of an event beside those of the
  entry, while the reader it uses wants them in a member of their own, so no line is ever read: the
  view of a run is empty and its row in the list counts the events but does not know the last one.
\<close>

theorem tui_log_empty:
  assumes "run_written parse ord render base run_id session_id xs fs" "List.map_filter noted_row xs \<noteq> []"
    and "write_run ord render base run_id session_id xs fs (run_file base run_id) = Some c"
  shows "tui_load_run parse read_time debug clock (Some c) shown = [] \<and>
    tui_run_row parse read_time clock run_id c =
      \<lparr> rn_run_id = run_id, rn_event_count = length (List.map_filter noted_row xs), rn_last_event = ''unknown'',
        rn_last_event_time = long_dash \<rparr>"
proof -
  let ?js = "run_entries ord run_id session_id xs"
  have ok: "list_all (prints parse render) ?js" and some: "?js \<noteq> []" and len: "length ?js = length (List.map_filter noted_row xs)"
    using assms(1,2) no_rows [OF assms(1)] len_rows [OF assms(1)] by (simp_all add: run_written_def)
  have c: "c = log_text render ?js" using assms(3) written_file [OF assms(1)] some by simp
  have none: "line_entry parse read_time (render j) = None" if "j \<in> set ?js" for j
  proof -
    from that obtain x e where x: "noted_entry ord run_id session_id x = Some e" "j = entry_json e"
      by (auto simp: run_entries_def List.map_filter_def)
    obtain fails ts d ev where "x = (fails, ts, d, ev)" by (cases x)
    with x(1) have "entry_of_json read_time j = None"
      using event_unreadable x(2) by (auto simp: noted_entry_def split: if_splits)
    moreover have "parse (render j) = Some j" using ok that by (simp add: list_all_iff prints_def)
    ultimately show ?thesis by (simp add: line_entry_def)
  qed
  have "List.map_filter (line_entry parse read_time) (map render ?js) = []"
    using none by (auto simp: List.map_filter_def filter_empty_conv)
  moreover have "line_entry parse read_time (last (map render ?js)) = None"
    using none [of "last ?js"] some by (simp add: last_map)
  ultimately show ?thesis
    using some len by (simp add: tui_load_run_def tui_run_row_def c log_lines [OF ok] Let_def)
qed

text \<open>
  A client reads any file.  The path of a file and the identifier of a run are not confined: an absolute one leads
  anywhere, whatever the directory of the data plane is.
\<close>

theorem reads_anywhere:
  assumes "is_absolute p"
  shows "handle_file_read reads dir p = (case reads p of Inr c \<Rightarrow> FileContent c | Inl e \<Rightarrow> FileFailed ''file_read_failed'' (''Failed to read file: '' @ e)) \<and>
    (\<forall>c. disk (p @ ''.jsonl'') = FileText c \<longrightarrow>
       log_handle parse disk listing dir (LogReadRequest p) = map shown_entry (List.map_filter parse (entry_lines c)))"
  using assms by (auto simp: handle_file_read_def resolve_file_def log_handle_def read_run_def path_join_def is_absolute_def)

text \<open>
  The list of runs.  Its row of a run has the number of events written, the name and the time of the last one.
\<close>

theorem run_row_spec:
  assumes "run_written parse ord render base run_id session_id (xs @ [(False, ts, d, ev)]) fs"
    and "should_log ev" "\<not> is_plugin_event ev"
    and "write_run ord render base run_id session_id (xs @ [(False, ts, d, ev)]) fs (run_file base run_id) = Some c"
  shows "run_row_of parse run_id c =
    \<lparr> rn_run_id = run_id, rn_event_count = length (List.map_filter noted_row xs) + 1, rn_last_event = event_name ev,
      rn_last_event_time = ts \<rparr>"
proof -
  let ?xs = "xs @ [(False, ts, d, ev)]"
  let ?js = "run_entries ord run_id session_id ?xs"
  obtain j where "log_data ord d ev = Some j" using data_logged [OF assms(2)] by blast
  then obtain e where e: "create_log_entry ord ts d ev run_id session_id = Some e" by (simp add: create_log_entry_def)
  have ok: "list_all (prints parse render) ?js" and len: "length ?js = length (List.map_filter noted_row ?xs)"
    using assms(1) len_rows [OF assms(1)] by (simp_all add: run_written_def)
  have js: "?js = run_entries ord run_id session_id xs @ [entry_json e]"
    using assms(2,3) e by (simp add: run_entries_def noted_entry_def List.map_filter_def)
  have c: "c = log_text render ?js" using assms(4) written_file [OF assms(1)] js by simp
  have "length (List.map_filter noted_row ?xs) = length (List.map_filter noted_row xs) + 1"
    using assms(2,3) by (simp add: noted_row_def List.map_filter_def)
  then show ?thesis
    using entry_parts(4,5) [OF assms(3) e] len
    by (simp add: run_row_of_def c log_nonblank [OF ok, unfolded js] last_entry_map [OF ok, unfolded js, simplified] js
        str_member_def json_str_def)
qed

section \<open>Witnesses\<close>

definition demo_render :: "json \<Rightarrow> string" where
  "demo_render j = (case json_str (json_get ''event'' j) of Some s \<Rightarrow> s | None \<Rightarrow> ''x'')"

definition demo_entry :: json where
  "demo_entry = JObj [(''timestamp'', JStr ''t''), (''event'', JStr ''AgentStart''), (''run_id'', JStr ''r''), (''session_id'', JStr ''s''),
     (''input'', JStr ''hi'')]"

definition demo_parse :: "string \<Rightarrow> json option" where
  "demo_parse l = (if l = ''AgentStart'' then Some demo_entry else None)"

definition demo_noted :: noted where
  "demo_noted = (False, ''t'', None, AgentStart ''hi'')"

lemma demo_written: "run_written demo_parse (\<lambda>m. []) demo_render ''b'' ''r'' ''s'' [demo_noted] Map.empty"
proof -
  have "run_entries (\<lambda>m. []) ''r'' ''s'' [demo_noted] = [demo_entry]"
    by (simp add: run_entries_def noted_entry_def demo_noted_def List.map_filter_simps log_defs demo_entry_def)
  moreover have render: "demo_render demo_entry = ''AgentStart''"
    by (simp add: demo_render_def demo_entry_def json_get_def json_str_def)
  have "prints demo_parse demo_render demo_entry"
    unfolding prints_def render
    by (simp add: demo_parse_def newline_free_def trim_def trim_start_def trim_end_def is_space_def)
  ultimately show ?thesis by (simp add: run_written_def demo_noted_def elsewhere_def event_fits_def)
qed

lemma demo_rows: "List.map_filter noted_row [demo_noted] = [JObj [(''timestamp'', JStr ''t''), (''event_type'', JStr ''AgentStart''),
    (''summary'', JStr (event_summary None (AgentStart ''hi'')))]]"
  by (simp add: demo_noted_def noted_row_def List.map_filter_simps)

theorem log_roundtrip_witness:
  "log_handle demo_parse (text_disk (write_run (\<lambda>m. []) demo_render ''b'' ''r'' ''s'' [demo_noted] Map.empty)) DirMissing
     (path_join ''b'' ''logs'') (LogReadRequest ''r'') =
   [JObj [(''timestamp'', JStr ''t''), (''event_type'', JStr ''AgentStart''), (''summary'', JStr (event_summary None (AgentStart ''hi'')))]]"
  using log_roundtrip [OF demo_written] demo_rows by simp

theorem tui_log_empty_witness:
  "\<exists>c. write_run (\<lambda>m. []) demo_render ''b'' ''r'' ''s'' [demo_noted] Map.empty (run_file ''b'' ''r'') = Some c \<and>
    tui_load_run demo_parse Some id id (Some c) [] = []"
proof -
  have "run_entries (\<lambda>m. []) ''r'' ''s'' [demo_noted] \<noteq> []"
    using no_rows [OF demo_written] demo_rows by simp
  then obtain c where c: "write_run (\<lambda>m. []) demo_render ''b'' ''r'' ''s'' [demo_noted] Map.empty (run_file ''b'' ''r'') = Some c"
    using written_file [OF demo_written] by simp
  with tui_log_empty [OF demo_written _ c, of Some id id "[]"] demo_rows show ?thesis by simp
qed

theorem reads_anywhere_witness:
  "handle_file_read (\<lambda>p. Inr p) ''w'' ''/etc/passwd'' = FileContent ''/etc/passwd''"
  using reads_anywhere [of "''/etc/passwd''" "\<lambda>p. Inr p" "''w''" "\<lambda>p. FileMissing" demo_parse DirMissing] by (simp add: is_absolute_def)

theorem run_row_spec_witness:
  "\<exists>c. rn_last_event (run_row_of demo_parse ''r'' c) = ''AgentStart'' \<and> rn_event_count (run_row_of demo_parse ''r'' c) = 1"
proof -
  have "run_entries (\<lambda>m. []) ''r'' ''s'' [demo_noted] \<noteq> []"
    using no_rows [OF demo_written] demo_rows by simp
  then obtain c where c: "write_run (\<lambda>m. []) demo_render ''b'' ''r'' ''s'' [demo_noted] Map.empty (run_file ''b'' ''r'') = Some c"
    using written_file [OF demo_written] by simp
  have "run_row_of demo_parse ''r'' c = \<lparr> rn_run_id = ''r'', rn_event_count = length (List.map_filter noted_row []) + 1,
      rn_last_event = event_name (AgentStart ''hi''), rn_last_event_time = ''t'' \<rparr>"
    using run_row_spec [of demo_parse "\<lambda>m. []" demo_render "''b''" "''r''" "''s''" "[]" "''t''" None "AgentStart ''hi''" Map.empty c]
      demo_written c by (simp add: demo_noted_def)
  then show ?thesis by (intro exI [of _ c]) (simp add: List.map_filter_simps)
qed

end
