(* ===== verification/SessionManager.thy ===== *)
theory SessionManager
  imports SessionFile Session DataPlane SandboxBackend "HOL-Library.Sublist"
begin

text \<open>
  The sessions of all agents of a node: the manager that keeps one session directory per agent,
  \<open>FileSessionManager\<close> of \<open>crates/vol-session/src/manager.rs\<close>, and the handler of the session operations of
  a data plane, \<open>crates/vol-agent-server/src/data_plane/handlers/session.rs\<close>.  The state is the content of
  every session directory, by the components of its path; what a scan of the root finds and the JSON
  library are parameters.
\<close>

section \<open>State\<close>

record session_info =
  si_id :: string
  si_agent_id :: string
  si_session_id :: string
  si_entry_count :: nat
  si_created_at :: int
  si_updated_at :: "int option"
  si_metadata :: metadata

type_synonym session_dirs = "component list \<Rightarrow> jsonl_store"

type_synonym 'a sm_eff = "(session_dirs, session_store_error, 'a) eff"

text \<open>
  A scan of the root of the agents: per directory entry an error, or its name, when it is valid UTF-8, and
  whether it is a directory.
\<close>

datatype root_scan =
    ScanMissing
  | ScanFailed string
  | ScanFound "(string + string option \<times> bool) list"

record session_manager =
  fm_root :: string
  fm_scan :: "session_dirs \<Rightarrow> root_scan"
  fm_dir :: "component list \<Rightarrow> jsonl_env"

definition at_dir :: "session_manager \<Rightarrow> string \<Rightarrow> (jsonl_env \<Rightarrow> 'a js_eff) \<Rightarrow> 'a sm_eff" where
  "at_dir M p f s =
     (let d = components p; (r, j) = f (fm_dir M d) (s d) in (r, s(d := j)))"

section \<open>Agent identifiers\<close>

text \<open>\<open>{:?}\<close> of a string; characters outside ASCII are printed as they are.\<close>

definition debug_char :: "char \<Rightarrow> string" where
  "debug_char c =
     (let n = of_char c :: nat in
      if n = 0 then [CHR 0x5C, CHR ''0'']
      else if n = 9 then [CHR 0x5C, CHR ''t'']
      else if n = 10 then [CHR 0x5C, CHR ''n'']
      else if n = 13 then [CHR 0x5C, CHR ''r'']
      else if n = 0x22 \<or> n = 0x5C then [CHR 0x5C, c]
      else if n < 32 \<or> n = 127 then [CHR 0x5C, CHR ''u'', CHR 0x7B] @ show_hex n @ [CHR 0x7D]
      else [c])"

definition debug_text :: "string \<Rightarrow> string" where
  "debug_text s = [CHR 0x22] @ concat (map debug_char s) @ [CHR 0x22]"

definition validate_agent_id :: "string \<Rightarrow> session_store_error + string" where
  "validate_agent_id a =
     (if a = [] then Inl (SsInvalidInput ''invalid agent_id: must not be empty'')
      else case components a of
             [Normal c] \<Rightarrow>
               if a \<noteq> ''.'' \<and> a \<noteq> ''..'' then Inr a
               else Inl (SsInvalidInput (''invalid agent_id '' @ debug_text a @ '': must be a single normal path component''))
           | _ \<Rightarrow> Inl (SsInvalidInput (''invalid agent_id '' @ debug_text a @ '': must be a single normal path component'')))"

definition invalid_agent_id_sentinel :: string where
  "invalid_agent_id_sentinel = ''.invalid-agent-id''"

definition hex_byte :: "char \<Rightarrow> string" where
  "hex_byte c = (let n = of_char c :: nat in [hex_char (n div 16), hex_char (n mod 16)])"

definition invalid_agent_sessions_dir :: "session_manager \<Rightarrow> string \<Rightarrow> string" where
  "invalid_agent_sessions_dir M a =
     path_join (path_join (path_join (fm_root M) invalid_agent_id_sentinel) (concat (map hex_byte a))) ''sessions''"

definition agent_sessions_dir :: "session_manager \<Rightarrow> string \<Rightarrow> string" where
  "agent_sessions_dir M a = path_join (path_join (fm_root M) a) ''sessions''"

text \<open>The directory of the store of an agent, as \<open>entry_store_for_agent\<close> chooses it.\<close>

definition entry_store_for_agent :: "session_manager \<Rightarrow> string \<Rightarrow> string" where
  "entry_store_for_agent M a =
     (case validate_agent_id a of Inr a \<Rightarrow> agent_sessions_dir M a | Inl e \<Rightarrow> invalid_agent_sessions_dir M a)"

section \<open>Finding sessions\<close>

fun dir_names :: "(string + string option \<times> bool) list \<Rightarrow> session_store_error + string list" where
  "dir_names [] = Inr []"
| "dir_names (Inl e # es) = Inl (SsIo e)"
| "dir_names (Inr (n, is_dir) # es) =
     (case dir_names es of
        Inl e \<Rightarrow> Inl e
      | Inr ns \<Rightarrow> Inr (case n of Some n \<Rightarrow> if is_dir then n # ns else ns | None \<Rightarrow> ns))"

definition agent_ids :: "session_manager \<Rightarrow> string list sm_eff" where
  "agent_ids M s =
     (case fm_scan M s of
        ScanMissing \<Rightarrow> (Inr [], s)
      | ScanFailed e \<Rightarrow> (Inl (SsIo e), s)
      | ScanFound es \<Rightarrow> (case dir_names es of Inl e \<Rightarrow> (Inl e, s) | Inr ns \<Rightarrow> (Inr (sort ns), s)))"

definition session_matches :: "session_manager \<Rightarrow> string \<Rightarrow> string \<Rightarrow> bool sm_eff" where
  "session_matches M a sid =
     bindE (liftE (validate_agent_id a)) (\<lambda>a.
       bindE (at_dir M (agent_sessions_dir M a) js_list_sessions) (\<lambda>xs.
         ret (list_ex (\<lambda>x. su_session_id x = sid) xs)))"

fun agents_with :: "session_manager \<Rightarrow> string \<Rightarrow> string list \<Rightarrow> string list sm_eff" where
  "agents_with M sid [] = ret []"
| "agents_with M sid (a # as) =
     bindE (session_matches M a sid) (\<lambda>found.
       bindE (agents_with M sid as) (\<lambda>rest. ret (if found then a # rest else rest)))"

definition resolve_agent_for_session :: "session_manager \<Rightarrow> string option \<Rightarrow> string \<Rightarrow> string sm_eff" where
  "resolve_agent_for_session M agent sid =
     (case agent of
        Some a \<Rightarrow> bindE (session_matches M a sid) (\<lambda>found.
          if found then ret a else fail (SsNotFound (''session '' @ sid @ '' for agent '' @ a)))
      | None \<Rightarrow> bindE (agent_ids M) (\<lambda>ids. bindE (agents_with M sid ids) (\<lambda>found.
          case found of
            [] \<Rightarrow> fail (SsNotFound (''session '' @ sid))
          | [a] \<Rightarrow> ret a
          | _ \<Rightarrow> fail (SsInternal (''ambiguous session '' @ sid @ '': found under agents '' @ join '', '' found)))))"

definition entry_store_for_session :: "session_manager \<Rightarrow> string option \<Rightarrow> string \<Rightarrow> string sm_eff" where
  "entry_store_for_session M agent sid =
     bindE (resolve_agent_for_session M agent sid) (\<lambda>a. ret (agent_sessions_dir M a))"

definition session_exists :: "session_manager \<Rightarrow> string option \<Rightarrow> string \<Rightarrow> bool sm_eff" where
  "session_exists M agent sid s =
     (case resolve_agent_for_session M agent sid s of
        (Inr a, s) \<Rightarrow> (Inr True, s)
      | (Inl (SsNotFound e), s) \<Rightarrow> (Inr False, s)
      | (Inl e, s) \<Rightarrow> (Inl e, s))"

section \<open>Listing sessions\<close>

definition md_or_empty :: "metadata js_eff \<Rightarrow> metadata js_eff" where
  "md_or_empty m s = (case m s of (Inr md, s) \<Rightarrow> (Inr md, s) | (Inl e, s) \<Rightarrow> (Inr Map.empty, s))"

fun infos_of :: "session_manager \<Rightarrow> string \<Rightarrow> session_summary list \<Rightarrow> session_info list sm_eff" where
  "infos_of M a [] = ret []"
| "infos_of M a (x # xs) =
     bindE (at_dir M (agent_sessions_dir M a) (\<lambda>E. md_or_empty (js_get_metadata E (su_session_id x)))) (\<lambda>md.
       bindE (infos_of M a xs) (\<lambda>rest. ret (\<lparr> si_id = su_session_id x, si_agent_id = a,
         si_session_id = su_session_id x, si_entry_count = su_entry_count x, si_created_at = su_created_at x,
         si_updated_at = None, si_metadata = md \<rparr> # rest)))"

fun infos_of_agents :: "session_manager \<Rightarrow> string list \<Rightarrow> session_info list sm_eff" where
  "infos_of_agents M [] = ret []"
| "infos_of_agents M (a # as) =
     bindE (at_dir M (agent_sessions_dir M a) js_list_sessions) (\<lambda>xs.
       bindE (infos_of M a xs) (\<lambda>is. bindE (infos_of_agents M as) (\<lambda>rest. ret (is @ rest))))"

definition sm_list_sessions :: "session_manager \<Rightarrow> string option \<Rightarrow> session_info list sm_eff" where
  "sm_list_sessions M agent =
     bindE (case agent of
        Some a \<Rightarrow> bindE (liftE (validate_agent_id a)) (\<lambda>a. ret [a])
      | None \<Rightarrow> agent_ids M) (\<lambda>ids.
       bindE (infos_of_agents M ids) (\<lambda>is. ret (sort_key (\<lambda>i. - si_created_at i) is)))"

section \<open>The handler\<close>

datatype session_body =
    SbList "string option"
  | SbResume string "string option"
  | SbEntries string "string option"
  | SbOther

datatype session_reply =
    SrList "json list"
  | SrResumed string bool nat "json list"
  | SrEntries "json list"
  | SrFailed error_payload

definition session_store_error_payload :: "session_store_error \<Rightarrow> string \<Rightarrow> error_payload" where
  "session_store_error_payload e fallback =
     \<lparr> ep_code = (case e of
          SsNotFound d \<Rightarrow> ''session_not_found''
        | SsInvalidInput d \<Rightarrow> ''invalid_request''
        | SsScopeConflict s x a \<Rightarrow> ''session_scope_conflict''
        | SsInternal d \<Rightarrow> if sublist ''ambiguous session'' d then ''ambiguous_session'' else fallback
        | SsDatabase d \<Rightarrow> ''session_store_failed''
        | _ \<Rightarrow> fallback),
       ep_message = display_session_store_error e, ep_detail = None, ep_terminal = True \<rparr>"

record session_codec_env =
  sv_manager :: session_manager
  sv_entry_json :: "session_entry \<Rightarrow> json option"
  sv_map_json :: "metadata \<Rightarrow> json"

definition info_json :: "session_codec_env \<Rightarrow> session_info \<Rightarrow> json" where
  "info_json V i = JObj [(''id'', JStr (si_id i)), (''agent_id'', JStr (si_agent_id i)),
     (''session_id'', JStr (si_session_id i)), (''entry_count'', JNum (int (si_entry_count i))),
     (''created_at'', JNum (si_created_at i)), (''metadata'', sv_map_json V (si_metadata i))]"

text \<open>The entries of a session, read from the directory that resolving the session gave.\<close>

definition entries_at :: "session_codec_env \<Rightarrow> string option \<Rightarrow> string \<Rightarrow> (string \<times> session_entry list) sm_eff" where
  "entries_at V agent sid =
     bindE (entry_store_for_session (sv_manager V) agent sid) (\<lambda>dir.
       bindE (at_dir (sv_manager V) dir (\<lambda>E. js_get_entries E sid)) (\<lambda>es. ret (dir, es)))"

definition handle_sessions :: "session_codec_env \<Rightarrow> string option \<Rightarrow> session_dirs \<Rightarrow> session_reply \<times> session_dirs" where
  "handle_sessions V agent s =
     (case sm_list_sessions (sv_manager V) agent s of
        (Inl e, s) \<Rightarrow> (SrFailed (session_store_error_payload e ''session_list_failed''), s)
      | (Inr is, s) \<Rightarrow> (SrList (map (info_json V) is), s))"

definition handle_entries :: "session_codec_env \<Rightarrow> string \<Rightarrow> string option \<Rightarrow> session_dirs \<Rightarrow> session_reply \<times> session_dirs" where
  "handle_entries V sid agent s =
     (case entries_at V agent sid s of
        (Inl e, s) \<Rightarrow> (SrFailed (session_store_error_payload e ''session_entries_failed''), s)
      | (Inr (dir, es), s) \<Rightarrow> (SrEntries (List.map_filter (sv_entry_json V) es), s))"

definition dash :: string where
  "dash = [CHR 0xE2, CHR 0x80, CHR 0x94]"

definition handle_resume ::
  "session_codec_env \<Rightarrow> string \<Rightarrow> string option \<Rightarrow> session_dirs \<Rightarrow> data_plane \<Rightarrow>
   session_reply \<times> session_dirs \<times> data_plane" where
  "handle_resume V sid agent s d =
     (let M = sv_manager V; failed = (\<lambda>e. SrFailed (session_store_error_payload e ''session_resume_failed'')) in
      case resolve_agent_for_session M agent sid s of
        (Inl e, s) \<Rightarrow> (failed e, s, d)
      | (Inr a, s) \<Rightarrow>
          (case entries_at V (Some a) sid s of
             (Inl e, s) \<Rightarrow> (failed e, s, d)
           | (Inr (dir, es), s) \<Rightarrow>
               (case at_dir M dir (\<lambda>E. session_resume (js_ops E) sid) s of
                  (Inl e, s) \<Rightarrow> (SrFailed \<lparr> ep_code = ''session_resume_failed'',
                      ep_message = ''Failed to resume session: '' @ display_session_store_error e, ep_detail = None,
                      ep_terminal = True \<rparr>, s, d)
                | (Inr ss, s) \<Rightarrow>
                    (case router_swap_session a (ss_id ss) d of
                       (Inl e, d) \<Rightarrow> (SrFailed \<lparr> ep_code = ''agent_busy'',
                           ep_message = ''Session loaded but agent is running '' @ dash @ '' try again when idle: '' @
                             display_channel_error e, ep_detail = None, ep_terminal = False \<rparr>, s, d)
                     | (Inr _, d) \<Rightarrow>
                         (let js = List.map_filter (sv_entry_json V) es
                          in (SrResumed sid True (length js) js, s, d))))))"

definition session_handle ::
  "session_codec_env \<Rightarrow> operation \<Rightarrow> session_body \<Rightarrow> session_dirs \<times> data_plane \<Rightarrow>
   (protocol_error + session_reply) \<times> session_dirs \<times> data_plane" where
  "session_handle V op b w =
     (case w of (s, d) \<Rightarrow>
       case op of
         OpSession SeListOp \<Rightarrow>
           (case b of SbList agent \<Rightarrow> (case handle_sessions V agent s of (r, s) \<Rightarrow> (Inr r, s, d))
            | _ \<Rightarrow> (Inl (PayloadDecodeFailed ''session.list''), s, d))
       | OpSession SeResumeOp \<Rightarrow>
           (case b of SbResume sid agent \<Rightarrow> map_prod Inr id (handle_resume V sid agent s d)
            | _ \<Rightarrow> (Inl (PayloadDecodeFailed ''session.resume''), s, d))
       | OpSession SeEntriesOp \<Rightarrow>
           (case b of SbEntries sid agent \<Rightarrow> (case handle_entries V sid agent s of (r, s) \<Rightarrow> (Inr r, s, d))
            | _ \<Rightarrow> (Inl (PayloadDecodeFailed ''session.entries''), s, d))
       | _ \<Rightarrow> (Inl (PayloadDecodeFailed ''session''), s, d))"

end
