(* ===== verification/SessionManagerCorrect.thy ===== *)
theory SessionManagerCorrect
  imports SessionManager DataPlaneCorrect SessionFileCorrect
begin

text \<open>
  The sessions of a node: no agent identifier leads out of the root of the agents, what resolving a session
  answers, and in which session an agent runs after a session was resumed.
\<close>

section \<open>Directories\<close>

lemma concat_singleton:
  "concat (map f xs) = [y] \<Longrightarrow> (\<And>x. length (f x) \<le> 1) \<Longrightarrow> \<exists>x \<in> set xs. f x = [y]"
  by (induction xs) (fastforce simp: append_eq_Cons_conv)+

lemma valid_components:
  assumes "validate_agent_id a = Inr b"
  shows "\<exists>c. b = a \<and> good_name c \<and> \<not> is_absolute a \<and> rel_components a = [Normal c]"
proof -
  from assms obtain c where c: "components a = [Normal c]" "b = a"
    by (auto simp: validate_agent_id_def split: if_splits list.splits component.splits)
  have rel: "\<not> is_absolute a"
    using c(1) by (auto simp: components_def Let_def)
  have "rel_components a = [Normal c]"
    using c(1) rel by (auto simp: components_def rel_components_def Let_def split: if_splits)
  moreover from this have "good_name c" using rel_components_set [of "Normal c" a] by simp
  ultimately show ?thesis using c(2) rel by blast
qed

lemma plain_name: "good_name n \<Longrightarrow> \<not> is_absolute n \<and> rel_components n = [Normal n]"
  using rel_components_names [of "[n]"] join_names_relative [of "[n]"] by simp

lemma sessions_name: "good_name ''sessions''" "good_name invalid_agent_id_sentinel"
  by (simp_all add: good_name_def invalid_agent_id_sentinel_def)

lemma of_hex_char: "n < 16 \<Longrightarrow> of_char (hex_char n) = (if n < 10 then 48 + n else 87 + n)"
  by (simp add: hex_char_def)

lemma hex_char_plain: "n < 16 \<Longrightarrow> hex_char n \<noteq> CHR ''/'' \<and> hex_char n \<noteq> CHR ''.''"
  using of_hex_char [of n] by (auto split: if_splits)

lemma hex_char_inj: "m < 16 \<Longrightarrow> n < 16 \<Longrightarrow> hex_char m = hex_char n \<Longrightarrow> m = n"
proof -
  assume n: "m < 16" "n < 16" "hex_char m = hex_char n"
  then have "(if m < 10 then 48 + m else 87 + m) = (if n < 10 then 48 + n else 87 + n)"
    using of_hex_char [OF n(1)] of_hex_char [OF n(2)] by simp
  with n(1,2) show ?thesis by (simp split: if_splits)
qed

lemma hex_digits: "(of_char c :: nat) div 16 < 16" "(of_char c :: nat) mod 16 < 16"
proof -
  have "(of_char c :: nat) < 256" by simp
  then show "(of_char c :: nat) div 16 < 16" by linarith
qed simp

lemma hex_byte_inj: "hex_byte c = hex_byte d \<Longrightarrow> c = d"
proof -
  assume "hex_byte c = hex_byte d"
  then have "hex_char (of_char c div 16) = hex_char (of_char d div 16)" "hex_char (of_char c mod 16) = hex_char (of_char d mod 16)"
    by (simp_all add: hex_byte_def Let_def)
  then have "(of_char c :: nat) div 16 = of_char d div 16" "(of_char c :: nat) mod 16 = of_char d mod 16"
    using hex_char_inj hex_digits by blast+
  then have "(of_char c :: nat) = of_char d" by (metis div_mult_mod_eq)
  then show ?thesis by simp
qed

lemma hex_text_inj: "concat (map hex_byte a) = concat (map hex_byte b) \<Longrightarrow> a = b"
proof (induction a arbitrary: b)
  case Nil
  then show ?case by (cases b) (simp_all add: hex_byte_def Let_def)
next
  case (Cons c a)
  then obtain d b' where b: "b = d # b'" by (cases b) (simp_all add: hex_byte_def Let_def)
  have "length (hex_byte c) = length (hex_byte d)" by (simp add: hex_byte_def Let_def)
  with Cons.prems b have "hex_byte c = hex_byte d" "concat (map hex_byte a) = concat (map hex_byte b')"
    by simp_all
  with Cons.IH b show ?case using hex_byte_inj by blast
qed

lemma hex_name: "a \<noteq> [] \<Longrightarrow> good_name (concat (map hex_byte a))"
proof -
  assume a: "a \<noteq> []"
  let ?h = "concat (map hex_byte a)"
  have "CHR ''/'' \<notin> set (hex_byte c) \<and> CHR ''.'' \<notin> set (hex_byte c)" for c
    using hex_char_plain [OF hex_digits(1) [of c]] hex_char_plain [OF hex_digits(2) [of c]]
    by (auto simp: hex_byte_def Let_def)
  then have no: "CHR ''/'' \<notin> set ?h" "CHR ''.'' \<notin> set ?h" by auto
  have "?h \<noteq> []" using a by (cases a) (simp_all add: hex_byte_def Let_def)
  moreover have "?h \<noteq> ''.''" "?h \<noteq> ''..''" using no(2) by (metis list.set_intros(1))+
  ultimately show ?thesis using no(1) by (simp add: good_name_def)
qed

lemma valid_dir:
  assumes "is_absolute (fm_root M)" "validate_agent_id a = Inr b"
  shows "\<exists>c. good_name c \<and> components (agent_sessions_dir M a) = components (fm_root M) @ [Normal c, Normal ''sessions'']"
proof -
  obtain c where c: "good_name c" "\<not> is_absolute a" "rel_components a = [Normal c]"
    using valid_components [OF assms(2)] by blast
  have "components (agent_sessions_dir M a) = components (path_join (fm_root M) a) @ [Normal ''sessions'']"
    using components_join [OF is_absolute_join [OF assms(1) c(2)]] plain_name [OF sessions_name(1)]
    by (simp add: agent_sessions_dir_def)
  then show ?thesis using components_join [OF assms(1) c(2)] c(1,3) by auto
qed

lemma invalid_dir:
  assumes "is_absolute (fm_root M)"
  shows "components (invalid_agent_sessions_dir M a) = components (fm_root M) @ Normal invalid_agent_id_sentinel #
    (if a = [] then [] else [Normal (concat (map hex_byte a))]) @ [Normal ''sessions'']"
proof -
  let ?h = "concat (map hex_byte a)"
  have h: "\<not> is_absolute ?h \<and> rel_components ?h = (if a = [] then [] else [Normal ?h])"
    using plain_name [OF hex_name] by (cases "a = []") (auto simp: is_absolute_def rel_components_def seg_component_def)
  note s = plain_name [OF sessions_name(1)] plain_name [OF sessions_name(2)]
  have one: "is_absolute (path_join (fm_root M) invalid_agent_id_sentinel)"
    using is_absolute_join [OF assms] s(2) by blast
  have two: "is_absolute (path_join (path_join (fm_root M) invalid_agent_id_sentinel) ?h)"
    using is_absolute_join [OF one] h by blast
  show ?thesis
    using components_join [OF two] components_join [OF one] components_join [OF assms] s h
    by (simp add: invalid_agent_sessions_dir_def)
qed

section \<open>Reading leaves the directories unchanged\<close>

definition reads :: "('s, 'e, 'a) eff \<Rightarrow> bool" where
  "reads m \<longleftrightarrow> (\<forall>s. snd (m s) = s)"

lemma reads_basic [intro, simp]: "reads (ret x)" "reads (fail e)" "reads (liftE r)" "reads (Pair q)"
  by (simp_all add: reads_def liftE_def)

lemma reads_bind [intro]: "reads m \<Longrightarrow> (\<And>x. reads (f x)) \<Longrightarrow> reads (bindE m f)"
  by (auto simp: reads_def bindE_def split: prod.splits sum.splits) (metis snd_conv)+

lemma reads_at: "(\<And>E. reads (f E)) \<Longrightarrow> reads (at_dir M p f)"
  by (auto simp: reads_def at_dir_def Let_def split: prod.split) (metis snd_conv fun_upd_triv)

lemma reads_file: "reads (with_file E n x f)"
  by (simp add: reads_def with_file_def split: option.split)

lemma reads_summaries: "reads (summarize_all E ns)"
  by (induction ns) (auto split: option.split intro: reads_file)

lemma reads_list: "reads (js_list_sessions E)"
proof -
  have "reads (\<lambda>s. bindE (summarize_all E (je_order E (js_files s))) (\<lambda>xs. ret (sort_key (\<lambda>x. - su_created_at x) xs)) s)"
    using reads_bind [OF reads_summaries, of "\<lambda>xs. ret (sort_key (\<lambda>x. - su_created_at x) xs)" E]
    by (simp add: reads_def)
  moreover have "reads (js_call E ScanDir)" by (simp add: reads_def js_call_def split: option.split)
  ultimately show ?thesis unfolding js_list_sessions_def by (intro reads_bind)
qed

lemma reads_matches: "reads (session_matches M a sid)"
  unfolding session_matches_def by (intro reads_bind reads_at) (auto intro: reads_list)

lemma reads_ids: "reads (agent_ids M)"
  by (simp add: reads_def agent_ids_def split: root_scan.split sum.split)

lemma reads_with: "reads (agents_with M sid as)"
  by (induction as) (auto intro: reads_matches)

lemma reads_resolve: "reads (resolve_agent_for_session M agent sid)"
proof (cases agent)
  case None
  have "reads (case found of [] \<Rightarrow> fail e | [a] \<Rightarrow> ret a | _ \<Rightarrow> fail e')" for found :: "string list" and e e'
    by (simp split: list.split)
  then show ?thesis unfolding resolve_agent_for_session_def None
    by (auto intro!: reads_bind reads_ids reads_with split: list.split)
qed (auto simp: resolve_agent_for_session_def intro!: reads_bind reads_matches)

lemma reads_get: "reads (js_get_entries E sid)"
  by (simp add: js_get_entries_def read_from_head_def reads_file)

lemma reads_resume: "reads (session_resume (js_ops E) sid)"
  unfolding session_resume_def by (intro reads_bind) (simp_all add: js_ops_def reads_get)

lemma reads_entries: "reads (entries_at V agent sid)"
  unfolding entries_at_def entry_store_for_session_def by (intro reads_bind reads_at reads_resolve reads_get reads_basic)

lemma reads_result: "reads m \<Longrightarrow> m s = (r, s') \<Longrightarrow> s' = s"
  by (metis reads_def snd_conv)

section \<open>Resolving\<close>

text \<open>What a scan of the root and of the directories of the agents finds, when all of them can be read.\<close>

definition found_in :: "session_manager \<Rightarrow> session_dirs \<Rightarrow> string \<Rightarrow> string \<Rightarrow> bool" where
  "found_in M s sid a \<longleftrightarrow> session_matches M a sid s = (Inr True, s)"

definition readable :: "session_manager \<Rightarrow> session_dirs \<Rightarrow> string \<Rightarrow> bool" where
  "readable M s a \<longleftrightarrow> (\<exists>b xs. validate_agent_id a = Inr b \<and> fst (at_dir M (agent_sessions_dir M a) js_list_sessions s) = Inr xs)"

lemma matches_readable:
  assumes "readable M s a"
  shows "session_matches M a sid s = (Inr (found_in M s sid a), s)"
proof -
  obtain xs where v: "validate_agent_id a = Inr a"
    and xs: "fst (at_dir M (agent_sessions_dir M a) js_list_sessions s) = Inr xs"
    using assms valid_components by (fastforce simp: readable_def)
  have "snd (at_dir M (agent_sessions_dir M a) js_list_sessions s) = s"
    using reads_at [OF reads_list] by (simp add: reads_def)
  with xs have "at_dir M (agent_sessions_dir M a) js_list_sessions s = (Inr xs, s)" by (cases "at_dir M (agent_sessions_dir M a) js_list_sessions s") simp
  with v have "session_matches M a sid s = (Inr (list_ex (\<lambda>x. su_session_id x = sid) xs), s)"
    by (simp add: session_matches_def bindE_def liftE_def)
  then show ?thesis by (cases "list_ex (\<lambda>x. su_session_id x = sid) xs") (simp_all add: found_in_def)
qed

lemma with_readable:
  "\<forall>a \<in> set as. readable M s a \<Longrightarrow> agents_with M sid as s = (Inr (filter (found_in M s sid) as), s)"
  by (induction as) (simp_all add: bindE_def matches_readable)

lemma unreadable_stops:
  assumes "a \<in> set as" "\<not> readable M s a"
  shows "\<exists>e. agents_with M sid as s = (Inl e, s)"
  using assms(1)
proof (induction as)
  case (Cons b as)
  have state: "snd (session_matches M b sid s) = s" using reads_matches by (simp add: reads_def)
  show ?case
  proof (cases "fst (session_matches M b sid s)")
    case (Inl e)
    with state show ?thesis by (cases "session_matches M b sid s") (simp add: bindE_def)
  next
    case (Inr f)
    have "readable M s b"
      using Inr by (auto simp: readable_def session_matches_def bindE_def liftE_def split: prod.splits sum.splits dest: valid_components)
    with Cons assms(2) obtain e where "agents_with M sid as s = (Inl e, s)" by auto
    with state Inr show ?thesis by (cases "session_matches M b sid s") (simp add: bindE_def)
  qed
qed simp

section \<open>Properties\<close>

text \<open>
  The directory of the sessions of an agent.  Whatever an agent is called, with separators and parent directories
  in its name, its sessions are kept below the root of the agents, under ordinary names; and a
  name that is not a single name gets a directory of its own, apart from those of all
  others, except for the empty name, which shares that of the agent with the reserved name.
\<close>

theorem agent_directories:
  assumes "is_absolute (fm_root M)"
  shows "(\<exists>ns. components (entry_store_for_agent M a) = components (fm_root M) @ map Normal ns \<and> list_all good_name ns) \<and>
    (\<forall>b. a \<noteq> b \<longrightarrow> a \<noteq> [] \<longrightarrow> b \<noteq> [] \<longrightarrow> validate_agent_id a \<noteq> Inr a \<longrightarrow>
       components (entry_store_for_agent M a) \<noteq> components (entry_store_for_agent M b)) \<and>
    components (entry_store_for_agent M []) = components (entry_store_for_agent M invalid_agent_id_sentinel)"
proof (intro conjI allI impI)
  let ?root = "components (fm_root M)"
  show "\<exists>ns. components (entry_store_for_agent M a) = ?root @ map Normal ns \<and> list_all good_name ns"
  proof (cases "validate_agent_id a")
    case (Inl e)
    let ?ns = "invalid_agent_id_sentinel # (if a = [] then [] else [concat (map hex_byte a)]) @ [''sessions'']"
    have "list_all good_name ?ns" using sessions_name hex_name by simp
    then show ?thesis
      using Inl invalid_dir [OF assms, of a] by (intro exI [of _ ?ns]) (simp add: entry_store_for_agent_def)
  next
    case (Inr b)
    then obtain c where "good_name c" "components (agent_sessions_dir M a) = ?root @ [Normal c, Normal ''sessions'']"
      using valid_dir [OF assms] by blast
    with Inr sessions_name valid_components [OF Inr] show ?thesis
      by (intro exI [of _ "[c, ''sessions'']"]) (simp add: entry_store_for_agent_def)
  qed
next
  fix b
  assume ne: "a \<noteq> b" "a \<noteq> []" "b \<noteq> []" and bad: "validate_agent_id a \<noteq> Inr a"
  then obtain e where a: "validate_agent_id a = Inl e"
    using valid_components by (cases "validate_agent_id a") blast+
  show "components (entry_store_for_agent M a) \<noteq> components (entry_store_for_agent M b)"
  proof (cases "validate_agent_id b")
    case (Inl e')
    then show ?thesis
      using a ne invalid_dir [OF assms, of a] invalid_dir [OF assms, of b] hex_text_inj [of a b]
      by (auto simp: entry_store_for_agent_def)
  next
    case (Inr b')
    with a ne valid_components [OF Inr] valid_dir [OF assms Inr] invalid_dir [OF assms, of a] show ?thesis
      by (auto simp: entry_store_for_agent_def)
  qed
next
  have "validate_agent_id invalid_agent_id_sentinel = Inr invalid_agent_id_sentinel" "validate_agent_id [] = Inl (SsInvalidInput ''invalid agent_id: must not be empty'')"
    by code_simp+
  moreover from valid_dir [OF assms this(1)] have
    "components (agent_sessions_dir M invalid_agent_id_sentinel) = components (fm_root M) @ [Normal invalid_agent_id_sentinel, Normal ''sessions'']"
    using components_join [OF is_absolute_join [OF assms]] components_join [OF assms] plain_name [OF sessions_name(1)] plain_name [OF sessions_name(2)]
    by (simp add: agent_sessions_dir_def)
  ultimately show "components (entry_store_for_agent M []) = components (entry_store_for_agent M invalid_agent_id_sentinel)"
    using invalid_dir [OF assms, of "[]"] by (simp add: entry_store_for_agent_def)
qed

text \<open>
  Resolving a session.  When all directories can be read, the answer is the only agent that has a session
  of this name; without such an agent it is not found, and with several it is ambiguous.  One directory that
  cannot be read makes resolving fail for every session, also for those of other agents.
\<close>

theorem resolve_session_spec:
  assumes "agent_ids M s = (Inr ids, s)"
  shows "((\<forall>a \<in> set ids. readable M s a) \<longrightarrow>
      resolve_agent_for_session M None sid s =
        (case filter (found_in M s sid) ids of
           [] \<Rightarrow> Inl (SsNotFound (''session '' @ sid))
         | [a] \<Rightarrow> Inr a
         | as \<Rightarrow> Inl (SsInternal (''ambiguous session '' @ sid @ '': found under agents '' @ join '', '' as)), s)) \<and>
    (\<forall>a \<in> set ids. \<not> readable M s a \<longrightarrow> (\<forall>sid. \<exists>e. resolve_agent_for_session M None sid s = (Inl e, s)))"
proof (intro conjI impI ballI allI)
  assume "\<forall>a \<in> set ids. readable M s a"
  from with_readable [OF this, of sid] assms
  show "resolve_agent_for_session M None sid s =
        (case filter (found_in M s sid) ids of
           [] \<Rightarrow> Inl (SsNotFound (''session '' @ sid))
         | [a] \<Rightarrow> Inr a
         | as \<Rightarrow> Inl (SsInternal (''ambiguous session '' @ sid @ '': found under agents '' @ join '', '' as)), s)"
    by (simp add: resolve_agent_for_session_def bindE_def split: list.split)
next
  fix a sid
  assume "a \<in> set ids" "\<not> readable M s a"
  from unreadable_stops [OF this, of sid] assms show "\<exists>e. resolve_agent_for_session M None sid s = (Inl e, s)"
    by (auto simp: resolve_agent_for_session_def bindE_def)
qed

text \<open>
  C29: Resuming a session.  When it is reported as resumed, the agent that owns the session exists, is
  idle, and runs in this session from now on; nothing else changes, the session that was asked for last is
  not forgotten either: a submission that asks for that earlier session is run in the resumed one.
\<close>

theorem resume_spec:
  assumes "handle_resume V sid agent s d = (SrResumed x restored n js, s', d')"
  shows "\<exists>a g. resolve_agent_for_session (sv_manager V) agent sid s = (Inr a, s) \<and> s' = s \<and>
    dp_agents d a = Some g \<and> \<not> na_running g \<and>
    d' = d\<lparr>dp_agents := (dp_agents d)(a \<mapsto> g\<lparr>na_session := sid\<rparr>)\<rparr> \<and>
    (\<forall>i old fresh. a \<in> set (dp_holders d) \<and> dp_last_session d a = Some old \<and> session_of i = Some old \<longrightarrow>
       map_option na_session (dp_agents (snd (dp_submit fresh i (Some a) d')) a) = Some sid)"
proof -
  from assms obtain a s1 dir es s2 ss d'' where
    a: "resolve_agent_for_session (sv_manager V) agent sid s = (Inr a, s1)"
    and es: "entries_at V (Some a) sid s1 = (Inr (dir, es), s2)"
    and ss: "at_dir (sv_manager V) dir (\<lambda>E. session_resume (js_ops E) sid) s2 = (Inr ss, s')"
    and swap: "router_swap_session a (ss_id ss) d = (Inr (), d')"
    by (auto simp: handle_resume_def Let_def split: prod.splits sum.splits)
  have "s1 = s" using reads_result [OF reads_resolve a] .
  moreover have "s2 = s1" using reads_result [OF reads_entries es] .
  moreover have "s' = s2" using reads_result [OF reads_at ss] reads_resume by blast
  moreover have "ss_id ss = sid"
    using ss by (auto simp: at_dir_def Let_def session_resume_def bindE_def split: prod.splits sum.splits)
  moreover obtain g where g: "dp_agents d a = Some g" "\<not> na_running g"
    "d' = d\<lparr>dp_agents := (dp_agents d)(a \<mapsto> g\<lparr>na_session := ss_id ss\<rparr>)\<rparr>"
    using swap by (auto simp: router_swap_session_def split: option.splits if_splits)
  moreover have "map_option na_session (dp_agents (snd (dp_submit fresh i (Some a) d')) a) = Some sid"
    if "a \<in> set (dp_holders d)" "dp_last_session d a = Some old" "session_of i = Some old" for i old fresh
  proof -
    have "target_of (dp_holders d') (Some a) = a" using that(1) g(3) by (simp add: target_of_def)
    moreover have "dp_agents d' a = Some (g\<lparr>na_session := sid\<rparr>)" "dp_last_session d' a = Some old"
      using g(3) that(2) \<open>ss_id ss = sid\<close> by simp_all
    ultimately show ?thesis
      using change_agent(1) [of d' a "g\<lparr>na_session := sid\<rparr>" "Some old"] that(3)
      by (simp add: submit_state Let_def session_after_def)
  qed
  ultimately show ?thesis using a by (intro exI [of _ a] exI [of _ g]) auto
qed


text \<open>
  A session of an agent that the node does not run cannot be resumed, and the answer says that the agent is
  busy and that the client should try again, however often it tries.
\<close>

theorem unknown_agent_busy:
  assumes "resolve_agent_for_session (sv_manager V) agent sid s = (Inr a, s)"
    and "entries_at V (Some a) sid s = (Inr (dir, es), s)"
    and "at_dir (sv_manager V) dir (\<lambda>E. session_resume (js_ops E) sid) s = (Inr ss, s)"
    and "dp_agents d a = None"
  shows "\<exists>text. handle_resume V sid agent s d = (SrFailed \<lparr> ep_code = ''agent_busy'', ep_message = text, ep_detail = None,
    ep_terminal = False \<rparr>, s, d)"
  using assms by (simp add: handle_resume_def router_swap_session_def)

section \<open>Witnesses\<close>

definition demo_manager :: session_manager where
  "demo_manager = \<lparr> fm_root = ''/r'', fm_scan = (\<lambda>s. ScanFound [Inr (Some ''a'', True), Inr (Some ''b'', True)]),
     fm_dir = (\<lambda>p. small_env\<lparr>je_order := (\<lambda>m. if m ''s.jsonl'' = None then [] else [''s.jsonl''])\<rparr>) \<rparr>"

definition demo_content :: string where
  "demo_content = ''{1}'' @ newline"

definition demo_dirs :: session_dirs where
  "demo_dirs p = (if p = [RootDir, Normal ''r'', Normal ''a'', Normal ''sessions'']
     then \<lparr> js_files = [''s.jsonl'' \<mapsto> demo_content], js_seq = 0 \<rparr> else empty_sessions)"

definition demo_codec :: session_codec_env where
  "demo_codec = \<lparr> sv_manager = demo_manager, sv_entry_json = (\<lambda>e. Some (JStr (en_id e))), sv_map_json = (\<lambda>m. JObj []) \<rparr>"

definition demo_node :: data_plane where
  "demo_node = demo_plane\<lparr>dp_agents := [''a'' \<mapsto> demo_node_agent\<lparr>na_running := False\<rparr>],
     dp_last_session := [''a'' \<mapsto> ''old'']\<rparr>"

lemma demo_path: "agent_sessions_dir demo_manager ''a'' = ''/r/a/sessions''" "agent_sessions_dir demo_manager ''b'' = ''/r/b/sessions''"
  by (simp_all add: agent_sessions_dir_def demo_manager_def path_join_def is_absolute_def)

lemma demo_dir: "components ''/r/a/sessions'' = [RootDir, Normal ''r'', Normal ''a'', Normal ''sessions'']"
  "components ''/r/b/sessions'' = [RootDir, Normal ''r'', Normal ''b'', Normal ''sessions'']"
  by code_simp+

lemma demo_valid: "validate_agent_id ''a'' = Inr ''a''" "validate_agent_id ''b'' = Inr ''b''"
  by code_simp+

lemma demo_lines: "str_lines demo_content = [''{1}'']" "list_all valid_utf8 [''{1}'']" "valid_utf8 ''{1}''" "blank ''{1}'' = False"
  "strip_suffix ''.jsonl'' ''s.jsonl'' = Some ''s''" "jsonl_name ''s'' = ''s.jsonl''"
  by code_simp+

lemma demo_parse: "entry_from_json (small_env\<lparr>je_order := f\<rparr>) ''{1}'' = Some (small_entry 1)"
  by (simp add: entry_from_json_def small_env_def small_line_def small_entry_def type_of_text_def)

lemma demo_file: "parse_lines (small_env\<lparr>je_order := f\<rparr>) [''{1}''] = [small_entry 1]" "nonblank_lines demo_content = [''{1}'']"
  by (simp_all add: parse_lines_def demo_lines demo_parse map_filter_simps nonblank_lines_def)

lemma demo_fault: "je_fault small_env c = None"
  by (simp add: small_env_def)

lemma demo_listed:
  "js_list_sessions (fm_dir demo_manager p) \<lparr> js_files = [''s.jsonl'' \<mapsto> demo_content], js_seq = 0 \<rparr> =
    (Inr [\<lparr> su_session_id = ''s'', su_created_at = 1, su_entry_count = 1 \<rparr>], \<lparr> js_files = [''s.jsonl'' \<mapsto> demo_content], js_seq = 0 \<rparr>)"
  "js_list_sessions (fm_dir demo_manager p) empty_sessions = (Inr [], empty_sessions)"
  by (simp_all add: js_list_sessions_def demo_manager_def js_call_def bindE_def with_file_def summarize_def demo_file
      demo_lines demo_fault small_entry_def empty_sessions_def scan_char_def byte_def)

lemma demo_listing:
  "at_dir demo_manager (agent_sessions_dir demo_manager ''a'') js_list_sessions demo_dirs =
    (Inr [\<lparr> su_session_id = ''s'', su_created_at = 1, su_entry_count = 1 \<rparr>], demo_dirs)"
  "at_dir demo_manager (agent_sessions_dir demo_manager ''b'') js_list_sessions demo_dirs = (Inr [], demo_dirs)"
  by (simp_all add: at_dir_def Let_def demo_path demo_dir demo_dirs_def demo_listed fun_eq_iff)

lemma demo_ids: "agent_ids demo_manager s = (Inr [''a'', ''b''], s)"
proof -
  have "sort [''a'', ''b''] = [''a'', ''b'']" by code_simp
  then show ?thesis by (simp add: agent_ids_def demo_manager_def)
qed

lemma demo_readable: "\<forall>a \<in> set [''a'', ''b'']. readable demo_manager demo_dirs a"
  by (simp add: readable_def demo_valid demo_listing)

lemma demo_matches: "found_in demo_manager demo_dirs ''s'' ''a''" "\<not> found_in demo_manager demo_dirs ''s'' ''b''"
  by (simp_all add: found_in_def session_matches_def bindE_def liftE_def demo_valid demo_listing)

lemma demo_resolves: "resolve_agent_for_session demo_manager None ''s'' demo_dirs = (Inr ''a'', demo_dirs)"
  using with_readable [OF demo_readable, of "''s''"]
  by (simp add: resolve_agent_for_session_def bindE_def demo_ids demo_matches)

lemma demo_entries: "at_dir demo_manager ''/r/a/sessions'' (\<lambda>E. js_get_entries E ''s'') demo_dirs = (Inr [small_entry 1], demo_dirs)"
proof -
  have "js_get_entries (fm_dir demo_manager p) ''s'' \<lparr> js_files = [''s.jsonl'' \<mapsto> demo_content], js_seq = 0 \<rparr> =
      (Inr [small_entry 1], \<lparr> js_files = [''s.jsonl'' \<mapsto> demo_content], js_seq = 0 \<rparr>)" for p
    by (simp add: js_get_entries_def read_from_head_def with_file_def demo_lines demo_fault demo_manager_def
        demo_parse scan_char_def byte_def)
  then show ?thesis by (simp add: at_dir_def Let_def demo_dir demo_dirs_def fun_eq_iff)
qed

lemma demo_store: "entries_at demo_codec (Some ''a'') ''s'' demo_dirs = (Inr (''/r/a/sessions'', [small_entry 1]), demo_dirs)"
  using demo_matches(1)
  by (simp add: entries_at_def demo_codec_def entry_store_for_session_def resolve_agent_for_session_def bindE_def
      found_in_def demo_path demo_entries)

lemma demo_session:
  "at_dir demo_manager ''/r/a/sessions'' (\<lambda>E. session_resume (js_ops E) ''s'') demo_dirs =
    (Inr \<lparr> ss_id = ''s'', ss_created_at = 1 \<rparr>, demo_dirs)"
proof -
  have "session_resume (js_ops E) ''s'' j = (case js_get_entries E ''s'' j of (Inl e, j) \<Rightarrow> (Inl e, j)
      | (Inr es, j) \<Rightarrow> (Inr \<lparr> ss_id = ''s'', ss_created_at = (case es of [] \<Rightarrow> 0 | e # _ \<Rightarrow> en_created_at e) \<rparr>, j))" for E j
    by (simp add: session_resume_def js_ops_def bindE_def split: prod.split sum.split)
  then show ?thesis using demo_entries
    by (auto simp: at_dir_def Let_def small_entry_def split: prod.splits sum.splits)
qed

theorem agent_directories_witness:
  "\<exists>ns. components (entry_store_for_agent demo_manager ''../x'') = [RootDir, Normal ''r''] @ map Normal ns"
proof -
  have "components ''/r'' = [RootDir, Normal ''r'']" by code_simp
  with agent_directories [of demo_manager "''../x''"] show ?thesis by (auto simp: demo_manager_def is_absolute_def)
qed

theorem resolve_session_spec_witness:
  "resolve_agent_for_session demo_manager None ''s'' demo_dirs = (Inr ''a'', demo_dirs)"
  using resolve_session_spec [OF demo_ids, of demo_dirs "''s''"] demo_readable by (simp add: demo_matches)

lemma demo_number: "show_nat (Suc 0) = ''1''"
  by code_simp

lemma demo_resumed:
  "handle_resume demo_codec ''s'' None demo_dirs demo_node =
    (SrResumed ''s'' True 1 [JStr ''1''], demo_dirs,
     demo_node\<lparr>dp_agents := [''a'' \<mapsto> demo_node_agent\<lparr>na_running := False, na_session := ''s''\<rparr>]\<rparr>)"
  using demo_resolves demo_store demo_session
  by (simp add: handle_resume_def Let_def demo_codec_def router_swap_session_def demo_node_def map_filter_simps
      small_entry_def demo_number)

theorem resume_spec_witness:
  "map_option na_session (dp_agents (snd (dp_submit ''f'' (input_new\<lparr>ai_metadata := [''session_id'' \<mapsto> JStr ''old'']\<rparr>)
     (Some ''a'') (demo_node\<lparr>dp_agents := [''a'' \<mapsto> demo_node_agent\<lparr>na_running := False, na_session := ''s''\<rparr>]\<rparr>))) ''a'') = Some ''s''"
proof -
  let ?i = "input_new\<lparr>ai_metadata := [''session_id'' \<mapsto> JStr ''old'']\<rparr>"
  have "session_of ?i = Some ''old''" by (simp add: session_of_def)
  moreover have "resolve_agent_for_session (sv_manager demo_codec) None ''s'' demo_dirs = (Inr ''a'', demo_dirs)"
    using demo_resolves by (simp add: demo_codec_def)
  moreover have "''a'' \<in> set (dp_holders demo_node)" "dp_last_session demo_node ''a'' = Some ''old''"
    by (simp_all add: demo_node_def demo_plane_def)
  ultimately show ?thesis using resume_spec [OF demo_resumed] by fastforce
qed

theorem unknown_agent_busy_witness:
  "\<exists>text. handle_resume demo_codec ''s'' None demo_dirs (demo_node\<lparr>dp_agents := Map.empty\<rparr>) =
    (SrFailed \<lparr> ep_code = ''agent_busy'', ep_message = text, ep_detail = None, ep_terminal = False \<rparr>, demo_dirs,
     demo_node\<lparr>dp_agents := Map.empty\<rparr>)"
  by (rule unknown_agent_busy [of _ _ _ _ "''a''"])
    (use demo_resolves demo_store demo_session in \<open>simp_all add: demo_codec_def\<close>)

end
