(* ===== verification/McpManager.thy ===== *)
theory McpManager
  imports ToolRegistry "HOL-Library.Sublist"
begin

text \<open>
  The manager of the connections to MCP servers (\<open>crates/vol-llm-mcp/src/manager.rs\<close>) and the tools that call
  them (\<open>crates/vol-llm-tool/src/mcp_tool.rs\<close>).  The protocol itself is third-party code: what a server answers is
  an argument.  A connection is known by the token it was made under, and is alive until that token is
  cancelled.  Waiting takes any time, so the delays between attempts are not modelled, and neither is the handle of the
  task that reconnects, which nothing reads.
\<close>

section \<open>State\<close>

datatype server_status = SConnected | SDisconnected | SConnecting | SError string

record mcp_tool_info =
  ti_name :: string
  ti_description :: "string option"
  ti_input_schema :: "json option"

record mcp_resource =
  mr_uri :: string
  mr_name :: string
  mr_mime_type :: "string option"
  mr_description :: "string option"

record mcp_template =
  mt_uri_template :: string
  mt_name :: string
  mt_description :: "string option"

record prompt_argument =
  pg_name :: string
  pg_description :: "string option"
  pg_required :: "bool option"

record mcp_prompt =
  mp_name :: string
  mp_description :: "string option"
  mp_arguments :: "prompt_argument list option"

record server_state =
  sv_config_name :: string
  sv_status :: server_status
  sv_retry_count :: nat
  sv_running_service :: "nat option"
  sv_cancel_token :: nat
  sv_cached_tools :: "mcp_tool_info list"
  sv_cached_resources :: "mcp_resource list"
  sv_cached_templates :: "mcp_template list"
  sv_cached_prompts :: "mcp_prompt list"

definition server_new :: "string \<Rightarrow> nat \<Rightarrow> server_state" where
  "server_new name t = \<lparr> sv_config_name = name, sv_status = SDisconnected, sv_retry_count = 0, sv_running_service = None,
     sv_cancel_token = t, sv_cached_tools = [], sv_cached_resources = [], sv_cached_templates = [], sv_cached_prompts = [] \<rparr>"

definition clear_caches :: "server_state \<Rightarrow> server_state" where
  "clear_caches s = s\<lparr>sv_cached_tools := [], sv_cached_resources := [], sv_cached_templates := [], sv_cached_prompts := []\<rparr>"

text \<open>A copy shares the token but has no connection.\<close>

definition server_clone :: "server_state \<Rightarrow> server_state" where
  "server_clone s = s\<lparr>sv_running_service := None\<rparr>"

text \<open>The task that reconnects a server: at the start of its loop, waiting, or trying.\<close>

datatype retry_phase = LoopTop | LoopSleep nat | LoopTry nat

record reconnect_task =
  rk_name :: string
  rk_phase :: retry_phase

text \<open>
  The servers, the tokens, the tasks that reconnect and the calls that are connecting, each known by its token.
\<close>

record mcp_manager =
  mm_servers :: "string \<rightharpoonup> server_state"
  mm_max_retries :: nat
  mm_tokens :: nat
  mm_cancelled :: "nat set"
  mm_tasks :: "nat \<rightharpoonup> reconnect_task"
  mm_spawned :: nat
  mm_calls :: "nat \<rightharpoonup> string"

text \<open>Names are sanitized; of two that become the same the later one stays.\<close>

fun servers_of :: "(string \<Rightarrow> bool) \<Rightarrow> nat \<Rightarrow> string list \<Rightarrow> (string \<rightharpoonup> server_state) \<Rightarrow> (string \<rightharpoonup> server_state)" where
  "servers_of letter t [] m = m"
| "servers_of letter t (n # ns) m = servers_of letter (Suc t) ns (m(sanitize_name letter n \<mapsto> server_new n t))"

definition manager_new :: "(string \<Rightarrow> bool) \<Rightarrow> nat \<Rightarrow> string list \<Rightarrow> mcp_manager" where
  "manager_new letter retries names = \<lparr> mm_servers = servers_of letter 0 names Map.empty, mm_max_retries = retries,
     mm_tokens = length names, mm_cancelled = {}, mm_tasks = Map.empty, mm_spawned = 0, mm_calls = Map.empty \<rparr>"

definition manager_filter :: "string list option \<Rightarrow> mcp_manager \<Rightarrow> mcp_manager" where
  "manager_filter names m =
     (case names of
        None \<Rightarrow> m
      | Some ns \<Rightarrow> m\<lparr>mm_servers := (\<lambda>n. if n \<in> set ns then map_option server_clone (mm_servers m n) else None)\<rparr>)"

definition alter :: "string \<Rightarrow> (server_state \<Rightarrow> server_state) \<Rightarrow> mcp_manager \<Rightarrow> mcp_manager" where
  "alter n f m = m\<lparr>mm_servers := (mm_servers m)(n := map_option f (mm_servers m n))\<rparr>"

section \<open>Connecting\<close>

text \<open>What a server answers once it is connected; a list that cannot be had is taken to be empty.\<close>

record server_answers =
  an_tools :: "string + mcp_tool_info list"
  an_resources :: "string + mcp_resource list"
  an_templates :: "string + mcp_template list"
  an_prompts :: "string + mcp_prompt list"

definition list_or_empty :: "string + 'a list \<Rightarrow> 'a list" where
  "list_or_empty x = (case x of Inr xs \<Rightarrow> xs | Inl e \<Rightarrow> [])"

definition server_up :: "nat \<Rightarrow> server_answers \<Rightarrow> server_state \<Rightarrow> server_state" where
  "server_up t a s = s\<lparr>sv_running_service := Some t, sv_cached_tools := list_or_empty (an_tools a),
     sv_cached_resources := list_or_empty (an_resources a), sv_cached_templates := list_or_empty (an_templates a),
     sv_cached_prompts := list_or_empty (an_prompts a), sv_status := SConnected, sv_retry_count := 0\<rparr>"

definition connect_begin :: "string \<Rightarrow> mcp_manager \<Rightarrow> mcp_manager" where
  "connect_begin n m =
     (case mm_servers m n of
        None \<Rightarrow> m
      | Some s \<Rightarrow>
          (alter n (\<lambda>s. s\<lparr>sv_status := SConnecting, sv_cancel_token := mm_tokens m\<rparr>) m)
            \<lparr>mm_tokens := Suc (mm_tokens m), mm_calls := (mm_calls m)(mm_tokens m \<mapsto> n)\<rparr>)"

definition spawn_reconnect :: "string \<Rightarrow> mcp_manager \<Rightarrow> mcp_manager" where
  "spawn_reconnect n m = m\<lparr>mm_tasks := (mm_tasks m)(mm_spawned m \<mapsto> \<lparr> rk_name = n, rk_phase = LoopTop \<rparr>),
     mm_spawned := Suc (mm_spawned m)\<rparr>"

definition binary_missing :: "string \<Rightarrow> bool" where
  "binary_missing e \<longleftrightarrow> sublist ''No such file or directory'' e"

definition failed_once :: "nat \<Rightarrow> string \<Rightarrow> string \<Rightarrow> server_state \<Rightarrow> server_state" where
  "failed_once limit exceeded e s =
     (let s = s\<lparr>sv_retry_count := Suc (sv_retry_count s)\<rparr>
      in if limit \<le> sv_retry_count s then (clear_caches s)\<lparr>sv_status := SError exceeded\<rparr> else s\<lparr>sv_status := SError e\<rparr>)"

definition connect_end :: "nat \<Rightarrow> string + server_answers \<Rightarrow> mcp_manager \<Rightarrow> mcp_manager" where
  "connect_end t r m =
     (case mm_calls m t of
        None \<Rightarrow> m
      | Some n \<Rightarrow>
          (let m = m\<lparr>mm_calls := (mm_calls m)(t := None)\<rparr>
           in case mm_servers m n of
                None \<Rightarrow> m
              | Some s \<Rightarrow> (case r of
                  Inr a \<Rightarrow> alter n (server_up t a) m
                | Inl e \<Rightarrow>
                    if binary_missing e then alter n (\<lambda>s. s\<lparr>sv_status := SError e\<rparr>) m
                    else spawn_reconnect n (alter n
                      (failed_once (mm_max_retries m) ''max retries exceeded, retrying with delay'' e) m))))"

section \<open>Reconnecting in the background\<close>

definition task_ends :: "nat \<Rightarrow> mcp_manager \<Rightarrow> mcp_manager" where
  "task_ends k m = m\<lparr>mm_tasks := (mm_tasks m)(k := None)\<rparr>"

definition task_goes :: "nat \<Rightarrow> string \<Rightarrow> retry_phase \<Rightarrow> mcp_manager \<Rightarrow> mcp_manager" where
  "task_goes k n p m = m\<lparr>mm_tasks := (mm_tasks m)(k \<mapsto> \<lparr> rk_name = n, rk_phase = p \<rparr>)\<rparr>"

text \<open>The top of the loop: the token of the server is cancelled and replaced.\<close>

definition loop_top :: "nat \<Rightarrow> string \<Rightarrow> mcp_manager \<Rightarrow> mcp_manager" where
  "loop_top k n m =
     (case mm_servers m n of
        None \<Rightarrow> task_ends k m
      | Some s \<Rightarrow>
          if mm_max_retries m \<le> sv_retry_count s
          then task_ends k (alter n (\<lambda>s. (clear_caches s)\<lparr>sv_status := SError ''max retries exceeded''\<rparr>) m)
          else (task_goes k n (LoopSleep (mm_tokens m)) (alter n (\<lambda>s. s\<lparr>sv_cancel_token := mm_tokens m\<rparr>) m))
            \<lparr>mm_cancelled := insert (sv_cancel_token s) (mm_cancelled m), mm_tokens := Suc (mm_tokens m)\<rparr>)"

text \<open>An attempt of the loop, which may also take too long; a server that is gone does not end the loop here.\<close>

definition loop_end :: "nat \<Rightarrow> string \<Rightarrow> nat \<Rightarrow> (string + server_answers) option \<Rightarrow> mcp_manager \<Rightarrow> mcp_manager" where
  "loop_end k n t r m =
     (case r of
        Some (Inr a) \<Rightarrow> task_ends k (alter n (server_up t a) m)
      | _ \<Rightarrow>
          (let e = (case r of Some (Inl e) \<Rightarrow> e | _ \<Rightarrow> ''connection timeout'')
           in case mm_servers m n of
                None \<Rightarrow> task_goes k n LoopTop m
              | Some s \<Rightarrow>
                  (let m1 = alter n (failed_once (mm_max_retries m) ''max retries exceeded'' e) m
                   in if mm_max_retries m \<le> Suc (sv_retry_count s) then task_ends k m1 else task_goes k n LoopTop m1)))"

section \<open>Disconnecting and reconnecting by hand\<close>

datatype mcp_error =
    ServerNotFound string
  | ConnectionFailed string string
  | ToolCallFailed string string string
  | ResourceReadFailed string string string
  | PromptGetFailed string string string
  | ServerDisconnected string

definition display_mcp_error :: "mcp_error \<Rightarrow> string" where
  "display_mcp_error e =
     (case e of
        ServerNotFound n \<Rightarrow> ''MCP server '' @ [CHR 0x27] @ n @ [CHR 0x27] @ '' not found''
      | ConnectionFailed n d \<Rightarrow> ''failed to connect to MCP server '' @ [CHR 0x27] @ n @ [CHR 0x27] @ '': '' @ d
      | ToolCallFailed n t d \<Rightarrow> ''tool call failed on server '' @ [CHR 0x27] @ n @ [CHR 0x27] @ '', tool '' @ [CHR 0x27] @ t @ [CHR 0x27] @ '': '' @ d
      | ResourceReadFailed n u d \<Rightarrow> ''failed to read resource '' @ [CHR 0x27] @ u @ [CHR 0x27] @ '' on server '' @ [CHR 0x27] @ n @ [CHR 0x27] @ '': '' @ d
      | PromptGetFailed n p d \<Rightarrow> ''failed to get prompt '' @ [CHR 0x27] @ p @ [CHR 0x27] @ '' on server '' @ [CHR 0x27] @ n @ [CHR 0x27] @ '': '' @ d
      | ServerDisconnected n \<Rightarrow> ''MCP server '' @ [CHR 0x27] @ n @ [CHR 0x27] @ '' is disconnected'')"

definition disconnect_server :: "string \<Rightarrow> mcp_manager \<Rightarrow> (mcp_error + unit) \<times> mcp_manager" where
  "disconnect_server n m =
     (case mm_servers m n of
        None \<Rightarrow> (Inl (ServerNotFound n), m)
      | Some s \<Rightarrow> (Inr (), (alter n (\<lambda>s. (clear_caches (s\<lparr>sv_running_service := None\<rparr>))\<lparr>sv_status := SDisconnected\<rparr>) m)
          \<lparr>mm_cancelled := insert (sv_cancel_token s) (mm_cancelled m)\<rparr>))"

text \<open>All servers, in the order of the table; the names are of the table, so none is missing.\<close>

definition disconnect :: "string list \<Rightarrow> mcp_manager \<Rightarrow> mcp_manager" where
  "disconnect order m = foldl (\<lambda>m n. snd (disconnect_server n m)) m order"

definition reset_retries :: "string \<Rightarrow> mcp_manager \<Rightarrow> mcp_manager" where
  "reset_retries n m = alter n (\<lambda>s. s\<lparr>sv_retry_count := 0\<rparr>) m"

definition reconnect_begin :: "string \<Rightarrow> mcp_manager \<Rightarrow> (mcp_error + unit) \<times> mcp_manager" where
  "reconnect_begin n m =
     (case mm_servers m n of
        None \<Rightarrow> (Inl (ServerNotFound n), m)
      | Some s \<Rightarrow> (Inr (), (alter n (\<lambda>s.
          (if sv_status s = SConnected then clear_caches (s\<lparr>sv_running_service := None\<rparr>) else s)\<lparr>sv_retry_count := 0\<rparr>) m)
          \<lparr>mm_cancelled := insert (sv_cancel_token s) (mm_cancelled m)\<rparr>))"

definition reconnect_result :: "string \<Rightarrow> mcp_manager \<Rightarrow> mcp_error + unit" where
  "reconnect_result n m =
     (case mm_servers m n of
        None \<Rightarrow> Inl (ServerNotFound n)
      | Some s \<Rightarrow> (case sv_status s of
          SConnected \<Rightarrow> Inr ()
        | SError e \<Rightarrow> Inl (ConnectionFailed n e)
        | _ \<Rightarrow> Inl (ConnectionFailed n ''reconnect did not complete'')))"

text \<open>A call that nothing comes between: the tokens are fresh, so the call that ends is the one that began.\<close>

definition connect_server :: "string \<Rightarrow> string + server_answers \<Rightarrow> mcp_manager \<Rightarrow> mcp_manager" where
  "connect_server n r m = (if mm_servers m n = None then m else connect_end (mm_tokens m) r (connect_begin n m))"

definition manager_reconnect :: "string \<Rightarrow> string + server_answers \<Rightarrow> mcp_manager \<Rightarrow> (mcp_error + unit) \<times> mcp_manager" where
  "manager_reconnect n r m =
     (case reconnect_begin n m of
        (Inl e, m) \<Rightarrow> (Inl e, m)
      | (Inr u, m) \<Rightarrow> (let m = connect_server n r m in (reconnect_result n m, m)))"

definition not_connected :: "mcp_manager \<Rightarrow> string \<Rightarrow> bool" where
  "not_connected m n \<longleftrightarrow> (case mm_servers m n of None \<Rightarrow> False | Some s \<Rightarrow> sv_status s \<noteq> SConnected)"

definition reconnect_one :: "string \<Rightarrow> string + server_answers \<Rightarrow> mcp_manager \<Rightarrow> mcp_manager" where
  "reconnect_one n r m = connect_server n r (reset_retries n m)"

definition manager_reconnect_all :: "string list \<Rightarrow> (string \<Rightarrow> string + server_answers) \<Rightarrow> mcp_manager \<Rightarrow> mcp_manager" where
  "manager_reconnect_all order r m = foldl (\<lambda>m n. reconnect_one n (r n) m) m (filter (not_connected m) order)"

section \<open>Calls\<close>

datatype raw_content = RawText string | RawImage | RawResource string | RawOther

record call_tool_result =
  cr_is_error :: "bool option"
  cr_content :: "raw_content list"

fun text_of :: "raw_content \<Rightarrow> string option" where
  "text_of (RawText t) = Some t"
| "text_of _ = None"

fun shown_content :: "raw_content \<Rightarrow> string option" where
  "shown_content (RawText t) = Some t"
| "shown_content RawImage = Some ''[image content]''"
| "shown_content (RawResource uri) = Some (''[resource: '' @ uri @ '']'')"
| "shown_content RawOther = None"

definition format_call_tool_result :: "call_tool_result \<Rightarrow> string" where
  "format_call_tool_result r =
     (if cr_is_error r = Some True
      then (let t = join newline (List.map_filter text_of (cr_content r))
            in ''MCP tool error: '' @ (if t = [] then ''unknown error'' else t))
      else join newline (List.map_filter shown_content (cr_content r)))"

definition call_target :: "string \<Rightarrow> mcp_manager \<Rightarrow> mcp_error + nat \<times> string" where
  "call_target n m =
     (case mm_servers m n of
        None \<Rightarrow> Inl (ServerNotFound n)
      | Some s \<Rightarrow>
          if sv_status s \<noteq> SConnected then Inl (ServerDisconnected n)
          else (case sv_running_service s of
             None \<Rightarrow> Inl (ServerDisconnected n)
           | Some t \<Rightarrow> Inr (t, sv_config_name s)))"

text \<open>What a connection answers to a call of a tool is an argument.\<close>

type_synonym tool_service = "nat \<Rightarrow> string \<Rightarrow> (string \<times> json) list \<Rightarrow> string + call_tool_result"

definition call_on :: "tool_service \<Rightarrow> string \<Rightarrow> string \<Rightarrow> json \<Rightarrow> mcp_manager \<Rightarrow> mcp_error + string" where
  "call_on peer n tool args m =
     (case call_target n m of
        Inl e \<Rightarrow> Inl e
      | Inr (t, config) \<Rightarrow> (case peer t tool (case args of JObj ms \<Rightarrow> ms | _ \<Rightarrow> []) of
          Inl e \<Rightarrow> Inl (ToolCallFailed config tool e)
        | Inr r \<Rightarrow> Inr (format_call_tool_result r)))"

definition call_tool ::
  "(string + server_answers) \<Rightarrow> tool_service \<Rightarrow> string \<Rightarrow> string \<Rightarrow> json \<Rightarrow> mcp_manager \<Rightarrow> (mcp_error + string) \<times> mcp_manager" where
  "call_tool r peer n tool args m =
     (let m = (if not_connected m n then reconnect_one n r m else m) in (call_on peer n tool args m, m))"

text \<open>The tool of the registry: the server and the tool are known by their sanitized names.\<close>

definition mcp_tool_execute ::
  "(string \<Rightarrow> bool) \<Rightarrow> (string + server_answers) \<Rightarrow> tool_service \<Rightarrow> string \<Rightarrow> string \<Rightarrow> json \<Rightarrow> (mcp_manager, tool_error, tool_result) eff" where
  "mcp_tool_execute letter r peer server tool args m =
     (case call_tool r peer (sanitize_name letter server) (sanitize_name letter tool) args m of
        (Inr text, m) \<Rightarrow> (Inr (tool_success text), m)
      | (Inl e, m) \<Rightarrow> (Inl (ExecutionFailed (display_mcp_error e)), m))"

section \<open>Listing, resources and prompts\<close>

text \<open>The order of the table is an argument.\<close>

definition list_cached :: "(server_state \<Rightarrow> 'a list) \<Rightarrow> string list \<Rightarrow> mcp_manager \<Rightarrow> (string \<times> 'a) list" where
  "list_cached get order m = concat (map (\<lambda>n. case mm_servers m n of
       None \<Rightarrow> []
     | Some s \<Rightarrow> if sv_status s = SConnected then map (Pair n) (get s) else []) order)"

definition list_all_tools :: "string list \<Rightarrow> mcp_manager \<Rightarrow> (string \<times> mcp_tool_info) list" where
  "list_all_tools = list_cached sv_cached_tools"

definition list_all_resources :: "string list \<Rightarrow> mcp_manager \<Rightarrow> (string \<times> mcp_resource) list" where
  "list_all_resources = list_cached sv_cached_resources"

definition list_all_templates :: "string list \<Rightarrow> mcp_manager \<Rightarrow> (string \<times> mcp_template) list" where
  "list_all_templates = list_cached sv_cached_templates"

definition list_all_prompts :: "string list \<Rightarrow> mcp_manager \<Rightarrow> (string \<times> mcp_prompt) list" where
  "list_all_prompts = list_cached sv_cached_prompts"

text \<open>The first server that offers something and has a connection.\<close>

fun first_server :: "(server_state \<Rightarrow> bool) \<Rightarrow> mcp_manager \<Rightarrow> string list \<Rightarrow> (string \<times> server_state \<times> nat) option" where
  "first_server offers m [] = None"
| "first_server offers m (n # ns) =
     (case mm_servers m n of
        None \<Rightarrow> first_server offers m ns
      | Some s \<Rightarrow>
          if sv_status s = SConnected \<and> offers s
          then (case sv_running_service s of Some t \<Rightarrow> Some (n, s, t) | None \<Rightarrow> first_server offers m ns)
          else first_server offers m ns)"

definition offers_resource :: "string \<Rightarrow> server_state \<Rightarrow> bool" where
  "offers_resource uri s \<longleftrightarrow> list_ex (\<lambda>r. mr_uri r = uri) (sv_cached_resources s) \<or>
     list_ex (\<lambda>t. prefix (mt_uri_template t) uri) (sv_cached_templates s)"

datatype resource_contents = TextContents string | BlobContents string "string option"

definition contents_text :: "resource_contents \<Rightarrow> string" where
  "contents_text c =
     (case c of
        TextContents t \<Rightarrow> t
      | BlobContents b mime \<Rightarrow> ''[blob content, '' @ show_nat (length b) @ '' bytes, mime: '' @
          (case mime of Some m \<Rightarrow> m | None \<Rightarrow> ''unknown'') @ '']'')"

definition read_resource ::
  "(nat \<Rightarrow> string \<Rightarrow> string + resource_contents list) \<Rightarrow> string list \<Rightarrow> string \<Rightarrow> mcp_manager \<Rightarrow> mcp_error + string" where
  "read_resource peer order uri m =
     (case first_server (offers_resource uri) m order of
        None \<Rightarrow> Inl (ServerNotFound uri)
      | Some (n, s, t) \<Rightarrow> (case peer t uri of
          Inl e \<Rightarrow> Inl (ResourceReadFailed (sv_config_name s) uri e)
        | Inr cs \<Rightarrow> Inr (join newline (map contents_text cs))))"

definition offers_prompt :: "string \<Rightarrow> server_state \<Rightarrow> bool" where
  "offers_prompt name s \<longleftrightarrow> list_ex (\<lambda>p. mp_name p = name) (sv_cached_prompts s)"

text \<open>Empty arguments are not sent.\<close>

definition get_prompt ::
  "(nat \<Rightarrow> string \<Rightarrow> (string \<times> json) list option \<Rightarrow> string + string option \<times> (string \<times> json) list) \<Rightarrow> string list \<Rightarrow> string \<Rightarrow>
   (string \<times> json) list option \<Rightarrow> mcp_manager \<Rightarrow> mcp_error + string option \<times> (string \<times> json) list" where
  "get_prompt peer order name args m =
     (case first_server (offers_prompt name) m order of
        None \<Rightarrow> Inl (ServerNotFound name)
      | Some (n, s, t) \<Rightarrow> (case peer t name (case args of Some (x # xs) \<Rightarrow> Some (x # xs) | _ \<Rightarrow> None) of
          Inl e \<Rightarrow> Inl (PromptGetFailed (sv_config_name s) name e)
        | Inr r \<Rightarrow> Inr r))"

definition complete_prompt ::
  "(nat \<Rightarrow> string \<Rightarrow> string \<Rightarrow> string \<Rightarrow> string + string list) \<Rightarrow> string list \<Rightarrow> string \<Rightarrow> string \<Rightarrow> string \<Rightarrow> mcp_manager \<Rightarrow> mcp_error + string list" where
  "complete_prompt peer order name arg v m =
     (case first_server (offers_prompt name) m order of
        None \<Rightarrow> Inl (ServerNotFound name)
      | Some (n, s, t) \<Rightarrow> (case peer t name arg v of Inl e \<Rightarrow> Inl (PromptGetFailed n name e) | Inr r \<Rightarrow> Inr r))"

definition server_statuses :: "mcp_manager \<Rightarrow> (string \<rightharpoonup> server_status)" where
  "server_statuses m = (\<lambda>n. map_option sv_status (mm_servers m n))"

section \<open>Registering the tools\<close>

definition schema_or_any :: "json option \<Rightarrow> json" where
  "schema_or_any s = (case s of Some j \<Rightarrow> j | None \<Rightarrow> JObj [(''type'', JStr ''object''), (''properties'', JObj [])])"

definition mcp_tool_new ::
  "(string \<Rightarrow> bool) \<Rightarrow> (string + server_answers) \<Rightarrow> tool_service \<Rightarrow> string \<Rightarrow> mcp_tool_info \<Rightarrow> (mcp_manager, 'b) tool" where
  "mcp_tool_new letter r peer server i = \<lparr> to_name = mcp_tool_name letter server (ti_name i),
     to_description = (case ti_description i of Some d \<Rightarrow> d | None \<Rightarrow> ti_name i),
     to_parameters = schema_or_any (ti_input_schema i), to_sensitivity = (\<lambda>args. Safe),
     to_execute = (\<lambda>args ctx. mcp_tool_execute letter r peer server (ti_name i) args) \<rparr>"

definition register_from_mcp ::
  "(string \<Rightarrow> bool) \<Rightarrow> (string + server_answers) \<Rightarrow> tool_service \<Rightarrow> string list \<Rightarrow> mcp_manager \<Rightarrow>
   (mcp_manager, 'b) tool_registry \<Rightarrow> nat \<times> (mcp_manager, 'b) tool_registry" where
  "register_from_mcp letter r peer order m reg =
     (length (list_all_tools order m), foldl (\<lambda>reg (n, i). reg_register (mcp_tool_new letter r peer n i) reg) reg (list_all_tools order m))"

end
