(* ===== verification/McpManagerCorrect.thy ===== *)
theory McpManagerCorrect
  imports McpManager
begin

text \<open>
  The connections to MCP servers: the steps of the calls and background tasks in every order, what is kept, how the
  background task ends, and how it and others take connections away.
\<close>

section \<open>Steps\<close>

inductive mcp_step :: "mcp_manager \<Rightarrow> mcp_manager \<Rightarrow> bool" where
  begin_connect: "mcp_step m (connect_begin n m)"
| end_connect: "mcp_step m (connect_end t r m)"
| at_top: "mm_tasks m k = Some \<lparr> rk_name = n, rk_phase = LoopTop \<rparr> \<Longrightarrow> mcp_step m (loop_top k n m)"
| wake: "mm_tasks m k = Some \<lparr> rk_name = n, rk_phase = LoopSleep t \<rparr> \<Longrightarrow> mcp_step m (task_goes k n (LoopTry t) m)"
| stop: "mm_tasks m k = Some \<lparr> rk_name = n, rk_phase = LoopSleep t \<rparr> \<Longrightarrow> t \<in> mm_cancelled m \<Longrightarrow> mcp_step m (task_ends k m)"
| attempted: "mm_tasks m k = Some \<lparr> rk_name = n, rk_phase = LoopTry t \<rparr> \<Longrightarrow> mcp_step m (loop_end k n t r m)"
| disconnecting: "mcp_step m (snd (disconnect_server n m))"
| reconnecting: "mcp_step m (snd (reconnect_begin n m))"
| resetting: "mcp_step m (reset_retries n m)"

inductive mcp_reachable :: "(string \<Rightarrow> bool) \<Rightarrow> nat \<Rightarrow> string list \<Rightarrow> mcp_manager \<Rightarrow> bool" for letter retries names where
  reach_new: "mcp_reachable letter retries names (manager_new letter retries names)"
| reach_step: "mcp_reachable letter retries names m \<Longrightarrow> mcp_step m m' \<Longrightarrow> mcp_reachable letter retries names m'"

lemma alter_servers: "mm_servers (alter n f m) x = (if x = n then map_option f (mm_servers m n) else mm_servers m x)"
  by (simp add: alter_def)

lemma alter_same [simp]: "mm_tasks (alter n f m) = mm_tasks m" "mm_calls (alter n f m) = mm_calls m"
  "mm_cancelled (alter n f m) = mm_cancelled m" "mm_tokens (alter n f m) = mm_tokens m"
  "mm_spawned (alter n f m) = mm_spawned m" "mm_max_retries (alter n f m) = mm_max_retries m"
  by (simp_all add: alter_def)

lemma task_servers [simp]: "mm_servers (task_ends k m) = mm_servers m" "mm_servers (task_goes k n p m) = mm_servers m"
  "mm_servers (spawn_reconnect n m) = mm_servers m"
  by (simp_all add: task_ends_def task_goes_def spawn_reconnect_def)

lemma clear_simps [simp]:
  "sv_cached_tools (clear_caches s) = []" "sv_cached_resources (clear_caches s) = []" "sv_cached_templates (clear_caches s) = []"
  "sv_cached_prompts (clear_caches s) = []" "sv_status (clear_caches s) = sv_status s"
  "sv_running_service (clear_caches s) = sv_running_service s" "sv_retry_count (clear_caches s) = sv_retry_count s"
  "sv_cancel_token (clear_caches s) = sv_cancel_token s" "sv_config_name (clear_caches s) = sv_config_name s"
  by (simp_all add: clear_caches_def)

lemma up_simps [simp]:
  "sv_status (server_up t a s) = SConnected" "sv_running_service (server_up t a s) = Some t" "sv_retry_count (server_up t a s) = 0"
  "sv_cached_tools (server_up t a s) = list_or_empty (an_tools a)" "sv_config_name (server_up t a s) = sv_config_name s"
  "sv_cancel_token (server_up t a s) = sv_cancel_token s"
  by (simp_all add: server_up_def)

lemma failed_simps [simp]:
  "sv_status (failed_once limit x e s) = SError (if limit \<le> Suc (sv_retry_count s) then x else e)"
  "sv_retry_count (failed_once limit x e s) = Suc (sv_retry_count s)"
  "sv_running_service (failed_once limit x e s) = sv_running_service s"
  "sv_cancel_token (failed_once limit x e s) = sv_cancel_token s"
  "sv_cached_tools (failed_once limit x e s) = (if limit \<le> Suc (sv_retry_count s) then [] else sv_cached_tools s)"
  by (simp_all add: failed_once_def Let_def)

section \<open>What is listed can be called\<close>

text \<open>A server that counts as connected has a connection, or nothing that could be listed.\<close>

definition server_ok :: "server_state \<Rightarrow> bool" where
  "server_ok s \<longleftrightarrow> sv_status s = SConnected \<longrightarrow> sv_running_service s = None \<longrightarrow>
     sv_cached_tools s = [] \<and> sv_cached_resources s = [] \<and> sv_cached_templates s = [] \<and> sv_cached_prompts s = []"

definition servers_ok :: "mcp_manager \<Rightarrow> bool" where
  "servers_ok m \<longleftrightarrow> (\<forall>n s. mm_servers m n = Some s \<longrightarrow> server_ok s)"

lemma servers_okD: "servers_ok m \<Longrightarrow> mm_servers m n = Some s \<Longrightarrow> server_ok s"
  by (simp add: servers_ok_def)

lemma alter_ok: "servers_ok m \<Longrightarrow> (\<And>s. mm_servers m n = Some s \<Longrightarrow> server_ok (f s)) \<Longrightarrow> servers_ok (alter n f m)"
  by (auto simp: servers_ok_def alter_servers)

lemma same_ok [simp]: "servers_ok (spawn_reconnect n m) = servers_ok m" "servers_ok (task_ends k m) = servers_ok m"
  "servers_ok (task_goes k n p m) = servers_ok m" "servers_ok (m\<lparr>mm_calls := c\<rparr>) = servers_ok m"
  "servers_ok (m\<lparr>mm_tokens := t, mm_calls := c\<rparr>) = servers_ok m" "servers_ok (m\<lparr>mm_cancelled := x\<rparr>) = servers_ok m"
  "servers_ok (m\<lparr>mm_tokens := t\<rparr>) = servers_ok m"
  "servers_ok (m\<lparr>mm_tokens := t, mm_cancelled := x\<rparr>) = servers_ok m"
  by (simp_all add: servers_ok_def)

lemma not_connected_ok: "sv_status s \<noteq> SConnected \<Longrightarrow> server_ok s"
  by (simp add: server_ok_def)

lemma outcome_ok [simp]: "server_ok (server_up t a s)" "server_ok (failed_once l x e s)"
  by (simp_all add: server_ok_def)

lemma step_ok: "mcp_step m m' \<Longrightarrow> servers_ok m \<Longrightarrow> servers_ok m'"
proof (induction rule: mcp_step.induct)
  case (begin_connect m n)
  then have "servers_ok (alter n (\<lambda>s. s\<lparr>sv_status := SConnecting, sv_cancel_token := mm_tokens m\<rparr>) m)"
    by (intro alter_ok) (simp_all add: server_ok_def)
  then show ?case
    using begin_connect by (auto simp: connect_begin_def split: option.split)
next
  case (end_connect m t r)
  have "servers_ok (alter n (server_up t a) (m\<lparr>mm_calls := c\<rparr>))"
    "servers_ok (alter n (\<lambda>s. s\<lparr>sv_status := SError e\<rparr>) (m\<lparr>mm_calls := c\<rparr>))"
    "servers_ok (alter n (failed_once l x e) (m\<lparr>mm_calls := c\<rparr>))" "servers_ok (m\<lparr>mm_calls := c\<rparr>)" for n a c e l x
    using end_connect by (auto intro!: alter_ok simp: server_ok_def)
  then show ?case
    using end_connect by (auto simp: connect_end_def Let_def split: option.split sum.split)
next
  case (at_top m k n)
  have "servers_ok (alter n (\<lambda>s. (clear_caches s)\<lparr>sv_status := SError x\<rparr>) m)"
    "servers_ok (alter n (\<lambda>s. s\<lparr>sv_cancel_token := t\<rparr>) m)" for x t
    using at_top(2) by (auto intro!: alter_ok simp: server_ok_def dest: servers_okD)
  then show ?case
    using at_top(2) by (auto simp: loop_top_def split: option.split)
next
  case (attempted m k n t r)
  have "servers_ok (alter n (server_up t a) m)" "servers_ok (alter n (failed_once l x e) m)" for a l x e
    using attempted(2) by (auto intro!: alter_ok simp: server_ok_def)
  then show ?case
    using attempted(2) by (auto simp: loop_end_def Let_def split: option.split sum.split)
next
  case (disconnecting m n)
  have "servers_ok (alter n (\<lambda>s. (clear_caches (s\<lparr>sv_running_service := None\<rparr>))\<lparr>sv_status := SDisconnected\<rparr>) m)"
    using disconnecting by (auto intro!: alter_ok not_connected_ok)
  then show ?case
    using disconnecting by (auto simp: disconnect_server_def split: option.split)
next
  case (reconnecting m n)
  have "servers_ok (alter n (\<lambda>s. (if sv_status s = SConnected then clear_caches (s\<lparr>sv_running_service := None\<rparr>) else s)\<lparr>sv_retry_count := 0\<rparr>) m)"
    using reconnecting by (auto intro!: alter_ok simp: server_ok_def)
  then show ?case
    using reconnecting by (auto simp: reconnect_begin_def split: option.split)
next
  case (resetting m n)
  then show ?case
    by (auto intro!: alter_ok simp: reset_retries_def server_ok_def dest: servers_okD)
qed (auto)

lemma new_ok: "(\<And>n s. m n = Some s \<Longrightarrow> server_ok s) \<Longrightarrow> servers_of letter t names m n = Some s \<Longrightarrow> server_ok s"
proof (induction names arbitrary: m t)
  case (Cons x xs)
  have "server_ok (server_new x t)" by (simp add: server_new_def server_ok_def)
  then have upd: "(m(sanitize_name letter x \<mapsto> server_new x t)) k = Some u \<Longrightarrow> server_ok u" for k u
    using Cons.prems(1) by (auto split: if_splits)
  show ?case by (rule Cons.IH [OF upd Cons.prems(2) [simplified]])
qed simp

lemma reachable_ok: "mcp_reachable letter retries names m \<Longrightarrow> servers_ok m"
proof (induction rule: mcp_reachable.induct)
  case reach_new
  show ?case using new_ok [of Map.empty letter 0 names] by (auto simp: manager_new_def servers_ok_def)
qed (auto intro: step_ok)

lemma listed:
  assumes "(n, x) \<in> set (list_cached get order m)"
  shows "\<exists>s. mm_servers m n = Some s \<and> sv_status s = SConnected \<and> x \<in> set (get s)"
proof -
  from assms obtain n' where "(n, x) \<in> set (case mm_servers m n' of None \<Rightarrow> []
     | Some s \<Rightarrow> if sv_status s = SConnected then map (Pair n') (get s) else [])"
    by (auto simp: list_cached_def)
  then show ?thesis by (cases "mm_servers m n'") (auto split: if_splits)
qed

text \<open>
  C22: What is listed can be called.  However calls, background tasks and disconnections interleave, a server
  whose tools are listed has a connection that a call of them is made on.
\<close>

theorem listed_callable:
  assumes "mcp_reachable letter retries names m" "(n, i) \<in> set (list_all_tools order m)"
  shows "\<exists>t s. mm_servers m n = Some s \<and> call_target n m = Inr (t, sv_config_name s)"
proof -
  from listed [OF assms(2) [unfolded list_all_tools_def]] obtain s
    where s: "mm_servers m n = Some s" "sv_status s = SConnected" "i \<in> set (sv_cached_tools s)" by auto
  have "sv_running_service s \<noteq> None" using servers_okD [OF reachable_ok [OF assms(1)] s(1)] s(2,3) by (auto simp: server_ok_def)
  with s show ?thesis by (auto simp: call_target_def)
qed

text \<open>
  Nothing can be called through a filtered manager.  It lists the same tools of the servers it keeps, but it has no
  connections, and as the servers count as connected it makes none: every call fails, and changes nothing.
\<close>

theorem filtered_not_callable:
  assumes "mm_servers m n = Some s" "sv_status s = SConnected" "n \<in> set ns"
  shows "list_all_tools [n] (manager_filter (Some ns) m) = list_all_tools [n] m \<and>
    call_tool r peer n tool args (manager_filter (Some ns) m) = (Inl (ServerDisconnected n), manager_filter (Some ns) m)"
proof -
  have "mm_servers (manager_filter (Some ns) m) n = Some (server_clone s)" using assms by (simp add: manager_filter_def)
  moreover have "sv_status (server_clone s) = SConnected" "sv_running_service (server_clone s) = None"
    "sv_cached_tools (server_clone s) = sv_cached_tools s" using assms(2) by (simp_all add: server_clone_def)
  ultimately show ?thesis using assms
    by (simp add: list_all_tools_def list_cached_def call_tool_def not_connected_def Let_def call_on_def call_target_def)
qed

section \<open>Connecting without interference\<close>

lemma connect_server_state:
  assumes "mm_servers m n = Some s"
  shows "mm_servers (connect_server n r m) n = Some (case r of
      Inr a \<Rightarrow> server_up (mm_tokens m) a (s\<lparr>sv_status := SConnecting, sv_cancel_token := mm_tokens m\<rparr>)
    | Inl e \<Rightarrow> if binary_missing e then s\<lparr>sv_status := SError e, sv_cancel_token := mm_tokens m\<rparr>
        else failed_once (mm_max_retries m) ''max retries exceeded, retrying with delay'' e
          (s\<lparr>sv_status := SConnecting, sv_cancel_token := mm_tokens m\<rparr>))"
  using assms by (simp add: connect_server_def connect_begin_def connect_end_def alter_servers Let_def split: sum.split)

lemma connect_server_status:
  assumes "mm_servers m n = Some s"
  shows "\<exists>s'. mm_servers (connect_server n r m) n = Some s' \<and> sv_config_name s' = sv_config_name s \<and>
    (case r of
       Inr a \<Rightarrow> sv_status s' = SConnected \<and> sv_running_service s' = Some (mm_tokens m) \<and> sv_cached_tools s' = list_or_empty (an_tools a)
     | Inl e \<Rightarrow> \<exists>x. sv_status s' = SError x \<and> (x = e \<or> x = ''max retries exceeded, retrying with delay''))"
  using connect_server_state [OF assms, of r] by (auto simp: failed_once_def Let_def clear_caches_def split: sum.split if_splits)

lemma reset_servers: "mm_servers m n = Some s \<Longrightarrow> mm_servers (reset_retries n m) n = Some (s\<lparr>sv_retry_count := 0\<rparr>)"
  by (simp add: reset_retries_def alter_servers)

text \<open>
  C33: Calling a tool.  An unknown server is reported; a connected server is called on its connection and nothing
  changes; any other server is connected first, and called on the new connection when that succeeds.
\<close>

theorem call_tool_spec:
  assumes "call_tool r peer n tool args m = (x, m')" and "\<And>s. mm_servers m n = Some s \<Longrightarrow> server_ok s"
  shows "case mm_servers m n of
      None \<Rightarrow> x = Inl (ServerNotFound n) \<and> m' = m
    | Some s \<Rightarrow>
        (let answer = (\<lambda>t. case peer t tool (case args of JObj ms \<Rightarrow> ms | _ \<Rightarrow> []) of
               Inl e \<Rightarrow> Inl (ToolCallFailed (sv_config_name s) tool e) | Inr c \<Rightarrow> Inr (format_call_tool_result c))
         in if sv_status s = SConnected
            then m' = m \<and> x = (case sv_running_service s of None \<Rightarrow> Inl (ServerDisconnected n) | Some t \<Rightarrow> answer t)
            else (case r of
                Inr a \<Rightarrow> x = answer (mm_tokens m) \<and> call_target n m' = Inr (mm_tokens m, sv_config_name s)
              | Inl e \<Rightarrow> x = Inl (ServerDisconnected n)))"
proof (cases "mm_servers m n")
  case None
  with assms show ?thesis by (simp add: call_tool_def not_connected_def Let_def call_on_def call_target_def)
next
  case (Some s)
  show ?thesis
  proof (cases "sv_status s = SConnected")
    case True
    with Some assms show ?thesis
      by (auto simp: call_tool_def not_connected_def Let_def call_on_def call_target_def split: option.split)
  next
    case False
    from connect_server_status [OF reset_servers [OF Some], of r] obtain s' where
      s': "mm_servers (reconnect_one n r m) n = Some s'" "sv_config_name s' = sv_config_name s"
        "case r of Inr a \<Rightarrow> sv_status s' = SConnected \<and> sv_running_service s' = Some (mm_tokens m)
         | Inl e \<Rightarrow> (\<exists>x. sv_status s' = SError x)"
      by (cases r) (auto simp: reconnect_one_def reset_retries_def)
    from assms(1) False Some have "m' = reconnect_one n r m" "x = call_on peer n tool args m'"
      by (auto simp: call_tool_def not_connected_def Let_def)
    with s' Some False show ?thesis
      by (cases r) (auto simp: call_on_def call_target_def Let_def split: sum.split)
  qed
qed

section \<open>The background task\<close>

text \<open>The task alone, with what its attempts meet.\<close>

fun loop_run :: "nat \<Rightarrow> string \<Rightarrow> (string + server_answers) option list \<Rightarrow> mcp_manager \<Rightarrow> mcp_manager" where
  "loop_run k n [] m = loop_top k n m"
| "loop_run k n (r # rs) m =
     (let m1 = loop_top k n m
      in case map_option rk_phase (mm_tasks m1 k) of
           Some (LoopSleep t) \<Rightarrow>
             (let m2 = loop_end k n t r (task_goes k n (LoopTry t) m1)
              in if mm_tasks m2 k = None then m2 else loop_run k n rs m2)
         | _ \<Rightarrow> m1)"

definition fails :: "(string + server_answers) option \<Rightarrow> bool" where
  "fails r \<longleftrightarrow> (\<nexists>a. r = Some (Inr a))"

lemma top_exhausted:
  assumes "mm_servers m n = Some s" "mm_max_retries m \<le> sv_retry_count s"
  shows "mm_tasks (loop_top k n m) k = None \<and>
    mm_servers (loop_top k n m) n = Some ((clear_caches s)\<lparr>sv_status := SError ''max retries exceeded''\<rparr>)"
  using assms by (simp add: loop_top_def alter_servers) (simp add: task_ends_def)

lemma top_goes:
  assumes "mm_servers m n = Some s" "sv_retry_count s < mm_max_retries m"
  shows "mm_tasks (loop_top k n m) k = Some \<lparr> rk_name = n, rk_phase = LoopSleep (mm_tokens m) \<rparr>"
    "mm_servers (loop_top k n m) n = Some (s\<lparr>sv_cancel_token := mm_tokens m\<rparr>)"
    "mm_max_retries (loop_top k n m) = mm_max_retries m"
    "mm_cancelled (loop_top k n m) = insert (sv_cancel_token s) (mm_cancelled m)"
  using assms by (simp_all add: loop_top_def alter_servers task_goes_def)

lemma end_fails:
  assumes "mm_servers m n = Some s" "fails r"
  shows "\<exists>e. mm_servers (loop_end k n t r m) n = Some (failed_once (mm_max_retries m) ''max retries exceeded'' e s)"
    "mm_tasks (loop_end k n t r m) k =
      (if mm_max_retries m \<le> Suc (sv_retry_count s) then None else Some \<lparr> rk_name = n, rk_phase = LoopTop \<rparr>)"
    "mm_max_retries (loop_end k n t r m) = mm_max_retries m" "mm_cancelled (loop_end k n t r m) = mm_cancelled m"
    "mm_tokens (loop_end k n t r m) = mm_tokens m"
proof -
  have shape: "loop_end k n t r m = (let m1 = alter n (failed_once (mm_max_retries m) ''max retries exceeded''
      (case r of Some (Inl e) \<Rightarrow> e | _ \<Rightarrow> ''connection timeout'')) m
    in if mm_max_retries m \<le> Suc (sv_retry_count s) then task_ends k m1 else task_goes k n LoopTop m1)"
    using assms by (auto simp: loop_end_def Let_def fails_def split: option.split sum.split)
  show "\<exists>e. mm_servers (loop_end k n t r m) n = Some (failed_once (mm_max_retries m) ''max retries exceeded'' e s)"
    using assms(1) by (auto simp: shape Let_def alter_servers)
  show "mm_tasks (loop_end k n t r m) k =
      (if mm_max_retries m \<le> Suc (sv_retry_count s) then None else Some \<lparr> rk_name = n, rk_phase = LoopTop \<rparr>)"
    "mm_max_retries (loop_end k n t r m) = mm_max_retries m" "mm_cancelled (loop_end k n t r m) = mm_cancelled m"
    "mm_tokens (loop_end k n t r m) = mm_tokens m"
    by (simp_all add: shape Let_def task_ends_def task_goes_def)
qed

lemma goes_same [simp]: "mm_max_retries (task_goes k n p m) = mm_max_retries m" "mm_cancelled (task_goes k n p m) = mm_cancelled m"
  "mm_tokens (task_goes k n p m) = mm_tokens m"
  by (simp_all add: task_goes_def)

lemma loop_gives_up:
  assumes "mm_servers m n = Some s" "mm_max_retries m - sv_retry_count s \<le> length rs" "list_all fails rs"
  shows "mm_tasks (loop_run k n rs m) k = None \<and>
    (\<exists>s'. mm_servers (loop_run k n rs m) n = Some s' \<and> sv_status s' = SError ''max retries exceeded'' \<and> sv_cached_tools s' = [])"
  using assms
proof (induction rs arbitrary: m s)
  case Nil
  then show ?case using top_exhausted [of m n s k] by simp
next
  case (Cons r rs)
  show ?case
  proof (cases "mm_max_retries m \<le> sv_retry_count s")
    case True
    with top_exhausted [OF Cons.prems(1) True, of k] show ?thesis by (simp add: Let_def)
  next
    case False
    then have less: "sv_retry_count s < mm_max_retries m" by simp
    note top = top_goes [OF Cons.prems(1) less, of k]
    let ?m1 = "task_goes k n (LoopTry (mm_tokens m)) (loop_top k n m)"
    have "mm_servers ?m1 n = Some (s\<lparr>sv_cancel_token := mm_tokens m\<rparr>)" using top(2) by simp
    moreover have "fails r" using Cons.prems(3) by simp
    ultimately have fin: "\<exists>e. mm_servers (loop_end k n (mm_tokens m) r ?m1) n =
        Some (failed_once (mm_max_retries m) ''max retries exceeded'' e (s\<lparr>sv_cancel_token := mm_tokens m\<rparr>))"
      "mm_tasks (loop_end k n (mm_tokens m) r ?m1) k =
        (if mm_max_retries m \<le> Suc (sv_retry_count s) then None else Some \<lparr> rk_name = n, rk_phase = LoopTop \<rparr>)"
      "mm_max_retries (loop_end k n (mm_tokens m) r ?m1) = mm_max_retries m"
      using end_fails [of ?m1 n "s\<lparr>sv_cancel_token := mm_tokens m\<rparr>" r k "mm_tokens m"] top(3) by simp_all
    then obtain e where e: "mm_servers (loop_end k n (mm_tokens m) r ?m1) n =
        Some (failed_once (mm_max_retries m) ''max retries exceeded'' e (s\<lparr>sv_cancel_token := mm_tokens m\<rparr>))" by blast
    show ?thesis
    proof (cases "mm_max_retries m \<le> Suc (sv_retry_count s)")
      case True
      with e fin(2) top(1) show ?thesis by (simp add: Let_def)
    next
      case more_left: False
      have "mm_max_retries m - Suc (sv_retry_count s) \<le> length rs" using Cons.prems(2) by simp
      with Cons.IH [OF e] fin(3) Cons.prems(3) more_left fin(2) top(1) show ?thesis by (simp add: Let_def)
    qed
  qed
qed

text \<open>
  The background task ends.  When every attempt fails, as many attempts as are left for the server are enough:
  then the task is over, the server has given up and lists nothing.
\<close>

theorem reconnect_gives_up:
  assumes "mm_servers m n = Some s" "list_all fails rs" "length rs = mm_max_retries m - sv_retry_count s"
  shows "mm_tasks (loop_run k n rs m) k = None \<and>
    map_option sv_status (mm_servers (loop_run k n rs m) n) = Some (SError ''max retries exceeded'') \<and>
    map_option sv_cached_tools (mm_servers (loop_run k n rs m) n) = Some []"
  using loop_gives_up [OF assms(1) _ assms(2), of k] assms(3) by auto

text \<open>
  The last failure is never retried.  The attempt that reaches the limit leaves a server that says it is retried with a delay and
  starts a task for that, but the task ends as soon as it runs, without an attempt.
\<close>

theorem no_retry_with_delay:
  assumes "mm_servers m n = Some s" "mm_max_retries m \<le> Suc (sv_retry_count s)" "\<not> binary_missing e"
    and "m' = connect_server n (Inl e) m"
  shows "map_option sv_status (mm_servers m' n) = Some (SError ''max retries exceeded, retrying with delay'') \<and>
    mm_tasks m' (mm_spawned m) = Some \<lparr> rk_name = n, rk_phase = LoopTop \<rparr> \<and>
    mm_tasks (loop_top (mm_spawned m) n m') (mm_spawned m) = None"
proof -
  obtain s' where s': "mm_servers m' n = Some s'" "sv_retry_count s' = Suc (sv_retry_count s)"
    "sv_status s' = SError ''max retries exceeded, retrying with delay''"
    using connect_server_state [OF assms(1), of "Inl e"] assms(2-4) by (auto simp: failed_once_def Let_def)
  have other: "mm_max_retries m' = mm_max_retries m" "mm_tasks m' (mm_spawned m) = Some \<lparr> rk_name = n, rk_phase = LoopTop \<rparr>"
    using assms by (auto simp: connect_server_def connect_begin_def connect_end_def Let_def alter_servers spawn_reconnect_def)
  with s' top_exhausted [OF s'(1), of "mm_spawned m"] assms(2) show ?thesis by simp
qed

text \<open>
  C30: A background task takes a live connection down.  While it tries, a call may connect the server; when the attempt of the
  task then fails, the server is marked as failed, and the next turn of the task cancels the connection.
\<close>

theorem healthy_connection_killed:
  assumes "mm_tasks m k = Some \<lparr> rk_name = n, rk_phase = LoopTry t \<rparr>" "mm_servers m n = Some s"
    and "sv_status s = SConnected" "sv_retry_count s = 0" "1 < mm_max_retries m"
    and "sv_running_service s = Some (sv_cancel_token s)" "fails r"
    and "m1 = loop_end k n t r m" "m2 = loop_top k n m1"
  shows "mcp_step m m1 \<and> mcp_step m1 m2 \<and> sv_cancel_token s \<in> mm_cancelled m2 \<and>
    (\<exists>s'. mm_servers m2 n = Some s' \<and> sv_status s' \<noteq> SConnected \<and> sv_running_service s' = Some (sv_cancel_token s))"
proof -
  note fin = end_fails [OF assms(2,7), of k t]
  obtain e where e: "mm_servers m1 n = Some (failed_once (mm_max_retries m) ''max retries exceeded'' e s)"
    using fin(1) assms(8) by blast
  have task: "mm_tasks m1 k = Some \<lparr> rk_name = n, rk_phase = LoopTop \<rparr>" using fin(2) assms(4,5,8) by simp
  have left: "sv_retry_count (failed_once (mm_max_retries m) ''max retries exceeded'' e s) < mm_max_retries m1"
    using assms(4,5,8) fin(3) by simp
  note top = top_goes [OF e left, of k]
  have "mcp_step m m1" unfolding assms(8) by (rule attempted [OF assms(1)])
  moreover have "mcp_step m1 m2" unfolding assms(9) by (rule at_top [OF task])
  ultimately show ?thesis using top assms(6,9) by simp
qed

text \<open>
  A disconnected server comes back.  A disconnection does not stop an attempt under way; when that
  succeeds the server is connected again, although nobody asked for it.
\<close>

theorem disconnect_undone:
  assumes "mm_tasks m k = Some \<lparr> rk_name = n, rk_phase = LoopTry t \<rparr>" "mm_servers m n = Some s"
    and "m1 = snd (disconnect_server n m)" "m2 = loop_end k n t (Some (Inr a)) m1"
  shows "mcp_step m m1 \<and> mcp_step m1 m2 \<and> map_option sv_status (mm_servers m1 n) = Some SDisconnected \<and>
    map_option sv_status (mm_servers m2 n) = Some SConnected"
proof -
  have m1: "mm_servers m1 n = Some ((clear_caches (s\<lparr>sv_running_service := None\<rparr>))\<lparr>sv_status := SDisconnected\<rparr>)"
    "mm_tasks m1 k = Some \<lparr> rk_name = n, rk_phase = LoopTry t \<rparr>"
    using assms(1-3) by (simp_all add: disconnect_server_def alter_servers)
  have "mcp_step m m1" unfolding assms(3) by (rule disconnecting)
  moreover have "mcp_step m1 m2" unfolding assms(4) by (rule attempted [OF m1(2)])
  ultimately show ?thesis using m1 assms(4) by (simp add: loop_end_def alter_servers)
qed

section \<open>Names of tools\<close>

text \<open>
  A tool whose name is not plain cannot be called.  It is called by its sanitized name, which the server does not know, so its
  execution fails whatever the server would do for the tool.
\<close>

theorem sanitized_tool_lost:
  assumes "mm_servers m (sanitize_name letter server) = Some s" "sv_status s = SConnected" "sv_running_service s = Some t"
    and "sanitize_name letter tool \<noteq> tool" "\<And>x args. x \<noteq> tool \<Longrightarrow> peer t x args = Inl ''unknown tool''"
  shows "mcp_tool_execute letter r peer server tool args m =
    (Inl (ExecutionFailed (display_mcp_error (ToolCallFailed (sv_config_name s) (sanitize_name letter tool) ''unknown tool''))), m)"
  using assms by (simp add: mcp_tool_execute_def call_tool_def not_connected_def Let_def call_on_def call_target_def)

section \<open>The end of a run\<close>

lemma disconnect_other: "x \<noteq> n \<Longrightarrow> mm_servers (snd (disconnect_server n m)) x = mm_servers m x"
  by (simp add: disconnect_server_def alter_servers split: option.split)

lemma disconnect_down:
  "mm_servers m n = Some s \<Longrightarrow> \<exists>s'. mm_servers (snd (disconnect_server n m)) n = Some s' \<and> sv_status s' = SDisconnected \<and>
     sv_cancel_token s' = sv_cancel_token s \<and> sv_cancel_token s \<in> mm_cancelled (snd (disconnect_server n m))"
  by (simp add: disconnect_server_def alter_servers)

lemma disconnect_cancelled: "mm_cancelled m \<subseteq> mm_cancelled (disconnect order m)"
proof (induction order arbitrary: m)
  case (Cons n ns)
  have "mm_cancelled m \<subseteq> mm_cancelled (snd (disconnect_server n m))"
    by (auto simp: disconnect_server_def split: option.split)
  with Cons show ?case by (auto simp: disconnect_def)
qed (simp add: disconnect_def)

lemma disconnect_one:
  "mm_servers m n = Some s \<Longrightarrow> sv_status s = SDisconnected \<or> n \<in> set order \<Longrightarrow>
   \<exists>s'. mm_servers (disconnect order m) n = Some s' \<and> sv_status s' = SDisconnected"
proof (induction order arbitrary: m s)
  case (Cons x xs)
  let ?m = "snd (disconnect_server x m)"
  have split: "disconnect (x # xs) m = disconnect xs ?m" by (simp add: disconnect_def)
  show ?case
  proof (cases "x = n")
    case True
    from disconnect_down [OF Cons.prems(1)] True obtain s' where "mm_servers ?m n = Some s'" "sv_status s' = SDisconnected" by auto
    with Cons.IH split show ?thesis by auto
  next
    case False
    then show ?thesis using Cons disconnect_other [of n x m] split by auto
  qed
qed (simp add: disconnect_def)

text \<open>
  The end of a run ends the connections of everybody.  The manager is shared by all agents, and after the disconnection that closes
  the run of one of them no server is connected and no tool of a server is listed for any of them.
\<close>

theorem disconnect_all_spec:
  assumes "dom (mm_servers m) \<subseteq> set order"
  shows "(\<forall>n s. mm_servers (disconnect order m) n = Some s \<longrightarrow> sv_status s = SDisconnected) \<and>
    list_all_tools names (disconnect order m) = []"
proof -
  have keep: "mm_servers m n = None \<Longrightarrow> mm_servers (disconnect xs m) n = None" for n xs m
  proof (induction xs arbitrary: m)
    case (Cons x xs)
    then have "mm_servers (snd (disconnect_server x m)) n = None"
      by (auto simp: disconnect_server_def alter_servers split: option.split)
    with Cons.IH show ?case by (simp add: disconnect_def)
  qed (simp add: disconnect_def)
  have down: "sv_status s = SDisconnected" if some: "mm_servers (disconnect order m) n = Some s" for n s
  proof -
    obtain u where u: "mm_servers m n = Some u" using keep [of m n order] some by (cases "mm_servers m n") simp_all
    with assms have "n \<in> set order" by auto
    with disconnect_one [OF u, of order] some show ?thesis by auto
  qed
  have "list_all_tools names (disconnect order m) = []"
    using down by (auto simp: list_all_tools_def list_cached_def split: option.split)
  with down show ?thesis by blast
qed

section \<open>Reconnecting\<close>

text \<open>
  Reconnecting by hand.  It succeeds exactly when the server answers, which is then connected on a new token and offers what it answered;
  otherwise the caller gets the reason, and an unknown server changes nothing.
\<close>

theorem reconnect_spec:
  assumes "manager_reconnect n r m = (x, m')"
  shows "case mm_servers m n of
      None \<Rightarrow> x = Inl (ServerNotFound n) \<and> m' = m
    | Some s \<Rightarrow> sv_cancel_token s \<in> mm_cancelled m' \<and>
        (case r of
           Inr a \<Rightarrow> x = Inr () \<and> call_target n m' = Inr (mm_tokens m, sv_config_name s) \<and>
             list_all_tools [n] m' = map (Pair n) (list_or_empty (an_tools a))
         | Inl e \<Rightarrow> (\<exists>reason. x = Inl (ConnectionFailed n reason)) \<and> list_all_tools [n] m' = [])"
proof (cases "mm_servers m n")
  case None
  with assms show ?thesis by (simp add: manager_reconnect_def reconnect_begin_def)
next
  case (Some s)
  let ?b = "snd (reconnect_begin n m)"
  obtain b where b: "mm_servers ?b n = Some b" "sv_config_name b = sv_config_name s" "fst (reconnect_begin n m) = Inr ()"
      "mm_tokens ?b = mm_tokens m" "sv_cancel_token s \<in> mm_cancelled ?b"
    using Some by (auto simp: reconnect_begin_def alter_servers)
  from connect_server_status [OF b(1), of r] obtain s' where
    s': "mm_servers (connect_server n r ?b) n = Some s'" "sv_config_name s' = sv_config_name s"
      "case r of Inr a \<Rightarrow> sv_status s' = SConnected \<and> sv_running_service s' = Some (mm_tokens m) \<and> sv_cached_tools s' = list_or_empty (an_tools a)
       | Inl e \<Rightarrow> (\<exists>x. sv_status s' = SError x)"
    using b by (cases r) auto
  have cancelled: "mm_cancelled (connect_server n r ?b) = mm_cancelled ?b"
    using b(1) by (auto simp: connect_server_def connect_begin_def connect_end_def Let_def spawn_reconnect_def split: option.split sum.split)
  from assms b(3) have "m' = connect_server n r ?b" "x = reconnect_result n m'"
    by (auto simp: manager_reconnect_def Let_def split: prod.splits)
  with s' Some cancelled b(5) show ?thesis
    by (cases r) (auto simp: reconnect_result_def call_target_def list_all_tools_def list_cached_def)
qed

section \<open>Witnesses\<close>

definition no_letters :: "string \<Rightarrow> bool" where
  "no_letters c = False"

definition demo_answers :: server_answers where
  "demo_answers = \<lparr> an_tools = Inr [\<lparr> ti_name = ''a.b'', ti_description = None, ti_input_schema = None \<rparr>], an_resources = Inl ''none'',
     an_templates = Inr [], an_prompts = Inr [] \<rparr>"

definition demo_manager :: mcp_manager where
  "demo_manager = manager_new no_letters 3 [''s'']"

definition demo_connected :: mcp_manager where
  "demo_connected = connect_end 1 (Inr demo_answers) (connect_begin ''s'' demo_manager)"

lemma sanitized [simp]: "sanitize_name no_letters ''s'' = ''s''" "sanitize_name no_letters ''a.b'' = ''a_b''"
  by code_simp+

lemma demo_server: "mm_servers demo_manager ''s'' = Some (server_new ''s'' 0)" "mm_tokens demo_manager = 1" "mm_max_retries demo_manager = 3"
  "mm_spawned demo_manager = 0" "dom (mm_servers demo_manager) = {''s''}"
  by (simp_all add: demo_manager_def manager_new_def)

lemma demo_up: "mm_servers demo_connected ''s'' =
    Some (server_up 1 demo_answers ((server_new ''s'' 0)\<lparr>sv_status := SConnecting, sv_cancel_token := 1\<rparr>))"
  by (simp add: demo_connected_def connect_end_def connect_begin_def demo_server alter_servers)

lemma demo_mcp_reach: "mcp_reachable no_letters 3 [''s''] demo_connected"
  unfolding demo_connected_def demo_manager_def by (intro reach_step [OF _ end_connect] reach_step [OF _ begin_connect] reach_new)

theorem listed_callable_witness:
  "\<exists>t s. mm_servers demo_connected ''s'' = Some s \<and> call_target ''s'' demo_connected = Inr (t, sv_config_name s)"
proof -
  have "(''s'', \<lparr> ti_name = ''a.b'', ti_description = None, ti_input_schema = None \<rparr>) \<in> set (list_all_tools [''s''] demo_connected)"
    by (simp add: list_all_tools_def list_cached_def demo_up demo_answers_def list_or_empty_def)
  from listed_callable [OF demo_mcp_reach this] show ?thesis .
qed

theorem filtered_not_callable_witness:
  "fst (call_tool (Inl ''e'') (\<lambda>t x args. Inl ''e'') ''s'' ''a.b'' JNull (manager_filter (Some [''s'']) demo_connected)) =
     Inl (ServerDisconnected ''s'')"
  using filtered_not_callable [OF demo_up, of "[''s'']" "Inl ''e''" "\<lambda>t x args. Inl ''e''" "''a.b''" JNull] by simp

theorem call_tool_spec_witness:
  "fst (call_tool (Inr demo_answers) (\<lambda>t x args. Inr \<lparr> cr_is_error = None, cr_content = [RawText ''ok''] \<rparr>) ''s'' ''f'' JNull demo_manager) =
     Inr ''ok''"
proof -
  let ?p = "\<lambda>t x args. Inr \<lparr> cr_is_error = None, cr_content = [RawText ''ok''] \<rparr>"
  obtain x m' where c: "call_tool (Inr demo_answers) ?p ''s'' ''f'' JNull demo_manager = (x, m')" by fastforce
  have "server_ok s" if "mm_servers demo_manager ''s'' = Some s" for s
    using that by (auto simp: demo_server server_ok_def server_new_def)
  from call_tool_spec [OF c this] c show ?thesis
    by (simp add: demo_server server_new_def Let_def format_call_tool_result_def List.map_filter_simps)
qed

theorem reconnect_gives_up_witness:
  "map_option sv_status (mm_servers (loop_run 0 ''s'' [None, Some (Inl ''e''), None] demo_manager) ''s'') = Some (SError ''max retries exceeded'')"
  using reconnect_gives_up [OF demo_server(1), of "[None, Some (Inl ''e''), None]" 0]
  by (simp add: fails_def demo_server server_new_def)

theorem no_retry_with_delay_witness:
  "map_option sv_status (mm_servers (connect_server ''s'' (Inl ''refused'') (demo_manager\<lparr>mm_max_retries := 1\<rparr>)) ''s'') =
     Some (SError ''max retries exceeded, retrying with delay'')"
proof -
  have "mm_servers (demo_manager\<lparr>mm_max_retries := 1\<rparr>) ''s'' = Some (server_new ''s'' 0)" by (simp add: demo_server)
  moreover have "\<not> binary_missing ''refused''" by (auto simp: binary_missing_def dest!: sublist_length_le)
  ultimately show ?thesis
    using no_retry_with_delay [of "demo_manager\<lparr>mm_max_retries := 1\<rparr>" "''s''" "server_new ''s'' 0" "''refused''", OF _ _ _ refl]
    by (simp add: server_new_def)
qed

text \<open>The background task waits while a call connects the server.\<close>

definition demo_race :: mcp_manager where
  "demo_race = task_goes 0 ''s'' (LoopTry 9) demo_connected"

lemma demo_race_simps: "mm_tasks demo_race 0 = Some \<lparr> rk_name = ''s'', rk_phase = LoopTry 9 \<rparr>"
  "mm_servers demo_race ''s'' = Some (server_up 1 demo_answers ((server_new ''s'' 0)\<lparr>sv_status := SConnecting, sv_cancel_token := 1\<rparr>))"
  "mm_max_retries demo_race = 3"
  by (simp_all add: demo_race_def demo_up) (simp_all add: task_goes_def demo_connected_def connect_end_def connect_begin_def demo_server Let_def alter_servers)

theorem healthy_connection_killed_witness:
  "1 \<in> mm_cancelled (loop_top 0 ''s'' (loop_end 0 ''s'' 9 None demo_race))"
  using healthy_connection_killed [OF demo_race_simps(1,2) _ _ _ _ _ refl refl, of None] by (simp add: demo_race_simps fails_def)

theorem disconnect_undone_witness:
  "map_option sv_status (mm_servers (loop_end 0 ''s'' 9 (Some (Inr demo_answers)) (snd (disconnect_server ''s'' demo_race))) ''s'') = Some SConnected"
  using disconnect_undone [OF demo_race_simps(1,2) refl refl, of demo_answers] by simp

theorem sanitized_tool_lost_witness:
  "\<exists>e. fst (mcp_tool_execute no_letters (Inl ''e'') (\<lambda>t x args. if x = ''a.b'' then Inr \<lparr> cr_is_error = None, cr_content = [] \<rparr> else Inl ''unknown tool'')
     ''s'' ''a.b'' JNull demo_connected) = Inl (ExecutionFailed e)"
  using sanitized_tool_lost [of demo_connected no_letters "''s''" _ 1 "''a.b''"
      "\<lambda>t x args. if x = ''a.b'' then Inr \<lparr> cr_is_error = None, cr_content = [] \<rparr> else Inl ''unknown tool''" "Inl ''e''" JNull]
  by (simp add: demo_up)

theorem disconnect_all_spec_witness:
  "\<forall>n s. mm_servers (disconnect [''s''] demo_manager) n = Some s \<longrightarrow> sv_status s = SDisconnected"
  using disconnect_all_spec [of demo_manager "[''s'']"] by (simp add: demo_server)

theorem reconnect_spec_witness:
  "fst (manager_reconnect ''s'' (Inr demo_answers) demo_manager) = Inr ()"
proof -
  obtain x m' where c: "manager_reconnect ''s'' (Inr demo_answers) demo_manager = (x, m')" by fastforce
  with reconnect_spec [OF c] show ?thesis by (simp add: demo_server)
qed

end
