(* ===== verification/Capabilities.thy ===== *)
theory Capabilities
  imports McpManager DataPlane
begin

text \<open>
  What a client may change of an agent for one of its sessions: the handler of \<open>agent.get_capabilities\<close> and
  \<open>agent.update_capabilities\<close> (\<open>crates/vol-agent-server/src/data_plane/handlers/capability.rs\<close>).  The overlays it writes are
  those that the runs read.  The orders of the hash tables are arguments.
\<close>

section \<open>State\<close>

record ('w, 'b) capability_state =
  cb_overlays :: "string \<times> string \<rightharpoonup> capability_overlay"
  cb_registry :: "('w, 'b) tool_registry"
  cb_skills :: "string list"
  cb_mcp :: mcp_manager
  cb_defs :: "string \<rightharpoonup> agent_def"

type_synonym capability_lists = "string list \<times> string list \<times> string list"

definition listed_or_none :: "string list option \<Rightarrow> string list" where
  "listed_or_none x = (case x of Some xs \<Rightarrow> xs | None \<Rightarrow> [])"

definition base_capabilities :: "string \<Rightarrow> ('w, 'b) capability_state \<Rightarrow> capability_lists" where
  "base_capabilities a s =
     (case cb_defs s a of
        Some d \<Rightarrow> (listed_or_none (ad_tools d), listed_or_none (ad_skills d), listed_or_none (ad_mcps d))
      | None \<Rightarrow> ([], [], []))"

definition resolve_effective :: "string \<Rightarrow> string \<Rightarrow> ('w, 'b) capability_state \<Rightarrow> capability_lists" where
  "resolve_effective a sid s =
     (case cb_overlays s (a, sid) of
        Some ov \<Rightarrow> (ov_tools ov, ov_skills ov, ov_mcp_servers ov)
      | None \<Rightarrow> base_capabilities a s)"

definition named :: "string \<Rightarrow> json" where
  "named n = JObj [(''name'', JStr n)]"

text \<open>The skills that there are are never told.\<close>

definition gather_available ::
  "string list \<Rightarrow> string list \<Rightarrow> ('w, 'b) capability_state \<Rightarrow> json list \<times> json list \<times> json list" where
  "gather_available tool_order server_order s =
     (map named (filter (\<lambda>n. cb_registry s n \<noteq> None) tool_order), [],
      map named (filter (\<lambda>n. mm_servers (cb_mcp s) n \<noteq> None) server_order))"

datatype capability_reply =
    GotCapabilities capability_lists "json list \<times> json list \<times> json list" capability_lists
  | UpdatedCapabilities capability_lists
  | CapabilityRefused error_payload

definition get_capabilities ::
  "string list \<Rightarrow> string list \<Rightarrow> string \<Rightarrow> string \<Rightarrow> ('w, 'b) capability_state \<Rightarrow> capability_reply" where
  "get_capabilities tool_order server_order a sid s =
     GotCapabilities (resolve_effective a sid s) (gather_available tool_order server_order s) (base_capabilities a s)"

section \<open>Updating\<close>

definition refused :: "string \<Rightarrow> string \<Rightarrow> capability_reply" where
  "refused code text = CapabilityRefused \<lparr> ep_code = code, ep_message = text, ep_detail = None, ep_terminal = False \<rparr>"

definition quote_name :: "string \<Rightarrow> string" where
  "quote_name x = [CHR 0x27] @ x @ [CHR 0x27]"

text \<open>The first name of a list that is not acceptable.\<close>

definition first_bad :: "(string \<Rightarrow> bool) \<Rightarrow> string list \<Rightarrow> string option" where
  "first_bad bad xs = find bad xs"

definition outside :: "string list option \<Rightarrow> string \<Rightarrow> bool" where
  "outside allowed n \<longleftrightarrow> (case allowed of None \<Rightarrow> False | Some xs \<Rightarrow> n \<notin> set xs)"

definition inside :: "string list option \<Rightarrow> string \<Rightarrow> bool" where
  "inside blocked n \<longleftrightarrow> (case blocked of None \<Rightarrow> False | Some xs \<Rightarrow> n \<in> set xs)"

definition or_then :: "'a option \<Rightarrow> 'a option \<Rightarrow> 'a option" where
  "or_then x y = (case x of Some v \<Rightarrow> Some v | None \<Rightarrow> y)"

text \<open>The checks against the definition of the agent, when there is one.\<close>

definition check_definition :: "agent_def option \<Rightarrow> capability_lists \<Rightarrow> capability_reply option" where
  "check_definition d = (\<lambda>(ts, ks, ms).
     (case d of
        None \<Rightarrow> None
      | Some d \<Rightarrow>
          or_then (map_option (\<lambda>n. refused ''tool_disallowed'' (''Tool '' @ quote_name n @ '' is disallowed by agent definition''))
            (first_bad (inside (ad_disallowed_tools d)) ts))
          (or_then (map_option (\<lambda>n. refused ''mcp_not_allowed'' (''MCP server '' @ quote_name n @ '' is not in agent'' @ [CHR 0x27] @ ''s allowed mcps list''))
            (first_bad (outside (ad_mcps d)) ms))
          (map_option (\<lambda>n. refused ''skill_not_allowed'' (''Skill '' @ quote_name n @ '' is not in agent'' @ [CHR 0x27] @ ''s allowed skills list''))
            (first_bad (outside (ad_skills d)) ks)))))"

definition check_known :: "('w, 'b) capability_state \<Rightarrow> capability_lists \<Rightarrow> capability_reply option" where
  "check_known s = (\<lambda>(ts, ks, ms).
     or_then (map_option (\<lambda>n. refused ''unknown_tool'' (''Tool '' @ quote_name n @ '' not found in registry''))
       (first_bad (\<lambda>n. cb_registry s n = None) ts))
     (or_then (map_option (\<lambda>n. refused ''unknown_skill'' (''Skill '' @ quote_name n @ '' not found''))
       (first_bad (\<lambda>n. n \<notin> set (cb_skills s)) ks))
     (map_option (\<lambda>n. refused ''unknown_mcp_server'' (''MCP server '' @ quote_name n @ '' not found''))
       (first_bad (\<lambda>n. mm_servers (cb_mcp s) n = None) ms))))"

text \<open>Three empty lists remove the overlay.\<close>

definition apply_overlay :: "string \<times> string \<Rightarrow> capability_lists \<Rightarrow> ('w, 'b) capability_state \<Rightarrow> ('w, 'b) capability_state" where
  "apply_overlay k = (\<lambda>(ts, ks, ms) s.
     s\<lparr>cb_overlays := (cb_overlays s)(k :=
       if ts = [] \<and> ks = [] \<and> ms = [] then None
       else (case cb_overlays s k of
           Some ov \<Rightarrow> Some (overlay_update ts ks ms ov)
         | None \<Rightarrow> Some (overlay_new ts ks ms)))\<rparr>)"

definition update_capabilities ::
  "string \<Rightarrow> string \<Rightarrow> capability_lists \<Rightarrow> ('w, 'b) capability_state \<Rightarrow> capability_reply \<times> ('w, 'b) capability_state" where
  "update_capabilities a sid ls s =
     (case or_then (check_definition (cb_defs s a) ls) (check_known s ls) of
        Some refusal \<Rightarrow> (refusal, s)
      | None \<Rightarrow> (UpdatedCapabilities ls, apply_overlay (a, sid) ls s))"

datatype capability_body =
    BGetCapabilities string string
  | BUpdateCapabilities string string "string list" "string list" "string list"
  | BOtherCapability

definition overlay_handle ::
  "string list \<Rightarrow> string list \<Rightarrow> agent_operation \<Rightarrow> capability_body \<Rightarrow> ('w, 'b) capability_state \<Rightarrow>
   (protocol_error + capability_reply) \<times> ('w, 'b) capability_state" where
  "overlay_handle tool_order server_order op b s =
     (case op of
        AgGetCapabilitiesOp \<Rightarrow> (case b of
            BGetCapabilities a sid \<Rightarrow> (Inr (get_capabilities tool_order server_order a sid s), s)
          | _ \<Rightarrow> (Inl (PayloadDecodeFailed ''agent.get_capabilities''), s))
      | AgUpdateCapabilitiesOp \<Rightarrow> (case b of
            BUpdateCapabilities a sid ts ks ms \<Rightarrow> map_prod Inr id (update_capabilities a sid (ts, ks, ms) s)
          | _ \<Rightarrow> (Inl (PayloadDecodeFailed ''agent.update_capabilities''), s))
      | _ \<Rightarrow> (Inl (PayloadDecodeFailed ''capability''), s))"

text \<open>What a run of the agent in the session has.\<close>

definition run_tools :: "(string \<Rightarrow> bool) \<Rightarrow> string \<Rightarrow> string \<Rightarrow> ('w, 'b) capability_state \<Rightarrow> ('w, 'b) tool_registry" where
  "run_tools letter a sid s = resolve_tools letter (cb_overlays s (a, sid)) (cb_defs s a) (cb_registry s)"

section \<open>What an update promises\<close>

lemma or_then_simps [simp]: "or_then None y = y" "or_then (Some v) y = Some v" "or_then x y = None \<longleftrightarrow> x = None \<and> y = None"
  by (simp_all add: or_then_def split: option.split)

lemma first_bad_None [simp]: "first_bad bad xs = None \<longleftrightarrow> (\<forall>x \<in> set xs. \<not> bad x)"
  by (induction xs) (simp_all add: first_bad_def)

lemma update_accepted:
  assumes "fst (update_capabilities a sid (ts, ks, ms) s) = UpdatedCapabilities l"
  shows "l = (ts, ks, ms)" "snd (update_capabilities a sid (ts, ks, ms) s) = apply_overlay (a, sid) (ts, ks, ms) s"
    "\<And>n. n \<in> set ts \<Longrightarrow> cb_registry s n \<noteq> None \<and> (\<forall>d. cb_defs s a = Some d \<longrightarrow> \<not> inside (ad_disallowed_tools d) n)"
    "\<And>n. n \<in> set ms \<Longrightarrow> mm_servers (cb_mcp s) n \<noteq> None"
    "\<And>n. n \<in> set ks \<Longrightarrow> n \<in> set (cb_skills s)"
proof -
  let ?c = "or_then (check_definition (cb_defs s a) (ts, ks, ms)) (check_known s (ts, ks, ms))"
  have "?c = None"
  proof (rule ccontr)
    assume "?c \<noteq> None"
    then obtain r where r: "?c = Some r" by blast
    with assms have "r = UpdatedCapabilities l" by (simp add: update_capabilities_def)
    with r show False
      by (auto simp: check_definition_def check_known_def or_then_def refused_def split: option.splits)
  qed
  with assms show "l = (ts, ks, ms)" "snd (update_capabilities a sid (ts, ks, ms) s) = apply_overlay (a, sid) (ts, ks, ms) s"
    by (simp_all add: update_capabilities_def)
  from \<open>?c = None\<close> show "\<And>n. n \<in> set ts \<Longrightarrow> cb_registry s n \<noteq> None \<and> (\<forall>d. cb_defs s a = Some d \<longrightarrow> \<not> inside (ad_disallowed_tools d) n)"
    "\<And>n. n \<in> set ms \<Longrightarrow> mm_servers (cb_mcp s) n \<noteq> None" "\<And>n. n \<in> set ks \<Longrightarrow> n \<in> set (cb_skills s)"
    by (auto simp: check_definition_def check_known_def split: option.splits)
qed

lemma plain_tool:
  assumes "take 5 n \<noteq> ''mcp__''"
  shows "resolve_tools letter ov d r n =
    (if inside (Option.bind d ad_disallowed_tools) n \<or> outside (overlay_or (map_option ov_tools ov) (Option.bind d ad_tools)) n
     then None else r n)"
  using assms by (auto simp: resolve_tools_def Let_def reg_filter_mcp_servers_def keeps_server_def reg_filter_def inside_def outside_def
      split: option.split)


text \<open>
  An empty list grants what it seems to take.  When an update empties the tools but not the skills, the server reports that the session has
  no tools, while its runs keep all that the definition of the agent allows.
\<close>

theorem empty_tools_ignored:
  assumes "update_capabilities a sid ([], ks, ms) s = (UpdatedCapabilities l, s')" "ks \<noteq> []"
  shows "fst (resolve_effective a sid s') = [] \<and>
    (\<forall>n. take 5 n \<noteq> ''mcp__'' \<longrightarrow> run_tools letter a sid s' n = resolve_tools letter None (cb_defs s a) (cb_registry s) n)"
proof -
  from assms(1) have acc: "fst (update_capabilities a sid ([], ks, ms) s) = UpdatedCapabilities l" by simp
  have s': "s' = apply_overlay (a, sid) ([], ks, ms) s" using update_accepted(2) [OF acc] assms(1) by simp
  obtain ov where ov: "cb_overlays s' (a, sid) = Some ov" "ov_tools ov = []"
    using assms(2) by (cases "cb_overlays s (a, sid)") (auto simp: s' apply_overlay_def overlay_new_def overlay_update_def)
  have "cb_defs s' = cb_defs s" "cb_registry s' = cb_registry s" by (simp_all add: s' apply_overlay_def)
  with ov show ?thesis
    by (simp add: resolve_effective_def run_tools_def plain_tool overlay_or_def)
qed

section \<open>Witnesses\<close>

definition demo_bash :: "(unit, unit) tool" where
  "demo_bash = \<lparr> to_name = ''bash'', to_description = [], to_parameters = JNull, to_sensitivity = (\<lambda>a. Safe),
     to_execute = (\<lambda>a c. ret (tool_success [])) \<rparr>"

definition demo_capabilities :: "(unit, unit) capability_state" where
  "demo_capabilities = \<lparr> cb_overlays = Map.empty, cb_registry = [''bash'' \<mapsto> demo_bash], cb_skills = [''review''],
     cb_mcp = manager_new (\<lambda>c. False) 3 [], cb_defs = [''a'' \<mapsto> agent_def_default] \<rparr>"

lemma demo_checks:
  "check_definition (cb_defs demo_capabilities ''a'') (ts, [''review''], []) = None"
  "check_known demo_capabilities ([''bash''], [''review''], []) = None" "check_known demo_capabilities ([], [''review''], []) = None"
  by (auto simp: demo_capabilities_def check_definition_def check_known_def agent_def_default_def inside_def outside_def)


theorem empty_tools_ignored_witness:
  "run_tools (\<lambda>c. False) ''a'' ''s'' (snd (update_capabilities ''a'' ''s'' ([], [''review''], []) demo_capabilities)) ''bash'' \<noteq> None"
proof -
  have acc: "update_capabilities ''a'' ''s'' ([], [''review''], []) demo_capabilities =
    (UpdatedCapabilities ([], [''review''], []), apply_overlay (''a'', ''s'') ([], [''review''], []) demo_capabilities)"
    using demo_checks by (simp add: update_capabilities_def or_then_def)
  have "resolve_tools (\<lambda>c. False) None (cb_defs demo_capabilities ''a'') (cb_registry demo_capabilities) ''bash'' \<noteq> None"
    by (simp add: plain_tool demo_capabilities_def agent_def_default_def inside_def outside_def overlay_or_def)
  with empty_tools_ignored [OF acc, of "\<lambda>c. False"] acc show ?thesis by simp
qed

end
