(* ===== verification/Frontmatter.thy ===== *)
theory Frontmatter
  imports Prelude "HOL-Library.Sublist"
begin

text \<open>
  Markdown files that begin with a block of settings: reading, printing and writing them
  (\<open>crates/md-frontmatter/src/parser.rs\<close>, \<open>io.rs\<close>, \<open>error.rs\<close>).  Reading and printing the settings themselves is
  the YAML library's, and a parameter; so are the contents of the disk.
\<close>

section \<open>Documents\<close>

datatype md_error = MdParseError nat string | MdIo string | MdInvalidUtf8 string | MdMissing string

definition display_md_error :: "md_error \<Rightarrow> string" where
  "display_md_error e =
     (case e of
        MdParseError line text \<Rightarrow> ''frontmatter parse error at line '' @ show_nat line @ '': '' @ text
      | MdIo text \<Rightarrow> ''IO error: '' @ text
      | MdInvalidUtf8 path \<Rightarrow> ''file is not valid UTF-8: '' @ path
      | MdMissing path \<Rightarrow> ''no frontmatter found: '' @ path)"

record 't parsed_doc =
  dc_frontmatter :: 't
  dc_body :: string
  dc_path :: "string option"

section \<open>Parsing and printing\<close>

definition dashes :: string where
  "dashes = ''---''"

definition fence :: string where
  "fence = newline @ dashes"

text \<open>The text before and after the first fence.\<close>

fun split_fence :: "string \<Rightarrow> (string \<times> string) option" where
  "split_fence [] = None"
| "split_fence (c # cs) =
     (if prefix fence (c # cs) then Some ([], drop 4 (c # cs))
      else map_option (\<lambda>(a, b). (c # a, b)) (split_fence cs))"

type_synonym 't yaml_reader = "string \<Rightarrow> nat \<times> string + 't"

definition parse_doc :: "'t yaml_reader \<Rightarrow> string \<Rightarrow> md_error + 't parsed_doc" where
  "parse_doc yaml text =
     (let trimmed = trim_start text in
      if \<not> prefix dashes trimmed then Inl (MdMissing [])
      else (case split_fence (drop 3 trimmed) of
          None \<Rightarrow> Inl (MdMissing [])
        | Some (settings, body) \<Rightarrow> (case yaml settings of
            Inr t \<Rightarrow> Inr \<lparr> dc_frontmatter = t, dc_body = body, dc_path = None \<rparr>
          | Inl (line, e) \<Rightarrow> Inl (MdParseError line e))))"

definition print_doc :: "('t \<Rightarrow> string + string) \<Rightarrow> 't parsed_doc \<Rightarrow> md_error + string" where
  "print_doc ser d =
     (case ser (dc_frontmatter d) of
        Inl e \<Rightarrow> Inl (MdParseError 0 e)
      | Inr y \<Rightarrow> Inr (dashes @ newline @ y @ dashes @ newline @ dc_body d))"

text \<open>Both conversions are unwrapped: a failure panics, here no document.\<close>

definition update_frontmatter ::
  "('t \<Rightarrow> string + 'v) \<Rightarrow> ('v \<Rightarrow> string + 't) \<Rightarrow> 't \<Rightarrow> 't parsed_doc \<Rightarrow> 't parsed_doc option" where
  "update_frontmatter to_value from_value t d =
     (case to_value t of
        Inl e \<Rightarrow> None
      | Inr v \<Rightarrow> (case from_value v of Inl e \<Rightarrow> None | Inr u \<Rightarrow> Some (d\<lparr>dc_frontmatter := u\<rparr>)))"

section \<open>Files\<close>

definition replacement_char :: string where
  "replacement_char = [CHR 0xEF, CHR 0xBF, CHR 0xBD]"

definition doc_from_path :: "'t yaml_reader \<Rightarrow> (string \<Rightarrow> string + string) \<Rightarrow> string \<Rightarrow> md_error + 't parsed_doc" where
  "doc_from_path yaml disk path =
     (case disk path of
        Inl e \<Rightarrow> Inl (MdIo e)
      | Inr text \<Rightarrow>
          if sublist replacement_char text then Inl (MdInvalidUtf8 path)
          else (case parse_doc yaml text of Inl e \<Rightarrow> Inl e | Inr d \<Rightarrow> Inr (d\<lparr>dc_path := Some path\<rparr>)))"

type_synonym disk_files = "string \<rightharpoonup> string"

definition write_doc :: "('t \<Rightarrow> string + string) \<Rightarrow> 't parsed_doc \<Rightarrow> (disk_files, md_error, unit) eff" where
  "write_doc ser d fs =
     (case dc_path d of
        None \<Rightarrow> (Inl (MdIo ''no path set on ParsedDoc''), fs)
      | Some p \<Rightarrow> (case print_doc ser d of Inl e \<Rightarrow> (Inl e, fs) | Inr text \<Rightarrow> (Inr (), fs(p \<mapsto> text))))"

text \<open>The paths that the search finds, or the errors it meets; one bad file makes the result the list of all errors.\<close>

fun scan_docs :: "'t yaml_reader \<Rightarrow> (string \<Rightarrow> string + string) \<Rightarrow> string \<Rightarrow> (string + string) list \<Rightarrow> 't parsed_doc list \<times> (string \<times> md_error) list" where
  "scan_docs yaml disk root [] = ([], [])"
| "scan_docs yaml disk root (e # es) =
     (case scan_docs yaml disk root es of (ds, errs) \<Rightarrow>
        (case e of
           Inl x \<Rightarrow> (ds, (root, MdIo x) # errs)
         | Inr p \<Rightarrow> (case doc_from_path yaml disk p of Inr d \<Rightarrow> (d # ds, errs) | Inl x \<Rightarrow> (ds, (p, x) # errs))))"

definition scan_doc_dir ::
  "'t yaml_reader \<Rightarrow> (string \<Rightarrow> string + string) \<Rightarrow> string \<Rightarrow> string + (string + string) list \<Rightarrow>
   (string \<times> md_error) list + 't parsed_doc list" where
  "scan_doc_dir yaml disk root found =
     (case found of
        Inl e \<Rightarrow> Inl [(root, MdIo e)]
      | Inr es \<Rightarrow> (case scan_docs yaml disk root es of
          (ds, errs) \<Rightarrow> if errs = [] then Inr ds else Inl errs))"

section \<open>Reading what was printed\<close>

lemma fence_length [simp]: "length fence = 4" "fence \<noteq> []" "hd fence = CHR 0x0A"
  by (simp_all add: fence_def newline_def dashes_def)

lemma split_here: "split_fence (fence @ z) = Some ([], z)"
proof -
  obtain c cs where c: "fence @ z = c # cs" by (cases "fence @ z") auto
  moreover have "prefix fence (fence @ z)" by simp
  ultimately have "split_fence (fence @ z) = Some ([], drop 4 (fence @ z))" by simp
  then show ?thesis by simp
qed

lemma prefix_inside:
  assumes "prefix fence (c # x @ fence @ z)" "\<not> sublist fence (c # x)"
  shows False
proof -
  have cs: "fence = [CHR 0x0A, CHR ''-'', CHR ''-'', CHR ''-'']" by (simp add: fence_def newline_def dashes_def)
  from assms(1) obtain zs where eq: "c # x @ fence @ z = fence @ zs" by (auto simp: prefix_def)
  have pre: "take 4 (c # x @ fence @ z) = fence" unfolding eq by simp
  consider "x = []" | a where "x = [a]" | a b where "x = [a, b]" | a b d y where "x = a # b # d # y"
    by (metis neq_Nil_conv)
  then show False
  proof cases
    case 4
    then have "prefix fence (c # x)" using pre by (simp add: cs prefix_def)
    with assms(2) show False by auto
  qed (use pre in \<open>simp_all add: cs\<close>)
qed

lemma split_first: "\<not> sublist fence x \<Longrightarrow> split_fence (x @ fence @ z) = Some (x, z)"
proof (induction x)
  case Nil
  show ?case by (simp add: split_here)
next
  case (Cons c x)
  then have "\<not> sublist fence x" by (meson sublist_Cons_right)
  moreover have "\<not> prefix fence (c # x @ fence @ z)" using prefix_inside Cons.prems by blast
  ultimately show ?case using Cons.IH by simp
qed

definition save_load :: "('t \<Rightarrow> string + string) \<Rightarrow> 't yaml_reader \<Rightarrow> 't parsed_doc \<Rightarrow> md_error + 't parsed_doc" where
  "save_load ser yaml d = (case print_doc ser d of Inl e \<Rightarrow> Inl e | Inr text \<Rightarrow> parse_doc yaml text)"

fun rounds :: "nat \<Rightarrow> ('t \<Rightarrow> string + string) \<Rightarrow> 't yaml_reader \<Rightarrow> 't parsed_doc \<Rightarrow> md_error + 't parsed_doc" where
  "rounds 0 ser yaml d = Inr d"
| "rounds (Suc n) ser yaml d = (case save_load ser yaml d of Inl e \<Rightarrow> Inl e | Inr d \<Rightarrow> rounds n ser yaml d)"

definition prints_settings :: "('t \<Rightarrow> string + string) \<Rightarrow> 't yaml_reader \<Rightarrow> 't \<Rightarrow> bool" where
  "prints_settings ser yaml t \<longleftrightarrow> (\<exists>y. ser t = Inr (y @ newline) \<and> \<not> sublist fence (newline @ y) \<and> yaml (newline @ y) = Inr t)"

lemma one_round:
  assumes "prints_settings ser yaml (dc_frontmatter d)"
  shows "save_load ser yaml d = Inr \<lparr> dc_frontmatter = dc_frontmatter d, dc_body = newline @ dc_body d, dc_path = None \<rparr>"
proof -
  from assms obtain y where y: "ser (dc_frontmatter d) = Inr (y @ newline)" "\<not> sublist fence (newline @ y)"
    "yaml (newline @ y) = Inr (dc_frontmatter d)"
    by (auto simp: prints_settings_def)
  let ?text = "dashes @ newline @ (y @ newline) @ dashes @ newline @ dc_body d"
  have printed: "print_doc ser d = Inr ?text" by (simp add: print_doc_def y(1))
  have "trim_start ?text = ?text" by (simp add: trim_start_def dashes_def is_space_def)
  moreover have "drop 3 ?text = (newline @ y) @ fence @ newline @ dc_body d" by (simp add: dashes_def fence_def)
  ultimately show ?thesis
    using split_first [OF y(2), of "newline @ dc_body d"] y(3)
    by (simp add: save_load_def printed parse_doc_def Let_def del: append_assoc)
qed

text \<open>
  A document gains a line feed each time it is saved and read.  When the settings are printed on lines of their own, without a line
  of dashes among them, reading the printed document gives back the same settings, but a line feed before the body:
  after \<open>n\<close> rounds there are \<open>n\<close> of them.
\<close>

theorem saving_grows:
  assumes "prints_settings ser yaml (dc_frontmatter d)" "dc_path d = None"
  shows "rounds n ser yaml d = Inr (d\<lparr>dc_body := concat (replicate n newline) @ dc_body d\<rparr>)"
  using assms
proof (induction n arbitrary: d)
  case (Suc n)
  let ?d = "\<lparr> dc_frontmatter = dc_frontmatter d, dc_body = newline @ dc_body d, dc_path = None \<rparr>"
  have "concat (replicate n newline) @ newline = newline @ concat (replicate n newline)"
    by (induction n) simp_all
  then have "concat (replicate n newline) @ newline @ dc_body d = newline @ concat (replicate n newline) @ dc_body d"
    by (metis append_assoc)
  moreover have "rounds n ser yaml ?d = Inr (?d\<lparr>dc_body := concat (replicate n newline) @ dc_body ?d\<rparr>)"
    using Suc.IH [of ?d] Suc.prems(1) by simp
  ultimately show ?case using one_round [OF Suc.prems(1)] Suc.prems(2) by (simp del: append_assoc)
qed simp

theorem saving_grows_witness:
  "rounds 2 (\<lambda>t. Inr (''a: 1'' @ newline)) (\<lambda>y. Inr ()) \<lparr> dc_frontmatter = (), dc_body = ''x'', dc_path = None \<rparr> =
     Inr \<lparr> dc_frontmatter = (), dc_body = newline @ newline @ ''x'', dc_path = None \<rparr>"
proof -
  have "prints_settings (\<lambda>t. Inr (''a: 1'' @ newline)) (\<lambda>y. Inr ()) ()"
    unfolding prints_settings_def by (intro exI [of _ "''a: 1''"]) (simp add: fence_def newline_def dashes_def sublist_Cons_right)
  with saving_grows [of "\<lambda>t. Inr (''a: 1'' @ newline)" "\<lambda>y. Inr ()" "\<lparr> dc_frontmatter = (), dc_body = ''x'', dc_path = None \<rparr>" 2]
  show ?thesis by (simp add: numeral_2_eq_2)
qed

end
