(* ===== verification/AgentLoader.thy ===== *)
theory AgentLoader
  imports AgentDef Frontmatter SandboxPath
begin

text \<open>
  Finding the agents of a user and of a repository: \<open>crates/vol-llm-agent/src/agent_loader.rs\<close> with
  the settings of \<open>agent_def.rs\<close>, and the chain of agents (\<open>AgentPath\<close>) of \<open>crates/vol-llm-core/src/agent_def.rs\<close>.
  A directory is the list of its entries in the order in which the disk gives them; the order of a hash
  table is an argument.
\<close>

section \<open>Settings\<close>

record agent_frontmatter =
  af_name :: string
  af_type :: "string option"
  af_description :: string
  af_tools :: "string list option"
  af_disallowed_tools :: "string list option"
  af_model :: "string option"
  af_max_iterations :: "u32 option"
  af_max_turns :: "u32 option"
  af_max_history_messages :: "nat option"
  af_working_dir :: "string option"
  af_context_files :: "string list option"
  af_sandbox :: "string option"
  af_tool_config :: "(string \<rightharpoonup> json) option"
  af_mcps :: "string list option"
  af_skills :: "string list option"

definition resolve_type :: "agent_frontmatter \<Rightarrow> string" where
  "resolve_type f = (case af_type f of Some t \<Rightarrow> t | None \<Rightarrow> af_name f)"

definition resolve_max_iterations :: "agent_frontmatter \<Rightarrow> u32 option" where
  "resolve_max_iterations f = (case af_max_iterations f of Some n \<Rightarrow> Some n | None \<Rightarrow> af_max_turns f)"

definition loaded_def :: "agent_scope \<Rightarrow> agent_frontmatter parsed_doc \<Rightarrow> agent_def" where
  "loaded_def scope d =
     (let f = dc_frontmatter d in
      \<lparr> ad_id = scope_prefix scope @ '':'' @ af_name f, ad_name = af_name f, ad_type = resolve_type f,
        ad_description = af_description f, ad_scope = scope, ad_tools = af_tools f, ad_disallowed_tools = af_disallowed_tools f,
        ad_model = af_model f, ad_max_iterations = resolve_max_iterations f, ad_max_history_messages = af_max_history_messages f,
        ad_prompt = dc_body d, ad_working_dir = af_working_dir f,
        ad_context_files = (case af_context_files f of Some xs \<Rightarrow> xs | None \<Rightarrow> []), ad_sandbox = af_sandbox f,
        ad_tool_config = af_tool_config f, ad_mcps = af_mcps f, ad_skills = af_skills f, ad_parent_agent = None, ad_depth = 0 \<rparr>)"

record agent_metadata =
  am_id :: string
  am_name :: string
  am_type :: string
  am_description :: string
  am_scope :: agent_scope

definition agent_metadata_of :: "agent_def \<Rightarrow> agent_metadata" where
  "agent_metadata_of d = \<lparr> am_id = ad_id d, am_name = ad_name d, am_type = ad_type d, am_description = ad_description d,
     am_scope = ad_scope d \<rparr>"

section \<open>The loader\<close>

record agent_loader =
  al_roots :: "(agent_scope \<times> string) list"
  al_agents :: "string \<rightharpoonup> agent_def"
  al_metadata :: "agent_metadata list"
  al_discovered :: bool

definition loader_empty :: agent_loader where
  "loader_empty = \<lparr> al_roots = [], al_agents = Map.empty, al_metadata = [], al_discovered = False \<rparr>"

definition loader_add_root :: "agent_scope \<Rightarrow> string \<Rightarrow> agent_loader \<Rightarrow> agent_loader" where
  "loader_add_root scope p l = l\<lparr>al_roots := al_roots l @ [(scope, p)]\<rparr>"

text \<open>The home directory counts when it exists and has a directory of agents.\<close>

definition loader_new :: "(string \<Rightarrow> bool) \<Rightarrow> string option \<Rightarrow> string option \<Rightarrow> agent_loader" where
  "loader_new present home working_dir =
     (let l = (case home of
             None \<Rightarrow> loader_empty
           | Some h \<Rightarrow> if present h \<and> present (path_join h ''.agents'')
               then loader_add_root UserScope (path_join (path_join h ''.agents'') ''agents'') loader_empty else loader_empty)
      in case working_dir of
           None \<Rightarrow> l
         | Some wd \<Rightarrow> loader_add_root RepoScope (path_join (path_join wd ''.agents'') ''agents'') l)"

text \<open>The names of the entries of a directory and whether each is a file, when the directory can be read.\<close>

type_synonym listing = "string \<Rightarrow> (string \<times> bool) list option"

definition is_md :: "string \<Rightarrow> bool" where
  "is_md name \<longleftrightarrow> (case strip_suffix ''.md'' name of Some (c # cs) \<Rightarrow> True | _ \<Rightarrow> False)"

definition agent_of_entry ::
  "agent_frontmatter yaml_reader \<Rightarrow> (string \<Rightarrow> string + string) \<Rightarrow> agent_scope \<Rightarrow> string \<Rightarrow> string \<times> bool \<Rightarrow> (string \<times> agent_def) option" where
  "agent_of_entry yaml disk scope root = (\<lambda>(name, file).
     if \<not> file \<or> \<not> is_md name then None
     else (case doc_from_path yaml disk (path_join root name) of
         Inr d \<Rightarrow> Some (af_name (dc_frontmatter d), loaded_def scope d)
       | Inl e \<Rightarrow> None))"

definition agents_found ::
  "agent_frontmatter yaml_reader \<Rightarrow> (string \<Rightarrow> string + string) \<Rightarrow> listing \<Rightarrow> (agent_scope \<times> string) list \<Rightarrow> (string \<times> agent_def) list" where
  "agents_found yaml disk dir roots = concat (map (\<lambda>(scope, root).
     case dir root of None \<Rightarrow> [] | Some es \<Rightarrow> List.map_filter (agent_of_entry yaml disk scope root) es) roots)"

text \<open>Of two files with the same name the later one stays.\<close>

definition agents_table :: "(string \<times> agent_def) list \<Rightarrow> (string \<rightharpoonup> agent_def)" where
  "agents_table found = foldl (\<lambda>m (n, d). m(n \<mapsto> d)) Map.empty found"

type_synonym agent_order = "(string \<rightharpoonup> agent_def) \<Rightarrow> string list"

definition loader_rebuild :: "agent_order \<Rightarrow> agent_loader \<Rightarrow> agent_loader" where
  "loader_rebuild ord l = l\<lparr>al_metadata :=
     map agent_metadata_of (List.map_filter (al_agents l) (ord (al_agents l)))\<rparr>"

definition loader_discover ::
  "agent_order \<Rightarrow> agent_frontmatter yaml_reader \<Rightarrow> (string \<Rightarrow> string + string) \<Rightarrow> listing \<Rightarrow> agent_loader \<Rightarrow> agent_loader" where
  "loader_discover ord yaml disk dir l =
     loader_rebuild ord (l\<lparr>al_agents := al_agents l ++ agents_table (agents_found yaml disk dir (al_roots l))\<rparr>)"

text \<open>The first access discovers, once.\<close>

definition loader_ensure ::
  "agent_order \<Rightarrow> agent_frontmatter yaml_reader \<Rightarrow> (string \<Rightarrow> string + string) \<Rightarrow> listing \<Rightarrow> agent_loader \<Rightarrow> agent_loader" where
  "loader_ensure ord yaml disk dir l =
     (if al_discovered l then l else (loader_discover ord yaml disk dir l)\<lparr>al_discovered := True\<rparr>)"

text \<open>The accesses, on a loader that has discovered.\<close>

definition loader_get :: "string \<Rightarrow> agent_loader \<Rightarrow> agent_def option" where
  "loader_get name l = al_agents l name"

definition loader_get_by_id :: "agent_order \<Rightarrow> string \<Rightarrow> agent_loader \<Rightarrow> agent_def option" where
  "loader_get_by_id ord i l = find (\<lambda>d. ad_id d = i) (List.map_filter (al_agents l) (ord (al_agents l)))"

definition loader_get_by_type :: "agent_order \<Rightarrow> string \<Rightarrow> agent_loader \<Rightarrow> agent_def list" where
  "loader_get_by_type ord t l =
     filter (\<lambda>d. to_lower (ad_type d) = to_lower t) (List.map_filter (al_agents l) (ord (al_agents l)))"

definition loader_register :: "agent_order \<Rightarrow> agent_def \<Rightarrow> agent_loader \<Rightarrow> agent_loader" where
  "loader_register ord d l = loader_rebuild ord (l\<lparr>al_agents := (al_agents l)(ad_name d \<mapsto> d)\<rparr>)"

section \<open>The chain of agents\<close>

definition chain_root :: "string list" where
  "chain_root = [''root'']"

definition chain_push :: "string \<Rightarrow> string list \<Rightarrow> string list" where
  "chain_push name p = p @ [name]"

definition chain_text :: "string list \<Rightarrow> string" where
  "chain_text p = join ''/'' p"

section \<open>What is found\<close>

lemma table_append: "agents_table (xs @ [(n, d)]) = (agents_table xs)(n \<mapsto> d)"
  by (simp add: agents_table_def)

lemma table_last: "agents_table xs = map_of (rev xs)"
proof (induction xs rule: rev_induct)
  case (snoc x xs)
  then show ?case by (cases x) (simp add: table_append)
qed (simp add: agents_table_def)

lemma found_append: "agents_found yaml disk dir (rs @ rs') = agents_found yaml disk dir rs @ agents_found yaml disk dir rs'"
  by (simp add: agents_found_def)

lemma found_scope:
  "(n, d) \<in> set (agents_found yaml disk dir rs) \<Longrightarrow> \<exists>root. (ad_scope d, root) \<in> set rs \<and> ad_name d = n \<and> ad_id d = scope_prefix (ad_scope d) @ '':'' @ n"
  by (fastforce simp: agents_found_def List.map_filter_def agent_of_entry_def loaded_def_def Let_def split: option.splits sum.splits if_splits)

lemma ensure_agents:
  "\<not> al_discovered l \<Longrightarrow> al_agents (loader_ensure ord yaml disk dir l) = al_agents l ++ agents_table (agents_found yaml disk dir (al_roots l))"
  by (simp add: loader_ensure_def loader_discover_def loader_rebuild_def)

text \<open>
  C40: An agent of the repository takes the place of one of the user.  On the first access every agent of a readable file is
  there under the name its settings give, with the identifier of its scope; when files of both scopes give
  the same name the one of the repository stays.
\<close>

theorem repo_overrides_user:
  assumes "present h" "present (path_join h ''.agents'')" "l = loader_new present (Some h) (Some wd)"
    and "l' = loader_ensure ord yaml disk dir l"
    and "repo = agents_found yaml disk dir [(RepoScope, path_join (path_join wd ''.agents'') ''agents'')]"
    and "user = agents_found yaml disk dir [(UserScope, path_join (path_join h ''.agents'') ''agents'')]"
  shows "dom (al_agents l') = fst ` set repo \<union> fst ` set user \<and>
    (\<forall>n d. loader_get n l' = Some d \<longrightarrow> ad_name d = n \<and> ad_id d = scope_prefix (ad_scope d) @ '':'' @ n \<and>
       ad_scope d = (if n \<in> fst ` set repo then RepoScope else UserScope))"
proof -
  have roots: "al_roots l = [(UserScope, path_join (path_join h ''.agents'') ''agents'')] @
      [(RepoScope, path_join (path_join wd ''.agents'') ''agents'')]" "al_agents l = Map.empty" "\<not> al_discovered l"
    using assms(1-3) by (simp_all add: loader_new_def loader_add_root_def loader_empty_def)
  have agents: "al_agents l' = map_of (rev repo @ rev user)"
    using assms(4-6) ensure_agents [OF roots(3)] by (simp add: roots(1,2) found_append table_last del: append_Cons append_Nil)
  then have dom: "dom (al_agents l') = fst ` set repo \<union> fst ` set user" by (simp add: dom_map_of_conv_image_fst image_Un)
  have "ad_name d = n \<and> ad_id d = scope_prefix (ad_scope d) @ '':'' @ n \<and>
      ad_scope d = (if n \<in> fst ` set repo then RepoScope else UserScope)" if get: "loader_get n l' = Some d" for n d
  proof (cases "n \<in> fst ` set repo")
    case True
    then have "map_of (rev repo) n \<noteq> None" by (simp add: map_of_eq_None_iff)
    with get have "(n, d) \<in> set repo"
      using map_of_SomeD [of "rev repo" n d] by (auto simp: loader_get_def agents map_add_def split: option.splits)
    from found_scope [OF this [unfolded assms(5)]] True show ?thesis by auto
  next
    case False
    from get have "(n, d) \<in> set repo \<union> set user"
      using map_of_SomeD [of "rev repo @ rev user" n d] by (simp add: loader_get_def agents)
    with False have "(n, d) \<in> set user" by force
    from found_scope [OF this [unfolded assms(6)]] False show ?thesis by auto
  qed
  with dom show ?thesis by blast
qed

text \<open>
  An agent that is gone stays.  Discovering again adds what is new, but an agent whose file was removed is
  still found.
\<close>

theorem removed_agent_stays:
  assumes "loader_get n l = Some d" "n \<notin> fst ` set (agents_found yaml disk dir (al_roots l))"
  shows "loader_get n (loader_discover ord yaml disk dir l) = Some d"
proof -
  have "agents_table (agents_found yaml disk dir (al_roots l)) n = None"
    using assms(2) by (simp add: table_last map_of_eq_None_iff)
  with assms(1) show ?thesis by (simp add: loader_get_def loader_discover_def loader_rebuild_def map_add_def)
qed

section \<open>Witnesses\<close>

definition demo_settings :: agent_frontmatter where
  "demo_settings = \<lparr> af_name = ''x'', af_type = None, af_description = [], af_tools = None, af_disallowed_tools = None,
     af_model = None, af_max_iterations = None, af_max_turns = Some 7, af_max_history_messages = None, af_working_dir = None,
     af_context_files = None, af_sandbox = None, af_tool_config = None, af_mcps = None, af_skills = None \<rparr>"

definition demo_dir :: listing where
  "demo_dir root = Some [(''x.md'', True)]"

definition demo_agent_disk :: "string \<Rightarrow> string + string" where
  "demo_agent_disk p = Inr (dashes @ newline @ dashes)"

lemma demo_found: "agents_found (\<lambda>y. Inr demo_settings) demo_agent_disk demo_dir [(sc, root)] =
    [(''x'', loaded_def sc \<lparr> dc_frontmatter = demo_settings, dc_body = [], dc_path = Some (path_join root ''x.md'') \<rparr>)]"
proof -
  have "doc_from_path (\<lambda>y. Inr demo_settings) demo_agent_disk p =
      Inr \<lparr> dc_frontmatter = demo_settings, dc_body = [], dc_path = Some p \<rparr>" for p
    by (simp add: doc_from_path_def demo_agent_disk_def parse_doc_def dashes_def newline_def replacement_char_def fence_def
        trim_start_def is_space_def Let_def sublist_Cons_right)
  then show ?thesis
    by (simp add: agents_found_def demo_dir_def List.map_filter_simps agent_of_entry_def is_md_def strip_suffix_def demo_settings_def)
qed

theorem repo_overrides_user_witness:
  "map_option ad_scope (loader_get ''x'' (loader_ensure (\<lambda>m. [''x'']) (\<lambda>y. Inr demo_settings) demo_agent_disk demo_dir
     (loader_new (\<lambda>p. True) (Some ''/home'') (Some ''/repo'')))) = Some RepoScope"
proof -
  let ?l = "loader_ensure (\<lambda>m. [''x'']) (\<lambda>y. Inr demo_settings) demo_agent_disk demo_dir (loader_new (\<lambda>p. True) (Some ''/home'') (Some ''/repo''))"
  note facts = repo_overrides_user [where present = "\<lambda>p. True" and h = "''/home''" and wd = "''/repo''" and
    ord = "\<lambda>m. [''x'']" and yaml = "\<lambda>y. Inr demo_settings" and disk = demo_agent_disk and dir = demo_dir, OF _ _ refl refl refl refl,
    simplified demo_found, simplified]
  then have "''x'' \<in> dom (al_agents ?l)" by simp
  then obtain d where "loader_get ''x'' ?l = Some d" by (auto simp: loader_get_def)
  with facts show ?thesis by simp
qed

theorem removed_agent_stays_witness:
  "loader_get ''a'' (loader_discover (\<lambda>m. []) (\<lambda>y. Inr demo_settings) demo_agent_disk (\<lambda>p. None)
     (loader_register (\<lambda>m. []) (agent_def_new ''a'' []) loader_empty)) = Some (agent_def_new ''a'' [])"
  by (rule removed_agent_stays)
    (simp_all add: loader_get_def loader_register_def loader_rebuild_def agent_def_new_def loader_empty_def agents_found_def)

end
