(* ===== verification/Skills.thy ===== *)
theory Skills
  imports Frontmatter SandboxPath ToolTypes ContextBuilder DataPlane "HOL-Library.List_Lexorder" "HOL-Library.Char_ord"
begin

text \<open>
  Skills: finding and keeping them (\<open>crates/vol-llm-skill/src/loader.rs\<close>, \<open>def.rs\<close>), the tool that loads one
  (\<open>tool.rs\<close>), the list of them in the prompt (\<open>injector.rs\<close>) and the handler that shows them to clients
  (\<open>crates/vol-agent-server/src/data_plane/handlers/skill.rs\<close>).  Directories are trees, without links; the order of
  a hash table is an argument.
\<close>

section \<open>Skills\<close>

datatype skill_scope = SkillUser | SkillRepo | SkillCustom string

definition skill_prefix :: "skill_scope \<Rightarrow> string" where
  "skill_prefix s = (case s of SkillUser \<Rightarrow> ''user'' | SkillRepo \<Rightarrow> ''repo'' | SkillCustom p \<Rightarrow> ''custom:'' @ p)"

definition display_scope :: "skill_scope \<Rightarrow> string" where
  "display_scope s = (case s of SkillUser \<Rightarrow> ''User'' | SkillRepo \<Rightarrow> ''Repo'' | SkillCustom p \<Rightarrow> ''Custom('' @ p @ '')'')"

record skill_def =
  sd_id :: string
  sd_name :: string
  sd_version :: string
  sd_description :: string
  sd_scope :: skill_scope
  sd_triggers :: "string list"
  sd_content :: string
  sd_file_listing :: "string list"
  sd_directory :: string

definition skill_new :: "string \<Rightarrow> string \<Rightarrow> skill_def" where
  "skill_new name text = \<lparr> sd_id = ''code:'' @ name, sd_name = name, sd_version = ''1.0.0'', sd_description = [],
     sd_scope = SkillCustom [], sd_triggers = [], sd_content = text, sd_file_listing = [], sd_directory = [] \<rparr>"

record skill_metadata =
  sm_id :: string
  sm_name :: string
  sm_version :: string
  sm_description :: string
  sm_scope :: skill_scope
  sm_triggers :: "string list"

definition skill_metadata_of :: "skill_def \<Rightarrow> skill_metadata" where
  "skill_metadata_of d = \<lparr> sm_id = sd_id d, sm_name = sd_name d, sm_version = sd_version d, sm_description = sd_description d,
     sm_scope = sd_scope d, sm_triggers = sd_triggers d \<rparr>"

text \<open>The settings, with what is missing filled in.\<close>

record skill_frontmatter =
  sf_name :: string
  sf_version :: string
  sf_description :: string
  sf_triggers :: "string list"

section \<open>Directories\<close>

datatype fs_node = FsFile "string + string" | FsDir "(string \<times> fs_node) list" | FsOther

fun collect_files :: "string \<Rightarrow> fs_node \<Rightarrow> string list" where
  "collect_files p (FsFile c) = [p]"
| "collect_files p (FsDir es) = concat (map (\<lambda>(n, x). collect_files (p @ ''/'' @ n) x) es)"
| "collect_files p FsOther = []"

definition scan_skill_files :: "(string \<times> fs_node) list \<Rightarrow> string list" where
  "scan_skill_files es = sort (concat (map (\<lambda>(n, x). collect_files n x) es))"

definition skill_of_entry ::
  "skill_frontmatter yaml_reader \<Rightarrow> skill_scope \<Rightarrow> string \<Rightarrow> string \<times> fs_node \<Rightarrow> (string \<times> skill_def) option" where
  "skill_of_entry yaml scope root = (\<lambda>(name, x).
     (case x of
        FsDir es \<Rightarrow> (case map_of es ''SKILL.md'' of
            Some (FsFile (Inr text)) \<Rightarrow> (case parse_doc yaml text of
                Inl e \<Rightarrow> None
              | Inr d \<Rightarrow>
                  (let f = dc_frontmatter d in
                   Some (sf_name f, \<lparr> sd_id = skill_prefix scope @ '':'' @ sf_name f, sd_name = sf_name f, sd_version = sf_version f,
                     sd_description = sf_description f, sd_scope = scope, sd_triggers = sf_triggers f, sd_content = dc_body d,
                     sd_file_listing = scan_skill_files es, sd_directory = path_join root name \<rparr>)))
          | _ \<Rightarrow> None)
      | _ \<Rightarrow> None))"

section \<open>The loader\<close>

record skill_loader =
  sl_roots :: "(skill_scope \<times> string) list"
  sl_skills :: "string \<rightharpoonup> skill_def"
  sl_metadata :: "skill_metadata list"
  sl_discovered :: bool

definition skills_empty :: skill_loader where
  "skills_empty = \<lparr> sl_roots = [], sl_skills = Map.empty, sl_metadata = [], sl_discovered = False \<rparr>"

definition skills_add_root :: "skill_scope \<Rightarrow> string \<Rightarrow> skill_loader \<Rightarrow> skill_loader" where
  "skills_add_root scope p l = l\<lparr>sl_roots := sl_roots l @ [(scope, p)]\<rparr>"

definition skills_new :: "string option \<Rightarrow> string option \<Rightarrow> skill_loader" where
  "skills_new home working_dir =
     (let l = (case home of None \<Rightarrow> skills_empty
           | Some h \<Rightarrow> skills_add_root SkillUser (path_join (path_join h ''.agents'') ''skills'') skills_empty)
      in case working_dir of None \<Rightarrow> l
           | Some wd \<Rightarrow> skills_add_root SkillRepo (path_join (path_join wd ''.agents'') ''skills'') l)"

type_synonym tree_listing = "string \<Rightarrow> (string \<times> fs_node) list option"

definition skills_found ::
  "skill_frontmatter yaml_reader \<Rightarrow> tree_listing \<Rightarrow> (skill_scope \<times> string) list \<Rightarrow> (string \<times> skill_def) list" where
  "skills_found yaml dir roots = concat (map (\<lambda>(scope, root).
     case dir root of None \<Rightarrow> [] | Some es \<Rightarrow> List.map_filter (skill_of_entry yaml scope root) es) roots)"

text \<open>Of two skills with the same name the earlier one stays.\<close>

definition skills_table :: "(string \<times> skill_def) list \<Rightarrow> (string \<rightharpoonup> skill_def)" where
  "skills_table found = foldl (\<lambda>m (n, d). if m n = None then m(n \<mapsto> d) else m) Map.empty found"

type_synonym skill_order = "(string \<rightharpoonup> skill_def) \<Rightarrow> string list"

definition skills_rebuild :: "skill_order \<Rightarrow> skill_loader \<Rightarrow> skill_loader" where
  "skills_rebuild ord l = l\<lparr>sl_metadata := map skill_metadata_of (List.map_filter (sl_skills l) (ord (sl_skills l)))\<rparr>"

definition skills_discover ::
  "skill_order \<Rightarrow> skill_frontmatter yaml_reader \<Rightarrow> tree_listing \<Rightarrow> skill_loader \<Rightarrow> skill_loader" where
  "skills_discover ord yaml dir l =
     skills_rebuild ord (l\<lparr>sl_skills := sl_skills l ++ skills_table (skills_found yaml dir (sl_roots l))\<rparr>)"

definition skills_ensure ::
  "skill_order \<Rightarrow> skill_frontmatter yaml_reader \<Rightarrow> tree_listing \<Rightarrow> skill_loader \<Rightarrow> skill_loader" where
  "skills_ensure ord yaml dir l = (if sl_discovered l then l else (skills_discover ord yaml dir l)\<lparr>sl_discovered := True\<rparr>)"

text \<open>The accesses, on a loader that has discovered.\<close>

definition skills_get :: "string \<Rightarrow> skill_loader \<Rightarrow> skill_def option" where
  "skills_get name l = sl_skills l name"

definition triggered :: "string \<Rightarrow> skill_def \<Rightarrow> bool" where
  "triggered query d \<longleftrightarrow>
     list_ex (\<lambda>t. sublist (to_lower t) (to_lower query) \<or> sublist (to_lower query) (to_lower t)) (sd_triggers d)"

definition skills_by_trigger :: "skill_order \<Rightarrow> string \<Rightarrow> skill_loader \<Rightarrow> skill_def list" where
  "skills_by_trigger ord query l = filter (triggered query) (List.map_filter (sl_skills l) (ord (sl_skills l)))"

definition skills_register :: "skill_order \<Rightarrow> skill_def \<Rightarrow> skill_loader \<Rightarrow> skill_loader" where
  "skills_register ord d l = skills_rebuild ord (l\<lparr>sl_skills := (sl_skills l)(sd_name d \<mapsto> d)\<rparr>)"

section \<open>The tool\<close>

definition skill_root :: "string option \<Rightarrow> skill_def \<Rightarrow> string option" where
  "skill_root home d =
     (case sd_scope d of
        SkillUser \<Rightarrow> map_option (\<lambda>h. path_join (path_join (path_join h ''.agents'') ''skills'') (sd_name d)) home
      | SkillRepo \<Rightarrow> None
      | SkillCustom p \<Rightarrow> Some (path_join p (sd_name d)))"

definition format_skill_output :: "string option \<Rightarrow> skill_def \<Rightarrow> string" where
  "format_skill_output home d =
     ''=== SKILL: '' @ sd_name d @ '' (v'' @ sd_version d @ '') ==='' @ newline @
     (case skill_root home d of Some r \<Rightarrow> ''Skill root: '' @ r @ newline | None \<Rightarrow> []) @
     (if sd_file_listing d = [] then []
      else newline @ ''Contents:'' @ newline @ concat (map (\<lambda>f. ''  '' @ f @ newline) (sd_file_listing d)) @
        newline @ ''Use the `read` tool with absolute paths to access these files.'' @ newline) @
     newline @ ''---'' @ newline @ sd_content d @ newline @ ''---'' @ newline @ ''=== END SKILL ===''"

definition skill_line :: "skill_metadata \<Rightarrow> string" where
  "skill_line m = ''- '' @ sm_name m @ '': '' @ sm_description m @ newline"

definition format_not_found :: "string \<Rightarrow> skill_loader \<Rightarrow> string" where
  "format_not_found name l =
     ''Skill '' @ [CHR 0x27] @ name @ [CHR 0x27] @ '' not found.'' @ newline @ newline @
     (if sl_metadata l = [] then ''No skills available.''
      else ''Available skills:'' @ newline @ concat (map skill_line (sl_metadata l))) @
     newline @ ''Use the `read` tool with absolute paths to access files relative to the skill root.''"

text \<open>The tool reads the one argument \<open>name\<close>; the first access discovers.\<close>

definition skill_execute ::
  "string decoder \<Rightarrow> skill_order \<Rightarrow> skill_frontmatter yaml_reader \<Rightarrow> tree_listing \<Rightarrow> string option \<Rightarrow> json \<Rightarrow> skill_loader tool_eff" where
  "skill_execute dec ord yaml dir home args = bindE (decode_args dec args) (\<lambda>name l.
     (let l = skills_ensure ord yaml dir l in
      case skills_get name l of
        Some d \<Rightarrow> (Inr (tool_success (format_skill_output home d)), l)
      | None \<Rightarrow> (Inl (ExecutionFailed (format_not_found name l)), l)))"

section \<open>The prompt\<close>

text \<open>No filter, or an empty one, keeps all.\<close>

definition skill_kept :: "string list option \<Rightarrow> skill_metadata \<Rightarrow> bool" where
  "skill_kept f m \<longleftrightarrow> (case f of Some (x # xs) \<Rightarrow> sm_name m \<in> set (x # xs) | _ \<Rightarrow> True)"

definition format_metadata :: "string list option \<Rightarrow> skill_loader \<Rightarrow> string" where
  "format_metadata f l =
     (let ms = filter (skill_kept f) (sl_metadata l) in
      if ms = [] then []
      else ''Available skills:'' @ newline @ concat (map skill_line ms) @ newline @
        ''Use the `skill` tool to load any skill'' @ [CHR 0x27] @ ''s full instructions.'')"

definition skill_names :: "string list option \<Rightarrow> skill_loader \<Rightarrow> string list" where
  "skill_names f l = map sm_name (filter (skill_kept f) (sl_metadata l))"

text \<open>The block, and the size that is remembered for it.\<close>

definition skill_contribute ::
  "(chat_message \<Rightarrow> string) \<Rightarrow> attention_anchor \<Rightarrow> string list option \<Rightarrow> skill_loader \<Rightarrow> context_block list \<times> nat" where
  "skill_contribute to_json anchor f l =
     (let t = format_metadata f l in
      if t = [] then ([\<lparr> cb_messages = [], cb_anchor = anchor \<rparr>], 0)
      else ([\<lparr> cb_messages = [user_msg (TextContent t)], cb_anchor = anchor \<rparr>], estimate_tokens to_json (user_msg (TextContent t))))"

section \<open>The handler\<close>

datatype skill_reply =
    SkillsListed "json list"
  | SkillGot string json
  | SkillsRefreshed nat
  | SkillFailed error_payload

definition skill_metadata_json :: "skill_metadata \<Rightarrow> json" where
  "skill_metadata_json m = JObj [(''id'', JStr (sm_id m)), (''name'', JStr (sm_name m)), (''version'', JStr (sm_version m)),
     (''scope'', JStr (display_scope (sm_scope m))), (''description'', JStr (sm_description m)),
     (''triggers'', JArr (map JStr (sm_triggers m)))]"

definition skill_json :: "skill_def \<Rightarrow> json" where
  "skill_json d = JObj [(''name'', JStr (sd_name d)), (''version'', JStr (sd_version d)),
     (''scope'', JStr (display_scope (sd_scope d))), (''description'', JStr (sd_description d)),
     (''triggers'', JArr (map JStr (sd_triggers d))), (''content'', JStr (sd_content d)),
     (''file_listing'', JArr (map JStr (sd_file_listing d))), (''directory'', JStr (sd_directory d))]"

definition skill_list ::
  "skill_order \<Rightarrow> skill_frontmatter yaml_reader \<Rightarrow> tree_listing \<Rightarrow> skill_loader option \<Rightarrow> skill_reply \<times> skill_loader option" where
  "skill_list ord yaml dir l =
     (case l of
        None \<Rightarrow> (SkillsListed [], None)
      | Some l \<Rightarrow> (let l = skills_ensure ord yaml dir l in (SkillsListed (map skill_metadata_json (sl_metadata l)), Some l)))"

definition skill_missing :: "string \<Rightarrow> skill_reply" where
  "skill_missing name = SkillFailed \<lparr> ep_code = ''skill_not_found'',
     ep_message = ''Skill '' @ [CHR 0x27] @ name @ [CHR 0x27] @ '' not found'', ep_detail = None, ep_terminal = False \<rparr>"

definition skill_get ::
  "skill_order \<Rightarrow> skill_frontmatter yaml_reader \<Rightarrow> tree_listing \<Rightarrow> string \<Rightarrow> skill_loader option \<Rightarrow> skill_reply \<times> skill_loader option" where
  "skill_get ord yaml dir name l =
     (case l of
        None \<Rightarrow> (skill_missing name, None)
      | Some l \<Rightarrow>
          (let l = skills_ensure ord yaml dir l in
           (case skills_get name l of Some d \<Rightarrow> SkillGot name (skill_json d) | None \<Rightarrow> skill_missing name, Some l)))"

text \<open>Refreshing discovers, and listing discovers once more on the first access.\<close>

definition skill_refresh ::
  "skill_order \<Rightarrow> skill_frontmatter yaml_reader \<Rightarrow> tree_listing \<Rightarrow> skill_loader option \<Rightarrow> skill_reply \<times> skill_loader option" where
  "skill_refresh ord yaml dir l =
     (case l of
        None \<Rightarrow> (SkillsRefreshed 0, None)
      | Some l \<Rightarrow>
          (let l = skills_ensure ord yaml dir (skills_discover ord yaml dir l)
           in (SkillsRefreshed (length (sl_metadata l)), Some l)))"

section \<open>What is found\<close>

lemma skills_table_append:
  "skills_table (xs @ [(n, d)]) = (if skills_table xs n = None then (skills_table xs)(n \<mapsto> d) else skills_table xs)"
  by (simp add: skills_table_def)

lemma skills_table_first: "skills_table xs = map_of xs"
proof (induction xs rule: rev_induct)
  case (snoc x xs)
  then show ?case by (cases x) (auto simp: skills_table_append map_add_def fun_eq_iff split: option.split)
qed (simp add: skills_table_def)

lemma skills_found_append: "skills_found yaml dir (rs @ rs') = skills_found yaml dir rs @ skills_found yaml dir rs'"
  by (simp add: skills_found_def)

lemma skills_found_scope:
  "(n, d) \<in> set (skills_found yaml dir rs) \<Longrightarrow> \<exists>root. (sd_scope d, root) \<in> set rs \<and> sd_name d = n"
  by (fastforce simp: skills_found_def List.map_filter_def skill_of_entry_def Let_def split: option.splits sum.splits fs_node.splits if_splits)

lemma skills_ensure_table:
  "\<not> sl_discovered l \<Longrightarrow> sl_skills (skills_ensure ord yaml dir l) = sl_skills l ++ skills_table (skills_found yaml dir (sl_roots l))"
  by (simp add: skills_ensure_def skills_discover_def skills_rebuild_def)

text \<open>
  A skill of the repository does not take the place of one of the user.  On the first access every skill with a readable file is there
  under its name; when both scopes have a skill of the same name, that of the user stays (agents do
  it the other way round).
\<close>

theorem user_skill_stays:
  assumes "l = skills_new (Some h) (Some wd)" "l' = skills_ensure ord yaml dir l"
    and "user = skills_found yaml dir [(SkillUser, path_join (path_join h ''.agents'') ''skills'')]"
    and "repo = skills_found yaml dir [(SkillRepo, path_join (path_join wd ''.agents'') ''skills'')]"
  shows "dom (sl_skills l') = fst ` set user \<union> fst ` set repo \<and>
    (\<forall>n d. skills_get n l' = Some d \<longrightarrow> sd_name d = n \<and> sd_scope d = (if n \<in> fst ` set user then SkillUser else SkillRepo))"
proof -
  have roots: "sl_roots l = [(SkillUser, path_join (path_join h ''.agents'') ''skills'')] @
      [(SkillRepo, path_join (path_join wd ''.agents'') ''skills'')]" "sl_skills l = Map.empty" "\<not> sl_discovered l"
    using assms(1) by (simp_all add: skills_new_def skills_add_root_def skills_empty_def)
  have skills: "sl_skills l' = map_of (user @ repo)"
    using assms(2-4) skills_ensure_table [OF roots(3)]
    by (simp add: roots(1,2) skills_found_append skills_table_first del: append_Cons append_Nil map_of_append)
  then have dom: "dom (sl_skills l') = fst ` set user \<union> fst ` set repo" by (simp add: dom_map_of_conv_image_fst image_Un)
  have "sd_name d = n \<and> sd_scope d = (if n \<in> fst ` set user then SkillUser else SkillRepo)" if get: "skills_get n l' = Some d" for n d
  proof (cases "n \<in> fst ` set user")
    case True
    then have "map_of user n \<noteq> None" by (simp add: map_of_eq_None_iff)
    with get have "(n, d) \<in> set user"
      using map_of_SomeD [of user n d] by (auto simp: skills_get_def skills map_add_def split: option.splits)
    from skills_found_scope [OF this [unfolded assms(3)]] True show ?thesis by auto
  next
    case False
    from get have "(n, d) \<in> set user \<union> set repo"
      using map_of_SomeD [of "user @ repo" n d] by (simp add: skills_get_def skills)
    with False have "(n, d) \<in> set repo" by force
    from skills_found_scope [OF this [unfolded assms(4)]] False show ?thesis by auto
  qed
  with dom show ?thesis by blast
qed

text \<open>
  Refreshing does not forget.  A skill whose directory was removed is still listed after a refresh, and counted.
\<close>

theorem removed_skill_stays:
  assumes "skills_get n l = Some d" "n \<notin> fst ` set (skills_found yaml dir (sl_roots l))" "sl_discovered l"
    and "skill_refresh ord yaml dir (Some l) = (r, Some l')" "set (ord (sl_skills l')) = dom (sl_skills l')"
  shows "skills_get n l' = Some d \<and> (\<exists>m \<in> set (sl_metadata l'). sm_name m = sd_name d) \<and> r = SkillsRefreshed (length (sl_metadata l'))"
proof -
  have none: "skills_table (skills_found yaml dir (sl_roots l)) n = None"
    using assms(2) by (simp add: skills_table_first map_of_eq_None_iff)
  have l': "l' = skills_discover ord yaml dir l" "r = SkillsRefreshed (length (sl_metadata l'))"
    using assms(3,4) by (auto simp: skill_refresh_def Let_def skills_ensure_def skills_discover_def skills_rebuild_def)
  have get: "sl_skills l' n = Some d"
    using assms(1) none by (simp add: l'(1) skills_get_def skills_discover_def skills_rebuild_def map_add_def)
  have "sl_metadata l' = map skill_metadata_of (List.map_filter (sl_skills l') (ord (sl_skills l')))"
    by (simp add: l'(1) skills_discover_def skills_rebuild_def)
  moreover have "n \<in> set (ord (sl_skills l'))" using assms(5) get by auto
  ultimately have "skill_metadata_of d \<in> set (sl_metadata l')" using get by (force simp: List.map_filter_def)
  with get l'(2) show ?thesis by (auto simp: skills_get_def skill_metadata_of_def intro!: bexI [of _ "skill_metadata_of d"])
qed

text \<open>
  The tool does not tell where a skill is.  It asks to read the files of the skill by absolute paths, but what it says does
  not depend on the directory in which the skill was found.
\<close>

theorem skill_directory_untold:
  "format_skill_output home (d\<lparr>sd_directory := x\<rparr>) = format_skill_output home d"
  by (cases "sd_scope d") (simp_all add: format_skill_output_def skill_root_def)

section \<open>Witnesses\<close>

definition demo_skill_settings :: skill_frontmatter where
  "demo_skill_settings = \<lparr> sf_name = ''x'', sf_version = ''1'', sf_description = [], sf_triggers = [] \<rparr>"

definition demo_tree :: tree_listing where
  "demo_tree p = Some [(''x'', FsDir [(''SKILL.md'', FsFile (Inr (dashes @ newline @ dashes)))])]"

lemma demo_skill_found: "fst ` set (skills_found (\<lambda>y. Inr demo_skill_settings) demo_tree [(sc, root)]) = {''x''}"
proof -
  have "parse_doc (\<lambda>y. Inr demo_skill_settings) (dashes @ newline @ dashes) =
      Inr \<lparr> dc_frontmatter = demo_skill_settings, dc_body = [], dc_path = None \<rparr>"
    by (simp add: parse_doc_def dashes_def newline_def fence_def trim_start_def is_space_def Let_def)
  then show ?thesis
    by (simp add: skills_found_def demo_tree_def List.map_filter_simps skill_of_entry_def Let_def) (simp add: demo_skill_settings_def)
qed

theorem user_skill_stays_witness:
  "map_option sd_scope (skills_get ''x'' (skills_ensure (\<lambda>m. [''x'']) (\<lambda>y. Inr demo_skill_settings) demo_tree
     (skills_new (Some ''/home'') (Some ''/repo'')))) = Some SkillUser"
proof -
  let ?l = "skills_ensure (\<lambda>m. [''x'']) (\<lambda>y. Inr demo_skill_settings) demo_tree (skills_new (Some ''/home'') (Some ''/repo''))"
  note facts = user_skill_stays [where h = "''/home''" and wd = "''/repo''" and ord = "\<lambda>m. [''x'']" and
    yaml = "\<lambda>y. Inr demo_skill_settings" and dir = demo_tree, OF refl refl refl refl, unfolded demo_skill_found, simplified]
  then have "''x'' \<in> dom (sl_skills ?l)" by simp
  then obtain d where "skills_get ''x'' ?l = Some d" by (auto simp: skills_get_def)
  with facts show ?thesis by simp
qed

theorem removed_skill_stays_witness:
  "\<exists>r l'. skill_refresh (\<lambda>m. [''a'']) (\<lambda>y. Inr demo_skill_settings) (\<lambda>p. None)
     (Some (skills_empty\<lparr>sl_skills := [''a'' \<mapsto> skill_new ''a'' []], sl_discovered := True\<rparr>)) = (r, Some l') \<and>
     skills_get ''a'' l' = Some (skill_new ''a'' []) \<and> sl_metadata l' \<noteq> []"
proof -
  let ?l = "skills_empty\<lparr>sl_skills := [''a'' \<mapsto> skill_new ''a'' []], sl_discovered := True\<rparr>"
  obtain r l' where r: "skill_refresh (\<lambda>m. [''a'']) (\<lambda>y. Inr demo_skill_settings) (\<lambda>p. None) (Some ?l) = (r, Some l')"
    by (simp add: skill_refresh_def Let_def)
  have found: "skills_found (\<lambda>y. Inr demo_skill_settings) (\<lambda>p. None) (sl_roots ?l) = []" by (simp add: skills_found_def)
  have "sl_skills l' = [''a'' \<mapsto> skill_new ''a'' []]"
    using r by (auto simp: skill_refresh_def Let_def skills_ensure_def skills_discover_def skills_rebuild_def skills_found_def
        skills_table_def skills_empty_def)
  with removed_skill_stays [OF _ _ _ r, of "''a''" "skill_new ''a'' []"] found r show ?thesis
    by (auto simp: skills_get_def)
qed

end
