(* ===== verification/SandboxFiles.thy ===== *)
theory SandboxFiles
  imports SandboxPath
begin

text \<open>
  Files and commands of a sandbox: the trait \<open>Sandbox\<close> (\<open>crates/vol-llm-sandbox/src/lib.rs\<close>) as a record of
  operations, what its clients rely on as a locale, and the operations of the local and the temporary
  sandbox (\<open>local.rs\<close>, \<open>tmp.rs\<close>) over a disk and the processes of the operating system, which are
  parameters.  A resolved path is the list of its components.
\<close>

section \<open>Requests, results and errors\<close>

datatype file_type = FtFile | FtDirectory | FtSymlink | FtOther

record dir_entry =
  de_name :: string
  de_type :: file_type

record file_metadata =
  fm_size :: u64
  fm_mtime :: u64
  fm_type :: file_type

record command_request =
  cmd_program :: string
  cmd_args :: "string list"
  cmd_env :: "string \<rightharpoonup> string"
  cmd_cwd :: "string option"
  cmd_stdin :: "string option"
  cmd_timeout :: time

record command_output =
  co_stdout :: string
  co_stderr :: string
  co_exit_code :: int
  co_signal :: "int option"

text \<open>How a duration is printed for debugging is a parameter.\<close>

fun display_sandbox_error :: "(time \<Rightarrow> string) \<Rightarrow> sandbox_error \<Rightarrow> string" where
  "display_sandbox_error dur (SbIo e) = ''IO error: '' @ e"
| "display_sandbox_error dur (SbPathTraversal p) = ''Path traversal detected: '' @ p"
| "display_sandbox_error dur SbNotStarted = ''Sandbox not started''"
| "display_sandbox_error dur SbAlreadyStarted = ''Sandbox already started''"
| "display_sandbox_error dur (SbSsh e) = ''SSH error: '' @ e"
| "display_sandbox_error dur (SbFirecracker e) = ''Firecracker error: '' @ e"
| "display_sandbox_error dur (SbWasm e) = ''Wasm error: '' @ e"
| "display_sandbox_error dur (SbTimeout t) = ''Command timed out after '' @ dur t"
| "display_sandbox_error dur (SbUnknownType k) = ''Unknown sandbox type: '' @ k"
| "display_sandbox_error dur (SbDuplicateName n) =
     ''Sandbox '' @ [CHR 0x27] @ n @ [CHR 0x27] @ '' already registered''"
| "display_sandbox_error dur SbLocalOverride = ''Local sandbox cannot be overridden by config''"
| "display_sandbox_error dur (SbConfig e) = ''Config error: '' @ e"
| "display_sandbox_error dur (SbNotFound n) = ''Sandbox not found: '' @ n"
| "display_sandbox_error dur (SbInvalidTransition src dst) =
     ''Invalid state transition: '' @ status_name src @ '' -> '' @ status_name dst"

section \<open>The interface\<close>

type_synonym path = "component list"

record 'w sandbox_ops =
  sx_root :: "string option"
  sx_resolve :: "string \<Rightarrow> sandbox_error + path"
  sx_execute :: "command_request \<Rightarrow> 'w \<Rightarrow> ((sandbox_error + command_output) \<times> 'w) option"
  sx_read :: "path \<Rightarrow> u64 option \<Rightarrow> u64 option \<Rightarrow> ('w, sandbox_error, string) eff"
  sx_write :: "path \<Rightarrow> string \<Rightarrow> ('w, sandbox_error, unit) eff"
  sx_create_dirs :: "path \<Rightarrow> ('w, sandbox_error, unit) eff"
  sx_read_dir :: "path \<Rightarrow> ('w, sandbox_error, dir_entry list) eff"
  sx_metadata :: "path \<Rightarrow> ('w, sandbox_error, file_metadata) eff"

text \<open>
  What a tool that reads and writes files relies on, for \<open>files s p\<close> the content of the file at \<open>p\<close>: a
  read returns the content and changes nothing, a write changes at most the file it names and, when it
  succeeds, leaves the new content there, and making directories changes no file.
\<close>

locale sandbox_files =
  fixes ops :: "'w sandbox_ops"
    and files :: "'w \<Rightarrow> path \<Rightarrow> string option"
  assumes read_same: "sx_read ops p off lim w = (r, w') \<Longrightarrow> w' = w"
    and read_whole: "sx_read ops p None None w = (Inr c, w') \<Longrightarrow> files w p = Some c"
    and write_other: "sx_write ops p c w = (q, w') \<Longrightarrow> p' \<noteq> p \<Longrightarrow> files w' p' = files w p'"
    and write_done: "sx_write ops p c w = (Inr u, w') \<Longrightarrow> files w' p = Some c"
    and dirs_same: "sx_create_dirs ops p w = (q, w') \<Longrightarrow> files w' = files w"
    and resolve_in: "sx_root ops = Some root \<Longrightarrow> sx_resolve ops rel = Inr p \<Longrightarrow>
      starts_with_comps p (normalize_path root)"

section \<open>A disk\<close>

text \<open>
  The calls of the standard library on the file system, with errors as the text they print.  An entry
  of a directory may itself be an error, and its type may be unknown; a modification time is given in
  milliseconds since the epoch when it can be.
\<close>

record raw_entry =
  re_name :: string
  re_type :: "file_type option"

record raw_metadata =
  rm_size :: u64
  rm_mtime :: "u64 option"
  rm_type :: file_type

record 'd disk_ops =
  dk_read :: "path \<Rightarrow> ('d, string, string) eff"
  dk_write :: "path \<Rightarrow> string \<Rightarrow> ('d, string, unit) eff"
  dk_create_dirs :: "path \<Rightarrow> ('d, string, unit) eff"
  dk_read_dir :: "path \<Rightarrow> ('d, string, (string + raw_entry) list) eff"
  dk_metadata :: "path \<Rightarrow> ('d, string, raw_metadata) eff"

locale disk =
  fixes D :: "'d disk_ops"
    and files :: "'d \<Rightarrow> path \<Rightarrow> string option"
  assumes disk_read: "dk_read D p d = (r, d') \<Longrightarrow> d' = d \<and> (\<forall>c. r = Inr c \<longrightarrow> files d p = Some c)"
    and disk_write: "dk_write D p c d = (q, d') \<Longrightarrow>
      (\<forall>p'. p' \<noteq> p \<longrightarrow> files d' p' = files d p') \<and> (q = Inr () \<longrightarrow> files d' p = Some c)"
    and disk_dirs: "dk_create_dirs D p d = (q, d') \<Longrightarrow> files d' = files d"

section \<open>Files of a local sandbox\<close>

definition local_read ::
  "'d disk_ops \<Rightarrow> path \<Rightarrow> u64 option \<Rightarrow> u64 option \<Rightarrow> ('d, sandbox_error, string) eff" where
  "local_read D p off lim = bindE (mapErr SbIo (dk_read D p)) (\<lambda>c. ret (read_range c off lim))"

text \<open>\<open>Path::parent\<close>: there is none of the root and of the empty path.\<close>

definition path_parent :: "path \<Rightarrow> path option" where
  "path_parent p = (if p = [] \<or> last p = RootDir then None else Some (butlast p))"

definition local_write :: "'d disk_ops \<Rightarrow> path \<Rightarrow> string \<Rightarrow> ('d, sandbox_error, unit) eff" where
  "local_write D p c =
     bindE (case path_parent p of Some q \<Rightarrow> mapErr SbIo (dk_create_dirs D q) | None \<Rightarrow> ret ())
       (\<lambda>_. mapErr SbIo (dk_write D p c))"

definition local_create_dirs :: "'d disk_ops \<Rightarrow> path \<Rightarrow> ('d, sandbox_error, unit) eff" where
  "local_create_dirs D p = mapErr SbIo (dk_create_dirs D p)"

definition entry_of_raw :: "raw_entry \<Rightarrow> dir_entry" where
  "entry_of_raw e = \<lparr> de_name = re_name e, de_type = (case re_type e of Some t \<Rightarrow> t | None \<Rightarrow> FtOther) \<rparr>"

definition local_read_dir :: "'d disk_ops \<Rightarrow> path \<Rightarrow> ('d, sandbox_error, dir_entry list) eff" where
  "local_read_dir D p = bindE (mapErr SbIo (dk_read_dir D p))
     (\<lambda>es. ret (List.map_filter (\<lambda>e. case e of Inr r \<Rightarrow> Some (entry_of_raw r) | Inl x \<Rightarrow> None) es))"

definition local_metadata :: "'d disk_ops \<Rightarrow> path \<Rightarrow> ('d, sandbox_error, file_metadata) eff" where
  "local_metadata D p = bindE (mapErr SbIo (dk_metadata D p))
     (\<lambda>m. ret \<lparr> fm_size = rm_size m, fm_mtime = (case rm_mtime m of Some t \<Rightarrow> t | None \<Rightarrow> 0), fm_type = rm_type m \<rparr>)"

section \<open>Commands\<close>

text \<open>
  A child process as its parent sees it: what the \<open>n\<close>-th call of \<open>try_wait\<close> returns, the clock at the time
  of that call, in milliseconds since the start, and its output once it has exited.  An exit status is a
  code or a signal.
\<close>

record exit_status =
  xs_code :: "int option"
  xs_signal :: "int option"

record child =
  ch_poll :: "nat \<Rightarrow> string + exit_status option"
  ch_clock :: "nat \<Rightarrow> time"
  ch_output :: "string + string \<times> string"

definition output_of :: "child \<Rightarrow> exit_status \<Rightarrow> sandbox_error + command_output" where
  "output_of ch st =
     (case ch_output ch of
        Inl e \<Rightarrow> Inl (SbIo e)
      | Inr (out, err) \<Rightarrow> Inr \<lparr> co_stdout = out, co_stderr = err,
          co_exit_code = (case xs_code st of Some c \<Rightarrow> c | None \<Rightarrow> - 1), co_signal = xs_signal st \<rparr>)"

text \<open>
  Waiting for at most \<open>limit\<close> milliseconds after \<open>since\<close> from the \<open>n\<close>-th call on: an error of the call,
  or whether the process has exited, and the number of the next call.
\<close>

partial_function (option) await_exit :: "child \<Rightarrow> time \<Rightarrow> time \<Rightarrow> nat \<Rightarrow> (string + exit_status option \<times> nat) option" where
  "await_exit ch since limit n =
     (case ch_poll ch n of
        Inl e \<Rightarrow> Some (Inl e)
      | Inr (Some st) \<Rightarrow> Some (Inr (Some st, Suc n))
      | Inr None \<Rightarrow>
          if limit < ch_clock ch n - since then Some (Inr (None, Suc n))
          else await_exit ch since limit (Suc n))"

text \<open>
  After the time limit the process is terminated, after two more seconds killed, and after five more
  given up; the signals it is sent show in the calls that follow.  The result is a timeout in any case,
  unless a call fails.
\<close>

definition stop_child :: "child \<Rightarrow> time \<Rightarrow> nat \<Rightarrow> sandbox_error option" where
  "stop_child ch timeout n =
     (case await_exit ch (ch_clock ch n) 2000 n of
        None \<Rightarrow> None
      | Some (Inl e) \<Rightarrow> Some (SbIo e)
      | Some (Inr (Some st, m)) \<Rightarrow> Some (SbTimeout timeout)
      | Some (Inr (None, m)) \<Rightarrow>
          (case await_exit ch (ch_clock ch m) 5000 m of
             None \<Rightarrow> None
           | Some (Inl e) \<Rightarrow> Some (SbIo e)
           | Some (Inr r) \<Rightarrow> Some (SbTimeout timeout)))"

definition wait_child :: "child \<Rightarrow> time \<Rightarrow> (sandbox_error + command_output) option" where
  "wait_child ch timeout =
     (case await_exit ch 0 timeout 0 of
        None \<Rightarrow> None
      | Some (Inl e) \<Rightarrow> Some (Inl (SbIo e))
      | Some (Inr (Some st, n)) \<Rightarrow> Some (output_of ch st)
      | Some (Inr (None, n)) \<Rightarrow> map_option Inl (stop_child ch timeout n))"

text \<open>
  Starting a process is a parameter: the program, its arguments, its environment and its directory, as
  a path text, and what is written to its input.
\<close>

type_synonym 'd spawner =
  "string \<Rightarrow> string list \<Rightarrow> (string \<rightharpoonup> string) \<Rightarrow> string \<Rightarrow> string option \<Rightarrow> ('d, string, child) eff"

definition command_dir :: "string \<Rightarrow> command_request \<Rightarrow> string" where
  "command_dir root req = (case cmd_cwd req of Some p \<Rightarrow> path_join root p | None \<Rightarrow> root)"

definition local_execute ::
  "'d disk_ops \<Rightarrow> 'd spawner \<Rightarrow> string \<Rightarrow> command_request \<Rightarrow> 'd \<Rightarrow>
   ((sandbox_error + command_output) \<times> 'd) option" where
  "local_execute D spawn root req d =
     (let cwd = command_dir root req in
      case dk_create_dirs D (components cwd) d of
        (r, d) \<Rightarrow>
          (case spawn (cmd_program req) (cmd_args req) (cmd_env req) cwd (cmd_stdin req) d of
             (Inl e, d) \<Rightarrow> Some (Inl (SbIo e), d)
           | (Inr ch, d) \<Rightarrow> map_option (\<lambda>r. (r, d)) (wait_child ch (cmd_timeout req))))"

text \<open>
  The temporary sandbox waits for the end of the process with \<open>wait_with_output\<close>, which has no limit; its
  input is closed at once.  What that call returns is a parameter, \<open>None\<close> when it does not return.
\<close>

definition tmp_execute ::
  "'d disk_ops \<Rightarrow> 'd spawner \<Rightarrow> (child \<Rightarrow> (string + exit_status \<times> string \<times> string) option) \<Rightarrow> string \<Rightarrow>
   command_request \<Rightarrow> 'd \<Rightarrow> ((sandbox_error + command_output) \<times> 'd) option" where
  "tmp_execute D spawn wait root req d =
     (let cwd = command_dir root req in
      case dk_create_dirs D (components cwd) d of
        (r, d) \<Rightarrow>
          (case spawn (cmd_program req) (cmd_args req) (cmd_env req) cwd None d of
             (Inl e, d) \<Rightarrow> Some (Inl (SbIo e), d)
           | (Inr ch, d) \<Rightarrow>
               (case wait ch of
                  None \<Rightarrow> None
                | Some (Inl e) \<Rightarrow> Some (Inl (SbIo e), d)
                | Some (Inr (st, out, err)) \<Rightarrow> Some (Inr \<lparr> co_stdout = out, co_stderr = err,
                    co_exit_code = (case xs_code st of Some c \<Rightarrow> c | None \<Rightarrow> - 1), co_signal = xs_signal st \<rparr>, d))))"

section \<open>The local sandbox\<close>

definition local_sandbox :: "'d disk_ops \<Rightarrow> 'd spawner \<Rightarrow> string \<Rightarrow> 'd sandbox_ops" where
  "local_sandbox D spawn root = \<lparr> sx_root = Some root, sx_resolve = resolve_path root,
     sx_execute = local_execute D spawn root, sx_read = local_read D, sx_write = local_write D,
     sx_create_dirs = local_create_dirs D, sx_read_dir = local_read_dir D, sx_metadata = local_metadata D \<rparr>"

definition tmp_sandbox ::
  "'d disk_ops \<Rightarrow> 'd spawner \<Rightarrow> (child \<Rightarrow> (string + exit_status \<times> string \<times> string) option) \<Rightarrow> string \<Rightarrow>
   'd sandbox_ops" where
  "tmp_sandbox D spawn wait root = (local_sandbox D spawn root)\<lparr>sx_execute := tmp_execute D spawn wait root\<rparr>"

end
