(* ===== verification/RemoteSandbox.thy ===== *)
theory RemoteSandbox
  imports SandboxManager SandboxFiles Protocol
begin

text \<open>
  A sandbox on another node: the handler of the sandbox operations of a data plane
  (\<open>crates/vol-agent-server/src/data_plane/handlers/sandbox.rs\<close>), the records that travel
  (\<open>crates/vol-llm-agent-protocol/src/agent_server_protocol.rs\<close>) and the client that makes a sandbox of them
  (\<open>crates/vol-agent-server/src/sandbox/remote.rs\<close>).  Base64 is a parameter, as is what the connection does
  to a request.  A path travels as its text; here it stays the list of its components, to which both
  ends read it.
\<close>

section \<open>What travels\<close>

record base64 =
  b64_encode :: "string \<Rightarrow> string"
  b64_decode :: "string \<Rightarrow> string + string"

definition decode_or_empty :: "base64 \<Rightarrow> string \<Rightarrow> string" where
  "decode_or_empty B s = (case b64_decode B s of Inr x \<Rightarrow> x | Inl e \<Rightarrow> [])"

record command_request_def =
  cd_program :: string
  cd_args :: "string list"
  cd_env :: "string \<rightharpoonup> string"
  cd_cwd :: "string option"
  cd_stdin :: "string option"
  cd_timeout_ms :: u64

definition command_of_def :: "base64 \<Rightarrow> command_request_def \<Rightarrow> command_request" where
  "command_of_def B d = \<lparr> cmd_program = cd_program d, cmd_args = cd_args d, cmd_env = cd_env d, cmd_cwd = cd_cwd d,
     cmd_stdin = map_option (decode_or_empty B) (cd_stdin d),
     cmd_timeout = (if cd_timeout_ms d = 0 then 30000 else unat (cd_timeout_ms d)) \<rparr>"

definition def_of_command :: "base64 \<Rightarrow> command_request \<Rightarrow> command_request_def" where
  "def_of_command B r = \<lparr> cd_program = cmd_program r, cd_args = cmd_args r, cd_env = cmd_env r, cd_cwd = cmd_cwd r,
     cd_stdin = map_option (b64_encode B) (cmd_stdin r), cd_timeout_ms = of_nat (cmd_timeout r) \<rparr>"

record command_output_def =
  cod_stdout :: string
  cod_stderr :: string
  cod_exit_code :: int
  cod_signal :: "int option"

definition def_of_output :: "base64 \<Rightarrow> command_output \<Rightarrow> command_output_def" where
  "def_of_output B r = \<lparr> cod_stdout = b64_encode B (co_stdout r), cod_stderr = b64_encode B (co_stderr r),
     cod_exit_code = co_exit_code r, cod_signal = co_signal r \<rparr>"

definition output_of_def :: "base64 \<Rightarrow> command_output_def \<Rightarrow> command_output" where
  "output_of_def B d = \<lparr> co_stdout = decode_or_empty B (cod_stdout d), co_stderr = decode_or_empty B (cod_stderr d),
     co_exit_code = cod_exit_code d, co_signal = cod_signal d \<rparr>"

definition type_word :: "file_type \<Rightarrow> string" where
  "type_word t = (case t of FtFile \<Rightarrow> ''file'' | FtDirectory \<Rightarrow> ''directory'' | FtSymlink \<Rightarrow> ''symlink'' | FtOther \<Rightarrow> ''other'')"

definition type_of_word :: "string \<Rightarrow> file_type" where
  "type_of_word w = (if w = ''directory'' then FtDirectory else if w = ''file'' then FtFile
     else if w = ''symlink'' then FtSymlink else FtOther)"

record dir_entry_def =
  ded_name :: string
  ded_file_type :: string

record file_metadata_def =
  fmd_size :: u64
  fmd_mtime :: u64
  fmd_file_type :: string

definition def_of_entry :: "dir_entry \<Rightarrow> dir_entry_def" where
  "def_of_entry e = \<lparr> ded_name = de_name e, ded_file_type = type_word (de_type e) \<rparr>"

definition entry_of_def :: "dir_entry_def \<Rightarrow> dir_entry" where
  "entry_of_def d = \<lparr> de_name = ded_name d, de_type = type_of_word (ded_file_type d) \<rparr>"

definition def_of_metadata :: "file_metadata \<Rightarrow> file_metadata_def" where
  "def_of_metadata m = \<lparr> fmd_size = fm_size m, fmd_mtime = fm_mtime m, fmd_file_type = type_word (fm_type m) \<rparr>"

definition metadata_of_def :: "file_metadata_def \<Rightarrow> file_metadata" where
  "metadata_of_def d = \<lparr> fm_size = fmd_size d, fm_mtime = fmd_mtime d, fm_type = type_of_word (fmd_file_type d) \<rparr>"

datatype sandbox_body =
    BdList
  | BdListResult "(string \<times> string \<times> string) list"
  | BdListSpecs
  | BdListSpecsResult "(string \<times> string) list"
  | BdExec command_request_def
  | BdExecResult command_output_def
  | BdReadFile path "u64 option" "u64 option"
  | BdReadFileResult string
  | BdWriteFile path string
  | BdWriteFileResult
  | BdCreateDir path
  | BdCreateDirResult
  | BdReadDir path
  | BdReadDirResult "dir_entry_def list"
  | BdMetadata path
  | BdMetadataResult file_metadata_def
  | BdError error_payload
  | BdOther

section \<open>The handler\<close>

text \<open>
  The operations of the sandbox that a handle stands for act on a world of their own; how a duration is
  printed for debugging, and the order of the table of profiles, are parameters.
\<close>

record ('w, 's, 'd) sandbox_server =
  sn_manager :: "('w, 's) manager_env"
  sn_ops :: "sandbox \<Rightarrow> 'd sandbox_ops"
  sn_base64 :: base64
  sn_duration :: "time \<Rightarrow> string"
  sn_spec_order :: "(string \<rightharpoonup> sandbox_spec) \<Rightarrow> string list"

type_synonym ('w, 's, 'd) node = "('w, 's) manager \<times> 'd"

definition failed_with_text :: "('w, 's, 'd) sandbox_server \<Rightarrow> string \<Rightarrow> sandbox_error \<Rightarrow> protocol_error" where
  "failed_with_text V what e = PayloadDecodeFailedOwned (what @ '': '' @ display_sandbox_error (sn_duration V) e)"

definition default_ops :: "('w, 's, 'd) sandbox_server \<Rightarrow> (('w, 's) manager, protocol_error, 'd sandbox_ops) eff" where
  "default_ops V g =
     (case mg_default (sn_manager V) g of
        (Inl e, g) \<Rightarrow> (Inl (failed_with_text V ''sandbox default'' e), g)
      | (Inr sb, g) \<Rightarrow> (Inr (sn_ops V sb), g))"

definition on_files ::
  "('w, 's, 'd) sandbox_server \<Rightarrow> string \<Rightarrow> ('d sandbox_ops \<Rightarrow> ('d, sandbox_error, 'a) eff) \<Rightarrow> ('a \<Rightarrow> sandbox_body) \<Rightarrow>
   (('w, 's, 'd) node, protocol_error, sandbox_body) eff" where
  "on_files V what f answer = (\<lambda>(g, d).
     case default_ops V g of
       (Inl e, g) \<Rightarrow> (Inl e, g, d)
     | (Inr ops, g) \<Rightarrow>
         (case f ops d of
            (Inl e, d) \<Rightarrow> (Inl (failed_with_text V what e), g, d)
          | (Inr x, d) \<Rightarrow> (Inr (answer x), g, d)))"

definition handle_exec ::
  "('w, 's, 'd) sandbox_server \<Rightarrow> command_request_def \<Rightarrow> ('w, 's, 'd) node \<Rightarrow>
   ((protocol_error + sandbox_body) \<times> ('w, 's, 'd) node) option" where
  "handle_exec V c = (\<lambda>(g, d).
     case default_ops V g of
       (Inl e, g) \<Rightarrow> Some (Inl e, g, d)
     | (Inr ops, g) \<Rightarrow>
         map_option (\<lambda>(r, d). (Inr (BdExecResult (def_of_output (sn_base64 V) (case r of
               Inr out \<Rightarrow> out
             | Inl e \<Rightarrow> \<lparr> co_stdout = [], co_stderr = display_sandbox_error (sn_duration V) e, co_exit_code = - 1,
                 co_signal = None \<rparr>))), g, d))
           (sx_execute ops (command_of_def (sn_base64 V) c) d))"

definition handle_write ::
  "('w, 's, 'd) sandbox_server \<Rightarrow> path \<Rightarrow> string \<Rightarrow> (('w, 's, 'd) node, protocol_error, sandbox_body) eff" where
  "handle_write V p encoded =
     (case b64_decode (sn_base64 V) encoded of
        Inl e \<Rightarrow> fail (PayloadDecodeFailedOwned (''sandbox.write_file base64: '' @ e))
      | Inr c \<Rightarrow> on_files V ''sandbox.write_file'' (\<lambda>ops. sx_write ops p c) (\<lambda>_. BdWriteFileResult))"

definition handle_sandboxes :: "('w, 's, 'd) sandbox_server \<Rightarrow> (('w, 's, 'd) node, protocol_error, sandbox_body) eff" where
  "handle_sandboxes V = (\<lambda>(g, d).
     case mg_list (sn_manager V) None g of
       (Inl e, g) \<Rightarrow> (Inl (failed_with_text V ''sandbox list'' e), g, d)
     | (Inr is, g) \<Rightarrow> (Inr (BdListResult (map (\<lambda>i. (si_profile i, si_kind i,
         case si_root_path i of Some r \<Rightarrow> r | None \<Rightarrow> [])) is)), g, d))"

definition sandbox_handle ::
  "('w, 's, 'd) sandbox_server \<Rightarrow> operation \<Rightarrow> sandbox_body \<Rightarrow> ('w, 's, 'd) node \<Rightarrow>
   ((protocol_error + sandbox_body) \<times> ('w, 's, 'd) node) option" where
  "sandbox_handle V op b w =
     (let mismatch = (\<lambda>m. Some (Inl (PayloadDecodeFailed m), w)); B = sn_base64 V in
      case op of
        OpSandbox SbListOp \<Rightarrow> (case b of BdList \<Rightarrow> Some (handle_sandboxes V w) | _ \<Rightarrow> mismatch ''sandbox.list'')
      | OpSandbox SbListSpecsOp \<Rightarrow>
          (case b of BdListSpecs \<Rightarrow> Some (Inr (BdListSpecsResult (map (\<lambda>sp. (spec_name sp, spec_provider sp))
               (list_specs (sn_spec_order V) (fst w)))), w)
           | _ \<Rightarrow> mismatch ''sandbox.list_specs'')
      | OpSandbox SbExecOp \<Rightarrow> (case b of BdExec c \<Rightarrow> handle_exec V c w | _ \<Rightarrow> mismatch ''sandbox.exec'')
      | OpSandbox SbReadFileOp \<Rightarrow>
          (case b of BdReadFile p off lim \<Rightarrow> Some (on_files V ''sandbox.read_file'' (\<lambda>ops. sx_read ops p off lim)
               (\<lambda>c. BdReadFileResult (b64_encode B c)) w)
           | _ \<Rightarrow> mismatch ''sandbox.read_file'')
      | OpSandbox SbWriteFileOp \<Rightarrow>
          (case b of BdWriteFile p c \<Rightarrow> Some (handle_write V p c w) | _ \<Rightarrow> mismatch ''sandbox.write_file'')
      | OpSandbox SbCreateDirOp \<Rightarrow>
          (case b of BdCreateDir p \<Rightarrow> Some (on_files V ''sandbox.create_dir'' (\<lambda>ops. sx_create_dirs ops p)
               (\<lambda>_. BdCreateDirResult) w)
           | _ \<Rightarrow> mismatch ''sandbox.create_dir'')
      | OpSandbox SbReadDirOp \<Rightarrow>
          (case b of BdReadDir p \<Rightarrow> Some (on_files V ''sandbox.read_dir'' (\<lambda>ops. sx_read_dir ops p)
               (\<lambda>es. BdReadDirResult (map def_of_entry es)) w)
           | _ \<Rightarrow> mismatch ''sandbox.read_dir'')
      | OpSandbox SbMetadataOp \<Rightarrow>
          (case b of BdMetadata p \<Rightarrow> Some (on_files V ''sandbox.metadata'' (\<lambda>ops. sx_metadata ops p)
               (\<lambda>m. BdMetadataResult (def_of_metadata m)) w)
           | _ \<Rightarrow> mismatch ''sandbox.metadata'')
      | _ \<Rightarrow> mismatch ''sandbox'')"

section \<open>The client\<close>

text \<open>
  What becomes of a request: it is not sent, it is answered in time, its answer comes too late or the channel of
  the answer is dropped; in the last two cases it may have reached the server all the same.
\<close>

datatype delivery = NotSent string | Answered | TooLate bool | Dropped bool

definition reach :: "bool \<Rightarrow> ('x \<times> 'w) option \<Rightarrow> 'w \<Rightarrow> 'w" where
  "reach there r w = (if there then case r of Some (x, w') \<Rightarrow> w' | None \<Rightarrow> w else w)"

definition remote_request ::
  "('w, 's, 'd) sandbox_server \<Rightarrow> (sandbox_operation \<Rightarrow> sandbox_body \<Rightarrow> delivery) \<Rightarrow> sandbox_operation \<Rightarrow> sandbox_body \<Rightarrow>
   (('w, 's, 'd) node, sandbox_error, sandbox_body) eff" where
  "remote_request V link op b w =
     (let served = sandbox_handle V (OpSandbox op) b w in
      case link op b of
        NotSent e \<Rightarrow> (Inl (SbIo e), w)
      | TooLate there \<Rightarrow> (Inl (SbTimeout 30000), reach there served w)
      | Dropped there \<Rightarrow> (Inl (SbIo ''request cancelled''), reach there served w)
      | Answered \<Rightarrow>
          (case served of
             None \<Rightarrow> (Inl (SbTimeout 30000), w)
           | Some (Inr a, w) \<Rightarrow> (Inr a, w)
           | Some (Inl e, w) \<Rightarrow> (Inr (BdError \<lparr> ep_code = ''dispatch_error'', ep_message = display_protocol_error e,
               ep_detail = None, ep_terminal = False \<rparr>), w)))"

definition unexpected :: sandbox_error where
  "unexpected = SbIo ''unexpected response type''"

definition remote_call ::
  "('w, 's, 'd) sandbox_server \<Rightarrow> (sandbox_operation \<Rightarrow> sandbox_body \<Rightarrow> delivery) \<Rightarrow> sandbox_operation \<Rightarrow> sandbox_body \<Rightarrow>
   (sandbox_body \<Rightarrow> sandbox_error + 'a) \<Rightarrow> (('w, 's, 'd) node, sandbox_error, 'a) eff" where
  "remote_call V link op b answer = bindE (remote_request V link op b) (\<lambda>a. liftE (answer a))"

definition remote_execute where
  "remote_execute V link req w = Some (remote_call V link SbExecOp (BdExec (def_of_command (sn_base64 V) req))
     (\<lambda>a. case a of BdExecResult d \<Rightarrow> Inr (output_of_def (sn_base64 V) d) | _ \<Rightarrow> Inl unexpected) w)"

definition remote_read where
  "remote_read V link p off lim = remote_call V link SbReadFileOp (BdReadFile p off lim)
     (\<lambda>a. case a of BdReadFileResult c \<Rightarrow> map_sum SbIo id (b64_decode (sn_base64 V) c) | _ \<Rightarrow> Inl unexpected)"

definition remote_write where
  "remote_write V link p c = remote_call V link SbWriteFileOp (BdWriteFile p (b64_encode (sn_base64 V) c))
     (\<lambda>a. case a of BdWriteFileResult \<Rightarrow> Inr () | _ \<Rightarrow> Inl unexpected)"

definition remote_create_dirs where
  "remote_create_dirs V link p = remote_call V link SbCreateDirOp (BdCreateDir p)
     (\<lambda>a. case a of BdCreateDirResult \<Rightarrow> Inr () | _ \<Rightarrow> Inl unexpected)"

definition remote_read_dir where
  "remote_read_dir V link p = remote_call V link SbReadDirOp (BdReadDir p)
     (\<lambda>a. case a of BdReadDirResult es \<Rightarrow> Inr (map entry_of_def es) | _ \<Rightarrow> Inl unexpected)"

definition remote_metadata where
  "remote_metadata V link p = remote_call V link SbMetadataOp (BdMetadata p)
     (\<lambda>a. case a of BdMetadataResult m \<Rightarrow> Inr (metadata_of_def m) | _ \<Rightarrow> Inl unexpected)"

definition remote_sandbox ::
  "('w, 's, 'd) sandbox_server \<Rightarrow> (sandbox_operation \<Rightarrow> sandbox_body \<Rightarrow> delivery) \<Rightarrow> ('w, 's, 'd) node sandbox_ops" where
  "remote_sandbox V link = \<lparr> sx_root = Some [], sx_resolve = (\<lambda>rel. Inr (components rel)),
     sx_execute = remote_execute V link, sx_read = remote_read V link, sx_write = remote_write V link,
     sx_create_dirs = remote_create_dirs V link, sx_read_dir = remote_read_dir V link,
     sx_metadata = remote_metadata V link \<rparr>"

end
