(* ===== verification/FileTools.thy ===== *)
theory FileTools
  imports SandboxFiles ToolRegistry Utf8Correct
begin

text \<open>
  The built-in tools on files and commands, \<open>crates/vol-llm-tools-builtin/\<close>: \<open>read-tool\<close>, \<open>write-tool\<close>,
  \<open>edit-tool\<close>, \<open>bash-tool\<close> and the request and report of \<open>grep-tool\<close>.  A tool works on the sandbox of its
  context.  Decoding its arguments and matching a regular expression are parameters.  The result \<open>None\<close>
  means that the call does not return normally: it panics, or the command never ends.
\<close>

section \<open>Shared pieces\<close>

definition ctx_resolve :: "(time \<Rightarrow> string) \<Rightarrow> 'w sandbox_ops \<Rightarrow> string \<Rightarrow> string + path" where
  "ctx_resolve dur ops rel =
     (case ctx_resolve_path (sx_root ops) (sx_resolve ops) rel of
        Inl e \<Rightarrow> Inl (display_sandbox_error dur e)
      | Inr p \<Rightarrow> Inr p)"

definition tool_failed :: "string \<Rightarrow> string \<Rightarrow> tool_error" where
  "tool_failed what e = ExecutionFailed (what @ e)"

definition on_sandbox ::
  "(time \<Rightarrow> string) \<Rightarrow> string \<Rightarrow> ('w, sandbox_error, 'a) eff \<Rightarrow> ('w, tool_error, 'a) eff" where
  "on_sandbox dur what = mapErr (\<lambda>e. tool_failed what (display_sandbox_error dur e))"

section \<open>read\_file\<close>

record read_params =
  rd_file_path :: string
  rd_offset :: u64
  rd_limit :: u64

text \<open>
  The lines of a read.  The sum of the start and the limit wraps around, and a slice that ends before it
  starts panics.
\<close>

definition select_lines :: "u64 \<Rightarrow> u64 \<Rightarrow> string list \<Rightarrow> (nat \<times> string list) option" where
  "select_lines offset limit lines =
     (let start = min (unat offset) (length lines);
          e = min (unat (of_nat start + limit)) (length lines)
      in if e < start then None else Some (start, take (e - start) (drop start lines)))"

definition numbered_output :: "read_params \<Rightarrow> string \<Rightarrow> string option" where
  "numbered_output p raw =
     map_option (\<lambda>(start, ls). join newline (map number_line (enumerate start ls)))
       (select_lines (rd_offset p) (rd_limit p) (str_lines (lossy_utf8 raw)))"

definition read_execute ::
  "(time \<Rightarrow> string) \<Rightarrow> read_params decoder \<Rightarrow> json \<Rightarrow> 'w sandbox_ops \<Rightarrow> 'w \<Rightarrow>
   ((tool_error + tool_result) \<times> 'w) option" where
  "read_execute dur dec args ops w =
     (case bindE (decode_args dec args) (\<lambda>p.
             case ctx_resolve dur ops (rd_file_path p) of
               Inl e \<Rightarrow> fail (tool_failed ''Path resolution failed: '' e)
             | Inr path \<Rightarrow>
                 bindE (on_sandbox dur ''Failed to read file: '' (sx_read ops path None None)) (\<lambda>raw. ret (p, raw))) w of
        (Inl e, w) \<Rightarrow> Some (Inl e, w)
      | (Inr (p, raw), w) \<Rightarrow> map_option (\<lambda>t. (Inr (tool_success t), w)) (numbered_output p raw))"

section \<open>write\_file\<close>

record write_params =
  wr_file_path :: string
  wr_content :: string

definition write_execute ::
  "(time \<Rightarrow> string) \<Rightarrow> write_params decoder \<Rightarrow> json \<Rightarrow> 'w sandbox_ops \<Rightarrow> ('w, tool_error, tool_result) eff" where
  "write_execute dur dec args ops =
     bindE (decode_args dec args) (\<lambda>p.
     case ctx_resolve dur ops (wr_file_path p) of
       Inl e \<Rightarrow> fail (tool_failed ''Failed to resolve path: '' e)
     | Inr path \<Rightarrow>
         bindE (case path_parent path of
                  Some q \<Rightarrow>
                    if q = [] then ret ()
                    else on_sandbox dur ''Failed to create directory: '' (sx_create_dirs ops q)
                | None \<Rightarrow> ret ()) (\<lambda>_.
         bindE (on_sandbox dur ''Failed to write file: '' (sx_write ops path (wr_content p))) (\<lambda>_.
         ret (tool_success (''Successfully wrote '' @ show_nat (length (wr_content p)) @ '' bytes to '' @
           wr_file_path p)))))"

section \<open>edit\_file\<close>

record edit_params =
  ed_file_path :: string
  ed_old :: string
  ed_new :: string
  ed_replace_all :: bool

text \<open>
  \<open>str::matches\<close>, \<open>replacen\<close> and \<open>replace\<close> for a text that is not empty: occurrences from the left that do
  not overlap.
\<close>

definition starts :: "string \<Rightarrow> string \<Rightarrow> bool" where
  "starts p s \<longleftrightarrow> take (length p) s = p"

function count_matches :: "string \<Rightarrow> string \<Rightarrow> nat" where
  "count_matches p [] = 0"
| "count_matches p (c # s) =
     (if p \<noteq> [] \<and> starts p (c # s) then Suc (count_matches p (drop (length p) (c # s)))
      else count_matches p s)"
  by pat_completeness auto
termination by (relation "measure (\<lambda>(p, s). length s)") (auto simp: diff_less_Suc)

function replace_n :: "string \<Rightarrow> string \<Rightarrow> nat option \<Rightarrow> string \<Rightarrow> string" where
  "replace_n p new k [] = []"
| "replace_n p new k (c # s) =
     (if k = Some 0 then c # s
      else if p \<noteq> [] \<and> starts p (c # s)
      then new @ replace_n p new (map_option (\<lambda>n. n - 1) k) (drop (length p) (c # s))
      else c # replace_n p new k s)"
  by pat_completeness auto
termination by (relation "measure (\<lambda>(p, new, k, s). length s)") (auto simp: diff_less_Suc)

definition edited :: "edit_params \<Rightarrow> string \<Rightarrow> string" where
  "edited p t = replace_n (ed_old p) (ed_new p) (if ed_replace_all p then None else Some 1) t"

definition apostrophes :: "string \<Rightarrow> string" where
  "apostrophes s = [CHR 0x27] @ s @ [CHR 0x27]"

definition edit_check :: "edit_params \<Rightarrow> nat \<Rightarrow> ('w, tool_error, unit) eff" where
  "edit_check p n =
     (if n = 0 then fail (ExecutionFailed (''String '' @ apostrophes (ed_old p) @ '' not found in file''))
      else if 1 < n \<and> \<not> ed_replace_all p then
        fail (ExecutionFailed (''Found '' @ show_nat n @ '' occurrences of '' @ apostrophes (ed_old p) @
          '', but replace_all is false. Set replace_all=true to replace all occurrences.''))
      else ret ())"

definition edit_report :: "edit_params \<Rightarrow> nat \<Rightarrow> string" where
  "edit_report p n =
     ''Successfully replaced '' @ show_nat n @ '' occurrence(s) of '' @ apostrophes (ed_old p) @ '' with '' @
     apostrophes (ed_new p) @ '' in '' @ ed_file_path p"

definition edit_execute ::
  "(time \<Rightarrow> string) \<Rightarrow> edit_params decoder \<Rightarrow> json \<Rightarrow> 'w sandbox_ops \<Rightarrow> ('w, tool_error, tool_result) eff" where
  "edit_execute dur dec args ops =
     bindE (decode_args dec args) (\<lambda>p.
     if ed_old p = [] then fail (InvalidArguments ''old_string cannot be empty'')
     else case ctx_resolve dur ops (ed_file_path p) of
       Inl e \<Rightarrow> fail (tool_failed ''Failed to resolve path: '' e)
     | Inr path \<Rightarrow>
         bindE (on_sandbox dur ''Failed to read file: '' (sx_read ops path None None)) (\<lambda>raw.
         let t = lossy_utf8 raw; n = count_matches (ed_old p) t in
         bindE (edit_check p n) (\<lambda>_.
         bindE (on_sandbox dur ''Failed to write file: '' (sx_write ops path (edited p t))) (\<lambda>_.
         ret (tool_success (edit_report p n))))))"

section \<open>bash\<close>

record bash_params =
  bp_command :: string
  bp_timeout :: "u64 option"
  bp_working_dir :: "string option"

definition max_output_size :: nat where
  "max_output_size = 1024 * 1024"

definition default_timeout_ms :: nat where
  "default_timeout_ms = 120000"

text \<open>The regular expressions of dangerous commands; a backslash joins the parts of each.\<close>

definition escaped :: "string list \<Rightarrow> string" where
  "escaped = join [CHR 0x5C]"

definition dangerous_patterns :: "string list" where
  "dangerous_patterns =
     [escaped [''rm'', ''s+(-[a-zA-Z]*r[a-zA-Z]*f|[a-zA-Z]*f[a-zA-Z]*r).*'', ''s+/''],
      escaped ['':'', ''s*'', ''('', ''s*'', '')'', ''s*'', ''{''],
      escaped [''mkfs''],
      escaped [''dd'', ''s+of=/dev/(zero|sda|nvme)''],
      escaped [''>'', ''s*/dev/sd[a-z]''],
      escaped [''curl'', ''s+[^|]*'', ''|'', ''s*(?:bash|sh)''],
      escaped [''wget'', ''s+[^|]*-O[^|]*'', ''|'', ''s*(?:bash|sh)''],
      escaped [''nc'', ''s+-e'', ''s+''],
      escaped [''bash'', ''s+-i'', ''s+>&'', ''s+/dev/tcp'']]"

definition check_security :: "(string \<Rightarrow> string \<Rightarrow> bool) \<Rightarrow> string \<Rightarrow> bool" where
  "check_security is_match command \<longleftrightarrow> \<not> list_ex (\<lambda>p. is_match p command) dangerous_patterns"

text \<open>A slice that cuts a character panics.\<close>

definition truncate_output :: "string \<Rightarrow> string option" where
  "truncate_output s =
     (if length s \<le> max_output_size then Some s
      else if char_boundary max_output_size s then Some (take max_output_size s @ ''...'')
      else None)"

definition bash_content :: "string \<Rightarrow> string \<Rightarrow> string" where
  "bash_content out err =
     (let c = (if out = [] then [] else ''stdout:'' @ newline @ out) @
              (if err = [] then []
               else (if out = [] then [] else newline) @ ''stderr:'' @ newline @ err)
      in if c = [] then ''Command executed successfully (no output)'' else c)"

definition bash_request :: "bash_params \<Rightarrow> command_request" where
  "bash_request p = \<lparr> cmd_program = ''bash'', cmd_args = [''-c'', bp_command p], cmd_env = Map.empty,
     cmd_cwd = bp_working_dir p, cmd_stdin = None,
     cmd_timeout = (case bp_timeout p of Some t \<Rightarrow> unat t | None \<Rightarrow> default_timeout_ms) \<rparr>"

definition bash_output :: "command_output \<Rightarrow> tool_result option" where
  "bash_output o' =
     (case (truncate_output (lossy_utf8 (co_stdout o')), truncate_output (lossy_utf8 (co_stderr o'))) of
        (Some out, Some err) \<Rightarrow> Some (tool_success (bash_content out err))
      | _ \<Rightarrow> None)"

definition bash_execute ::
  "(time \<Rightarrow> string) \<Rightarrow> (string \<Rightarrow> string \<Rightarrow> bool) \<Rightarrow> bash_params decoder \<Rightarrow> json \<Rightarrow> 'w sandbox_ops \<Rightarrow> 'w \<Rightarrow>
   ((tool_error + tool_result) \<times> 'w) option" where
  "bash_execute dur is_match dec args ops w =
     (case decode_args dec args w of
        (Inl e, w) \<Rightarrow> Some (Inl e, w)
      | (Inr p, w) \<Rightarrow>
          if \<not> check_security is_match (bp_command p) then
            Some (Inl (ExecutionFailed
              ''Security violation: Command matches dangerous pattern and was blocked''), w)
          else (case sx_execute ops (bash_request p) w of
                  None \<Rightarrow> None
                | Some (Inl e, w) \<Rightarrow>
                    Some (Inl (tool_failed ''Command execution failed: '' (display_sandbox_error dur e)), w)
                | Some (Inr res, w) \<Rightarrow> map_option (\<lambda>r. (Inr r, w)) (bash_output res)))"

definition bash_sensitivity :: "json \<Rightarrow> sensitivity" where
  "bash_sensitivity args =
     (case json_str (json_get ''command'' args) of
        Some cmd \<Rightarrow> RequiresApproval (''Running shell command: '' @ cmd)
      | None \<Rightarrow> Safe)"

section \<open>grep\<close>

record grep_params =
  gp_pattern :: string
  gp_path :: "string option"
  gp_glob :: "string option"
  gp_output_mode :: string
  gp_case_sensitive :: bool

record search_result =
  sr_path :: string
  sr_match_count :: nat
  sr_line_numbers :: "nat list"

definition mode_files :: string where "mode_files = ''files_with_matches''"
definition mode_count :: string where "mode_count = ''count''"
definition mode_content :: string where "mode_content = ''content''"

text \<open>The arguments of \<open>rg\<close>; the mode has been checked before.\<close>

definition mode_flag :: "string \<Rightarrow> string" where
  "mode_flag m = (if m = mode_files then ''-l'' else if m = mode_count then ''-c'' else ''-n'')"

definition search_root :: "grep_params \<Rightarrow> string" where
  "search_root p = (case gp_path p of Some d \<Rightarrow> d | None \<Rightarrow> ''.'')"

definition rg_request :: "grep_params \<Rightarrow> command_request" where
  "rg_request p = \<lparr> cmd_program = ''rg'',
     cmd_args = [''--no-heading'', ''--with-filename'', ''--color'', ''never'', ''--max-depth'', ''50'',
         ''--max-filesize'', ''10M'', mode_flag (gp_output_mode p),
         if gp_case_sensitive p then ''-s'' else ''-i''] @
       (case gp_glob p of Some g \<Rightarrow> [''-g'', g] | None \<Rightarrow> []) @
       [''--'', gp_pattern p, search_root p],
     cmd_env = Map.empty, cmd_cwd = None, cmd_stdin = None, cmd_timeout = 30000 \<rparr>"

text \<open>The text before a separator and, if there is one, the text after it.\<close>

fun split_at_char :: "char \<Rightarrow> string \<Rightarrow> string \<times> string option" where
  "split_at_char x [] = ([], None)"
| "split_at_char x (c # s) =
     (if c = x then ([], Some s) else case split_at_char x s of (a, b) \<Rightarrow> (c # a, b))"

definition rsplit_at_char :: "char \<Rightarrow> string \<Rightarrow> (string \<times> string) option" where
  "rsplit_at_char x s =
     (case split_at_char x (rev s) of
        (a, Some b) \<Rightarrow> Some (rev b, rev a)
      | (a, None) \<Rightarrow> None)"

definition usize_or_zero :: "string \<Rightarrow> nat" where
  "usize_or_zero s = (case parse_u64 s of Some n \<Rightarrow> unat n | None \<Rightarrow> 0)"

text \<open>One line of the report of \<open>rg\<close>; lines of the same file follow each other and are collected.\<close>

definition add_content_line :: "string \<Rightarrow> nat \<Rightarrow> search_result list \<Rightarrow> search_result list" where
  "add_content_line f n rs =
     (if rs \<noteq> [] \<and> components (sr_path (last rs)) = components f
      then butlast rs @ [(last rs)\<lparr>sr_match_count := sr_match_count (last rs) + 1,
             sr_line_numbers := sr_line_numbers (last rs) @ [n]\<rparr>]
      else rs @ [\<lparr> sr_path = f, sr_match_count = 1, sr_line_numbers = [n] \<rparr>])"

definition add_rg_line :: "string \<Rightarrow> search_result list \<Rightarrow> string \<Rightarrow> search_result list" where
  "add_rg_line mode rs line =
     (let l = trim line in
      if l = [] then rs
      else if mode = mode_files then rs @ [\<lparr> sr_path = l, sr_match_count = 1, sr_line_numbers = [] \<rparr>]
      else if mode = mode_count then
        (case rsplit_at_char (CHR '':'') l of
           Some (f, n) \<Rightarrow> rs @ [\<lparr> sr_path = f, sr_match_count = usize_or_zero n, sr_line_numbers = [] \<rparr>]
         | None \<Rightarrow> rs)
      else if mode = mode_content then
        (case split_at_char (CHR '':'') l of
           (f, Some r) \<Rightarrow> add_content_line f (usize_or_zero (fst (split_at_char (CHR '':'') r))) rs
         | (f, None) \<Rightarrow> rs)
      else rs)"

definition parse_rg_output :: "string \<Rightarrow> string \<Rightarrow> search_result list" where
  "parse_rg_output out mode = foldl (add_rg_line mode) [] (str_lines out)"

definition rg_search ::
  "(time \<Rightarrow> string) \<Rightarrow> grep_params \<Rightarrow> 'w sandbox_ops \<Rightarrow> 'w \<Rightarrow> ((string + search_result list) \<times> 'w) option" where
  "rg_search dur p ops w =
     (case sx_execute ops (rg_request p) w of
        None \<Rightarrow> None
      | Some (Inl e, w) \<Rightarrow> Some (Inl (''rg execution failed: '' @ display_sandbox_error dur e), w)
      | Some (Inr res, w) \<Rightarrow>
          Some (if co_exit_code res = 0 then Inr (parse_rg_output (lossy_utf8 (co_stdout res)) (gp_output_mode p))
                else if co_exit_code res = 1 then Inr []
                else Inl (''rg failed: '' @ trim (lossy_utf8 (co_stderr res))), w))"

definition format_results :: "string \<Rightarrow> search_result list \<Rightarrow> string" where
  "format_results mode rs =
     (if mode = mode_files then join newline (map sr_path rs)
      else if mode = mode_count then
        join newline (map (\<lambda>r. sr_path r @ '': '' @ show_nat (sr_match_count r)) rs)
      else if mode = mode_content then
        join newline (concat (map (\<lambda>r. map (\<lambda>n. sr_path r @ '':'' @ show_nat n) (sr_line_numbers r)) rs))
      else [])"

text \<open>
  The tool tries \<open>rg\<close> in the sandbox and, when that fails or takes more than thirty seconds, searches with
  a library in the process itself.  The first step is told by \<open>slow\<close> whether the time ran out; the
  library search, which does not use the sandbox, is a parameter, and so is its time limit.
\<close>

definition grep_execute ::
  "(time \<Rightarrow> string) \<Rightarrow> (string list \<Rightarrow> string) \<Rightarrow> grep_params decoder \<Rightarrow>
   (grep_params \<Rightarrow> string \<Rightarrow> ('w, string, search_result list) eff) \<Rightarrow> ('w \<Rightarrow> bool) \<Rightarrow> json \<Rightarrow> 'w sandbox_ops \<Rightarrow>
   ('w, tool_error, tool_result) eff" where
  "grep_execute dur debug_list dec library slow args ops =
     bindE (decode_args dec args) (\<lambda>p w.
       if gp_output_mode p \<notin> {mode_files, mode_count, mode_content} then
         (Inl (InvalidArguments (''Invalid output_mode: '' @ gp_output_mode p @ ''. Valid modes are: '' @
            debug_list [mode_files, mode_count, mode_content])), w)
       else
         bindE (\<lambda>w. if slow w then mapErr ExecutionFailed (library p (search_root p)) w
                 else case rg_search dur p ops w of
                        Some (Inr rs, w) \<Rightarrow> (Inr rs, w)
                      | Some (Inl e, w) \<Rightarrow> mapErr ExecutionFailed (library p (search_root p)) w
                      | None \<Rightarrow> mapErr ExecutionFailed (library p (search_root p)) w)
           (\<lambda>rs. let c = format_results (gp_output_mode p) rs
                 in ret (tool_success (if c = [] then ''No matches found.'' else c))) w)"

end
