(* ===== verification/FileToolsCorrect.thy ===== *)
theory FileToolsCorrect
  imports FileTools
begin

text \<open>
  What the file and command tools promise, for every sandbox that keeps the contract of
  \<open>sandbox_files\<close>; the local sandbox keeps it over every disk that reads back what was written.  The local
  sandbox ends every command; its waiting loop and the pipes it does not read are the subject of the last
  part.
\<close>

section \<open>The local sandbox keeps the contract\<close>

lemma local_read_cases:
  assumes "local_read D p off lim d = (r, d')"
  shows "\<exists>q. dk_read D p d = (q, d') \<and> r = (case q of Inl e \<Rightarrow> Inl (SbIo e) | Inr c \<Rightarrow> Inr (read_range c off lim))"
  using assms by (auto simp: local_read_def bindE_def mapErr_def split: prod.splits sum.splits)

lemma read_range_all [simp]: "read_range c None None = c"
  by (simp add: read_range_def)

lemma resolve_path_in: "resolve_path root rel = Inr p \<Longrightarrow> starts_with_comps p (normalize_path root)"
  by (auto simp: resolve_path_def Let_def split: if_splits)

sublocale disk \<subseteq> local_files: sandbox_files "local_sandbox D spawn root" files for spawn root
proof
  fix p off lim w r w'
  assume "sx_read (local_sandbox D spawn root) p off lim w = (r, w')"
  then show "w' = w" using disk_read by (auto simp: local_sandbox_def dest: local_read_cases)
next
  fix p w c w'
  assume "sx_read (local_sandbox D spawn root) p None None w = (Inr c, w')"
  then have "dk_read D p w = (Inr c, w')"
    by (auto simp: local_sandbox_def dest!: local_read_cases split: sum.splits)
  with disk_read show "files w p = Some c" by blast
next
  fix p c w q w' p' assume wr: "sx_write (local_sandbox D spawn root) p c w = (q, w')" and "p' \<noteq> p"
  then show "files w' p' = files w p'"
    by (auto simp: local_sandbox_def local_write_def bindE_def mapErr_def
        split: option.splits prod.splits sum.splits dest!: disk_write disk_dirs)
next
  fix p c w u w' assume "sx_write (local_sandbox D spawn root) p c w = (Inr u, w')"
  then show "files w' p = Some c"
    by (auto simp: local_sandbox_def local_write_def bindE_def mapErr_def
        split: option.splits prod.splits sum.splits dest!: disk_write)
next
  fix p w q w' assume "sx_create_dirs (local_sandbox D spawn root) p w = (q, w')"
  then show "files w' = files w"
    by (auto simp: local_sandbox_def local_create_dirs_def mapErr_def split: prod.splits sum.splits dest: disk_dirs)
qed (auto simp: local_sandbox_def intro: resolve_path_in)

text \<open>A disk in memory, every call of which succeeds on an existing file.\<close>

definition ram_disk :: "(path \<rightharpoonup> string) disk_ops" where
  "ram_disk = \<lparr>
     dk_read = (\<lambda>p d. case d p of Some c \<Rightarrow> (Inr c, d) | None \<Rightarrow> (Inl ''No such file or directory (os error 2)'', d)),
     dk_write = (\<lambda>p c d. (Inr (), d(p \<mapsto> c))),
     dk_create_dirs = (\<lambda>p. ret ()),
     dk_read_dir = (\<lambda>p. ret []),
     dk_metadata = (\<lambda>p d. case d p of
         Some c \<Rightarrow> (Inr \<lparr> rm_size = of_nat (length c), rm_mtime = None, rm_type = FtFile \<rparr>, d)
       | None \<Rightarrow> (Inl ''No such file or directory (os error 2)'', d)) \<rparr>"

interpretation ram: disk ram_disk "\<lambda>d. d"
  by unfold_locales (auto simp: ram_disk_def split: option.splits)

section \<open>Pieces of a text\<close>

text \<open>What stands before, between and after the occurrences of a text.\<close>

function pieces :: "string \<Rightarrow> string \<Rightarrow> string list" where
  "pieces p [] = [[]]"
| "pieces p (c # s) =
     (if p \<noteq> [] \<and> starts p (c # s) then [] # pieces p (drop (length p) (c # s))
      else (c # hd (pieces p s)) # tl (pieces p s))"
  by pat_completeness auto
termination by (relation "measure (\<lambda>(p, s). length s)") (auto simp: diff_less_Suc)

lemma pieces_not_Nil [simp]: "pieces p s \<noteq> []"
  by (induction p s rule: pieces.induct) auto

lemma length_pieces: "length (pieces p s) = Suc (count_matches p s)"
  by (induction p s rule: pieces.induct) auto

lemma join_Cons: "join sep (x # xs) = x @ (if xs = [] then [] else sep @ join sep xs)"
  by (cases xs) auto

lemma starts_append: "starts p s \<Longrightarrow> p @ drop (length p) s = s"
  by (metis append_take_drop_id starts_def)

lemma join_pieces: "join p (pieces p s) = s"
proof (induction p s rule: pieces.induct)
  case (2 p c s)
  show ?case
  proof (cases "p \<noteq> [] \<and> starts p (c # s)")
    case True
    with 2(1) starts_append [of p "c # s"] show ?thesis by (simp add: join_Cons)
  next
    case False
    with 2(2) have "join p (pieces p s) = s" by blast
    with False show ?thesis by (cases "pieces p s") (auto simp: join_Cons)
  qed
qed simp

lemma replace_all_pieces: "replace_n p new None s = join new (pieces p s)"
proof (induction p s rule: pieces.induct)
  case (2 p c s)
  show ?case
  proof (cases "p \<noteq> [] \<and> starts p (c # s)")
    case True
    with 2(1) show ?thesis by (simp add: join_Cons)
  next
    case False
    with 2(2) show ?thesis by (cases "pieces p s") (auto simp: join_Cons)
  qed
qed simp

lemma replace_none: "count_matches p s = 0 \<Longrightarrow> replace_n p new None s = s"
  by (induction p s rule: count_matches.induct) (auto split: if_splits)

lemma replace_zero [simp]: "replace_n p new (Some 0) s = s"
  by (cases s) simp_all

lemma replace_one: "count_matches p s = 1 \<Longrightarrow> replace_n p new (Some 1) s = replace_n p new None s"
proof (induction p s rule: count_matches.induct)
  case (2 p c s)
  then show ?case by (auto simp: replace_none split: if_splits)
qed simp

lemma edited_pieces:
  assumes "count_matches (ed_old p) t = 1 \<or> ed_replace_all p"
  shows "edited p t = join (ed_new p) (pieces (ed_old p) t)"
  using assms by (auto simp: edited_def replace_one [simplified] replace_all_pieces)

text \<open>No piece contains the text.\<close>

lemma starts_append2: "starts p s \<Longrightarrow> starts p (s @ t)"
  by (metis starts_append starts_def append.assoc append_eq_conv_conj)

lemma pieces_hd_prefix: "\<exists>t. s = hd (pieces p s) @ t"
  by (induction p s rule: pieces.induct) auto

lemma pieces_no_match:
  "p \<noteq> [] \<Longrightarrow> x \<in> set (pieces p s) \<Longrightarrow> x = u @ v \<Longrightarrow> \<not> starts p v"
proof (induction p s arbitrary: x u rule: pieces.induct)
  case (1 p)
  then show ?case by (auto simp: starts_def)
next
  case (2 p c s)
  show ?case
  proof (cases "starts p (c # s)")
    case True
    with "2.IH"(1) "2.prems" show ?thesis by (auto simp: starts_def [of p "[]"])
  next
    case False
    with "2.prems"(2) consider "x = c # hd (pieces p s)" | "x \<in> set (tl (pieces p s))" by auto
    then show ?thesis
    proof cases
      case 1
      obtain t where t: "s = hd (pieces p s) @ t" using pieces_hd_prefix by blast
      show ?thesis
      proof (cases u)
        case Nil
        with 1 "2.prems"(3) have "c # s = v @ t" using t by simp
        with False starts_append2 [of p v t] show ?thesis by auto
      next
        case (Cons a u')
        with 1 "2.prems"(3) have "hd (pieces p s) = u' @ v" by simp
        then have "u' @ v \<in> set (pieces p s)" by (metis list.set_sel(1) pieces_not_Nil)
        with "2.IH"(2) [of "u' @ v" u'] False "2.prems"(1) show ?thesis by simp
      qed
    next
      case 2
      then have "x \<in> set (pieces p s)" by (simp add: list.set_sel(2))
      with "2.IH"(2) [of x u] False "2.prems" show ?thesis by simp
    qed
  qed
qed

section \<open>Reading and editing\<close>

text \<open>What an edit does, step by step.\<close>

lemma edit_cases:
  assumes "sandbox_files ops files" "edit_execute dur dec args ops w = (r, w')"
  obtains (refused) e where "r = Inl e" "w' = w"
  | (failed) p q e where "dec args = Inr p" "ctx_resolve dur ops (ed_file_path p) = Inr q"
      "r = Inl (tool_failed ''Failed to write file: '' e)" "\<forall>q'. q' \<noteq> q \<longrightarrow> files w' q' = files w q'"
  | (saved) p q raw where "dec args = Inr p" "ed_old p \<noteq> []" "ctx_resolve dur ops (ed_file_path p) = Inr q"
      "files w q = Some raw" "0 < count_matches (ed_old p) (lossy_utf8 raw)"
      "count_matches (ed_old p) (lossy_utf8 raw) = 1 \<or> ed_replace_all p"
      "r = Inr (tool_success (edit_report p (count_matches (ed_old p) (lossy_utf8 raw))))"
      "files w' = (files w)(q \<mapsto> edited p (lossy_utf8 raw))"
proof (cases "\<exists>p q. dec args = Inr p \<and> ed_old p \<noteq> [] \<and> ctx_resolve dur ops (ed_file_path p) = Inr q")
  case False
  with assms(2) show ?thesis
    by (intro refused [of "projl r"])
      (auto simp: edit_execute_def decode_args_def mapErr_def bindE_def split: sum.splits if_splits)
next
  case True
  then obtain p q where p: "dec args = Inr p" "ed_old p \<noteq> []" "ctx_resolve dur ops (ed_file_path p) = Inr q" by blast
  obtain c w1 where rd: "sx_read ops q None None w = (c, w1)" by force
  with sandbox_files.read_same [OF assms(1)] have w1: "w1 = w" by blast
  show ?thesis
  proof (cases c)
    case (Inl e)
    with assms(2) p rd w1 show ?thesis
      by (intro refused [of "projl r"]) (auto simp: edit_execute_def decode_args_def bindE_def on_sandbox_def)
  next
    case (Inr raw)
    with rd w1 sandbox_files.read_whole [OF assms(1)] have raw: "files w q = Some raw" by blast
    let ?n = "count_matches (ed_old p) (lossy_utf8 raw)"
    show ?thesis
    proof (cases "?n = 0 \<or> 1 < ?n \<and> \<not> ed_replace_all p")
      case True
      with assms(2) p rd w1 Inr show ?thesis
        by (intro refused [of "projl r"])
          (auto simp: edit_execute_def decode_args_def bindE_def on_sandbox_def edit_check_def Let_def)
    next
      case False
      obtain u w2 where wr: "sx_write ops q (edited p (lossy_utf8 raw)) w = (u, w2)" by force
      have run: "edit_execute dur dec args ops w =
          (case u of Inl e \<Rightarrow> Inl (tool_failed ''Failed to write file: '' (display_sandbox_error dur e))
           | Inr x \<Rightarrow> Inr (tool_success (edit_report p ?n)), w2)"
        using False p rd w1 Inr wr
        by (auto simp: edit_execute_def decode_args_def bindE_def on_sandbox_def edit_check_def Let_def mapErr_def
            split: sum.splits)
      have other: "\<forall>q'. q' \<noteq> q \<longrightarrow> files w2 q' = files w q'"
        using sandbox_files.write_other [OF assms(1) wr] by blast
      show ?thesis
      proof (cases u)
        case (Inl e)
        with run other p assms(2) show ?thesis by (intro failed) auto
      next
        case (Inr x)
        with sandbox_files.write_done [OF assms(1)] wr have "files w2 q = Some (edited p (lossy_utf8 raw))" by blast
        with other have "files w2 = (files w)(q \<mapsto> edited p (lossy_utf8 raw))" by (intro ext) simp
        with Inr run p raw False assms(2) show ?thesis by (intro saved [of p q raw]) auto
      qed
    qed
  qed
qed

text \<open>
  C8: An edit.  When it succeeds, the file it names, which lies in the root of the sandbox, was read as
  text, cut at the occurrences of the old text, from the left, and joined again with the new text; there
  is at least one occurrence, and several only when all are to be replaced.  No other file changes.  When
  it fails, no file changes, except that a failed write may leave anything in the file it names.
\<close>

theorem edit_spec:
  assumes "sandbox_files ops files" "sx_root ops = Some root" "edit_execute dur dec args ops w = (r, w')"
  shows "case r of
      Inr res \<Rightarrow> \<exists>p q raw xs. dec args = Inr p \<and> ctx_resolve dur ops (ed_file_path p) = Inr q \<and>
        starts_with_comps q (normalize_path root) \<and> files w q = Some raw \<and>
        join (ed_old p) xs = lossy_utf8 raw \<and> (\<forall>x \<in> set xs. \<forall>u v. x = u @ v \<longrightarrow> \<not> starts (ed_old p) v) \<and>
        2 \<le> length xs \<and> (length xs = 2 \<or> ed_replace_all p) \<and>
        files w' = (files w)(q \<mapsto> join (ed_new p) xs)
    | Inl e \<Rightarrow> files w' = files w \<or>
        (\<exists>p q m. dec args = Inr p \<and> ctx_resolve dur ops (ed_file_path p) = Inr q \<and>
          e = tool_failed ''Failed to write file: '' m \<and> (\<forall>q'. q' \<noteq> q \<longrightarrow> files w' q' = files w q'))"
  using assms(1,3)
proof (cases rule: edit_cases)
  case (refused e)
  then show ?thesis by simp
next
  case (failed p q e)
  then show ?thesis by auto
next
  case (saved p q raw)
  let ?xs = "pieces (ed_old p) (lossy_utf8 raw)"
  have "starts_with_comps q (normalize_path root)"
    using saved(3) assms(2) sandbox_files.resolve_in [OF assms(1,2)]
    by (auto simp: ctx_resolve_def ctx_resolve_path_def split: sum.splits)
  moreover have "\<forall>x \<in> set ?xs. \<forall>u v. x = u @ v \<longrightarrow> \<not> starts (ed_old p) v"
    using pieces_no_match [OF saved(2)] by blast
  moreover have "2 \<le> length ?xs \<and> (length ?xs = 2 \<or> ed_replace_all p)"
    using saved(5,6) by (auto simp: length_pieces)
  ultimately have "dec args = Inr p \<and> ctx_resolve dur ops (ed_file_path p) = Inr q \<and>
      starts_with_comps q (normalize_path root) \<and> files w q = Some raw \<and> join (ed_old p) ?xs = lossy_utf8 raw \<and>
      (\<forall>x \<in> set ?xs. \<forall>u v. x = u @ v \<longrightarrow> \<not> starts (ed_old p) v) \<and>
      2 \<le> length ?xs \<and> (length ?xs = 2 \<or> ed_replace_all p) \<and> files w' = (files w)(q \<mapsto> join (ed_new p) ?xs)"
    using saved edited_pieces [of p "lossy_utf8 raw"] by (simp add: join_pieces)
  with saved(7) show ?thesis by auto
qed

lemma select_lines_spec:
  assumes "length ls < 2 ^ 64" "a = min (unat offset) (length ls)"
  shows "select_lines offset limit ls =
    (if a + unat limit < 2 ^ 64 then Some (a, take (min (a + unat limit) (length ls) - a) (drop a ls)) else None)"
proof -
  have le: "a \<le> length ls" using assms(2) by simp
  then have a: "unat (of_nat a :: u64) = a" using assms(1) by (simp add: unat_of_nat)
  have eq: "select_lines offset limit ls =
      (if min (unat (of_nat a + limit)) (length ls) < a then None
       else Some (a, take (min (unat (of_nat a + limit)) (length ls) - a) (drop a ls)))"
    by (simp add: select_lines_def assms(2) Let_def)
  show ?thesis
  proof (cases "a + unat limit < 2 ^ 64")
    case True
    then have "unat (of_nat a + limit) = a + unat limit"
      using a unat_add_lem [of "of_nat a :: u64" limit] by simp
    with True le show ?thesis unfolding eq by simp
  next
    case False
    have small: "unat limit < 2 ^ 64" using unsigned_less [of limit] by simp
    have "unat (of_nat a + limit) = (a + unat limit) mod 2 ^ 64"
      using unat_word_ariths(1) [of "of_nat a :: u64" limit] by (simp add: a)
    also have "\<dots> = (a + unat limit - 2 ^ 64) mod 2 ^ 64" using False by (intro le_mod_geq) simp
    also have "\<dots> \<le> a + unat limit - 2 ^ 64" by (rule mod_less_eq_dividend)
    finally have "unat (of_nat a + limit) < a" using False small by linarith
    with False show ?thesis unfolding eq by simp
  qed
qed

lemma numbered_lines:
  "e \<le> length ls \<Longrightarrow>
    map number_line (enumerate b (take (e - b) (drop b ls))) = map (\<lambda>i. number_line (i, ls ! i)) [b..<e]"
  by (intro nth_equalityI) (auto simp: nth_enumerate_eq)

text \<open>
  A read.  The lines of a file are returned with their numbers from the offset on, at most as many
  as the limit.  When the sum of the limit and the first line reaches \<open>2^64\<close>, it wraps around and the
  call panics.
\<close>

theorem read_execute_spec:
  assumes "sandbox_files ops files" "dec args = Inr p" "ctx_resolve dur ops (rd_file_path p) = Inr q"
    and "sx_read ops q None None w = (Inr raw, w1)"
    and "length (str_lines (lossy_utf8 raw)) < 2 ^ 64"
  shows "files w q = Some raw \<and> read_execute dur dec args ops w =
    (let ls = str_lines (lossy_utf8 raw); a = min (unat (rd_offset p)) (length ls); n = unat (rd_limit p)
     in if a + n < 2 ^ 64
        then Some (Inr (tool_success (join newline (map (\<lambda>i. number_line (i, ls ! i)) [a..<min (a + n) (length ls)]))), w)
        else None)"
proof -
  let ?ls = "str_lines (lossy_utf8 raw)"
  obtain a where a: "a = min (unat (rd_offset p)) (length ?ls)" by blast
  have "numbered_output p raw = (if a + unat (rd_limit p) < 2 ^ 64
      then Some (join newline (map (\<lambda>i. number_line (i, ?ls ! i)) [a..<min (a + unat (rd_limit p)) (length ?ls)]))
      else None)"
    unfolding numbered_output_def select_lines_spec [OF assms(5) a] by (simp add: numbered_lines)
  moreover have "read_execute dur dec args ops w = map_option (\<lambda>t. (Inr (tool_success t), w)) (numbered_output p raw)"
    using assms(2-4) sandbox_files.read_same [OF assms(1,4)]
    by (simp add: read_execute_def decode_args_def bindE_def on_sandbox_def)
  moreover have "files w q = Some raw"
    using assms(4) sandbox_files.read_same [OF assms(1,4)] sandbox_files.read_whole [OF assms(1)] by blast
  ultimately show ?thesis unfolding Let_def a [symmetric] by simp
qed

end
