(* ===== verification/RemoteSandboxCorrect.thy ===== *)
theory RemoteSandboxCorrect
  imports RemoteSandbox SandboxManagerCorrect FileToolsCorrect
begin

text \<open>
  A sandbox on another node keeps the contract of a sandbox, whatever becomes of its requests, and does what the
  sandbox of the node does; but nothing holds its paths below a root.
\<close>

section \<open>Records that travel\<close>

definition codec_ok :: "base64 \<Rightarrow> bool" where
  "codec_ok B \<longleftrightarrow> (\<forall>x. b64_decode B (b64_encode B x) = Inr x)"

lemma output_roundtrip: "codec_ok B \<Longrightarrow> output_of_def B (def_of_output B x) = x"
  by (simp add: codec_ok_def output_of_def_def def_of_output_def decode_or_empty_def)

lemma type_roundtrip [simp]: "type_of_word (type_word t) = t"
  by (cases t) (simp_all add: type_of_word_def type_word_def)

lemma entry_roundtrip [simp]: "entry_of_def (def_of_entry e) = e"
  by (simp add: entry_of_def_def def_of_entry_def)

lemma entries_roundtrip [simp]: "map (entry_of_def \<circ> def_of_entry) es = es"
  by (simp add: map_idI)

lemma metadata_roundtrip [simp]: "metadata_of_def (def_of_metadata m) = m"
  by (simp add: metadata_of_def_def def_of_metadata_def)

text \<open>A command as it arrives: a limit of no milliseconds, or of too many to be counted, becomes half a minute.\<close>

definition sent_command :: "command_request \<Rightarrow> command_request" where
  "sent_command r = r\<lparr>cmd_timeout := (let t = cmd_timeout r mod 2 ^ 64 in if t = 0 then 30000 else t)\<rparr>"

lemma command_roundtrip: "codec_ok B \<Longrightarrow> command_of_def B (def_of_command B r) = sent_command r"
proof -
  assume B: "codec_ok B"
  have "map_option (decode_or_empty B) (map_option (b64_encode B) x) = x" for x
    using B by (cases x) (simp_all add: codec_ok_def decode_or_empty_def)
  moreover have "(of_nat (cmd_timeout r) :: u64) = 0 \<longleftrightarrow> cmd_timeout r mod 2 ^ 64 = 0"
    by (simp add: word_of_nat_eq_0_iff dvd_eq_mod_eq_0)
  ultimately show ?thesis
    by (simp add: command_of_def_def def_of_command_def sent_command_def Let_def unsigned_of_nat take_bit_nat_def)
qed

section \<open>Calls\<close>

text \<open>A node whose default sandbox exists: asking for it changes nothing.\<close>

definition settled :: "('w, 's, 'd) sandbox_server \<Rightarrow> ('w, 's) manager \<Rightarrow> 'd sandbox_ops \<Rightarrow> bool" where
  "settled V g ops \<longleftrightarrow> (\<exists>sb. mg_default (sn_manager V) g = (Inr sb, g) \<and> sn_ops V sb = ops) \<and> codec_ok (sn_base64 V)"

lemma settled_default: "settled V g ops \<Longrightarrow> default_ops V g = (Inr ops, g)"
  by (auto simp: settled_def default_ops_def)

definition seen :: "('w, 's) manager \<Rightarrow> ('e + 'a) \<times> 'd \<Rightarrow> (sandbox_error + 'a) \<times> ('w, 's, 'd) node" where
  "seen g = (\<lambda>(r, d). (map_sum (\<lambda>_. unexpected) id r, g, d))"

lemma on_files_settled:
  "settled V g ops \<Longrightarrow> on_files V what f answer (g, d) =
     (case f ops d of (Inl e, d) \<Rightarrow> (Inl (failed_with_text V what e), g, d) | (Inr x, d) \<Rightarrow> (Inr (answer x), g, d))"
  by (simp add: on_files_def settled_default)

lemma written: "settled V g ops \<Longrightarrow>
   handle_write V p (b64_encode (sn_base64 V) c) = on_files V ''sandbox.write_file'' (\<lambda>ops. sx_write ops p c) (\<lambda>_. BdWriteFileResult)"
  by (simp add: settled_def codec_ok_def handle_write_def)

lemmas remote_defs = remote_sandbox_def remote_call_def remote_request_def bindE_def Let_def sandbox_handle_def liftE_def

lemma remote_answered:
  assumes "settled V g ops" "link = (\<lambda>op b. Answered)"
  shows "remote_read V link p off lim (g, d) = seen g (sx_read ops p off lim d)"
    "remote_write V link p c (g, d) = seen g (sx_write ops p c d)"
    "remote_create_dirs V link p (g, d) = seen g (sx_create_dirs ops p d)"
    "remote_read_dir V link p (g, d) = seen g (sx_read_dir ops p d)"
    "remote_metadata V link p (g, d) = seen g (sx_metadata ops p d)"
  using assms(1)
  by (auto simp: remote_read_def remote_write_def remote_create_dirs_def remote_read_dir_def remote_metadata_def
      remote_defs assms(2) on_files_settled [OF assms(1)] written [OF assms(1)] seen_def settled_def codec_ok_def
      split: prod.split sum.split)

text \<open>Whatever becomes of a request, the sandbox of the node was asked once or not at all.\<close>

lemma remote_world:
  assumes "settled V g ops"
  shows "snd (remote_read V link p off lim (g, d)) \<in> {(g, d), (g, snd (sx_read ops p off lim d))}"
    "snd (remote_write V link p c (g, d)) \<in> {(g, d), (g, snd (sx_write ops p c d))}"
    "snd (remote_create_dirs V link p (g, d)) \<in> {(g, d), (g, snd (sx_create_dirs ops p d))}"
    "remote_read V link p off lim (g, d) = (Inr x, w) \<Longrightarrow> sx_read ops p off lim d = (Inr x, snd w)"
    "remote_write V link p c (g, d) = (Inr u, w) \<Longrightarrow> sx_write ops p c d = (Inr (), snd w)"
  using assms
  by (auto simp: remote_read_def remote_write_def remote_create_dirs_def remote_defs reach_def
      on_files_settled [OF assms] written [OF assms] settled_def codec_ok_def
      split: prod.splits sum.splits delivery.splits if_splits)

section \<open>The contract\<close>

text \<open>The operations for a node whose manager is in a fixed state, over the world of its sandbox.\<close>

definition at_node :: "'g \<Rightarrow> ('g \<times> 'd) sandbox_ops \<Rightarrow> 'd sandbox_ops" where
  "at_node g ops = \<lparr> sx_root = sx_root ops, sx_resolve = sx_resolve ops,
     sx_execute = (\<lambda>r d. map_option (map_prod id snd) (sx_execute ops r (g, d))),
     sx_read = (\<lambda>p off lim d. map_prod id snd (sx_read ops p off lim (g, d))),
     sx_write = (\<lambda>p c d. map_prod id snd (sx_write ops p c (g, d))),
     sx_create_dirs = (\<lambda>p d. map_prod id snd (sx_create_dirs ops p (g, d))),
     sx_read_dir = (\<lambda>p d. map_prod id snd (sx_read_dir ops p (g, d))),
     sx_metadata = (\<lambda>p d. map_prod id snd (sx_metadata ops p (g, d))) \<rparr>"

locale remote_setting = sandbox_files ops files for ops :: "'d sandbox_ops" and files +
  fixes V :: "('w, 's, 'd) sandbox_server"
    and g :: "('w, 's) manager"
    and link :: "sandbox_operation \<Rightarrow> sandbox_body \<Rightarrow> delivery"
  assumes settled: "settled V g ops"
begin

lemma read_kept: "snd (sx_read ops p off lim d) = d"
  using read_same [of p off lim d] by (metis prod.collapse)

lemma remote_contract: "sandbox_files (at_node g (remote_sandbox V link)) files"
proof
  fix p off lim w r w'
  assume "sx_read (at_node g (remote_sandbox V link)) p off lim w = (r, w')"
  then show "w' = w"
    using remote_world(1) [OF settled, of link p off lim w] read_kept [of p off lim w]
    by (auto simp: at_node_def remote_sandbox_def map_prod_def split: prod.splits)
next
  fix p w c w'
  assume "sx_read (at_node g (remote_sandbox V link)) p None None w = (Inr c, w')"
  then obtain v where "remote_read V link p None None (g, w) = (Inr c, v)"
    by (auto simp: at_node_def remote_sandbox_def map_prod_def split: prod.splits)
  from remote_world(4) [OF settled this] show "files w p = Some c" by (rule read_whole)
next
  fix p c w q w' p'
  assume w: "sx_write (at_node g (remote_sandbox V link)) p c w = (q, w')" "p' \<noteq> p"
  then have "w' = w \<or> w' = snd (sx_write ops p c w)"
    using remote_world(2) [OF settled, of link p c w]
    by (auto simp: at_node_def remote_sandbox_def map_prod_def split: prod.splits)
  then show "files w' p' = files w p'" using write_other [of p c w] w(2) by (metis prod.collapse)
next
  fix p c w u w'
  assume "sx_write (at_node g (remote_sandbox V link)) p c w = (Inr u, w')"
  then obtain v where "remote_write V link p c (g, w) = (Inr u, v)" "w' = snd v"
    by (auto simp: at_node_def remote_sandbox_def map_prod_def split: prod.splits)
  then show "files w' p = Some c" using remote_world(5) [OF settled] write_done by metis
next
  fix p w q w'
  assume "sx_create_dirs (at_node g (remote_sandbox V link)) p w = (q, w')"
  then have "w' = w \<or> w' = snd (sx_create_dirs ops p w)"
    using remote_world(3) [OF settled, of link p w]
    by (auto simp: at_node_def remote_sandbox_def map_prod_def split: prod.splits)
  then show "files w' = files w" using dirs_same [of p w] by (metis prod.collapse)
next
  fix root rel p
  assume "sx_root (at_node g (remote_sandbox V link)) = Some root" "sx_resolve (at_node g (remote_sandbox V link)) rel = Inr p"
  then have "root = []" by (simp add: at_node_def remote_sandbox_def)
  moreover have "normalize_path [] = []" by (simp add: normalize_path_def components_def is_absolute_def seg_component_def)
  ultimately show "starts_with_comps p (normalize_path root)" by (simp add: starts_with_comps_def)
qed

end

sublocale remote_setting \<subseteq> remote: sandbox_files "at_node g (remote_sandbox V link)" files
  by (rule remote_contract)

section \<open>Properties\<close>



text \<open>
  A write that is reported as timed out may have been made.
\<close>

theorem late_write_done:
  assumes "settled V g ops" "sandbox_files ops files" "sx_write ops p c d = (Inr (), d')"
  shows "\<exists>w. sx_write (remote_sandbox V (\<lambda>op b. TooLate True)) p c (g, d) = (Inl (SbTimeout 30000), g, w) \<and> files w p = Some c"
  using assms(3) sandbox_files.write_done [OF assms(2,3)]
  by (simp add: remote_sandbox_def remote_write_def remote_defs reach_def written [OF assms(1)] on_files_settled [OF assms(1)])

section \<open>A node\<close>

text \<open>A node with the manager of the demonstration after its default sandbox was made, over a disk in memory.\<close>

definition plain_base64 :: base64 where
  "plain_base64 = \<lparr> b64_encode = id, b64_decode = Inr \<rparr>"

definition no_process :: "(path \<rightharpoonup> string) spawner" where
  "no_process = (\<lambda>program args env cwd input d. (Inl ''cannot run'', d))"

definition demo_server :: "(string set host, mem_records, path \<rightharpoonup> string) sandbox_server" where
  "demo_server = \<lparr> sn_manager = host_manager_env demo_host 9,
     sn_ops = (\<lambda>sb. local_sandbox ram_disk no_process ''/r''), sn_base64 = plain_base64, sn_duration = show_nat,
     sn_spec_order = (\<lambda>m. []) \<rparr>"

definition demo_settled :: "(string set host, mem_records) manager" where
  "demo_settled = snd (mg_default (host_manager_env demo_host 9) demo_manager)"

lemma demo_server_settled: "settled demo_server demo_settled (local_sandbox ram_disk no_process ''/r'')"
proof -
  have p: "mg_providers demo_manager ''tmp'' \<noteq> None" by (simp add: demo_defs backend_defs)
  have "\<exists>sb g'. mg_default demo_env demo_manager = (Inr sb, g')"
    by (simp add: run_defs demo_defs default_spec_def ascending_def)
  then obtain sb g' where d: "mg_default demo_env demo_manager = (Inr sb, g')" by blast
  from dm.default_idempotent [OF demo_manager_inv p d] d show ?thesis
    by (simp add: settled_def demo_server_def demo_settled_def codec_ok_def plain_base64_def)
qed

interpretation demo_remote: remote_setting "local_sandbox ram_disk no_process ''/r''" "\<lambda>d. d" demo_server demo_settled link
  for link
  by (intro remote_setting.intro remote_setting_axioms.intro ram.local_files.sandbox_files_axioms demo_server_settled)

section \<open>Witnesses\<close>

definition demo_disk :: "path \<rightharpoonup> string" where
  "demo_disk = [components ''/etc/passwd'' \<mapsto> ''root'']"



theorem late_write_done_witness:
  "\<exists>w. sx_write (remote_sandbox demo_server (\<lambda>op b. TooLate True)) [Normal ''f''] ''x'' (demo_settled, demo_disk) =
    (Inl (SbTimeout 30000), demo_settled, w) \<and> w [Normal ''f''] = Some ''x''"
proof -
  have "sx_write (local_sandbox ram_disk no_process ''/r'') [Normal ''f''] ''x'' demo_disk = (Inr (), demo_disk([Normal ''f''] \<mapsto> ''x''))"
    by (simp add: local_sandbox_def local_write_def path_parent_def local_create_dirs_def ram_disk_def bindE_def mapErr_def)
  from late_write_done [OF demo_server_settled ram.local_files.sandbox_files_axioms this] show ?thesis by simp
qed

end
