(* ===== verification/CommandCorrect.thy ===== *)
theory CommandCorrect
  imports FileToolsCorrect
begin

text \<open>
  Commands in a sandbox: the waiting loop of the local sandbox ends, the tool \<open>bash\<close> over it, the
  temporary sandbox, which has no time limit, and the search tool, which leaves the sandbox.
\<close>

section \<open>Waiting for a process\<close>

lemma await_exit_skip:
  "n \<le> k \<Longrightarrow> \<forall>i. n \<le> i \<and> i < k \<longrightarrow> ch_poll ch i = Inr None \<and> ch_clock ch i - since \<le> limit \<Longrightarrow>
    await_exit ch since limit n = await_exit ch since limit k"
proof (induction k)
  case (Suc k)
  show ?case
  proof (cases "n = Suc k")
    case False
    with Suc have "await_exit ch since limit n = await_exit ch since limit k" by simp
    also have "\<dots> = await_exit ch since limit (Suc k)"
      using Suc.prems(2) [rule_format, of k] Suc.prems(1) False by (subst await_exit.simps) simp
    finally show ?thesis .
  qed simp
qed simp

text \<open>The clock of a child passes every point in time.\<close>

definition clock_runs :: "child \<Rightarrow> bool" where
  "clock_runs ch \<longleftrightarrow> (\<forall>t n. \<exists>m \<ge> n. t < ch_clock ch m)"

lemma await_exit_ends:
  assumes "clock_runs ch"
  obtains k where "n \<le> k" "\<forall>i. n \<le> i \<and> i < k \<longrightarrow> ch_poll ch i = Inr None \<and> ch_clock ch i - since \<le> limit"
    "await_exit ch since limit n = Some (case ch_poll ch k of
        Inl e \<Rightarrow> Inl e | Inr (Some st) \<Rightarrow> Inr (Some st, Suc k) | Inr None \<Rightarrow> Inr (None, Suc k))"
    "ch_poll ch k = Inr None \<longrightarrow> limit < ch_clock ch k - since"
proof -
  let ?stop = "\<lambda>k. n \<le> k \<and> (ch_poll ch k \<noteq> Inr None \<or> limit < ch_clock ch k - since)"
  obtain m where "n \<le> m" "since + limit < ch_clock ch m" using assms by (auto simp: clock_runs_def)
  then have "limit < ch_clock ch m - since" by linarith
  with \<open>n \<le> m\<close> have "?stop m" by blast
  then obtain k where k: "?stop k" and least: "\<forall>i < k. \<not> ?stop i" using exists_least_iff [of ?stop] by blast
  from least have before: "\<forall>i. n \<le> i \<and> i < k \<longrightarrow> ch_poll ch i = Inr None \<and> ch_clock ch i - since \<le> limit"
    by (meson not_less)
  have "await_exit ch since limit n = await_exit ch since limit k"
    using k before by (intro await_exit_skip) blast+
  also have "\<dots> = Some (case ch_poll ch k of
        Inl e \<Rightarrow> Inl e | Inr (Some st) \<Rightarrow> Inr (Some st, Suc k) | Inr None \<Rightarrow> Inr (None, Suc k))"
  proof -
    consider e where "ch_poll ch k = Inl e" | st where "ch_poll ch k = Inr (Some st)"
      | "ch_poll ch k = Inr None" "limit < ch_clock ch k - since"
      using k by (metis not_None_eq sum.exhaust)
    then show ?thesis by cases (subst await_exit.simps, simp)+
  qed
  finally show ?thesis using k before by (intro that [of k]) auto
qed

lemma await_exit_result:
  assumes "clock_runs ch"
  obtains m where "await_exit ch since limit n = Some (Inl m)" "\<exists>i. ch_poll ch i = Inl m"
  | r where "await_exit ch since limit n = Some (Inr r)"
proof -
  obtain k where k: "await_exit ch since limit n = Some (case ch_poll ch k of
        Inl e \<Rightarrow> Inl e | Inr (Some st) \<Rightarrow> Inr (Some st, Suc k) | Inr None \<Rightarrow> Inr (None, Suc k))"
    by (rule await_exit_ends [OF assms, of n since limit])
  show ?thesis
  proof (cases "ch_poll ch k")
    case (Inl m)
    with k show ?thesis by (intro that(1)) auto
  next
    case (Inr x)
    with k show ?thesis by (cases x) (auto intro: that(2))
  qed
qed

lemma stop_child_ends:
  assumes "clock_runs ch"
  shows "\<exists>e. stop_child ch timeout n = Some e \<and> (e = SbTimeout timeout \<or> (\<exists>m i. e = SbIo m \<and> ch_poll ch i = Inl m))"
proof (cases rule: await_exit_result [OF assms, of "ch_clock ch n" 2000 n])
  case (1 m)
  then show ?thesis by (auto simp: stop_child_def)
next
  case (2 r)
  obtain x i where r: "r = (x, i)" by force
  show ?thesis
  proof (cases x)
    case (Some st)
    with 2 r show ?thesis by (simp add: stop_child_def)
  next
    case None
    show ?thesis
      by (cases rule: await_exit_result [OF assms, of "ch_clock ch i" 5000 i])
        (use 2 r None in \<open>auto simp: stop_child_def\<close>)
  qed
qed

lemma wait_child_ends:
  assumes "clock_runs ch"
  shows "\<exists>r. wait_child ch timeout = Some r \<and>
    (case r of
       Inr out \<Rightarrow> \<exists>k st. ch_poll ch k = Inr (Some st) \<and> output_of ch st = Inr out \<and>
         (\<forall>i < k. ch_poll ch i = Inr None \<and> ch_clock ch i \<le> timeout)
     | Inl e \<Rightarrow> (\<exists>m. e = SbIo m \<and> ((\<exists>i. ch_poll ch i = Inl m) \<or> ch_output ch = Inl m \<and> (\<exists>i st. ch_poll ch i = Inr (Some st)))) \<or>
         e = SbTimeout timeout \<and> (\<exists>k. timeout < ch_clock ch k \<and> (\<forall>i \<le> k. ch_poll ch i = Inr None)))"
proof -
  obtain k where k: "\<forall>i. 0 \<le> i \<and> i < k \<longrightarrow> ch_poll ch i = Inr None \<and> ch_clock ch i - 0 \<le> timeout"
    "await_exit ch 0 timeout 0 = Some (case ch_poll ch k of
        Inl e \<Rightarrow> Inl e | Inr (Some st) \<Rightarrow> Inr (Some st, Suc k) | Inr None \<Rightarrow> Inr (None, Suc k))"
    "ch_poll ch k = Inr None \<longrightarrow> timeout < ch_clock ch k - 0"
    by (rule await_exit_ends [OF assms, of 0 0 timeout])
  consider e where "ch_poll ch k = Inl e" | st where "ch_poll ch k = Inr (Some st)" | "ch_poll ch k = Inr None"
    by (metis (full_types) not_None_eq sum.exhaust)
  then show ?thesis
  proof cases
    case (1 e)
    with k show ?thesis by (auto simp: wait_child_def)
  next
    case (2 st)
    with k have "wait_child ch timeout = Some (output_of ch st)" by (simp add: wait_child_def)
    with 2 k(1) show ?thesis
      by (cases "output_of ch st") (auto simp: output_of_def split: sum.splits prod.splits)
  next
    case 3
    obtain e where e: "stop_child ch timeout (Suc k) = Some e" "e = SbTimeout timeout \<or> (\<exists>m i. e = SbIo m \<and> ch_poll ch i = Inl m)"
      using stop_child_ends [OF assms] by blast
    have "\<forall>i \<le> k. ch_poll ch i = Inr None" using 3 k(1) by (metis le_neq_implies_less le0)
    with e k 3 show ?thesis by (auto simp: wait_child_def)
  qed
qed

lemma wait_child_running:
  assumes "clock_runs ch" "\<And>i. ch_poll ch i = Inr None"
  shows "wait_child ch timeout = Some (Inl (SbTimeout timeout))"
proof -
  obtain r where r: "wait_child ch timeout = Some r" "case r of
       Inr out \<Rightarrow> \<exists>k st. ch_poll ch k = Inr (Some st) \<and> output_of ch st = Inr out \<and>
         (\<forall>i < k. ch_poll ch i = Inr None \<and> ch_clock ch i \<le> timeout)
     | Inl e \<Rightarrow> (\<exists>m. e = SbIo m \<and> ((\<exists>i. ch_poll ch i = Inl m) \<or> ch_output ch = Inl m \<and> (\<exists>i st. ch_poll ch i = Inr (Some st)))) \<or>
         e = SbTimeout timeout \<and> (\<exists>k. timeout < ch_clock ch k \<and> (\<forall>i \<le> k. ch_poll ch i = Inr None))"
    using wait_child_ends [OF assms(1)] by blast
  with assms(2) show ?thesis by (cases r) auto
qed

section \<open>Pipes\<close>

text \<open>
  A process whose output goes to two pipes that hold \<open>cap\<close> bytes each and that nobody reads while it
  runs: it exits at the \<open>k\<close>-th call, or never when a pipe is full.  The calls are a tenth of a second
  apart.
\<close>

definition pipe_child :: "nat \<Rightarrow> nat \<Rightarrow> exit_status \<Rightarrow> string \<Rightarrow> string \<Rightarrow> child" where
  "pipe_child cap k st out err = \<lparr>
     ch_poll = (\<lambda>n. Inr (if length out \<le> cap \<and> length err \<le> cap \<and> k \<le> n then Some st else None)),
     ch_clock = (\<lambda>n. 100 * n), ch_output = Inr (out, err) \<rparr>"

lemma pipe_child_runs: "clock_runs (pipe_child cap k st out err)"
proof -
  have "\<exists>m \<ge> n. t < 100 * m" for t n :: nat by (intro exI [of _ "n + Suc t"]) simp
  then show ?thesis by (simp add: clock_runs_def pipe_child_def)
qed

lemma pipe_child_stuck:
  assumes "cap < length out \<or> cap < length err \<or> timeout + 100 < 100 * k"
  shows "wait_child (pipe_child cap k st out err) timeout = Some (Inl (SbTimeout timeout))"
proof -
  let ?ch = "pipe_child cap k st out err"
  obtain r where r: "wait_child ?ch timeout = Some r"
    and cases: "case r of
       Inr out' \<Rightarrow> \<exists>k' st'. ch_poll ?ch k' = Inr (Some st') \<and> output_of ?ch st' = Inr out' \<and>
         (\<forall>i < k'. ch_poll ?ch i = Inr None \<and> ch_clock ?ch i \<le> timeout)
     | Inl e \<Rightarrow> (\<exists>m. e = SbIo m \<and> ((\<exists>i. ch_poll ?ch i = Inl m) \<or> ch_output ?ch = Inl m \<and> (\<exists>i st. ch_poll ?ch i = Inr (Some st)))) \<or>
         e = SbTimeout timeout \<and> (\<exists>k'. timeout < ch_clock ?ch k' \<and> (\<forall>i \<le> k'. ch_poll ?ch i = Inr None))"
    using wait_child_ends [OF pipe_child_runs] by blast
  show ?thesis
  proof (cases r)
    case (Inl e)
    with cases have "e = SbTimeout timeout" by (auto simp: pipe_child_def)
    with Inl r show ?thesis by simp
  next
    case (Inr out')
    with cases obtain k' st' where "ch_poll ?ch k' = Inr (Some st')" "\<forall>i < k'. ch_clock ?ch i \<le> timeout" by auto
    then have k': "ch_poll ?ch k' \<noteq> Inr None" "\<forall>i < k'. ch_clock ?ch i \<le> timeout" by simp_all
    then have "length out \<le> cap" "length err \<le> cap" "k \<le> k'" by (auto simp: pipe_child_def split: if_splits)
    with assms have "timeout + 100 < 100 * k" by auto
    moreover from this obtain j where "k = Suc j" by (cases k) auto
    ultimately have "j < k'" "timeout < ch_clock ?ch j" using \<open>k \<le> k'\<close> by (auto simp: pipe_child_def)
    with k'(2) show ?thesis by (meson not_less)
  qed
qed

lemma pipe_child_exits:
  assumes "length out \<le> cap" "length err \<le> cap" "100 * k \<le> timeout + 100"
  shows "wait_child (pipe_child cap k st out err) timeout = Some (output_of (pipe_child cap k st out err) st)"
proof -
  let ?ch = "pipe_child cap k st out err"
  have "await_exit ?ch 0 timeout 0 = await_exit ?ch 0 timeout k"
    using assms by (intro await_exit_skip) (auto simp: pipe_child_def)
  then have "await_exit ?ch 0 timeout 0 = Some (Inr (Some st, Suc k))"
    using assms by (subst (asm) (2) await_exit.simps) (simp add: pipe_child_def)
  then show ?thesis by (simp add: wait_child_def)
qed

section \<open>Commands of the local sandbox\<close>

text \<open>
  Every command of the local sandbox ends.  Whatever the process does, as long as the clock runs:
  when the call returns an output, the process has exited and no earlier look at it came after the time
  limit; when it reports a timeout, the limit was passed and the process was running at every look.
\<close>

theorem local_execute_ends:
  assumes "\<And>d1 ch d2. spawn (cmd_program req) (cmd_args req) (cmd_env req) (command_dir root req) (cmd_stdin req) d1 =
      (Inr ch, d2) \<Longrightarrow> clock_runs ch"
  shows "\<exists>r d'. local_execute D spawn root req d = Some (r, d') \<and>
    (\<forall>out. r = Inr out \<longrightarrow> (\<exists>ch k st. ch_poll ch k = Inr (Some st) \<and> output_of ch st = Inr out \<and>
       (\<forall>i < k. ch_poll ch i = Inr None \<and> ch_clock ch i \<le> cmd_timeout req))) \<and>
    (\<forall>t. r = Inl (SbTimeout t) \<longrightarrow> t = cmd_timeout req \<and>
       (\<exists>ch k. clock_runs ch \<and> t < ch_clock ch k \<and> (\<forall>i \<le> k. ch_poll ch i = Inr None)))"
proof -
  obtain x d1 where d1: "dk_create_dirs D (components (command_dir root req)) d = (x, d1)" by force
  obtain y d2 where sp: "spawn (cmd_program req) (cmd_args req) (cmd_env req) (command_dir root req) (cmd_stdin req) d1 =
    (y, d2)" by force
  show ?thesis
  proof (cases y)
    case (Inl e)
    with d1 sp show ?thesis by (simp add: local_execute_def Let_def)
  next
    case (Inr ch)
    with sp assms have ch: "clock_runs ch" by blast
    obtain r where r: "wait_child ch (cmd_timeout req) = Some r"
      and cases: "case r of
         Inr out \<Rightarrow> \<exists>k st. ch_poll ch k = Inr (Some st) \<and> output_of ch st = Inr out \<and>
           (\<forall>i < k. ch_poll ch i = Inr None \<and> ch_clock ch i \<le> cmd_timeout req)
       | Inl e \<Rightarrow> (\<exists>m. e = SbIo m \<and> ((\<exists>i. ch_poll ch i = Inl m) \<or> ch_output ch = Inl m \<and> (\<exists>i st. ch_poll ch i = Inr (Some st)))) \<or>
           e = SbTimeout (cmd_timeout req) \<and>
           (\<exists>k. cmd_timeout req < ch_clock ch k \<and> (\<forall>i \<le> k. ch_poll ch i = Inr None))"
      using wait_child_ends [OF ch] by blast
    have "local_execute D spawn root req d = Some (r, d2)"
      using d1 sp Inr r by (simp add: local_execute_def Let_def)
    with cases ch show ?thesis by (cases r) auto
  qed
qed


text \<open>
  The temporary sandbox has no time limit.  Its result does not depend on the limit of the request,
  and for a process that never ends the tool does not return, where the local sandbox reports a timeout.
\<close>

theorem tmp_no_limit:
  assumes "dec args = Inr p" "check_security is_match (bp_command p)"
    and "\<And>inp d1. spawn ''bash'' [''-c'', bp_command p] Map.empty (command_dir root (bash_request p)) inp d1 = (Inr ch, d1)"
    and "clock_runs ch" "\<And>i. ch_poll ch i = Inr None" "wait ch = None"
  shows "tmp_execute D spawn wait root (req\<lparr>cmd_timeout := t\<rparr>) d = tmp_execute D spawn wait root req d \<and>
    bash_execute dur is_match dec args (tmp_sandbox D spawn wait root) d = None \<and>
    (\<exists>d'. bash_execute dur is_match dec args (local_sandbox D spawn root) d = Some (Inl (ExecutionFailed
      (''Command execution failed: Command timed out after '' @ dur (cmd_timeout (bash_request p)))), d'))"
proof (intro conjI)
  let ?req = "bash_request p"
  show "tmp_execute D spawn wait root (req\<lparr>cmd_timeout := t\<rparr>) d = tmp_execute D spawn wait root req d"
    by (simp add: tmp_execute_def command_dir_def)
  obtain x d1 where d1: "dk_create_dirs D (components (command_dir root ?req)) d = (x, d1)" by force
  have parts: "cmd_program ?req = ''bash''" "cmd_args ?req = [''-c'', bp_command p]" "cmd_env ?req = Map.empty"
    by (simp_all add: bash_request_def)
  have "tmp_execute D spawn wait root ?req d = None"
    unfolding tmp_execute_def Let_def d1 parts by (simp add: assms(3,6))
  then show "bash_execute dur is_match dec args (tmp_sandbox D spawn wait root) d = None"
    using assms(1,2) by (simp add: bash_execute_def decode_args_def tmp_sandbox_def)
  have "local_execute D spawn root ?req d = Some (Inl (SbTimeout (cmd_timeout ?req)), d1)"
    unfolding local_execute_def Let_def d1 parts by (simp add: assms(3) wait_child_running [OF assms(4,5)])
  then show "\<exists>d'. bash_execute dur is_match dec args (local_sandbox D spawn root) d = Some (Inl (ExecutionFailed
      (''Command execution failed: Command timed out after '' @ dur (cmd_timeout ?req))), d')"
    using assms(1,2) by (simp add: bash_execute_def decode_args_def local_sandbox_def tool_failed_def)
qed

section \<open>Searching\<close>

text \<open>
  A search leaves the sandbox.  For a path that the sandbox refuses to resolve, \<open>grep\<close> hands it to
  \<open>rg\<close> as it is, and when \<open>rg\<close> fails the process itself searches there and reports what it finds.
\<close>

theorem grep_leaves_sandbox:
  assumes "dec args = Inr p" "gp_output_mode p \<in> {mode_files, mode_count, mode_content}"
    and "gp_path p = Some f" "ctx_resolve dur ops f = Inl refused"
    and "\<not> slow w" "rg_search dur p ops w = Some (Inl e, w1)" "library p f w1 = (Inr rs, w2)"
    and "format_results (gp_output_mode p) rs \<noteq> []"
  shows "last (cmd_args (rg_request p)) = f \<and>
    grep_execute dur debug_list dec library slow args ops w =
      (Inr (tool_success (format_results (gp_output_mode p) rs)), w2)"
  using assms by (simp add: grep_execute_def rg_request_def search_root_def decode_args_def bindE_def mapErr_def Let_def)

section \<open>Witnesses\<close>

definition demo_edit :: edit_params where
  "demo_edit = \<lparr> ed_file_path = ''a'', ed_old = ''b'', ed_new = ''cc'', ed_replace_all = False \<rparr>"

definition no_spawn :: "'d spawner" where
  "no_spawn prog as env dir inp = fail ''No such file or directory (os error 2)''"

definition demo_path :: path where
  "demo_path = [RootDir, Normal ''r'', Normal ''a'']"

abbreviation demo_files :: "path \<rightharpoonup> string" where
  "demo_files \<equiv> [demo_path \<mapsto> ''abd'']"

lemma demo_resolve: "ctx_resolve dur (local_sandbox ram_disk no_spawn ''/r'') ''a'' = Inr demo_path"
  by (simp add: ctx_resolve_def ctx_resolve_path_def ctx_relative_def local_sandbox_def resolve_path_def Let_def
      path_join_def normalize_path_def components_def seg_component_def is_absolute_def path_push_def
      starts_with_comps_def demo_path_def)

lemma demo_read: "sx_read (local_sandbox ram_disk no_spawn ''/r'') demo_path None None demo_files = (Inr ''abd'', demo_files)"
  by (simp add: local_sandbox_def local_read_def ram_disk_def bindE_def mapErr_def)

lemma demo_text: "lossy_utf8 ''abd'' = ''abd''"
  by (simp add: scan_char_def byte_def Let_def)

theorem edit_spec_witness:
  "\<exists>res w'. edit_execute (\<lambda>t. []) (\<lambda>j. Inr demo_edit) JNull (local_sandbox ram_disk no_spawn ''/r'') demo_files = (Inr res, w') \<and>
     w' demo_path = Some ''accd''"
proof -
  let ?ops = "local_sandbox ram_disk no_spawn ''/r''"
  have "\<exists>res w'. edit_execute (\<lambda>t. []) (\<lambda>j. Inr demo_edit) JNull ?ops demo_files = (Inr res, w')"
    by (simp add: edit_execute_def decode_args_def demo_edit_def demo_resolve on_sandbox_def demo_read demo_text Let_def del: lossy_utf8.simps
        add: starts_def edit_check_def)
      (simp add: local_sandbox_def local_write_def ram_disk_def bindE_def mapErr_def split: option.split)
  then obtain res w' where run: "edit_execute (\<lambda>t. []) (\<lambda>j. Inr demo_edit) JNull ?ops demo_files = (Inr res, w')" by blast
  have root: "sx_root ?ops = Some ''/r''" by (simp add: local_sandbox_def)
  from edit_spec [OF ram.local_files.sandbox_files_axioms root run] obtain xs where
    xs: "join ''b'' xs = ''abd''" "length xs = 2" "w' = demo_files(demo_path \<mapsto> join ''cc'' xs)"
    by (auto simp: demo_edit_def demo_resolve demo_text simp del: lossy_utf8.simps)
  then obtain x y where "xs = [x, y]" by (auto simp: numeral_2_eq_2 length_Suc_conv)
  with xs have "x @ ''b'' @ y = ''a'' @ ''b'' @ ''d''" "w' demo_path = Some (x @ ''cc'' @ y)" by simp_all
  then have "w' demo_path = Some ''accd''" by (auto simp: Cons_eq_append_conv append_eq_Cons_conv)
  with run show ?thesis by blast
qed

text \<open>The greatest limit with a first line other than the first panics.\<close>

theorem read_execute_spec_witness:
  "read_execute (\<lambda>t. []) (\<lambda>j. Inr \<lparr> rd_file_path = ''a'', rd_offset = 1, rd_limit = - 1 \<rparr>) JNull
     (local_sandbox ram_disk no_spawn ''/r'') demo_files = None"
proof -
  let ?p = "\<lparr> rd_file_path = ''a'', rd_offset = 1, rd_limit = - 1 \<rparr>"
  have "str_lines ''abd'' = [''abd'']" by (simp add: str_lines_def)
  moreover note unat_max_u64
  ultimately show ?thesis
    using read_execute_spec [OF ram.local_files.sandbox_files_axioms _ _ demo_read,
        where p = ?p and dec = "\<lambda>j. Inr ?p" and args = JNull and dur = "\<lambda>t. []"]
    by (simp add: demo_resolve demo_text del: lossy_utf8.simps)
qed

definition pipe_spawn :: "child \<Rightarrow> 'd spawner" where
  "pipe_spawn ch prog as env dir inp = ret ch"

definition demo_bash :: bash_params where
  "demo_bash = \<lparr> bp_command = ''ls'', bp_timeout = None, bp_working_dir = None \<rparr>"

definition demo_exit :: exit_status where
  "demo_exit = \<lparr> xs_code = Some 2, xs_signal = None \<rparr>"

theorem local_execute_ends_witness:
  "\<exists>r d'. local_execute ram_disk (pipe_spawn (pipe_child 1 0 demo_exit ''ab'' [])) ''/r'' (bash_request demo_bash) demo_files =
    Some (r, d')"
  using local_execute_ends [of "pipe_spawn (pipe_child 1 0 demo_exit ''ab'' [])" "bash_request demo_bash" "''/r''"
      ram_disk demo_files] pipe_child_runs
  by (auto simp: pipe_spawn_def)

lemma demo_timeout: "cmd_timeout (bash_request demo_bash) = default_timeout_ms"
  by (simp add: bash_request_def demo_bash_def)


definition endless :: child where
  "endless = \<lparr> ch_poll = (\<lambda>n. Inr None), ch_clock = (\<lambda>n. n), ch_output = Inl [] \<rparr>"

theorem tmp_no_limit_witness:
  "bash_execute (\<lambda>t. ''120s'') (\<lambda>q c. False) (\<lambda>j. Inr demo_bash) JNull
     (tmp_sandbox ram_disk (pipe_spawn endless) (\<lambda>ch. None) ''/r'') demo_files = None"
proof -
  have "\<exists>m \<ge> n. t < m" for t n :: nat by (intro exI [of _ "n + Suc t"]) simp
  then have "clock_runs endless" by (simp add: clock_runs_def endless_def)
  then show ?thesis
    using tmp_no_limit [of "\<lambda>j. Inr demo_bash" JNull demo_bash "\<lambda>q c. False" "pipe_spawn endless" "''/r''" endless
        "\<lambda>ch. None" ram_disk _ _ demo_files]
    by (auto simp: check_security_def list_ex_iff pipe_spawn_def endless_def)
qed

theorem grep_leaves_sandbox_witness:
  "grep_execute (\<lambda>t. []) (\<lambda>xs. []) (\<lambda>j. Inr \<lparr> gp_pattern = ''key'', gp_path = Some ''/etc'', gp_glob = None,
       gp_output_mode = mode_files, gp_case_sensitive = False \<rparr>)
     (\<lambda>p f. ret [\<lparr> sr_path = f @ ''/shadow'', sr_match_count = 1, sr_line_numbers = [1] \<rparr>]) (\<lambda>w. False) JNull
     (local_sandbox ram_disk no_spawn ''/r'') demo_files = (Inr (tool_success ''/etc/shadow''), demo_files)"
proof -
  let ?p = "\<lparr> gp_pattern = ''key'', gp_path = Some ''/etc'', gp_glob = None, gp_output_mode = mode_files,
    gp_case_sensitive = False \<rparr>"
  have "rg_search (\<lambda>t. []) ?p (local_sandbox ram_disk no_spawn ''/r'') demo_files =
      Some (Inl (''rg execution failed: IO error: No such file or directory (os error 2)''), demo_files)"
    by (simp add: rg_search_def local_sandbox_def local_execute_def Let_def ram_disk_def no_spawn_def)
  moreover have "ctx_resolve (\<lambda>t. []) (local_sandbox ram_disk no_spawn ''/r'') ''/etc'' =
      Inl (''Path traversal detected: /etc'')"
    by (simp add: ctx_resolve_def ctx_resolve_path_def ctx_relative_def local_sandbox_def resolve_path_def is_absolute_def)
  ultimately show ?thesis
    using grep_leaves_sandbox [of "\<lambda>j. Inr ?p" JNull ?p "''/etc''" "\<lambda>t. []" "local_sandbox ram_disk no_spawn ''/r''" _
        "\<lambda>w. False" demo_files _ demo_files
        "\<lambda>p f. ret [\<lparr> sr_path = f @ ''/shadow'', sr_match_count = 1, sr_line_numbers = [1] \<rparr>]"]
    by (simp add: format_results_def)
qed

end
