(* ===== verification/GlobTool.thy ===== *)
theory GlobTool
  imports FileTools "HOL-Library.List_Lexorder" "HOL-Library.Char_ord"
begin

text \<open>
  The tool \<open>glob\<close>, \<open>crates/vol-llm-tools-builtin/glob-tool/src/lib.rs\<close>: the checks of its parameters, the
  expansion of braces, the scan of the directories of a sandbox, sorting and the report.  Compiling and
  matching a pattern is the work of a library and a parameter, and so are the JSON text of a report and
  the text of a point in time.
\<close>

section \<open>Parameters and report\<close>

datatype glob_error_code =
    GeInvalidPattern
  | GeInvalidPath
  | GePathOutsideWorkspace
  | GeStartPathNotFound
  | GeMaxResultsOutOfRange
  | GeInvalidKind
  | GeInvalidSort
  | GeScanError
  | GeInternalError

record glob_params =
  gl_pattern :: string
  gl_path :: string
  gl_exclude :: "string list option"
  gl_kind :: string
  gl_max_results :: nat
  gl_include_hidden :: bool
  gl_follow_symlinks :: bool
  gl_sort :: string
  gl_with_metadata :: bool

record glob_match =
  gm_path :: string
  gm_type :: string
  gm_size_bytes :: "u64 option"
  gm_modified_at :: "string option"

record glob_error =
  gx_code :: glob_error_code
  gx_message :: string
  gx_suggestion :: string

record glob_report =
  go_matches :: "glob_match list"
  go_total_matched :: nat
  go_truncated :: bool
  go_message :: "string option"
  go_search_path :: string
  go_pattern :: string
  go_excluded :: "string list"
  go_error :: "glob_error option"

definition max_results_limit :: nat where "max_results_limit = 1000"

definition default_excludes :: "string list" where
  "default_excludes = [''**/.git/**'', ''**/node_modules/**'', ''**/.next/**'', ''**/dist/**'', ''**/build/**'',
     ''**/__pycache__/**'', ''**/.venv/**'', ''**/venv/**'', ''**/target/**'']"

definition valid_kinds :: "string list" where
  "valid_kinds = [''file'', ''directory'', ''all'']"

definition valid_sorts :: "string list" where
  "valid_sorts = [''path_asc'', ''path_desc'', ''modified_desc'', ''modified_asc'']"

definition error_report :: "glob_error_code \<Rightarrow> string \<Rightarrow> string \<Rightarrow> glob_report" where
  "error_report code m suggestion = \<lparr> go_matches = [], go_total_matched = 0, go_truncated = False,
     go_message = Some m, go_search_path = [], go_pattern = [], go_excluded = [],
     go_error = Some \<lparr> gx_code = code, gx_message = m, gx_suggestion = suggestion \<rparr> \<rparr>"

section \<open>Braces\<close>

text \<open>How many braces are open after one more character.\<close>

definition brace_depth :: "char \<Rightarrow> nat \<Rightarrow> nat" where
  "brace_depth c d = (if c = CHR ''{'' then Suc d else if c = CHR ''}'' then d - 1 else d)"

text \<open>What stands before the brace that closes an open one, and what stands after it.\<close>

fun match_brace :: "nat \<Rightarrow> string \<Rightarrow> (string \<times> string) option" where
  "match_brace d [] = None"
| "match_brace d (c # s) =
     (if c = CHR ''}'' \<and> d \<le> 1 then Some ([], s)
      else map_option (\<lambda>(a, b). (c # a, b)) (match_brace (brace_depth c d) s))"

text \<open>The alternatives: cut at the commas outside of inner braces.\<close>

fun split_alternatives :: "nat \<Rightarrow> string \<Rightarrow> string \<Rightarrow> string list" where
  "split_alternatives d current [] = [current]"
| "split_alternatives d current (c # s) =
     (if c = CHR '','' \<and> d = 0 then current # split_alternatives d [] s
      else split_alternatives (brace_depth c d) (current @ [c]) s)"

lemma match_brace_length: "match_brace d s = Some (a, b) \<Longrightarrow> length a + length b < length s"
  by (induction d s arbitrary: a rule: match_brace.induct) (fastforce split: if_splits)+

lemma split_alternatives_length:
  "x \<in> set (split_alternatives d cur s) \<Longrightarrow> length x \<le> length cur + length s"
  by (induction d cur s rule: split_alternatives.induct) (fastforce split: if_splits)+

definition products :: "string \<Rightarrow> string list \<Rightarrow> string list \<Rightarrow> string list" where
  "products pre as ss = concat (map (\<lambda>a. map (\<lambda>s. pre @ a @ s) ss) as)"

lemma split_at_char_Some: "split_at_char x s = (a, Some b) \<Longrightarrow> s = a @ x # b \<and> x \<notin> set a"
  by (induction x s arbitrary: a rule: split_at_char.induct) (auto split: if_splits prod.splits)

lemma split_at_char_None: "split_at_char x s = (a, None) \<Longrightarrow> a = s \<and> x \<notin> set s"
  by (induction x s arbitrary: a rule: split_at_char.induct) (auto split: if_splits prod.splits)

text \<open>The alternatives are expanded one by one, each together with what follows the braces.\<close>

function expand_braces :: "string \<Rightarrow> string list option" where
  "expand_braces p =
     (case split_at_char (CHR ''{'') p of
        (pre, None) \<Rightarrow> Some [p]
      | (pre, Some r) \<Rightarrow>
          (case match_brace 1 r of
             None \<Rightarrow> None
           | Some (body, suf) \<Rightarrow>
               map_option concat (those (map (\<lambda>alt.
                 (case expand_braces alt of
                    None \<Rightarrow> None
                  | Some as \<Rightarrow> map_option (products pre as) (expand_braces suf)))
                 (split_alternatives 0 [] body)))))"
  by pat_completeness auto

termination
proof (relation "measure length")
  fix p pre r body suf :: string and x y z alt
  assume "(pre, y) = split_at_char (CHR ''{'') p" "y = Some r" "match_brace 1 r = Some z" "(body, suf) = z"
    "alt \<in> set (split_alternatives 0 [] body)"
  then show "(alt, p) \<in> measure length"
    using split_at_char_Some [of "CHR ''{''" p pre r] match_brace_length [of 1 r body suf]
      split_alternatives_length [of alt 0 "[]" body] by auto
next
  fix p pre r body suf :: string and x y z alt as
  assume "(pre, y) = split_at_char (CHR ''{'') p" "y = Some r" "match_brace 1 r = Some z" "(body, suf) = z"
  then show "(suf, p) \<in> measure length"
    using split_at_char_Some [of "CHR ''{''" p pre r] match_brace_length [of 1 r body suf] by auto
qed simp

declare expand_braces.simps [simp del]

section \<open>Checks\<close>

definition slashes :: "string \<Rightarrow> string" where
  "slashes s = map (\<lambda>c. if c = CHR 0x5C then CHR ''/'' else c) s"

definition validate_relative :: "string \<Rightarrow> string \<Rightarrow> glob_error option" where
  "validate_relative field v =
     (if CHR 0x00 \<in> set v then
        Some \<lparr> gx_code = GeInvalidPath, gx_message = field @ '' contains null bytes'',
               gx_suggestion = ''Remove any null bytes from the '' @ field @ '' value.'' \<rparr>
      else
        let n = slashes v in
        if n \<noteq> [] \<and> (hd n = CHR ''/'' \<or> hd n = CHR ''~'') then
          Some \<lparr> gx_code = GeInvalidPath, gx_message = field @ '' must be a relative path, got: '' @ v,
                 gx_suggestion = ''Use a path relative to the workspace root, e.g. '' @ [CHR 0x22] @ ''src'' @ [CHR 0x22] @
                   '' instead of '' @ [CHR 0x22] @ v @ [CHR 0x22] @ ''.'' \<rparr>
        else if ''..'' \<in> set (segments [] n) then
          Some \<lparr> gx_code = GePathOutsideWorkspace, gx_message = field @ '' contains '' @ apostrophes ''..'' @ '' path traversal: '' @ v,
                 gx_suggestion = ''Use a path within the workspace. '' @ apostrophes ''..'' @ '' is not allowed.'' \<rparr>
        else None)"

definition quoted_word :: "string \<Rightarrow> string" where
  "quoted_word s = [CHR 0x22] @ s @ [CHR 0x22]"

text \<open>The first check that fails; how a list is printed for debugging is a parameter.\<close>

definition check_params :: "(string list \<Rightarrow> string) \<Rightarrow> glob_params \<Rightarrow> glob_error option" where
  "check_params debug_list p =
     (if gl_pattern p = [] then
        Some \<lparr> gx_code = GeInvalidPattern, gx_message = ''pattern must not be empty'',
               gx_suggestion = ''Provide a non-empty glob pattern, e.g. '' @ quoted_word ''*.rs'' @ '' or '' @
                 quoted_word ''src/**/*.toml'' @ ''.'' \<rparr>
      else case validate_relative ''pattern'' (gl_pattern p) of
        Some e \<Rightarrow> Some e
      | None \<Rightarrow>
          (case validate_relative ''path'' (gl_path p) of
             Some e \<Rightarrow> Some e
           | None \<Rightarrow>
               if gl_kind p \<notin> set valid_kinds then
                 Some \<lparr> gx_code = GeInvalidKind,
                        gx_message = ''Invalid kind: '' @ gl_kind p @ ''. Must be one of: '' @ debug_list valid_kinds,
                        gx_suggestion = ''Use '' @ quoted_word ''file'' @ '' for files only, '' @ quoted_word ''directory'' @
                          '' for directories only, or '' @ quoted_word ''all'' @ '' for both.'' \<rparr>
               else if gl_max_results p < 1 \<or> max_results_limit < gl_max_results p then
                 Some \<lparr> gx_code = GeMaxResultsOutOfRange,
                        gx_message = ''max_results must be between 1 and '' @ show_nat max_results_limit @ '', got '' @
                          show_nat (gl_max_results p),
                        gx_suggestion = ''Set max_results to a value between 1 and '' @ show_nat max_results_limit @ ''.'' \<rparr>
               else if gl_sort p \<notin> set valid_sorts then
                 Some \<lparr> gx_code = GeInvalidSort,
                        gx_message = ''Invalid sort: '' @ gl_sort p @ ''. Must be one of: '' @ debug_list valid_sorts,
                        gx_suggestion = ''Use one of: '' @ quoted_word ''path_asc'' @ '', '' @ quoted_word ''path_desc'' @
                          '', '' @ quoted_word ''modified_desc'' @ '', '' @ quoted_word ''modified_asc'' @ ''.'' \<rparr>
               else None))"

section \<open>The scan\<close>

text \<open>The compiled patterns: of the search, of the excludes, and of the excludes for directories.\<close>

record glob_patterns =
  gp_wanted :: "(string \<Rightarrow> bool) list"
  gp_excluded :: "(string \<Rightarrow> bool) list"
  gp_excluded_dirs :: "(string \<Rightarrow> bool) list"

record glob_hit =
  gh_workspace :: string
  gh_search :: string
  gh_mtime :: "u64 option"
  gh_size :: "u64 option"
  gh_type :: file_type

definition strip_comps :: "path \<Rightarrow> path \<Rightarrow> path option" where
  "strip_comps base p = (if starts_with_comps p base then Some (drop (length base) p) else None)"

fun component_text :: "component \<Rightarrow> string" where
  "component_text RootDir = ''/''"
| "component_text CurDir = ''.''"
| "component_text ParentDir = ''..''"
| "component_text (Normal n) = n"

definition path_text :: "path \<Rightarrow> string" where
  "path_text p = join ''/'' (map component_text p)"

definition any_match :: "(string \<Rightarrow> bool) list \<Rightarrow> string \<Rightarrow> bool" where
  "any_match ps s \<longleftrightarrow> list_ex (\<lambda>m. m s) ps"

definition is_hidden :: "dir_entry \<Rightarrow> bool" where
  "is_hidden e \<longleftrightarrow> de_name e \<noteq> [] \<and> hd (de_name e) = CHR ''.''"

definition kind_wanted :: "string \<Rightarrow> file_type \<Rightarrow> bool" where
  "kind_wanted k t =
     (if k = ''file'' then t = FtFile else if k = ''directory'' then t = FtDirectory else True)"

text \<open>Whether an entry is looked at at all, descended into, and wanted.\<close>

definition seen_entry :: "glob_params \<Rightarrow> dir_entry \<Rightarrow> bool" where
  "seen_entry p e \<longleftrightarrow> de_type e \<noteq> FtSymlink \<or> gl_follow_symlinks p"

definition pruned :: "glob_patterns \<Rightarrow> string \<Rightarrow> dir_entry \<Rightarrow> bool" where
  "pruned ps rel e \<longleftrightarrow> de_type e = FtDirectory \<and> any_match (gp_excluded_dirs ps) rel"

definition descended :: "glob_params \<Rightarrow> glob_patterns \<Rightarrow> string \<Rightarrow> dir_entry \<Rightarrow> bool" where
  "descended p ps rel e \<longleftrightarrow> de_type e = FtDirectory \<and> \<not> pruned ps rel e \<and> (\<not> is_hidden e \<or> gl_include_hidden p)"

definition wanted_entry :: "glob_params \<Rightarrow> glob_patterns \<Rightarrow> string \<Rightarrow> dir_entry \<Rightarrow> bool" where
  "wanted_entry p ps rel e \<longleftrightarrow> \<not> pruned ps rel e \<and> (\<not> is_hidden e \<or> gl_include_hidden p) \<and>
     kind_wanted (gl_kind p) (de_type e) \<and>
     (de_type e \<noteq> FtDirectory \<longrightarrow> \<not> any_match (gp_excluded ps) rel) \<and> any_match (gp_wanted ps) rel"

definition needs_mtime :: "glob_params \<Rightarrow> bool" where
  "needs_mtime p \<longleftrightarrow> take 8 (gl_sort p) = ''modified'' \<or> gl_with_metadata p"

definition entry_metadata ::
  "glob_params \<Rightarrow> 'w sandbox_ops \<Rightarrow> path \<Rightarrow> 'w \<Rightarrow> (u64 option \<times> u64 option) \<times> 'w" where
  "entry_metadata p ops q w =
     (if needs_mtime p \<or> gl_with_metadata p then
        (case sx_metadata ops q w of
           (Inr m, w) \<Rightarrow> ((if needs_mtime p then Some (fm_mtime m) else None,
                            if gl_with_metadata p then Some (fm_size m) else None), w)
         | (Inl e, w) \<Rightarrow> ((None, None), w))
      else ((None, None), w))"

text \<open>One entry: the directories still to visit, the one to visit next at the front, and the hits so far.\<close>

definition scan_entry ::
  "glob_params \<Rightarrow> glob_patterns \<Rightarrow> 'w sandbox_ops \<Rightarrow> path \<Rightarrow> path \<Rightarrow> path \<Rightarrow> dir_entry \<Rightarrow>
   'w \<times> path list \<times> glob_hit list \<Rightarrow> 'w \<times> path list \<times> glob_hit list" where
  "scan_entry p ps ops root workspace dir e st =
     (let q = dir @ [Normal (de_name e)] in
      if \<not> seen_entry p e then st
      else case (strip_comps root q, strip_comps workspace q, st) of
        (Some s, Some t, w, dirs, hits) \<Rightarrow>
          (let rel = path_text s;
               dirs = (if descended p ps rel e then q # dirs else dirs) in
           if \<not> wanted_entry p ps rel e then (w, dirs, hits)
           else case entry_metadata p ops q w of
                  ((m, z), w) \<Rightarrow> (w, dirs, hits @ [\<lparr> gh_workspace = path_text t, gh_search = rel, gh_mtime = m,
                     gh_size = z, gh_type = de_type e \<rparr>]))
      | _ \<Rightarrow> st)"

text \<open>A directory that cannot be read is skipped.\<close>

definition scan_dir ::
  "glob_params \<Rightarrow> glob_patterns \<Rightarrow> 'w sandbox_ops \<Rightarrow> path \<Rightarrow> path \<Rightarrow> path \<Rightarrow>
   'w \<times> path list \<times> glob_hit list \<Rightarrow> 'w \<times> path list \<times> glob_hit list" where
  "scan_dir p ps ops root workspace dir st =
     (case st of (w, dirs, hits) \<Rightarrow>
        (case sx_read_dir ops dir w of
           (Inl e, w) \<Rightarrow> (w, dirs, hits)
         | (Inr es, w) \<Rightarrow> foldl (\<lambda>st e. scan_entry p ps ops root workspace dir e st) (w, dirs, hits) es))"

partial_function (option) glob_scan ::
  "glob_params \<Rightarrow> glob_patterns \<Rightarrow> 'w sandbox_ops \<Rightarrow> path \<Rightarrow> path \<Rightarrow> 'w \<times> path list \<times> glob_hit list \<Rightarrow>
   (glob_hit list \<times> 'w) option" where
  "glob_scan p ps ops root workspace st =
     (case st of
        (w, [], hits) \<Rightarrow> Some (hits, w)
      | (w, dir # dirs, hits) \<Rightarrow>
          glob_scan p ps ops root workspace (scan_dir p ps ops root workspace dir (w, dirs, hits)))"

section \<open>The report\<close>

definition hit_mtime :: "glob_hit \<Rightarrow> nat" where
  "hit_mtime h = (case gh_mtime h of None \<Rightarrow> 0 | Some t \<Rightarrow> unat t)"

text \<open>Stable sorting; by time first and then by path.\<close>

definition sort_hits :: "string \<Rightarrow> glob_hit list \<Rightarrow> glob_hit list" where
  "sort_hits order hs =
     (if order = ''path_asc'' then sort_key gh_workspace hs
      else if order = ''path_desc'' then rev (sort_key gh_workspace (rev hs))
      else if order = ''modified_desc'' then sort_key (\<lambda>h. - int (hit_mtime h)) (sort_key gh_workspace hs)
      else if order = ''modified_asc'' then sort_key hit_mtime (sort_key gh_workspace hs)
      else hs)"

definition match_of_hit :: "(u64 \<Rightarrow> string option) \<Rightarrow> glob_params \<Rightarrow> glob_hit \<Rightarrow> glob_match" where
  "match_of_hit show_time p h = \<lparr> gm_path = gh_workspace h,
     gm_type = (if gh_type h = FtDirectory then ''directory'' else ''file''),
     gm_size_bytes = (if gl_with_metadata p then gh_size h else None),
     gm_modified_at = (if gl_with_metadata p then Option.bind (gh_mtime h) show_time else None) \<rparr>"

definition excludes_of :: "glob_params \<Rightarrow> string list" where
  "excludes_of p = (case gl_exclude p of Some xs \<Rightarrow> xs | None \<Rightarrow> default_excludes)"

definition hits_report :: "(u64 \<Rightarrow> string option) \<Rightarrow> glob_params \<Rightarrow> glob_hit list \<Rightarrow> glob_report" where
  "hits_report show_time p hs =
     (let n = length hs; truncated = gl_max_results p < n;
          ms = map (match_of_hit show_time p) (take (min n (gl_max_results p)) (sort_hits (gl_sort p) hs))
      in \<lparr> go_matches = ms, go_total_matched = n, go_truncated = truncated,
           go_message =
             (if truncated then Some (''Results truncated: '' @ show_nat n @ '' matches found, showing first '' @
                show_nat (gl_max_results p) @ ''. Narrow `path`, use a more specific `pattern`, or increase `max_results` (max '' @
                show_nat max_results_limit @ '').'')
              else if ms = [] then Some (''No matches found. Check that: (1) the path exists, (2) the pattern is correct, '' @
                ''(3) files aren'' @ [CHR 0x27] @ ''t excluded, (4) hidden files aren'' @ [CHR 0x27] @
                ''t being skipped (use include_hidden=true).'')
              else None),
           go_search_path = gl_path p, go_pattern = gl_pattern p, go_excluded = excludes_of p, go_error = None \<rparr>)"

definition missing_report :: "glob_params \<Rightarrow> glob_report" where
  "missing_report p = \<lparr> go_matches = [], go_total_matched = 0, go_truncated = False,
     go_message = Some (''Search path does not exist or is not a directory: '' @ gl_path p),
     go_search_path = gl_path p, go_pattern = gl_pattern p, go_excluded = excludes_of p, go_error = None \<rparr>"

section \<open>The tool\<close>

text \<open>Compiling patterns: the error of the first one that does not compile, with its text.\<close>

fun compile_all :: "(string \<Rightarrow> string + (string \<Rightarrow> bool)) \<Rightarrow> string list \<Rightarrow> (string \<times> string) + (string \<Rightarrow> bool) list" where
  "compile_all mk [] = Inr []"
| "compile_all mk (s # ss) =
     (case mk s of
        Inl e \<Rightarrow> Inl (s, e)
      | Inr m \<Rightarrow> (case compile_all mk ss of Inl x \<Rightarrow> Inl x | Inr ms \<Rightarrow> Inr (m # ms)))"

definition dir_patterns :: "(string \<Rightarrow> string + (string \<Rightarrow> bool)) \<Rightarrow> string list \<Rightarrow> (string \<Rightarrow> bool) list" where
  "dir_patterns mk ss = List.map_filter (\<lambda>s.
     case strip_suffix ''/**'' s of
       None \<Rightarrow> None
     | Some d \<Rightarrow> (case mk d of Inr m \<Rightarrow> Some m | Inl e \<Rightarrow> None)) ss"

definition compile_patterns ::
  "(string \<Rightarrow> string + (string \<Rightarrow> bool)) \<Rightarrow> glob_params \<Rightarrow> glob_error + glob_patterns" where
  "compile_patterns mk p =
     (case compile_all mk (excludes_of p) of
        Inl (s, e) \<Rightarrow> Inl \<lparr> gx_code = GeInvalidPattern,
          gx_message = ''Invalid exclude pattern '' @ apostrophes s @ '': '' @ e,
          gx_suggestion = ''Check the exclude pattern syntax. Valid examples: '' @ quoted_word ''**/node_modules/**'' @
            '', '' @ quoted_word ''**/*.test.ts'' @ ''.'' \<rparr>
      | Inr ex \<Rightarrow>
          (case expand_braces (gl_pattern p) of
             None \<Rightarrow> Inl \<lparr> gx_code = GeInvalidPattern, gx_message = ''Unbalanced braces in pattern: '' @ gl_pattern p,
               gx_suggestion = ''Check that all '' @ apostrophes ''{{'' @ '' have a matching '' @ apostrophes ''}}'' @
                 '' in the pattern.'' \<rparr>
           | Some pats \<Rightarrow>
               (case compile_all mk pats of
                  Inl (s, e) \<Rightarrow> Inl \<lparr> gx_code = GeInvalidPattern,
                    gx_message = ''Invalid glob pattern '' @ apostrophes s @ '': '' @ e,
                    gx_suggestion = ''Check the glob syntax. Supported: *, **, ?, [abc], and {a,b} braces.'' \<rparr>
                | Inr ms \<Rightarrow> Inr \<lparr> gp_wanted = ms, gp_excluded = ex,
                    gp_excluded_dirs = ex @ dir_patterns mk (excludes_of p) \<rparr>)))"

definition failure_result :: "(glob_report \<Rightarrow> string) \<Rightarrow> glob_error \<Rightarrow> tool_result" where
  "failure_result to_json e = tool_failure (to_json (error_report (gx_code e) (gx_message e) (gx_suggestion e)))"

record glob_env =
  ge_duration :: "time \<Rightarrow> string"
  ge_debug_list :: "string list \<Rightarrow> string"
  ge_compile :: "string \<Rightarrow> string + (string \<Rightarrow> bool)"
  ge_iso :: "u64 \<Rightarrow> string option"
  ge_to_json :: "glob_report \<Rightarrow> string"

text \<open>The root of the workspace is the path of the sandbox as it was given.\<close>

definition glob_run ::
  "glob_env \<Rightarrow> glob_params \<Rightarrow> 'w sandbox_ops \<Rightarrow> path \<Rightarrow> 'w \<Rightarrow> (tool_result \<times> 'w) option" where
  "glob_run E p ops root w =
     (case sx_read_dir ops root w of
        (Inl e, w) \<Rightarrow> Some (tool_success (ge_to_json E (missing_report p)), w)
      | (Inr es, w) \<Rightarrow>
          (case compile_patterns (ge_compile E) p of
             Inl e \<Rightarrow> Some (failure_result (ge_to_json E) e, w)
           | Inr ps \<Rightarrow>
               map_option (\<lambda>(hs, w). (tool_success (ge_to_json E (hits_report (ge_iso E) p hs)), w))
                 (glob_scan p ps ops root (case sx_root ops of Some r \<Rightarrow> components r | None \<Rightarrow> []) (w, [root], []))))"

definition glob_execute ::
  "glob_env \<Rightarrow> glob_params decoder \<Rightarrow> json \<Rightarrow> 'w sandbox_ops \<Rightarrow> 'w \<Rightarrow> ((tool_error + tool_result) \<times> 'w) option" where
  "glob_execute E dec args ops w =
     (case dec args of
        Inl e \<Rightarrow> Some (Inl (InvalidArguments (''Failed to parse glob arguments: '' @ e @
          ''. Ensure `pattern` is a string. Valid parameters: pattern (required), path, exclude, kind, max_results, '' @
          ''include_hidden, follow_symlinks, sort, with_metadata.'')), w)
      | Inr p \<Rightarrow>
          (case check_params (ge_debug_list E) p of
             Some e \<Rightarrow> Some (Inr (failure_result (ge_to_json E) e), w)
           | None \<Rightarrow>
               (case ctx_resolve (ge_duration E) ops (gl_path p) of
                  Inl e \<Rightarrow> Some (Inr (failure_result (ge_to_json E)
                    \<lparr> gx_code = GePathOutsideWorkspace, gx_message = ''Path resolution failed: '' @ e,
                       gx_suggestion = ''Ensure the path is relative and within the workspace root.'' \<rparr>), w)
                | Inr root \<Rightarrow> map_option (\<lambda>(r, w). (Inr r, w)) (glob_run E p ops root w))))"

end
