(* ===== verification/GlobCorrect.thy ===== *)
theory GlobCorrect
  imports GlobTool "HOL-Library.Multiset"
begin

text \<open>
  What the glob tool promises: the meaning of braces, against patterns as trees and for every text; the
  scan of a finite tree of directories, which ends and finds exactly the entries that are wanted; and the
  report, which holds a sorted part of them.
\<close>

section \<open>Braces: texts that fail\<close>

text \<open>How many more braces open than close.\<close>

definition excess :: "string \<Rightarrow> int" where
  "excess s = int (count_list s (CHR ''{'')) - int (count_list s (CHR ''}''))"

lemma excess_simps [simp]:
  "excess [] = 0"
  "excess (c # s) = (if c = CHR ''{'' then 1 else if c = CHR ''}'' then - 1 else 0) + excess s"
  "excess (s @ t) = excess s + excess t"
  by (simp_all add: excess_def)

definition unmatched :: "string \<Rightarrow> bool" where
  "unmatched p \<longleftrightarrow> (\<exists>u v. p = u @ v \<and> 0 < excess v)"

definition closed_text :: "string \<Rightarrow> bool" where
  "closed_text s \<longleftrightarrow> excess s = 0 \<and> (\<forall>u v. s = u @ v \<longrightarrow> 0 \<le> excess u)"

lemma closed_suffix: "closed_text (u @ v) \<Longrightarrow> excess v \<le> 0"
  unfolding closed_text_def by (metis add.commute add_le_same_cancel2 excess_simps(3))

lemma brace_depth_excess:
  assumes "\<not> (c = CHR ''}'' \<and> d = 0)"
  shows "brace_depth c (Suc d) = Suc (brace_depth c d)" and "int (brace_depth c d) = int d + excess [c]"
  using assms by (auto simp: brace_depth_def of_nat_diff)

lemma excess_Cons: "excess (c # s) = excess [c] + excess s"
  by simp

lemma match_brace_step:
  "match_brace (Suc d) (c # s) =
     (if c = CHR ''}'' \<and> d = 0 then Some ([], s)
      else map_option (\<lambda>(a, b). (c # a, b)) (match_brace (Suc (brace_depth c d)) s))"
  using brace_depth_excess(1) [of c d] by auto

lemma match_brace_Some:
  "match_brace (Suc d) r = Some (a, b) \<Longrightarrow>
   r = a @ CHR ''}'' # b \<and> excess a = - int d \<and> (\<forall>u v. a = u @ v \<longrightarrow> - int d \<le> excess u)"
proof (induction r arbitrary: d a)
  case (Cons c s)
  show ?case
  proof (cases "c = CHR ''}'' \<and> d = 0")
    case True
    with Cons.prems show ?thesis by auto
  next
    case False
    with Cons.prems obtain a' where a: "a = c # a'" and m: "match_brace (Suc (brace_depth c d)) s = Some (a', b)"
      unfolding match_brace_step by (auto split: if_splits)
    from Cons.IH [OF m] have ih: "s = a' @ CHR ''}'' # b" "excess a' = - int (brace_depth c d)"
      "\<And>u v. a' = u @ v \<Longrightarrow> - int (brace_depth c d) \<le> excess u" by blast+
    note e = brace_depth_excess(2) [OF False]
    show ?thesis
    proof (intro conjI allI impI)
      show "c # s = a @ CHR ''}'' # b" using a ih(1) by simp
      show "excess a = - int d" unfolding a excess_Cons [of c a'] ih(2) e by simp
      fix u v assume uv: "a = u @ v"
      show "- int d \<le> excess u"
      proof (cases u)
        case (Cons x u')
        with uv a have "a' = u' @ v" and x: "x = c" by simp_all
        from ih(3) [OF this(1)] show ?thesis unfolding Cons x excess_Cons [of c u'] e by linarith
      qed simp
    qed
  qed
qed simp

lemma match_brace_None: "match_brace (Suc d) r = None \<Longrightarrow> - int d \<le> excess r"
proof (induction r arbitrary: d)
  case (Cons c s)
  then have ok: "\<not> (c = CHR ''}'' \<and> d = 0)" and "match_brace (Suc (brace_depth c d)) s = None"
    unfolding match_brace_step by (auto split: if_splits)
  then have "- int (brace_depth c d) \<le> excess s" by (blast intro: Cons.IH)
  with brace_depth_excess(2) [OF ok] show ?case unfolding excess_Cons [of c s] by linarith
qed simp

lemma match_brace_closed:
  assumes "match_brace 1 r = Some (body, suf)"
  shows "r = body @ CHR ''}'' # suf" and "closed_text body"
  using match_brace_Some [of 0 r body suf] assms by (auto simp: closed_text_def)

lemma split_alternatives_closed:
  "closed_text (cur @ s) \<Longrightarrow> excess cur = int d \<Longrightarrow> x \<in> set (split_alternatives d cur s) \<Longrightarrow> closed_text x"
proof (induction d cur s rule: split_alternatives.induct)
  case (2 d cur c s)
  show ?case
  proof (cases "c = CHR '','' \<and> d = 0")
    case True
    have now: "closed_text cur"
      using 2(3,4) True unfolding closed_text_def by (metis append.assoc int_ops(1))
    have rest: "closed_text s"
      unfolding closed_text_def
    proof (intro conjI allI impI)
      show "excess s = 0" using 2(3,4) True by (simp add: closed_text_def)
      fix u v assume "s = u @ v"
      then have "cur @ c # s = (cur @ c # u) @ v" by simp
      then have "0 \<le> excess (cur @ c # u)" using 2(3) unfolding closed_text_def by blast
      then show "0 \<le> excess u" using 2(4) True by simp
    qed
    with now True 2(1) [OF True] 2(5) show ?thesis by auto
  next
    case False
    have "0 \<le> excess (cur @ [c])"
      using 2(3) unfolding closed_text_def by (metis append.assoc append_Cons append_Nil)
    then have "\<not> (c = CHR ''}'' \<and> d = 0)" using 2(4) by auto
    then have "excess (cur @ [c]) = int (brace_depth c d)" using 2(4) brace_depth_excess(2) by simp
    with 2(2) [OF False] 2(3,5) False show ?thesis by auto
  qed
qed simp

lemma those_None: "those xs = None \<longleftrightarrow> None \<in> set xs"
  by (induction xs) (auto split: option.splits)

lemma those_Some: "those xs = Some ys \<longleftrightarrow> xs = map Some ys"
  by (induction xs arbitrary: ys) (auto split: option.splits simp: map_eq_Cons_conv Cons_eq_map_conv)

lemma split_alternatives_not_Nil [simp]: "split_alternatives d cur s \<noteq> []"
  by (induction d cur s rule: split_alternatives.induct) auto

lemma closed_matched: "closed_text x \<Longrightarrow> \<not> unmatched x"
  unfolding unmatched_def by (metis closed_suffix linorder_not_less)

lemma unmatched_around:
  assumes "closed_text body" and "CHR ''{'' \<notin> set pre"
  shows "unmatched (pre @ CHR ''{'' # body @ CHR ''}'' # suf) \<longleftrightarrow> unmatched suf"
proof
  assume "unmatched suf"
  then obtain u v where "suf = u @ v" "0 < excess v" unfolding unmatched_def by blast
  then have "pre @ CHR ''{'' # body @ CHR ''}'' # suf = (pre @ CHR ''{'' # body @ CHR ''}'' # u) @ v" by simp
  with \<open>0 < excess v\<close> show "unmatched (pre @ CHR ''{'' # body @ CHR ''}'' # suf)"
    unfolding unmatched_def by blast
next
  have pre: "excess v \<le> 0" if "pre = u @ v" for u v
    using assms(2) that by (simp add: excess_def count_list_0_iff)
  have e: "excess body = 0" using assms(1) by (simp add: closed_text_def)
  assume "unmatched (pre @ CHR ''{'' # body @ CHR ''}'' # suf)"
  then obtain u v where s: "pre @ CHR ''{'' # body @ CHR ''}'' # suf = u @ v" and v: "0 < excess v"
    unfolding unmatched_def by blast
  have "(\<exists>p. pre = u @ p \<and> v = p @ CHR ''{'' # body @ CHR ''}'' # suf) \<or>
    (\<exists>b. v = b @ CHR ''}'' # suf \<and> (\<exists>a. body = a @ b)) \<or> (\<exists>a. suf = a @ v)"
    using s by (auto simp: append_eq_append_conv2 Cons_eq_append_conv append_eq_Cons_conv)
  then show "unmatched suf"
  proof (elim disjE exE conjE)
    fix p assume "pre = u @ p" "v = p @ CHR ''{'' # body @ CHR ''}'' # suf"
    with pre [of u p] v e have "0 < excess suf" by simp
    then show ?thesis unfolding unmatched_def by (metis append_Nil)
  next
    fix a b assume "v = b @ CHR ''}'' # suf" "body = a @ b"
    with closed_suffix [of a b] assms(1) v have "0 < excess suf" by simp
    then show ?thesis unfolding unmatched_def by (metis append_Nil)
  next
    fix a assume "suf = a @ v"
    with v show ?thesis unfolding unmatched_def by blast
  qed
qed

lemma expand_braces_step:
  assumes "split_at_char (CHR ''{'') p = (pre, Some r)" and "match_brace 1 r = Some (body, suf)"
  shows "expand_braces p = map_option concat (those (map (\<lambda>a.
    (case expand_braces a of None \<Rightarrow> None | Some as \<Rightarrow> map_option (products pre as) (expand_braces suf)))
    (split_alternatives 0 [] body)))"
  using assms by (simp add: expand_braces.simps [of p])

lemma None_in_map: "None \<in> set (map f xs) \<longleftrightarrow> (\<exists>a \<in> set xs. f a = None)"
  by force

lemma bex_or_const: "xs \<noteq> [] \<Longrightarrow> (\<exists>a \<in> set xs. P a \<or> Q) \<longleftrightarrow> (\<exists>a \<in> set xs. P a) \<or> Q"
  by (cases xs) auto

lemma expand_braces_step_None:
  assumes "split_at_char (CHR ''{'') p = (pre, Some r)" and "match_brace 1 r = Some (body, suf)"
  shows "expand_braces p = None \<longleftrightarrow>
    (\<exists>a \<in> set (split_alternatives 0 [] body). expand_braces a = None) \<or> expand_braces suf = None"
proof -
  have alt: "(case x of None \<Rightarrow> None | Some as \<Rightarrow> map_option (products pre as) y) = None \<longleftrightarrow> x = None \<or> y = None"
    for x y by (cases x) auto
  have "expand_braces p = None \<longleftrightarrow>
    (\<exists>a \<in> set (split_alternatives 0 [] body). expand_braces a = None \<or> expand_braces suf = None)"
    unfolding expand_braces_step [OF assms] option.map_disc_iff those_None None_in_map alt ..
  then show ?thesis unfolding bex_or_const [OF split_alternatives_not_Nil] .
qed

lemma expand_braces_fails: "expand_braces p = None \<longleftrightarrow> unmatched p"
proof (induction "length p" arbitrary: p rule: less_induct)
  case less
  obtain pre y where sp: "split_at_char (CHR ''{'') p = (pre, y)" by (cases "split_at_char (CHR ''{'') p")
  show ?case
  proof (cases y)
    case None
    then have "CHR ''{'' \<notin> set p" using sp split_at_char_None by metis
    then have "\<not> unmatched p" by (auto simp: unmatched_def excess_def count_list_0_iff)
    with None sp show ?thesis by (simp add: expand_braces.simps [of p])
  next
    case (Some r)
    then have p: "p = pre @ CHR ''{'' # r" and n: "CHR ''{'' \<notin> set pre"
      using sp split_at_char_Some by metis+
    show ?thesis
    proof (cases "match_brace 1 r")
      case None
      then have "0 \<le> excess r" using match_brace_None [of 0 r] by simp
      then have "0 < excess (CHR ''{'' # r)" by simp
      then have "unmatched p" unfolding unmatched_def p by blast
      with None sp Some show ?thesis by (simp add: expand_braces.simps [of p])
    next
      case m: (Some bs)
      obtain body suf where bs: "bs = (body, suf)" by (cases bs)
      with m match_brace_closed have r: "r = body @ CHR ''}'' # suf" and c: "closed_text body" by blast+
      have alts: "expand_braces a \<noteq> None" if "a \<in> set (split_alternatives 0 [] body)" for a
        using less [of a] split_alternatives_closed [of "[]" body 0 a] c closed_matched that
          split_alternatives_length [OF that] p r by simp
      have suf: "expand_braces suf = None \<longleftrightarrow> unmatched suf" using less [of suf] p r by simp
      have "expand_braces p = None \<longleftrightarrow> expand_braces suf = None"
        using expand_braces_step_None [of p pre r body suf] sp Some m bs alts by blast
      moreover have "unmatched p \<longleftrightarrow> unmatched suf" unfolding p r by (rule unmatched_around [OF c n])
      ultimately show ?thesis using suf by simp
    qed
  qed
qed

section \<open>Braces: patterns as trees\<close>

datatype brace_item = Plain string | Choice "brace_item list list"

fun item_text :: "brace_item \<Rightarrow> string" where
  "item_text (Plain s) = s"
| "item_text (Choice alts) = CHR ''{'' # join '','' (map (\<lambda>is. concat (map item_text is)) alts) @ ''}''"

definition all_ways :: "string list list \<Rightarrow> string list" where
  "all_ways ws = foldr (products []) ws [[]]"

text \<open>The texts a pattern stands for: one way for each item, in every combination.\<close>

fun item_ways :: "brace_item \<Rightarrow> string list" where
  "item_ways (Plain s) = [s]"
| "item_ways (Choice alts) = concat (map (\<lambda>is. all_ways (map item_ways is)) alts)"

fun item_ok :: "brace_item \<Rightarrow> bool" where
  "item_ok (Plain s) \<longleftrightarrow> CHR ''{'' \<notin> set s \<and> CHR ''}'' \<notin> set s \<and> CHR '','' \<notin> set s"
| "item_ok (Choice alts) \<longleftrightarrow> alts \<noteq> [] \<and> list_all (list_all item_ok) alts"

definition items_text :: "brace_item list \<Rightarrow> string" where
  "items_text is = concat (map item_text is)"

definition items_ways :: "brace_item list \<Rightarrow> string list" where
  "items_ways is = all_ways (map item_ways is)"

lemma items_simps [simp]:
  "items_text [] = []" "items_text (i # is) = item_text i @ items_text is"
  "items_ways [] = [[]]" "items_ways (i # is) = products [] (item_ways i) (items_ways is)"
  by (simp_all add: items_text_def items_ways_def all_ways_def)

lemma Choice_simps:
  "item_text (Choice alts) = CHR ''{'' # join '','' (map items_text alts) @ ''}''"
  "item_ways (Choice alts) = concat (map items_ways alts)"
  by (simp_all add: items_text_def [abs_def] items_ways_def [abs_def])

lemma products_concat: "products [] (concat xss) ys = concat (map (\<lambda>xs. products [] xs ys) xss)"
  by (induction xss) (simp_all add: products_def)

lemma closed_append: "closed_text a \<Longrightarrow> closed_text b \<Longrightarrow> closed_text (a @ b)"
  unfolding closed_text_def by (auto simp: append_eq_append_conv2)

lemma closed_plain: "CHR ''{'' \<notin> set s \<Longrightarrow> CHR ''}'' \<notin> set s \<Longrightarrow> closed_text s"
  by (auto simp: closed_text_def excess_def count_list_0_iff)

lemma closed_braces:
  assumes "closed_text b"
  shows "closed_text (CHR ''{'' # b @ ''}'')"
  unfolding closed_text_def
proof (intro conjI allI impI)
  show "excess (CHR ''{'' # b @ ''}'') = 0" using assms by (simp add: closed_text_def)
  fix u v assume "CHR ''{'' # b @ ''}'' = u @ v"
  then consider "u = []" | w where "u = CHR ''{'' # w" "\<exists>x. b = w @ x" | "u = CHR ''{'' # b @ ''}''"
    by (auto simp: Cons_eq_append_conv append_eq_append_conv2)
  then show "0 \<le> excess u"
    using assms by cases (fastforce simp: closed_text_def)+
qed

lemma closed_join: "(\<And>b. b \<in> set bs \<Longrightarrow> closed_text b) \<Longrightarrow> closed_text (join '','' bs)"
proof (induction bs)
  case (Cons b bs)
  have "closed_text '',''" by (rule closed_plain) simp_all
  with Cons have "closed_text (b @ '','' @ join '','' bs)" by (intro closed_append) auto
  with Cons show ?case by (cases bs) auto
qed (simp add: closed_text_def)

lemma closed_concat: "(\<And>i. i \<in> set is \<Longrightarrow> closed_text (item_text i)) \<Longrightarrow> closed_text (items_text is)"
  by (induction "is") (auto simp: closed_append closed_text_def [of "[]"])

lemma closed_item: "item_ok i \<Longrightarrow> closed_text (item_text i)"
proof (induction i)
  case (Plain s)
  then show ?case by (simp add: closed_plain)
next
  case (Choice alts)
  then have "closed_text (items_text is)" if "is \<in> set alts" for "is"
    using that by (intro closed_concat) (auto simp: list_all_iff)
  then show ?case unfolding Choice_simps by (intro closed_braces closed_join) auto
qed

lemma closed_items: "list_all item_ok is \<Longrightarrow> closed_text (items_text is)"
  by (intro closed_concat closed_item) (auto simp: list_all_iff)

lemma closed_body: "item_ok (Choice alts) \<Longrightarrow> closed_text (join '','' (map items_text alts))"
  by (intro closed_join) (auto simp: list_all_iff intro!: closed_items)

text \<open>Inside of braces no comma cuts.\<close>

lemma split_inside:
  "(\<And>u v. b = u @ v \<Longrightarrow> 0 < int d + excess u) \<Longrightarrow> int d' = int d + excess b \<Longrightarrow>
   split_alternatives d cur (b @ s) = split_alternatives d' (cur @ b) s"
proof (induction b arbitrary: d cur)
  case (Cons c b)
  have d: "0 < d" using Cons.prems(1) [of "[]"] by simp
  then have ok: "\<not> (c = CHR ''}'' \<and> d = 0)" by simp
  note e = brace_depth_excess(2) [OF this]
  have "split_alternatives (brace_depth c d) (cur @ [c]) (b @ s) = split_alternatives d' ((cur @ [c]) @ b) s"
  proof (rule Cons.IH)
    fix u v assume "b = u @ v"
    then have "0 < int d + excess (c # u)" by (intro Cons.prems(1)) simp
    then show "0 < int (brace_depth c d) + excess u" unfolding excess_Cons [of c u] e by simp
  next
    show "int d' = int (brace_depth c d) + excess b" using Cons.prems(2) unfolding excess_Cons [of c b] e by simp
  qed
  with d show ?case by simp
qed simp

lemma split_plain:
  "CHR ''{'' \<notin> set b \<Longrightarrow> CHR ''}'' \<notin> set b \<Longrightarrow> CHR '','' \<notin> set b \<Longrightarrow>
   split_alternatives d cur (b @ s) = split_alternatives d (cur @ b) s"
  by (induction b arbitrary: cur) (auto simp: brace_depth_def)

lemma split_item: "item_ok i \<Longrightarrow> split_alternatives 0 cur (item_text i @ s) = split_alternatives 0 (cur @ item_text i) s"
proof (cases i)
  case (Choice alts)
  assume "item_ok i"
  let ?b = "join '','' (map items_text alts)"
  have t: "item_text i = CHR ''{'' # ?b @ ''}''" unfolding Choice Choice_simps ..
  have c: "closed_text ?b" using closed_body \<open>item_ok i\<close> unfolding Choice by blast
  have "split_alternatives (Suc 0) (cur @ ''{'') (?b @ (''}'' @ s)) = split_alternatives (Suc 0) ((cur @ ''{'') @ ?b) (''}'' @ s)"
    using c by (intro split_inside) (auto simp: closed_text_def add_strict_increasing)
  then show ?thesis unfolding t by (simp add: brace_depth_def)
qed (simp add: split_plain)

lemma split_items:
  "list_all item_ok is \<Longrightarrow> split_alternatives 0 cur (items_text is @ s) = split_alternatives 0 (cur @ items_text is) s"
  by (induction "is" arbitrary: cur) (simp_all add: split_item)

lemma split_join:
  "alts \<noteq> [] \<Longrightarrow> list_all (list_all item_ok) alts \<Longrightarrow>
   split_alternatives 0 [] (join '','' (map items_text alts)) = map items_text alts"
proof (induction alts)
  case (Cons a alts)
  then show ?case
    using split_items [of a "[]" "[]"] split_items [of a "[]" "'','' @ join '','' (map items_text alts)"]
    by (cases alts) auto
qed simp

lemma match_brace_closed_text:
  "(\<And>u v. b = u @ v \<Longrightarrow> - int d \<le> excess u) \<Longrightarrow> excess b = - int d \<Longrightarrow>
   match_brace (Suc d) (b @ CHR ''}'' # s) = Some (b, s)"
proof (induction b arbitrary: d)
  case (Cons c b)
  have ok: "\<not> (c = CHR ''}'' \<and> d = 0)" using Cons.prems(1) [of "[c]" b] by auto
  note e = brace_depth_excess(2) [OF ok]
  have "match_brace (Suc (brace_depth c d)) (b @ CHR ''}'' # s) = Some (b, s)"
  proof (rule Cons.IH)
    fix u v assume "b = u @ v"
    then have "- int d \<le> excess (c # u)" by (intro Cons.prems(1)) simp
    then show "- int (brace_depth c d) \<le> excess u" unfolding excess_Cons [of c u] e by simp
  next
    show "excess b = - int (brace_depth c d)" using Cons.prems(2) unfolding excess_Cons [of c b] e by simp
  qed
  with ok show ?case unfolding append_Cons match_brace_step by simp
qed simp

section \<open>The expansion of a pattern\<close>

lemma split_at_plain: "x \<notin> set s \<Longrightarrow> split_at_char x (s @ q) = (let (a, b) = split_at_char x q in (s @ a, b))"
  by (induction s) (auto split: prod.splits)

lemma expand_braces_Some:
  assumes "split_at_char (CHR ''{'') p = (pre, Some r)" and "match_brace 1 r = Some (body, suf)"
    and "\<And>a. a \<in> set (split_alternatives 0 [] body) \<Longrightarrow> expand_braces a = Some (f a)"
    and "expand_braces suf = Some ss"
  shows "expand_braces p = Some (concat (map (\<lambda>a. products pre (f a) ss) (split_alternatives 0 [] body)))"
proof -
  have "those (map (\<lambda>a. (case expand_braces a of None \<Rightarrow> None | Some as \<Rightarrow> map_option (products pre as) (expand_braces suf)))
    (split_alternatives 0 [] body)) = Some (map (\<lambda>a. products pre (f a) ss) (split_alternatives 0 [] body))"
    unfolding those_Some using assms(3,4) by simp
  then show ?thesis unfolding expand_braces_step [OF assms(1,2)] by simp
qed

lemma products_pre: "products s xs ys = map ((@) s) (products [] xs ys)"
  by (simp add: products_def map_concat comp_def)

lemma expand_items:
  "list_all item_ok is \<Longrightarrow> CHR ''{'' \<notin> set s \<Longrightarrow>
   expand_braces (s @ items_text is) = Some (map ((@) s) (items_ways is))"
proof (induction "size_list size is" arbitrary: "is" s rule: less_induct)
  case less
  show ?case
  proof (cases "is")
    case Nil
    then show ?thesis using less.prems(2) split_at_plain [of _ s "[]"] by (simp add: expand_braces.simps [of s])
  next
    case i: (Cons i js)
    show ?thesis
    proof (cases i)
      case (Plain t)
      have "expand_braces ((s @ t) @ items_text js) = Some (map ((@) (s @ t)) (items_ways js))"
        by (rule less.hyps) (use less.prems i Plain in auto)
      then show ?thesis by (simp add: i Plain products_def comp_def)
    next
      case (Choice alts)
      let ?b = "join '','' (map items_text alts)"
      have ok: "item_ok (Choice alts)" using less.prems(1) i Choice by simp
      have p: "s @ items_text is = s @ CHR ''{'' # ?b @ CHR ''}'' # items_text js"
        unfolding i Choice items_simps Choice_simps by simp
      have sp: "split_at_char (CHR ''{'') (s @ items_text is) = (s, Some (?b @ CHR ''}'' # items_text js))"
        unfolding p using less.prems(2) by (simp add: split_at_plain)
      have m: "match_brace 1 (?b @ CHR ''}'' # items_text js) = Some (?b, items_text js)"
        using match_brace_closed_text [of ?b 0] closed_body [OF ok] by (simp add: closed_text_def)
      have alts: "split_alternatives 0 [] ?b = map items_text alts" using split_join ok by simp
      have suf: "expand_braces (items_text js) = Some (items_ways js)"
        using less.hyps [of js "[]"] less.prems(1) i by (simp add: map_idI)
      have alt: "expand_braces (items_text as) = Some (items_ways as)" if "as \<in> set alts" for as
      proof -
        have "size_list size as < size_list size is"
          using size_list_estimation' [OF that order_refl, of "size_list size"] by (simp add: i Choice)
        then show ?thesis using less.hyps [of as "[]"] ok that by (simp add: map_idI list_all_iff)
      qed
      have "expand_braces a = Some (the (expand_braces a))" if "a \<in> set (split_alternatives 0 [] ?b)" for a
        using that alt unfolding alts by auto
      from expand_braces_Some [OF sp m this suf]
      have "expand_braces (s @ items_text is) = Some (concat (map (\<lambda>as. products s (items_ways as) (items_ways js)) alts))"
        unfolding alts by (simp add: comp_def alt cong: map_cong)
      also have "concat (map (\<lambda>as. products s (items_ways as) (items_ways js)) alts) = map ((@) s) (items_ways is)"
        unfolding i Choice items_simps Choice_simps products_concat map_concat map_map comp_def
        by (subst products_pre) (simp add: comp_def)
      finally show ?thesis .
    qed
  qed
qed

section \<open>The scan of a tree\<close>

text \<open>
  A sandbox that only shows what \<open>ls\<close> lists and \<open>md\<close> knows of a path, with no directory below depth \<open>n\<close>.
\<close>

definition steady_tree ::
  "'w sandbox_ops \<Rightarrow> (path \<Rightarrow> sandbox_error + dir_entry list) \<Rightarrow> (path \<Rightarrow> sandbox_error + file_metadata) \<Rightarrow> nat \<Rightarrow> bool" where
  "steady_tree ops ls md n \<longleftrightarrow>
     (\<forall>d w. sx_read_dir ops d w = (ls d, w)) \<and> (\<forall>q w. sx_metadata ops q w = (md q, w)) \<and>
     (\<forall>d es e. n \<le> length d \<longrightarrow> ls d = Inr es \<longrightarrow> e \<in> set es \<longrightarrow> de_type e \<noteq> FtDirectory)"

definition known_metadata ::
  "glob_params \<Rightarrow> (path \<Rightarrow> sandbox_error + file_metadata) \<Rightarrow> path \<Rightarrow> u64 option \<times> u64 option" where
  "known_metadata p md q =
     (case md q of
        Inr m \<Rightarrow> (if needs_mtime p then Some (fm_mtime m) else None, if gl_with_metadata p then Some (fm_size m) else None)
      | Inl e \<Rightarrow> (None, None))"

lemma entry_metadata_known:
  "steady_tree ops ls md n \<Longrightarrow> entry_metadata p ops q w = (known_metadata p md q, w)"
  by (auto simp: entry_metadata_def known_metadata_def steady_tree_def needs_mtime_def split: sum.splits)

text \<open>The directories below a directory that are entered, the last one first, and its hits.\<close>

definition entry_dirs :: "glob_params \<Rightarrow> glob_patterns \<Rightarrow> path \<Rightarrow> path \<Rightarrow> path \<Rightarrow> dir_entry \<Rightarrow> path list" where
  "entry_dirs p ps root workspace dir e =
     (let q = dir @ [Normal (de_name e)] in
      case (strip_comps root q, strip_comps workspace q) of
        (Some s, Some t) \<Rightarrow> (if seen_entry p e \<and> descended p ps (path_text s) e then [q] else [])
      | _ \<Rightarrow> [])"

definition entry_hits ::
  "glob_params \<Rightarrow> glob_patterns \<Rightarrow> (path \<Rightarrow> sandbox_error + file_metadata) \<Rightarrow> path \<Rightarrow> path \<Rightarrow> path \<Rightarrow> dir_entry \<Rightarrow>
   glob_hit list" where
  "entry_hits p ps md root workspace dir e =
     (let q = dir @ [Normal (de_name e)] in
      case (strip_comps root q, strip_comps workspace q) of
        (Some s, Some t) \<Rightarrow>
          (if seen_entry p e \<and> wanted_entry p ps (path_text s) e then
             [\<lparr> gh_workspace = path_text t, gh_search = path_text s, gh_mtime = fst (known_metadata p md q),
                gh_size = snd (known_metadata p md q), gh_type = de_type e \<rparr>]
           else [])
      | _ \<Rightarrow> [])"

definition listed :: "sandbox_error + dir_entry list \<Rightarrow> dir_entry list" where
  "listed r = (case r of Inl e \<Rightarrow> [] | Inr es \<Rightarrow> es)"

lemma scan_entry_tree:
  "steady_tree ops ls md n \<Longrightarrow>
   scan_entry p ps ops root workspace dir e (w, dirs, hits) =
     (w, entry_dirs p ps root workspace dir e @ dirs, hits @ entry_hits p ps md root workspace dir e)"
  by (auto simp: scan_entry_def entry_dirs_def entry_hits_def Let_def entry_metadata_known
      split: option.splits prod.splits)

lemma scan_entries_tree:
  assumes "steady_tree ops ls md n"
  shows "foldl (\<lambda>st e. scan_entry p ps ops root workspace dir e st) (w, dirs, hits) es =
    (w, concat (rev (map (entry_dirs p ps root workspace dir) es)) @ dirs,
     hits @ concat (map (entry_hits p ps md root workspace dir) es))"
  by (induction es arbitrary: dirs hits) (simp_all add: scan_entry_tree [OF assms])

definition below ::
  "glob_params \<Rightarrow> glob_patterns \<Rightarrow> (path \<Rightarrow> sandbox_error + dir_entry list) \<Rightarrow> path \<Rightarrow> path \<Rightarrow> path \<Rightarrow> path list" where
  "below p ps ls root workspace d = concat (rev (map (entry_dirs p ps root workspace d) (listed (ls d))))"

definition found ::
  "glob_params \<Rightarrow> glob_patterns \<Rightarrow> (path \<Rightarrow> sandbox_error + dir_entry list) \<Rightarrow>
   (path \<Rightarrow> sandbox_error + file_metadata) \<Rightarrow> path \<Rightarrow> path \<Rightarrow> path \<Rightarrow> glob_hit list" where
  "found p ps ls md root workspace d = concat (map (entry_hits p ps md root workspace d) (listed (ls d)))"

lemma scan_dir_tree:
  assumes "steady_tree ops ls md n"
  shows "scan_dir p ps ops root workspace d (w, dirs, hits) =
    (w, below p ps ls root workspace d @ dirs, hits @ found p ps ls md root workspace d)"
proof -
  have "sx_read_dir ops d w = (ls d, w)" using assms by (simp add: steady_tree_def)
  then show ?thesis
    using scan_entries_tree [OF assms] by (simp add: scan_dir_def below_def found_def listed_def split: sum.splits)
qed

text \<open>The scan as a recursion on the depth.\<close>

fun walk ::
  "(path \<Rightarrow> path list) \<Rightarrow> (path \<Rightarrow> glob_hit list) \<Rightarrow> nat \<Rightarrow> path list \<Rightarrow> glob_hit list" where
  "walk sub hit 0 ds = concat (map hit ds)"
| "walk sub hit (Suc k) ds = concat (map (\<lambda>d. hit d @ walk sub hit k (sub d)) ds)"

lemma below_deeper: "q \<in> set (below p ps ls root workspace d) \<Longrightarrow> length q = Suc (length d)"
  by (auto simp: below_def entry_dirs_def Let_def split: option.splits if_splits)

lemma below_depth:
  assumes "steady_tree ops ls md n" and "n \<le> length d"
  shows "below p ps ls root workspace d = []"
proof -
  have "de_type e \<noteq> FtDirectory" if "e \<in> set (listed (ls d))" for e
    using assms that unfolding steady_tree_def by (cases "ls d") (auto simp: listed_def)
  then have "entry_dirs p ps root workspace d e = []" if "e \<in> set (listed (ls d))" for e
    using that by (auto simp: entry_dirs_def Let_def descended_def split: option.splits)
  then show ?thesis by (auto simp: below_def)
qed

lemma glob_scan_walk:
  assumes "steady_tree ops ls md n"
  shows "(\<And>d. d \<in> set ds \<Longrightarrow> n \<le> length d + k) \<Longrightarrow>
    glob_scan p ps ops root workspace (w, ds @ rest, hits) =
    glob_scan p ps ops root workspace
      (w, rest, hits @ walk (below p ps ls root workspace) (found p ps ls md root workspace) k ds)"
proof (induction k arbitrary: ds rest hits)
  case 0
  then show ?case
    by (induction ds arbitrary: hits)
      (simp_all add: glob_scan.simps [of _ _ _ _ _ "(_, _ # _, _)"] scan_dir_tree [OF assms] below_depth [OF assms])
next
  case (Suc k)
  show ?case using Suc.prems
  proof (induction ds arbitrary: hits)
    case (Cons d ds)
    have "n \<le> length q + k" if "q \<in> set (below p ps ls root workspace d)" for q
      using below_deeper [OF that] Cons.prems [of d] by simp
    from Suc.IH [OF this] Cons show ?case
      by (simp add: glob_scan.simps [of _ _ _ _ _ "(_, _ # _, _)"] scan_dir_tree [OF assms])
  qed simp
qed

text \<open>The directories a scan visits, and the hits that are wanted.\<close>

inductive visited ::
  "glob_params \<Rightarrow> glob_patterns \<Rightarrow> (path \<Rightarrow> sandbox_error + dir_entry list) \<Rightarrow> path \<Rightarrow> path \<Rightarrow> path \<Rightarrow> bool"
  for p ps ls root workspace where
  start: "visited p ps ls root workspace root"
| enter: "visited p ps ls root workspace (d @ [Normal (de_name e)])"
    if "visited p ps ls root workspace d" "ls d = Inr es" "e \<in> set es"
      "strip_comps root (d @ [Normal (de_name e)]) = Some s" "strip_comps workspace (d @ [Normal (de_name e)]) = Some t"
      "descended p ps (path_text s) e"

definition wanted_hits ::
  "glob_params \<Rightarrow> glob_patterns \<Rightarrow> (path \<Rightarrow> sandbox_error + dir_entry list) \<Rightarrow>
   (path \<Rightarrow> sandbox_error + file_metadata) \<Rightarrow> path \<Rightarrow> path \<Rightarrow> glob_hit set" where
  "wanted_hits p ps ls md root workspace =
     {h. \<exists>d. visited p ps ls root workspace d \<and> (\<exists>es e s t. ls d = Inr es \<and> e \<in> set es \<and>
        strip_comps root (d @ [Normal (de_name e)]) = Some s \<and>
        strip_comps workspace (d @ [Normal (de_name e)]) = Some t \<and>
        seen_entry p e \<and> wanted_entry p ps (path_text s) e \<and>
        h = \<lparr> gh_workspace = path_text t, gh_search = path_text s,
              gh_mtime = fst (known_metadata p md (d @ [Normal (de_name e)])),
              gh_size = snd (known_metadata p md (d @ [Normal (de_name e)])), gh_type = de_type e \<rparr>)}"

lemma in_below:
  "q \<in> set (below p ps ls root workspace d) \<longleftrightarrow>
   (\<exists>es e s t. ls d = Inr es \<and> e \<in> set es \<and> q = d @ [Normal (de_name e)] \<and>
      strip_comps root q = Some s \<and> strip_comps workspace q = Some t \<and> descended p ps (path_text s) e)"
proof -
  have "q \<in> set (entry_dirs p ps root workspace d e) \<longleftrightarrow> (\<exists>s t. q = d @ [Normal (de_name e)] \<and>
      strip_comps root q = Some s \<and> strip_comps workspace q = Some t \<and> descended p ps (path_text s) e)" for e
    by (cases "strip_comps root (d @ [Normal (de_name e)])"; cases "strip_comps workspace (d @ [Normal (de_name e)])")
      (auto simp: entry_dirs_def descended_def seen_entry_def)
  then show ?thesis by (cases "ls d") (auto simp: below_def listed_def)
qed

lemma in_found:
  "h \<in> set (found p ps ls md root workspace d) \<longleftrightarrow>
   (\<exists>es e s t. ls d = Inr es \<and> e \<in> set es \<and> strip_comps root (d @ [Normal (de_name e)]) = Some s \<and>
      strip_comps workspace (d @ [Normal (de_name e)]) = Some t \<and> seen_entry p e \<and> wanted_entry p ps (path_text s) e \<and>
      h = \<lparr> gh_workspace = path_text t, gh_search = path_text s,
            gh_mtime = fst (known_metadata p md (d @ [Normal (de_name e)])),
            gh_size = snd (known_metadata p md (d @ [Normal (de_name e)])), gh_type = de_type e \<rparr>)"
proof -
  have "h \<in> set (entry_hits p ps md root workspace d e) \<longleftrightarrow> (\<exists>s t.
      strip_comps root (d @ [Normal (de_name e)]) = Some s \<and>
      strip_comps workspace (d @ [Normal (de_name e)]) = Some t \<and> seen_entry p e \<and> wanted_entry p ps (path_text s) e \<and>
      h = \<lparr> gh_workspace = path_text t, gh_search = path_text s,
            gh_mtime = fst (known_metadata p md (d @ [Normal (de_name e)])),
            gh_size = snd (known_metadata p md (d @ [Normal (de_name e)])), gh_type = de_type e \<rparr>)" for e
    by (cases "strip_comps root (d @ [Normal (de_name e)])"; cases "strip_comps workspace (d @ [Normal (de_name e)])")
      (auto simp: entry_hits_def Let_def)
  then show ?thesis by (cases "ls d") (simp_all add: found_def listed_def Bex_def)
qed

lemma visited_steps:
  "visited p ps ls root workspace d \<longleftrightarrow> (\<lambda>a b. b \<in> set (below p ps ls root workspace a))\<^sup>*\<^sup>* root d"
proof
  assume "visited p ps ls root workspace d"
  then show "(\<lambda>a b. b \<in> set (below p ps ls root workspace a))\<^sup>*\<^sup>* root d"
  proof (induction rule: visited.induct)
    case (enter d es e s t)
    then have "d @ [Normal (de_name e)] \<in> set (below p ps ls root workspace d)" unfolding in_below by blast
    with enter.IH show ?case by (rule rtranclp.rtrancl_into_rtrancl)
  qed simp
next
  assume "(\<lambda>a b. b \<in> set (below p ps ls root workspace a))\<^sup>*\<^sup>* root d"
  then show "visited p ps ls root workspace d"
    by (induction rule: rtranclp_induct) (auto simp only: in_below intro: visited.intros)
qed

lemma set_walk:
  assumes deep: "\<And>d. d \<in> set ds \<Longrightarrow> n \<le> length d + k"
    and sub: "\<And>d q. q \<in> set (sub d) \<Longrightarrow> length q = Suc (length d)" "\<And>d. n \<le> length d \<Longrightarrow> sub d = []"
  shows "set (walk sub hit k ds) = {h. \<exists>d \<in> set ds. \<exists>q. (\<lambda>a b. b \<in> set (sub a))\<^sup>*\<^sup>* d q \<and> h \<in> set (hit q)}"
  using deep
proof (induction k arbitrary: ds)
  case 0
  then have "(\<lambda>a b. b \<in> set (sub a))\<^sup>*\<^sup>* d q \<longleftrightarrow> q = d" if "d \<in> set ds" for d q
    using that sub(2) by (auto elim: converse_rtranclpE)
  then show ?case by auto
next
  case (Suc k)
  let ?R = "\<lambda>a b. b \<in> set (sub a)"
  have w: "set (walk sub hit k (sub d)) = {h. \<exists>a \<in> set (sub d). \<exists>q. ?R\<^sup>*\<^sup>* a q \<and> h \<in> set (hit q)}"
    if "d \<in> set ds" for d
    by (rule Suc.IH) (use sub(1) Suc.prems [OF that] in fastforce)
  have st: "?R\<^sup>*\<^sup>* d q \<longleftrightarrow> q = d \<or> (\<exists>a \<in> set (sub d). ?R\<^sup>*\<^sup>* a q)" for d q
    by (auto elim: converse_rtranclpE intro: converse_rtranclp_into_rtranclp)
  have "set (hit d) \<union> set (walk sub hit k (sub d)) = {h. \<exists>q. ?R\<^sup>*\<^sup>* d q \<and> h \<in> set (hit q)}"
    if "d \<in> set ds" for d
  proof -
    have "set (hit d) \<union> set (walk sub hit k (sub d)) =
      {h. \<exists>q. (q = d \<or> (\<exists>a \<in> set (sub d). ?R\<^sup>*\<^sup>* a q)) \<and> h \<in> set (hit q)}"
      unfolding w [OF that] by blast
    then show ?thesis unfolding st [of d, symmetric] .
  qed
  then have "(\<Union>d \<in> set ds. set (hit d) \<union> set (walk sub hit k (sub d))) =
    (\<Union>d \<in> set ds. {h. \<exists>q. (\<lambda>a b. b \<in> set (sub a))\<^sup>*\<^sup>* d q \<and> h \<in> set (hit q)})"
    by simp
  then show ?case by auto
qed

lemma glob_scan_tree:
  assumes "steady_tree ops ls md n"
  shows "\<exists>hs. glob_scan p ps ops root workspace (w, [root], []) = Some (hs, w) \<and>
    set hs = wanted_hits p ps ls md root workspace"
proof -
  let ?hs = "walk (below p ps ls root workspace) (found p ps ls md root workspace) n [root]"
  have "glob_scan p ps ops root workspace (w, [root] @ [], []) = glob_scan p ps ops root workspace (w, [], [] @ ?hs)"
    by (rule glob_scan_walk [OF assms]) simp
  then have "glob_scan p ps ops root workspace (w, [root], []) = Some (?hs, w)"
    by (simp add: glob_scan.simps [of _ _ _ _ _ "(_, [], _)"])
  moreover have "set ?hs = {h. \<exists>d \<in> set [root]. \<exists>q.
      (\<lambda>a b. b \<in> set (below p ps ls root workspace a))\<^sup>*\<^sup>* d q \<and> h \<in> set (found p ps ls md root workspace q)}"
    by (rule set_walk [where n = n]) (use below_deeper below_depth [OF assms] in simp_all)
  moreover have "\<dots> = {h. \<exists>q. visited p ps ls root workspace q \<and> h \<in> set (found p ps ls md root workspace q)}"
    unfolding visited_steps by simp
  moreover have "\<dots> = wanted_hits p ps ls md root workspace"
    unfolding wanted_hits_def in_found ..
  ultimately show ?thesis by simp
qed

section \<open>Sorting and the report\<close>

text \<open>The order of two hits next to each other, under each way of sorting.\<close>

definition in_order :: "string \<Rightarrow> glob_hit \<Rightarrow> glob_hit \<Rightarrow> bool" where
  "in_order order a b \<longleftrightarrow>
     (if order = ''path_asc'' then gh_workspace a \<le> gh_workspace b
      else if order = ''path_desc'' then gh_workspace b \<le> gh_workspace a
      else if order = ''modified_desc'' then
        hit_mtime b < hit_mtime a \<or> hit_mtime a = hit_mtime b \<and> gh_workspace a \<le> gh_workspace b
      else if order = ''modified_asc'' then
        hit_mtime a < hit_mtime b \<or> hit_mtime a = hit_mtime b \<and> gh_workspace a \<le> gh_workspace b
      else True)"

lemma sorted_wrt_sort_key: "sorted_wrt (\<lambda>a b. f a \<le> f b) (sort_key f xs)"
  using sorted_sort_key [of f xs] by (simp add: sorted_map)

text \<open>Sorting by a second key keeps the order of the first among equals.\<close>

lemma sorted_insort_lex:
  fixes f :: "'a \<Rightarrow> 'b::linorder" and g :: "'a \<Rightarrow> 'c::linorder"
  assumes "sorted_wrt (\<lambda>a b. f a < f b \<or> f a = f b \<and> g a \<le> g b) xs" and "\<And>x. x \<in> set xs \<Longrightarrow> g y \<le> g x"
  shows "sorted_wrt (\<lambda>a b. f a < f b \<or> f a = f b \<and> g a \<le> g b) (insort_key f y xs)"
  using assms
proof (induction xs)
  case (Cons x xs)
  show ?case
  proof (cases "f y \<le> f x")
    case True
    have "f y < f z \<or> f y = f z \<and> g y \<le> g z" if "z \<in> set (x # xs)" for z
      using that True Cons.prems by (fastforce dest: order_le_imp_less_or_eq)
    with True Cons.prems(1) show ?thesis by simp
  next
    case False
    with Cons show ?thesis by (auto simp: set_insort_key)
  qed
qed simp

lemma sorted_sort_lex:
  fixes f :: "'a \<Rightarrow> 'b::linorder" and g :: "'a \<Rightarrow> 'c::linorder"
  shows "sorted_wrt (\<lambda>a b. g a \<le> g b) xs \<Longrightarrow>
    sorted_wrt (\<lambda>a b. f a < f b \<or> f a = f b \<and> g a \<le> g b) (sort_key f xs)"
  by (induction xs) (auto intro: sorted_insort_lex)

lemma sort_hits_sorted: "sorted_wrt (in_order order) (sort_hits order hs)"
proof -
  have desc: "sorted_wrt (\<lambda>a b. gh_workspace b \<le> gh_workspace a) (rev (sort_key gh_workspace xs))" for xs
    using sorted_wrt_sort_key by (simp add: sorted_wrt_rev)
  note lex = sorted_sort_lex [OF sorted_wrt_sort_key]
  consider "order = ''path_asc''" | "order = ''path_desc''" | "order = ''modified_desc''" | "order = ''modified_asc''"
    | "order \<notin> set valid_sorts" by (auto simp: valid_sorts_def)
  then show ?thesis
  proof cases
    case 1
    show ?thesis unfolding 1 sort_hits_def
      by simp (rule sorted_wrt_mono_rel [OF _ sorted_wrt_sort_key], simp add: in_order_def)
  next
    case 2
    show ?thesis unfolding 2 sort_hits_def
      by simp (rule sorted_wrt_mono_rel [OF _ desc], simp add: in_order_def)
  next
    case 3
    show ?thesis unfolding 3 sort_hits_def
      by simp (rule sorted_wrt_mono_rel [OF _ lex], simp add: in_order_def)
  next
    case 4
    show ?thesis unfolding 4 sort_hits_def
      by simp (rule sorted_wrt_mono_rel [OF _ lex], simp add: in_order_def)
  next
    case 5
    then have "in_order order = (\<lambda>a b. True)" by (auto simp: in_order_def valid_sorts_def fun_eq_iff)
    then show ?thesis by (simp add: sorted_wrt_iff_nth_less)
  qed
qed

lemma mset_sort_hits: "mset (sort_hits order hs) = mset hs"
  by (simp add: sort_hits_def)

section \<open>The tool\<close>

lemma hits_report_sorted:
  "\<exists>ss. mset ss = mset hs \<and> sorted_wrt (in_order (gl_sort p)) ss \<and>
     go_matches (hits_report show_time p hs) = map (match_of_hit show_time p) (take (gl_max_results p) ss)"
proof -
  have "length (sort_hits (gl_sort p) hs) = length hs"
    using mset_sort_hits [of "gl_sort p" hs] by (rule mset_eq_length)
  then have "take (min (length hs) (gl_max_results p)) (sort_hits (gl_sort p) hs) =
    take (gl_max_results p) (sort_hits (gl_sort p) hs)" by (metis take_all_iff take_take linorder_le_cases min_def)
  then show ?thesis
    using sort_hits_sorted mset_sort_hits by (fastforce simp: hits_report_def Let_def)
qed

lemma glob_run_tree:
  assumes "steady_tree ops ls md n" and "ls root = Inr es" and "compile_patterns (ge_compile E) p = Inr ps"
    and "sx_root ops = Some r"
  obtains hs where "glob_run E p ops root w = Some (tool_success (ge_to_json E (hits_report (ge_iso E) p hs)), w)"
    and "set hs = wanted_hits p ps ls md root (components r)"
proof -
  obtain hs where "glob_scan p ps ops root (components r) (w, [root], []) = Some (hs, w)"
    and hs: "set hs = wanted_hits p ps ls md root (components r)"
    using glob_scan_tree [OF assms(1)] by blast
  moreover have "sx_read_dir ops root w = (Inr es, w)" using assms(1,2) by (simp add: steady_tree_def)
  ultimately have "glob_run E p ops root w = Some (tool_success (ge_to_json E (hits_report (ge_iso E) p hs)), w)"
    using assms(3,4) by (simp add: glob_run_def)
  from this hs show ?thesis by (rule that)
qed

lemma glob_execute_run:
  assumes "dec args = Inr p" and "check_params (ge_debug_list E) p = None"
    and "ctx_resolve (ge_duration E) ops (gl_path p) = Inr root"
    and "glob_run E p ops root w = Some (r, w)"
  shows "glob_execute E dec args ops w = Some (Inr r, w)"
  using assms by (simp add: glob_execute_def)


text \<open>A workspace with one file and one directory.\<close>

definition demo_root :: path where
  "demo_root = [RootDir, Normal ''r'']"

definition demo_ls :: "path \<Rightarrow> sandbox_error + dir_entry list" where
  "demo_ls d = (if d = demo_root then Inr [\<lparr> de_name = ''a'', de_type = FtFile \<rparr>, \<lparr> de_name = ''b'', de_type = FtDirectory \<rparr>]
     else if d = demo_root @ [Normal ''b''] then Inr [\<lparr> de_name = ''a'', de_type = FtFile \<rparr>] else Inl (SbIo ''not found''))"

definition demo_md :: "path \<Rightarrow> sandbox_error + file_metadata" where
  "demo_md q = Inl (SbIo ''not found'')"

definition demo_glob :: glob_params where
  "demo_glob = \<lparr> gl_pattern = ''a'', gl_path = ''.'', gl_exclude = Some [], gl_kind = ''file'', gl_max_results = 1,
     gl_include_hidden = False, gl_follow_symlinks = False, gl_sort = ''path_asc'', gl_with_metadata = False \<rparr>"

definition demo_env :: glob_env where
  "demo_env = \<lparr> ge_duration = (\<lambda>t. []), ge_debug_list = (\<lambda>xs. []), ge_compile = (\<lambda>s. Inr (\<lambda>t. t = s)),
     ge_iso = (\<lambda>t. None), ge_to_json = (\<lambda>R. show_nat (go_total_matched R)) \<rparr>"

definition demo_box :: "string \<Rightarrow> unit sandbox_ops" where
  "demo_box root = \<lparr> sx_root = Some root, sx_resolve = resolve_path root, sx_execute = (\<lambda>c w. None),
     sx_read = (\<lambda>q off lim. fail SbNotStarted), sx_write = (\<lambda>q c. fail SbNotStarted),
     sx_create_dirs = (\<lambda>q. fail SbNotStarted), sx_read_dir = (\<lambda>d w. (demo_ls d, w)),
     sx_metadata = (\<lambda>q w. (demo_md q, w)) \<rparr>"

lemma demo_tree: "steady_tree (demo_box root) demo_ls demo_md 3"
  by (auto simp: steady_tree_def demo_box_def demo_ls_def demo_root_def split: if_splits)

lemma demo_check: "check_params (ge_debug_list demo_env) demo_glob = None"
  by (simp add: check_params_def demo_glob_def validate_relative_def slashes_def valid_kinds_def valid_sorts_def
      max_results_limit_def Let_def)

lemma demo_compile: "compile_patterns (ge_compile demo_env) demo_glob =
    Inr \<lparr> gp_wanted = [\<lambda>t. t = ''a''], gp_excluded = [], gp_excluded_dirs = [] \<rparr>"
  by (simp add: compile_patterns_def demo_env_def demo_glob_def excludes_of_def dir_patterns_def List.map_filter_def
      expand_braces.simps [of "''a''"])

lemma demo_sx_root: "sx_root (demo_box root) = Some root"
  by (simp add: demo_box_def)

lemma demo_list:
  "demo_ls demo_root = Inr [\<lparr> de_name = ''a'', de_type = FtFile \<rparr>, \<lparr> de_name = ''b'', de_type = FtDirectory \<rparr>]"
  by (simp add: demo_ls_def)

lemma demo_resolved: "ctx_resolve dur (demo_box ''/r'') (gl_path demo_glob) = Inr demo_root"
  by (simp add: demo_glob_def ctx_resolve_def ctx_resolve_path_def demo_box_def ctx_relative_def resolve_path_def Let_def
      normalize_path_def path_join_def components_def seg_component_def is_absolute_def path_push_def
      path_pop_def starts_with_comps_def demo_root_def)


lemma starts_with_subset: "starts_with_comps q base \<Longrightarrow> set base \<subseteq> set q"
  by (metis set_take_subset starts_with_comps_def)

text \<open>
  When the root of the sandbox is written with a step to the parent directory, the glob tool finds nothing: it
  takes the root of the workspace as it was given, while the path it searches has been normalized, so no entry
  lies below the root, and the report of a directory full of files says that nothing matched.
\<close>

theorem glob_blind_root:
  assumes "dec args = Inr p" and "check_params (ge_debug_list E) p = None"
    and "ctx_resolve (ge_duration E) ops (gl_path p) = Inr root"
    and "ls root = Inr es" and "compile_patterns (ge_compile E) p = Inr ps"
    and "sx_root ops = Some r" and "steady_tree ops ls md n"
    and up: "ParentDir \<in> set (components r)" "ParentDir \<notin> set root"
  shows "\<exists>R. glob_execute E dec args ops w = Some (Inr (tool_success (ge_to_json E R)), w) \<and>
    go_matches R = [] \<and> go_total_matched R = 0 \<and> \<not> go_truncated R \<and> go_error R = None"
proof -
  have "ParentDir \<notin> set d" if "visited p ps ls root (components r) d" for d
    using that by (induction rule: visited.induct) (simp_all add: up(2))
  then have "strip_comps (components r) (d @ [Normal x]) = None" if "visited p ps ls root (components r) d" for d x
    using that up(1) starts_with_subset [of "d @ [Normal x]" "components r"] by (fastforce simp: strip_comps_def)
  then have none: "wanted_hits p ps ls md root (components r) = {}" by (auto simp: wanted_hits_def)
  obtain hs where run: "glob_run E p ops root w = Some (tool_success (ge_to_json E (hits_report (ge_iso E) p hs)), w)"
    and "set hs = wanted_hits p ps ls md root (components r)"
    using glob_run_tree [OF assms(7,4,5,6)] by blast
  with none have "hs = []" by simp
  moreover have "glob_execute E dec args ops w = Some (Inr (tool_success (ge_to_json E (hits_report (ge_iso E) p hs))), w)"
    using assms(1,2,3) run by (rule glob_execute_run)
  ultimately show ?thesis
    by (intro exI [of _ "hits_report (ge_iso E) p []"]) (simp add: hits_report_def Let_def sort_hits_def)
qed

lemma demo_blind: "ctx_resolve dur (demo_box ''/x/../r'') (gl_path demo_glob) = Inr demo_root"
  by (simp add: demo_glob_def ctx_resolve_def ctx_resolve_path_def demo_box_def ctx_relative_def resolve_path_def Let_def
      normalize_path_def path_join_def components_def seg_component_def is_absolute_def path_push_def
      path_pop_def starts_with_comps_def demo_root_def)

theorem glob_blind_root_witness:
  "\<exists>R. glob_execute demo_env (\<lambda>j. Inr demo_glob) JNull (demo_box ''/x/../r'') () =
      Some (Inr (tool_success (ge_to_json demo_env R)), ()) \<and>
    go_matches R = [] \<and> go_total_matched R = 0 \<and> \<not> go_truncated R \<and> go_error R = None"
  by (rule glob_blind_root [OF refl demo_check demo_blind demo_list demo_compile demo_sx_root demo_tree])
    (simp_all add: components_def seg_component_def is_absolute_def demo_root_def)

section \<open>Braces: the properties\<close>

text \<open>
  The expansion of braces gives the texts the pattern stands for, one alternative of each pair of braces in every
  combination and in the order written, alternatives inside of alternatives included; it fails exactly on the
  texts in which an opening brace is never closed.
\<close>

theorem expand_braces_spec:
  assumes "list_all item_ok items"
  shows "expand_braces (items_text items) = Some (items_ways items) \<and> (expand_braces q = None \<longleftrightarrow> unmatched q)"
  using expand_items [OF assms, of "[]"] expand_braces_fails [of q] by (simp add: map_idI)

theorem expand_braces_spec_witness:
  "expand_braces ''a{b,{c,d}}'' = Some [''ab'', ''ac'', ''ad''] \<and> (expand_braces ''{'' = None \<longleftrightarrow> unmatched ''{'')"
  using expand_braces_spec [of "[Plain ''a'', Choice [[Plain ''b''], [Choice [[Plain ''c''], [Plain ''d'']]]]]" "''{''"]
  by (simp add: all_ways_def products_def)

text \<open>
  The number of patterns is exponential in the length of the text: \<open>n\<close> pairs of braces with two alternatives
  give \<open>2^n\<close> patterns, each of which is compiled, from \<open>5n\<close> characters.
\<close>

theorem expand_braces_exponential:
  "\<exists>ps. expand_braces (concat (replicate n ''{a,b}'')) = Some ps \<and> length ps = 2 ^ n \<and>
     length (concat (replicate n ''{a,b}'')) = 5 * n"
proof -
  let ?i = "Choice [[Plain ''a''], [Plain ''b'']]"
  have t: "items_text (replicate n ?i) = concat (replicate n ''{a,b}'')"
    by (induction n) (simp_all add: items_text_def)
  have "length (items_ways (replicate n ?i)) = 2 ^ n"
    by (induction n) (simp_all add: products_def all_ways_def)
  moreover have "expand_braces (items_text (replicate n ?i)) = Some (items_ways (replicate n ?i))"
    using expand_items [of "replicate n ?i" "[]"] by (simp add: map_idI list_all_iff)
  moreover have "length (concat (replicate n ''{a,b}'')) = 5 * n"
    by (induction n) simp_all
  ultimately show ?thesis unfolding t by blast
qed

end
