(* ===== verification/CliCommand.thy ===== *)
theory CliCommand
  imports FileTools SandboxManager ToolRegistry "HOL-Library.List_Lexorder" "HOL-Library.Char_ord"
begin

text \<open>
  Command line tools: \<open>crates/vol-llm-cli-tool\<close> (placeholders in \<open>interpolate.rs\<close>, the check of the first token in
  \<open>validate.rs\<close>, \<open>config.rs\<close>, \<open>exec.rs\<close> and the loading of a directory in \<open>lib.rs\<close>) and the tool made of them,
  \<open>crates/vol-llm-tools-builtin/cli-tool/src/lib.rs\<close>.  Parsing TOML, printing lists and numbers for messages and the
  environment of the process are parameters; spaces are the ASCII ones.
\<close>

section \<open>Errors and settings\<close>

datatype cli_tool_error =
    CtConfig string
  | CtBinaryNotAllowed string "string list"
  | CtInvalidArguments string
  | CtSandboxFailed string
  | CtTimeout u64

fun display_cli_tool_error :: "(string list \<Rightarrow> string) \<Rightarrow> cli_tool_error \<Rightarrow> string" where
  "display_cli_tool_error debug_list (CtConfig e) = ''config error: '' @ e"
| "display_cli_tool_error debug_list (CtBinaryNotAllowed t allowed) =
     ''binary not allowed: first token `'' @ t @ ''` is not in '' @ debug_list allowed"
| "display_cli_tool_error debug_list (CtInvalidArguments e) = ''invalid arguments: '' @ e"
| "display_cli_tool_error debug_list (CtSandboxFailed e) = ''sandbox execution failed: '' @ e"
| "display_cli_tool_error debug_list (CtTimeout n) = ''command timed out after '' @ show_nat (unat n) @ '' seconds''"

record cli_tool_config =
  cc_name :: string
  cc_description :: string
  cc_binaries :: "string list"
  cc_enabled :: bool
  cc_sandbox :: "sandbox_spec option"
  cc_sandbox_ref :: "string option"
  cc_cwd :: string
  cc_shell :: string
  cc_timeout_secs :: u64
  cc_max_output_bytes :: nat
  cc_env :: "string \<rightharpoonup> string"

definition validate_config :: "cli_tool_config \<Rightarrow> cli_tool_error + unit" where
  "validate_config c =
     (if cc_binaries c = [] then Inl (CtConfig ''`binaries` must be non-empty'')
      else case (cc_sandbox c, cc_sandbox_ref c) of
        (Some s, Some r) \<Rightarrow> Inl (CtConfig ''set either `sandbox` or `sandbox_ref`, not both'')
      | (None, None) \<Rightarrow> Inl (CtConfig ''one of `sandbox` or `sandbox_ref` is required'')
      | _ \<Rightarrow> Inr ())"

definition from_toml :: "(string \<Rightarrow> string + cli_tool_config) \<Rightarrow> string \<Rightarrow> cli_tool_error + cli_tool_config" where
  "from_toml toml s =
     (case toml s of
        Inl e \<Rightarrow> Inl (CtConfig e)
      | Inr c \<Rightarrow> (case validate_config c of Inl e \<Rightarrow> Inl e | Inr u \<Rightarrow> Inr c))"

section \<open>Placeholders\<close>

text \<open>What stands before the next two closing braces, and what stands after them.\<close>

fun split_tag :: "string \<Rightarrow> string \<times> string option" where
  "split_tag [] = ([], None)"
| "split_tag (c # s) =
     (if c = CHR ''}'' \<and> s \<noteq> [] \<and> hd s = CHR ''}'' then ([], Some (tl s))
      else (case split_tag s of (t, r) \<Rightarrow> (c # t, r)))"

definition in_braces :: "string \<Rightarrow> string" where
  "in_braces tag = ''{{'' @ tag @ ''}}''"

definition placeholder :: "(string \<Rightarrow> string option) \<Rightarrow> string \<Rightarrow> string" where
  "placeholder lookup tag =
     (case split_at_char (CHR ''.'') tag of
        (ns, Some var) \<Rightarrow>
          (if ns = ''env'' then (case lookup var of Some v \<Rightarrow> v | None \<Rightarrow> []) else in_braces tag)
      | (ns, None) \<Rightarrow> in_braces tag)"

lemma split_tag_length: "split_tag s = (t, Some r) \<Longrightarrow> length r < length s"
proof (induction s arbitrary: t)
  case (Cons c s)
  show ?case
  proof (cases "c = CHR ''}'' \<and> s \<noteq> [] \<and> hd s = CHR ''}''")
    case True
    with Cons.prems show ?thesis by auto
  next
    case False
    with Cons.prems obtain t' where "split_tag s = (t', Some r)" by (auto split: prod.splits)
    from Cons.IH [OF this] show ?thesis by simp
  qed
qed simp

function interpolate_with :: "(string \<Rightarrow> string option) \<Rightarrow> string \<Rightarrow> string" where
  "interpolate_with lookup [] = []"
| "interpolate_with lookup (c # s) =
     (if c = CHR 0x5C \<and> take 2 s = ''{{'' then ''{{'' @ interpolate_with lookup (drop 2 s)
      else if c = CHR ''{'' \<and> take 1 s = ''{'' then
        (case split_tag (drop 1 s) of
           (tag, None) \<Rightarrow> ''{{'' @ tag
         | (tag, Some r) \<Rightarrow> placeholder lookup tag @ interpolate_with lookup r)
      else c # interpolate_with lookup s)"
  by pat_completeness auto
termination
proof (relation "measure (\<lambda>(l, s). length s)")
  fix lookup :: "string \<Rightarrow> string option" and c s x tag y r
  assume "(tag, y) = split_tag (drop 1 s)" "y = Some r"
  then have "length r < length (drop 1 s)" using split_tag_length by metis
  then show "((lookup, r), (lookup, c # s)) \<in> measure (\<lambda>(l, s). length s)" by simp
qed auto

definition interpolate_map :: "(string \<Rightarrow> string option) \<Rightarrow> (string \<rightharpoonup> string) \<Rightarrow> (string \<rightharpoonup> string)" where
  "interpolate_map lookup m = (\<lambda>k. map_option (interpolate_with lookup) (m k))"

section \<open>The first token\<close>

definition first_token :: "string \<Rightarrow> string option" where
  "first_token command =
     (case takeWhile (\<lambda>c. \<not> is_space c) (dropWhile is_space command) of [] \<Rightarrow> None | t \<Rightarrow> Some t)"

definition validate_first_token :: "string \<Rightarrow> string list \<Rightarrow> cli_tool_error + string" where
  "validate_first_token command binaries =
     (case first_token command of
        None \<Rightarrow> Inl (CtInvalidArguments ''command is empty'')
      | Some t \<Rightarrow> if t \<in> set binaries then Inr t else Inl (CtBinaryNotAllowed t binaries))"

section \<open>Running\<close>

record 'b cli_tool =
  ct_config :: cli_tool_config
  ct_sandbox :: 'b
  ct_env :: "string \<rightharpoonup> string"
  ct_cwd :: string

definition cli_tool_new :: "(string \<Rightarrow> string option) \<Rightarrow> cli_tool_config \<Rightarrow> 'b \<Rightarrow> 'b cli_tool" where
  "cli_tool_new lookup c sb = \<lparr> ct_config = c, ct_sandbox = sb, ct_env = interpolate_map lookup (cc_env c),
     ct_cwd = interpolate_with lookup (cc_cwd c) \<rparr>"

definition shell_quote :: "string \<Rightarrow> string" where
  "shell_quote s = [CHR 0x27] @
     concat (map (\<lambda>c. if c = CHR 0x27 then [CHR 0x27, CHR 0x5C, CHR 0x27, CHR 0x27] else [c]) s) @ [CHR 0x27]"

definition shell_body :: "string \<Rightarrow> string \<Rightarrow> string" where
  "shell_body cwd command = (if cwd = [] then command else ''cd '' @ shell_quote cwd @ '' && '' @ command)"

definition cli_request :: "'b cli_tool \<Rightarrow> string \<Rightarrow> command_request" where
  "cli_request t command = \<lparr> cmd_program = cc_shell (ct_config t), cmd_args = [''-c'', shell_body (ct_cwd t) command],
     cmd_env = ct_env t, cmd_cwd = None, cmd_stdin = None, cmd_timeout = 1000 * unat (cc_timeout_secs (ct_config t)) \<rparr>"

record cli_output =
  out_success :: bool
  out_content :: string

text \<open>The last place at which the text can be cut, and the text cut there.\<close>

definition cut_place :: "nat \<Rightarrow> string \<Rightarrow> nat" where
  "cut_place n s = (case filter (\<lambda>i. char_boundary i s) (rev [0..<Suc n]) of [] \<Rightarrow> 0 | i # r \<Rightarrow> i)"

definition append_truncated :: "string \<Rightarrow> string \<Rightarrow> nat \<Rightarrow> string" where
  "append_truncated out bytes n =
     (let s = lossy_utf8 bytes in
      if length s \<le> n then out @ s
      else out @ take (cut_place n s) s @ newline @ ''... [truncated '' @ show_nat (length s - n) @ '' bytes]'')"

definition format_output :: "(int \<Rightarrow> string) \<Rightarrow> command_output \<Rightarrow> nat \<Rightarrow> cli_output" where
  "format_output show_int res n =
     (let t = append_truncated (show_int (co_exit_code res) @ newline @ ''--- stdout ---'' @ newline) (co_stdout res) n;
          t = append_truncated (t @ newline @ ''--- stderr ---'' @ newline) (co_stderr res) n;
          t = (case co_signal res of
                 Some sig \<Rightarrow> t @ newline @ ''--- killed by signal '' @ show_int sig @ '' ---'' @ newline
               | None \<Rightarrow> t)
      in \<lparr> out_success = (co_exit_code res = 0 \<and> co_signal res = None), out_content = t \<rparr>)"

record 'w cli_tool_env =
  ce_ops :: "sandbox \<Rightarrow> 'w sandbox_ops"
  ce_duration :: "time \<Rightarrow> string"
  ce_debug_list :: "string list \<Rightarrow> string"
  ce_show_int :: "int \<Rightarrow> string"

definition cli_run ::
  "'w cli_tool_env \<Rightarrow> sandbox cli_tool \<Rightarrow> string \<Rightarrow> 'w \<Rightarrow> ((cli_tool_error + cli_output) \<times> 'w) option" where
  "cli_run E t command w =
     (case validate_first_token command (cc_binaries (ct_config t)) of
        Inl e \<Rightarrow> Some (Inl e, w)
      | Inr b \<Rightarrow>
          (case sx_execute (ce_ops E (ct_sandbox t)) (cli_request t command) w of
             None \<Rightarrow> None
           | Some (Inl e, w) \<Rightarrow> Some (Inl (CtSandboxFailed (display_sandbox_error (ce_duration E) e)), w)
           | Some (Inr res, w) \<Rightarrow>
               Some (Inr (format_output (ce_show_int E) res (cc_max_output_bytes (ct_config t))), w)))"

section \<open>The tool\<close>

definition cli_result :: "(string list \<Rightarrow> string) \<Rightarrow> cli_tool_error + cli_output \<Rightarrow> tool_error + tool_result" where
  "cli_result debug_list r =
     (case r of
        Inr res \<Rightarrow> Inr (if out_success res then tool_success (out_content res) else tool_failure (out_content res))
      | Inl e \<Rightarrow>
          (case e of
             CtInvalidArguments m \<Rightarrow> Inl (InvalidArguments (display_cli_tool_error debug_list e))
           | CtBinaryNotAllowed b bs \<Rightarrow> Inl (InvalidArguments (display_cli_tool_error debug_list e))
           | _ \<Rightarrow> Inl (ExecutionFailed (display_cli_tool_error debug_list e))))"

definition cli_tool_execute ::
  "'w cli_tool_env \<Rightarrow> sandbox cli_tool \<Rightarrow> json \<Rightarrow> 'w \<Rightarrow> ((tool_error + tool_result) \<times> 'w) option" where
  "cli_tool_execute E t args w =
     (case json_str (json_get ''command'' args) of
        None \<Rightarrow> Some (Inl (InvalidArguments (''missing required parameter: '' @ apostrophes ''command'')), w)
      | Some command \<Rightarrow> map_option (\<lambda>(r, w). (cli_result (ce_debug_list E) r, w)) (cli_run E t command w))"

section \<open>Loading a directory\<close>

text \<open>
  A directory that exists lists its entries, each a name with what reading the file gives; entries that
  cannot be listed are skipped.
\<close>

definition toml_entries :: "(string + string \<times> (string + string)) list \<Rightarrow> (string \<times> (string + string)) list" where
  "toml_entries es = sort_key fst (filter (\<lambda>(n, c). has_toml_extension n)
     (List.map_filter (\<lambda>e. case e of Inl x \<Rightarrow> None | Inr nc \<Rightarrow> Some nc) es))"

definition config_sandbox :: "cli_tool_config \<Rightarrow> ('w, 's) manager \<Rightarrow> sandbox option \<times> ('w, 's) manager" where
  "config_sandbox c g =
     (case cc_sandbox_ref c of
        Some n \<Rightarrow> acquire_by_name n g
      | None \<Rightarrow>
          (case cc_sandbox c of
             Some sp \<Rightarrow> (case build_inline sp g of (Inr sb, g) \<Rightarrow> (Some sb, g) | (Inl e, g) \<Rightarrow> (None, g))
           | None \<Rightarrow> (None, g)))"

text \<open>A tool whose sandbox cannot be had is skipped, but its name is taken.\<close>

fun load_tools ::
  "(string \<Rightarrow> string option) \<Rightarrow> (string \<Rightarrow> string + cli_tool_config) \<Rightarrow> (cli_tool_error \<Rightarrow> string) \<Rightarrow> string \<Rightarrow>
   (string \<rightharpoonup> string) \<Rightarrow> (string \<times> (string + string)) list \<Rightarrow> sandbox cli_tool list \<Rightarrow>
   (('w, 's) manager, cli_tool_error, sandbox cli_tool list) eff" where
  "load_tools lookup toml show_error dir seen [] tools g = (Inr tools, g)"
| "load_tools lookup toml show_error dir seen ((n, got) # es) tools g =
     (case got of
        Inl e \<Rightarrow> (Inl (CtConfig (''read '' @ path_join dir n @ '': '' @ e)), g)
      | Inr s \<Rightarrow>
          (case from_toml toml s of
             Inl e \<Rightarrow> (Inl (CtConfig (''parse '' @ path_join dir n @ '': '' @ show_error e)), g)
           | Inr c \<Rightarrow>
               if \<not> cc_enabled c then load_tools lookup toml show_error dir seen es tools g
               else case seen (cc_name c) of
                 Some first \<Rightarrow> (Inl (CtConfig (''duplicate cli-tool name `'' @ cc_name c @ ''` (first in '' @ first @
                   '', also in '' @ path_join dir n @ '')'')), g)
               | None \<Rightarrow>
                   (case config_sandbox c g of
                      (None, g) \<Rightarrow> load_tools lookup toml show_error dir (seen(cc_name c \<mapsto> path_join dir n)) es tools g
                    | (Some sb, g) \<Rightarrow> load_tools lookup toml show_error dir (seen(cc_name c \<mapsto> path_join dir n)) es
                        (tools @ [cli_tool_new lookup c sb]) g)))"

definition load_dir ::
  "(string \<Rightarrow> string option) \<Rightarrow> (string \<Rightarrow> string + cli_tool_config) \<Rightarrow> (cli_tool_error \<Rightarrow> string) \<Rightarrow> string \<Rightarrow>
   (string + (string + string \<times> (string + string)) list) option \<Rightarrow>
   (('w, 's) manager, cli_tool_error, sandbox cli_tool list) eff" where
  "load_dir lookup toml show_error dir listing =
     (case listing of
        None \<Rightarrow> ret []
      | Some (Inl e) \<Rightarrow> fail (CtConfig (''read_dir '' @ dir @ '': '' @ e))
      | Some (Inr es) \<Rightarrow> load_tools lookup toml show_error dir Map.empty (toml_entries es) [])"

section \<open>Registration\<close>

text \<open>The tools are registered in order; the first one whose name is taken ends it.\<close>

fun register_tools ::
  "(sandbox cli_tool \<Rightarrow> ('w, 'b) tool) \<Rightarrow> sandbox cli_tool list \<Rightarrow> (('w, 'b) tool_registry, string, unit) eff" where
  "register_tools as_tool [] r = (Inr (), r)"
| "register_tools as_tool (t # ts) r =
     (if r (cc_name (ct_config t)) \<noteq> None then
        (Inl (''cli-tool `'' @ cc_name (ct_config t) @ ''` collides with an already-registered tool''), r)
      else register_tools as_tool ts (reg_register (as_tool t) r))"

definition cli_parameters :: json where
  "cli_parameters = JObj [(''type'', JStr ''object''), (''properties'', JObj [(''command'', JObj [
     (''type'', JStr ''string''),
     (''description'', JStr (''CLI command to run. First token must be one of this tool'' @ [CHR 0x27] @
       ''s declared binaries.''))])]),
     (''required'', JArr [JStr ''command''])]"

text \<open>Running a tool may not return; \<open>never\<close> stands for what is then the case.\<close>

definition cli_registered ::
  "(json \<Rightarrow> sandbox cli_tool \<Rightarrow> ('w, tool_error, tool_result) eff) \<Rightarrow> sandbox cli_tool \<Rightarrow> ('w, 'b) tool" where
  "cli_registered run t = \<lparr> to_name = cc_name (ct_config t), to_description = cc_description (ct_config t),
     to_parameters = cli_parameters, to_sensitivity = (\<lambda>args. Safe), to_execute = (\<lambda>args ctx. run args t) \<rparr>"

definition register_cli_tools ::
  "(cli_tool_error \<Rightarrow> string) \<Rightarrow> cli_tool_error + sandbox cli_tool list \<Rightarrow> (sandbox cli_tool \<Rightarrow> ('w, 'b) tool) \<Rightarrow>
   (('w, 'b) tool_registry, string, nat) eff" where
  "register_cli_tools show_error loaded as_tool =
     (case loaded of
        Inl e \<Rightarrow> fail (show_error e)
      | Inr tools \<Rightarrow> bindE (register_tools as_tool tools) (\<lambda>u. ret (length tools)))"

end
