(* ===== verification/CliCorrect.thy ===== *)
theory CliCorrect
  imports CliCommand Utf8Correct
begin

text \<open>
  What the command line tools promise: a directory is quoted so that a shell reads it back, texts with
  placeholders become what they stand for, an output is a text of bounded length whatever the bytes, and the
  tools loaded from a directory have different names.  The check of the first token lets every command through.
\<close>

section \<open>Quoting\<close>

text \<open>
  How a POSIX shell reads a word: between apostrophes every character stands for itself, a backslash outside of
  them takes the next character as it is, and a blank outside of them ends the word.
\<close>

fun posix_word :: "bool \<Rightarrow> string \<Rightarrow> (string \<times> string) option" where
  "posix_word quoted [] = (if quoted then None else Some ([], []))"
| "posix_word True (c # s) =
     (if c = CHR 0x27 then posix_word False s else map_option (\<lambda>(w, r). (c # w, r)) (posix_word True s))"
| "posix_word False (c # s) =
     (if c = CHR 0x27 then posix_word True s
      else if c = CHR 0x5C then
        (case s of [] \<Rightarrow> None | d # s' \<Rightarrow> map_option (\<lambda>(w, r). (d # w, r)) (posix_word False s'))
      else if c = CHR '' '' then Some ([], c # s)
      else map_option (\<lambda>(w, r). (c # w, r)) (posix_word False s))"

lemma posix_quoted:
  "posix_word True (concat (map (\<lambda>c. if c = CHR 0x27 then [CHR 0x27, CHR 0x5C, CHR 0x27, CHR 0x27] else [c]) s) @
     CHR 0x27 # r) = map_option (\<lambda>(w, r). (s @ w, r)) (posix_word False r)"
  by (induction s) (simp_all add: option.map_comp comp_def case_prod_beta option.map_ident)

text \<open>
  C39: The directory a tool changes to is read back by the shell as it is, whatever characters it holds, spaces
  and apostrophes included: the quoted text is one word with the value of the directory, and the rest of
  the line is what follows it.
\<close>

theorem shell_quote_roundtrip:
  "posix_word False (shell_quote d @ '' && '' @ command) = Some (d, '' && '' @ command)"
  using posix_quoted [of d "'' && '' @ command"] by (simp add: shell_quote_def)

section \<open>Outputs are texts\<close>

lemma cut_place_last:
  "char_boundary k s \<Longrightarrow> k \<le> n \<Longrightarrow> k \<le> cut_place n s \<and> cut_place n s \<le> n \<and> char_boundary (cut_place n s) s"
proof (induction n)
  case (Suc n)
  show ?case
  proof (cases "char_boundary (Suc n) s")
    case False
    with Suc show ?thesis by (cases "k = Suc n") (auto simp: cut_place_def)
  qed (use Suc.prems in \<open>simp add: cut_place_def\<close>)
qed (simp add: cut_place_def char_boundary_def)

text \<open>What is shown of an output: all of it, or a beginning of about \<open>n\<close> bytes with a notice.\<close>

definition shown_text :: "nat \<Rightarrow> string \<Rightarrow> string \<Rightarrow> bool" where
  "shown_text n t a \<longleftrightarrow>
     (if length t \<le> n then a = t
      else \<exists>k \<le> n. n < k + 4 \<and> valid_utf8 (take k t) \<and>
        a = take k t @ newline @ ''... [truncated '' @ show_nat (length t - n) @ '' bytes]'')"

lemma valid_ascii: "(\<And>c. c \<in> set s \<Longrightarrow> byte c < 128) \<Longrightarrow> valid_utf8 s"
  by (induction s) (simp_all add: scan_char_ascii)

lemma valid_show_nat: "valid_utf8 (show_nat k)"
  using show_nat_digits [of k] by (intro valid_ascii) (auto simp: is_ascii_digit_def byte_def list_all_iff)

lemma valid_notice: "valid_utf8 (newline @ ''... [truncated '' @ show_nat k @ '' bytes]'')"
proof -
  have "valid_utf8 newline" "valid_utf8 ''... [truncated ''" "valid_utf8 '' bytes]''"
    by (rule valid_ascii; auto simp: newline_def byte_def)+
  then show ?thesis by (intro valid_utf8_append valid_show_nat)
qed

lemma shown_valid: "shown_text n t a \<Longrightarrow> valid_utf8 t \<Longrightarrow> valid_utf8 a"
  using valid_utf8_append [OF _ valid_notice] by (auto simp: shown_text_def split: if_splits)

lemma append_truncated_shown: "\<exists>a. append_truncated out bytes n = out @ a \<and> shown_text n (lossy_utf8 bytes) a"
proof (cases "length (lossy_utf8 bytes) \<le> n")
  case False
  then obtain k where "k \<le> n" "n < k + 4" "char_boundary k (lossy_utf8 bytes)"
    using near_boundary [OF valid_lossy, of n bytes] by auto
  with cut_place_last [of k "lossy_utf8 bytes" n] valid_take [OF valid_lossy, of "cut_place n (lossy_utf8 bytes)" bytes] False
  show ?thesis by (auto simp: append_truncated_def shown_text_def Let_def simp del: lossy_utf8.simps)
qed (simp add: append_truncated_def shown_text_def Let_def)

text \<open>
  C36: Whatever bytes a command writes, the text of the tool is well-formed UTF-8: after the exit code come the two
  outputs, invalid bytes replaced, each whole when it has at most the configured number of bytes and
  otherwise cut at a character, at most three bytes earlier, with a notice.
\<close>

theorem format_output_text:
  assumes "\<And>i. valid_utf8 (show_int i)"
  shows "\<exists>a b c. out_content (format_output show_int res n) =
      show_int (co_exit_code res) @ newline @ ''--- stdout ---'' @ newline @ a @ newline @ ''--- stderr ---'' @ newline @ b @ c \<and>
    shown_text n (lossy_utf8 (co_stdout res)) a \<and> shown_text n (lossy_utf8 (co_stderr res)) b \<and>
    (c = [] \<longleftrightarrow> co_signal res = None) \<and> valid_utf8 (out_content (format_output show_int res n)) \<and>
    (out_success (format_output show_int res n) \<longleftrightarrow> co_exit_code res = 0 \<and> co_signal res = None)"
proof -
  obtain a where a: "append_truncated (show_int (co_exit_code res) @ newline @ ''--- stdout ---'' @ newline) (co_stdout res) n =
      (show_int (co_exit_code res) @ newline @ ''--- stdout ---'' @ newline) @ a" "shown_text n (lossy_utf8 (co_stdout res)) a"
    using append_truncated_shown by blast
  let ?t = "((show_int (co_exit_code res) @ newline @ ''--- stdout ---'' @ newline) @ a) @ newline @ ''--- stderr ---'' @ newline"
  obtain b where b: "append_truncated ?t (co_stderr res) n = ?t @ b" "shown_text n (lossy_utf8 (co_stderr res)) b"
    using append_truncated_shown by blast
  let ?c = "(case co_signal res of
      Some sig \<Rightarrow> newline @ ''--- killed by signal '' @ show_int sig @ '' ---'' @ newline | None \<Rightarrow> [])"
  have whole: "out_content (format_output show_int res n) = ?t @ b @ ?c"
    using a(1) b(1) by (simp add: format_output_def Let_def split: option.splits)
  have "valid_utf8 newline" "valid_utf8 ''--- stdout ---''" "valid_utf8 ''--- stderr ---''"
    "valid_utf8 ''--- killed by signal ''" "valid_utf8 '' ---''"
    by (rule valid_ascii; auto simp: newline_def byte_def)+
  then have "valid_utf8 (?t @ b @ ?c)"
    using shown_valid [OF a(2) valid_lossy] shown_valid [OF b(2) valid_lossy] assms
    by (cases "co_signal res") (simp_all only: option.case valid_utf8_append valid_utf8.simps(1))
  moreover have "?c = [] \<longleftrightarrow> co_signal res = None" by (cases "co_signal res") (simp_all add: newline_def)
  ultimately show ?thesis
    using a(2) b(2) whole by (intro exI [of _ a] exI [of _ b] exI [of _ ?c] conjI) (simp_all add: format_output_def Let_def)
qed

definition demo_output :: command_output where
  "demo_output = \<lparr> co_stdout = [CHR 0xFF], co_stderr = [], co_exit_code = 0, co_signal = None \<rparr>"

theorem format_output_text_witness:
  "\<exists>a b c. out_content (format_output (\<lambda>i. show_nat (nat i)) demo_output 8) =
      show_nat (nat (co_exit_code demo_output)) @ newline @ ''--- stdout ---'' @ newline @ a @ newline @ ''--- stderr ---'' @ newline @ b @ c \<and>
    shown_text 8 (lossy_utf8 (co_stdout demo_output)) a \<and> shown_text 8 (lossy_utf8 (co_stderr demo_output)) b \<and>
    (c = [] \<longleftrightarrow> co_signal demo_output = None) \<and> valid_utf8 (out_content (format_output (\<lambda>i. show_nat (nat i)) demo_output 8)) \<and>
    (out_success (format_output (\<lambda>i. show_nat (nat i)) demo_output 8) \<longleftrightarrow>
      co_exit_code demo_output = 0 \<and> co_signal demo_output = None)"
  by (rule format_output_text) (rule valid_show_nat)

section \<open>Placeholders\<close>

datatype template_part = Lit string | Env string | Braces

fun template_text :: "template_part \<Rightarrow> string" where
  "template_text (Lit s) = s"
| "template_text (Env v) = ''{{env.'' @ v @ ''}}''"
| "template_text Braces = CHR 0x5C # ''{{''"

fun template_value :: "(string \<Rightarrow> string option) \<Rightarrow> template_part \<Rightarrow> string" where
  "template_value lookup (Lit s) = s"
| "template_value lookup (Env v) = (case lookup v of Some x \<Rightarrow> x | None \<Rightarrow> [])"
| "template_value lookup Braces = ''{{''"

fun template_ok :: "template_part \<Rightarrow> bool" where
  "template_ok (Lit s) \<longleftrightarrow> CHR ''{'' \<notin> set s \<and> CHR 0x5C \<notin> set s"
| "template_ok (Env v) \<longleftrightarrow> CHR ''}'' \<notin> set v"
| "template_ok Braces \<longleftrightarrow> True"

lemma interpolate_plain:
  "CHR ''{'' \<notin> set s \<Longrightarrow> CHR 0x5C \<notin> set s \<Longrightarrow> interpolate_with lookup (s @ r) = s @ interpolate_with lookup r"
  by (induction s) auto

lemma split_tag_closed: "CHR ''}'' \<notin> set v \<Longrightarrow> split_tag (v @ CHR ''}'' # CHR ''}'' # r) = (v, Some r)"
  by (induction v) auto

lemma interpolate_part:
  "template_ok q \<Longrightarrow> interpolate_with lookup (template_text q @ r) = template_value lookup q @ interpolate_with lookup r"
proof (cases q)
  case (Env v)
  assume "template_ok q"
  then have "split_tag (''env.'' @ v @ CHR ''}'' # CHR ''}'' # r) = (''env.'' @ v, Some r)"
    using split_tag_closed [of "''env.'' @ v" r] Env by simp
  then show ?thesis by (simp add: Env placeholder_def split: option.splits)
qed (simp_all add: interpolate_plain)

text \<open>
  C38: A text made of plain parts, names of environment variables in double braces and escaped double braces becomes the
  parts it stands for, each replaced once: what a variable holds is never read as a placeholder again, and an
  unset variable leaves nothing.
\<close>

theorem interpolate_spec:
  assumes "list_all template_ok parts"
  shows "interpolate_with lookup (concat (map template_text parts)) = concat (map (template_value lookup) parts)"
  using assms by (induction parts) (simp_all add: interpolate_part del: template_text.simps template_value.simps)

theorem interpolate_spec_witness:
  "interpolate_with [''H'' \<mapsto> ''{{env.H}}''] ''a/{{env.H}}/{{env.X}}'' = ''a/{{env.H}}/''"
  using interpolate_spec [of "[Lit ''a/'', Env ''H'', Lit ''/'', Env ''X'']" "[''H'' \<mapsto> ''{{env.H}}'']"] by simp

section \<open>The check of the first token\<close>

text \<open>
  Only the first token of a command is checked, and the whole command goes to a shell: after an allowed name and a
  semicolon every text reaches the shell as it is, so any command can be run whatever the allowed names are.
\<close>

theorem first_token_only:
  assumes "b \<in> set (cc_binaries (ct_config t))" and "b \<noteq> []" and "list_all (\<lambda>c. \<not> is_space c) b"
    and "ct_cwd t = []" and "sx_execute (ce_ops E (ct_sandbox t)) (cli_request t (b @ '' ; '' @ other)) w = Some (Inr res, w')"
  shows "cmd_args (cli_request t (b @ '' ; '' @ other)) = [''-c'', b @ '' ; '' @ other] \<and>
    cli_run E t (b @ '' ; '' @ other) w =
      Some (Inr (format_output (ce_show_int E) res (cc_max_output_bytes (ct_config t))), w')"
proof -
  have sp: "is_space (CHR '' '')" by (simp add: is_space_def)
  have "dropWhile is_space (b @ '' ; '' @ other) = b @ '' ; '' @ other"
    using assms(2,3) by (cases b) simp_all
  moreover have "takeWhile (\<lambda>c. \<not> is_space c) (b @ '' ; '' @ other) = b"
    using assms(3) sp by (simp add: takeWhile_append2 list_all_iff)
  ultimately have "first_token (b @ '' ; '' @ other) = Some b"
    using assms(2) by (simp add: first_token_def split: list.splits)
  then show ?thesis
    using assms by (simp add: cli_run_def validate_first_token_def cli_request_def shell_body_def)
qed

definition demo_config :: cli_tool_config where
  "demo_config = \<lparr> cc_name = ''git'', cc_description = [], cc_binaries = [''git''], cc_enabled = True, cc_sandbox = None,
     cc_sandbox_ref = Some ''s'', cc_cwd = [], cc_shell = ''/bin/sh'', cc_timeout_secs = 60, cc_max_output_bytes = 64,
     cc_env = Map.empty \<rparr>"

definition demo_handle :: sandbox where
  "demo_handle = \<lparr> sb_id = ''s'', sb_kind = ''local'', sb_root = None, sb_temp = False, sb_status = SbRunning \<rparr>"

definition echo_env :: "unit cli_tool_env" where
  "echo_env = \<lparr> ce_ops = (\<lambda>h. \<lparr> sx_root = None, sx_resolve = (\<lambda>p. Inr []),
       sx_execute = (\<lambda>c w. Some (Inr \<lparr> co_stdout = concat (cmd_args c), co_stderr = [], co_exit_code = 0, co_signal = None \<rparr>, w)),
       sx_read = (\<lambda>q off lim. fail SbNotStarted), sx_write = (\<lambda>q c. fail SbNotStarted),
       sx_create_dirs = (\<lambda>q. fail SbNotStarted), sx_read_dir = (\<lambda>d. fail SbNotStarted),
       sx_metadata = (\<lambda>q. fail SbNotStarted) \<rparr>),
     ce_duration = (\<lambda>t. []), ce_debug_list = concat, ce_show_int = (\<lambda>i. show_nat (nat i)) \<rparr>"

theorem first_token_only_witness:
  "\<exists>out. cli_run echo_env (cli_tool_new (\<lambda>v. None) demo_config demo_handle) ''git ; rm -rf x'' () = Some (Inr out, ())"
proof -
  let ?t = "cli_tool_new (\<lambda>v. None) demo_config demo_handle"
  have "sx_execute (ce_ops echo_env (ct_sandbox ?t)) (cli_request ?t (''git'' @ '' ; '' @ ''rm -rf x'')) () =
    Some (Inr \<lparr> co_stdout = concat (cmd_args (cli_request ?t (''git'' @ '' ; '' @ ''rm -rf x''))), co_stderr = [],
      co_exit_code = 0, co_signal = None \<rparr>, ())" by (simp add: echo_env_def)
  from first_token_only [OF _ _ _ _ this] show ?thesis
    by (auto simp: cli_tool_new_def demo_config_def is_space_def)
qed

section \<open>Loading and registration\<close>

lemma load_tools_names:
  assumes "load_tools lookup toml show_error dir seen es tools g = (Inr ts, g')"
    and "distinct (map (\<lambda>t. cc_name (ct_config t)) tools)"
    and "\<And>t. t \<in> set tools \<Longrightarrow> seen (cc_name (ct_config t)) \<noteq> None \<and> cc_enabled (ct_config t) \<and> validate_config (ct_config t) = Inr ()"
  shows "distinct (map (\<lambda>t. cc_name (ct_config t)) ts) \<and>
    (\<forall>t \<in> set ts. cc_enabled (ct_config t) \<and> validate_config (ct_config t) = Inr ())"
  using assms
proof (induction es arbitrary: seen tools g)
  case (Cons e es)
  obtain n got where e: "e = (n, got)" by (cases e)
  from Cons.prems(1) e obtain s where got: "got = Inr s" by (cases got) auto
  from Cons.prems(1) e got obtain c where c: "from_toml toml s = Inr c" by (cases "from_toml toml s") auto
  then have ok: "validate_config c = Inr ()" by (auto simp: from_toml_def split: sum.splits)
  show ?case
  proof (cases "cc_enabled c")
    case False
    with Cons.prems(1) e got c have "load_tools lookup toml show_error dir seen es tools g = (Inr ts, g')" by simp
    then show ?thesis using Cons.prems(2,3) by (rule Cons.IH)
  next
    case True
    with Cons.prems(1) e got c have new: "seen (cc_name c) = None" by (cases "seen (cc_name c)") auto
    obtain sb g1 where sb: "config_sandbox c g = (sb, g1)" by (cases "config_sandbox c g")
    let ?seen = "seen(cc_name c \<mapsto> path_join dir n)"
    let ?tools = "case sb of None \<Rightarrow> tools | Some b \<Rightarrow> tools @ [cli_tool_new lookup c b]"
    show ?thesis
    proof (rule Cons.IH [of ?seen ?tools g1])
      show "load_tools lookup toml show_error dir ?seen es ?tools g1 = (Inr ts, g')"
        using Cons.prems(1) e got c True new sb by (cases sb) auto
      show "distinct (map (\<lambda>t. cc_name (ct_config t)) ?tools)"
        using Cons.prems(2) new Cons.prems(3) by (cases sb) (fastforce simp: cli_tool_new_def)+
    qed (use Cons.prems(3) ok True in \<open>cases sb; auto simp: cli_tool_new_def\<close>)
  qed
qed simp

text \<open>
  The tools loaded from a directory have pairwise different names, are enabled and have valid settings: names
  that occur twice end the loading with an error, also when the first of them was skipped because its sandbox
  could not be had.
\<close>

theorem load_dir_names:
  assumes "load_dir lookup toml show_error dir listing g = (Inr ts, g')"
  shows "distinct (map (\<lambda>t. cc_name (ct_config t)) ts) \<and>
    list_all (\<lambda>t. cc_enabled (ct_config t) \<and> cc_binaries (ct_config t) \<noteq> [] \<and>
      (cc_sandbox (ct_config t) = None \<longleftrightarrow> cc_sandbox_ref (ct_config t) \<noteq> None)) ts"
proof -
  have "distinct (map (\<lambda>t. cc_name (ct_config t)) ts) \<and>
    (\<forall>t \<in> set ts. cc_enabled (ct_config t) \<and> validate_config (ct_config t) = Inr ())"
  proof (cases listing)
    case None
    with assms show ?thesis by (simp add: load_dir_def)
  next
    case (Some r)
    with assms obtain es where "r = Inr es" by (cases r) (auto simp: load_dir_def)
    with Some assms have "load_tools lookup toml show_error dir Map.empty (toml_entries es) [] g = (Inr ts, g')"
      by (simp add: load_dir_def)
    then show ?thesis by (rule load_tools_names) simp_all
  qed
  moreover have "cc_binaries c \<noteq> [] \<and> (cc_sandbox c = None \<longleftrightarrow> cc_sandbox_ref c \<noteq> None)"
    if "validate_config c = Inr ()" for c
    using that by (auto simp: validate_config_def split: if_splits option.splits)
  ultimately show ?thesis by (auto simp: list_all_iff)
qed

definition demo_manager :: "(unit, unit) manager" where
  "demo_manager = (with_store () ())\<lparr>mg_names := [''s'' \<mapsto> ''b''], mg_instances := [''b'' \<mapsto> demo_handle]\<rparr>"

lemma demo_load:
  "load_dir (\<lambda>v. None) (\<lambda>s. Inr demo_config) (\<lambda>e. []) ''d'' (Some (Inr [Inr (''x.toml'', Inr [])])) demo_manager =
    (Inr [cli_tool_new (\<lambda>v. None) demo_config demo_handle], demo_manager)"
proof -
  have "toml_entries [Inr (''x.toml'', Inr [])] = [(''x.toml'', Inr [])]"
    by (simp add: toml_entries_def List.map_filter_def has_toml_extension_def)
  moreover have "from_toml (\<lambda>s. Inr demo_config) [] = Inr demo_config"
    by (simp add: from_toml_def validate_config_def demo_config_def)
  moreover have "config_sandbox demo_config demo_manager = (Some demo_handle, demo_manager)"
    by (simp add: config_sandbox_def acquire_by_name_def cached_by_name_def demo_config_def demo_manager_def)
  moreover have "cc_enabled demo_config" by (simp add: demo_config_def)
  ultimately show ?thesis by (simp add: load_dir_def)
qed

theorem load_dir_names_witness:
  "cc_binaries demo_config \<noteq> [] \<and> (cc_sandbox demo_config = None \<longleftrightarrow> cc_sandbox_ref demo_config \<noteq> None)"
  using load_dir_names [OF demo_load] by (simp add: cli_tool_new_def)

text \<open>
  Registration is not all or nothing: when a name is already taken the call fails, and the tools before it stay
  registered.
\<close>

theorem register_tools_partial:
  assumes "distinct (map (\<lambda>t. cc_name (ct_config t)) ts)" and "\<And>t. to_name (as_tool t) = cc_name (ct_config t)"
  shows "snd (register_tools as_tool ts r) =
      foldl (\<lambda>r t. reg_register (as_tool t) r) r (takeWhile (\<lambda>t. r (cc_name (ct_config t)) = None) ts) \<and>
    (fst (register_tools as_tool ts r) = Inr () \<longleftrightarrow> list_all (\<lambda>t. r (cc_name (ct_config t)) = None) ts)"
  using assms(1)
proof (induction ts arbitrary: r)
  case (Cons t ts)
  show ?case
  proof (cases "r (cc_name (ct_config t)) = None")
    case True
    let ?r = "reg_register (as_tool t) r"
    have same: "?r (cc_name (ct_config u)) = r (cc_name (ct_config u))" if "u \<in> set ts" for u
    proof -
      have "cc_name (ct_config u) \<noteq> cc_name (ct_config t)" using that Cons.prems by (auto simp: image_iff)
      then show ?thesis using assms(2) by (simp add: reg_register_def)
    qed
    then have "takeWhile (\<lambda>t. ?r (cc_name (ct_config t)) = None) ts = takeWhile (\<lambda>t. r (cc_name (ct_config t)) = None) ts"
      "list_all (\<lambda>t. ?r (cc_name (ct_config t)) = None) ts = list_all (\<lambda>t. r (cc_name (ct_config t)) = None) ts"
      by (auto cong: takeWhile_cong simp: list_all_iff)
    with Cons True show ?thesis by simp
  next
    case False
    then show ?thesis by auto
  qed
qed simp

definition tool_named :: "sandbox cli_tool \<Rightarrow> (unit, unit) tool" where
  "tool_named = cli_registered (\<lambda>args t. ret (tool_success []))"

definition named_tool :: "string \<Rightarrow> sandbox cli_tool" where
  "named_tool n = cli_tool_new (\<lambda>v. None) (demo_config\<lparr>cc_name := n\<rparr>) demo_handle"

theorem register_tools_partial_witness:
  "fst (register_tools tool_named [named_tool ''a'', named_tool ''b''] [''b'' \<mapsto> tool_named (named_tool ''b'')]) \<noteq> Inr () \<and>
    snd (register_tools tool_named [named_tool ''a'', named_tool ''b''] [''b'' \<mapsto> tool_named (named_tool ''b'')]) ''a'' =
      Some (tool_named (named_tool ''a''))"
  using register_tools_partial [of "[named_tool ''a'', named_tool ''b'']" tool_named "[''b'' \<mapsto> tool_named (named_tool ''b'')]"]
  by (simp add: tool_named_def named_tool_def cli_registered_def cli_tool_new_def reg_register_def)

end
