(* ===== verification/UiState.thy ===== *)
theory UiState
  imports StreamEvent AgentPlugins Utf8
begin

text \<open>
  The state of the terminal interface, \<open>crates/vol-llm-ui/src/\<close>: events and their effect on the state
  (\<open>state/mod.rs\<close>), the bridge from the events of an agent (\<open>state/event_buffer.rs\<close>), the keys
  (\<open>tui/input.rs\<close>) and the main loop that reacts to them (\<open>tui/bin/tui.rs\<close>).  Reading and printing JSON,
  the time and the fresh identifiers are parameters; keys are those of the terminal library.
\<close>

section \<open>Events\<close>

datatype ui_event =
    UiAgentStart string string
  | UiAgentComplete string string
  | UiAgentAborted string string
  | UiAgentError string string
  | UiThinkingStart
  | UiThinkingDelta string
  | UiThinkingComplete
  | UiContentStart
  | UiContentDelta string
  | UiContentComplete string
  | UiToolCallBegin string string string
  | UiToolCallArgumentDelta string
  | UiToolCallComplete string string string "u64 option"
  | UiToolCallError string string string "u64 option"
  | UiToolCallSkipped string string string "u64 option"
  | UiMaxIterationsReached u32 u32
  | UiIterationContinued u32
  | UiIterationComplete u32 "string option"
  | UiApprovalRequest string string string
  | UiApprovalResolved bool
  | UiWsConnected
  | UiWsConnecting
  | UiWsDisconnected "string option"
  | UiWsReconnecting u32 u32
  | UiWsReconnectFailed
  | UiWsReconnected

section \<open>What is shown\<close>

datatype call_status = CallRunning | CallSuccess | CallError | CallSkipped

record call_entry =
  ce_sequence :: u32
  ce_tool :: string
  ce_preview :: string
  ce_status :: call_status
  ce_duration :: "u64 option"

datatype conversation_entry =
    EUserInput string
  | EThinking string
  | EContentStreaming string
  | EToolCall string string string string
  | EToolResult string string string string bool
  | EAgentAnswer string
  | ERunSummary u32 u32 nat
  | ECheckpoint string "string option" int
  | EError string
  | ERunningBanner string

datatype active_tab =
    TabNodes | TabConversation | TabSessions | TabTasks | TabAgents | TabTools | TabWorkspace
  | TabSkills | TabMcp | TabLogs

fun tab_next :: "active_tab \<Rightarrow> active_tab" where
  "tab_next TabNodes = TabConversation"
| "tab_next TabConversation = TabSessions"
| "tab_next TabSessions = TabTasks"
| "tab_next TabTasks = TabAgents"
| "tab_next TabAgents = TabTools"
| "tab_next TabTools = TabWorkspace"
| "tab_next TabWorkspace = TabSkills"
| "tab_next TabSkills = TabMcp"
| "tab_next TabMcp = TabLogs"
| "tab_next TabLogs = TabNodes"

record approval_view =
  av_tool :: "string option"
  av_reason :: "string option"
  av_arguments :: "string option"
  av_response :: "(bool \<times> string option) option"

definition approval_clear :: approval_view where
  "approval_clear = \<lparr> av_tool = None, av_reason = None, av_arguments = None, av_response = None \<rparr>"

definition has_pending :: "approval_view \<Rightarrow> bool" where
  "has_pending a \<longleftrightarrow> av_tool a \<noteq> None"

record dialog_entry =
  de_session_id :: string
  de_entry_count :: nat
  de_age_label :: string

section \<open>The tree of the workspace\<close>

datatype workspace_node =
  WorkspaceNode (wn_name: string) (wn_path: string) (wn_is_dir: bool) (wn_loaded: bool) (wn_load_error: bool)
    (wn_children: "workspace_node list")

definition workspace_root :: "string \<Rightarrow> string \<Rightarrow> workspace_node" where
  "workspace_root name path = WorkspaceNode name path True False False []"

text \<open>The first node with a path, parents before children, is changed; \<^term>\<open>None\<close> when there is none.\<close>

fun change_node :: "string \<Rightarrow> (workspace_node \<Rightarrow> workspace_node) \<Rightarrow> workspace_node \<Rightarrow> workspace_node option"
and change_first :: "string \<Rightarrow> (workspace_node \<Rightarrow> workspace_node) \<Rightarrow> workspace_node list \<Rightarrow> workspace_node list option" where
  "change_node p f (WorkspaceNode n q d l e cs) =
     (if q = p then Some (f (WorkspaceNode n q d l e cs))
      else map_option (WorkspaceNode n q d l e) (change_first p f cs))"
| "change_first p f [] = None"
| "change_first p f (c # cs) =
     (case change_node p f c of
        Some c' \<Rightarrow> Some (c' # cs)
      | None \<Rightarrow> map_option (Cons c) (change_first p f cs))"

definition dir_entries :: "string \<Rightarrow> (string \<times> bool) list \<Rightarrow> workspace_node list" where
  "dir_entries dir es = map (\<lambda>(name, is_dir).
     WorkspaceNode name (if dir = ''.'' \<or> dir = [] then name else dir @ ''/'' @ name) is_dir (\<not> is_dir) False []) es"

definition replace_dir_children :: "string \<Rightarrow> (string \<times> bool) list \<Rightarrow> workspace_node \<Rightarrow> workspace_node" where
  "replace_dir_children dir es t =
     (case change_node dir (\<lambda>n. WorkspaceNode (wn_name n) (wn_path n) (wn_is_dir n) True False (dir_entries dir es)) t of
        Some t' \<Rightarrow> t'
      | None \<Rightarrow> t)"

section \<open>Previews\<close>

definition truncate_preview :: "string \<Rightarrow> nat \<Rightarrow> string" where
  "truncate_preview s limit =
     (if length (utf8_chars s) \<le> limit then s else concat (take limit (utf8_chars s)) @ ''...'')"

definition ellipsis :: string where
  "ellipsis = [CHR 0xE2, CHR 0x80, CHR 0xA6]"

definition json_display :: "(json \<Rightarrow> string) \<Rightarrow> json \<Rightarrow> string" where
  "json_display render v =
     (case v of
        JStr s \<Rightarrow> s
      | JNum n \<Rightarrow> render (JNum n)
      | JBool b \<Rightarrow> if b then ''true'' else ''false''
      | JNull \<Rightarrow> ''null''
      | _ \<Rightarrow> (let s = render v in
             if 60 < length s then concat (take 57 (utf8_chars s)) @ ellipsis else s))"

definition format_tool_args :: "(string \<Rightarrow> json option) \<Rightarrow> (json \<Rightarrow> string) \<Rightarrow> string \<Rightarrow> string" where
  "format_tool_args parse render a =
     (case parse a of
        None \<Rightarrow> a
      | Some (JObj []) \<Rightarrow> []
      | Some (JObj [(k, v)]) \<Rightarrow> json_display render v
      | Some (JObj ms) \<Rightarrow> join '', '' (map (\<lambda>(k, v). k @ ''='' @ json_display render v) ms)
      | Some v \<Rightarrow> json_display render v)"

section \<open>The state\<close>

record log_line =
  ll_event_type :: string
  ll_summary :: string
  ll_timestamp :: string

record log_summary =
  lg_run_id :: string
  lg_event_count :: nat
  lg_last_event :: string
  lg_last_event_time :: string

record skill_entry =
  sy_name :: string
  sy_version :: string
  sy_scope :: string
  sy_description :: string

record file_tab =
  ft_path :: string
  ft_content :: "string option"
  ft_error :: "string option"

record ui_state =
  us_session_id :: string
  us_run_count :: u32
  us_iteration :: u32
  us_tool_call_count :: u32
  us_run_start :: "time option"
  us_run_elapsed :: nat
  us_is_running :: bool
  us_exiting :: bool
  us_conversation :: "conversation_entry list"
  us_tool_calls :: "call_entry list"
  us_workspace :: workspace_node
  us_modified_files :: "string set"
  us_active_tab :: active_tab
  us_conversation_scroll :: "16 word"
  us_workspace_scroll :: "16 word"
  us_tools_scroll :: "16 word"
  us_auto_scroll :: bool
  us_approval :: approval_view
  us_dialog_open :: bool
  us_dialog_sessions :: "dialog_entry list"
  us_dialog_selected :: nat
  us_log_selected :: "string option"
  us_log_entries :: "log_line list"
  us_log_scroll :: "16 word"
  us_log_auto_scroll :: bool
  us_log_runs :: "log_summary list"
  us_skills :: "skill_entry list"
  us_unsafe_mode :: bool
  us_last_error :: "string option"
  us_ws_url :: string
  us_ws_connected :: bool
  us_ws_last_error :: "string option"
  us_open_files :: "file_tab list"
  us_selected_file :: "nat option"
  us_collapsed_dirs :: "string set"
  us_expanded_calls :: "nat set"

definition ui_new :: "string \<Rightarrow> string \<Rightarrow> string \<Rightarrow> ui_state" where
  "ui_new session dir url = \<lparr> us_session_id = session, us_run_count = 0, us_iteration = 0, us_tool_call_count = 0,
     us_run_start = None, us_run_elapsed = 0, us_is_running = False, us_exiting = False, us_conversation = [],
     us_tool_calls = [], us_workspace = workspace_root dir ''.'', us_modified_files = {}, us_active_tab = TabAgents,
     us_conversation_scroll = 0, us_workspace_scroll = 0, us_tools_scroll = 0, us_auto_scroll = True,
     us_approval = approval_clear, us_dialog_open = False, us_dialog_sessions = [], us_dialog_selected = 0,
     us_log_selected = None, us_log_entries = [], us_log_scroll = 0, us_log_auto_scroll = True, us_log_runs = [],
     us_skills = [], us_unsafe_mode = False, us_last_error = None, us_ws_url = url, us_ws_connected = False,
     us_ws_last_error = None, us_open_files = [], us_selected_file = None, us_collapsed_dirs = {},
     us_expanded_calls = {} \<rparr>"

definition reset_for_run :: "time \<Rightarrow> ui_state \<Rightarrow> ui_state" where
  "reset_for_run now s = s\<lparr>us_iteration := 0, us_tool_call_count := 0, us_run_start := Some now, us_run_elapsed := 0,
     us_tool_calls := [], us_modified_files := {}, us_tools_scroll := 0, us_run_count := us_run_count s + 1\<rparr>"

section \<open>Changing the last entry\<close>

definition push :: "conversation_entry \<Rightarrow> ui_state \<Rightarrow> ui_state" where
  "push e s = s\<lparr>us_conversation := us_conversation s @ [e]\<rparr>"

definition with_last :: "(conversation_entry \<Rightarrow> conversation_entry) \<Rightarrow> conversation_entry list \<Rightarrow> conversation_entry list" where
  "with_last f es = (if es = [] then [] else butlast es @ [f (last es)])"

fun add_thinking :: "string \<Rightarrow> conversation_entry \<Rightarrow> conversation_entry" where
  "add_thinking d (EThinking t) = EThinking (t @ d)"
| "add_thinking d e = e"

fun add_content :: "string \<Rightarrow> conversation_entry \<Rightarrow> conversation_entry" where
  "add_content d (EContentStreaming t) = EContentStreaming (t @ d)"
| "add_content d e = e"

fun flushed :: "conversation_entry \<Rightarrow> conversation_entry" where
  "flushed (EContentStreaming t) = (if t = [] then EContentStreaming t else EAgentAnswer t)"
| "flushed e = e"

definition flush_pending_content :: "ui_state \<Rightarrow> ui_state" where
  "flush_pending_content s = s\<lparr>us_conversation := with_last flushed (us_conversation s)\<rparr>"

fun is_streaming :: "conversation_entry \<Rightarrow> bool" where
  "is_streaming (EContentStreaming t) = True"
| "is_streaming _ = False"

definition complete_content :: "string \<Rightarrow> conversation_entry list \<Rightarrow> conversation_entry list" where
  "complete_content c es =
     (if es \<noteq> [] \<and> is_streaming (last es) then butlast es @ [EAgentAnswer c]
      else if c \<noteq> [] then es @ [EAgentAnswer c]
      else es)"

text \<open>The last running call of a tool gets a status.\<close>

fun set_first_running :: "string \<Rightarrow> call_status \<Rightarrow> u64 option \<Rightarrow> call_entry list \<Rightarrow> call_entry list" where
  "set_first_running tool st d [] = []"
| "set_first_running tool st d (c # cs) =
     (if ce_tool c = tool \<and> ce_status c = CallRunning then c\<lparr>ce_status := st, ce_duration := d\<rparr> # cs
      else c # set_first_running tool st d cs)"

definition update_call_status :: "string \<Rightarrow> call_status \<Rightarrow> u64 option \<Rightarrow> ui_state \<Rightarrow> ui_state" where
  "update_call_status tool st d s =
     s\<lparr>us_tool_calls := rev (set_first_running tool st d (rev (us_tool_calls s)))\<rparr>"

definition run_over :: "time \<Rightarrow> ui_state \<Rightarrow> ui_state" where
  "run_over now s = s\<lparr>us_run_elapsed := (case us_run_start s of None \<Rightarrow> 0 | Some t \<Rightarrow> now - t)\<rparr>"

section \<open>Applying an event\<close>

definition limit_text :: "u32 \<Rightarrow> u32 \<Rightarrow> string" where
  "limit_text c m = ''Max iterations reached ('' @ show_u32 c @ ''/'' @ show_u32 m @ '') '' @
     [CHR 0xE2, CHR 0x80, CHR 0x94] @ '' waiting for user decision...''"

definition begin_call :: "string \<Rightarrow> string \<Rightarrow> string \<Rightarrow> string \<Rightarrow> ui_state \<Rightarrow> ui_state" where
  "begin_call preview i tool args s =
     (let seq = us_tool_call_count s + 1 in
      push (EToolCall i tool preview args) (s\<lparr>us_tool_call_count := seq, us_tool_calls := us_tool_calls s @
        [\<lparr> ce_sequence = seq, ce_tool = tool, ce_preview = preview, ce_status = CallRunning, ce_duration = None \<rparr>]\<rparr>))"

fun ui_effect :: "(string \<Rightarrow> json option) \<Rightarrow> (json \<Rightarrow> string) \<Rightarrow> time \<Rightarrow> ui_event \<Rightarrow> ui_state \<Rightarrow> ui_state" where
  "ui_effect parse render now (UiAgentStart r i) s = push (EUserInput i) ((reset_for_run now s)\<lparr>us_is_running := True\<rparr>)"
| "ui_effect parse render now (UiAgentComplete r x) s = (run_over now (flush_pending_content s))\<lparr>us_is_running := False\<rparr>"
| "ui_effect parse render now (UiAgentAborted r x) s =
     (push (EError x) (run_over now (flush_pending_content s)))\<lparr>us_is_running := False\<rparr>"
| "ui_effect parse render now (UiAgentError r x) s =
     (push (EError x) (run_over now (flush_pending_content s)))\<lparr>us_is_running := False\<rparr>"
| "ui_effect parse render now UiThinkingStart s = push (EThinking []) s"
| "ui_effect parse render now (UiThinkingDelta d) s = s\<lparr>us_conversation := with_last (add_thinking d) (us_conversation s)\<rparr>"
| "ui_effect parse render now UiThinkingComplete s = s"
| "ui_effect parse render now UiContentStart s = push (EContentStreaming []) s"
| "ui_effect parse render now (UiContentDelta d) s = s\<lparr>us_conversation := with_last (add_content d) (us_conversation s)\<rparr>"
| "ui_effect parse render now (UiContentComplete c) s = s\<lparr>us_conversation := complete_content c (us_conversation s)\<rparr>"
| "ui_effect parse render now (UiToolCallBegin i tool args) s = begin_call (format_tool_args parse render args) i tool args s"
| "ui_effect parse render now (UiToolCallArgumentDelta d) s = s"
| "ui_effect parse render now (UiToolCallComplete i tool result d) s =
     push (EToolResult i tool (truncate_preview result 200) result True) (update_call_status tool CallSuccess d s)"
| "ui_effect parse render now (UiToolCallError i tool e d) s =
     push (EToolResult i tool e e False) (update_call_status tool CallError d s)"
| "ui_effect parse render now (UiToolCallSkipped i tool e d) s =
     push (EToolResult i tool e e False) (update_call_status tool CallSkipped d s)"
| "ui_effect parse render now (UiMaxIterationsReached c m) s = push (EError (limit_text c m)) s"
| "ui_effect parse render now (UiIterationContinued n) s =
     push (EAgentAnswer (''Continuing from iteration '' @ show_u32 n @ '' (counter reset to 0)'')) (s\<lparr>us_iteration := n\<rparr>)"
| "ui_effect parse render now (UiIterationComplete n a) s = s\<lparr>us_iteration := n\<rparr>"
| "ui_effect parse render now (UiApprovalRequest tool reason args) s =
     s\<lparr>us_approval := (us_approval s)\<lparr>av_tool := Some tool, av_reason := Some reason, av_arguments := Some args\<rparr>\<rparr>"
| "ui_effect parse render now (UiApprovalResolved b) s = s\<lparr>us_approval := approval_clear\<rparr>"
| "ui_effect parse render now _ s = s"

definition follow :: "ui_state \<Rightarrow> ui_state" where
  "follow s = s\<lparr>us_conversation_scroll := (if us_auto_scroll s then 0 else us_conversation_scroll s),
     us_tools_scroll := of_nat (length (us_tool_calls s))\<rparr>"

definition ui_apply :: "(string \<Rightarrow> json option) \<Rightarrow> (json \<Rightarrow> string) \<Rightarrow> time \<Rightarrow> ui_event \<Rightarrow> ui_state \<Rightarrow> ui_state" where
  "ui_apply parse render now ev s = follow (ui_effect parse render now ev s)"

definition ui_elapsed :: "time \<Rightarrow> ui_state \<Rightarrow> nat" where
  "ui_elapsed now s =
     (if us_is_running s then (case us_run_start s of Some t \<Rightarrow> now - t | None \<Rightarrow> us_run_elapsed s)
      else us_run_elapsed s)"

section \<open>The events of an agent\<close>

definition extract_file_path :: "(string \<Rightarrow> json option) \<Rightarrow> string \<Rightarrow> string option" where
  "extract_file_path parse r = (case parse r of Some v \<Rightarrow> json_str (json_get ''file_path'' v) | None \<Rightarrow> None)"

definition contains :: "string \<Rightarrow> string \<Rightarrow> bool" where
  "contains pat s \<longleftrightarrow> list_ex (\<lambda>i. take (length pat) (drop i s) = pat) [0..<Suc (length s)]"

definition changes_files :: "string \<Rightarrow> bool" where
  "changes_files tool \<longleftrightarrow> contains ''write'' (to_lower tool) \<or> contains ''edit'' (to_lower tool)"

text \<open>An agent event with the duration it carries, as an event of the interface; some are not shown.\<close>

fun ui_of_agent :: "(json \<Rightarrow> string) \<Rightarrow> u64 option \<Rightarrow> agent_event \<Rightarrow> ui_event option" where
  "ui_of_agent render d (AgentStart i) = Some (UiAgentStart [] i)"
| "ui_of_agent render d (AgentComplete r) = Some (UiAgentComplete [] (case r of None \<Rightarrow> [] | Some v \<Rightarrow> render v))"
| "ui_of_agent render d (AgentAborted r) = Some (UiAgentAborted [] r)"
| "ui_of_agent render d ThinkingStart = Some UiThinkingStart"
| "ui_of_agent render d (ThinkingDelta x) = Some (UiThinkingDelta x)"
| "ui_of_agent render d (ThinkingComplete x) = Some UiThinkingComplete"
| "ui_of_agent render d ContentStart = Some UiContentStart"
| "ui_of_agent render d (ContentDelta x) = Some (UiContentDelta x)"
| "ui_of_agent render d (ContentComplete x) = Some (UiContentComplete x)"
| "ui_of_agent render d (ToolCallBegin i n a) = Some (UiToolCallBegin i n a)"
| "ui_of_agent render d (ToolCallComplete i n r) = Some (UiToolCallComplete i n r d)"
| "ui_of_agent render d (ToolCallError i n e) = Some (UiToolCallError i n e d)"
| "ui_of_agent render d (ToolCallSkipped i n e) = Some (UiToolCallSkipped i n e d)"
| "ui_of_agent render d (MaxIterationsReached c m) = Some (UiMaxIterationsReached c m)"
| "ui_of_agent render d (IterationContinued n) = Some (UiIterationContinued n)"
| "ui_of_agent render d (IterationComplete n cs a) = Some (UiIterationComplete n a)"
| "ui_of_agent render d _ = None"

definition note_modified :: "(string \<Rightarrow> json option) \<Rightarrow> agent_event \<Rightarrow> ui_state \<Rightarrow> ui_state" where
  "note_modified parse ev s =
     (case ev of
        ToolCallComplete i tool result \<Rightarrow>
          if changes_files tool then
            (case extract_file_path parse result of
               Some p \<Rightarrow> s\<lparr>us_modified_files := insert p (us_modified_files s)\<rparr>
             | None \<Rightarrow> s)
          else s
      | _ \<Rightarrow> s)"

definition apply_stream ::
  "(string \<Rightarrow> json option) \<Rightarrow> (json \<Rightarrow> string) \<Rightarrow> time \<Rightarrow> u64 option \<Rightarrow> agent_event \<Rightarrow> ui_state \<Rightarrow> ui_state" where
  "apply_stream parse render now d ev s =
     (case ui_of_agent render d ev of
        None \<Rightarrow> s
      | Some e \<Rightarrow> note_modified parse ev (ui_apply parse render now e s))"

section \<open>Keys\<close>

datatype key_code =
    KeyChar string | KeyEnter | KeyEsc | KeyTab | KeyPageUp | KeyPageDown | KeyUp | KeyDown | KeyOther

datatype key_modifiers = NoModifier | Control | Alt | OtherModifiers

datatype input_action = InputExit | InputSend string | InputResume string | InputNone

definition scroll_up :: "16 word \<Rightarrow> ui_state \<Rightarrow> ui_state" where
  "scroll_up n s = s\<lparr>us_conversation_scroll := (if us_conversation_scroll s < n then 0 else us_conversation_scroll s - n),
     us_auto_scroll := False\<rparr>"

definition scroll_down :: "16 word \<Rightarrow> ui_state \<Rightarrow> ui_state" where
  "scroll_down n s = s\<lparr>us_conversation_scroll :=
       (if - 1 - us_conversation_scroll s < n then - 1 else us_conversation_scroll s + n),
     us_auto_scroll := False\<rparr>"

definition dialog_key :: "string \<Rightarrow> key_code \<Rightarrow> ui_state \<Rightarrow> input_action \<times> ui_state" where
  "dialog_key fresh code s =
     (let i = us_dialog_selected s; ss = us_dialog_sessions s in
      case code of
        KeyEsc \<Rightarrow> (InputNone, s\<lparr>us_dialog_open := False\<rparr>)
      | KeyEnter \<Rightarrow>
          (if i < length ss then (InputResume (de_session_id (ss ! i)), s\<lparr>us_dialog_open := False\<rparr>) else (InputNone, s))
      | KeyUp \<Rightarrow> (InputNone, if 0 < i then s\<lparr>us_dialog_selected := i - 1\<rparr> else s)
      | KeyDown \<Rightarrow> (InputNone, if i + 1 < length ss then s\<lparr>us_dialog_selected := i + 1\<rparr> else s)
      | KeyChar c \<Rightarrow>
          (if c = ''n'' then (InputNone, s\<lparr>us_dialog_open := False, us_session_id := fresh\<rparr>)
           else if c = ''d'' \<and> i < length ss \<and> de_session_id (ss ! i) \<noteq> us_session_id s then
             (InputNone, s\<lparr>us_dialog_sessions := take i ss @ drop (Suc i) ss, us_dialog_selected := 0\<rparr>)
           else (InputNone, s))
      | _ \<Rightarrow> (InputNone, s))"

definition toggle_unsafe :: "ui_state \<Rightarrow> ui_state" where
  "toggle_unsafe s =
     (let on = \<not> us_unsafe_mode s in
      push (EAgentAnswer (if on then ''Unsafe mode enabled -- all tool approvals auto-approved'' else ''Unsafe mode disabled''))
        (s\<lparr>us_unsafe_mode := on\<rparr>))"

definition control_key :: "string \<Rightarrow> ui_state \<Rightarrow> input_action \<times> ui_state" where
  "control_key c s =
     (if c = ''1'' then (InputNone, s\<lparr>us_active_tab := TabConversation\<rparr>)
      else if c = ''2'' then (InputNone, s\<lparr>us_active_tab := TabWorkspace\<rparr>)
      else if c = ''3'' then (InputNone, s\<lparr>us_active_tab := TabLogs\<rparr>)
      else if c = ''4'' then (InputNone, s\<lparr>us_active_tab := TabSkills\<rparr>)
      else if c = ''s'' then
        (InputNone, if us_is_running s then s else s\<lparr>us_dialog_open := \<not> us_dialog_open s\<rparr>)
      else if c = ''q'' then (if us_is_running s then InputNone else InputExit, s\<lparr>us_exiting := True\<rparr>)
      else if c = ''u'' then (InputNone, toggle_unsafe s)
      else (InputNone, s))"

definition main_key :: "key_modifiers \<Rightarrow> key_code \<Rightarrow> string \<Rightarrow> ui_state \<Rightarrow> input_action \<times> ui_state" where
  "main_key mods code line s =
     (case code of
        KeyEnter \<Rightarrow>
          (if mods = Alt \<or> us_is_running s \<or> trim line = [] then (InputNone, s) else (InputSend (trim line), s))
      | KeyEsc \<Rightarrow> (InputNone, s)
      | KeyTab \<Rightarrow> (InputNone, s\<lparr>us_active_tab := tab_next (us_active_tab s)\<rparr>)
      | KeyPageUp \<Rightarrow> (InputNone, scroll_up 10 s)
      | KeyPageDown \<Rightarrow> (InputNone, scroll_down 10 s)
      | KeyUp \<Rightarrow> (InputNone, scroll_up 1 s)
      | KeyDown \<Rightarrow> (InputNone, scroll_down 1 s)
      | KeyChar c \<Rightarrow> if mods = Control then control_key c s else (InputNone, s)
      | KeyOther \<Rightarrow> (InputNone, s))"

definition answers_approval :: "key_code \<Rightarrow> bool" where
  "answers_approval code \<longleftrightarrow> (case code of KeyChar c \<Rightarrow> c \<in> set [''a'', ''A'', ''r'', ''R'', ''s'', ''S''] | _ \<Rightarrow> False)"

definition handle_key :: "string \<Rightarrow> key_modifiers \<Rightarrow> key_code \<Rightarrow> string \<Rightarrow> ui_state \<Rightarrow> input_action \<times> ui_state" where
  "handle_key fresh mods code line s =
     (if has_pending (us_approval s) \<and> answers_approval code then (InputNone, s\<lparr>us_approval := approval_clear\<rparr>)
      else if us_dialog_open s then
        (if code = KeyChar ''s'' \<and> mods = Control then (InputNone, s\<lparr>us_dialog_open := False\<rparr>)
         else dialog_key fresh code s)
      else main_key mods code line s)"

section \<open>The main loop\<close>

text \<open>
  The loop owns the line that is typed; a submission runs in a task of its own, and its end clears the
  running flag.
\<close>

record tui =
  tui_state :: ui_state
  tui_line :: string
  tui_runs :: "string list"
  tui_left :: bool

definition tui_start :: "ui_state \<Rightarrow> tui" where
  "tui_start s = \<lparr> tui_state = s, tui_line = [], tui_runs = [], tui_left = False \<rparr>"

definition tui_key :: "string \<Rightarrow> key_modifiers \<Rightarrow> key_code \<Rightarrow> tui \<Rightarrow> tui" where
  "tui_key fresh mods code t =
     (case handle_key fresh mods code (tui_line t) (tui_state t) of
        (InputExit, s) \<Rightarrow> t\<lparr>tui_state := s, tui_left := True\<rparr>
      | (InputSend x, s) \<Rightarrow> t\<lparr>tui_state := s\<lparr>us_is_running := True\<rparr>, tui_line := [], tui_runs := tui_runs t @ [x]\<rparr>
      | (_, s) \<Rightarrow> t\<lparr>tui_state := s\<rparr>)"

definition tui_run_ends :: "string option \<Rightarrow> tui \<Rightarrow> tui" where
  "tui_run_ends err t =
     (let s = (tui_state t)\<lparr>us_is_running := False\<rparr> in
      t\<lparr>tui_state := (case err of None \<Rightarrow> s | Some e \<Rightarrow> s\<lparr>us_last_error := Some e\<rparr>)\<rparr>)"

inductive tui_step :: "(string \<Rightarrow> json option) \<Rightarrow> (json \<Rightarrow> string) \<Rightarrow> tui \<Rightarrow> tui \<Rightarrow> bool"
  for parse :: "string \<Rightarrow> json option" and render :: "json \<Rightarrow> string" where
  key: "\<not> tui_left t \<Longrightarrow> tui_step parse render t (tui_key fresh mods code t)"
| event: "tui_step parse render t (t\<lparr>tui_state := apply_stream parse render now d ev (tui_state t)\<rparr>)"
| ended: "tui_step parse render t (tui_run_ends err t)"

inductive_cases tui_stepE: "tui_step parse render t t'"

end
