(* ===== verification/UiCorrect.thy ===== *)
theory UiCorrect
  imports UiState AgentCalls Utf8Correct
begin

text \<open>
  The terminal interface: what holds in every state it reaches, what it shows of a run of an agent and of
  an answer that streams in, and what a preview cuts off.
\<close>

section \<open>Reachable states\<close>

definition numbered :: "call_entry list \<Rightarrow> bool" where
  "numbered cs \<longleftrightarrow> map ce_sequence cs = map of_nat [1..<Suc (length cs)]"

lemma numbered_Nil [simp]: "numbered []"
  by (simp add: numbered_def)

lemma numbered_snoc: "numbered (cs @ [c]) \<longleftrightarrow> numbered cs \<and> ce_sequence c = of_nat (Suc (length cs))"
  by (auto simp: numbered_def)

definition ui_ok :: "ui_state \<Rightarrow> bool" where
  "ui_ok s \<longleftrightarrow> numbered (us_tool_calls s) \<and> us_tool_call_count s = of_nat (length (us_tool_calls s)) \<and>
     us_tools_scroll s = of_nat (length (us_tool_calls s)) \<and> (us_auto_scroll s \<longrightarrow> us_conversation_scroll s = 0)"

lemma sequence_set_running [simp]: "map ce_sequence (set_first_running t st d cs) = map ce_sequence cs"
  by (induction cs) auto

lemma length_set_running [simp]: "length (set_first_running t st d cs) = length cs"
  by (induction cs) auto

lemma numbered_update [simp]: "numbered (rev (set_first_running t st d (rev cs))) \<longleftrightarrow> numbered cs"
  by (simp add: numbered_def rev_map [symmetric])

definition counted :: "ui_state \<Rightarrow> bool" where
  "counted s \<longleftrightarrow> numbered (us_tool_calls s) \<and> us_tool_call_count s = of_nat (length (us_tool_calls s))"

lemma effect_counted: "counted s \<Longrightarrow> counted (ui_effect parse render now ev s)"
  by (cases ev) (simp_all add: counted_def push_def reset_for_run_def run_over_def flush_pending_content_def
      update_call_status_def begin_call_def Let_def numbered_snoc)

lemma ui_ok_counted: "ui_ok s \<longleftrightarrow> counted s \<and> us_tools_scroll s = of_nat (length (us_tool_calls s)) \<and>
    (us_auto_scroll s \<longrightarrow> us_conversation_scroll s = 0)"
  by (auto simp: ui_ok_def counted_def)

lemma apply_ok: "ui_ok s \<Longrightarrow> ui_ok (ui_apply parse render now ev s)"
  using effect_counted [of s parse render now ev] by (simp add: ui_ok_counted ui_apply_def follow_def counted_def)

lemma ui_ok_modified [simp]: "ui_ok (note_modified parse ev s) \<longleftrightarrow> ui_ok s"
  by (simp add: note_modified_def ui_ok_def split: agent_event.split option.split)

lemma stream_ok: "ui_ok s \<Longrightarrow> ui_ok (apply_stream parse render now d ev s)"
  by (simp add: apply_stream_def apply_ok split: option.split)

lemma dialog_keeps_ok: "ui_ok s \<Longrightarrow> ui_ok (snd (dialog_key fresh code s))"
  by (simp add: dialog_key_def Let_def ui_ok_def split: key_code.split)

lemma control_keeps_ok: "ui_ok s \<Longrightarrow> ui_ok (snd (control_key c s))"
  by (simp add: control_key_def ui_ok_def toggle_unsafe_def Let_def push_def)

lemma scroll_keeps_ok: "ui_ok s \<Longrightarrow> ui_ok (scroll_up n s)" "ui_ok s \<Longrightarrow> ui_ok (scroll_down n s)"
  by (simp_all add: scroll_up_def scroll_down_def ui_ok_def)

lemma main_keeps_ok: "ui_ok s \<Longrightarrow> ui_ok (snd (main_key mods code line s))"
  by (cases code) (auto simp: main_key_def scroll_keeps_ok control_keeps_ok, simp_all add: ui_ok_def)

lemma key_keeps_ok: "ui_ok s \<Longrightarrow> ui_ok (snd (handle_key fresh mods code line s))"
  by (simp add: handle_key_def dialog_keeps_ok main_keeps_ok) (simp add: ui_ok_def)

lemma send_only_typed: "handle_key fresh mods code line s = (InputSend x, s') \<Longrightarrow> x = trim line \<and> x \<noteq> [] \<and> \<not> us_is_running s \<and> s' = s"
  by (auto simp: handle_key_def dialog_key_def main_key_def control_key_def Let_def split: if_splits key_code.splits)

lemma exit_only_idle: "handle_key fresh mods code line s = (InputExit, s') \<Longrightarrow> \<not> us_is_running s"
  by (auto simp: handle_key_def dialog_key_def main_key_def control_key_def Let_def split: if_splits key_code.splits)

definition tui_ok :: "tui \<Rightarrow> bool" where
  "tui_ok t \<longleftrightarrow> ui_ok (tui_state t) \<and> tui_line t = [] \<and> tui_runs t = []"

lemma step_keeps_ok:
  assumes "tui_step parse render t t'" "tui_ok t"
  shows "tui_ok t'"
  using assms(1)
proof cases
  case (key fresh mods code)
  obtain a s where h: "handle_key fresh mods code (tui_line t) (tui_state t) = (a, s)" by force
  have "ui_ok s" using key_keeps_ok [of "tui_state t" fresh mods code "tui_line t"] assms(2) h by (simp add: tui_ok_def)
  moreover have "a \<noteq> InputSend x" for x
    using send_only_typed [of fresh mods code "tui_line t" "tui_state t" x s] assms(2) h
    by (auto simp: tui_ok_def trim_def trim_start_def trim_end_def)
  ultimately show ?thesis using key(1) assms(2) h by (cases a) (auto simp: tui_key_def tui_ok_def)
next
  case (event now d ev)
  with assms(2) show ?thesis by (simp add: tui_ok_def stream_ok)
next
  case (ended err)
  with assms(2) show ?thesis by (auto simp: tui_ok_def tui_run_ends_def Let_def ui_ok_def split: option.split)
qed

section \<open>The calls of a run\<close>

fun status_after :: "agent_event \<Rightarrow> call_status" where
  "status_after (ToolCallComplete i n r) = CallSuccess"
| "status_after (ToolCallError i n e) = CallError"
| "status_after (ToolCallSkipped i n r) = CallSkipped"
| "status_after _ = CallRunning"

fun called_tool :: "agent_event \<Rightarrow> string" where
  "called_tool (ToolCallBegin i n a) = n"
| "called_tool _ = []"

text \<open>Each call and what became of it, when every call is closed before the next one.\<close>

fun call_log :: "agent_event list \<Rightarrow> (string \<times> call_status) list" where
  "call_log [] = []"
| "call_log [b] = [(called_tool b, CallRunning)]"
| "call_log (b # c # evs) = (called_tool b, status_after c) # call_log evs"

definition calls_view :: "ui_state \<Rightarrow> (string \<times> call_status) list" where
  "calls_view s = map (\<lambda>c. (ce_tool c, ce_status c)) (us_tool_calls s)"

fun mark_running :: "string \<Rightarrow> call_status \<Rightarrow> (string \<times> call_status) list \<Rightarrow> (string \<times> call_status) list" where
  "mark_running n st [] = []"
| "mark_running n st (c # cs) = (if c = (n, CallRunning) then (n, st) # cs else c # mark_running n st cs)"

fun view_step :: "agent_event \<Rightarrow> (string \<times> call_status) list \<Rightarrow> (string \<times> call_status) list" where
  "view_step (AgentStart i) l = []"
| "view_step (ToolCallBegin i n a) l = l @ [(n, CallRunning)]"
| "view_step (ToolCallComplete i n r) l = rev (mark_running n CallSuccess (rev l))"
| "view_step (ToolCallError i n e) l = rev (mark_running n CallError (rev l))"
| "view_step (ToolCallSkipped i n e) l = rev (mark_running n CallSkipped (rev l))"
| "view_step _ l = l"

lemma view_set_running:
  "map (\<lambda>c. (ce_tool c, ce_status c)) (set_first_running n st d cs) = mark_running n st (map (\<lambda>c. (ce_tool c, ce_status c)) cs)"
  by (induction cs) auto

lemma view_simps [simp]:
  "calls_view (push e s) = calls_view s" "calls_view (follow s) = calls_view s"
  "calls_view (flush_pending_content s) = calls_view s" "calls_view (run_over now s) = calls_view s"
  "calls_view (note_modified parse ev s) = calls_view s" "calls_view (s\<lparr>us_is_running := b\<rparr>) = calls_view s"
  "calls_view (s\<lparr>us_conversation := es\<rparr>) = calls_view s" "calls_view (s\<lparr>us_iteration := n\<rparr>) = calls_view s"
  "calls_view (reset_for_run now s) = []"
  "calls_view (begin_call p i tool a s) = calls_view s @ [(tool, CallRunning)]"
  "calls_view (update_call_status tool st d s) = rev (mark_running tool st (rev (calls_view s)))"
  by (simp_all add: calls_view_def push_def follow_def flush_pending_content_def run_over_def note_modified_def
      reset_for_run_def begin_call_def Let_def update_call_status_def rev_map [symmetric] view_set_running
      split: agent_event.split option.split)

lemma view_apply_stream: "calls_view (apply_stream parse render now d ev s) = view_step ev (calls_view s)"
  by (cases ev) (simp_all add: apply_stream_def ui_apply_def)

text \<open>Events, each with the time at which it is applied and the duration it carries.\<close>

definition ui_run ::
  "(string \<Rightarrow> json option) \<Rightarrow> (json \<Rightarrow> string) \<Rightarrow> (time \<times> u64 option \<times> agent_event) list \<Rightarrow> ui_state \<Rightarrow> ui_state" where
  "ui_run parse render xs s = foldl (\<lambda>s (now, d, ev). apply_stream parse render now d ev s) s xs"

abbreviation events_of :: "(time \<times> u64 option \<times> agent_event) list \<Rightarrow> agent_event list" where
  "events_of \<equiv> map (snd \<circ> snd)"

lemma ui_run_simps [simp]:
  "ui_run parse render [] s = s"
  "ui_run parse render ((now, d, ev) # xs) s = ui_run parse render xs (apply_stream parse render now d ev s)"
  "ui_run parse render (xs @ ys) s = ui_run parse render ys (ui_run parse render xs s)"
  by (simp_all add: ui_run_def)

lemma view_quiet_step: "\<not> about_calls ev \<Longrightarrow> view_step ev l = l"
  by (cases ev) auto

lemma view_ui_run: "calls_view (ui_run parse render xs s) = foldl (\<lambda>l ev. view_step ev l) (calls_view s) (calls_in (events_of xs))"
proof (induction xs arbitrary: s)
  case (Cons x xs)
  obtain now d ev where "x = (now, d, ev)" by (cases x)
  with Cons show ?case by (simp add: view_apply_stream view_quiet_step)
qed simp

lemma view_closed: "closes b c \<Longrightarrow> view_step c (view_step b l) = l @ [(called_tool b, status_after c)]"
  by (cases "(b, c)" rule: closes.cases) auto

lemma view_log: "last_open evs \<Longrightarrow> foldl (\<lambda>l ev. view_step ev l) l evs = l @ call_log evs"
proof (induction evs arbitrary: l rule: last_open.induct)
  case (2 e)
  then show ?case by (cases e) auto
qed (auto simp: view_closed)

lemma log_closed: "all_closed evs \<Longrightarrow> list_all (\<lambda>c. snd c \<noteq> CallRunning) (call_log evs)"
proof (induction evs rule: all_closed.induct)
  case (3 b c evs)
  then show ?case by (cases "(b, c)" rule: closes.cases) auto
qed auto

lemma ui_starts: "apply_stream parse render now d (AgentStart i) s =
    follow (push (EUserInput i) ((reset_for_run now s)\<lparr>us_is_running := True\<rparr>))"
  by (simp add: apply_stream_def ui_apply_def note_modified_def)

lemma ui_completes: "\<not> us_is_running (apply_stream parse render now d (AgentComplete r) s)"
  by (simp add: apply_stream_def ui_apply_def note_modified_def follow_def)

section \<open>An answer that streams in\<close>

fun shown :: "stream_data \<Rightarrow> bool" where
  "shown (SThinkingDelta d) = True"
| "shown (SThinkingComplete t) = True"
| "shown (SContentDelta d) = True"
| "shown (SContentComplete c) = True"
| "shown _ = False"

fun speaks :: "agent_event \<Rightarrow> bool" where
  "speaks ThinkingStart = True"
| "speaks (ThinkingDelta d) = True"
| "speaks (ThinkingComplete t) = True"
| "speaks ContentStart = True"
| "speaks (ContentDelta d) = True"
| "speaks (ContentComplete c) = True"
| "speaks _ = False"

text \<open>What the agent tells of a stream, by whether thinking and content have started.\<close>

fun told :: "bool \<Rightarrow> bool \<Rightarrow> stream_data list \<Rightarrow> agent_event list" where
  "told t c [] = []"
| "told t c (SThinkingDelta d # ds) = (if t then [] else [ThinkingStart]) @ ThinkingDelta d # told True c ds"
| "told t c (SThinkingComplete x # ds) = (if t then [] else [ThinkingStart, ThinkingDelta x]) @ ThinkingComplete x # told t c ds"
| "told t c (SContentDelta d # ds) = (if c then [] else [ContentStart]) @ ContentDelta d # told t True ds"
| "told t c (SContentComplete x # ds) = (if c then [] else [ContentStart, ContentDelta x]) @ ContentComplete x # told t c ds"
| "told t c (d # ds) = told t c ds"

lemma told_shown: "told t c ds = told t c (filter shown ds)"
  by (induction t c ds rule: told.induct) auto

lemma consume_told:
  "consume_items (map Inr vs) a = (evs, r) \<Longrightarrow>
    filter speaks evs = told (an_thinking_started a) (an_content_started a) (map sv_data vs)"
proof (induction vs arbitrary: a evs r)
  case (Cons v vs)
  obtain e1 a1 where v: "consume_event (sv_data v) a = (e1, a1)" by force
  obtain e2 r2 where vs: "consume_items (map Inr vs) a1 = (e2, r2)" by force
  have "filter speaks evs = filter speaks e1 @ told (an_thinking_started a1) (an_content_started a1) (map sv_data vs)"
    using Cons.prems Cons.IH [OF vs] v vs by auto
  with v show ?case by (cases "sv_data v") auto
qed auto

lemma consume_speech: "consume_items xs a = (evs, r) \<Longrightarrow> list_all (\<lambda>e. speaks e \<or> (\<exists>i n d. e = ToolCallArgumentDelta i n d)) evs"
proof (induction xs a arbitrary: evs r rule: consume_items.induct)
  case (3 v xs a)
  obtain e1 a1 where v: "consume_event (sv_data v) a = (e1, a1)" by force
  obtain e2 r2 where xs: "consume_items xs a1 = (e2, r2)" by force
  have "list_all (\<lambda>e. speaks e \<or> (\<exists>i n d. e = ToolCallArgumentDelta i n d)) e1"
    using v by (cases "(sv_data v, a)" rule: consume_event.cases) auto
  with 3 v xs show ?case by auto
qed auto

text \<open>What these events do to the conversation.\<close>

fun conv_step :: "agent_event \<Rightarrow> conversation_entry list \<Rightarrow> conversation_entry list" where
  "conv_step ThinkingStart es = es @ [EThinking []]"
| "conv_step (ThinkingDelta d) es = with_last (add_thinking d) es"
| "conv_step ContentStart es = es @ [EContentStreaming []]"
| "conv_step (ContentDelta d) es = with_last (add_content d) es"
| "conv_step (ContentComplete c) es = complete_content c es"
| "conv_step _ es = es"

lemma conv_apply:
  "speaks ev \<or> (\<exists>i n d. ev = ToolCallArgumentDelta i n d) \<Longrightarrow>
    us_conversation (apply_stream parse render now d ev s) = conv_step ev (us_conversation s)"
  by (cases ev) (auto simp: apply_stream_def ui_apply_def follow_def push_def note_modified_def)

lemma conv_silent: "\<not> speaks ev \<Longrightarrow> conv_step ev es = es"
  by (cases ev) auto

abbreviation conv_steps :: "agent_event list \<Rightarrow> conversation_entry list \<Rightarrow> conversation_entry list" where
  "conv_steps evs es \<equiv> foldl (\<lambda>es ev. conv_step ev es) es evs"

lemma conv_run:
  "list_all (\<lambda>e. speaks e \<or> (\<exists>i n d. e = ToolCallArgumentDelta i n d)) (events_of xs) \<Longrightarrow>
    us_conversation (ui_run parse render xs s) = conv_steps (filter speaks (events_of xs)) (us_conversation s)"
proof (induction xs arbitrary: s)
  case (Cons x xs)
  obtain now d ev where "x = (now, d, ev)" by (cases x)
  with Cons show ?case by (auto simp: conv_apply conv_silent)
qed simp

lemma with_last_snoc [simp]: "with_last f (es @ [e]) = es @ [f e]"
  by (simp add: with_last_def)

lemma conv_thinking: "conv_steps (told True c (map SThinkingDelta ds @ rest)) (es @ [EThinking t]) =
    conv_steps (told True c rest) (es @ [EThinking (t @ concat ds)])"
  by (induction ds arbitrary: t) auto

lemma conv_content: "conv_steps (told t True (map SContentDelta ds @ rest)) (es @ [EContentStreaming x]) =
    conv_steps (told t True rest) (es @ [EContentStreaming (x @ concat ds)])"
  by (induction ds arbitrary: x) auto

section \<open>Properties\<close>

inductive tui_reach :: "(string \<Rightarrow> json option) \<Rightarrow> (json \<Rightarrow> string) \<Rightarrow> tui \<Rightarrow> bool"
  for parse :: "string \<Rightarrow> json option" and render :: "json \<Rightarrow> string" where
  start: "tui_reach parse render (tui_start (ui_new session dir url))"
| step: "tui_reach parse render t \<Longrightarrow> tui_step parse render t t' \<Longrightarrow> tui_reach parse render t'"

lemma reach_ok: "tui_reach parse render t \<Longrightarrow> tui_ok t"
proof (induction rule: tui_reach.induct)
  case (start session dir url)
  show ?case by (simp add: tui_ok_def tui_start_def ui_ok_def ui_new_def)
qed (rule step_keeps_ok)

text \<open>
  The states of the interface.  Whatever keys and events arrive, the calls shown are numbered
  from one, their number is the count of calls and the scroll position of their list, and a
  conversation that follows its end is not scrolled.
\<close>

theorem tui_reachable:
  assumes "tui_reach parse render t"
  shows "map ce_sequence (us_tool_calls (tui_state t)) = map of_nat [1..<Suc (length (us_tool_calls (tui_state t)))] \<and>
    us_tool_call_count (tui_state t) = of_nat (length (us_tool_calls (tui_state t))) \<and>
    us_tools_scroll (tui_state t) = of_nat (length (us_tool_calls (tui_state t))) \<and>
    (us_auto_scroll (tui_state t) \<longrightarrow> us_conversation_scroll (tui_state t) = 0)"
  using reach_ok [OF assms] by (simp add: tui_ok_def ui_ok_def numbered_def)

text \<open>
  Nothing can be sent from this interface.  No key writes into the line that is typed, so whatever
  keys are pressed, no run is ever started.
\<close>

theorem tui_never_sends:
  assumes "tui_reach parse render t"
  shows "tui_line t = [] \<and> tui_runs t = []"
  using reach_ok [OF assms] by (simp add: tui_ok_def)

text \<open>
  C25: what the interface shows of a run.  After all the events of a run, the calls it shows are those of
  the run in order, each with what became of it; when the run returned an answer none of them is
  running any more, and neither is the agent.
\<close>

theorem ui_shows_run:
  assumes run: "agent_task env rs = Some (r, rs')"
    and evs: "rc_events (rs_ctx rs') = rc_events (rs_ctx rs) @ events_of xs"
  shows "calls_view (ui_run parse render xs s) = call_log (tl (calls_in (events_of xs))) \<and>
    (ok r \<longrightarrow> \<not> us_is_running (ui_run parse render xs s) \<and>
       list_all (\<lambda>c. ce_status c \<noteq> CallRunning) (us_tool_calls (ui_run parse render xs s)))"
proof -
  obtain rest where rest: "events_of xs = AgentStart (rc_user_input (rs_ctx rs)) # rest"
    "if ok r then all_closed (calls_in rest) else last_open (calls_in rest)"
    using run_trace [OF run] evs by auto
  then have view: "calls_view (ui_run parse render xs s) = call_log (calls_in rest)"
    using view_log [of "calls_in rest" "[]"] last_open_closed by (simp add: view_ui_run split: if_splits)
  show ?thesis
  proof (cases "ok r")
    case True
    then obtain resp where "r = Inr resp" by (cases r) auto
    then obtain init where "events_of xs = AgentStart (rc_user_input (rs_ctx rs)) # init @ [AgentComplete (Some (response_json resp))]"
      using task_reports [OF run] evs by (auto simp: reported_def)
    then obtain ys y where xs: "xs = ys @ [y]" "snd (snd y) = AgentComplete (Some (response_json resp))"
      by (cases xs rule: rev_cases) auto
    have "\<not> us_is_running (ui_run parse render xs s)"
      using xs by (cases y) (simp add: ui_completes)
    moreover have "list_all (\<lambda>c. ce_status c \<noteq> CallRunning) (us_tool_calls (ui_run parse render xs s))"
    proof -
      have "list_all (\<lambda>c. snd c \<noteq> CallRunning) (calls_view (ui_run parse render xs s))"
        using view log_closed [of "calls_in rest"] rest(2) True by simp
      then show ?thesis by (simp add: calls_view_def list_all_iff)
    qed
    ultimately show ?thesis using view rest by simp
  qed (use view rest in simp)
qed

text \<open>
  What is shown of an answer that streams in.  When the model thinks first and then writes,
  the conversation grows by the thinking and by the answer the model completed, whatever else comes
  between in the stream.
\<close>

theorem stream_shown:
  assumes "consume_llm_stream (map Inr vs) = (events_of xs, r)"
    and "filter shown (map sv_data vs) =
      map SThinkingDelta ts @ (if b then [SThinkingComplete t] else []) @ map SContentDelta cs @ [SContentComplete c]"
    and "ts \<noteq> []" "cs \<noteq> []"
  shows "us_conversation (ui_run parse render xs s) = us_conversation s @ [EThinking (concat ts), EAgentAnswer c]"
proof -
  obtain t1 ts' where ts: "ts = t1 # ts'" using assms(3) by (cases ts) auto
  obtain c1 cs' where cs: "cs = c1 # cs'" using assms(4) by (cases cs) auto
  have "us_conversation (ui_run parse render xs s) = conv_steps (filter speaks (events_of xs)) (us_conversation s)"
    using assms(1) consume_speech [of "map Inr vs" answer_new "events_of xs" r]
    by (intro conv_run) (simp add: consume_llm_stream_def)
  also have "filter speaks (events_of xs) = told False False (filter shown (map sv_data vs))"
    using assms(1) consume_told [of vs answer_new "events_of xs" r] told_shown [of False False "map sv_data vs"]
    by (simp add: consume_llm_stream_def answer_new_def)
  also have "conv_steps \<dots> (us_conversation s) = us_conversation s @ [EThinking (concat ts), EAgentAnswer c]"
  proof -
    have think: "conv_steps (told False False (map SThinkingDelta ts @ rest)) es =
        conv_steps (told True False rest) (es @ [EThinking (concat ts)])" for rest es
      using conv_thinking [where ds = ts' and t = t1 and es = es and rest = rest and c = False] by (simp add: ts)
    have say: "conv_steps (told True False (map SContentDelta cs @ [SContentComplete c])) es = es @ [EAgentAnswer c]" for es
      using conv_content [where t = True and ds = cs' and rest = "[SContentComplete c]" and es = es and x = c1]
      by (simp add: cs complete_content_def)
    show ?thesis by (simp add: assms(2) think say)
  qed
  finally show ?thesis .
qed

text \<open>
  Previews.  The preview of a text is the text itself, or its first characters and three dots; it is
  well-formed, and it never ends within a character.
\<close>

theorem preview_spec:
  assumes "valid_utf8 s"
  shows "valid_utf8 (truncate_preview s limit) \<and>
    (if length (utf8_chars s) \<le> limit then truncate_preview s limit = s
     else \<exists>rest. s = concat (take limit (utf8_chars s)) @ rest \<and>
       truncate_preview s limit = concat (take limit (utf8_chars s)) @ ''...'')"
proof -
  have "s = concat (take limit (utf8_chars s)) @ concat (drop limit (utf8_chars s))"
    by (metis append_take_drop_id concat_append concat_chars)
  moreover have "valid_utf8 ''...''" by code_simp
  then have "valid_utf8 (concat (take limit (utf8_chars s)) @ ''...'')"
    by (rule valid_utf8_append [OF valid_chars [OF assms]])
  ultimately show ?thesis using assms by (auto simp: truncate_preview_def)
qed

section \<open>Witnesses\<close>

lemma demo_reach: "tui_reach (\<lambda>x. None) (\<lambda>v. []) (tui_key [] Control (KeyChar ''q'') (tui_start (ui_new ''s'' ''.'' ''local'')))"
  by (rule tui_reach.step [OF tui_reach.start]) (rule tui_step.key, simp add: tui_start_def)

theorem tui_reachable_witness:
  "us_tool_call_count (tui_state (tui_key [] Control (KeyChar ''q'') (tui_start (ui_new ''s'' ''.'' ''local'')))) =
   of_nat (length (us_tool_calls (tui_state (tui_key [] Control (KeyChar ''q'') (tui_start (ui_new ''s'' ''.'' ''local''))))))"
  using tui_reachable [OF demo_reach] by blast

theorem tui_never_sends_witness:
  "tui_runs (tui_key [] Control (KeyChar ''q'') (tui_start (ui_new ''s'' ''.'' ''local''))) = []"
  using tui_never_sends [OF demo_reach] by blast

theorem ui_shows_run_witness:
  "\<exists>r rs' xs. agent_task demo_env demo_run = Some (r, rs') \<and>
    rc_events (rs_ctx rs') = rc_events (rs_ctx demo_run) @ events_of xs \<and>
    calls_view (ui_run (\<lambda>x. None) (\<lambda>v. []) xs (ui_new ''s'' ''.'' ''local'')) = call_log (tl (calls_in (events_of xs)))"
proof -
  obtain r rs' where run: "agent_task demo_env demo_run = Some (r, rs')"
    using task_returns [of demo_env demo_run] by (auto simp: demo_limit demo_run_def run_context_new_def)
  obtain evs where evs: "rc_events (rs_ctx rs') = rc_events (rs_ctx demo_run) @ evs"
    using run_trace [OF run] by blast
  have "events_of (map (\<lambda>e. (0, None, e)) evs) = evs" by (simp add: comp_def)
  with evs have "rc_events (rs_ctx rs') = rc_events (rs_ctx demo_run) @ events_of (map (\<lambda>e. (0, None, e)) evs)"
    by simp
  from ui_shows_run [OF run this] run this show ?thesis by blast
qed

definition demo_stream :: "stream_event list" where
  "demo_stream = map (\<lambda>d. \<lparr> sv_id = ''e'', sv_data = d \<rparr>)
     [SThinkingDelta ''hm'', SToolCallArgumentDelta ''1'' ''ls'' ''x'', SContentDelta ''hi'', SContentComplete ''hi'']"

definition demo_told :: "(time \<times> u64 option \<times> agent_event) list" where
  "demo_told = map (\<lambda>e. (0, None, e)) [ThinkingStart, ThinkingDelta ''hm'', ToolCallArgumentDelta ''1'' ''ls'' ''x'',
     ContentStart, ContentDelta ''hi'', ContentComplete ''hi'']"

theorem stream_shown_witness:
  "us_conversation (ui_run (\<lambda>x. None) (\<lambda>v. []) demo_told (ui_new ''s'' ''.'' ''local'')) =
   us_conversation (ui_new ''s'' ''.'' ''local'') @ [EThinking (concat [''hm'']), EAgentAnswer ''hi'']"
proof (rule stream_shown)
  show "consume_llm_stream (map Inr demo_stream) = (events_of demo_told, snd (consume_llm_stream (map Inr demo_stream)))"
    by (simp add: consume_llm_stream_def demo_stream_def demo_told_def answer_new_def)
  show "filter shown (map sv_data demo_stream) =
      map SThinkingDelta [''hm''] @ (if False then [SThinkingComplete []] else []) @ map SContentDelta [''hi''] @ [SContentComplete ''hi'']"
    by (simp add: demo_stream_def)
qed simp_all

theorem preview_spec_witness:
  "valid_utf8 (truncate_preview ''hello'' 3) \<and> truncate_preview ''hello'' 3 = ''hel...''"
proof -
  have "valid_utf8 ''hello''" by code_simp
  from preview_spec [OF this, of 3] have "valid_utf8 (truncate_preview ''hello'' 3)" by blast
  moreover have "truncate_preview ''hello'' 3 = ''hel...''" by code_simp
  ultimately show ?thesis by blast
qed

end
