(* ===== verification/TuiApproval.thy ===== *)
theory TuiApproval
  imports AgentPlugins
begin

text \<open>
  How the terminal program asks for approval, \<open>crates/vol-llm-tui/src/approval.rs\<close> and
  \<open>respond_approval\<close> of \<open>main.rs\<close>.  The task of the agent and the task of the keyboard share five cells, each
  behind a lock of its own, and a notification; every access to a cell is a step of its own, and the steps
  of the two tasks come in any order.
\<close>

section \<open>The shared state\<close>

type_synonym key_response = "bool \<times> string option"

datatype asker =
    AskIdle
  | AskCheck approval_request
  | AskStoreTool approval_request
  | AskStoreReason approval_request
  | AskStoreArguments approval_request
  | AskAwait
  | AskWaiting
  | AskTake

datatype keyer =
    KeyerIdle | KeyerStore key_response | KeyerNotify | KeyerClearTool | KeyerClearReason | KeyerClearArguments
  | KeyerClearResponse

text \<open>The presses and the answers so far are kept as a history.\<close>

record approval_state =
  ap_tool :: "string option"
  ap_reason :: "string option"
  ap_arguments :: "string option"
  ap_response :: "key_response option"
  ap_permit :: bool
  ap_unsafe :: bool
  ap_asker :: asker
  ap_keyer :: keyer
  ap_presses :: "key_response list"
  ap_answers :: "approval_response option list"

definition approval_state_new :: "bool \<Rightarrow> approval_state" where
  "approval_state_new unsafe = \<lparr> ap_tool = None, ap_reason = None, ap_arguments = None, ap_response = None,
     ap_permit = False, ap_unsafe = unsafe, ap_asker = AskIdle, ap_keyer = KeyerIdle, ap_presses = [], ap_answers = [] \<rparr>"

section \<open>The task of the agent\<close>

text \<open>What the channel makes of the response it finds; no response is no answer.\<close>

definition channel_answer :: "key_response option \<Rightarrow> approval_response option" where
  "channel_answer r =
     (case r of
        Some (True, why) \<Rightarrow> Some Approved
      | Some (False, why) \<Rightarrow> Some (Rejected (case why of Some w \<Rightarrow> w | None \<Rightarrow> ''User rejected''))
      | None \<Rightarrow> None)"

definition asker_step :: "(json \<Rightarrow> string) \<Rightarrow> approval_state \<Rightarrow> approval_state option" where
  "asker_step pretty s =
     (case ap_asker s of
        AskIdle \<Rightarrow> None
      | AskCheck q \<Rightarrow>
          Some (if ap_unsafe s then s\<lparr>ap_asker := AskIdle, ap_answers := ap_answers s @ [Some Approved]\<rparr>
                else s\<lparr>ap_asker := AskStoreTool q\<rparr>)
      | AskStoreTool q \<Rightarrow> Some (s\<lparr>ap_tool := Some (aq_tool_name q), ap_asker := AskStoreReason q\<rparr>)
      | AskStoreReason q \<Rightarrow> Some (s\<lparr>ap_reason := Some (aq_reason q), ap_asker := AskStoreArguments q\<rparr>)
      | AskStoreArguments q \<Rightarrow> Some (s\<lparr>ap_arguments := Some (pretty (aq_metadata q)), ap_asker := AskAwait\<rparr>)
      | AskAwait \<Rightarrow> Some (if ap_permit s then s\<lparr>ap_permit := False, ap_asker := AskTake\<rparr> else s\<lparr>ap_asker := AskWaiting\<rparr>)
      | AskWaiting \<Rightarrow> None
      | AskTake \<Rightarrow>
          Some (s\<lparr>ap_response := None, ap_asker := AskIdle, ap_answers := ap_answers s @ [channel_answer (ap_response s)]\<rparr>))"

section \<open>The task of the keyboard\<close>

text \<open>A key counts when an approval is pending, or when the lock of its name is taken at this moment.\<close>

definition approval_pending :: "approval_state \<Rightarrow> bool" where
  "approval_pending s \<longleftrightarrow> ap_tool s \<noteq> None \<or> (case ap_asker s of AskStoreTool q \<Rightarrow> True | _ \<Rightarrow> False)"

definition key_answer :: "string \<Rightarrow> key_response option" where
  "key_answer k =
     (if k = ''a'' \<or> k = ''A'' then Some (True, None)
      else if k = ''r'' \<or> k = ''R'' then Some (False, Some ''User rejected'')
      else if k = ''s'' \<or> k = ''S'' then Some (False, Some ''User stopped execution'')
      else None)"

definition press_key :: "string \<Rightarrow> approval_state \<Rightarrow> approval_state option" where
  "press_key k s =
     (if ap_keyer s \<noteq> KeyerIdle then None
      else if approval_pending s then
        (case key_answer k of
           Some r \<Rightarrow> Some (s\<lparr>ap_keyer := KeyerStore r, ap_presses := ap_presses s @ [r]\<rparr>)
         | None \<Rightarrow> Some s)
      else Some s)"

text \<open>A notification wakes a task that waits, and is kept for one that does not wait yet.\<close>

definition notify_asker :: "approval_state \<Rightarrow> approval_state" where
  "notify_asker s = (if ap_asker s = AskWaiting then s\<lparr>ap_asker := AskTake\<rparr> else s\<lparr>ap_permit := True\<rparr>)"

definition keyer_step :: "approval_state \<Rightarrow> approval_state option" where
  "keyer_step s =
     (case ap_keyer s of
        KeyerIdle \<Rightarrow> None
      | KeyerStore r \<Rightarrow> Some (s\<lparr>ap_response := Some r, ap_keyer := KeyerNotify\<rparr>)
      | KeyerNotify \<Rightarrow> Some ((notify_asker s)\<lparr>ap_keyer := KeyerClearTool\<rparr>)
      | KeyerClearTool \<Rightarrow> Some (s\<lparr>ap_tool := None, ap_keyer := KeyerClearReason\<rparr>)
      | KeyerClearReason \<Rightarrow> Some (s\<lparr>ap_reason := None, ap_keyer := KeyerClearArguments\<rparr>)
      | KeyerClearArguments \<Rightarrow> Some (s\<lparr>ap_arguments := None, ap_keyer := KeyerClearResponse\<rparr>)
      | KeyerClearResponse \<Rightarrow> Some (s\<lparr>ap_response := None, ap_keyer := KeyerIdle\<rparr>))"

section \<open>Steps in any order\<close>

datatype approval_move = StartRun | Ask approval_request | AskerMoves | Press string | KeyerMoves | ToggleUnsafe

definition approval_step :: "(json \<Rightarrow> string) \<Rightarrow> approval_move \<Rightarrow> approval_state \<Rightarrow> approval_state option" where
  "approval_step pretty m s =
     (case m of
        StartRun \<Rightarrow>
          (if ap_asker s = AskIdle \<and> ap_keyer s = KeyerIdle
           then Some (s\<lparr>ap_tool := None, ap_reason := None, ap_arguments := None, ap_response := None\<rparr>) else None)
      | Ask q \<Rightarrow> if ap_asker s = AskIdle then Some (s\<lparr>ap_asker := AskCheck q\<rparr>) else None
      | AskerMoves \<Rightarrow> asker_step pretty s
      | Press k \<Rightarrow> press_key k s
      | KeyerMoves \<Rightarrow> keyer_step s
      | ToggleUnsafe \<Rightarrow> if ap_keyer s = KeyerIdle then Some (s\<lparr>ap_unsafe := \<not> ap_unsafe s\<rparr>) else None)"

fun approval_run :: "(json \<Rightarrow> string) \<Rightarrow> approval_move list \<Rightarrow> approval_state \<Rightarrow> approval_state option" where
  "approval_run pretty [] s = Some s"
| "approval_run pretty (m # ms) s = (case approval_step pretty m s of None \<Rightarrow> None | Some t \<Rightarrow> approval_run pretty ms t)"

section \<open>The verdict\<close>

text \<open>The plugin that the program registers asks for every tool, waits without limit, and takes no answer as consent.\<close>

definition tui_hitl :: hitl_config where
  "tui_hitl = \<lparr> hc_triggers = [ToolExecution None], hc_timeout_secs = 0, hc_on_timeout = TimeoutApprove,
     hc_timeout_message = None \<rparr>"

definition tui_verdict :: "string \<Rightarrow> string \<Rightarrow> string \<Rightarrow> approval_response option \<Rightarrow> plugin_decision option" where
  "tui_verdict i tool args answer =
     fst (hitl_intercept tui_hitl (\<lambda>q t. ret answer) (ToolCallBegin i tool args) ())"

lemma verdict_simps [simp]:
  "tui_verdict i tool args None = Some Proceed" "tui_verdict i tool args (Some Approved) = Some Proceed"
  "tui_verdict i tool args (Some (Rejected why)) = Some (AbortRun (''Rejected: '' @ why))"
  by (simp_all add: tui_verdict_def hitl_intercept_def needs_tool_approval_def tui_hitl_def request_approval_def decide_def)

section \<open>Invariants\<close>

text \<open>Presses that are still on their way to an answer.\<close>

fun storing :: "keyer \<Rightarrow> key_response option" where
  "storing (KeyerStore r) = Some r"
| "storing _ = None"

definition notifies :: "keyer \<Rightarrow> bool" where
  "notifies k \<longleftrightarrow> storing k \<noteq> None \<or> k = KeyerNotify"

lemma notifies_simps [simp]:
  "notifies (KeyerStore r)" "notifies KeyerNotify" "\<not> notifies KeyerIdle" "\<not> notifies KeyerClearTool"
  "\<not> notifies KeyerClearReason" "\<not> notifies KeyerClearArguments" "\<not> notifies KeyerClearResponse"
  by (simp_all add: notifies_def)

definition in_flight :: "approval_state \<Rightarrow> nat" where
  "in_flight s = of_bool (ap_permit s) + of_bool (ap_asker s = AskTake) + of_bool (notifies (ap_keyer s))"

fun known :: "key_response list \<Rightarrow> key_response option \<Rightarrow> bool" where
  "known ps None = True"
| "known ps (Some r) \<longleftrightarrow> r \<in> set ps"

lemma known_more: "known ps r \<Longrightarrow> known (ps @ [x]) r"
  by (cases r) auto

definition said :: "key_response list \<Rightarrow> approval_response option \<Rightarrow> bool" where
  "said ps a \<longleftrightarrow> a = None \<or> (\<exists>r \<in> set ps. a = channel_answer (Some r))"

lemma said_simps [simp]: "said ps None" "r \<in> set ps \<Longrightarrow> said ps (channel_answer (Some r))"
  by (auto simp: said_def)

lemma said_more: "list_all (said ps) as \<Longrightarrow> list_all (said (ps @ [r])) as"
  by (auto simp: list_all_iff said_def)

definition backed :: "approval_state \<Rightarrow> bool" where
  "backed s \<longleftrightarrow> length (ap_answers s) + in_flight s \<le> length (ap_presses s) \<and>
     known (ap_presses s) (ap_response s) \<and> known (ap_presses s) (storing (ap_keyer s)) \<and>
     list_all (said (ap_presses s)) (ap_answers s)"

lemma channel_answer_None [simp]: "channel_answer None = None"
  by (simp add: channel_answer_def)

lemma asker_backed:
  assumes "asker_step pretty s = Some t" "\<not> ap_unsafe s" "backed s"
  shows "backed t \<and> \<not> ap_unsafe t"
proof (cases "ap_asker s")
  case AskTake
  with assms show ?thesis
    by (cases "ap_response s") (auto simp: asker_step_def backed_def in_flight_def)
qed (use assms in \<open>auto simp: asker_step_def backed_def in_flight_def split: if_splits\<close>)

lemma keyer_backed:
  assumes "keyer_step s = Some t" "backed s"
  shows "backed t \<and> ap_unsafe t = ap_unsafe s"
  using assms
  by (cases "ap_keyer s") (auto simp: keyer_step_def backed_def in_flight_def notify_asker_def split: if_splits)

lemma press_backed:
  assumes "press_key k s = Some t" "backed s"
  shows "backed t \<and> ap_unsafe t = ap_unsafe s"
proof -
  consider "t = s" | r where "ap_keyer s = KeyerIdle" "t = s\<lparr>ap_keyer := KeyerStore r, ap_presses := ap_presses s @ [r]\<rparr>"
    using assms(1) by (auto simp: press_key_def split: if_splits option.splits)
  then show ?thesis
  proof cases
    case (2 r)
    with assms(2) show ?thesis by (auto simp: backed_def in_flight_def intro: said_more known_more)
  qed (use assms in simp)
qed

lemma step_backed:
  assumes "approval_step pretty m s = Some t" "m \<noteq> ToggleUnsafe" "\<not> ap_unsafe s" "backed s"
  shows "backed t \<and> \<not> ap_unsafe t"
proof (cases m)
  case StartRun
  with assms show ?thesis by (auto simp: approval_step_def backed_def in_flight_def split: if_splits)
next
  case (Ask q)
  with assms show ?thesis by (auto simp: approval_step_def backed_def in_flight_def split: if_splits)
next
  case AskerMoves
  with assms asker_backed show ?thesis by (simp add: approval_step_def)
next
  case (Press k)
  with assms press_backed [of k s t] show ?thesis by (simp add: approval_step_def)
next
  case KeyerMoves
  with assms keyer_backed [of s t] show ?thesis by (simp add: approval_step_def)
qed (use assms in simp)

lemma run_backed:
  "approval_run pretty ms s = Some t \<Longrightarrow> ToggleUnsafe \<notin> set ms \<Longrightarrow> \<not> ap_unsafe s \<Longrightarrow> backed s \<Longrightarrow> backed t"
proof (induction ms arbitrary: s)
  case (Cons m ms)
  then obtain u where "approval_step pretty m s = Some u" "approval_run pretty ms u = Some t"
    by (auto split: option.splits)
  with Cons step_backed [of pretty m s u] show ?case by auto
qed simp

lemma backed_new: "backed (approval_state_new u)"
  by (simp add: backed_def approval_state_new_def in_flight_def)

text \<open>A task that waits for an approval that nobody sees waits for ever.\<close>

definition unseen :: "approval_state \<Rightarrow> bool" where
  "unseen s \<longleftrightarrow> ap_asker s = AskWaiting \<and> ap_tool s = None \<and>
     \<not> notifies (ap_keyer s)"

lemma unseen_step: "approval_step pretty m s = Some t \<Longrightarrow> unseen s \<Longrightarrow> unseen t"
  by (cases m; cases "ap_keyer s")
    (auto simp: approval_step_def unseen_def asker_step_def keyer_step_def press_key_def approval_pending_def split: if_splits)

lemma unseen_run: "approval_run pretty ms s = Some t \<Longrightarrow> unseen s \<Longrightarrow> unseen t"
  by (induction ms arbitrary: s) (auto split: option.splits dest: unseen_step)

section \<open>Properties\<close>

text \<open>
  No answer without a key.  As long as the unsafe mode stays off, there are never more answers than keys were pressed
  for a pending approval, and an answer that says something says what one of these keys said.
\<close>

theorem answers_need_keys:
  assumes "approval_run pretty ms (approval_state_new False) = Some s" "ToggleUnsafe \<notin> set ms"
  shows "length (ap_answers s) \<le> length (ap_presses s) \<and>
    (\<forall>a \<in> set (ap_answers s). a = None \<or> (\<exists>r \<in> set (ap_presses s). a = channel_answer (Some r)))"
  using run_backed [OF assms _ backed_new] by (auto simp: backed_def said_def list_all_iff approval_state_new_def)

definition demo_request :: approval_request where
  "demo_request = \<lparr> aq_tool_name = ''bash'', aq_reason = ''Execute tool'', aq_metadata = JNull \<rparr>"

text \<open>The agent asks and waits, the key is pressed, and the keyboard task clears the response before the agent reads it.\<close>

definition ask_moves :: "approval_move list" where
  "ask_moves = Ask demo_request # replicate 5 AskerMoves"

definition losing_race :: "approval_move list" where
  "losing_race = ask_moves @ Press ''r'' # replicate 6 KeyerMoves @ [AskerMoves]"


text \<open>The agent is faster, asks again, and its second question is cleared with the first.\<close>

definition clearing_race :: "approval_move list" where
  "clearing_race = ask_moves @ Press ''a'' # replicate 2 KeyerMoves @ AskerMoves # ask_moves @ replicate 4 KeyerMoves"

text \<open>
  A question can get lost.  When the agent asks again before the keyboard task has cleared the first
  question, the second one is cleared with it: the agent waits, nothing shows that it does, and no
  key and no other step ever ends it.
\<close>

theorem question_lost:
  "\<exists>s. approval_run pretty clearing_race (approval_state_new False) = Some s \<and>
    ap_asker s = AskWaiting \<and> length (ap_answers s) = 1 \<and>
    (\<forall>ms t. approval_run pretty ms s = Some t \<longrightarrow> ap_asker t = AskWaiting \<and> \<not> approval_pending t)"
proof -
  obtain s where s: "approval_run pretty clearing_race (approval_state_new False) = Some s"
    "unseen s" "length (ap_answers s) = 1"
    by (simp add: clearing_race_def ask_moves_def demo_request_def approval_state_new_def approval_step_def asker_step_def
        press_key_def approval_pending_def key_answer_def keyer_step_def notify_asker_def channel_answer_def
        unseen_def numeral_eq_Suc)
  have "ap_asker t = AskWaiting \<and> \<not> approval_pending t" if "approval_run pretty ms s = Some t" for ms t
    using unseen_run [OF that s(2)] by (simp add: unseen_def approval_pending_def)
  with s show ?thesis by (auto simp: unseen_def)
qed

section \<open>Witnesses\<close>

lemma losing_run: "\<exists>s. approval_run (\<lambda>v. []) losing_race (approval_state_new False) = Some s \<and> length (ap_answers s) = 1"
  by (simp add: losing_race_def ask_moves_def demo_request_def approval_state_new_def approval_step_def asker_step_def
      press_key_def approval_pending_def key_answer_def keyer_step_def notify_asker_def channel_answer_def
      numeral_eq_Suc)

theorem answers_need_keys_witness:
  "\<exists>s. approval_run (\<lambda>v. []) losing_race (approval_state_new False) = Some s \<and> length (ap_answers s) = 1 \<and>
    length (ap_answers s) \<le> length (ap_presses s)"
proof -
  obtain s where s: "approval_run (\<lambda>v. []) losing_race (approval_state_new False) = Some s" "length (ap_answers s) = 1"
    using losing_run by blast
  have "ToggleUnsafe \<notin> set losing_race" by (simp add: losing_race_def ask_moves_def)
  from answers_need_keys [OF s(1) this] s show ?thesis by blast
qed

theorem question_lost_witness:
  "\<exists>s. approval_run (\<lambda>v. []) clearing_race (approval_state_new False) = Some s \<and> ap_asker s = AskWaiting \<and>
    \<not> approval_pending s"
proof -
  obtain s where s: "approval_run (\<lambda>v. []) clearing_race (approval_state_new False) = Some s" "ap_asker s = AskWaiting"
    "\<forall>ms t. approval_run (\<lambda>v. []) ms s = Some t \<longrightarrow> ap_asker t = AskWaiting \<and> \<not> approval_pending t"
    using question_lost [of "\<lambda>v. []"] by blast
  have "approval_run (\<lambda>v. []) [] s = Some s" by simp
  with s(3) have "\<not> approval_pending s" by blast
  with s show ?thesis by blast
qed

end
