(* ===== verification/Spec2Isabelle.thy ===== *)
theory Spec2Isabelle
  imports TaskModel TaskStore TaskStoreMemory TaskScheduler TaskStoreFile TaskStoreFileCorrect
    ToolTypes TaskCli TaskCliCorrect TaskTools TaskRace
    SandboxTypes SandboxPath SandboxBackend SandboxManager SandboxManagerCorrect
    Protocol HandlerRegistry ControlPlane ControlPlaneSteps ControlPlaneCorrect
    Utf8 Utf8Correct ChatMessage ContextBuilder SessionModel SessionMemory SessionFile SessionFileCorrect
    Session SessionCorrect StreamEvent Streaming ProviderStream AgentStream StreamCorrect
    AgentDef ToolRegistry AgentPlugins AgentRun Agent AgentLoop AgentCalls Dispatcher DataPlane DataPlaneCorrect ModelRequest ModelRequestCorrect RunLog RunLogCorrect SessionManager SessionManagerCorrect McpManager McpManagerCorrect Capabilities Frontmatter AgentLoader Skills
    SandboxFiles RemoteSandbox RemoteSandboxCorrect FileTools FileToolsCorrect CommandCorrect GlobTool GlobCorrect CliCommand CliCorrect
    UiState UiCorrect TuiApproval
begin

text \<open>
  A verification library for the vol agent framework (the Rust workspace under \<open>crates/\<close>): agents that call a
  language model in a loop, the tools and sandboxes they work with, the sessions and tasks they keep, the servers
  that run them for clients, and the interfaces that show them.

  \<^bold>\<open>How the parts interact.\<close>  A client sends a message of the agent-server protocol.  The control plane
  (\<open>vol-agent-server/src/control_plane\<close>) picks the node that offers the agent and forwards it; the data plane of
  that node (\<open>data_plane\<close>) puts a request into the queue of the dispatcher of the agent, which starts one run
  after the other.  A run (\<open>vol-llm-agent/src/react\<close>) builds a context from the session and other
  contributors, calls the model through a provider that streams its answer, asks the plugins before every tool
  call, executes tools in a sandbox or over a connection to an MCP server, saves the messages in the
  session and reports events, which the log, the clients and the terminal interfaces read.

  \<^bold>\<open>Foundations.\<close>
  \<^item> Prelude: results that pass a state (\<open>eff\<close>, \<open>bindE\<close> is the operator \<open>?\<close>), decimal texts, trimming and splitting,
    iteration over hash maps.  Utf8, Utf8Correct: the check and the lossy reading of the standard library.
  \<^item> ToolTypes: JSON values and tool results.  ChatMessage, StreamEvent: \<open>vol-llm-core\<close>, messages, errors of a
    call, events of a stream and of an agent.

  \<^bold>\<open>Tasks\<close> (\<open>vol-llm-task\<close>).
  \<^item> TaskModel, TaskStore (the trait as a record of operations, its contract as the locale \<open>task_store\<close>),
    TaskStoreMemory and TaskStoreFile (both are interpretations of the contract; the file store for every
    oracle that says which system calls fail), TaskScheduler (proved inside the locale, so for every store).
  \<^item> TaskCli, TaskCliCorrect: tokenizer, command line and its texts.  TaskTools: the eight tools of a model.
    TaskRace: claims of several agents as sequences of store operations, in every interleaving.

  \<^bold>\<open>Sandboxes and tools\<close> (\<open>vol-llm-sandbox\<close>, \<open>vol-llm-tools-builtin\<close>, \<open>vol-llm-cli-tool\<close>, \<open>vol-llm-tool\<close>).
  \<^item> SandboxTypes, SandboxPath (paths as components, containment of resolved paths), SandboxBackend (local and
    temporary providers), SandboxManager with its correctness theory: locales for the record store and the
    providers, an invariant of every sequence of operations.
  \<^item> SandboxFiles: files and commands of a sandbox as a record with the locale \<open>sandbox_files\<close>; the waiting loop
    of a command is a \<open>partial_function\<close> over the option type and proved to end within the time limit.
    FileTools, GlobTool, CliCommand with FileToolsCorrect, CommandCorrect, GlobCorrect, CliCorrect: the tools.
  \<^item> RemoteSandbox, RemoteSandboxCorrect: the sandbox on another node, with both ends of the connection; it
    refines the local sandbox of that node.
  \<^item> ToolRegistry: registration, lookup and filters.  McpManager, McpManagerCorrect: connections to MCP servers,
    with calls, reconnecting tasks and disconnects as steps of one relation.

  \<^bold>\<open>Sessions and context\<close> (\<open>vol-session\<close>, \<open>vol-llm-context\<close>).
  \<^item> SessionModel (entries, the locale \<open>entry_store\<close>), SessionMemory and SessionFile (interpretations; the file
    store with torn writes), Session (history, checkpoints, compressors) with SessionCorrect; SessionManager with
    SessionManagerCorrect: the session directories of all agents and the session operations of a node.
  \<^item> ContextBuilder: blocks, budget, assembly by zones.

  \<^bold>\<open>Agents\<close> (\<open>vol-llm-agent\<close>, \<open>vol-llm-provider\<close>, \<open>vol-llm-skill\<close>, \<open>md-frontmatter\<close>).
  \<^item> Streaming, ProviderStream, AgentStream, StreamCorrect: from the bytes of a response to the answer of a call.
  \<^item> AgentDef, AgentPlugins, AgentRun, Agent, AgentLoop, AgentCalls: the definition, the plugins and approval, the
    loop and its trace of events.  The world that models, tools, plugins and stores act on is a type
    parameter.  The loop is a \<open>partial_function\<close>; that it returns within the limit of iterations is proved.
  \<^item> AgentLoader, Skills, Frontmatter: finding agents and skills in directories, documents with settings.
  \<^item> ModelRequest, ModelRequestCorrect: the requests that each provider sends, the answers it reads, and the
    configuration of clients.  RunLog, RunLogCorrect: what is logged of a run and what the readers of the log make of it.

  \<^bold>\<open>Servers\<close> (\<open>vol-llm-agent-protocol\<close>, \<open>vol-agent-server\<close>).
  \<^item> Protocol, HandlerRegistry: operations, method names, messages, dispatch.  ControlPlane, ControlPlaneSteps,
    ControlPlaneCorrect: tables, handlers, the step relation of the core with its invariant and a
    refinement.  Dispatcher, DataPlane, DataPlaneCorrect, Capabilities: queues and runs as a transition system,
    the agent operations of a node and what clients are told.

  \<^bold>\<open>Interfaces\<close> (\<open>vol-llm-ui\<close>, \<open>vol-llm-tui\<close>).
  \<^item> UiState, UiCorrect: the state of the terminal interface under every event and key.  TuiApproval: the cells by
    which the terminal program and an agent exchange questions and answers, in every interleaving.

  \<^bold>\<open>Conventions.\<close>  Strings are lists of bytes.  A result is a sum, with the error on the left.  A hash map is a map
  whose iteration order is an argument; a theorem holds for every order.  Integers have the width of the code
  where it matters and are \<open>nat\<close> or \<open>int\<close> elsewhere (counts of values in memory, time stamps).  Loops recurse
  over their data, with a measure where that is not structural; the loop of a run, the wait for a command
  and the scan of directories are partial functions over the option type that are proved to return; no fuel.
  Third-party code (serde, YAML, TOML, regular expressions, HTTP, SQL, the MCP protocol), the disk, the clock
  and fresh identifiers are parameters; a theorem that relies on one of them says so in its hypotheses.

  \<^bold>\<open>Not modelled.\<close>  Drawing and the web frontend; transport and HTTP; stores in a database, whose behaviour is that
  of the database; the sandboxes over ssh, WebAssembly and virtual machines; metrics and traces;
  prompts and ready-made agents (coding, slides, questions), which combine parts that are modelled; the
  parsing of arguments, settings and payloads by derived code; logging.
\<close>

end
